(* ===== verification/Prelude.thy ===== *)
theory Prelude
  imports Main "HOL-Library.Word"
begin

text \<open>
  Shared vocabulary of the development: machine integers and byte strings as the Rust code
  uses them, \<open>Result\<close> as a sum type with the \<open>?\<close> operator as \<open>rbind\<close>, methods
  that take \<open>&mut self\<close> as state-passing functions with \<open>sbind\<close> as their \<open>?\<close>,
  and the generic lemmas on lists, big-endian encodings and checked arithmetic that the
  component theories rest on.
\<close>

unbundle bit_operations_syntax

section \<open>Types\<close>

type_synonym byte = "8 word"
type_synonym bytes = "byte list"
type_synonym u16 = "16 word"
type_synonym u32 = "32 word"
type_synonym u64 = "64 word"

text \<open>A fallible computation: \<open>Inl\<close> carries the error, \<open>Inr\<close> the value.\<close>

type_synonym ('e, 'a) result = "'e + 'a"

text \<open>
  A fallible method on a mutable receiver: the receiver's new state is returned on both
  branches, because a method that fails may already have changed it.
\<close>

type_synonym ('s, 'e, 'a) action = "'s \<Rightarrow> ('e + 'a) \<times> 's"

named_theorems result_defs \<open>unfolding of the result and action combinators\<close>
named_theorems result_elims \<open>eliminations for successful results\<close>

section \<open>Results and actions\<close>

definition rbind :: "'e + 'a \<Rightarrow> ('a \<Rightarrow> 'e + 'b) \<Rightarrow> 'e + 'b" where
  "rbind m k = (case m of Inl e \<Rightarrow> Inl e | Inr a \<Rightarrow> k a)"

definition ok_or :: "'e \<Rightarrow> 'a option \<Rightarrow> 'e + 'a" where
  "ok_or e x = (case x of None \<Rightarrow> Inl e | Some a \<Rightarrow> Inr a)"

definition map_err :: "('e \<Rightarrow> 'f) \<Rightarrow> 'e + 'a \<Rightarrow> 'f + 'a" where
  "map_err f m = (case m of Inl e \<Rightarrow> Inl (f e) | Inr a \<Rightarrow> Inr a)"

definition to_option :: "'e + 'a \<Rightarrow> 'a option" where
  "to_option m = (case m of Inl _ \<Rightarrow> None | Inr a \<Rightarrow> Some a)"

definition sret :: "'a \<Rightarrow> ('s, 'e, 'a) action" where
  "sret a s = (Inr a, s)"

definition sfail :: "'e \<Rightarrow> ('s, 'e, 'a) action" where
  "sfail e s = (Inl e, s)"

definition sbind :: "('s, 'e, 'a) action \<Rightarrow> ('a \<Rightarrow> ('s, 'e, 'b) action) \<Rightarrow> ('s, 'e, 'b) action" where
  "sbind m k s = (case m s of (Inl e, s') \<Rightarrow> (Inl e, s') | (Inr a, s') \<Rightarrow> k a s')"

definition slift :: "'e + 'a \<Rightarrow> ('s, 'e, 'a) action" where
  "slift r s = (r, s)"

definition sget :: "('s, 'e, 's) action" where
  "sget s = (Inr s, s)"

definition smodify :: "('s \<Rightarrow> 's) \<Rightarrow> ('s, 'e, unit) action" where
  "smodify f s = (Inr (), f s)"

text \<open>\<open>for x in xs { f(x)?; }\<close>\<close>

fun sforeach :: "'x list \<Rightarrow> ('x \<Rightarrow> ('s, 'e, unit) action) \<Rightarrow> ('s, 'e, unit) action" where
  "sforeach [] f s = (Inr (), s)"
| "sforeach (x # xs) f s = (case f x s of (Inl e, s') \<Rightarrow> (Inl e, s') | (Inr _, s') \<Rightarrow> sforeach xs f s')"

section \<open>Bytes\<close>

text \<open>A byte-string literal \<open>b"..."\<close>.\<close>

definition ascii :: "string \<Rightarrow> bytes" where
  "ascii s = map of_char s"

definition to_be_bytes16 :: "u16 \<Rightarrow> bytes" where
  "to_be_bytes16 w = [ucast (drop_bit 8 w), ucast w]"

definition to_be_bytes32 :: "u32 \<Rightarrow> bytes" where
  "to_be_bytes32 w =
     [ucast (drop_bit 24 w), ucast (drop_bit 16 w), ucast (drop_bit 8 w), ucast w]"

definition from_be_bytes32 :: "bytes \<Rightarrow> u32" where
  "from_be_bytes32 bs = foldl (\<lambda>acc b. push_bit 8 acc OR ucast b) 0 bs"

text \<open>\<open>dst[i..i + src.len()].copy_from_slice(src)\<close> on a buffer that is long enough.\<close>

definition blit :: "nat \<Rightarrow> 'a list \<Rightarrow> 'a list \<Rightarrow> 'a list" where
  "blit i src dst = take i dst @ src @ drop (i + length src) dst"

text \<open>\<open>buf[i..j]\<close> on a buffer that is long enough.\<close>

definition slice :: "nat \<Rightarrow> nat \<Rightarrow> 'a list \<Rightarrow> 'a list" where
  "slice i j xs = take (j - i) (drop i xs)"

text \<open>\<open>bytes.chunks(n)\<close> for a positive \<open>n\<close>: the last chunk may be shorter, none is empty.\<close>

function chunks :: "nat \<Rightarrow> 'a list \<Rightarrow> 'a list list" where
  "chunks n xs = (if n = 0 \<or> xs = [] then [] else take n xs # chunks n (drop n xs))"
  by pat_completeness auto
termination
  by (relation "measure (\<lambda>(n, xs). length xs)") auto

section \<open>Checked arithmetic on \<open>u64\<close>\<close>

definition checked_add64 :: "u64 \<Rightarrow> u64 \<Rightarrow> u64 option" where
  "checked_add64 a b = (if unat a + unat b < 2 ^ 64 then Some (a + b) else None)"

text \<open>\<open>xs.len() as u64\<close>.\<close>

definition len64 :: "'a list \<Rightarrow> u64" where
  "len64 xs = of_nat (length xs)"

section \<open>Lemmas\<close>

declare chunks.simps [simp del]

lemmas [result_defs] =
  rbind_def ok_or_def map_err_def sret_def sfail_def sbind_def slift_def sget_def smodify_def

lemma rbind_simps [simp]:
  "rbind (Inl e) k = Inl e"
  "rbind (Inr a) k = k a"
  by (simp_all add: rbind_def)

lemma rbind_Inr_iff: "rbind m k = Inr b \<longleftrightarrow> (\<exists>a. m = Inr a \<and> k a = Inr b)"
  by (cases m) (auto simp: rbind_def)

lemma rbind_InrE [result_elims]:
  assumes "rbind m k = Inr b"
  obtains a where "m = Inr a" "k a = Inr b"
  using assms by (auto simp: rbind_Inr_iff)

lemma ok_or_simps [simp]:
  "ok_or e None = Inl e"
  "ok_or e (Some a) = Inr a"
  by (simp_all add: ok_or_def)

lemma ok_or_Inr_iff [simp]: "ok_or e x = Inr a \<longleftrightarrow> x = Some a"
  by (cases x) auto

lemma map_err_simps [simp]:
  "map_err f (Inl e) = Inl (f e)"
  "map_err f (Inr a) = Inr a"
  by (simp_all add: map_err_def)

lemma map_err_Inr_iff [simp]: "map_err f m = Inr a \<longleftrightarrow> m = Inr a"
  by (cases m) auto

lemma action_simps [simp]:
  "sret a s = (Inr a, s)"
  "sfail e s = (Inl e, s)"
  "slift r s = (r, s)"
  "sget s = (Inr s, s)"
  "smodify f s = (Inr (), f s)"
  by (simp_all add: result_defs)

lemma sbind_Inl: "m s = (Inl e, s') \<Longrightarrow> sbind m k s = (Inl e, s')"
  by (simp add: sbind_def)

lemma sbind_Inr: "m s = (Inr a, s') \<Longrightarrow> sbind m k s = k a s'"
  by (simp add: sbind_def)

lemma sbind_InrE [result_elims]:
  assumes "sbind m k s = (Inr b, t)"
  obtains a s' where "m s = (Inr a, s')" "k a s' = (Inr b, t)"
  using assms by (auto simp: sbind_def split: prod.splits sum.splits)

lemma sbind_preserves:
  assumes "\<And>s. f (snd (m s)) = f s" and "\<And>a s. f (snd (k a s)) = f s"
  shows "f (snd (sbind m k s)) = f s"
  using assms(1) [of s] assms(2) by (auto simp: sbind_def split: prod.splits sum.splits)

lemma sforeach_append:
  "sforeach (xs @ ys) f s =
     (case sforeach xs f s of (Inl e, t) \<Rightarrow> (Inl e, t) | (Inr _, t) \<Rightarrow> sforeach ys f t)"
  by (induction xs arbitrary: s) (auto split: prod.splits sum.splits)

text \<open>An invariant of the loop body holds after the loop, on success and on failure.\<close>

lemma sforeach_invariant:
  assumes "P s" and "\<And>x s. x \<in> set xs \<Longrightarrow> P s \<Longrightarrow> P (snd (f x s))"
  shows "P (snd (sforeach xs f s))"
  using assms
proof (induction xs arbitrary: s)
  case Nil
  then show ?case by simp
next
  case (Cons x xs)
  have "P (snd (f x s))" using Cons.prems by simp
  then show ?case
    using Cons.IH [of "snd (f x s)"] Cons.prems(2)
    by (auto split: prod.splits sum.splits)
qed

lemma length_ascii [simp]: "length (ascii s) = length s"
  by (simp add: ascii_def)

lemma length_to_be_bytes [simp]:
  "length (to_be_bytes16 h) = 2" "length (to_be_bytes32 w) = 4"
  by (simp_all add: to_be_bytes16_def to_be_bytes32_def)

lemma from_to_be_bytes32 [simp]: "from_be_bytes32 (to_be_bytes32 w) = w"
proof (rule bit_word_eqI)
  fix n assume "n < LENGTH(32)"
  then consider "n < 8" | "8 \<le> n" "n < 16" | "16 \<le> n" "n < 24" | "24 \<le> n" "n < 32"
    by fastforce
  then show "bit (from_be_bytes32 (to_be_bytes32 w)) n \<longleftrightarrow> bit w n"
    by cases (auto simp: from_be_bytes32_def to_be_bytes32_def bit_simps)
qed

lemma to_be_bytes16_inject: "to_be_bytes16 a = to_be_bytes16 b \<longleftrightarrow> a = b"
proof
  assume eq: "to_be_bytes16 a = to_be_bytes16 b"
  then have hi: "(ucast (drop_bit 8 a) :: byte) = ucast (drop_bit 8 b)"
    and lo: "(ucast a :: byte) = ucast b"
    by (auto simp: to_be_bytes16_def)
  show "a = b"
  proof (rule bit_word_eqI)
    fix n assume n: "n < LENGTH(16)"
    show "bit a n \<longleftrightarrow> bit b n"
    proof (cases "n < 8")
      case True
      then show ?thesis
        using arg_cong [OF lo, of "\<lambda>w. bit w n"] by (simp add: bit_simps)
    next
      case False
      then have "bit (ucast (drop_bit 8 a) :: byte) (n - 8) = bit (ucast (drop_bit 8 b) :: byte) (n - 8)"
        using hi by simp
      moreover have "n - 8 < 8" using False n by simp
      ultimately show ?thesis using False n by (simp add: bit_simps)
    qed
  qed
qed simp

lemma length_blit [simp]:
  "i + length src \<le> length dst \<Longrightarrow> length (blit i src dst) = length dst"
  by (simp add: blit_def)

lemma length_slice [simp]: "length (slice i j xs) = min (j - i) (length xs - i)"
  by (simp add: slice_def)

lemma slice_zero [simp]: "slice 0 j xs = take j xs"
  by (simp add: slice_def)

text \<open>Slicing a concatenation whose parts have known lengths.\<close>

lemma slice_append_left: "j \<le> length xs \<Longrightarrow> slice i j (xs @ ys) = slice i j xs"
  by (cases "i \<le> j") (auto simp: slice_def)

lemma slice_append_right:
  "length xs \<le> i \<Longrightarrow> slice i j (xs @ ys) = slice (i - length xs) (j - length xs) ys"
  by (simp add: slice_def)

lemma slice_full: "j = length xs \<Longrightarrow> slice 0 j xs = xs"
  by (simp add: slice_def)

lemma slice_join: "i \<le> j \<Longrightarrow> j \<le> k \<Longrightarrow> slice i j xs @ slice j k xs = slice i k xs"
  using take_add [of "j - i" "k - j" "drop i xs"] by (simp add: slice_def add.commute)

lemma chunks_Nil [simp]: "chunks n [] = []"
  by (simp add: chunks.simps)

lemma chunks_Cons: "0 < n \<Longrightarrow> xs \<noteq> [] \<Longrightarrow> chunks n xs = take n xs # chunks n (drop n xs)"
  by (simp add: chunks.simps [of n xs])

lemma concat_chunks: "0 < n \<Longrightarrow> concat (chunks n xs) = xs"
proof (induction n xs rule: chunks.induct)
  case (1 n xs)
  then show ?case by (cases "xs = []") (simp_all add: chunks_Cons)
qed

lemma chunks_bounded: "c \<in> set (chunks n xs) \<Longrightarrow> c \<noteq> [] \<and> length c \<le> n"
proof (induction n xs rule: chunks.induct)
  case (1 n xs)
  show ?case
  proof (cases "n = 0 \<or> xs = []")
    case True
    with 1 show ?thesis by (simp add: chunks.simps)
  next
    case False
    with 1 show ?thesis by (auto simp: chunks_Cons)
  qed
qed

lemma unat64_less: "unat (a :: u64) < 2 ^ 64"
  using unsigned_less [of a] by simp

lemma checked_add64_Some_iff:
  "checked_add64 a b = Some c \<longleftrightarrow> unat a + unat b < 2 ^ 64 \<and> c = a + b"
  by (auto simp: checked_add64_def)

lemma unat_add64: "unat (a :: u64) + unat b < 2 ^ 64 \<Longrightarrow> unat (a + b) = unat a + unat b"
  by (simp add: unat_word_ariths)

lemma unat_len64: "length xs < 2 ^ 64 \<Longrightarrow> unat (len64 xs) = length xs"
  by (simp add: len64_def unat_of_nat)

lemma len64_append: "len64 (xs @ ys) = len64 xs + len64 ys"
  by (simp add: len64_def)

end
