(* ===== verification/Backup_Base.thy ===== *)
theory Backup_Base
  imports Prelude
begin

text \<open>
  The error codes of \<open>kchat-backup/src/error.rs\<close>, the resource limits of \<open>limits.rs\<close>, the
  account identifier of \<open>account.rs\<close> and the limited addition \<open>checked_add_limited\<close> that the
  writer uses for all of its counters. A fault is an error returned by the code or a panic
  (a slice index out of range); the component theories show that the latter does not happen.
\<close>

section \<open>Errors\<close>

datatype backup_error_code =
    InvalidArgument
  | EmptyPassword
  | InvalidMnemonic
  | InvalidMnemonicKey
  | InvalidPasswordKey
  | UnsupportedFormat
  | ContextMismatch
  | IoError
  | InvalidState
  | AuthenticationFailed
  | ResourceLimitExceeded
  | Cancelled
  | IntegrityMismatch
  | MalformedObject
  | InvalidCompressedData

datatype backup_fault = Failed backup_error_code | Panic

type_synonym 'a backup_result = "backup_fault + 'a"

abbreviation invalid_argument :: backup_fault where
  "invalid_argument \<equiv> Failed InvalidArgument"

abbreviation empty_password :: backup_fault where
  "empty_password \<equiv> Failed EmptyPassword"

abbreviation invalid_mnemonic :: backup_fault where
  "invalid_mnemonic \<equiv> Failed InvalidMnemonic"

abbreviation unsupported_format :: backup_fault where
  "unsupported_format \<equiv> Failed UnsupportedFormat"

abbreviation context_mismatch :: backup_fault where
  "context_mismatch \<equiv> Failed ContextMismatch"

abbreviation invalid_mnemonic_key :: backup_fault where
  "invalid_mnemonic_key \<equiv> Failed InvalidMnemonicKey"

abbreviation invalid_password_key :: backup_fault where
  "invalid_password_key \<equiv> Failed InvalidPasswordKey"

abbreviation io_error :: backup_fault where
  "io_error \<equiv> Failed IoError"

abbreviation invalid_state :: backup_fault where
  "invalid_state \<equiv> Failed InvalidState"

abbreviation authentication_failed :: backup_fault where
  "authentication_failed \<equiv> Failed AuthenticationFailed"

abbreviation resource_limit_exceeded :: backup_fault where
  "resource_limit_exceeded \<equiv> Failed ResourceLimitExceeded"

abbreviation cancelled :: backup_fault where
  "cancelled \<equiv> Failed Cancelled"

abbreviation malformed_object :: backup_fault where
  "malformed_object \<equiv> Failed MalformedObject"

section \<open>Limits\<close>

definition MAX_CIPHERTEXT_OBJECT_BYTES_V1 :: u64 where
  "MAX_CIPHERTEXT_OBJECT_BYTES_V1 = 256 * 1024 * 1024"

definition MAX_COMPRESSED_OBJECT_BYTES_V1 :: u64 where
  "MAX_COMPRESSED_OBJECT_BYTES_V1 = 256 * 1024 * 1024"

definition MAX_PLAINTEXT_OBJECT_BYTES_V1 :: u64 where
  "MAX_PLAINTEXT_OBJECT_BYTES_V1 = 1024 * 1024 * 1024"

definition MAX_ZSTD_WINDOW_BYTES_V1 :: u64 where
  "MAX_ZSTD_WINDOW_BYTES_V1 = 8 * 1024 * 1024"

definition MAX_ENCRYPTED_BLOCKS_PER_OBJECT_V1 :: u64 where
  "MAX_ENCRYPTED_BLOCKS_PER_OBJECT_V1 = 4096"

definition MAX_IO_CHUNK_BYTES_V1 :: nat where
  "MAX_IO_CHUNK_BYTES_V1 = 64 * 1024"

section \<open>Account identifiers\<close>

text \<open>
  \<open>uuid::Uuid::parse_str\<close> is the \<open>uuid\<close> crate's parser: a parameter that yields the
  sixteen bytes of the UUID or fails.
\<close>

datatype backup_account_id = BackupAccountId (account_id_bytes: bytes)

definition account_id_parse :: "(string \<Rightarrow> bytes option) \<Rightarrow> string \<Rightarrow> backup_account_id backup_result" where
  "account_id_parse parse_str val =
     rbind (ok_or invalid_argument (parse_str val)) (\<lambda>uuid. Inr (BackupAccountId uuid))"

section \<open>Limited addition\<close>

definition checked_add_limited :: "u64 \<Rightarrow> u64 \<Rightarrow> u64 \<Rightarrow> u64 backup_result" where
  "checked_add_limited current added maximum =
     ok_or resource_limit_exceeded
       (case checked_add64 current added of
          None \<Rightarrow> None
        | Some tot \<Rightarrow> if tot \<le> maximum then Some tot else None)"

section \<open>Lemmas\<close>

lemmas limit_defs =
  MAX_CIPHERTEXT_OBJECT_BYTES_V1_def MAX_COMPRESSED_OBJECT_BYTES_V1_def
  MAX_PLAINTEXT_OBJECT_BYTES_V1_def MAX_ZSTD_WINDOW_BYTES_V1_def
  MAX_ENCRYPTED_BLOCKS_PER_OBJECT_V1_def MAX_IO_CHUNK_BYTES_V1_def

lemma unat_limits [simp]:
  "unat MAX_CIPHERTEXT_OBJECT_BYTES_V1 = 268435456"
  "unat MAX_COMPRESSED_OBJECT_BYTES_V1 = 268435456"
  "unat MAX_PLAINTEXT_OBJECT_BYTES_V1 = 1073741824"
  "unat MAX_ZSTD_WINDOW_BYTES_V1 = 8388608"
  "unat MAX_ENCRYPTED_BLOCKS_PER_OBJECT_V1 = 4096"
  by (simp_all add: limit_defs)

text \<open>
  The limited addition succeeds exactly when the sum, computed without wrap-around, stays
  within the limit; its result is that sum. Its only failure is the resource-limit error.
\<close>

lemma checked_add_limited_Inr_iff:
  "checked_add_limited a b m = Inr c \<longleftrightarrow> unat a + unat b \<le> unat m \<and> c = a + b"
proof -
  have "unat m < 2 ^ 64" by (rule unat64_less)
  then show ?thesis
    by (auto simp: checked_add_limited_def checked_add64_def word_le_nat_alt unat_add64
        split: if_splits)
qed

lemma checked_add_limited_Inl:
  "checked_add_limited a b m = Inl e \<Longrightarrow> e = resource_limit_exceeded \<and> unat m < unat a + unat b"
  using checked_add_limited_Inr_iff [of a b m]
  by (auto simp: checked_add_limited_def ok_or_def split: option.splits)
    (meson not_le)+

lemma checked_add_limited_cases:
  obtains (ok) "checked_add_limited a b m = Inr (a + b)" "unat (a + b) = unat a + unat b"
      "unat a + unat b \<le> unat m"
  | (limit) "checked_add_limited a b m = Inl resource_limit_exceeded" "unat m < unat a + unat b"
proof (cases "unat a + unat b \<le> unat m")
  case True
  moreover have "unat m < 2 ^ 64" by (rule unat64_less)
  ultimately have "unat (a + b) = unat a + unat b" by (simp add: unat_add64)
  with True ok show ?thesis by (simp add: checked_add_limited_Inr_iff)
next
  case False
  then show ?thesis
    using limit checked_add_limited_Inl [of a b m] checked_add_limited_Inr_iff [of a b m]
    by (cases "checked_add_limited a b m") auto
qed

lemma checked_add_limited_InrD:
  assumes "checked_add_limited a b m = Inr c"
  shows "unat c = unat a + unat b \<and> unat c \<le> unat m"
  using assms by (cases rule: checked_add_limited_cases [of a b m]) auto

end
