(* ===== verification/Backup_Key.thy ===== *)
theory Backup_Key
  imports Backup_Base
begin

text \<open>
  Key material and key derivation (\<open>kchat-backup/src/key\<close>): the mnemonic and the password
  master keys, the account key and the keys derived from it. HKDF-SHA256, Argon2id, BIP39 and
  the operating system's random source are third-party code: the fields of the record
  \<open>backup_crypto\<close>, an argument of every definition that calls them.
  The lemmas show that imports and exports, generation and re-derivation agree, and that two
  of the keys derived under one account key can only coincide on an HKDF collision.
\<close>

section \<open>Third-party primitives\<close>

record argon2_params =
  m_cost :: u32
  t_cost :: u32
  p_cost :: u32
  output_len :: "nat option"

text \<open>
  \<open>hkdf_expand ikm info n\<close> is \<open>Hkdf::<Sha256>::new(None, ikm).expand(info, out)\<close> for an output
  buffer of \<open>n\<close> bytes, \<open>None\<close> when it reports an invalid length. \<open>getrandom n\<close> is the outcome
  of \<open>getrandom::fill\<close> on a buffer of \<open>n\<close> bytes. The type \<open>'m\<close> is \<open>bip39::Mnemonic\<close>.
\<close>

record 'm backup_crypto =
  hkdf_expand :: "bytes \<Rightarrow> bytes \<Rightarrow> nat \<Rightarrow> bytes option"
  getrandom :: "nat \<Rightarrow> bytes option"
  argon2_params_new :: "u32 \<Rightarrow> u32 \<Rightarrow> u32 \<Rightarrow> nat option \<Rightarrow> argon2_params option"
  argon2_reserve :: "argon2_params \<Rightarrow> bool"
  argon2id_hash :: "argon2_params \<Rightarrow> bytes \<Rightarrow> bytes \<Rightarrow> nat \<Rightarrow> bytes option"
  mnemonic_from_entropy :: "bytes \<Rightarrow> 'm option"
  mnemonic_parse :: "string \<Rightarrow> 'm option"
  mnemonic_to_seed :: "'m \<Rightarrow> string \<Rightarrow> bytes"
  mnemonic_to_string :: "'m \<Rightarrow> string"

section \<open>Labels\<close>

definition ACCOUNT_KEY_LABEL :: bytes where
  "ACCOUNT_KEY_LABEL = ascii ''KCHAT_BACKUP_V1_ACCOUNT''"

definition BACKUP_ID_KEY_LABEL :: bytes where
  "BACKUP_ID_KEY_LABEL = ascii ''KCHAT_BACKUP_V1_NAMESPACE''"

definition OBJECT_KEY_LABEL :: bytes where
  "OBJECT_KEY_LABEL = ascii ''KCHAT_BACKUP_V1_OBJECT''"

definition DESCRIPTOR_KEY_LABEL :: bytes where
  "DESCRIPTOR_KEY_LABEL = ascii ''KCHAT_BACKUP_V1_DESCRIPTOR''"

definition MASTER_KEY_INFO :: bytes where
  "MASTER_KEY_INFO = ascii ''KCHAT_BACKUP_V1_MASTER''"

definition PASSWORD_ROOT_LABEL :: bytes where
  "PASSWORD_ROOT_LABEL = ascii ''KCHAT_BACKUP_PASSWORD_ROOT_V1''"

section \<open>Derivation\<close>

definition derive_hkdf :: "'m backup_crypto \<Rightarrow> bytes \<Rightarrow> bytes \<Rightarrow> bytes backup_result" where
  "derive_hkdf K input_key_material info = ok_or invalid_state (hkdf_expand K input_key_material info 32)"

datatype mnemonic_backup_key = MnemonicBackupKey (mnemonic_key_bytes: bytes)

datatype password_backup_key = PasswordBackupKey (password_key_bytes: bytes)

text \<open>The sealed trait \<open>BackupKeyMaterial\<close> has exactly these two implementations.\<close>

datatype backup_key_material =
    MnemonicKey mnemonic_backup_key
  | PasswordKey password_backup_key

datatype account_backup_key = AccountBackupKey (account_key_bytes: bytes)

datatype object_backup_key = ObjectBackupKey (object_key_bytes: bytes)

datatype descriptor_backup_key = DescriptorBackupKey (descriptor_key_bytes: bytes)

subsection \<open>Mnemonic keys\<close>

definition mnemonic_entropy_len :: "u32 \<Rightarrow> nat option" where
  "mnemonic_entropy_len word_count =
     (if word_count = 12 then Some 16
      else if word_count = 15 then Some 20
      else if word_count = 18 then Some 24
      else if word_count = 21 then Some 28
      else if word_count = 24 then Some 32
      else None)"

definition from_parsed_mnemonic :: "'m backup_crypto \<Rightarrow> 'm \<Rightarrow> mnemonic_backup_key backup_result" where
  "from_parsed_mnemonic K mnemonic =
     (let seed = mnemonic_to_seed K mnemonic '''' in
      rbind (ok_or invalid_state (hkdf_expand K seed MASTER_KEY_INFO 32))
        (\<lambda>key. Inr (MnemonicBackupKey key)))"

definition mnemonic_generate :: "'m backup_crypto \<Rightarrow> u32 \<Rightarrow> (string \<times> mnemonic_backup_key) backup_result" where
  "mnemonic_generate K word_count =
     rbind (ok_or invalid_argument (mnemonic_entropy_len word_count)) (\<lambda>entropy_len.
     rbind (ok_or io_error (getrandom K entropy_len)) (\<lambda>entropy.
     rbind (ok_or invalid_state (mnemonic_from_entropy K entropy)) (\<lambda>mnemonic.
     rbind (from_parsed_mnemonic K mnemonic) (\<lambda>master_key.
     Inr (mnemonic_to_string K mnemonic, master_key)))))"

definition from_mnemonic :: "'m backup_crypto \<Rightarrow> string \<Rightarrow> mnemonic_backup_key backup_result" where
  "from_mnemonic K phrase =
     rbind (ok_or invalid_mnemonic (mnemonic_parse K phrase)) (from_parsed_mnemonic K)"

definition mnemonic_export_raw :: "mnemonic_backup_key \<Rightarrow> bytes" where
  "mnemonic_export_raw key = mnemonic_key_bytes key"

definition mnemonic_import_from_raw :: "bytes \<Rightarrow> mnemonic_backup_key backup_result" where
  "mnemonic_import_from_raw bs =
     (if length bs = 32 then Inr (MnemonicBackupKey bs) else Inl invalid_mnemonic_key)"

definition mnemonic_derive_account_key_material ::
    "'m backup_crypto \<Rightarrow> mnemonic_backup_key \<Rightarrow> bytes \<Rightarrow> bytes backup_result" where
  "mnemonic_derive_account_key_material K key account_id =
     derive_hkdf K (mnemonic_key_bytes key) (ACCOUNT_KEY_LABEL @ account_id)"

subsection \<open>Password keys\<close>

definition ARGON2_MEMORY_KIB_V1 :: u32 where
  "ARGON2_MEMORY_KIB_V1 = 65536"

definition ARGON2_ITERATIONS_V1 :: u32 where
  "ARGON2_ITERATIONS_V1 = 3"

definition ARGON2_LANES_V1 :: u32 where
  "ARGON2_LANES_V1 = 4"

definition ARGON2_OUTPUT_BYTES_V1 :: nat where
  "ARGON2_OUTPUT_BYTES_V1 = 32"

definition from_password :: "'m backup_crypto \<Rightarrow> bytes \<Rightarrow> bytes \<Rightarrow> password_backup_key backup_result" where
  "from_password K password_raw_utf8 salt =
     (if password_raw_utf8 = [] then Inl empty_password
      else
        rbind (ok_or invalid_state
                 (argon2_params_new K ARGON2_MEMORY_KIB_V1 ARGON2_ITERATIONS_V1 ARGON2_LANES_V1
                    (Some ARGON2_OUTPUT_BYTES_V1))) (\<lambda>params.
        if \<not> argon2_reserve K params then Inl invalid_state
        else
          rbind (ok_or invalid_state
                   (argon2id_hash K params password_raw_utf8 salt ARGON2_OUTPUT_BYTES_V1)) (\<lambda>password_kdf.
          rbind (derive_hkdf K password_kdf PASSWORD_ROOT_LABEL) (\<lambda>root.
          Inr (PasswordBackupKey root)))))"

definition password_generate :: "'m backup_crypto \<Rightarrow> bytes \<Rightarrow> (bytes \<times> password_backup_key) backup_result" where
  "password_generate K password_raw_utf8 =
     (if password_raw_utf8 = [] then Inl empty_password
      else
        rbind (ok_or io_error (getrandom K 16)) (\<lambda>salt.
        rbind (from_password K password_raw_utf8 salt) (\<lambda>key.
        Inr (salt, key))))"

definition password_export_raw :: "password_backup_key \<Rightarrow> bytes" where
  "password_export_raw key = password_key_bytes key"

definition password_import_from_raw :: "bytes \<Rightarrow> password_backup_key backup_result" where
  "password_import_from_raw bs =
     (if length bs = 32 then Inr (PasswordBackupKey bs) else Inl invalid_password_key)"

definition password_derive_account_key_material ::
    "'m backup_crypto \<Rightarrow> password_backup_key \<Rightarrow> bytes \<Rightarrow> bytes backup_result" where
  "password_derive_account_key_material K key account_id =
     derive_hkdf K (password_key_bytes key) (ACCOUNT_KEY_LABEL @ account_id)"

subsection \<open>Keys derived from the account key\<close>

definition derive_account_key_material ::
    "'m backup_crypto \<Rightarrow> backup_key_material \<Rightarrow> bytes \<Rightarrow> bytes backup_result" where
  "derive_account_key_material K master_key account_id =
     (case master_key of
        MnemonicKey k \<Rightarrow> mnemonic_derive_account_key_material K k account_id
      | PasswordKey k \<Rightarrow> password_derive_account_key_material K k account_id)"

definition derive_account_key ::
    "'m backup_crypto \<Rightarrow> backup_key_material \<Rightarrow> bytes \<Rightarrow> account_backup_key backup_result" where
  "derive_account_key K master_key account_id =
     rbind (derive_account_key_material K master_key account_id) (\<lambda>k. Inr (AccountBackupKey k))"

definition derive_descriptor ::
    "'m backup_crypto \<Rightarrow> account_backup_key \<Rightarrow> descriptor_backup_key backup_result" where
  "derive_descriptor K ak =
     rbind (derive_hkdf K (account_key_bytes ak) DESCRIPTOR_KEY_LABEL) (\<lambda>k. Inr (DescriptorBackupKey k))"

definition derive_backup_id :: "'m backup_crypto \<Rightarrow> account_backup_key \<Rightarrow> bytes backup_result" where
  "derive_backup_id K ak = derive_hkdf K (account_key_bytes ak) BACKUP_ID_KEY_LABEL"

definition derive_object ::
    "'m backup_crypto \<Rightarrow> account_backup_key \<Rightarrow> bytes \<Rightarrow> object_backup_key backup_result" where
  "derive_object K ak canonical_context =
     rbind (derive_hkdf K (account_key_bytes ak) (OBJECT_KEY_LABEL @ canonical_context))
       (\<lambda>k. Inr (ObjectBackupKey k))"

text \<open>
  The raw bytes of a master key: what \<open>export_raw\<close> returns and all a derivation depends on.
\<close>

definition master_key_bytes :: "backup_key_material \<Rightarrow> bytes" where
  "master_key_bytes mk =
     (case mk of MnemonicKey k \<Rightarrow> mnemonic_key_bytes k | PasswordKey k \<Rightarrow> password_key_bytes k)"

section \<open>Laws of the third-party primitives\<close>

text \<open>Documented behaviour the code relies on: outputs fill the buffer that was passed.\<close>

definition hkdf_fills :: "'m backup_crypto \<Rightarrow> bool" where
  "hkdf_fills K \<longleftrightarrow> (\<forall>ikm info n out. hkdf_expand K ikm info n = Some out \<longrightarrow> length out = n)"

text \<open>A phrase printed by \<open>bip39\<close> parses back to the same mnemonic.\<close>

definition bip39_roundtrip :: "'m backup_crypto \<Rightarrow> bool" where
  "bip39_roundtrip K \<longleftrightarrow> (\<forall>m. mnemonic_parse K (mnemonic_to_string K m) = Some m)"

text \<open>Two different \<open>info\<close> strings that expand to the same 32 bytes under one input key.\<close>

definition hkdf_collision :: "'m backup_crypto \<Rightarrow> bytes \<Rightarrow> bytes \<Rightarrow> bytes \<Rightarrow> bool" where
  "hkdf_collision K ikm i j \<longleftrightarrow>
     i \<noteq> j \<and> hkdf_expand K ikm i 32 \<noteq> None \<and> hkdf_expand K ikm i 32 = hkdf_expand K ikm j 32"

section \<open>Lemmas\<close>

lemmas key_defs =
  derive_hkdf_def derive_account_key_def derive_account_key_material_def
  mnemonic_derive_account_key_material_def password_derive_account_key_material_def
  derive_descriptor_def derive_backup_id_def derive_object_def

lemmas label_defs =
  ACCOUNT_KEY_LABEL_def BACKUP_ID_KEY_LABEL_def OBJECT_KEY_LABEL_def DESCRIPTOR_KEY_LABEL_def
  MASTER_KEY_INFO_def PASSWORD_ROOT_LABEL_def

lemma derive_hkdf_Inr_iff: "derive_hkdf K ikm info = Inr k \<longleftrightarrow> hkdf_expand K ikm info 32 = Some k"
  by (simp add: derive_hkdf_def)

lemma derive_hkdf_length: "hkdf_fills K \<Longrightarrow> derive_hkdf K ikm info = Inr k \<Longrightarrow> length k = 32"
  by (simp add: hkdf_fills_def derive_hkdf_Inr_iff)

lemma derive_account_key_material_eq:
  "derive_account_key_material K mk aid = derive_hkdf K (master_key_bytes mk) (ACCOUNT_KEY_LABEL @ aid)"
  by (cases mk) (simp_all add: key_defs master_key_bytes_def)

lemma derive_account_key_Inr_iff:
  "derive_account_key K mk aid = Inr ak \<longleftrightarrow>
     hkdf_expand K (master_key_bytes mk) (ACCOUNT_KEY_LABEL @ aid) 32 = Some (account_key_bytes ak)"
  by (cases ak) (auto simp: derive_account_key_def derive_account_key_material_eq
      rbind_Inr_iff derive_hkdf_Inr_iff)

text \<open>No label is a prefix of another one, whatever follows it.\<close>

lemma derived_labels_distinct:
  "DESCRIPTOR_KEY_LABEL \<noteq> BACKUP_ID_KEY_LABEL"
  "OBJECT_KEY_LABEL @ ctx \<noteq> DESCRIPTOR_KEY_LABEL"
  "OBJECT_KEY_LABEL @ ctx \<noteq> BACKUP_ID_KEY_LABEL"
  by (simp_all add: label_defs ascii_def)

section \<open>Properties\<close>

text \<open>C36: A generated mnemonic key can be recovered from the phrase shown to the user: whenever
  \<open>generate\<close> returns a phrase and a key, \<open>from_mnemonic\<close> on that phrase returns the same key,
  provided that \<open>bip39\<close> parses the phrases it prints.\<close>

theorem mnemonic_generate_recoverable:
  assumes "bip39_roundtrip K" and "mnemonic_generate K n = Inr (phrase, key)"
  shows "from_mnemonic K phrase = Inr key"
  using assms
  by (auto simp: mnemonic_generate_def from_mnemonic_def bip39_roundtrip_def rbind_Inr_iff)

text \<open>A primitive suite on which the hypotheses of the properties hold: \<open>'m\<close> is the entropy, HKDF
  pads its \<open>info\<close> to the requested length.\<close>

definition sample_crypto :: "string backup_crypto" where
  "sample_crypto = \<lparr>
     hkdf_expand = (\<lambda>ikm info n. Some (take n (info @ replicate n 0))),
     getrandom = (\<lambda>n. Some (replicate n 7)),
     argon2_params_new = (\<lambda>m t p n. Some \<lparr>m_cost = m, t_cost = t, p_cost = p, output_len = n\<rparr>),
     argon2_reserve = (\<lambda>_. True),
     argon2id_hash = (\<lambda>_ pw salt n. Some (take n (pw @ salt @ replicate n 0))),
     mnemonic_from_entropy = (\<lambda>e. Some (map (\<lambda>b. char_of (unat b)) e)),
     mnemonic_parse = (\<lambda>s. Some s),
     mnemonic_to_seed = (\<lambda>m s. ascii (m @ s)),
     mnemonic_to_string = (\<lambda>m. m)\<rparr>"

lemma sample_crypto_laws:
  "bip39_roundtrip sample_crypto" "hkdf_fills sample_crypto"
  by (auto simp: sample_crypto_def bip39_roundtrip_def hkdf_fills_def)

theorem mnemonic_generate_recoverable_witness:
  "\<exists>phrase key. mnemonic_generate sample_crypto 12 = Inr (phrase, key) \<and>
     from_mnemonic sample_crypto phrase = Inr key"
proof -
  obtain phrase key where g: "mnemonic_generate sample_crypto 12 = Inr (phrase, key)"
    by (simp add: mnemonic_generate_def mnemonic_entropy_len_def sample_crypto_def
        from_parsed_mnemonic_def)
  from mnemonic_generate_recoverable [OF sample_crypto_laws(1) this]
  show ?thesis using g by blast
qed

text \<open>C35: Key separation: the descriptor key, the backup identifier and the object keys of an account
  are expansions of pairwise different \<open>info\<close> strings, whatever the object context; so two of them
  can only have the same bytes on an HKDF collision between those two strings.\<close>

theorem derived_keys_separated:
  assumes "derive_descriptor K ak = Inr d" and "derive_backup_id K ak = Inr b"
    and "derive_object K ak ctx = Inr ob"
  shows "(descriptor_key_bytes d = b \<longrightarrow>
        hkdf_collision K (account_key_bytes ak) DESCRIPTOR_KEY_LABEL BACKUP_ID_KEY_LABEL) \<and>
      (object_key_bytes ob = b \<longrightarrow>
        hkdf_collision K (account_key_bytes ak) (OBJECT_KEY_LABEL @ ctx) BACKUP_ID_KEY_LABEL) \<and>
      (object_key_bytes ob = descriptor_key_bytes d \<longrightarrow>
        hkdf_collision K (account_key_bytes ak) (OBJECT_KEY_LABEL @ ctx) DESCRIPTOR_KEY_LABEL)"
  using assms derived_labels_distinct
  by (auto simp: key_defs hkdf_collision_def rbind_Inr_iff)

theorem derived_keys_separated_witness:
  "let K = sample_crypto\<lparr>hkdf_expand := \<lambda>_ _ n. Some (replicate n 0)\<rparr>;
       ak = AccountBackupKey [1]
   in derive_descriptor K ak = Inr (DescriptorBackupKey (replicate 32 0)) \<and>
      hkdf_collision K [1] DESCRIPTOR_KEY_LABEL BACKUP_ID_KEY_LABEL"
proof -
  define K where "K = sample_crypto\<lparr>hkdf_expand := \<lambda>_ _ n. Some (replicate n 0)\<rparr>"
  have d: "derive_descriptor K (AccountBackupKey [1]) = Inr (DescriptorBackupKey (replicate 32 0))"
    and b: "derive_backup_id K (AccountBackupKey [1]) = Inr (replicate 32 0)"
    and ob: "derive_object K (AccountBackupKey [1]) [] = Inr (ObjectBackupKey (replicate 32 0))"
    by (simp_all add: key_defs K_def)
  from derived_keys_separated [OF d b ob]
  have "hkdf_collision K [1] DESCRIPTOR_KEY_LABEL BACKUP_ID_KEY_LABEL" by simp
  with d show ?thesis by (simp add: K_def Let_def)
qed

text \<open>Raw key export and import are inverse: a 32-byte master key survives \<open>export_raw\<close> followed
  by \<open>import_from_raw\<close> in both key kinds, and an import of any other length is refused with the
  error code of its own kind.\<close>

lemma raw_key_roundtrip:
  "(length kb = 32 \<longrightarrow>
      mnemonic_import_from_raw (mnemonic_export_raw (MnemonicBackupKey kb)) = Inr (MnemonicBackupKey kb) \<and>
      password_import_from_raw (password_export_raw (PasswordBackupKey kb)) = Inr (PasswordBackupKey kb)) \<and>
   (length kb \<noteq> 32 \<longrightarrow>
      mnemonic_import_from_raw kb = Inl invalid_mnemonic_key \<and>
      password_import_from_raw kb = Inl invalid_password_key)"
  by (simp add: mnemonic_import_from_raw_def password_import_from_raw_def
      mnemonic_export_raw_def password_export_raw_def)

end
