(* ===== verification/Backup_Context.thy ===== *)
theory Backup_Context
  imports Backup_Key
begin

text \<open>
  The object context of \<open>kchat-backup/src/context.rs\<close>: the backup identifier derived from the
  master key and the account, the chunk identifier, and the canonical byte string that binds an
  object to its format version, backup and chunk. The canonical bytes are both the associated data
  of every encrypted block and the \<open>info\<close> of the object key.
\<close>

section \<open>Definitions\<close>

definition BACKUP_FORMAT_VERSION_V1 :: u16 where
  "BACKUP_FORMAT_VERSION_V1 = 1"

definition OBJECT_CONTEXT_LABEL :: bytes where
  "OBJECT_CONTEXT_LABEL = ascii ''KCHAT_BACKUP_OBJECT_CONTEXT_V1''"

definition CANONICAL_CONTEXT_LENGTH :: nat where
  "CANONICAL_CONTEXT_LENGTH = length OBJECT_CONTEXT_LABEL + 2 + 32 + 32"

datatype backup_id = BackupId (backup_id_bytes: bytes)

definition backup_id_derive ::
    "'m backup_crypto \<Rightarrow> backup_key_material \<Rightarrow> backup_account_id \<Rightarrow> backup_id backup_result" where
  "backup_id_derive K master_key account_id =
     rbind (derive_account_key K master_key (account_id_bytes account_id)) (\<lambda>account_key.
     rbind (derive_backup_id K account_key) (\<lambda>b. Inr (BackupId b)))"

datatype backup_chunk_id = BackupChunkId (chunk_id_bytes: bytes)

definition chunk_id_from_bytes :: "bytes \<Rightarrow> backup_chunk_id backup_result" where
  "chunk_id_from_bytes bs =
     (if bs = replicate 32 0 then Inl invalid_argument else Inr (BackupChunkId bs))"

record object_context =
  canonical_bytes :: bytes
  object_key :: object_backup_key

definition canonical_context :: "u16 \<Rightarrow> backup_id \<Rightarrow> backup_chunk_id \<Rightarrow> bytes" where
  "canonical_context format_version backup_id chunk_id =
     (let c0 = replicate CANONICAL_CONTEXT_LENGTH 0;
          c1 = blit 0 OBJECT_CONTEXT_LABEL c0;
          c2 = blit (length OBJECT_CONTEXT_LABEL) (to_be_bytes16 format_version) c1;
          backup_id_start = length OBJECT_CONTEXT_LABEL + 2;
          c3 = blit backup_id_start (backup_id_bytes backup_id) c2
      in blit (backup_id_start + 32) (chunk_id_bytes chunk_id) c3)"

definition object_context_new ::
    "'m backup_crypto \<Rightarrow> backup_key_material \<Rightarrow> backup_account_id \<Rightarrow> backup_id \<Rightarrow> u16 \<Rightarrow> backup_chunk_id
      \<Rightarrow> object_context backup_result" where
  "object_context_new K master_key account_id backup_id format_version chunk_id =
     (if format_version \<noteq> BACKUP_FORMAT_VERSION_V1 then Inl unsupported_format
      else
        rbind (backup_id_derive K master_key account_id) (\<lambda>expected_backup_id.
        if backup_id \<noteq> expected_backup_id then Inl context_mismatch
        else
          let canonical = canonical_context format_version backup_id chunk_id in
          rbind (derive_account_key K master_key (account_id_bytes account_id)) (\<lambda>account_key.
          rbind (derive_object K account_key canonical) (\<lambda>ob_key.
          Inr \<lparr>canonical_bytes = canonical, object_key = ob_key\<rparr>))))"

section \<open>Lemmas\<close>

lemma length_OBJECT_CONTEXT_LABEL [simp]: "length OBJECT_CONTEXT_LABEL = 30"
  by (simp add: OBJECT_CONTEXT_LABEL_def)

lemma CANONICAL_CONTEXT_LENGTH_eq [simp]: "CANONICAL_CONTEXT_LENGTH = 96"
  by (simp add: CANONICAL_CONTEXT_LENGTH_def)

text \<open>The four copies lay the fields out one after the other and fill the buffer exactly.\<close>

lemma canonical_context_layout:
  assumes "length (backup_id_bytes b) = 32" and "length (chunk_id_bytes c) = 32"
  shows "canonical_context v b c =
    OBJECT_CONTEXT_LABEL @ to_be_bytes16 v @ backup_id_bytes b @ chunk_id_bytes c"
  using assms by (simp add: canonical_context_def blit_def)

lemma canonical_context_inject:
  assumes "length (backup_id_bytes b) = 32" and "length (chunk_id_bytes c) = 32"
    and "length (backup_id_bytes b') = 32" and "length (chunk_id_bytes c') = 32"
    and eq: "canonical_context v b c = canonical_context v' b' c'"
  shows "v = v' \<and> b = b' \<and> c = c'"
proof -
  have "to_be_bytes16 v @ backup_id_bytes b @ chunk_id_bytes c =
      to_be_bytes16 v' @ backup_id_bytes b' @ chunk_id_bytes c'"
    using eq assms by (simp add: canonical_context_layout)
  then show ?thesis
    using assms
    by (auto simp: append_eq_append_conv to_be_bytes16_inject
        intro: backup_id.expand backup_chunk_id.expand)
qed

lemma backup_id_derive_length:
  assumes "hkdf_fills K" and "backup_id_derive K mk aid = Inr b"
  shows "length (backup_id_bytes b) = 32"
  using assms derive_hkdf_length [OF assms(1)]
  by (auto simp: backup_id_derive_def derive_backup_id_def rbind_Inr_iff)

lemma object_context_newD:
  assumes "object_context_new K mk aid b v c = Inr ctx"
  shows "v = BACKUP_FORMAT_VERSION_V1" "backup_id_derive K mk aid = Inr b"
    "canonical_bytes ctx = canonical_context v b c"
    "\<exists>ak. derive_account_key K mk (account_id_bytes aid) = Inr ak \<and>
       derive_object K ak (canonical_bytes ctx) = Inr (object_key ctx)"
  using assms
  by (auto simp: object_context_new_def rbind_Inr_iff Let_def split: if_splits)

section \<open>Properties\<close>

text \<open>A context is created exactly for format version 1 and for the backup identifier that the
  master key and account derive; a different version is refused as an unsupported format and a
  different identifier as a context mismatch, before any object key is derived.\<close>

theorem object_context_new_branches:
  "(v \<noteq> 1 \<longrightarrow> object_context_new K mk aid b v c = Inl unsupported_format) \<and>
   (v = 1 \<longrightarrow> backup_id_derive K mk aid = Inr b' \<longrightarrow> b \<noteq> b' \<longrightarrow>
      object_context_new K mk aid b v c = Inl context_mismatch) \<and>
   (object_context_new K mk aid b v c = Inr ctx \<longrightarrow>
      v = 1 \<and> backup_id_derive K mk aid = Inr b \<and> canonical_bytes ctx = canonical_context 1 b c)"
proof (intro conjI impI)
  assume "object_context_new K mk aid b v c = Inr ctx"
  note d = object_context_newD [OF this]
  show "v = 1" "backup_id_derive K mk aid = Inr b" "canonical_bytes ctx = canonical_context 1 b c"
    using d(1-3) by (simp_all add: BACKUP_FORMAT_VERSION_V1_def)
qed (simp_all add: object_context_new_def BACKUP_FORMAT_VERSION_V1_def)

theorem object_context_new_branches_witness:
  "object_context_new sample_crypto (MnemonicKey (MnemonicBackupKey [])) (BackupAccountId []) (BackupId []) 2
     (BackupChunkId []) = Inl unsupported_format"
  using object_context_new_branches [of 2 sample_crypto "MnemonicKey (MnemonicBackupKey [])"
      "BackupAccountId []" "BackupId []" "BackupChunkId []"]
  by simp

text \<open>Contexts bind their objects: two contexts built from any keys and accounts with the same
  canonical bytes have the same backup identifier and the same chunk identifier, and two contexts of
  one account with different chunk identifiers but equal object keys exhibit an HKDF collision between
  their two different \<open>info\<close> strings.\<close>

theorem object_contexts_bind_identity:
  assumes "hkdf_fills K" and "length (chunk_id_bytes c) = 32" and "length (chunk_id_bytes c') = 32"
    and new: "object_context_new K mk aid b v c = Inr ctx"
    and new': "object_context_new K mk' aid' b' v' c' = Inr ctx'"
  shows "(canonical_bytes ctx = canonical_bytes ctx' \<longrightarrow> b = b' \<and> c = c') \<and>
    (mk = mk' \<and> aid = aid' \<and> c \<noteq> c' \<and> object_key ctx = object_key ctx' \<longrightarrow>
      (\<exists>ak. hkdf_collision K ak (OBJECT_KEY_LABEL @ canonical_bytes ctx)
         (OBJECT_KEY_LABEL @ canonical_bytes ctx')))"
proof -
  note d = object_context_newD [OF new] and d' = object_context_newD [OF new']
  have len: "length (backup_id_bytes b) = 32" "length (backup_id_bytes b') = 32"
    using backup_id_derive_length [OF assms(1)] d(2) d'(2) by blast+
  have inj: "canonical_bytes ctx = canonical_bytes ctx' \<Longrightarrow> b = b' \<and> c = c'"
    using canonical_context_inject [OF len(1) assms(2) len(2) assms(3)] d(3) d'(3) by metis
  have "\<exists>ak. hkdf_collision K ak (OBJECT_KEY_LABEL @ canonical_bytes ctx)
      (OBJECT_KEY_LABEL @ canonical_bytes ctx')"
    if "mk = mk'" "aid = aid'" "c \<noteq> c'" "object_key ctx = object_key ctx'"
  proof -
    from d(4) d'(4) that(1,2,4) obtain ak where
      "derive_object K ak (canonical_bytes ctx) = Inr (object_key ctx)"
      "derive_object K ak (canonical_bytes ctx') = Inr (object_key ctx)"
      by auto
    then have "hkdf_collision K (account_key_bytes ak) (OBJECT_KEY_LABEL @ canonical_bytes ctx)
        (OBJECT_KEY_LABEL @ canonical_bytes ctx')"
      using inj that(3)
      by (cases "object_key ctx")
        (auto simp: derive_object_def derive_hkdf_def hkdf_collision_def rbind_Inr_iff)
    then show ?thesis ..
  qed
  with inj show ?thesis by blast
qed

definition sample_key :: backup_key_material where
  "sample_key = MnemonicKey (MnemonicBackupKey (replicate 32 3))"

definition sample_account :: backup_account_id where
  "sample_account = BackupAccountId (replicate 16 5)"

definition sample_backup_id :: backup_id where
  "sample_backup_id = BackupId (take 32 (BACKUP_ID_KEY_LABEL @ replicate 32 0))"

definition sample_context :: "byte \<Rightarrow> object_context" where
  "sample_context x = \<lparr>
     canonical_bytes = canonical_context 1 sample_backup_id (BackupChunkId (replicate 32 x)),
     object_key = ObjectBackupKey (take 32 (OBJECT_KEY_LABEL @
       canonical_context 1 sample_backup_id (BackupChunkId (replicate 32 x))))\<rparr>"

lemma sample_context_new:
  "object_context_new sample_crypto sample_key sample_account sample_backup_id 1
     (BackupChunkId (replicate 32 x)) = Inr (sample_context x)"
  by (simp add: object_context_new_def BACKUP_FORMAT_VERSION_V1_def backup_id_derive_def key_defs
      sample_crypto_def sample_key_def sample_account_def sample_backup_id_def sample_context_def
      canonical_context_layout label_defs)

lemma sample_backup_id_derive:
  "backup_id_derive sample_crypto sample_key sample_account = Inr sample_backup_id"
  using object_context_newD(2) [OF sample_context_new [of 0]] .

theorem object_contexts_bind_identity_witness:
  "\<exists>ak. hkdf_collision sample_crypto ak (OBJECT_KEY_LABEL @ canonical_bytes (sample_context 1))
     (OBJECT_KEY_LABEL @ canonical_bytes (sample_context 2))"
proof -
  have "object_key (sample_context 1) = object_key (sample_context 2)"
    by (simp add: sample_context_def canonical_context_layout sample_backup_id_def label_defs)
  then show ?thesis
    using object_contexts_bind_identity [OF sample_crypto_laws(2) _ _ sample_context_new [of 1]
        sample_context_new [of 2]]
    by simp
qed

end
