(* ===== verification/Backup_Descriptor.thy ===== *)
theory Backup_Descriptor
  imports Backup_Context
begin

text \<open>
  The KCBD descriptor of \<open>kchat-backup/src/descriptor.rs\<close>: a 26-byte clear header, a 24-byte nonce
  and the sealed 44-byte body. XChaCha20-Poly1305 is a parameter, the record \<open>aead\<close>; what the code
  relies on is \<open>aead_correct\<close>. The lemmas characterise the headers that validation accepts and the
  layout of a sealed descriptor; the properties are the round trip and that nothing but a descriptor
  sealed for the same key and account opens.
\<close>

section \<open>Third-party primitive\<close>

record aead =
  aead_encrypt :: "bytes \<Rightarrow> bytes \<Rightarrow> bytes \<Rightarrow> bytes \<Rightarrow> bytes option"
  aead_decrypt :: "bytes \<Rightarrow> bytes \<Rightarrow> bytes \<Rightarrow> bytes \<Rightarrow> bytes option"

text \<open>
  For a fixed key, nonce and associated data, decryption accepts exactly the ciphertexts that
  encryption produces, and returns the message; a ciphertext is its message plus a 16-byte tag.
\<close>

definition aead_correct :: "aead \<Rightarrow> bool" where
  "aead_correct A \<longleftrightarrow>
     (\<forall>k n ad m c. aead_decrypt A k n ad c = Some m \<longleftrightarrow> aead_encrypt A k n ad m = Some c) \<and>
     (\<forall>k n ad m c. aead_encrypt A k n ad m = Some c \<longrightarrow> length c = length m + 16)"

section \<open>Wire constants\<close>

definition MAGIC :: bytes where
  "MAGIC = ascii ''KCBD''"

definition FORMAT_VERSION :: u16 where
  "FORMAT_VERSION = 1"

definition MNEMONIC_MODE :: byte where
  "MNEMONIC_MODE = 1"

definition PASSWORD_MODE :: byte where
  "PASSWORD_MODE = 2"

definition MNEMONIC_KDF_PROFILE :: u16 where
  "MNEMONIC_KDF_PROFILE = 0"

definition PASSWORD_KDF_PROFILE :: u16 where
  "PASSWORD_KDF_PROFILE = 1"

definition HEADER_BYTES :: nat where
  "HEADER_BYTES = 26"

definition NONCE_BYTES :: nat where
  "NONCE_BYTES = 24"

definition PLAINTEXT_BYTES :: nat where
  "PLAINTEXT_BYTES = 44"

definition SERIALIZED_BYTES :: nat where
  "SERIALIZED_BYTES = HEADER_BYTES + NONCE_BYTES + PLAINTEXT_BYTES + 16"

definition AAD_LABEL :: bytes where
  "AAD_LABEL = ascii ''KCHAT_BACKUP_DESCRIPTOR_V1''"

section \<open>Header\<close>

datatype descriptor_backup_mode = Mnemonic | Password

datatype descriptor_header = DescriptorHeaderV1 (header_bytes: bytes)

definition header_mnemonic :: descriptor_header where
  "header_mnemonic =
     DescriptorHeaderV1 ((replicate HEADER_BYTES 0)
       [0 := of_char CHR ''K'', 1 := of_char CHR ''C'', 2 := of_char CHR ''B'', 3 := of_char CHR ''D'',
        4 := 0, 5 := 1, 6 := MNEMONIC_MODE])"

definition header_password :: "bytes \<Rightarrow> descriptor_header" where
  "header_password salt =
     (let b0 = header_bytes header_mnemonic;
          b1 = b0[6 := PASSWORD_MODE];
          b2 = blit 8 (to_be_bytes16 PASSWORD_KDF_PROFILE) b1
      in DescriptorHeaderV1 (blit 10 salt b2))"

definition header_validate :: "descriptor_header \<Rightarrow> unit backup_result" where
  "header_validate h =
     (let b = header_bytes h in
      if take 4 b \<noteq> MAGIC \<or> slice 4 6 b \<noteq> to_be_bytes16 FORMAT_VERSION then Inl unsupported_format
      else if b ! 7 \<noteq> 0 then Inl unsupported_format
      else if b ! 6 = MNEMONIC_MODE \<and> slice 8 10 b = to_be_bytes16 MNEMONIC_KDF_PROFILE \<and>
        drop 10 b = replicate 16 0 then Inr ()
      else if b ! 6 = PASSWORD_MODE \<and> slice 8 10 b = to_be_bytes16 PASSWORD_KDF_PROFILE then Inr ()
      else Inl unsupported_format)"

definition header_parse :: "bytes \<Rightarrow> descriptor_header backup_result" where
  "header_parse serialized =
     (if length serialized \<noteq> SERIALIZED_BYTES then Inl invalid_argument
      else
        let header = DescriptorHeaderV1 (take HEADER_BYTES serialized) in
        rbind (header_validate header) (\<lambda>_. Inr header))"

definition header_backup_mode :: "descriptor_header \<Rightarrow> descriptor_backup_mode" where
  "header_backup_mode h = (if header_bytes h ! 6 = MNEMONIC_MODE then Mnemonic else Password)"

definition header_salt :: "descriptor_header \<Rightarrow> bytes" where
  "header_salt h =
     foldl (\<lambda>salt index. salt[index := header_bytes h ! (10 + index)]) (replicate 16 0) [0..<16]"

section \<open>Sealing and opening\<close>

definition derive_descriptor_key ::
    "'m backup_crypto \<Rightarrow> backup_key_material \<Rightarrow> backup_account_id \<Rightarrow> descriptor_backup_key backup_result" where
  "derive_descriptor_key K master_key account_id =
     rbind (derive_account_key K master_key (account_id_bytes account_id)) (derive_descriptor K)"

definition descriptor_plaintext :: "backup_id \<Rightarrow> bytes" where
  "descriptor_plaintext backup_id =
     (let p0 = replicate PLAINTEXT_BYTES 0;
          p1 = blit 0 MAGIC p0;
          p2 = blit 4 (to_be_bytes16 FORMAT_VERSION) p1;
          p3 = blit 6 (backup_id_bytes backup_id) p2
      in blit 38 (to_be_bytes16 1) p3)"

definition validate_plaintext :: "bytes \<Rightarrow> backup_id \<Rightarrow> unit backup_result" where
  "validate_plaintext plaintext backup_id =
     (if length plaintext \<noteq> PLAINTEXT_BYTES \<or> take 4 plaintext \<noteq> MAGIC \<or>
         slice 4 6 plaintext \<noteq> to_be_bytes16 FORMAT_VERSION \<or>
         slice 6 38 plaintext \<noteq> backup_id_bytes backup_id \<or>
         slice 38 40 plaintext \<noteq> to_be_bytes16 1 \<or>
         slice 40 44 plaintext \<noteq> replicate 4 0
      then Inl authentication_failed else Inr ())"

definition descriptor_aad :: "descriptor_header \<Rightarrow> backup_id \<Rightarrow> bytes" where
  "descriptor_aad header backup_id = AAD_LABEL @ header_bytes header @ backup_id_bytes backup_id"

text \<open>\<open>XChaCha20Poly1305::new_from_slice\<close> refuses a key that is not 32 bytes long, \<open>XNonce::try_from\<close>
  a nonce that is not 24 bytes long.\<close>

definition cipher_key :: "bytes \<Rightarrow> bytes backup_result" where
  "cipher_key k = (if length k = 32 then Inr k else Inl invalid_state)"

definition cipher_nonce :: "bytes \<Rightarrow> bytes backup_result" where
  "cipher_nonce n = (if length n = 24 then Inr n else Inl invalid_state)"

definition seal_descriptor_v1 ::
    "'m backup_crypto \<Rightarrow> aead \<Rightarrow> backup_key_material \<Rightarrow> backup_account_id \<Rightarrow> descriptor_header \<Rightarrow> bytes backup_result" where
  "seal_descriptor_v1 K A master_key account_id header =
     rbind (header_validate header) (\<lambda>_.
     rbind (backup_id_derive K master_key account_id) (\<lambda>backup_id.
     rbind (derive_descriptor_key K master_key account_id) (\<lambda>descriptor_key.
     let ad = descriptor_aad header backup_id;
         plaintext = descriptor_plaintext backup_id in
     rbind (ok_or io_error (getrandom K NONCE_BYTES)) (\<lambda>nonce.
     rbind (cipher_key (descriptor_key_bytes descriptor_key)) (\<lambda>cipher.
     rbind (cipher_nonce nonce) (\<lambda>nonce.
     rbind (ok_or invalid_state (aead_encrypt A cipher nonce ad plaintext)) (\<lambda>ciphertext.
     Inr (header_bytes header @ nonce @ ciphertext))))))))"

definition open_descriptor_v1 ::
    "'m backup_crypto \<Rightarrow> aead \<Rightarrow> backup_key_material \<Rightarrow> backup_account_id \<Rightarrow> bytes
      \<Rightarrow> (descriptor_header \<times> backup_id) backup_result" where
  "open_descriptor_v1 K A master_key account_id serialized =
     rbind (header_parse serialized) (\<lambda>header.
     rbind (backup_id_derive K master_key account_id) (\<lambda>backup_id.
     rbind (derive_descriptor_key K master_key account_id) (\<lambda>descriptor_key.
     let ad = descriptor_aad header backup_id in
     rbind (cipher_key (descriptor_key_bytes descriptor_key)) (\<lambda>cipher.
     rbind (cipher_nonce (slice HEADER_BYTES (HEADER_BYTES + NONCE_BYTES) serialized)) (\<lambda>nonce.
     rbind (ok_or authentication_failed
              (aead_decrypt A cipher nonce ad (drop (HEADER_BYTES + NONCE_BYTES) serialized))) (\<lambda>plaintext.
     rbind (validate_plaintext plaintext backup_id) (\<lambda>_.
     Inr (header, backup_id))))))))"

section \<open>Lemmas\<close>

lemmas descriptor_consts =
  MAGIC_def FORMAT_VERSION_def MNEMONIC_MODE_def PASSWORD_MODE_def MNEMONIC_KDF_PROFILE_def
  PASSWORD_KDF_PROFILE_def HEADER_BYTES_def NONCE_BYTES_def PLAINTEXT_BYTES_def SERIALIZED_BYTES_def

lemma header_mnemonic_bytes:
  "header_bytes header_mnemonic = [75, 67, 66, 68, 0, 1, 1, 0, 0, 0] @ replicate 16 0"
  by (simp add: header_mnemonic_def descriptor_consts numeral_eq_Suc)

lemma header_password_bytes:
  "length salt = 16 \<Longrightarrow>
     header_bytes (header_password salt) = [75, 67, 66, 68, 0, 1, 2, 0, 0, 1] @ salt"
  by (simp add: header_password_def header_mnemonic_bytes blit_def descriptor_consts
      to_be_bytes16_def numeral_eq_Suc)

lemma header_split:
  fixes b :: bytes
  assumes "length b = 26"
  obtains b0 b1 b2 b3 b4 b5 b6 b7 b8 b9 rest
  where "b = [b0, b1, b2, b3, b4, b5, b6, b7, b8, b9] @ rest" "length rest = 16"
proof -
  have "\<exists>b0 b1 b2 b3 b4 b5 b6 b7 b8 b9. xs = [b0, b1, b2, b3, b4, b5, b6, b7, b8, b9]"
    if "length xs = 10" for xs :: bytes
    using that by (auto simp: numeral_eq_Suc length_Suc_conv)
  from this [of "take 10 b"] assms obtain b0 b1 b2 b3 b4 b5 b6 b7 b8 b9
    where "take 10 b = [b0, b1, b2, b3, b4, b5, b6, b7, b8, b9]"
    by auto
  then have "b = [b0, b1, b2, b3, b4, b5, b6, b7, b8, b9] @ drop 10 b"
    using append_take_drop_id [of 10 b] by simp
  moreover have "length (drop 10 b) = 16" using assms by simp
  ultimately show thesis by (rule that)
qed

lemma header_validate_cons:
  assumes "length rest = 16"
  shows "header_validate (DescriptorHeaderV1 ([b0, b1, b2, b3, b4, b5, b6, b7, b8, b9] @ rest)) = Inr () \<longleftrightarrow>
    [b0, b1, b2, b3, b4, b5] = [75, 67, 66, 68, 0, 1] \<and> b7 = 0 \<and> b8 = 0 \<and>
    (b6 = 1 \<and> b9 = 0 \<and> rest = replicate 16 0 \<or> b6 = 2 \<and> b9 = 1)"
  using assms
  by (simp add: header_validate_def descriptor_consts ascii_def to_be_bytes16_def slice_def Let_def)
    auto

lemma header_eq_iff: "h = h' \<longleftrightarrow> header_bytes h = header_bytes h'"
  by (cases h; cases h') simp

lemma header_validate_iff:
  assumes "length (header_bytes h) = 26"
  shows "header_validate h = Inr () \<longleftrightarrow>
    h = header_mnemonic \<or> (\<exists>salt. length salt = 16 \<and> h = header_password salt)"
proof -
  obtain b0 b1 b2 b3 b4 b5 b6 b7 b8 b9 rest
    where h: "header_bytes h = [b0, b1, b2, b3, b4, b5, b6, b7, b8, b9] @ rest" and rest: "length rest = 16"
    using header_split [OF assms] .
  then have "h = DescriptorHeaderV1 ([b0, b1, b2, b3, b4, b5, b6, b7, b8, b9] @ rest)"
    by (cases h) simp
  then have "header_validate h = Inr () \<longleftrightarrow>
      [b0, b1, b2, b3, b4, b5] = [75, 67, 66, 68, 0, 1] \<and> b7 = 0 \<and> b8 = 0 \<and>
      (b6 = 1 \<and> b9 = 0 \<and> rest = replicate 16 0 \<or> b6 = 2 \<and> b9 = 1)"
    using header_validate_cons [OF rest] by simp
  also have "\<dots> \<longleftrightarrow> h = header_mnemonic \<or> (\<exists>salt. length salt = 16 \<and> h = header_password salt)"
    using rest by (auto simp: header_eq_iff h header_mnemonic_bytes header_password_bytes)
  finally show ?thesis .
qed

lemma length_MAGIC [simp]: "length MAGIC = 4"
  by (simp add: MAGIC_def)

lemma descriptor_plaintext_layout:
  assumes "length (backup_id_bytes b) = 32"
  shows "descriptor_plaintext b =
    MAGIC @ to_be_bytes16 FORMAT_VERSION @ backup_id_bytes b @ to_be_bytes16 1 @ replicate 4 0"
  using assms by (simp add: descriptor_plaintext_def blit_def PLAINTEXT_BYTES_def)

lemma length_descriptor_plaintext:
  "length (backup_id_bytes b) = 32 \<Longrightarrow> length (descriptor_plaintext b) = 44"
  by (simp add: descriptor_plaintext_layout)

text \<open>The six comparisons of \<open>validate_plaintext\<close> together accept one plaintext only.\<close>

lemma validate_plaintext_iff:
  assumes "length (backup_id_bytes b) = 32"
  shows "validate_plaintext p b = Inr () \<longleftrightarrow> p = descriptor_plaintext b"
proof
  assume v: "validate_plaintext p b = Inr ()"
  then have len: "length p = 44"
    by (auto simp: validate_plaintext_def PLAINTEXT_BYTES_def split: if_splits)
  have "p = slice 0 4 p @ slice 4 6 p @ slice 6 38 p @ slice 38 40 p @ slice 40 44 p"
    using len by (simp add: slice_join slice_full del: slice_zero)
  with v show "p = descriptor_plaintext b"
    using assms by (auto simp: validate_plaintext_def descriptor_plaintext_layout split: if_splits)
next
  assume "p = descriptor_plaintext b"
  then show "validate_plaintext p b = Inr ()"
    using assms
    by (simp add: validate_plaintext_def descriptor_plaintext_layout PLAINTEXT_BYTES_def
        slice_append_left slice_append_right slice_full)
qed

lemma header_validate_Inr: "header_validate h = Inr u \<longleftrightarrow> header_validate h = Inr ()"
  by simp

lemma header_parse_Inr_iff:
  "header_parse s = Inr h \<longleftrightarrow>
     length s = 110 \<and> h = DescriptorHeaderV1 (take 26 s) \<and> header_validate h = Inr ()"
  by (auto simp: header_parse_def rbind_Inr_iff descriptor_consts Let_def)

lemma cipher_key_Inr_iff [simp]: "cipher_key k = Inr c \<longleftrightarrow> length k = 32 \<and> c = k"
  by (auto simp: cipher_key_def)

lemma cipher_nonce_Inr_iff [simp]: "cipher_nonce n = Inr c \<longleftrightarrow> length n = 24 \<and> c = n"
  by (auto simp: cipher_nonce_def)

lemma seal_descriptor_Inr_iff:
  "seal_descriptor_v1 K A mk aid h = Inr s \<longleftrightarrow>
     header_validate h = Inr () \<and>
     (\<exists>b d nonce c. backup_id_derive K mk aid = Inr b \<and> derive_descriptor_key K mk aid = Inr d \<and>
        getrandom K 24 = Some nonce \<and> length (descriptor_key_bytes d) = 32 \<and> length nonce = 24 \<and>
        aead_encrypt A (descriptor_key_bytes d) nonce (descriptor_aad h b) (descriptor_plaintext b) = Some c \<and>
        s = header_bytes h @ nonce @ c)"
  by (auto simp: seal_descriptor_v1_def rbind_Inr_iff Let_def NONCE_BYTES_def)

lemma open_descriptor_Inr_iff:
  assumes "hkdf_fills K"
  shows "open_descriptor_v1 K A mk aid s = Inr (h, b) \<longleftrightarrow>
     length s = 110 \<and> h = DescriptorHeaderV1 (take 26 s) \<and> header_validate h = Inr () \<and>
     backup_id_derive K mk aid = Inr b \<and>
     (\<exists>d. derive_descriptor_key K mk aid = Inr d \<and> length (descriptor_key_bytes d) = 32 \<and>
        aead_decrypt A (descriptor_key_bytes d) (slice 26 50 s) (descriptor_aad h b) (drop 50 s) =
          Some (descriptor_plaintext b))"
  using backup_id_derive_length [OF assms, of mk aid]
  by (auto simp: open_descriptor_v1_def rbind_Inr_iff Let_def header_parse_Inr_iff HEADER_BYTES_def
      NONCE_BYTES_def validate_plaintext_iff)

text \<open>The derivations do not consult the random source.\<close>

lemma derive_hkdf_getrandom [simp]: "derive_hkdf (K\<lparr>getrandom := r\<rparr>) = derive_hkdf K"
  by (simp add: fun_eq_iff derive_hkdf_def)

lemma derivations_getrandom [simp]:
  "backup_id_derive (K\<lparr>getrandom := r\<rparr>) = backup_id_derive K"
  "derive_descriptor (K\<lparr>getrandom := r\<rparr>) = derive_descriptor K"
  "derive_descriptor_key (K\<lparr>getrandom := r\<rparr>) = derive_descriptor_key K"
  by (simp_all add: fun_eq_iff backup_id_derive_def derive_descriptor_key_def derive_account_key_def
      derive_account_key_material_eq derive_backup_id_def derive_descriptor_def [abs_def])

lemma seal_descriptor_length:
  assumes "hkdf_fills K" and "aead_correct A" and "length (header_bytes h) = 26"
    and "seal_descriptor_v1 K A mk aid h = Inr s"
  shows "length s = 110"
  using assms backup_id_derive_length [OF assms(1), of mk aid]
  by (auto simp: seal_descriptor_Inr_iff aead_correct_def length_descriptor_plaintext)

text \<open>Opening accepts exactly what sealing produces.\<close>

lemma opened_iff_sealed:
  assumes fills: "hkdf_fills K" and A: "aead_correct A"
  shows "open_descriptor_v1 K A mk aid s = Inr (h, b) \<longleftrightarrow>
    length (header_bytes h) = 26 \<and> backup_id_derive K mk aid = Inr b \<and>
    (\<exists>nonce. length nonce = 24 \<and>
       seal_descriptor_v1 (K\<lparr>getrandom := \<lambda>_. Some nonce\<rparr>) A mk aid h = Inr s)"
proof
  assume op: "open_descriptor_v1 K A mk aid s = Inr (h, b)"
  then obtain d where d: "derive_descriptor_key K mk aid = Inr d" "length (descriptor_key_bytes d) = 32"
      "aead_encrypt A (descriptor_key_bytes d) (slice 26 50 s) (descriptor_aad h b) (descriptor_plaintext b) =
         Some (drop 50 s)"
    using A by (auto simp: open_descriptor_Inr_iff [OF fills] aead_correct_def)
  have len: "length s = 110" and h: "h = DescriptorHeaderV1 (take 26 s)"
    and v: "header_validate h = Inr ()" and b: "backup_id_derive K mk aid = Inr b"
    using op by (auto simp: open_descriptor_Inr_iff [OF fills])
  have "take 26 s @ slice 26 50 s = take 50 s"
    using slice_join [of 0 26 50 s] by simp
  then have "s = header_bytes h @ slice 26 50 s @ drop 50 s"
    using h append_take_drop_id [of 50 s] by (metis append.assoc descriptor_header.sel)
  then have "seal_descriptor_v1 (K\<lparr>getrandom := \<lambda>_. Some (slice 26 50 s)\<rparr>) A mk aid h = Inr s"
    using d len v b by (auto simp: seal_descriptor_Inr_iff)
  then show "length (header_bytes h) = 26 \<and> backup_id_derive K mk aid = Inr b \<and>
      (\<exists>nonce. length nonce = 24 \<and>
         seal_descriptor_v1 (K\<lparr>getrandom := \<lambda>_. Some nonce\<rparr>) A mk aid h = Inr s)"
    using len h b by (intro conjI exI [of _ "slice 26 50 s"]) simp_all
next
  assume r: "length (header_bytes h) = 26 \<and> backup_id_derive K mk aid = Inr b \<and>
    (\<exists>nonce. length nonce = 24 \<and>
       seal_descriptor_v1 (K\<lparr>getrandom := \<lambda>_. Some nonce\<rparr>) A mk aid h = Inr s)"
  then obtain nonce where nonce: "length nonce = 24"
    and sl: "seal_descriptor_v1 (K\<lparr>getrandom := \<lambda>_. Some nonce\<rparr>) A mk aid h = Inr s" by blast
  from fills have "hkdf_fills (K\<lparr>getrandom := \<lambda>_. Some nonce\<rparr>)" by (simp add: hkdf_fills_def)
  then have "length s = 110" using seal_descriptor_length A r sl by blast
  with r sl nonce A show "open_descriptor_v1 K A mk aid s = Inr (h, b)"
    by (cases h) (auto simp: open_descriptor_Inr_iff [OF fills] seal_descriptor_Inr_iff aead_correct_def
        slice_append_right slice_full)
qed

section \<open>Properties\<close>

text \<open>Header validation accepts exactly the headers the two constructors build: the mnemonic
  header, and the password header of some 16-byte salt; no other 26-byte header is accepted.\<close>

theorem header_validate_exact:
  assumes "length (header_bytes h) = HEADER_BYTES"
  shows "header_validate h = Inr () \<longleftrightarrow>
    h = header_mnemonic \<or> (\<exists>salt. length salt = 16 \<and> h = header_password salt)"
  using header_validate_iff [of h] assms by (simp add: HEADER_BYTES_def)

theorem header_validate_exact_witness:
  "header_validate (header_password (replicate 16 9)) = Inr ()"
proof -
  have "length (header_bytes (header_password (replicate 16 9))) = HEADER_BYTES"
    by (simp add: header_password_bytes HEADER_BYTES_def)
  from header_validate_exact [OF this] show ?thesis
    by (metis length_replicate)
qed

text \<open>A descriptor opens exactly when it is a sealed one: for a given master key and account,
  \<open>open_descriptor_v1\<close> returns a header and backup identifier for a byte string if and only if
  \<open>seal_descriptor_v1\<close> on that header produces this very string for some 24-byte nonce drawn from the
  random source. So sealing round-trips and no byte of a descriptor can be changed undetected.\<close>

theorem open_descriptor_iff_sealed:
  assumes fills: "hkdf_fills K" and A: "aead_correct A"
  shows "open_descriptor_v1 K A mk aid s = Inr (h, b) \<longleftrightarrow>
    length (header_bytes h) = 26 \<and> backup_id_derive K mk aid = Inr b \<and>
    (\<exists>nonce. length nonce = 24 \<and>
       seal_descriptor_v1 (K\<lparr>getrandom := \<lambda>_. Some nonce\<rparr>) A mk aid h = Inr s)"
  by (rule opened_iff_sealed [OF assms])

text \<open>A cipher on which the hypotheses hold: the ciphertext is the message and a zero tag.\<close>

definition sample_aead :: aead where
  "sample_aead = \<lparr>
     aead_encrypt = (\<lambda>k n ad m. Some (m @ replicate 16 0)),
     aead_decrypt = (\<lambda>k n ad c. if 16 \<le> length c \<and> drop (length c - 16) c = replicate 16 0
        then Some (take (length c - 16) c) else None)\<rparr>"

lemma sample_aead_correct: "aead_correct sample_aead"
  by (auto simp: aead_correct_def sample_aead_def) (metis append_take_drop_id)

lemma sample_seal:
  "\<exists>s. seal_descriptor_v1 (sample_crypto\<lparr>getrandom := \<lambda>_. Some (replicate 24 7)\<rparr>) sample_aead sample_key
     sample_account header_mnemonic = Inr s"
proof -
  have "header_validate header_mnemonic = Inr ()"
    using header_validate_iff [of header_mnemonic] by (simp add: header_mnemonic_bytes)
  moreover have "backup_id_derive sample_crypto sample_key sample_account = Inr sample_backup_id"
    by (rule sample_backup_id_derive)
  moreover have "\<exists>d. derive_descriptor_key sample_crypto sample_key sample_account = Inr d \<and>
      length (descriptor_key_bytes d) = 32"
    by (simp add: derive_descriptor_key_def derive_account_key_def derive_account_key_material_eq
        derive_descriptor_def derive_hkdf_def sample_crypto_def)
  ultimately show ?thesis
    by (auto simp: seal_descriptor_Inr_iff sample_aead_def)
qed

theorem open_descriptor_iff_sealed_witness:
  "\<exists>s. open_descriptor_v1 sample_crypto sample_aead sample_key sample_account s =
       Inr (header_mnemonic, sample_backup_id)"
proof -
  obtain s where s: "seal_descriptor_v1 (sample_crypto\<lparr>getrandom := \<lambda>_. Some (replicate 24 7)\<rparr>)
      sample_aead sample_key sample_account header_mnemonic = Inr s"
    using sample_seal by blast
  moreover have "backup_id_derive sample_crypto sample_key sample_account = Inr sample_backup_id"
    by (rule sample_backup_id_derive)
  moreover have "length (header_bytes header_mnemonic) = 26" "length (replicate 24 (7 :: byte)) = 24"
    by (simp_all add: header_mnemonic_bytes)
  ultimately show ?thesis
    using open_descriptor_iff_sealed [OF sample_crypto_laws(2) sample_aead_correct] by blast
qed

end
