(* ===== verification/Backup_Envelope.thy ===== *)
theory Backup_Envelope
  imports Backup_Base
begin

text \<open>
  The fixed 29-byte header of an encrypted object (\<open>kchat-backup/src/object/envelope.rs\<close>):
  serialisation and parsing are inverse, and parsing accepts nothing else.
\<close>

definition ENVELOPE_MAGIC :: bytes where
  "ENVELOPE_MAGIC = ascii ''KCBK''"

definition ENVELOPE_VERSION :: u16 where
  "ENVELOPE_VERSION = 1"

definition CRYPTO_SUITE_ID :: u16 where
  "CRYPTO_SUITE_ID = 1"

definition COMPRESSION_ID :: u16 where
  "COMPRESSION_ID = 1"

definition ENVELOPE_HEADER_BYTES :: nat where
  "ENVELOPE_HEADER_BYTES = 29"

definition STREAM_NONCE_PREFIX_BYTES :: nat where
  "STREAM_NONCE_PREFIX_BYTES = 19"

definition COMPRESSED_BLOCK_BYTES :: nat where
  "COMPRESSED_BLOCK_BYTES = 64 * 1024"

definition AEAD_TAG_BYTES :: nat where
  "AEAD_TAG_BYTES = 16"

definition parse_header :: "bytes \<Rightarrow> bytes backup_result" where
  "parse_header header =
     (if take 4 header \<noteq> ENVELOPE_MAGIC \<or>
         slice 4 6 header \<noteq> to_be_bytes16 ENVELOPE_VERSION \<or>
         slice 6 8 header \<noteq> to_be_bytes16 CRYPTO_SUITE_ID \<or>
         slice 8 10 header \<noteq> to_be_bytes16 COMPRESSION_ID
      then Inl unsupported_format
      else Inr (blit 0 (drop 10 header) (replicate STREAM_NONCE_PREFIX_BYTES 0)))"

definition serialize_header :: "bytes \<Rightarrow> bytes" where
  "serialize_header nonce_prefix =
     (let h0 = replicate ENVELOPE_HEADER_BYTES 0;
          h1 = blit 0 ENVELOPE_MAGIC h0;
          h2 = blit 4 (to_be_bytes16 ENVELOPE_VERSION) h1;
          h3 = blit 6 (to_be_bytes16 CRYPTO_SUITE_ID) h2;
          h4 = blit 8 (to_be_bytes16 COMPRESSION_ID) h3
      in blit 10 nonce_prefix h4)"

section \<open>Lemmas\<close>

lemmas envelope_consts =
  ENVELOPE_HEADER_BYTES_def STREAM_NONCE_PREFIX_BYTES_def COMPRESSED_BLOCK_BYTES_def AEAD_TAG_BYTES_def

lemma length_ENVELOPE_MAGIC [simp]: "length ENVELOPE_MAGIC = 4"
  by (simp add: ENVELOPE_MAGIC_def)

lemma serialize_header_layout:
  "length p = 19 \<Longrightarrow> serialize_header p =
     ENVELOPE_MAGIC @ to_be_bytes16 ENVELOPE_VERSION @ to_be_bytes16 CRYPTO_SUITE_ID @
     to_be_bytes16 COMPRESSION_ID @ p"
  by (simp add: serialize_header_def blit_def envelope_consts)

lemma length_serialize_header [simp]: "length p = 19 \<Longrightarrow> length (serialize_header p) = 29"
  by (simp add: serialize_header_layout)

lemma parse_header_Inr_iff:
  assumes "length h = 29"
  shows "parse_header h = Inr p \<longleftrightarrow> length p = 19 \<and> h = serialize_header p"
proof
  assume p: "parse_header h = Inr p"
  have "h = take 4 h @ slice 4 6 h @ slice 6 8 h @ slice 8 10 h @ slice 10 29 h"
    using assms by (simp add: slice_join slice_full flip: slice_zero)
  moreover have "slice 10 29 h = drop 10 h" using assms by (simp add: slice_def)
  moreover have "p = drop 10 h" "length p = 19"
    using p assms by (auto simp: parse_header_def blit_def envelope_consts split: if_splits)
  ultimately show "length p = 19 \<and> h = serialize_header p"
    using p by (auto simp: parse_header_def serialize_header_layout split: if_splits)
next
  assume "length p = 19 \<and> h = serialize_header p"
  then show "parse_header h = Inr p"
    by (auto simp: serialize_header_layout parse_header_def slice_append_left slice_append_right
        slice_full blit_def envelope_consts)
qed

lemma parse_serialize_header [simp]: "length p = 19 \<Longrightarrow> parse_header (serialize_header p) = Inr p"
  by (simp add: parse_header_Inr_iff)

section \<open>Properties\<close>

text \<open>The envelope header has exactly one accepted form: parsing a 29-byte header returns a nonce
  prefix if and only if the header is the serialisation of that 19-byte prefix, and fails with the
  unsupported-format error on every other header.\<close>

theorem envelope_header_exact:
  assumes "length h = ENVELOPE_HEADER_BYTES"
  shows "(parse_header h = Inr p \<longleftrightarrow> length p = STREAM_NONCE_PREFIX_BYTES \<and> h = serialize_header p) \<and>
    ((\<nexists>q. length q = STREAM_NONCE_PREFIX_BYTES \<and> h = serialize_header q) \<longrightarrow>
      parse_header h = Inl unsupported_format)"
proof -
  have "parse_header h = Inl unsupported_format \<or> (\<exists>q. parse_header h = Inr q)"
    by (auto simp: parse_header_def)
  then show ?thesis
    using parse_header_Inr_iff [of h] assms by (auto simp: envelope_consts)
qed

theorem envelope_header_exact_witness:
  "parse_header (serialize_header (replicate 19 5)) = Inr (replicate 19 5)"
  using envelope_header_exact [of "serialize_header (replicate 19 5)" "replicate 19 5"]
  by (simp add: envelope_consts)

end
