(* ===== verification/Backup_Io.thy ===== *)
theory Backup_Io
  imports Backup_Base
begin

text \<open>
  The byte sources and sinks of \<open>kchat-backup/src/object/io.rs\<close>, implemented by the caller of the
  library and so arguments of the model, and \<open>copy_opaque_bytes_v1\<close>. The properties: the copy always
  terminates, never writes more than the plaintext limit, and on a source and a sink that keep the
  contract of the traits it transfers exactly the source's bytes.
\<close>

section \<open>Sources and sinks\<close>

text \<open>
  \<open>read_chunk S dest s\<close> returns the reported count or an error, the bytes it stored at the front of
  the destination slice, and the source's next state. \<open>is_cancelled\<close> takes \<open>&self\<close>, but reads a flag
  that another thread may set: it may change the state too.
\<close>

record 's byte_source =
  read_chunk :: "bytes \<Rightarrow> 's \<Rightarrow> (backup_error_code + nat) \<times> bytes \<times> 's"
  is_cancelled :: "'s \<Rightarrow> bool \<times> 's"

record 'k byte_sink =
  write_chunk :: "bytes \<Rightarrow> 'k \<Rightarrow> (backup_error_code + unit) \<times> 'k"

text \<open>A destination slice keeps its length whatever is stored into it.\<close>

definition overwrite :: "bytes \<Rightarrow> bytes \<Rightarrow> bytes" where
  "overwrite dest written = take (length dest) (written @ drop (length written) dest)"

definition source_read ::
    "'s byte_source \<Rightarrow> bytes \<Rightarrow> 's \<Rightarrow> nat backup_result \<times> bytes \<times> 's" where
  "source_read S dest s =
     (case read_chunk S dest s of (r, written, s') \<Rightarrow> (map_err Failed r, overwrite dest written, s'))"

definition sink_write :: "'k byte_sink \<Rightarrow> bytes \<Rightarrow> ('k, backup_fault, unit) action" where
  "sink_write K c k = (case write_chunk K c k of (r, k') \<Rightarrow> (map_err Failed r, k'))"

section \<open>Opaque copy\<close>

text \<open>
  One iteration either ends the copy (\<open>Inl\<close>) or goes on with a larger total. The buffer is an array
  of \<open>MAX_IO_CHUNK_BYTES_V1\<close> bytes throughout.
\<close>

definition copy_step ::
    "'s byte_source \<Rightarrow> 'k byte_sink \<Rightarrow> bytes \<Rightarrow> u64 \<Rightarrow> 's \<Rightarrow> 'k
      \<Rightarrow> (u64 backup_result + bytes \<times> u64) \<times> 's \<times> 'k" where
  "copy_step S K buffer tot s k =
     (case source_read S buffer s of
        (Inl e, _, s') \<Rightarrow> (Inl (Inl e), s', k)
      | (Inr count, buffer', s') \<Rightarrow>
          if count > MAX_IO_CHUNK_BYTES_V1 then (Inl (Inl invalid_state), s', k)
          else if count = 0 then (Inl (Inr tot), s', k)
          else
            (case checked_add_limited tot (of_nat count) MAX_PLAINTEXT_OBJECT_BYTES_V1 of
               Inl e \<Rightarrow> (Inl (Inl e), s', k)
             | Inr tot' \<Rightarrow>
                 (case sink_write K (take count buffer') k of
                    (Inl e, k') \<Rightarrow> (Inl (Inl e), s', k')
                  | (Inr _, k') \<Rightarrow> (Inr (buffer', tot'), s', k'))))"

lemma length_overwrite [simp]: "length (overwrite dest w) = length dest"
  by (simp add: overwrite_def)

lemma unat_small_count: "n \<le> 65536 \<Longrightarrow> unat (of_nat n :: u64) = n"
  by (simp add: unat_of_nat)

lemma copy_step_progress:
  assumes "copy_step S K buffer tot s k = (Inr (buffer', tot'), s', k')"
  shows "unat tot < unat tot' \<and> unat tot' \<le> 1073741824"
proof -
  obtain n where "0 < n" "n \<le> 65536"
    "checked_add_limited tot (of_nat n) MAX_PLAINTEXT_OBJECT_BYTES_V1 = Inr tot'"
    using assms
    by (auto simp: copy_step_def MAX_IO_CHUNK_BYTES_V1_def split: prod.splits sum.splits if_splits)
  then show ?thesis using unat_small_count [of n] by (auto dest!: checked_add_limited_InrD)
qed

function copy_loop ::
    "'s byte_source \<Rightarrow> 'k byte_sink \<Rightarrow> bytes \<Rightarrow> u64 \<Rightarrow> 's \<Rightarrow> 'k \<Rightarrow> u64 backup_result \<times> 's \<times> 'k" where
  "copy_loop S K buffer tot s k =
     (case copy_step S K buffer tot s k of
        (Inl r, s', k') \<Rightarrow> (r, s', k')
      | (Inr (buffer', tot'), s', k') \<Rightarrow> copy_loop S K buffer' tot' s' k')"
  by pat_completeness auto
termination
  by (relation "measure (\<lambda>(S, K, buffer, tot, s, k). 1073741825 - unat tot)")
    (auto dest!: copy_step_progress [OF sym])

declare copy_loop.simps [simp del]

definition copy_opaque_bytes_v1 ::
    "'s byte_source \<Rightarrow> 'k byte_sink \<Rightarrow> 's \<Rightarrow> 'k \<Rightarrow> u64 backup_result \<times> 's \<times> 'k" where
  "copy_opaque_bytes_v1 S K s k = copy_loop S K (replicate MAX_IO_CHUNK_BYTES_V1 0) 0 s k"

section \<open>Contracts of the traits\<close>

text \<open>
  A source that keeps the documented contract and is not cancelled, \<open>R s\<close> being the bytes it still
  has: reads of up to \<open>MAX_IO_CHUNK_BYTES_V1\<close> bytes may be short, zero bytes are reported exactly at
  the permanent end.
\<close>

definition honest_source :: "'s byte_source \<Rightarrow> ('s \<Rightarrow> bytes) \<Rightarrow> bool" where
  "honest_source S R \<longleftrightarrow>
     (\<forall>s dest. dest \<noteq> [] \<and> length dest \<le> MAX_IO_CHUNK_BYTES_V1 \<longrightarrow>
        (\<exists>n w s'. read_chunk S dest s = (Inr n, w, s') \<and> n \<le> length dest \<and> n \<le> length w \<and>
           n \<le> length (R s) \<and> (n = 0 \<longleftrightarrow> R s = []) \<and> take n w = take n (R s) \<and> R s' = drop n (R s))) \<and>
     (\<forall>s. \<exists>s'. is_cancelled S s = (False, s') \<and> R s' = R s)"

text \<open>A sink that appends what it accepts; \<open>W k\<close> is what it holds. It may refuse a write.\<close>

definition faithful_sink :: "'k byte_sink \<Rightarrow> ('k \<Rightarrow> bytes) \<Rightarrow> bool" where
  "faithful_sink K W \<longleftrightarrow>
     (\<forall>c k k'. write_chunk K c k = (Inr (), k') \<longrightarrow> W k' = W k @ c) \<and>
     (\<forall>c k e k'. write_chunk K c k = (Inl e, k') \<longrightarrow> W k' = W k)"

text \<open>A sink that never refuses a write of at most \<open>MAX_IO_CHUNK_BYTES_V1\<close> bytes.\<close>

definition accepting_sink :: "'k byte_sink \<Rightarrow> bool" where
  "accepting_sink K \<longleftrightarrow> (\<forall>c k. length c \<le> MAX_IO_CHUNK_BYTES_V1 \<longrightarrow> (\<exists>k'. write_chunk K c k = (Inr (), k')))"

section \<open>Lemmas\<close>

lemma take_overwrite: "n \<le> length w \<Longrightarrow> n \<le> length dest \<Longrightarrow> take n (overwrite dest w) = take n w"
  by (simp add: overwrite_def min_def)

lemma honest_source_read:
  assumes "honest_source S R" and "dest \<noteq> []" and "length dest \<le> 65536"
  obtains n b s' where "source_read S dest s = (Inr n, b, s')" "length b = length dest" "n \<le> length dest"
    "n \<le> length (R s)" "n = 0 \<longleftrightarrow> R s = []" "take n b = take n (R s)" "R s' = drop n (R s)"
proof -
  from assms have "\<exists>n w s'. read_chunk S dest s = (Inr n, w, s') \<and> n \<le> length dest \<and> n \<le> length w \<and>
      n \<le> length (R s) \<and> (n = 0 \<longleftrightarrow> R s = []) \<and> take n w = take n (R s) \<and> R s' = drop n (R s)"
    unfolding honest_source_def by (simp add: MAX_IO_CHUNK_BYTES_V1_def)
  then obtain n w s' where "read_chunk S dest s = (Inr n, w, s')" "n \<le> length dest" "n \<le> length w"
    "n \<le> length (R s)" "n = 0 \<longleftrightarrow> R s = []" "take n w = take n (R s)" "R s' = drop n (R s)"
    by blast
  then show thesis using that [of n "overwrite dest w" s'] by (simp add: source_read_def take_overwrite)
qed

lemma honest_source_cancelled:
  assumes "honest_source S R"
  obtains s' where "is_cancelled S s = (False, s')" "R s' = R s"
  using assms unfolding honest_source_def by blast

lemma sink_write_faithful:
  assumes "faithful_sink K W" and "sink_write K c k = (r, k')"
  shows "W k' = (case r of Inl _ \<Rightarrow> W k | Inr _ \<Rightarrow> W k @ c)"
  using assms
  by (auto simp: sink_write_def faithful_sink_def map_err_def split: prod.splits sum.splits)

lemma sink_write_accepting:
  assumes "accepting_sink K" and "length c \<le> 65536"
  shows "\<exists>k'. sink_write K c k = (Inr (), k')"
proof -
  from assms obtain k' where "write_chunk K c k = (Inr (), k')"
    by (auto simp: accepting_sink_def MAX_IO_CHUNK_BYTES_V1_def)
  then show ?thesis by (simp add: sink_write_def)
qed

text \<open>Writing a byte string to a sink chunk by chunk appends the whole string, or a prefix on failure.\<close>

lemma sink_write_chunks:
  assumes "faithful_sink K W" and "sforeach cs (sink_write K) k = (r, k')"
  shows "\<exists>n. W k' = W k @ concat (take n cs) \<and> (\<forall>u. r = Inr u \<longrightarrow> n = length cs)"
  using assms(2)
proof (induction cs arbitrary: k)
  case Nil
  then show ?case by simp
next
  case (Cons c cs)
  obtain r1 k1 where w: "sink_write K c k = (r1, k1)" by fastforce
  note W1 = sink_write_faithful [OF assms(1) w]
  show ?case
  proof (cases r1)
    case (Inl e)
    with Cons.prems w W1 show ?thesis by (intro exI [of _ 0]) auto
  next
    case (Inr u)
    with Cons.prems w have "sforeach cs (sink_write K) k1 = (r, k')" by simp
    from Cons.IH [OF this] obtain n where
      "W k' = W k1 @ concat (take n cs)" "\<forall>u. r = Inr u \<longrightarrow> n = length cs" by blast
    with Inr W1 show ?thesis by (intro exI [of _ "Suc n"]) auto
  qed
qed

lemma sink_accepts_chunks:
  assumes "accepting_sink K"
  shows "\<forall>c \<in> set cs. length c \<le> 65536 \<Longrightarrow> \<exists>k'. sforeach cs (sink_write K) k = (Inr (), k')"
proof (induction cs arbitrary: k)
  case Nil
  then show ?case by simp
next
  case (Cons c cs)
  obtain k1 where "sink_write K c k = (Inr (), k1)"
    using sink_write_accepting [OF assms, of c k] Cons.prems by auto
  with Cons.IH [of k1] Cons.prems show ?case by simp
qed

text \<open>The copied bytes are counted, and bounded by the plaintext limit, whatever the source does.\<close>

lemma copy_step_faithful:
  assumes "faithful_sink K W" and "copy_step S K buffer tot s k = (out, s', k')" and "length buffer = 65536"
  shows "\<exists>c. W k' = W k @ c \<and>
    (case out of Inl (Inl e) \<Rightarrow> c = [] | Inl (Inr t) \<Rightarrow> c = [] \<and> t = tot
     | Inr (b', t) \<Rightarrow> length b' = 65536 \<and> unat t = unat tot + length c \<and> unat t \<le> 1073741824)"
proof -
  obtain r b s1 where rd: "source_read S buffer s = (r, b, s1)" by (metis prod_cases3)
  then have lb: "length b = 65536"
    using assms(3) by (auto simp: source_read_def split: prod.splits)
  show ?thesis
  proof (cases "\<exists>n. r = Inr n \<and> 0 < n \<and> n \<le> 65536")
    case False
    with assms rd show ?thesis
      by (auto simp: copy_step_def MAX_IO_CHUNK_BYTES_V1_def split: sum.splits if_splits)
  next
    case True
    then obtain n where r: "r = Inr n" "0 < n" "n \<le> 65536" by blast
    obtain rw kw where w: "sink_write K (take n b) k = (rw, kw)" by fastforce
    note W1 = sink_write_faithful [OF assms(1) w]
    show ?thesis
    proof (cases "checked_add_limited tot (of_nat n) MAX_PLAINTEXT_OBJECT_BYTES_V1")
      case (Inl e)
      with assms(2) rd r show ?thesis by (auto simp: copy_step_def MAX_IO_CHUNK_BYTES_V1_def)
    next
      case (Inr t)
      have t: "unat t = unat tot + length (take n b)" "unat t \<le> 1073741824"
        using checked_add_limited_InrD [OF Inr] unat_small_count [of n] r(3) lb by simp_all
      from Inr assms(2) rd r w have "out = (case rw of Inl e \<Rightarrow> Inl (Inl e) | Inr _ \<Rightarrow> Inr (b, t)) \<and> k' = kw"
        by (auto simp: copy_step_def MAX_IO_CHUNK_BYTES_V1_def split: sum.splits)
      with W1 t lb show ?thesis by (cases rw) (auto split: sum.splits)
    qed
  qed
qed

lemma copy_loop_faithful:
  assumes "faithful_sink K W"
  shows "length buffer = 65536 \<Longrightarrow> unat tot \<le> 1073741824 \<Longrightarrow> copy_loop S K buffer tot s k = (r, s', k') \<Longrightarrow>
    \<exists>c. W k' = W k @ c \<and> unat tot + length c \<le> 1073741824 \<and>
      (\<forall>t. r = Inr t \<longrightarrow> unat t = unat tot + length c)"
  using assms
proof (induction S K buffer tot s k rule: copy_loop.induct)
  case (1 S K buffer tot s k)
  obtain out s1 k1 where st: "copy_step S K buffer tot s k = (out, s1, k1)" by (metis prod_cases3)
  from copy_step_faithful [OF 1(5) st 1(2)] obtain c where c: "W k1 = W k @ c" and
    out: "case out of Inl (Inl e) \<Rightarrow> c = [] | Inl (Inr t) \<Rightarrow> c = [] \<and> t = tot
     | Inr (b', t) \<Rightarrow> length b' = 65536 \<and> unat t = unat tot + length c \<and> unat t \<le> 1073741824"
    by blast
  show ?case
  proof (cases out)
    case (Inl res)
    with 1(4) st have "r = res" "k' = k1" by (simp_all add: copy_loop.simps)
    with Inl c out 1(3) show ?thesis by (intro exI [of _ c]) (auto split: sum.splits)
  next
    case (Inr bt)
    obtain b t where bt: "bt = (b, t)" by fastforce
    with Inr 1(4) st have rest: "copy_loop S K b t s1 k1 = (r, s', k')"
      by (simp add: copy_loop.simps [of S K buffer])
    from Inr bt out have t: "length b = 65536" "unat t = unat tot + length c" "unat t \<le> 1073741824" by auto
    from 1(1) [OF st [symmetric] Inr bt [symmetric] refl t(1,3) rest 1(5)] obtain c' where
      "W k' = W k1 @ c'" "unat t + length c' \<le> 1073741824" "\<forall>x. r = Inr x \<longrightarrow> unat x = unat t + length c'"
      by blast
    with c t show ?thesis by (intro exI [of _ "c @ c'"]) auto
  qed
qed

lemma copy_step_honest:
  assumes S: "honest_source S R" and K: "faithful_sink K W" "accepting_sink K" and lb: "length buffer = 65536"
  obtains s' where "R s = []" "copy_step S K buffer tot s k = (Inl (Inr tot), s', k)"
  | n s' k' b t where "0 < n" "n \<le> length (R s)" "R s' = drop n (R s)" "W k' = W k @ take n (R s)"
      "length b = 65536" "unat t = unat tot + n" "unat t \<le> 1073741824"
      "copy_step S K buffer tot s k = (Inr (b, t), s', k')"
  | s' where "1073741824 < unat tot + length (R s)"
      "copy_step S K buffer tot s k = (Inl (Inl resource_limit_exceeded), s', k)"
proof -
  have "buffer \<noteq> []" using lb by auto
  have "length buffer \<le> 65536" using lb by simp
  with S \<open>buffer \<noteq> []\<close> obtain n b s' where rd: "source_read S buffer s = (Inr n, b, s')"
    and lb': "length b = length buffer" "n \<le> length buffer"
    and b: "n \<le> length (R s)" "n = 0 \<longleftrightarrow> R s = []" "take n b = take n (R s)" "R s' = drop n (R s)"
    by (rule honest_source_read)
  have len: "length b = 65536" "n \<le> 65536" using lb lb' by simp_all
  obtain k' where w: "sink_write K (take n b) k = (Inr (), k')"
    using sink_write_accepting [OF K(2), of "take n b" k] len by auto
  have W: "W k' = W k @ take n b" using sink_write_faithful [OF K(1) w] by simp
  note step = copy_step_def MAX_IO_CHUNK_BYTES_V1_def rd
  show thesis
  proof (cases "n = 0")
    case True
    with that(1) [of s'] b show thesis by (simp add: step)
  next
    case n: False
    show thesis
    proof (cases rule: checked_add_limited_cases [of tot "of_nat n" MAX_PLAINTEXT_OBJECT_BYTES_V1])
      case ok
      with n len w have "copy_step S K buffer tot s k = (Inr (b, tot + of_nat n), s', k')"
        by (simp add: step)
      with that(2) [of n s' k' b "tot + of_nat n"] ok n b len W unat_small_count [of n]
      show thesis by simp
    next
      case limit
      with n len have "copy_step S K buffer tot s k = (Inl (Inl resource_limit_exceeded), s', k)"
        by (simp add: step)
      with that(3) limit b(1) len unat_small_count [of n] show thesis by simp
    qed
  qed
qed

lemma copy_loop_honest:
  assumes S: "honest_source S R" and K: "faithful_sink K W" "accepting_sink K"
    and "length buffer = 65536" and "unat tot \<le> 1073741824"
  shows "\<exists>s' k' r. copy_loop S K buffer tot s k = (r, s', k') \<and>
    (if unat tot + length (R s) \<le> 1073741824
     then (\<exists>t. r = Inr t \<and> unat t = unat tot + length (R s)) \<and> W k' = W k @ R s
     else r = Inl resource_limit_exceeded)"
  using assms(4,5)
proof (induction "length (R s)" arbitrary: buffer tot s k rule: less_induct)
  case less
  show ?case
  proof (cases rule: copy_step_honest [OF S K less.prems(1), of s tot k])
    case (1 s')
    with less.prems(2) show ?thesis by (simp add: copy_loop.simps)
  next
    case (2 n s' k' b t)
    then have "length (R s') < length (R s)" by simp
    from less.hyps [OF this 2(5,7), of k'] 2 show ?thesis
      by (cases "unat tot + length (R s) \<le> 1073741824") (auto simp: copy_loop.simps [of S K buffer])
  next
    case (3 s')
    then show ?thesis by (simp add: copy_loop.simps)
  qed
qed

section \<open>Properties\<close>

text \<open>The opaque copy is bounded whatever the source and the sink do: the function is total, what
  reaches the sink never exceeds 1 GiB, and a reported total is exactly the number of bytes written.\<close>

theorem copy_opaque_bounded:
  assumes "faithful_sink K W" and "copy_opaque_bytes_v1 S K s k = (r, s', k')"
  shows "\<exists>c. W k' = W k @ c \<and> length c \<le> unat MAX_PLAINTEXT_OBJECT_BYTES_V1 \<and>
    (\<forall>t. r = Inr t \<longrightarrow> unat t = length c)"
  using copy_loop_faithful [OF assms(1), of "replicate 65536 0" 0 S s k r s' k'] assms(2)
  by (auto simp: copy_opaque_bytes_v1_def MAX_IO_CHUNK_BYTES_V1_def)

text \<open>On a source and a sink that keep their contracts the opaque copy transfers exactly the bytes
  of the source, for every pattern of short reads, when they fit the 1 GiB limit, and reports the
  resource-limit error otherwise.\<close>

theorem copy_opaque_exact:
  assumes "honest_source S R" and "faithful_sink K W" and "accepting_sink K"
  shows "\<exists>s' k' r. copy_opaque_bytes_v1 S K s k = (r, s', k') \<and>
    (if length (R s) \<le> unat MAX_PLAINTEXT_OBJECT_BYTES_V1
     then (\<exists>t. r = Inr t \<and> unat t = length (R s)) \<and> W k' = W k @ R s
     else r = Inl resource_limit_exceeded)"
  using copy_loop_honest [OF assms, of "replicate 65536 0" 0 s k]
  by (cases "length (R s) \<le> 1073741824") (simp_all add: copy_opaque_bytes_v1_def MAX_IO_CHUNK_BYTES_V1_def)

text \<open>An in-memory source that reads at most \<open>m\<close> bytes at a time, and an in-memory sink.\<close>

definition memory_source :: "nat \<Rightarrow> bytes byte_source" where
  "memory_source m = \<lparr>
     read_chunk = (\<lambda>dest s. let n = min (min (Suc m) (length dest)) (length s) in (Inr n, take n s, drop n s)),
     is_cancelled = (\<lambda>s. (False, s))\<rparr>"

definition memory_sink :: "bytes byte_sink" where
  "memory_sink = \<lparr>write_chunk = (\<lambda>c k. (Inr (), k @ c))\<rparr>"

lemma memory_source_cancelled [simp]: "is_cancelled (memory_source m) s = (False, s)"
  by (simp add: memory_source_def)

lemma memory_source_honest: "honest_source (memory_source m) (\<lambda>s. s)"
  by (auto simp: honest_source_def memory_source_def Let_def min_def split: if_splits)

lemma memory_sink_laws: "faithful_sink memory_sink (\<lambda>k. k)" "accepting_sink memory_sink"
  by (simp_all add: faithful_sink_def accepting_sink_def memory_sink_def)

theorem copy_opaque_exact_witness:
  "\<exists>s' t. copy_opaque_bytes_v1 (memory_source 2) memory_sink [10, 20, 30] [] = (Inr t, s', [10, 20, 30])"
  using copy_opaque_exact [OF memory_source_honest memory_sink_laws, of 2 "[10, 20, 30]" "[]"]
  by auto

theorem copy_opaque_bounded_witness:
  "length (snd (snd (copy_opaque_bytes_v1 (memory_source 2) memory_sink [10, 20, 30] []))) \<le> 1073741824"
proof -
  obtain r s' k' where c: "copy_opaque_bytes_v1 (memory_source 2) memory_sink [10, 20, 30] [] = (r, s', k')"
    by (metis prod_cases3)
  from copy_opaque_bounded [OF memory_sink_laws(1) c] show ?thesis by (auto simp: c)
qed

end
