(* ===== verification/Backup_Writer.thy ===== *)
theory Backup_Writer
  imports Backup_Context Backup_Envelope Backup_Io
begin

text \<open>
  The object writer of \<open>kchat-backup/src/object/writer.rs\<close>: the caller's plaintext goes through a
  Zstd encoder into \<open>EnvelopeWriter\<close>, which cuts the compressed stream into 64 KiB blocks, encrypts
  them with STREAM-BE32, and frames, counts, hashes and writes the result to the caller's sink.
  The Zstd encoder, the STREAM cipher, SHA-256 and the random source are third-party code: the
  record \<open>object_env\<close>. The sink is borrowed by the writer and outlives it, so its state is passed
  beside the writer's.
\<close>

section \<open>Third-party primitives\<close>

text \<open>\<open>aead_stream\<close>: an encryptor or decryptor changes its counter on every \<open>next\<close> call.\<close>

record ('e, 'd) stream_cipher =
  encryptor_new :: "bytes \<Rightarrow> bytes \<Rightarrow> 'e"
  encrypt_next :: "'e \<Rightarrow> bytes \<Rightarrow> bytes \<Rightarrow> bytes option \<times> 'e"
  encrypt_last :: "'e \<Rightarrow> bytes \<Rightarrow> bytes \<Rightarrow> bytes option"
  decryptor_new :: "bytes \<Rightarrow> bytes \<Rightarrow> 'd"
  decrypt_next :: "'d \<Rightarrow> bytes \<Rightarrow> bytes \<Rightarrow> bytes option \<times> 'd"
  decrypt_last :: "'d \<Rightarrow> bytes \<Rightarrow> bytes \<Rightarrow> bytes option"

text \<open>
  \<open>zstd::stream::write::Encoder\<close> owns the inner writer: \<open>write_all\<close> and \<open>try_finish\<close> are the lists of
  \<open>write\<close> calls they issue on it, and whether they report success after those calls succeeded. A
  failing inner write makes them fail at once.
\<close>

record 'z zstd_encoder =
  encoder_new :: "int \<Rightarrow> 'z option"
  encoder_write_all :: "'z \<Rightarrow> bytes \<Rightarrow> bytes list \<times> bool \<times> 'z"
  encoder_try_finish :: "'z \<Rightarrow> bytes list \<times> bool"

text \<open>\<open>sha256\<close> is the digest of all bytes that were fed to the incremental hasher.\<close>

record ('e, 'd, 'z, 'k) object_env =
  stream :: "('e, 'd) stream_cipher"
  zstd :: "'z zstd_encoder"
  sink :: "'k byte_sink"
  sha256 :: "bytes \<Rightarrow> bytes"
  random_fill :: "nat \<Rightarrow> bytes option"

section \<open>Envelope writer\<close>

record backup_object_descriptor =
  ciphertext_size :: u64
  ciphertext_sha256 :: bytes
  format_version :: u16

record 'e envelope_writer =
  encryptor :: "'e option"
  ew_context :: bytes
  pending :: bytes
  compressed_bytes :: u64
  ciphertext_bytes :: u64
  block_count :: u64
  hash :: bytes
  failure :: "backup_error_code option"

definition fault_code :: "backup_fault \<Rightarrow> backup_error_code option" where
  "fault_code e = (case e of Failed c \<Rightarrow> Some c | Panic \<Rightarrow> None)"

definition write_envelope_bytes ::
    "('e, 'd, 'z, 'k) object_env \<Rightarrow> bytes \<Rightarrow> ('e envelope_writer \<times> 'k, backup_fault, unit) action" where
  "write_envelope_bytes G bs st =
     (case st of (w, k) \<Rightarrow>
       (case checked_add_limited (ciphertext_bytes w) (len64 bs) MAX_CIPHERTEXT_OBJECT_BYTES_V1 of
          Inl e \<Rightarrow> (Inl e, w, k)
        | Inr n \<Rightarrow>
            let w1 = w\<lparr>ciphertext_bytes := n, hash := hash w @ bs\<rparr> in
            (case sforeach (chunks MAX_IO_CHUNK_BYTES_V1 bs) (sink_write (sink G)) k of
               (r, k') \<Rightarrow> (r, w1, k'))))"

definition write_encrypted_block ::
    "('e, 'd, 'z, 'k) object_env \<Rightarrow> bytes \<Rightarrow> ('e envelope_writer \<times> 'k, backup_fault, unit) action" where
  "write_encrypted_block G ciphertext st =
     (case st of (w, k) \<Rightarrow>
       if length ciphertext < AEAD_TAG_BYTES \<or> length ciphertext > COMPRESSED_BLOCK_BYTES + AEAD_TAG_BYTES
       then (Inl invalid_state, w, k)
       else
         (case checked_add_limited (block_count w) 1 MAX_ENCRYPTED_BLOCKS_PER_OBJECT_V1 of
            Inl e \<Rightarrow> (Inl e, w, k)
          | Inr n \<Rightarrow>
              let w1 = w\<lparr>block_count := n\<rparr> in
              if 2 ^ 32 \<le> length ciphertext then (Inl invalid_state, w1, k)
              else
                sbind (write_envelope_bytes G (to_be_bytes32 (of_nat (length ciphertext))))
                  (\<lambda>_. write_envelope_bytes G ciphertext) (w1, k)))"

lemma write_envelope_bytes_pending [simp]:
  "pending (fst (snd (write_envelope_bytes G bs st))) = pending (fst st)"
  by (auto simp: write_envelope_bytes_def Let_def split: prod.splits sum.splits)

lemma write_encrypted_block_pending [simp]:
  "pending (fst (snd (write_encrypted_block G c st))) = pending (fst st)"
  using sbind_preserves [where f = "\<lambda>st. pending (fst st)" and
      m = "write_envelope_bytes G (to_be_bytes32 (of_nat (length c)))" and k = "\<lambda>_. write_envelope_bytes G c"]
  by (simp add: write_encrypted_block_def Let_def split: prod.splits sum.splits)

text \<open>The loop of \<open>write_compressed\<close>: encrypt and write every full block.\<close>

function write_full_blocks ::
    "('e, 'd, 'z, 'k) object_env \<Rightarrow> ('e envelope_writer \<times> 'k, backup_fault, unit) action" where
  "write_full_blocks G (w, k) =
     (if length (pending w) < COMPRESSED_BLOCK_BYTES then (Inr (), w, k)
      else
        let block = take COMPRESSED_BLOCK_BYTES (pending w);
            w1 = w\<lparr>pending := drop COMPRESSED_BLOCK_BYTES (pending w)\<rparr> in
        (case encryptor w1 of
           None \<Rightarrow> (Inl invalid_state, w1, k)
         | Some e \<Rightarrow>
             (case encrypt_next (stream G) e block (ew_context w1) of
                (None, e') \<Rightarrow> (Inl invalid_state, w1\<lparr>encryptor := Some e'\<rparr>, k)
              | (Some ciphertext, e') \<Rightarrow>
                  (case write_encrypted_block G ciphertext (w1\<lparr>encryptor := Some e'\<rparr>, k) of
                     (Inl err, st) \<Rightarrow> (Inl err, st)
                   | (Inr _, st) \<Rightarrow> write_full_blocks G st))))"
  by pat_completeness auto
termination
proof (relation "measure (\<lambda>(G, w, k). length (pending w))", goal_cases)
  case 1
  show ?case by simp
next
  case (2 G w k block w1 e x e' c y st)
  from 2(7) [symmetric] 2(8) have "pending (fst st) = pending w1"
    using write_encrypted_block_pending [of G c "(w1\<lparr>encryptor := Some e'\<rparr>, k)"] by simp
  with 2 show ?case by (cases st) (simp add: COMPRESSED_BLOCK_BYTES_def)
qed

declare write_full_blocks.simps [simp del]

definition write_compressed ::
    "('e, 'd, 'z, 'k) object_env \<Rightarrow> bytes \<Rightarrow> ('e envelope_writer \<times> 'k, backup_fault, unit) action" where
  "write_compressed G bs st =
     (case st of (w, k) \<Rightarrow>
       (case checked_add_limited (compressed_bytes w) (len64 bs) MAX_COMPRESSED_OBJECT_BYTES_V1 of
          Inl e \<Rightarrow> (Inl e, w, k)
        | Inr n \<Rightarrow>
            write_full_blocks G (w\<lparr>compressed_bytes := n, pending := pending w @ bs\<rparr>, k)))"

definition envelope_new ::
    "('e, 'd, 'z, 'k) object_env \<Rightarrow> object_context \<Rightarrow> 'k \<Rightarrow> bytes
      \<Rightarrow> 'e envelope_writer backup_result \<times> 'k" where
  "envelope_new G ctx k nonce_prefix =
     (if length (object_key_bytes (object_key ctx)) \<noteq> 32 then (Inl invalid_state, k)
      else if length nonce_prefix \<noteq> STREAM_NONCE_PREFIX_BYTES then (Inl invalid_state, k)
      else
        let writer = \<lparr>
          encryptor = Some (encryptor_new (stream G) (object_key_bytes (object_key ctx)) nonce_prefix),
          ew_context = canonical_bytes ctx, pending = [], compressed_bytes = 0, ciphertext_bytes = 0,
          block_count = 0, hash = [], failure = None\<rparr> in
        (case write_envelope_bytes G (serialize_header nonce_prefix) (writer, k) of
           (Inl e, _, k') \<Rightarrow> (Inl e, k')
         | (Inr _, w', k') \<Rightarrow> (Inr w', k')))"

definition envelope_finish ::
    "('e, 'd, 'z, 'k) object_env \<Rightarrow> 'e envelope_writer \<Rightarrow> 'k
      \<Rightarrow> backup_object_descriptor backup_result \<times> 'k" where
  "envelope_finish G w k =
     (case encryptor w of
        None \<Rightarrow> (Inl invalid_state, k)
      | Some e \<Rightarrow>
          let w1 = w\<lparr>encryptor := None, pending := []\<rparr> in
          (case encrypt_last (stream G) e (pending w) (ew_context w1) of
             None \<Rightarrow> (Inl invalid_state, k)
           | Some ciphertext \<Rightarrow>
               (case write_encrypted_block G ciphertext (w1, k) of
                  (Inl err, _, k') \<Rightarrow> (Inl err, k')
                | (Inr _, w2, k') \<Rightarrow>
                    (Inr \<lparr>ciphertext_size = ciphertext_bytes w2,
                          ciphertext_sha256 = blit 0 (sha256 G (hash w2)) (replicate 32 0),
                          format_version = ENVELOPE_VERSION\<rparr>, k'))))"

definition take_failure :: "'e envelope_writer \<Rightarrow> backup_fault option \<times> 'e envelope_writer" where
  "take_failure w = (map_option Failed (failure w), w\<lparr>failure := None\<rparr>)"

text \<open>\<open>impl Write for EnvelopeWriter\<close>\<close>

definition envelope_write ::
    "('e, 'd, 'z, 'k) object_env \<Rightarrow> bytes \<Rightarrow> ('e envelope_writer \<times> 'k, unit, unit) action" where
  "envelope_write G bs st =
     (case write_compressed G bs st of
        (Inl e, w', k') \<Rightarrow> (Inl (), w'\<lparr>failure := fault_code e\<rparr>, k')
      | (Inr _, w', k') \<Rightarrow> (Inr (), w', k'))"

section \<open>Object writer\<close>

record ('e, 'z) active_writer =
  encoder :: 'z
  envelope :: "'e envelope_writer"
  plaintext_bytes :: u64

datatype writer_terminal = Active | Finished | Aborted | TerminalFailed

record ('e, 'z) object_writer =
  active :: "('e, 'z) active_writer option"
  terminal :: writer_terminal

text \<open>A call of the encoder: it issues its writes on the envelope and then succeeds or fails.\<close>

definition encoder_run ::
    "('e, 'd, 'z, 'k) object_env \<Rightarrow> bytes list \<times> bool \<Rightarrow> 'e envelope_writer \<times> 'k
      \<Rightarrow> bool \<times> 'e envelope_writer \<times> 'k" where
  "encoder_run G call st =
     (case sforeach (fst call) (envelope_write G) st of
        (Inl _, st') \<Rightarrow> (False, st')
      | (Inr _, st') \<Rightarrow> (snd call, st'))"

definition writer_new ::
    "('e, 'd, 'z, 'k) object_env \<Rightarrow> object_context \<Rightarrow> 'k \<Rightarrow> ('e, 'z) object_writer backup_result \<times> 'k" where
  "writer_new G ctx k =
     (case random_fill G STREAM_NONCE_PREFIX_BYTES of
        None \<Rightarrow> (Inl io_error, k)
      | Some nonce_prefix \<Rightarrow>
          (case envelope_new G ctx k nonce_prefix of
             (Inl e, k') \<Rightarrow> (Inl e, k')
           | (Inr ew, k') \<Rightarrow>
               (case encoder_new (zstd G) 3 of
                  None \<Rightarrow> (Inl io_error, k')
                | Some z \<Rightarrow>
                    (Inr \<lparr>active = Some \<lparr>encoder = z, envelope = ew, plaintext_bytes = 0\<rparr>,
                          terminal = Active\<rparr>, k'))))"

definition write_active ::
    "('e, 'd, 'z, 'k) object_env \<Rightarrow> bytes \<Rightarrow> ('e, 'z) active_writer \<times> 'k
      \<Rightarrow> unit backup_result \<times> ('e, 'z) active_writer \<times> 'k" where
  "write_active G bs st =
     (case st of (a, k) \<Rightarrow>
       (case checked_add_limited (plaintext_bytes a) (len64 bs) MAX_PLAINTEXT_OBJECT_BYTES_V1 of
          Inl e \<Rightarrow> (Inl e, a, k)
        | Inr n \<Rightarrow>
            (case encoder_write_all (zstd G) (encoder a) bs of
               (writes, success, z') \<Rightarrow>
                 (case encoder_run G (writes, success) (envelope a, k) of
                    (True, w', k') \<Rightarrow> (Inr (), \<lparr>encoder = z', envelope = w', plaintext_bytes = n\<rparr>, k')
                  | (False, w', k') \<Rightarrow>
                      (case take_failure w' of
                         (f, w'') \<Rightarrow>
                           (Inl (case f of None \<Rightarrow> io_error | Some e \<Rightarrow> e),
                            \<lparr>encoder = z', envelope = w'', plaintext_bytes = n\<rparr>, k'))))))"

definition write_plaintext ::
    "('e, 'd, 'z, 'k) object_env \<Rightarrow> bytes \<Rightarrow> (('e, 'z) object_writer \<times> 'k, backup_fault, unit) action" where
  "write_plaintext G bs st =
     (case st of (wr, k) \<Rightarrow>
       if terminal wr \<noteq> Active then (Inl invalid_state, wr, k)
       else
         (case active wr of
            None \<Rightarrow> (Inl invalid_state, wr\<lparr>active := None, terminal := TerminalFailed\<rparr>, k)
          | Some a \<Rightarrow>
              (case write_active G bs (a, k) of
                 (Inl e, _, k') \<Rightarrow> (Inl e, wr\<lparr>active := None, terminal := TerminalFailed\<rparr>, k')
               | (Inr _, a', k') \<Rightarrow> (Inr (), wr\<lparr>active := Some a'\<rparr>, k'))))"

definition finish ::
    "('e, 'd, 'z, 'k) object_env
      \<Rightarrow> (('e, 'z) object_writer \<times> 'k, backup_fault, backup_object_descriptor) action" where
  "finish G st =
     (case st of (wr, k) \<Rightarrow>
       if terminal wr \<noteq> Active then (Inl invalid_state, wr, k)
       else
         (case active wr of
            None \<Rightarrow> (Inl invalid_state, wr, k)
          | Some a \<Rightarrow>
              let wr1 = wr\<lparr>active := None\<rparr> in
              (case encoder_run G (encoder_try_finish (zstd G) (encoder a)) (envelope a, k) of
                 (False, w', k') \<Rightarrow>
                   (Inl (case fst (take_failure w') of None \<Rightarrow> io_error | Some e \<Rightarrow> e),
                    wr1\<lparr>terminal := TerminalFailed\<rparr>, k')
               | (True, w', k') \<Rightarrow>
                   (case envelope_finish G w' k' of
                      (Inr d, k'') \<Rightarrow> (Inr d, wr1\<lparr>terminal := Finished\<rparr>, k'')
                    | (Inl e, k'') \<Rightarrow> (Inl e, wr1\<lparr>terminal := TerminalFailed\<rparr>, k'')))))"

definition abort :: "(('e, 'z) object_writer \<times> 'k, backup_fault, unit) action" where
  "abort st =
     (case st of (wr, k) \<Rightarrow>
       if terminal wr \<noteq> Active then (Inl invalid_state, wr, k)
       else (Inr (), wr\<lparr>active := None, terminal := Aborted\<rparr>, k))"

section \<open>Sealing a whole object\<close>

definition seal_step ::
    "('e, 'd, 'z, 'k) object_env \<Rightarrow> 's byte_source \<Rightarrow> bytes \<Rightarrow> 's \<Rightarrow> ('e, 'z) object_writer \<Rightarrow> 'k
      \<Rightarrow> (unit backup_result + bytes) \<times> 's \<times> ('e, 'z) object_writer \<times> 'k" where
  "seal_step G S buffer s wr k =
     (case is_cancelled S s of
        (True, s1) \<Rightarrow> (Inl (Inl cancelled), s1, snd (abort (wr, k)))
      | (False, s1) \<Rightarrow>
          (case source_read S buffer s1 of
             (Inl e, _, s2) \<Rightarrow> (Inl (Inl e), s2, wr, k)
           | (Inr count, buffer', s2) \<Rightarrow>
               if count > MAX_IO_CHUNK_BYTES_V1 then (Inl (Inl invalid_state), s2, wr, k)
               else if count = 0 then (Inl (Inr ()), s2, wr, k)
               else
                 (case is_cancelled S s2 of
                    (True, s3) \<Rightarrow> (Inl (Inl cancelled), s3, snd (abort (wr, k)))
                  | (False, s3) \<Rightarrow>
                      (case write_plaintext G (take count buffer') (wr, k) of
                         (Inl e, st) \<Rightarrow> (Inl (Inl e), s3, st)
                       | (Inr _, st) \<Rightarrow> (Inr buffer', s3, st)))))"

definition written :: "('e, 'z) object_writer \<Rightarrow> nat" where
  "written wr = (case active wr of None \<Rightarrow> 0 | Some a \<Rightarrow> unat (plaintext_bytes a))"

lemma write_plaintext_written:
  assumes "write_plaintext G bs (wr, k) = (Inr u, wr', k')" and "length bs < 2 ^ 64"
  shows "written wr' = written wr + length bs \<and> written wr' \<le> 1073741824"
  using assms
  by (auto simp: write_plaintext_def write_active_def written_def unat_len64
      split: option.splits sum.splits prod.splits bool.splits if_splits dest!: checked_add_limited_InrD)

lemma seal_step_progress:
  assumes "seal_step G S buffer s wr k = (Inr buffer', s', wr', k')" and "length buffer = 65536"
  shows "length buffer' = 65536 \<and> written wr < written wr' \<and> written wr' \<le> 1073741824"
proof -
  obtain n s1 s2 where n: "0 < n" "n \<le> 65536" "source_read S buffer s1 = (Inr n, buffer', s2)"
    "write_plaintext G (take n buffer') (wr, k) = (Inr (), wr', k')"
    using assms(1)
    by (auto simp: seal_step_def MAX_IO_CHUNK_BYTES_V1_def split: prod.splits sum.splits bool.splits if_splits)
  have b: "length buffer' = 65536"
    using n(3) assms(2) by (auto simp: source_read_def split: prod.splits)
  with n show ?thesis using write_plaintext_written [OF n(4)] by simp
qed

text \<open>
  The loop. The buffer is an array of \<open>MAX_IO_CHUNK_BYTES_V1\<close> bytes, which the guard records; every
  iteration keeps its length, so the guard's other branch is not taken.
\<close>

function seal_loop ::
    "('e, 'd, 'z, 'k) object_env \<Rightarrow> 's byte_source \<Rightarrow> bytes \<Rightarrow> 's \<Rightarrow> ('e, 'z) object_writer \<Rightarrow> 'k
      \<Rightarrow> unit backup_result \<times> 's \<times> ('e, 'z) object_writer \<times> 'k" where
  "seal_loop G S buffer s wr k =
     (if length buffer \<noteq> MAX_IO_CHUNK_BYTES_V1 then (Inl Panic, s, wr, k)
      else
        (case seal_step G S buffer s wr k of
           (Inl r, s', wr', k') \<Rightarrow> (r, s', wr', k')
         | (Inr buffer', s', wr', k') \<Rightarrow> seal_loop G S buffer' s' wr' k'))"
  by pat_completeness auto
termination
  by (relation "measure (\<lambda>(G, S, buffer, s, wr, k). 1073741825 - written wr)")
    (auto simp: MAX_IO_CHUNK_BYTES_V1_def dest!: seal_step_progress [OF sym])

declare seal_loop.simps [simp del]

definition seal_object_v1 ::
    "('e, 'd, 'z, 'k) object_env \<Rightarrow> object_context \<Rightarrow> 's byte_source \<Rightarrow> 's \<Rightarrow> 'k
      \<Rightarrow> backup_object_descriptor backup_result \<times> 's \<times> 'k" where
  "seal_object_v1 G ctx S s k =
     (case is_cancelled S s of
        (True, s0) \<Rightarrow> (Inl cancelled, s0, k)
      | (False, s0) \<Rightarrow>
          (case writer_new G ctx k of
             (Inl e, k0) \<Rightarrow> (Inl e, s0, k0)
           | (Inr wr, k0) \<Rightarrow>
               (case seal_loop G S (replicate MAX_IO_CHUNK_BYTES_V1 0) s0 wr k0 of
                  (Inl e, s1, wr1, k1) \<Rightarrow> (Inl e, s1, k1)
                | (Inr _, s1, wr1, k1) \<Rightarrow>
                    (case is_cancelled S s1 of
                       (True, s2) \<Rightarrow> (Inl cancelled, s2, snd (snd (abort (wr1, k1))))
                     | (False, s2) \<Rightarrow>
                         (case finish G (wr1, k1) of (r, _, k2) \<Rightarrow> (r, s2, k2))))))"

end
