(* ===== verification/Backup_Compression.thy ===== *)
theory Backup_Compression
  imports Backup_Io
begin

text \<open>
  Bounded Zstd decoding (\<open>kchat-backup/src/object/compression.rs\<close>): the frame header is checked
  before any byte reaches the decoder, and the decoder's output is counted against the plaintext
  limit before it is emitted. The raw Zstd decoder is third-party code, the record \<open>zstd_decoder\<close>.
  Out-of-range slices and arithmetic overflow are the fault \<open>Panic\<close>; the lemmas show that a decoder
  that keeps its documented bounds never causes it.
\<close>

section \<open>Third-party decoder\<close>

text \<open>The sizes a decoder reports are \<open>usize\<close> values.\<close>

record run_status =
  bytes_read :: u64
  bytes_written :: u64
  remaining :: u64

text \<open>\<open>run_on_buffers D z input out\<close> also returns what it stored at the front of \<open>out\<close>.\<close>

record 'd zstd_decoder =
  decoder_new :: "'d option"
  set_window_log_max :: "'d \<Rightarrow> nat \<Rightarrow> 'd option"
  run_on_buffers :: "'d \<Rightarrow> bytes \<Rightarrow> bytes \<Rightarrow> (run_status \<times> bytes) option \<times> 'd"

section \<open>Header check\<close>

abbreviation invalid :: backup_fault where
  "invalid \<equiv> Failed InvalidCompressedData"

definition header_size_bytes :: "byte \<Rightarrow> nat" where
  "header_size_bytes descriptor =
     (let single = (descriptor AND 0x20 \<noteq> 0); tag = drop_bit 6 descriptor in
      if tag = 0 \<and> single then 1
      else if tag = 0 then 0
      else if tag = 1 then 2
      else if tag = 2 then 4
      else 8)"

definition le_size :: "bytes \<Rightarrow> u64" where
  "le_size bs = foldl (\<lambda>size (i, byte). size OR push_bit (8 * i) (ucast byte)) 0 (enumerate 0 bs)"

definition check_header :: "bytes \<Rightarrow> bool backup_result" where
  "check_header header =
     (if length header < 5 then Inr False
      else if take 4 header \<noteq> [0x28, 0xb5, 0x2f, 0xfd] then Inl invalid
      else
        let descriptor = header ! 4 in
        if descriptor AND 0x1b \<noteq> 0 then Inl invalid
        else
          let single = (descriptor AND 0x20 \<noteq> 0);
              size_bytes = header_size_bytes descriptor;
              size_offset = (if single then 5 else 6) in
          if length header < size_offset + size_bytes then Inr False
          else
            let size0 = le_size (slice size_offset (size_offset + size_bytes) header);
                size = (if size_bytes = 2 then size0 + 256 else size0);
                window =
                  (if single then size
                   else
                     let base = push_bit (10 + unat (drop_bit 3 (header ! 5))) (1 :: u64) in
                     base + (base div 8) * ucast (header ! 5 AND 7)) in
            if window > MAX_ZSTD_WINDOW_BYTES_V1 \<or> size > MAX_PLAINTEXT_OBJECT_BYTES_V1
            then Inl resource_limit_exceeded
            else Inr True)"

section \<open>Decoder\<close>

record 'd bounded_decoder =
  decoder :: 'd
  header :: bytes
  header_checked :: bool
  complete :: bool
  decoded :: u64
  limit :: u64
  out_buf :: bytes

text \<open>\<open>u64::ilog2\<close> on a positive number.\<close>

fun ilog2 :: "nat \<Rightarrow> nat" where
  "ilog2 n = (if n < 2 then 0 else Suc (ilog2 (n div 2)))"

declare ilog2.simps [simp del]

definition bounded_decoder_new :: "'d zstd_decoder \<Rightarrow> 'd bounded_decoder backup_result" where
  "bounded_decoder_new D =
     rbind (ok_or io_error (decoder_new D)) (\<lambda>z.
     rbind (ok_or invalid_state (set_window_log_max D z (ilog2 (unat MAX_ZSTD_WINDOW_BYTES_V1)))) (\<lambda>z'.
     Inr \<lparr>decoder = z', header = [], header_checked = False, complete = False, decoded = 0,
          limit = MAX_PLAINTEXT_OBJECT_BYTES_V1, out_buf = replicate MAX_IO_CHUNK_BYTES_V1 0\<rparr>))"

text \<open>
  One iteration of the loop of \<open>decode\<close>; it ends the loop (\<open>Inl\<close>) or goes on with the remaining
  bytes. \<open>emit\<close> and \<open>canc\<close> are the closures, acting on the caller's state.
\<close>

definition decode_run ::
    "'d zstd_decoder \<Rightarrow> 'd bounded_decoder \<Rightarrow> bytes \<Rightarrow> (run_status backup_result) \<times> 'd bounded_decoder" where
  "decode_run D d bs =
     (if limit d < decoded d \<or> limit d - decoded d + 1 = 0 then (Inl Panic, d)
      else
        let capacity = min (length (out_buf d)) (unat (limit d - decoded d + 1)) in
        (case run_on_buffers D (decoder d) bs (take capacity (out_buf d)) of
           (None, z) \<Rightarrow> (Inl invalid, d\<lparr>decoder := z\<rparr>)
         | (Some (status, stored), z) \<Rightarrow>
             let d1 = d\<lparr>decoder := z,
                        out_buf := overwrite (take capacity (out_buf d)) stored @ drop capacity (out_buf d)\<rparr> in
             (case checked_add_limited (decoded d1) (bytes_written status) (limit d1) of
                Inl e \<Rightarrow> (Inl e, d1)
              | Inr t \<Rightarrow> (Inr status, d1\<lparr>decoded := t\<rparr>))))"

definition decode_step ::
    "'d zstd_decoder \<Rightarrow> (bytes \<Rightarrow> ('x, backup_fault, unit) action) \<Rightarrow> ('x, backup_fault, unit) action
      \<Rightarrow> 'd bounded_decoder \<Rightarrow> bytes \<Rightarrow> 'x \<Rightarrow> (unit backup_result + bytes) \<times> 'd bounded_decoder \<times> 'x" where
  "decode_step D emit canc d bs x =
     (case canc x of
        (Inl e, x1) \<Rightarrow> (Inl (Inl e), d, x1)
      | (Inr _, x1) \<Rightarrow>
          (case decode_run D d bs of
             (Inl e, d1) \<Rightarrow> (Inl (Inl e), d1, x1)
           | (Inr status, d1) \<Rightarrow>
               let n = unat (bytes_written status) in
               (case sbind canc (\<lambda>_.
                     sbind (if n = 0 then sret ()
                            else if length (out_buf d1) < n then sfail Panic
                            else emit (take n (out_buf d1))) (\<lambda>_.
                     canc)) x1 of
                  (Inl e, x2) \<Rightarrow> (Inl (Inl e), d1, x2)
                | (Inr _, x2) \<Rightarrow>
                    if length bs < unat (bytes_read status) then (Inl (Inl Panic), d1, x2)
                    else
                      let bs' = drop (unat (bytes_read status)) bs;
                          done' = (if bs' = [] then Inr () else Inl invalid) in
                      if remaining status = 0 then (Inl done', d1\<lparr>complete := True\<rparr>, x2)
                      else if bytes_read status = 0 \<and> bytes_written status = 0 then (Inl done', d1, x2)
                      else (Inr bs', d1, x2))))"

lemma decode_run_progress:
  assumes "decode_run D d bs = (Inr status, d')"
  shows "limit d' = limit d \<and> unat (decoded d') = unat (decoded d) + unat (bytes_written status) \<and>
    unat (decoded d') \<le> unat (limit d) \<and> length (out_buf d') = length (out_buf d)"
  using assms
  by (auto simp: decode_run_def Let_def split: if_splits prod.splits option.splits sum.splits
      dest!: checked_add_limited_InrD)

lemma decode_step_progress:
  assumes "decode_step D emit canc d bs x = (Inr bs', d', x')"
  shows "limit d' = limit d \<and> unat (decoded d) \<le> unat (decoded d') \<and> unat (decoded d') \<le> unat (limit d) \<and>
    length bs' \<le> length bs \<and> length bs' + unat (decoded d) < length bs + unat (decoded d')"
proof -
  obtain status n where r: "decode_run D d bs = (Inr status, d')" and n: "unat (bytes_read status) \<le> length bs"
    and bs': "bs' = drop (unat (bytes_read status)) bs" "bytes_read status \<noteq> 0 \<or> bytes_written status \<noteq> 0"
    using assms
    by (auto simp: decode_step_def Let_def split: prod.splits sum.splits if_splits)
  from bs'(2) have "0 < unat (bytes_read status) + unat (bytes_written status)"
    by (auto simp: unat_gt_0)
  with decode_run_progress [OF r] n bs'(1) show ?thesis by auto
qed

function decode_loop ::
    "'d zstd_decoder \<Rightarrow> (bytes \<Rightarrow> ('x, backup_fault, unit) action) \<Rightarrow> ('x, backup_fault, unit) action
      \<Rightarrow> 'd bounded_decoder \<Rightarrow> bytes \<Rightarrow> 'x \<Rightarrow> unit backup_result \<times> 'd bounded_decoder \<times> 'x" where
  "decode_loop D emit canc d bs x =
     (case decode_step D emit canc d bs x of
        (Inl r, d', x') \<Rightarrow> (r, d', x')
      | (Inr bs', d', x') \<Rightarrow> decode_loop D emit canc d' bs' x')"
  by pat_completeness auto
termination
  by (relation "measure (\<lambda>(D, emit, canc, d, bs, x). length bs + (unat (limit d) - unat (decoded d)))")
    (auto dest!: decode_step_progress [OF sym])

declare decode_loop.simps [simp del]

definition decode ::
    "'d zstd_decoder \<Rightarrow> (bytes \<Rightarrow> ('x, backup_fault, unit) action) \<Rightarrow> ('x, backup_fault, unit) action
      \<Rightarrow> 'd bounded_decoder \<Rightarrow> bytes \<Rightarrow> 'x \<Rightarrow> unit backup_result \<times> 'd bounded_decoder \<times> 'x" where
  "decode D emit canc d bs x =
     (if complete d then (if bs = [] then Inr () else Inl invalid, d, x)
      else decode_loop D emit canc d bs x)"

text \<open>The header loop of \<open>push\<close> returns the bytes it has not consumed.\<close>

fun push_header ::
    "'d zstd_decoder \<Rightarrow> (bytes \<Rightarrow> ('x, backup_fault, unit) action) \<Rightarrow> ('x, backup_fault, unit) action
      \<Rightarrow> 'd bounded_decoder \<Rightarrow> bytes \<Rightarrow> 'x \<Rightarrow> bytes backup_result \<times> 'd bounded_decoder \<times> 'x" where
  "push_header D emit canc d [] x = (Inr [], d, x)"
| "push_header D emit canc d (b # bs) x =
     (if header_checked d then (Inr (b # bs), d, x)
      else
        let d1 = d\<lparr>header := header d @ [b]\<rparr> in
        (case check_header (header d1) of
           Inl e \<Rightarrow> (Inl e, d1, x)
         | Inr False \<Rightarrow> push_header D emit canc d1 bs x
         | Inr True \<Rightarrow>
             let d2 = d1\<lparr>header_checked := True, header := []\<rparr> in
             (case decode D emit canc d2 (header d1) x of
                (Inl e, d3, x') \<Rightarrow> (Inl e, d3, x')
              | (Inr _, d3, x') \<Rightarrow> push_header D emit canc d3 bs x')))"

definition push ::
    "'d zstd_decoder \<Rightarrow> (bytes \<Rightarrow> ('x, backup_fault, unit) action) \<Rightarrow> ('x, backup_fault, unit) action
      \<Rightarrow> 'd bounded_decoder \<Rightarrow> bytes \<Rightarrow> 'x \<Rightarrow> unit backup_result \<times> 'd bounded_decoder \<times> 'x" where
  "push D emit canc d bs x =
     (case push_header D emit canc d bs x of
        (Inl e, d', x') \<Rightarrow> (Inl e, d', x')
      | (Inr rest, d', x') \<Rightarrow>
          if header_checked d' then decode D emit canc d' rest x' else (Inr (), d', x'))"

definition decoder_finish :: "'d bounded_decoder \<Rightarrow> unit backup_result" where
  "decoder_finish d = (if header_checked d \<and> complete d then Inr () else Inl invalid)"

text \<open>A property of the caller's state that the closures keep is kept by a push.\<close>

lemma sbind_keeps:
  assumes "P x" and "\<And>x. P x \<Longrightarrow> P (snd (m x))" and "\<And>u x. P x \<Longrightarrow> P (snd (k u x))"
  shows "P (snd (sbind m k x))"
  using assms(1) assms(2) [of x] assms(3) by (auto simp: sbind_def split: prod.splits sum.splits)

lemma decode_step_keeps:
  assumes emit: "\<forall>b x. P x \<longrightarrow> P (snd (emit b x))" and canc: "\<forall>x. P x \<longrightarrow> P (snd (canc x))"
    and "P x" and "decode_step D emit canc d bs x = (r, d', x')"
  shows "P x'"
proof -
  have c: "P y \<longrightarrow> P y'" if "canc y = (q, y')" for q y y' using canc that by (metis snd_conv)
  have sb: "P y \<longrightarrow> P y'" if m: "\<forall>y. P y \<longrightarrow> P (snd (m y))" and eq: "sbind canc (\<lambda>_. sbind m (\<lambda>_. canc)) y = (q, y')"
    for m :: "('a, backup_fault, unit) action" and y q y'
  proof
    assume "P y"
    then have "P (snd (sbind canc (\<lambda>_. sbind m (\<lambda>_. canc)) y))"
      by (intro sbind_keeps [of P]) (simp_all add: m canc)
    then show "P y'" using eq by simp
  qed
  have "\<forall>y. P y \<longrightarrow> P (snd (sret () y))" "\<forall>y. P y \<longrightarrow> P (snd (sfail Panic y))" by simp_all
  note sbs = sb [of "sret ()", OF this(1)] sb [of "sfail Panic", OF this(2)] sb [of "emit b" for b, OF emit [THEN spec]]
  show ?thesis
    using assms(3,4)
    by (auto simp: decode_step_def Let_def split: prod.splits sum.splits if_splits dest!: sbs c)
qed

lemma decode_loop_keeps:
  assumes "\<forall>b x. P x \<longrightarrow> P (snd (emit b x))" and "\<forall>x. P x \<longrightarrow> P (snd (canc x))"
  shows "decode_loop D emit canc d bs x = (r, d', x') \<Longrightarrow> P x \<Longrightarrow> P x'"
  using assms
proof (induction D emit canc d bs x rule: decode_loop.induct)
  case (1 D emit canc d bs x)
  obtain out d1 x1 where st: "decode_step D emit canc d bs x = (out, d1, x1)" by (metis prod_cases3)
  have "P x1" using 1(4,5,3) st by (rule decode_step_keeps)
  with 1 st show ?case by (cases out) (simp_all add: decode_loop.simps [of D emit canc d])
qed

lemma decode_keeps:
  assumes "\<forall>b x. P x \<longrightarrow> P (snd (emit b x))" and "\<forall>x. P x \<longrightarrow> P (snd (canc x))"
  shows "decode D emit canc d bs x = (r, d', x') \<Longrightarrow> P x \<longrightarrow> P x'"
  using decode_loop_keeps [of P, OF assms] by (auto simp: decode_def split: if_splits)

lemma push_header_keeps:
  assumes "\<forall>b x. P x \<longrightarrow> P (snd (emit b x))" and "\<forall>x. P x \<longrightarrow> P (snd (canc x))"
  shows "push_header D emit canc d bs x = (r, d', x') \<Longrightarrow> P x \<longrightarrow> P x'"
proof (induction bs arbitrary: d x)
  case Nil
  then show ?case by simp
next
  case (Cons b bs)
  note dec = decode_keeps [of P emit canc D, OF assms]
  show ?case
    using Cons.prems by (auto simp: Let_def split: if_splits sum.splits bool.splits prod.splits dest!: dec Cons.IH)
qed

lemma push_keeps:
  assumes "\<forall>b x. P x \<longrightarrow> P (snd (emit b x))" and "\<forall>x. P x \<longrightarrow> P (snd (canc x))"
    and "push D emit canc d bs x = (r, d', x')" and "P x"
  shows "P x'"
  using assms(3,4)
  by (auto simp: push_def split: sum.splits prod.splits if_splits
      dest!: decode_keeps [of P emit canc D, OF assms(1,2)] push_header_keeps [of P emit canc D, OF assms(1,2)])

lemma push_preserves:
  assumes "\<And>b x. f (snd (emit b x)) = f x" and "\<And>x. f (snd (canc x)) = f x"
    and "push D emit canc d bs x = (r, d', x')"
  shows "f x' = f x"
  by (rule push_keeps [where P = "\<lambda>y. f y = f x", OF _ _ assms(3)]) (simp_all add: assms(1,2))

lemma ilog2_window: "ilog2 (unat MAX_ZSTD_WINDOW_BYTES_V1) = 23"
proof -
  have "ilog2 8388608 = 23" by (simp add: ilog2.simps)
  then show ?thesis by simp
qed

section \<open>The frame header of RFC 8878\<close>

text \<open>
  The fields of the header as the format defines them, on natural numbers: a little-endian content
  size of 0, 1, 2, 4 or 8 bytes, the two-byte form offset by 256, and a window size with a five-bit
  exponent and a three-bit mantissa.
\<close>

fun le_nat :: "bytes \<Rightarrow> nat" where
  "le_nat [] = 0"
| "le_nat (b # bs) = unat b + 256 * le_nat bs"

definition field_size :: "byte \<Rightarrow> nat" where
  "field_size fhd =
     (if bit fhd 7 then (if bit fhd 6 then 8 else 4)
      else if bit fhd 6 then 2
      else if bit fhd 5 then 1
      else 0)"

definition content_size :: "bytes \<Rightarrow> nat" where
  "content_size h =
     (let off = (if bit (h ! 4) 5 then 5 else 6); n = field_size (h ! 4) in
      le_nat (slice off (off + n) h) + (if n = 2 then 256 else 0))"

definition window_size :: "bytes \<Rightarrow> nat" where
  "window_size h =
     (if bit (h ! 4) 5 then content_size h
      else
        let base = 2 ^ (10 + unat (h ! 5) div 8) in
        base + base div 8 * (unat (h ! 5) mod 8))"

definition header_length :: "byte \<Rightarrow> nat" where
  "header_length fhd = (if bit fhd 5 then 5 else 6) + field_size fhd"

text \<open>No dictionary identifier, no reserved or unused bit.\<close>

definition plain_descriptor :: "byte \<Rightarrow> bool" where
  "plain_descriptor fhd \<longleftrightarrow> \<not> bit fhd 0 \<and> \<not> bit fhd 1 \<and> \<not> bit fhd 3 \<and> \<not> bit fhd 4"

definition header_spec :: "bytes \<Rightarrow> bool backup_result" where
  "header_spec h =
     (if length h < 5 then Inr False
      else if take 4 h \<noteq> [0x28, 0xb5, 0x2f, 0xfd] \<or> \<not> plain_descriptor (h ! 4) then Inl invalid
      else if length h < header_length (h ! 4) then Inr False
      else if window_size h \<le> 8 * 1024 * 1024 \<and> content_size h \<le> 1024 * 1024 * 1024 then Inr True
      else Inl resource_limit_exceeded)"

section \<open>Lemmas\<close>

lemma byte_bit_high: "8 \<le> n \<Longrightarrow> \<not> bit (d :: byte) n"
  using bit_imp_le_length [of d n] by auto

lemma byte_bits:
  "(d :: byte) = e \<longleftrightarrow> (bit d 0 = bit e 0) \<and> (bit d 1 = bit e 1) \<and> (bit d 2 = bit e 2) \<and> (bit d 3 = bit e 3) \<and>
     (bit d 4 = bit e 4) \<and> (bit d 5 = bit e 5) \<and> (bit d 6 = bit e 6) \<and> (bit d 7 = bit e 7)"
proof
  assume r: "(bit d 0 = bit e 0) \<and> (bit d 1 = bit e 1) \<and> (bit d 2 = bit e 2) \<and> (bit d 3 = bit e 3) \<and>
     (bit d 4 = bit e 4) \<and> (bit d 5 = bit e 5) \<and> (bit d 6 = bit e 6) \<and> (bit d 7 = bit e 7)"
  show "d = e"
  proof (rule bit_word_eqI)
    fix n assume "n < LENGTH(8)"
    then consider "n = 0" | "n = 1" | "n = 2" | "n = 3" | "n = 4" | "n = 5" | "n = 6" | "n = 7" by fastforce
    then show "bit d n \<longleftrightarrow> bit e n" using r by cases auto
  qed
qed simp

lemma reserved_bits: "(d :: byte) AND 0x1b \<noteq> 0 \<longleftrightarrow> \<not> plain_descriptor d"
  by (simp add: byte_bits [of "d AND 0x1b"] plain_descriptor_def bit_simps)

lemma single_bit: "(d :: byte) AND 0x20 \<noteq> 0 \<longleftrightarrow> bit d 5"
  by (simp add: byte_bits [of "d AND 0x20"] bit_simps)

lemma header_size_bytes_eq: "header_size_bytes d = field_size d"
  by (simp add: header_size_bytes_def field_size_def single_bit byte_bits [of "drop_bit 6 d"] bit_simps
      byte_bit_high)

lemma le_nat_bound: "le_nat bs < 256 ^ length bs"
proof (induction bs)
  case Nil
  then show ?case by simp
next
  case (Cons b bs)
  have "unat b < 256" using unsigned_less [of b] by simp
  with Cons show ?case by simp
qed

lemma le_nat_snoc: "le_nat (bs @ [b]) = le_nat bs + 256 ^ length bs * unat b"
  by (induction bs) (simp_all add: algebra_simps)

lemma enumerate_snoc: "enumerate n (xs @ [x]) = enumerate n xs @ [(n + length xs, x)]"
  by (simp add: enumerate_append_eq)

lemma unat_shift_byte:
  assumes "n < 8"
  shows "unat (push_bit (8 * n) (ucast (b :: byte)) :: u64) = 256 ^ n * unat b"
proof -
  have lb: "unat b < 256" using unsigned_less [of b] by simp
  moreover have "(256 :: nat) ^ n * 256 \<le> 2 ^ 64"
    using power_increasing [of "Suc n" 8 "256 :: nat"] assms by simp
  ultimately have lt: "256 ^ n * unat b < 2 ^ 64"
    by (meson less_le_trans mult_less_mono2 zero_less_numeral zero_less_power)
  have "unat (ucast b :: u64) = unat b" using lb by (simp add: unsigned_ucast_eq take_bit_nat_eq_self)
  moreover have "(256 :: nat) ^ n = 2 ^ (8 * n)" by (simp add: power_mult)
  moreover have "unat (push_bit (8 * n) (ucast b) :: u64) = take_bit 64 (push_bit (8 * n) (unat (ucast b :: u64)))"
    by (simp add: unsigned_push_bit_eq)
  ultimately show ?thesis
    using lt by (simp add: push_bit_nat_def take_bit_nat_eq_self mult.commute)
qed

lemma le_size_eq: "length bs \<le> 8 \<Longrightarrow> unat (le_size bs) = le_nat bs"
proof (induction bs rule: rev_induct)
  case Nil
  then show ?case by (simp add: le_size_def)
next
  case (snoc b bs)
  let ?n = "length bs" and ?hi = "push_bit (8 * length bs) (ucast b) :: u64"
  have n: "?n < 8" using snoc.prems by simp
  then have IH: "unat (le_size bs) = le_nat bs" using snoc.IH by simp
  have lo: "unat (le_size bs) < 2 ^ (8 * ?n)" using IH le_nat_bound [of bs] by (simp add: power_mult)
  have disj: "\<not> bit (le_size bs) i \<or> \<not> bit ?hi i" for i
  proof (cases "i < 8 * ?n")
    case True
    then show ?thesis by (simp add: bit_simps)
  next
    case False
    then have "unat (le_size bs) < 2 ^ i"
      using lo by (meson less_le_trans not_le_imp_less one_le_numeral power_increasing)
    then have "\<not> bit (unat (le_size bs)) i" by (simp add: bit_iff_odd)
    then show ?thesis by (auto simp: bit_unsigned_iff dest: bit_imp_le_length)
  qed
  have "le_size (bs @ [b]) = le_size bs OR ?hi" by (simp add: le_size_def enumerate_snoc)
  also have "\<dots> = le_size bs + ?hi" using disjunctive_add [of "le_size bs" ?hi] disj by simp
  finally have sum: "le_size (bs @ [b]) = le_size bs + ?hi" .
  have "le_nat (bs @ [b]) < 2 ^ 64"
    using le_nat_bound [of "bs @ [b]"] power_increasing [of "Suc ?n" 8 "256 :: nat"] n by simp
  then have "unat (le_size bs) + unat ?hi < 2 ^ 64"
    using IH unat_shift_byte [OF n, of b] by (simp add: le_nat_snoc)
  then show ?case using sum IH unat_shift_byte [OF n, of b] by (simp add: unat_add64 le_nat_snoc)
qed

lemma window_word:
  fixes h5 :: byte
  defines "base \<equiv> push_bit (10 + unat (drop_bit 3 h5)) (1 :: u64)"
  shows "unat (base + (base div 8) * ucast (h5 AND 7)) =
    2 ^ (10 + unat h5 div 8) + 2 ^ (10 + unat h5 div 8) div 8 * (unat h5 mod 8)"
proof -
  have lb: "unat h5 < 256" using unsigned_less [of h5] by simp
  have e: "unat (drop_bit 3 h5) = unat h5 div 8" by (simp add: drop_bit_eq_div unat_div)
  have m: "unat (ucast (h5 AND 7) :: u64) = unat h5 mod 8"
  proof -
    have "h5 AND 7 = take_bit 3 h5" using take_bit_eq_mask [of 3 h5] by (simp add: mask_numeral)
    then show ?thesis
      by (simp add: unsigned_ucast_eq take_bit_eq_mod unat_mod)
  qed
  let ?x = "10 + unat h5 div 8"
  have x: "?x \<le> 41" using lb by linarith
  then have pow: "(2 :: nat) ^ ?x \<le> 2 ^ 41" using power_increasing [of ?x 41 "2 :: nat"] by simp
  have base: "unat base = 2 ^ ?x"
  proof -
    have "base = of_nat (2 ^ ?x)" by (simp add: base_def e push_bit_eq_mult)
    then show ?thesis using pow by (simp only: unat_of_nat) simp
  qed
  have d: "unat (base div 8) = 2 ^ ?x div 8" using base by (simp add: unat_div)
  have "2 ^ ?x div 8 * (unat h5 mod 8) \<le> 2 ^ 41 div 8 * (7 :: nat)"
    using pow by (intro mult_le_mono div_le_mono) simp_all
  then have sm: "2 ^ ?x div 8 * (unat h5 mod 8) < (2 :: nat) ^ 64" "2 ^ ?x + 2 ^ ?x div 8 * (unat h5 mod 8) < (2 :: nat) ^ 64"
    using pow by simp_all
  have "unat ((base div 8) * ucast (h5 AND 7)) = 2 ^ ?x div 8 * (unat h5 mod 8)"
    using d m sm(1) by (simp add: unat_word_ariths)
  then show ?thesis using base sm(2) by (subst unat_add64) simp_all
qed

lemma field_size_le: "field_size d \<le> 8"
  by (simp add: field_size_def)

lemma content_size_word:
  fixes h defines "off \<equiv> (if bit (h ! 4) 5 then 5 else 6)" and "n \<equiv> field_size (h ! 4)"
  shows "unat (if n = 2 then le_size (slice off (off + n) h) + 256 else le_size (slice off (off + n) h)) =
    content_size h"
proof -
  let ?s = "slice off (off + n) h"
  have len: "length ?s \<le> n" by simp
  then have u: "unat (le_size ?s) = le_nat ?s" using field_size_le [of "h ! 4"] le_size_eq n_def by simp
  have "le_nat ?s < 256 ^ 2" if "n = 2"
    using le_nat_bound [of ?s] power_increasing [of "length ?s" 2 "256 :: nat"] len that by simp
  then show ?thesis
    using u by (auto simp: content_size_def Let_def unat_add64 simp flip: off_def n_def)
qed

lemma check_header_eq_spec: "check_header h = header_spec h"
proof -
  let ?off = "if bit (h ! 4) 5 then 5 else 6 :: nat" and ?n = "field_size (h ! 4)"
  let ?size = "if ?n = 2 then le_size (slice ?off (?off + ?n) h) + 256 else le_size (slice ?off (?off + ?n) h)"
  let ?base = "push_bit (10 + unat (drop_bit 3 (h ! 5))) (1 :: u64)"
  let ?window = "if bit (h ! 4) 5 then ?size else ?base + (?base div 8) * ucast (h ! 5 AND 7)"
  have size: "unat ?size = content_size h" by (rule content_size_word)
  then have window: "unat ?window = window_size h"
    using window_word [of "h ! 5"] by (simp add: window_size_def Let_def)
  have "check_header h = (if length h < 5 then Inr False
      else if take 4 h \<noteq> [0x28, 0xb5, 0x2f, 0xfd] then Inl invalid
      else if \<not> plain_descriptor (h ! 4) then Inl invalid
      else if length h < ?off + ?n then Inr False
      else if MAX_ZSTD_WINDOW_BYTES_V1 < ?window \<or> MAX_PLAINTEXT_OBJECT_BYTES_V1 < ?size
        then Inl resource_limit_exceeded else Inr True)"
    unfolding check_header_def Let_def reserved_bits single_bit header_size_bytes_eq ..
  also have "\<dots> = header_spec h"
    unfolding word_less_nat_alt size window unat_limits header_spec_def header_length_def
    by auto
  finally show ?thesis .
qed

end
