(* ===== verification/Backup_Reader.thy ===== *)
theory Backup_Reader
  imports Backup_Writer Backup_Compression
begin

text \<open>
  The object reader of \<open>kchat-backup/src/object/reader.rs\<close>: \<open>CheckedSource\<close> counts and bounds what is
  read and checks for cancellation, \<open>authenticate_envelope\<close> decrypts frame by frame and pushes the
  plaintext of each frame into the bounded decoder, whose output goes to the caller's sink. All
  reads and loops are total functions: the ciphertext limit bounds them.
\<close>

section \<open>Checked source\<close>

record 's checked_source =
  src :: 's
  read_bytes :: u64
  eof :: bool

definition check_cancelled :: "'s byte_source \<Rightarrow> ('s checked_source, backup_fault, unit) action" where
  "check_cancelled S inp =
     (case is_cancelled S (src inp) of
        (b, s') \<Rightarrow> (if b then Inl cancelled else Inr (), inp\<lparr>src := s'\<rparr>))"

definition checked_source_new ::
    "'s byte_source \<Rightarrow> 's \<Rightarrow> unit backup_result \<times> 's checked_source" where
  "checked_source_new S s = check_cancelled S \<lparr>src = s, read_bytes = 0, eof = False\<rparr>"

text \<open>\<open>read\<close> also returns the new contents of the destination slice.\<close>

definition checked_read ::
    "'s byte_source \<Rightarrow> bytes \<Rightarrow> ('s checked_source, backup_fault, nat \<times> bytes) action" where
  "checked_read S dest inp =
     (case check_cancelled S inp of
        (Inl e, inp1) \<Rightarrow> (Inl e, inp1)
      | (Inr _, inp1) \<Rightarrow>
          if eof inp1 then (Inr (0, dest), inp1)
          else if MAX_CIPHERTEXT_OBJECT_BYTES_V1 < read_bytes inp1 then (Inl Panic, inp1)
          else
            let remaining_with_probe = unat (MAX_CIPHERTEXT_OBJECT_BYTES_V1 - read_bytes inp1 + 1);
                capacity = min (min (length dest) MAX_IO_CHUNK_BYTES_V1) remaining_with_probe in
            (case source_read S (take capacity dest) (src inp1) of
               (Inl e, _, s') \<Rightarrow> (Inl e, inp1\<lparr>src := s'\<rparr>)
             | (Inr count, stored, s') \<Rightarrow>
                 (case check_cancelled S (inp1\<lparr>src := s'\<rparr>) of
                    (Inl e, inp2) \<Rightarrow> (Inl e, inp2)
                  | (Inr _, inp2) \<Rightarrow>
                      if count > capacity then (Inl invalid_state, inp2)
                      else
                        let inp3 = inp2\<lparr>read_bytes := read_bytes inp2 + of_nat count\<rparr> in
                        if read_bytes inp3 > MAX_CIPHERTEXT_OBJECT_BYTES_V1
                        then (Inl resource_limit_exceeded, inp3)
                        else (Inr (count, stored @ drop capacity dest), inp3\<lparr>eof := (count = 0)\<rparr>))))"

lemma check_cancelled_frame [simp]:
  "read_bytes (snd (check_cancelled S inp)) = read_bytes inp" "eof (snd (check_cancelled S inp)) = eof inp"
  by (auto simp: check_cancelled_def split: prod.splits)

lemma check_cancelled_eq:
  "check_cancelled S inp = (r, inp') \<Longrightarrow> read_bytes inp' = read_bytes inp \<and> eof inp' = eof inp \<and> r \<noteq> Inl Panic"
  by (auto simp: check_cancelled_def split: prod.splits if_splits)

lemma checked_read_progress:
  assumes "checked_read S dest inp = (Inr (n, dest'), inp')"
  shows "length dest' = length dest \<and> n \<le> length dest \<and> unat (read_bytes inp') = unat (read_bytes inp) + n \<and>
    (unat (read_bytes inp) \<le> 268435456 \<or> n \<noteq> 0 \<longrightarrow> unat (read_bytes inp') \<le> 268435456)"
proof -
  obtain r inp1 where c1: "check_cancelled S inp = (r, inp1)" by fastforce
  with assms have r: "r = Inr ()" by (cases r) (auto simp: checked_read_def)
  note f1 = check_cancelled_eq [OF c1]
  show ?thesis
  proof (cases "eof inp1")
    case True
    with assms c1 r f1 show ?thesis by (auto simp: checked_read_def)
  next
    case False
    let ?cap = "min (min (length dest) MAX_IO_CHUNK_BYTES_V1)
      (unat (MAX_CIPHERTEXT_OBJECT_BYTES_V1 - read_bytes inp1 + 1))"
    from assms c1 r False obtain stored s' inp2 where
      ok: "\<not> MAX_CIPHERTEXT_OBJECT_BYTES_V1 < read_bytes inp1"
      and rd: "source_read S (take ?cap dest) (src inp1) = (Inr n, stored, s')"
      and c2: "check_cancelled S (inp1\<lparr>src := s'\<rparr>) = (Inr (), inp2)" and n': "\<not> ?cap < n"
      and le: "\<not> read_bytes inp2 + of_nat n > MAX_CIPHERTEXT_OBJECT_BYTES_V1"
      and out: "dest' = stored @ drop ?cap dest" "inp' = inp2\<lparr>read_bytes := read_bytes inp2 + of_nat n, eof := (n = 0)\<rparr>"
      by (auto simp: checked_read_def Let_def split: if_splits prod.splits sum.splits)
    note f2 = check_cancelled_eq [OF c2]
    have n: "n \<le> ?cap" using n' by (simp only: not_less)
    have b2: "read_bytes inp2 = read_bytes inp" using f1 f2 by simp
    have "length stored = ?cap" using rd by (auto simp: source_read_def split: prod.splits)
    then have "length dest' = length dest" using out(1) by simp
    moreover have "unat (of_nat n :: u64) = n" using n unat_small_count [of n] by (simp add: MAX_IO_CHUNK_BYTES_V1_def)
    moreover have "unat (read_bytes inp) \<le> 268435456"
      using ok f1 by (simp add: word_less_nat_alt not_less)
    ultimately have "unat (read_bytes inp + of_nat n) = unat (read_bytes inp) + n"
      using n unat_add64 [of "read_bytes inp" "of_nat n"] by (simp add: MAX_IO_CHUNK_BYTES_V1_def)
    with \<open>length dest' = length dest\<close> out(2) b2 n le show ?thesis by (simp add: word_less_nat_alt not_less)
  qed
qed

text \<open>\<open>read_exact\<close> returns the filled destination.\<close>

function read_exact :: "'s byte_source \<Rightarrow> bytes \<Rightarrow> ('s checked_source, backup_fault, bytes) action" where
  "read_exact S dest inp =
     (if dest = [] then (Inr [], inp)
      else
        (case checked_read S dest inp of
           (Inl e, inp1) \<Rightarrow> (Inl e, inp1)
         | (Inr (count, dest'), inp1) \<Rightarrow>
             if count = 0 then (Inl malformed_object, inp1)
             else
               (case read_exact S (drop count dest') inp1 of
                  (Inl e, inp2) \<Rightarrow> (Inl e, inp2)
                | (Inr rest, inp2) \<Rightarrow> (Inr (take count dest' @ rest), inp2))))"
  by pat_completeness auto
termination
  by (relation "measure (\<lambda>(S, dest, inp). length dest)") (auto dest!: checked_read_progress [OF sym])

declare read_exact.simps [simp del]

definition next_length :: "'s byte_source \<Rightarrow> ('s checked_source, backup_fault, nat option) action" where
  "next_length S inp =
     (case checked_read S (replicate 1 0) inp of
        (Inl e, inp1) \<Rightarrow> (Inl e, inp1)
      | (Inr (count, first), inp1) \<Rightarrow>
          if count = 0 then (Inr None, inp1)
          else
            (case read_exact S (replicate 3 0) inp1 of
               (Inl e, inp2) \<Rightarrow> (Inl e, inp2)
             | (Inr rest, inp2) \<Rightarrow>
                 let len = unat (from_be_bytes32 (first @ rest)) in
                 if AEAD_TAG_BYTES \<le> len \<and> len \<le> COMPRESSED_BLOCK_BYTES + AEAD_TAG_BYTES
                 then (Inr (Some len), inp2)
                 else (Inl malformed_object, inp2)))"

lemma read_exact_progress:
  "read_exact S dest inp = (Inr bs, inp') \<Longrightarrow>
     length bs = length dest \<and> unat (read_bytes inp') = unat (read_bytes inp) + length dest \<and>
     (unat (read_bytes inp) \<le> 268435456 \<or> dest \<noteq> [] \<longrightarrow> unat (read_bytes inp') \<le> 268435456)"
proof (induction S dest inp arbitrary: bs rule: read_exact.induct)
  case (1 S dest inp)
  show ?case
  proof (cases "dest = []")
    case True
    with 1(2) show ?thesis by (simp add: read_exact.simps)
  next
    case False
    with 1(2) obtain n dest' inp1 rest where
      rd: "checked_read S dest inp = (Inr (n, dest'), inp1)" and n: "n \<noteq> 0"
      and re: "read_exact S (drop n dest') inp1 = (Inr rest, inp')" and bs: "bs = take n dest' @ rest"
      by (auto simp: read_exact.simps [of S dest] split: prod.splits sum.splits if_splits)
    from 1(1) [OF False rd [symmetric] refl refl n re] checked_read_progress [OF rd] bs show ?thesis by auto
  qed
qed

lemma next_length_progress:
  assumes "next_length S inp = (Inr o_len, inp')"
  shows "unat (read_bytes inp) \<le> unat (read_bytes inp') \<and>
    (unat (read_bytes inp) \<le> 268435456 \<longrightarrow> unat (read_bytes inp') \<le> 268435456) \<and>
    (\<forall>n. o_len = Some n \<longrightarrow> 16 \<le> n \<and> n \<le> 65552)"
  using assms
  by (auto simp: next_length_def Let_def envelope_consts split: prod.splits sum.splits if_splits
      dest!: checked_read_progress read_exact_progress)

section \<open>Envelope\<close>

text \<open>The closures of \<open>push\<close>: the decoder's output goes to the sink, the source is asked for cancellation.\<close>

definition reader_emit ::
    "('e, 'd, 'z, 'k) object_env \<Rightarrow> bytes \<Rightarrow> ('s checked_source \<times> 'k, backup_fault, unit) action" where
  "reader_emit G b x = (case x of (inp, k) \<Rightarrow> (case sink_write (sink G) b k of (r, k') \<Rightarrow> (r, inp, k')))"

definition reader_cancelled :: "'s byte_source \<Rightarrow> ('s checked_source \<times> 'k, backup_fault, unit) action" where
  "reader_cancelled S x = (case x of (inp, k) \<Rightarrow> (case check_cancelled S inp of (r, inp') \<Rightarrow> (r, inp', k)))"

definition push_decrypted ::
    "('e, 'd, 'z, 'k) object_env \<Rightarrow> 'y zstd_decoder \<Rightarrow> 's byte_source \<Rightarrow> bytes
      \<Rightarrow> 's checked_source \<Rightarrow> 'y bounded_decoder \<Rightarrow> 'k
      \<Rightarrow> unit backup_result \<times> 's checked_source \<times> 'y bounded_decoder \<times> 'k" where
  "push_decrypted G Y S decrypted inp dec k =
     (case check_cancelled S inp of
        (Inl e, inp1) \<Rightarrow> (Inl e, inp1, dec, k)
      | (Inr _, inp1) \<Rightarrow>
          (case push Y (reader_emit G) (reader_cancelled S) dec decrypted (inp1, k) of
             (r, dec', inp2, k') \<Rightarrow> (r, inp2, dec', k')))"

text \<open>One iteration of the frame loop: it ends (\<open>Inl\<close>) or goes on with the next length.\<close>

definition frame_step ::
    "('e, 'd, 'z, 'k) object_env \<Rightarrow> 'y zstd_decoder \<Rightarrow> 's byte_source \<Rightarrow> bytes \<Rightarrow> nat \<Rightarrow> bytes
      \<Rightarrow> 's checked_source \<Rightarrow> 'd \<Rightarrow> 'y bounded_decoder \<Rightarrow> 'k
      \<Rightarrow> (unit backup_result + nat \<times> bytes \<times> 'd) \<times> 's checked_source \<times> 'y bounded_decoder \<times> 'k" where
  "frame_step G Y S ad len frame inp decryptor dec k =
     (if length frame < len then (Inl (Inl Panic), inp, dec, k)
      else
        (case read_exact S (take len frame) inp of
           (Inl e, inp1) \<Rightarrow> (Inl (Inl e), inp1, dec, k)
         | (Inr msg, inp1) \<Rightarrow>
             (case next_length S inp1 of
                (Inl e, inp2) \<Rightarrow> (Inl (Inl e), inp2, dec, k)
              | (Inr (Some len'), inp2) \<Rightarrow>
                  if len \<noteq> COMPRESSED_BLOCK_BYTES + AEAD_TAG_BYTES then (Inl (Inl malformed_object), inp2, dec, k)
                  else
                    (case decrypt_next (stream G) decryptor msg ad of
                       (None, _) \<Rightarrow> (Inl (Inl authentication_failed), inp2, dec, k)
                     | (Some decrypted, decryptor') \<Rightarrow>
                         (case push_decrypted G Y S decrypted inp2 dec k of
                            (Inl e, inp3, dec', k') \<Rightarrow> (Inl (Inl e), inp3, dec', k')
                          | (Inr _, inp3, dec', k') \<Rightarrow>
                              (Inr (len', msg @ drop len frame, decryptor'), inp3, dec', k')))
              | (Inr None, inp2) \<Rightarrow>
                  (case decrypt_last (stream G) decryptor msg ad of
                     None \<Rightarrow> (Inl (Inl authentication_failed), inp2, dec, k)
                   | Some decrypted \<Rightarrow>
                       (case push_decrypted G Y S decrypted inp2 dec k of
                          (r, inp3, dec', k') \<Rightarrow> (Inl r, inp3, dec', k'))))))"

lemma reader_closures_bytes:
  "read_bytes (fst (snd (reader_emit G b x))) = read_bytes (fst x)"
  "read_bytes (fst (snd (reader_cancelled S x))) = read_bytes (fst x)"
  by (auto simp: reader_emit_def reader_cancelled_def split: prod.splits dest!: check_cancelled_eq)

lemma push_decrypted_bytes:
  assumes "push_decrypted G Y S b inp dec k = (r, inp', dec', k')"
  shows "read_bytes inp' = read_bytes inp"
proof -
  have "read_bytes (fst x') = read_bytes (fst x)"
    if "push Y (reader_emit G) (reader_cancelled S) dec b x = (q, d', x')" for x q d' x'
    using push_preserves [of "\<lambda>x. read_bytes (fst x)", OF reader_closures_bytes that] .
  from this [of "(inp1, k)" for inp1] assms show ?thesis
    by (auto simp: push_decrypted_def split: prod.splits sum.splits dest!: check_cancelled_eq)
qed

lemma frame_step_progress:
  assumes "frame_step G Y S ad len frame inp decryptor dec k = (Inr (len', frame', decryptor'), inp', dec', k')"
  shows "unat (read_bytes inp) < unat (read_bytes inp') \<and> unat (read_bytes inp') \<le> 268435456 \<and>
    length frame' = length frame \<and> 16 \<le> len' \<and> len' \<le> 65552"
proof -
  from assms obtain msg inp1 inp2 decrypted where len: "\<not> length frame < len" "len = 65552"
    and re: "read_exact S (take len frame) inp = (Inr msg, inp1)"
    and nl: "next_length S inp1 = (Inr (Some len'), inp2)"
    and pd: "push_decrypted G Y S decrypted inp2 dec k = (Inr (), inp', dec', k')"
    and frame': "frame' = msg @ drop len frame"
    by (auto simp: frame_step_def envelope_consts split: if_splits prod.splits sum.splits option.splits)
  have "take len frame \<noteq> []" "length (take len frame) = 65552" using len by auto
  with read_exact_progress [OF re] next_length_progress [OF nl] push_decrypted_bytes [OF pd] len frame'
  show ?thesis by auto
qed

function frame_loop ::
    "('e, 'd, 'z, 'k) object_env \<Rightarrow> 'y zstd_decoder \<Rightarrow> 's byte_source \<Rightarrow> bytes \<Rightarrow> nat \<Rightarrow> bytes
      \<Rightarrow> 's checked_source \<Rightarrow> 'd \<Rightarrow> 'y bounded_decoder \<Rightarrow> 'k
      \<Rightarrow> unit backup_result \<times> 's checked_source \<times> 'y bounded_decoder \<times> 'k" where
  "frame_loop G Y S ad len frame inp decryptor dec k =
     (case frame_step G Y S ad len frame inp decryptor dec k of
        (Inl r, inp', dec', k') \<Rightarrow> (r, inp', dec', k')
      | (Inr (len', frame', decryptor'), inp', dec', k') \<Rightarrow>
          frame_loop G Y S ad len' frame' inp' decryptor' dec' k')"
  by pat_completeness auto
termination
  by (relation "measure (\<lambda>(G, Y, S, ad, len, frame, inp, decryptor, dec, k). 268435456 - unat (read_bytes inp))")
    (auto dest!: frame_step_progress [OF sym])

declare frame_loop.simps [simp del]

definition authenticate_envelope ::
    "('e, 'd, 'z, 'k) object_env \<Rightarrow> 'y zstd_decoder \<Rightarrow> 's byte_source \<Rightarrow> object_context
      \<Rightarrow> 's checked_source \<Rightarrow> 'y bounded_decoder \<Rightarrow> 'k
      \<Rightarrow> unit backup_result \<times> 's checked_source \<times> 'y bounded_decoder \<times> 'k" where
  "authenticate_envelope G Y S ctx inp dec k =
     (case read_exact S (replicate ENVELOPE_HEADER_BYTES 0) inp of
        (Inl e, inp1) \<Rightarrow> (Inl e, inp1, dec, k)
      | (Inr hdr, inp1) \<Rightarrow>
          (case parse_header hdr of
             Inl e \<Rightarrow> (Inl e, inp1, dec, k)
           | Inr prefix \<Rightarrow>
               if length (object_key_bytes (object_key ctx)) \<noteq> 32 then (Inl invalid_state, inp1, dec, k)
               else if length prefix \<noteq> STREAM_NONCE_PREFIX_BYTES then (Inl invalid_state, inp1, dec, k)
               else
                 let decryptor = decryptor_new (stream G) (object_key_bytes (object_key ctx)) prefix in
                 (case next_length S inp1 of
                    (Inl e, inp2) \<Rightarrow> (Inl e, inp2, dec, k)
                  | (Inr None, inp2) \<Rightarrow> (Inl malformed_object, inp2, dec, k)
                  | (Inr (Some len), inp2) \<Rightarrow>
                      frame_loop G Y S (canonical_bytes ctx) len
                        (replicate (COMPRESSED_BLOCK_BYTES + AEAD_TAG_BYTES) 0) inp2 decryptor dec k)))"

definition open_object_v1 ::
    "('e, 'd, 'z, 'k) object_env \<Rightarrow> 'y zstd_decoder \<Rightarrow> 's byte_source \<Rightarrow> object_context \<Rightarrow> 's \<Rightarrow> 'k
      \<Rightarrow> unit backup_result \<times> 's \<times> 'k" where
  "open_object_v1 G Y S ctx s k =
     (case checked_source_new S s of
        (Inl e, inp) \<Rightarrow> (Inl e, src inp, k)
      | (Inr _, inp) \<Rightarrow>
          (case bounded_decoder_new Y of
             Inl e \<Rightarrow> (Inl e, src inp, k)
           | Inr dec \<Rightarrow>
               (case authenticate_envelope G Y S ctx inp dec k of
                  (Inl e, inp1, _, k1) \<Rightarrow> (Inl e, src inp1, k1)
                | (Inr _, inp1, dec1, k1) \<Rightarrow>
                    (case check_cancelled S inp1 of
                       (Inl e, inp2) \<Rightarrow> (Inl e, src inp2, k1)
                     | (Inr _, inp2) \<Rightarrow> (decoder_finish dec1, src inp2, k1)))))"

end
