(* ===== verification/Backup_Source_Inv.thy ===== *)
theory Backup_Source_Inv
  imports Backup_Reader
begin

text \<open>
  What a byte source keeps, sealing and opening an object keep: a property of the source's state that
  every \<open>read_chunk\<close> and every \<open>is_cancelled\<close> preserves holds when \<open>seal_object_v1\<close> or
  \<open>open_object_v1\<close> returns, on every path. The bindings use it for the state of their callbacks. And
  opening an object takes at most the ciphertext limit and one more byte from any source.
\<close>

definition source_keeps :: "('s \<Rightarrow> bool) \<Rightarrow> 's byte_source \<Rightarrow> bool" where
  "source_keeps P S \<longleftrightarrow>
     (\<forall>s. P s \<longrightarrow> P (snd (is_cancelled S s))) \<and> (\<forall>dest s. P s \<longrightarrow> P (snd (snd (read_chunk S dest s))))"

lemma source_keepsD:
  assumes "source_keeps P S"
  shows "is_cancelled S s = (b, s') \<Longrightarrow> P s \<longrightarrow> P s'"
    and "source_read S dest s = (r, dest', s') \<Longrightarrow> P s \<longrightarrow> P s'"
  using assms unfolding source_keeps_def source_read_def
  by (metis snd_conv, auto split: prod.splits) (metis snd_conv)

section \<open>The writer\<close>

lemma seal_step_keeps:
  assumes "source_keeps P S" and "seal_step G S buffer s wr k = (r, s', wr', k')"
  shows "P s \<longrightarrow> P s'"
  using assms(2)
  by (auto simp: seal_step_def split: prod.splits sum.splits bool.splits if_splits
      dest!: source_keepsD [OF assms(1)])

lemma seal_loop_keeps:
  "source_keeps P S \<Longrightarrow> seal_loop G S buffer s wr k = (r, s', wr', k') \<Longrightarrow> P s \<longrightarrow> P s'"
proof (induction G S buffer s wr k rule: seal_loop.induct)
  case (1 G S buffer s wr k)
  obtain out s1 wr1 k1 where st: "seal_step G S buffer s wr k = (out, s1, wr1, k1)" by (metis prod_cases4)
  note keep = seal_step_keeps [OF 1(2) st]
  show ?case
  proof (cases "length buffer = MAX_IO_CHUNK_BYTES_V1")
    case False
    with 1(3) show ?thesis by (simp add: seal_loop.simps)
  next
    case True
    show ?thesis
    proof (cases out)
      case (Inl q)
      with True 1(3) st keep show ?thesis by (simp add: seal_loop.simps [of G S buffer])
    next
      case (Inr b)
      with True 1(3) st have "seal_loop G S b s1 wr1 k1 = (r, s', wr', k')"
        by (simp add: seal_loop.simps [of G S buffer])
      with 1(1) [OF _ st [symmetric] Inr refl refl 1(2)] True keep show ?thesis by simp
    qed
  qed
qed

lemma seal_object_keeps:
  assumes "source_keeps P S" and "seal_object_v1 G ctx S s k = (r, s', k')" and "P s"
  shows "P s'"
  using assms(2,3)
  by (auto simp: seal_object_v1_def split: prod.splits sum.splits bool.splits if_splits
      dest!: source_keepsD [OF assms(1)] seal_loop_keeps [OF assms(1)])

section \<open>The reader\<close>

lemma check_cancelled_keeps:
  assumes "source_keeps P S" and "check_cancelled S inp = (r, inp')"
  shows "P (src inp) \<longrightarrow> P (src inp')"
  using assms(2) by (auto simp: check_cancelled_def split: prod.splits dest!: source_keepsD [OF assms(1)])

lemma checked_read_keeps:
  assumes "source_keeps P S" and "checked_read S dest inp = (r, inp')"
  shows "P (src inp) \<longrightarrow> P (src inp')"
  using assms(2)
  by (auto simp: checked_read_def Let_def split: prod.splits sum.splits if_splits
      dest!: source_keepsD [OF assms(1)] check_cancelled_keeps [OF assms(1)])

lemma read_exact_keeps:
  "source_keeps P S \<Longrightarrow> read_exact S dest inp = (r, inp') \<Longrightarrow> P (src inp) \<longrightarrow> P (src inp')"
proof (induction S dest inp arbitrary: r inp' rule: read_exact.induct)
  case (1 S dest inp)
  obtain out inp1 where rd: "checked_read S dest inp = (out, inp1)" by fastforce
  note keep = checked_read_keeps [OF 1(2) rd]
  show ?case
  proof (cases "dest = [] \<or> (\<exists>e. out = Inl e)")
    case True
    with 1(3) rd keep show ?thesis by (cases "dest = []") (auto simp: read_exact.simps [of S dest] read_exact.simps [of S "[]"])
  next
    case False
    then obtain n d where out: "dest \<noteq> []" "out = Inr (n, d)" by (cases out) auto
    obtain q inp2 where re: "read_exact S (drop n d) inp1 = (q, inp2)" by fastforce
    show ?thesis
    proof (cases "n = 0")
      case True
      with 1(3) rd keep out show ?thesis by (simp add: read_exact.simps [of S dest])
    next
      case False
      have "P (src inp1) \<longrightarrow> P (src inp2)"
        by (rule 1(1) [OF out(1) rd [symmetric] out(2) refl False 1(2) re])
      with False 1(3) rd keep out re show ?thesis
        by (auto simp: read_exact.simps [of S dest] split: sum.splits)
    qed
  qed
qed

lemma next_length_keeps:
  assumes "source_keeps P S" and "next_length S inp = (r, inp')"
  shows "P (src inp) \<longrightarrow> P (src inp')"
  using assms(2)
  by (auto simp: next_length_def Let_def split: prod.splits sum.splits if_splits
      dest!: checked_read_keeps [OF assms(1)] read_exact_keeps [OF assms(1)])

lemma push_decrypted_keeps:
  assumes "source_keeps P S" and "push_decrypted G Y S b inp dec k = (r, inp', dec', k')"
  shows "P (src inp) \<longrightarrow> P (src inp')"
proof -
  let ?P = "\<lambda>x :: 'a checked_source \<times> 'c. P (src (fst x))"
  have "\<forall>b x. ?P x \<longrightarrow> ?P (snd (reader_emit G b x))" by (auto simp: reader_emit_def split: prod.splits)
  moreover have "\<forall>x. ?P x \<longrightarrow> ?P (snd (reader_cancelled S x))"
    by (auto simp: reader_cancelled_def split: prod.splits dest!: check_cancelled_keeps [OF assms(1)])
  ultimately have push: "P (src (fst x)) \<longrightarrow> P (src (fst x'))"
    if "push Y (reader_emit G) (reader_cancelled S) dec b x = (q, d', x')" for x q d' x'
    using push_keeps [of ?P] that by blast
  show ?thesis
    using assms(2)
    by (auto simp: push_decrypted_def split: prod.splits sum.splits
        dest!: check_cancelled_keeps [OF assms(1)] push)
qed

lemma frame_step_keeps:
  assumes "source_keeps P S" and "frame_step G Y S ad len frm inp d dec k = (r, inp', dec', k')"
  shows "P (src inp) \<longrightarrow> P (src inp')"
  using assms(2)
  by (auto simp: frame_step_def split: prod.splits sum.splits option.splits if_splits
      dest!: read_exact_keeps [OF assms(1)] next_length_keeps [OF assms(1)] push_decrypted_keeps [OF assms(1)])

lemma frame_loop_keeps:
  "source_keeps P S \<Longrightarrow> frame_loop G Y S ad len frm inp d dec k = (r, inp', dec', k') \<Longrightarrow>
     P (src inp) \<longrightarrow> P (src inp')"
proof (induction G Y S ad len frm inp d dec k rule: frame_loop.induct)
  case (1 G Y S ad len frm inp d dec k)
  obtain q inp1 dec1 k1 where st: "frame_step G Y S ad len frm inp d dec k = (q, inp1, dec1, k1)" by (metis prod_cases4)
  note keep = frame_step_keeps [OF 1(2) st]
  show ?case
  proof (cases q)
    case (Inl q')
    with 1(3) st keep show ?thesis by (simp add: frame_loop.simps [of G Y S ad len frm])
  next
    case (Inr p)
    obtain len' frm' d' where p: "p = (len', frm', d')" by (metis prod_cases3)
    from Inr p st 1(3) have "frame_loop G Y S ad len' frm' inp1 d' dec1 k1 = (r, inp', dec', k')"
      by (simp add: frame_loop.simps [of G Y S ad len frm])
    with 1(1) [OF st [symmetric] _ _ _ _ _ 1(2)] Inr p keep show ?thesis by auto
  qed
qed

lemma authenticate_envelope_keeps:
  assumes "source_keeps P S" and "authenticate_envelope G Y S ctx inp dec k = (r, inp', dec', k')"
  shows "P (src inp) \<longrightarrow> P (src inp')"
  using assms(2)
  by (auto simp: authenticate_envelope_def Let_def split: prod.splits sum.splits option.splits if_splits
      dest!: read_exact_keeps [OF assms(1)] next_length_keeps [OF assms(1)] frame_loop_keeps [OF assms(1)])

lemma open_object_keeps:
  assumes "source_keeps P S" and "open_object_v1 G Y S ctx s k = (r, s', k')" and "P s"
  shows "P s'"
  using assms(2,3)
  by (auto simp: open_object_v1_def checked_source_new_def split: prod.splits sum.splits if_splits
      dest!: check_cancelled_keeps [OF assms(1)] authenticate_envelope_keeps [OF assms(1)])

section \<open>How much is read\<close>

text \<open>The count of the bytes a source has handed out. A read may fill its destination, and one that reports
  how many bytes it has stored has stored no more than that; asking for cancellation takes nothing.\<close>

definition counts_reads :: "('s \<Rightarrow> nat) \<Rightarrow> 's byte_source \<Rightarrow> bool" where
  "counts_reads taken S \<longleftrightarrow>
     (\<forall>s. taken (snd (is_cancelled S s)) = taken s) \<and>
     (\<forall>dest s. case read_chunk S dest s of
        (Inl _, _, s') \<Rightarrow> taken s' \<le> taken s + length dest
      | (Inr n, _, s') \<Rightarrow> taken s' \<le> taken s + min n (length dest))"

text \<open>While reading goes on, the reader's own counter covers what has been taken since \<open>c\<close>; when it stops,
  at most the probe byte is above the limit.\<close>

definition covered :: "('s \<Rightarrow> nat) \<Rightarrow> nat \<Rightarrow> 's checked_source \<Rightarrow> bool" where
  "covered taken c inp \<longleftrightarrow> unat (read_bytes inp) \<le> 268435456 \<and> taken (src inp) \<le> c + unat (read_bytes inp)"

definition stays_covered :: "('s \<Rightarrow> nat) \<Rightarrow> nat \<Rightarrow> 'a backup_result \<Rightarrow> 's checked_source \<Rightarrow> bool" where
  "stays_covered taken c r inp \<longleftrightarrow>
     taken (src inp) \<le> c + 268435457 \<and> (\<forall>a. r = Inr a \<longrightarrow> covered taken c inp)"

lemma covered_stays: "covered taken c inp \<Longrightarrow> stays_covered taken c r inp"
  by (simp add: covered_def stays_covered_def)

lemma stays_coveredD: "stays_covered taken c (Inr a) inp \<Longrightarrow> covered taken c inp"
  by (simp add: stays_covered_def)

lemma stays_covered_Inl: "stays_covered taken c (Inl e) inp \<Longrightarrow> stays_covered taken c (Inl e') inp"
  by (simp add: stays_covered_def)

lemma counts_cancelled: "counts_reads taken S \<Longrightarrow> is_cancelled S s = (b, s') \<Longrightarrow> taken s' = taken s"
  unfolding counts_reads_def by (metis snd_conv)

lemma counts_read:
  assumes "counts_reads taken S" and "source_read S dest s = (r, dest', s')"
  shows "taken s' \<le> taken s + (case r of Inl _ \<Rightarrow> length dest | Inr n \<Rightarrow> min n (length dest))"
proof -
  obtain q w t where q: "read_chunk S dest s = (q, w, t)" by (metis prod_cases3)
  have "case read_chunk S dest s of (Inl _, _, s') \<Rightarrow> taken s' \<le> taken s + length dest
      | (Inr n, _, s') \<Rightarrow> taken s' \<le> taken s + min n (length dest)"
    using assms(1) [unfolded counts_reads_def, THEN conjunct2, THEN spec, THEN spec, of s dest] .
  with q assms(2) show ?thesis by (cases q) (auto simp: source_read_def)
qed

lemma check_cancelled_covered:
  assumes "counts_reads taken S" and "covered taken c inp" and "check_cancelled S inp = (r, inp')"
  shows "covered taken c inp'"
  using assms(2,3) check_cancelled_eq [OF assms(3)]
  by (auto simp: covered_def check_cancelled_def split: prod.splits dest!: counts_cancelled [OF assms(1)])

lemma checked_read_covered:
  assumes S: "counts_reads taken S" and "covered taken c inp" and run: "checked_read S dest inp = (r, inp')"
  shows "stays_covered taken c r inp'"
proof -
  obtain q inp1 where c1: "check_cancelled S inp = (q, inp1)" by fastforce
  note cov1 = check_cancelled_covered [OF S assms(2) c1]
  define cap where "cap = min (min (length dest) MAX_IO_CHUNK_BYTES_V1) (unat (MAX_CIPHERTEXT_OBJECT_BYTES_V1 - read_bytes inp1 + 1))"
  show ?thesis
  proof (cases "(\<exists>e. q = Inl e) \<or> eof inp1 \<or> MAX_CIPHERTEXT_OBJECT_BYTES_V1 < read_bytes inp1")
    case True
    with run c1 cov1 show ?thesis by (cases q) (auto simp: checked_read_def intro: covered_stays split: if_splits)
  next
    case False
    then have q: "q = Inr ()" and le: "read_bytes inp1 \<le> MAX_CIPHERTEXT_OBJECT_BYTES_V1" by (cases q, auto)
    have room: "unat (read_bytes inp1) + cap \<le> 268435457"
    proof -
      have "unat (MAX_CIPHERTEXT_OBJECT_BYTES_V1 - read_bytes inp1) = 268435456 - unat (read_bytes inp1)"
        using le by (simp add: unat_sub)
      then have "unat (MAX_CIPHERTEXT_OBJECT_BYTES_V1 - read_bytes inp1 + 1) \<le> 268435456 - unat (read_bytes inp1) + 1"
        using unat_word_ariths(1) [of "MAX_CIPHERTEXT_OBJECT_BYTES_V1 - read_bytes inp1" 1] by simp
      with cov1 show ?thesis by (auto simp: covered_def cap_def)
    qed
    obtain x stored s' where rd: "source_read S (take cap dest) (src inp1) = (x, stored, s')" by (metis prod_cases3)
    note tk = counts_read [OF S rd]
    have len: "length (take cap dest) = cap" by (simp add: cap_def)
    show ?thesis
    proof (cases x)
      case (Inl e)
      with run c1 q False rd have "r = Inl e" "inp' = inp1\<lparr>src := s'\<rparr>" by (auto simp: checked_read_def Let_def cap_def)
      with tk Inl len room cov1 show ?thesis by (simp add: stays_covered_def covered_def)
    next
      case (Inr n)
      obtain y inp2 where c2: "check_cancelled S (inp1\<lparr>src := s'\<rparr>) = (y, inp2)" by fastforce
      have t2: "taken (src inp2) = taken s'" "read_bytes inp2 = read_bytes inp1"
        using c2 counts_cancelled [OF S] by (auto simp: check_cancelled_def split: prod.splits)
      have most: "taken (src inp2) \<le> c + unat (read_bytes inp1) + min n cap"
        using tk Inr len t2 cov1 by (simp add: covered_def)
      with room have "taken (src inp2) \<le> c + 268435457" by simp
      note over = this
      have eq: "checked_read S dest inp = (case y of Inl e \<Rightarrow> (Inl e, inp2) | Inr _ \<Rightarrow>
          if cap < n then (Inl invalid_state, inp2)
          else let inp3 = inp2\<lparr>read_bytes := read_bytes inp2 + of_nat n\<rparr> in
            if read_bytes inp3 > MAX_CIPHERTEXT_OBJECT_BYTES_V1 then (Inl resource_limit_exceeded, inp3)
            else (Inr (n, stored @ drop cap dest), inp3\<lparr>eof := (n = 0)\<rparr>))"
        using c1 q False rd Inr c2 unfolding cap_def by (simp add: checked_read_def Let_def)
      show ?thesis
      proof (cases "y = Inr () \<and> n \<le> cap")
        case False
        with run eq over show ?thesis by (cases y) (auto simp: stays_covered_def not_le)
      next
        case True
        then have "n \<le> 65536" by (simp add: MAX_IO_CHUNK_BYTES_V1_def cap_def)
        then have add: "unat (read_bytes inp1 + of_nat n) = unat (read_bytes inp1) + n"
          using unat_small_count [of n] unat_add64 [of "read_bytes inp1" "of_nat n"] cov1 by (simp add: covered_def)
        show ?thesis
          using run [unfolded eq] True over most add t2
          by (auto simp: Let_def stays_covered_def covered_def word_less_nat_alt not_less split: if_splits)
      qed
    qed
  qed
qed

lemma read_exact_covered:
  "counts_reads taken S \<Longrightarrow> covered taken c inp \<Longrightarrow> read_exact S dest inp = (r, inp') \<Longrightarrow> stays_covered taken c r inp'"
proof (induction S dest inp arbitrary: r inp' rule: read_exact.induct)
  case (1 S dest inp)
  obtain out inp1 where rd: "checked_read S dest inp = (out, inp1)" by fastforce
  note cov1 = checked_read_covered [OF 1(2,3) rd]
  show ?case
  proof (cases "dest = []")
    case True
    with 1(3,4) show ?thesis by (auto simp: read_exact.simps intro: covered_stays)
  next
    case dest: False
    show ?thesis
    proof (cases out)
      case (Inl e)
      with 1(4) rd dest cov1 show ?thesis by (auto simp: read_exact.simps [of S dest] intro: stays_covered_Inl)
    next
      case (Inr nd)
      obtain n d where nd: "nd = (n, d)" by fastforce
      note cov2 = stays_coveredD [OF cov1 [unfolded Inr]]
      obtain q inp2 where re: "read_exact S (drop n d) inp1 = (q, inp2)" by fastforce
      show ?thesis
      proof (cases "n = 0")
        case True
        with 1(4) rd dest Inr nd cov2 show ?thesis by (auto simp: read_exact.simps [of S dest] intro: covered_stays)
      next
        case False
        have "stays_covered taken c q inp2"
          by (rule 1(1) [OF dest rd [symmetric] Inr nd [symmetric] False 1(2) cov2 re])
        with False 1(4) rd dest Inr nd re show ?thesis
          by (auto simp: read_exact.simps [of S dest] stays_covered_def split: sum.splits)
      qed
    qed
  qed
qed

lemma next_length_covered:
  assumes S: "counts_reads taken S" and cov: "covered taken c inp" and run: "next_length S inp = (r, inp')"
  shows "stays_covered taken c r inp'"
proof -
  obtain out inp1 where rd: "checked_read S (replicate 1 0) inp = (out, inp1)" by fastforce
  note cov1 = checked_read_covered [OF S cov rd]
  show ?thesis
  proof (cases out)
    case (Inl e)
    with run rd cov1 show ?thesis by (auto simp: next_length_def intro: stays_covered_Inl)
  next
    case (Inr nd)
    note cov2 = stays_coveredD [OF cov1 [unfolded Inr]]
    obtain q inp2 where re: "read_exact S (replicate 3 0) inp1 = (q, inp2)" by fastforce
    note cov3 = read_exact_covered [OF S cov2 re]
    show ?thesis
      using run rd Inr re cov2 cov3
      by (cases nd; cases q) (auto simp: next_length_def Let_def stays_covered_def covered_def split: if_splits)
  qed
qed

lemma push_decrypted_covered:
  assumes S: "counts_reads taken S" and cov: "covered taken c inp"
    and run: "push_decrypted G Y S b inp dec k = (r, inp', dec', k')"
  shows "covered taken c inp'"
proof -
  let ?P = "\<lambda>x :: 'a checked_source \<times> 'c. covered taken c (fst x)"
  have "\<forall>b x. ?P x \<longrightarrow> ?P (snd (reader_emit G b x))" by (auto simp: reader_emit_def split: prod.splits)
  moreover have "\<forall>x. ?P x \<longrightarrow> ?P (snd (reader_cancelled S x))"
    by (auto simp: reader_cancelled_def split: prod.splits dest: check_cancelled_covered [OF S])
  ultimately have push: "covered taken c (fst x) \<longrightarrow> covered taken c (fst x')"
    if "push Y (reader_emit G) (reader_cancelled S) dec b x = (q, d', x')" for x q d' x'
    using push_keeps [of ?P] that by blast
  obtain q inp1 where c1: "check_cancelled S inp = (q, inp1)" by fastforce
  note cov1 = check_cancelled_covered [OF S cov c1]
  obtain q2 d2 x2 where p: "push Y (reader_emit G) (reader_cancelled S) dec b (inp1, k) = (q2, d2, x2)" by (metis prod_cases3)
  show ?thesis
    using run c1 cov1 p push [OF p] by (cases q; cases x2) (auto simp: push_decrypted_def)
qed

lemma frame_step_covered:
  assumes S: "counts_reads taken S" and cov: "covered taken c inp"
    and run: "frame_step G Y S ad len frm inp d dec k = (out, inp', dec', k')"
  shows "taken (src inp') \<le> c + 268435457 \<and> (\<forall>x. out = Inr x \<or> out = Inl (Inr ()) \<longrightarrow> covered taken c inp')"
proof (cases "length frm < len")
  case True
  with run cov show ?thesis by (auto simp: frame_step_def covered_def)
next
  case False
  obtain q1 inp1 where r1: "read_exact S (take len frm) inp = (q1, inp1)" by fastforce
  note cov1 = read_exact_covered [OF S cov r1]
  show ?thesis
  proof (cases q1)
    case (Inl e)
    with run r1 cov1 False show ?thesis by (auto simp: frame_step_def stays_covered_def)
  next
    case (Inr msg)
    note cov1' = stays_coveredD [OF cov1 [unfolded Inr]]
    obtain q2 inp2 where r2: "next_length S inp1 = (q2, inp2)" by fastforce
    note cov2 = next_length_covered [OF S cov1' r2]
    show ?thesis
    proof (cases q2)
      case (Inl e)
      with run r1 r2 Inr cov2 False show ?thesis by (auto simp: frame_step_def stays_covered_def)
    next
      case (Inr o_len)
      note cov2' = stays_coveredD [OF cov2 [unfolded Inr]]
      have pushed: "covered taken c inp3" if "push_decrypted G Y S b inp2 dec k = (r, inp3, dec3, k3)" for b r inp3 dec3 k3
        by (rule push_decrypted_covered [OF S cov2' that])
      have end2: "taken (src inp2) \<le> c + 268435457" using cov2 by (simp add: stays_covered_def)
      have end3: "taken (src inp3) \<le> c + 268435457" if "covered taken c inp3" for inp3
        using that by (simp add: covered_def)
      show ?thesis
        using run r1 r2 \<open>q1 = Inr msg\<close> Inr False cov2' end2
        by (auto simp: frame_step_def split: option.splits prod.splits sum.splits if_splits dest!: pushed intro: end3)
    qed
  qed
qed

lemma frame_loop_covered:
  "counts_reads taken S \<Longrightarrow> covered taken c inp \<Longrightarrow> frame_loop G Y S ad len frm inp d dec k = (r, inp', dec', k') \<Longrightarrow>
     stays_covered taken c r inp'"
proof (induction G Y S ad len frm inp d dec k rule: frame_loop.induct)
  case (1 G Y S ad len frm inp d dec k)
  obtain q inp1 dec1 k1 where st: "frame_step G Y S ad len frm inp d dec k = (q, inp1, dec1, k1)" by (metis prod_cases4)
  note cov1 = frame_step_covered [OF 1(2,3) st]
  show ?case
  proof (cases q)
    case (Inl q')
    with 1(4) st cov1 show ?thesis by (simp add: frame_loop.simps [of G Y S ad len frm] stays_covered_def)
  next
    case (Inr p)
    obtain len' frm' d' where p: "p = (len', frm', d')" by (metis prod_cases3)
    from Inr p st 1(4) have run: "frame_loop G Y S ad len' frm' inp1 d' dec1 k1 = (r, inp', dec', k')"
      by (simp add: frame_loop.simps [of G Y S ad len frm])
    have "covered taken c inp1" using cov1 Inr by blast
    with 1(1) [OF st [symmetric] _ _ _ _ _ 1(2)] Inr p run show ?thesis by auto
  qed
qed

lemma authenticate_envelope_covered:
  assumes S: "counts_reads taken S" and cov: "covered taken c inp"
    and run: "authenticate_envelope G Y S ctx inp dec k = (r, inp', dec', k')"
  shows "stays_covered taken c r inp'"
proof -
  obtain q1 inp1 where r1: "read_exact S (replicate ENVELOPE_HEADER_BYTES 0) inp = (q1, inp1)" by fastforce
  note cov1 = read_exact_covered [OF S cov r1]
  show ?thesis
  proof (cases q1)
    case (Inl e)
    with run r1 cov1 show ?thesis by (auto simp: authenticate_envelope_def intro: stays_covered_Inl)
  next
    case (Inr hdr)
    note cov1' = stays_coveredD [OF cov1 [unfolded Inr]]
    obtain q2 inp2 where r2: "next_length S inp1 = (q2, inp2)" by fastforce
    note cov2 = next_length_covered [OF S cov1' r2]
    show ?thesis
    proof (cases "\<exists>len. q2 = Inr (Some len)")
      case False
      with run r1 Inr r2 cov2 covered_stays [OF cov1'] show ?thesis
        by (auto simp: authenticate_envelope_def Let_def stays_covered_def split: sum.splits option.splits if_splits)
    next
      case True
      then obtain len where len: "q2 = Inr (Some len)" by blast
      note cov2' = stays_coveredD [OF cov2 [unfolded len]]
      show ?thesis
        using run r1 Inr r2 len covered_stays [OF cov1'] frame_loop_covered [OF S cov2']
        by (auto simp: authenticate_envelope_def Let_def split: sum.splits if_splits)
    qed
  qed
qed

text \<open>What opening an object takes from its source.\<close>

lemma open_object_reads:
  assumes S: "counts_reads taken S" and run: "open_object_v1 G Y S ctx s k = (r, s', k')"
  shows "taken s' \<le> taken s + unat MAX_CIPHERTEXT_OBJECT_BYTES_V1 + 1"
proof -
  let ?new = "\<lparr>src = s, read_bytes = 0, eof = False\<rparr>"
  obtain q inp where c: "check_cancelled S ?new = (q, inp)" by fastforce
  have "covered taken (taken s) ?new" by (simp add: covered_def)
  note cov = check_cancelled_covered [OF S this c]
  have fin: "taken (src i) \<le> taken s + 268435457" if "covered taken (taken s) i" for i
    using that by (simp add: covered_def)
  show ?thesis
  proof (cases "\<exists>u d. q = Inr u \<and> bounded_decoder_new Y = Inr d")
    case False
    with run c fin [OF cov] show ?thesis by (auto simp: open_object_v1_def checked_source_new_def split: sum.splits)
  next
    case True
    then obtain u d where d: "q = Inr u" "bounded_decoder_new Y = Inr d" by blast
    obtain q1 inp1 d1 k1 where ae: "authenticate_envelope G Y S ctx inp d k = (q1, inp1, d1, k1)" by (metis prod_cases4)
    note cov1 = authenticate_envelope_covered [OF S cov ae]
    show ?thesis
    proof (cases q1)
      case (Inl e)
      with run c d ae cov1 show ?thesis by (auto simp: open_object_v1_def checked_source_new_def stays_covered_def)
    next
      case (Inr u1)
      obtain q2 inp2 where c2: "check_cancelled S inp1 = (q2, inp2)" by fastforce
      from fin [OF check_cancelled_covered [OF S stays_coveredD [OF cov1 [unfolded Inr]] c2]]
      show ?thesis using run c d ae Inr c2 by (cases q2) (auto simp: open_object_v1_def checked_source_new_def)
    qed
  qed
qed

end
