(* ===== verification/Backup_Writer_Correct.thy ===== *)
theory Backup_Writer_Correct
  imports Backup_Writer
begin

text \<open>
  Correctness of the object writer. The specification \<open>seal_stream\<close> frames and encrypts a compressed
  stream as a whole; the writer, which receives it in pieces of any size, produces the same bytes.
  The lemmas lift this from the envelope's operations to an encoder session and to
  \<open>seal_object_v1\<close>; the properties state what reaches the sink, the bounds on all counters and the
  life cycle of a writer.
\<close>

section \<open>Specification\<close>

text \<open>
  One frame, and the frames of a compressed stream: every full block is sealed with \<open>encrypt_next\<close>,
  the rest, possibly empty, with \<open>encrypt_last\<close>.
\<close>

definition frame :: "bytes \<Rightarrow> bytes" where
  "frame ciphertext = to_be_bytes32 (of_nat (length ciphertext)) @ ciphertext"

function seal_blocks ::
    "('e, 'd) stream_cipher \<Rightarrow> bytes \<Rightarrow> 'e \<Rightarrow> bytes \<Rightarrow> (bytes \<times> 'e \<times> bytes) option" where
  "seal_blocks C ad e data =
     (if length data < COMPRESSED_BLOCK_BYTES then Some ([], e, data)
      else
        (case encrypt_next C e (take COMPRESSED_BLOCK_BYTES data) ad of
           (None, _) \<Rightarrow> None
         | (Some c, e') \<Rightarrow>
             map_option (\<lambda>(out, e'', rest). (frame c @ out, e'', rest))
               (seal_blocks C ad e' (drop COMPRESSED_BLOCK_BYTES data))))"
  by pat_completeness auto
termination
  by (relation "measure (\<lambda>(C, ad, e, data). length data)") (auto simp: COMPRESSED_BLOCK_BYTES_def)

declare seal_blocks.simps [simp del]

definition seal_stream :: "('e, 'd) stream_cipher \<Rightarrow> bytes \<Rightarrow> 'e \<Rightarrow> bytes \<Rightarrow> bytes option" where
  "seal_stream C ad e data =
     (case seal_blocks C ad e data of
        None \<Rightarrow> None
      | Some (out, e', rest) \<Rightarrow> map_option (\<lambda>c. out @ frame c) (encrypt_last C e' rest ad))"

text \<open>The compressed bytes of an encoder session over a list of inputs, if every call succeeds.\<close>

fun zstd_writes :: "'z zstd_encoder \<Rightarrow> 'z \<Rightarrow> bytes list \<Rightarrow> (bytes \<times> 'z) option" where
  "zstd_writes Z z [] = Some ([], z)"
| "zstd_writes Z z (i # inputs) =
     (case encoder_write_all Z z i of
        (ws, False, z') \<Rightarrow> None
      | (ws, True, z') \<Rightarrow> map_option (\<lambda>(out, z''). (concat ws @ out, z'')) (zstd_writes Z z' inputs))"

definition zstd_session :: "'z zstd_encoder \<Rightarrow> bytes list \<Rightarrow> bytes option" where
  "zstd_session Z inputs =
     (case encoder_new Z 3 of
        None \<Rightarrow> None
      | Some z \<Rightarrow>
          (case zstd_writes Z z inputs of
             None \<Rightarrow> None
           | Some (out, z') \<Rightarrow>
               (case encoder_try_finish Z z' of
                  (ws, True) \<Rightarrow> Some (out @ concat ws)
                | (ws, False) \<Rightarrow> None)))"

section \<open>Lemmas\<close>

text \<open>The counters of the envelope stay within their limits, whether or not an operation fails.\<close>

definition envelope_inv :: "'e envelope_writer \<Rightarrow> bool" where
  "envelope_inv w \<longleftrightarrow>
     unat (compressed_bytes w) \<le> unat MAX_COMPRESSED_OBJECT_BYTES_V1 \<and>
     unat (ciphertext_bytes w) \<le> unat MAX_CIPHERTEXT_OBJECT_BYTES_V1 \<and>
     unat (block_count w) \<le> unat MAX_ENCRYPTED_BLOCKS_PER_OBJECT_V1 \<and>
     length (hash w) = unat (ciphertext_bytes w)"

lemma seal_blocks_append:
  "seal_blocks C ad e data = Some (out, e', rest) \<Longrightarrow>
     seal_blocks C ad e (data @ xs) =
       map_option (\<lambda>(out', e'', rest'). (out @ out', e'', rest')) (seal_blocks C ad e' (rest @ xs))"
proof (induction C ad e data arbitrary: out rule: seal_blocks.induct)
  case (1 C ad e data)
  show ?case
  proof (cases "length data < COMPRESSED_BLOCK_BYTES")
    case True
    with 1(2) have "out = []" "e' = e" "rest = data" by (simp_all add: seal_blocks.simps [of C ad e data])
    then show ?thesis by (simp add: option.map_ident prod.case_eq_if)
  next
    case False
    then obtain c e1 out1 where c: "encrypt_next C e (take COMPRESSED_BLOCK_BYTES data) ad = (Some c, e1)"
      and r: "seal_blocks C ad e1 (drop COMPRESSED_BLOCK_BYTES data) = Some (out1, e', rest)"
      and out: "out = frame c @ out1"
      using 1(2) by (auto simp: seal_blocks.simps [of C ad e data] split: prod.splits option.splits)
    from 1(1) [OF False c [symmetric] refl r] False c out show ?thesis
      by (simp add: seal_blocks.simps [of C ad e "data @ xs"] option.map_comp comp_def prod.case_eq_if)
  qed
qed

lemma write_envelope_bytes_inv:
  assumes "envelope_inv (fst st)" and "length bs < 2 ^ 64"
  shows "envelope_inv (fst (snd (write_envelope_bytes G bs st)))"
  using assms
  by (auto simp: write_envelope_bytes_def envelope_inv_def Let_def unat_len64
      split: prod.splits sum.splits dest!: checked_add_limited_InrD)

lemma write_envelope_bytes_InrD:
  assumes "faithful_sink (sink G) W" and "write_envelope_bytes G bs (w, k) = (Inr u, w', k')"
  shows "w' = w\<lparr>ciphertext_bytes := ciphertext_bytes w + len64 bs, hash := hash w @ bs\<rparr> \<and> W k' = W k @ bs"
proof -
  obtain n where n: "checked_add_limited (ciphertext_bytes w) (len64 bs) MAX_CIPHERTEXT_OBJECT_BYTES_V1 = Inr n"
    and ch: "sforeach (chunks MAX_IO_CHUNK_BYTES_V1 bs) (sink_write (sink G)) k = (Inr (), k')"
    and w': "w' = w\<lparr>ciphertext_bytes := n, hash := hash w @ bs\<rparr>"
    using assms(2) by (auto simp: write_envelope_bytes_def Let_def split: sum.splits prod.splits)
  from sink_write_chunks [OF assms(1) ch] have "W k' = W k @ bs"
    by (auto simp: concat_chunks MAX_IO_CHUNK_BYTES_V1_def)
  with n w' show ?thesis by (simp add: checked_add_limited_Inr_iff)
qed

lemma write_envelope_bytes_accept:
  assumes "accepting_sink (sink G)" and "unat (ciphertext_bytes w) + length bs \<le> 268435456"
  shows "\<exists>w' k'. write_envelope_bytes G bs (w, k) = (Inr (), w', k')"
proof -
  have "checked_add_limited (ciphertext_bytes w) (len64 bs) MAX_CIPHERTEXT_OBJECT_BYTES_V1 =
      Inr (ciphertext_bytes w + len64 bs)"
    using assms(2) by (simp add: checked_add_limited_Inr_iff unat_len64)
  moreover have "\<forall>c \<in> set (chunks MAX_IO_CHUNK_BYTES_V1 bs). length c \<le> 65536"
    using chunks_bounded by (fastforce simp: MAX_IO_CHUNK_BYTES_V1_def)
  ultimately show ?thesis
    using sink_accepts_chunks [OF assms(1), of "chunks MAX_IO_CHUNK_BYTES_V1 bs" k]
    by (auto simp: write_envelope_bytes_def Let_def)
qed

lemma write_encrypted_block_inv:
  assumes "envelope_inv (fst st)"
  shows "envelope_inv (fst (snd (write_encrypted_block G c st)))"
proof -
  have step: "envelope_inv (fst (snd (sbind (write_envelope_bytes G a) (\<lambda>_. write_envelope_bytes G b) s)))"
    if "envelope_inv (fst s)" "length a < 2 ^ 64" "length b < 2 ^ 64" for a b s
    using write_envelope_bytes_inv [OF that(1,2), of G] write_envelope_bytes_inv [OF _ that(3), of _ G]
    by (auto simp: sbind_def split: prod.splits sum.splits)
  show ?thesis
  proof (cases st)
    case (Pair w k)
    show ?thesis
    proof (cases "checked_add_limited (block_count w) 1 MAX_ENCRYPTED_BLOCKS_PER_OBJECT_V1")
      case (Inr n)
      with assms Pair have "envelope_inv (w\<lparr>block_count := n\<rparr>)"
        by (auto simp: envelope_inv_def dest!: checked_add_limited_InrD)
      with step [of "(w\<lparr>block_count := n\<rparr>, k)" "to_be_bytes32 (of_nat (length c))" c] Inr Pair assms
      show ?thesis by (simp add: write_encrypted_block_def Let_def)
    qed (use assms Pair in \<open>simp add: write_encrypted_block_def\<close>)
  qed
qed

lemma write_encrypted_block_InrD:
  assumes "faithful_sink (sink G) W" and "write_encrypted_block G c (w, k) = (Inr u, w', k')"
  shows "w' = w\<lparr>ciphertext_bytes := ciphertext_bytes w + len64 (frame c), block_count := block_count w + 1,
      hash := hash w @ frame c\<rparr> \<and> W k' = W k @ frame c \<and> 16 \<le> length c \<and> length c \<le> 65552 \<and>
    unat (block_count w) + 1 \<le> 4096"
proof -
  obtain n where c: "16 \<le> length c" "length c \<le> 65552"
    and n: "checked_add_limited (block_count w) 1 MAX_ENCRYPTED_BLOCKS_PER_OBJECT_V1 = Inr n"
    and b: "sbind (write_envelope_bytes G (to_be_bytes32 (of_nat (length c)))) (\<lambda>_. write_envelope_bytes G c)
      (w\<lparr>block_count := n\<rparr>, k) = (Inr u, w', k')"
    using assms(2)
    by (auto simp: write_encrypted_block_def Let_def envelope_consts split: if_splits sum.splits)
  from b obtain w1 k1 where
    b1: "write_envelope_bytes G (to_be_bytes32 (of_nat (length c))) (w\<lparr>block_count := n\<rparr>, k) = (Inr (), w1, k1)"
    and b2: "write_envelope_bytes G c (w1, k1) = (Inr u, w', k')"
    by (auto elim!: sbind_InrE)
  from n have n': "n = block_count w + 1" "unat (block_count w) + 1 \<le> 4096"
    by (simp_all add: checked_add_limited_Inr_iff)
  from write_envelope_bytes_InrD [OF assms(1) b1] write_envelope_bytes_InrD [OF assms(1) b2] c n' show ?thesis
    by (simp add: frame_def len64_append)
qed

lemma write_full_blocks_inv:
  "envelope_inv (fst st) \<Longrightarrow> envelope_inv (fst (snd (write_full_blocks G st)))"
proof (induction G st rule: write_full_blocks.induct)
  case (1 G w k)
  let ?w1 = "w\<lparr>pending := drop COMPRESSED_BLOCK_BYTES (pending w)\<rparr>"
  have inv1: "envelope_inv (?w1\<lparr>encryptor := x\<rparr>)" "envelope_inv ?w1" for x
    using 1(2) by (simp_all add: envelope_inv_def)
  show ?case
  proof (cases "length (pending w) < COMPRESSED_BLOCK_BYTES \<or> encryptor w = None")
    case True
    with 1(2) inv1 show ?thesis by (auto simp: write_full_blocks.simps [of G w k] Let_def)
  next
    case False
    then obtain e where e: "encryptor ?w1 = Some e" by auto
    obtain oc e' where enc: "encrypt_next (stream G) e (take COMPRESSED_BLOCK_BYTES (pending w)) (ew_context ?w1) = (oc, e')"
      by fastforce
    show ?thesis
    proof (cases oc)
      case None
      with False e enc inv1 show ?thesis by (simp add: write_full_blocks.simps [of G w k] Let_def)
    next
      case (Some c)
      obtain r w2 k2 where blk: "write_encrypted_block G c (?w1\<lparr>encryptor := Some e'\<rparr>, k) = (r, w2, k2)"
        by (metis prod_cases3)
      have "envelope_inv w2"
        using write_encrypted_block_inv [of "(?w1\<lparr>encryptor := Some e'\<rparr>, k)" G c] inv1 blk by simp
      with 1(1) [OF _ refl refl e enc [symmetric] Some blk [symmetric]] False e enc Some blk
      show ?thesis by (cases r) (auto simp: write_full_blocks.simps [of G w k] Let_def)
    qed
  qed
qed

lemma write_compressed_inv:
  assumes "envelope_inv (fst st)" and "length bs < 2 ^ 64"
  shows "envelope_inv (fst (snd (write_compressed G bs st)))"
proof (cases st)
  case (Pair w k)
  show ?thesis
  proof (cases "checked_add_limited (compressed_bytes w) (len64 bs) MAX_COMPRESSED_OBJECT_BYTES_V1")
    case (Inr n)
    with assms Pair have "envelope_inv (w\<lparr>compressed_bytes := n, pending := pending w @ bs\<rparr>)"
      by (auto simp: envelope_inv_def dest!: checked_add_limited_InrD)
    with Inr Pair show ?thesis
      using write_full_blocks_inv [of "(w\<lparr>compressed_bytes := n, pending := pending w @ bs\<rparr>, k)" G]
      by (simp add: write_compressed_def)
  qed (use assms Pair in \<open>simp add: write_compressed_def\<close>)
qed

text \<open>
  The refinement of the block loop: on success the loop has written the frames of the full blocks
  of its pending data, and keeps the rest pending.
\<close>

lemma write_full_blocks_InrD:
  assumes "faithful_sink (sink G) W"
  shows "write_full_blocks G st = (Inr u, w', k') \<Longrightarrow> encryptor (fst st) = Some e \<Longrightarrow>
    \<exists>out e' rest. seal_blocks (stream G) (ew_context (fst st)) e (pending (fst st)) = Some (out, e', rest) \<and>
      encryptor w' = Some e' \<and> pending w' = rest \<and> hash w' = hash (fst st) @ out \<and>
      W k' = W (snd st) @ out \<and> ew_context w' = ew_context (fst st) \<and>
      compressed_bytes w' = compressed_bytes (fst st)"
  using assms
proof (induction G st arbitrary: e rule: write_full_blocks.induct)
  case (1 G w k)
  let ?w1 = "w\<lparr>pending := drop COMPRESSED_BLOCK_BYTES (pending w)\<rparr>"
  show ?case
  proof (cases "length (pending w) < COMPRESSED_BLOCK_BYTES")
    case True
    with 1(2,3) show ?thesis by (simp add: write_full_blocks.simps [of G w k] seal_blocks.simps)
  next
    case False
    have e: "encryptor ?w1 = Some e" using 1(3) by simp
    from False e 1(2) obtain c e1 w2 k2 where
      enc: "encrypt_next (stream G) e (take COMPRESSED_BLOCK_BYTES (pending w)) (ew_context ?w1) = (Some c, e1)"
      and blk: "write_encrypted_block G c (?w1\<lparr>encryptor := Some e1\<rparr>, k) = (Inr (), w2, k2)"
      and rest: "write_full_blocks G (w2, k2) = (Inr u, w', k')"
      by (auto simp: write_full_blocks.simps [of G w k] Let_def split: prod.splits option.splits sum.splits)
    note w2 = write_encrypted_block_InrD [OF 1(4) blk]
    have "encryptor (fst (w2, k2)) = Some e1" using w2 by simp
    from 1(1) [OF False refl refl e enc [symmetric] refl blk [symmetric] refl rest this 1(4)]
    obtain out e' rs where
      "seal_blocks (stream G) (ew_context w2) e1 (pending w2) = Some (out, e', rs)"
      "encryptor w' = Some e'" "pending w' = rs" "hash w' = hash w2 @ out" "W k' = W k2 @ out"
      "ew_context w' = ew_context w2" "compressed_bytes w' = compressed_bytes w2" by auto
    with w2 False enc show ?thesis
      by (simp add: seal_blocks.simps [of "stream G" "ew_context w" e])
  qed
qed

text \<open>
  The state of an envelope that has received the compressed bytes \<open>cmp\<close>, in pieces of any size:
  \<open>base\<close> is what the sink held before, \<open>hdr\<close> the header.
\<close>

definition envelope_state ::
    "('e, 'd, 'z, 'k) object_env \<Rightarrow> ('k \<Rightarrow> bytes) \<Rightarrow> bytes \<Rightarrow> 'e \<Rightarrow> bytes \<Rightarrow> bytes \<Rightarrow> bytes
      \<Rightarrow> 'e envelope_writer \<times> 'k \<Rightarrow> bool" where
  "envelope_state G W ad e0 base hdr cmp st \<longleftrightarrow>
     (case st of (w, k) \<Rightarrow>
        envelope_inv w \<and> ew_context w = ad \<and> unat (compressed_bytes w) = length cmp \<and>
        W k = base @ hash w \<and>
        (\<exists>out e rest. seal_blocks (stream G) ad e0 cmp = Some (out, e, rest) \<and>
           encryptor w = Some e \<and> pending w = rest \<and> hash w = hdr @ out))"

lemma write_compressed_state:
  assumes "faithful_sink (sink G) W" and "envelope_state G W ad e0 base hdr cmp (w, k)"
    and "write_compressed G bs (w, k) = (Inr u, w', k')" and "length bs < 2 ^ 64"
  shows "envelope_state G W ad e0 base hdr (cmp @ bs) (w', k')"
proof -
  obtain n where n: "checked_add_limited (compressed_bytes w) (len64 bs) MAX_COMPRESSED_OBJECT_BYTES_V1 = Inr n"
    and blocks: "write_full_blocks G (w\<lparr>compressed_bytes := n, pending := pending w @ bs\<rparr>, k) = (Inr u, w', k')"
    using assms(3) by (auto simp: write_compressed_def split: sum.splits)
  from assms(2) obtain out e rest where st: "envelope_inv w" "ew_context w = ad"
      "unat (compressed_bytes w) = length cmp" "W k = base @ hash w"
      "seal_blocks (stream G) ad e0 cmp = Some (out, e, rest)" "encryptor w = Some e" "pending w = rest"
      "hash w = hdr @ out"
    unfolding envelope_state_def by auto
  have inv: "envelope_inv w'"
    using write_compressed_inv [of "(w, k)" bs G] assms(3,4) st(1) by simp
  from write_full_blocks_InrD [OF assms(1) blocks, of e] st obtain out' e' rest' where
    "seal_blocks (stream G) ad e (rest @ bs) = Some (out', e', rest')" "encryptor w' = Some e'"
    "pending w' = rest'" "hash w' = hash w @ out'" "W k' = W k @ out'" "ew_context w' = ad"
    "compressed_bytes w' = n" by auto
  moreover have "unat n = length cmp + length bs"
    using checked_add_limited_InrD [OF n] st(3) assms(4) by (simp add: unat_len64)
  ultimately show ?thesis
    using inv st(4,8) seal_blocks_append [OF st(5), of bs] by (simp add: envelope_state_def)
qed

text \<open>Rust slices are shorter than \<open>2 ^ 63\<close> bytes; the lists of writes that occur are.\<close>

definition small :: "bytes list \<Rightarrow> bool" where
  "small ws \<longleftrightarrow> (\<forall>b \<in> set ws. length b < 2 ^ 64)"

lemma small_simps [simp]: "small []" "small (b # ws) \<longleftrightarrow> length b < 2 ^ 64 \<and> small ws"
  by (auto simp: small_def)

lemma envelope_writes_state:
  assumes "faithful_sink (sink G) W"
  shows "envelope_state G W ad e0 base hdr cmp st \<Longrightarrow> sforeach ws (envelope_write G) st = (Inr u, st') \<Longrightarrow>
    small ws \<Longrightarrow> envelope_state G W ad e0 base hdr (cmp @ concat ws) st'"
proof (induction ws arbitrary: st cmp)
  case Nil
  then show ?case by simp
next
  case (Cons b ws)
  obtain w k where st: "st = (w, k)" by fastforce
  from Cons.prems(2) obtain st1 where b: "envelope_write G b st = (Inr (), st1)"
    and ws: "sforeach ws (envelope_write G) st1 = (Inr u, st')"
    by (auto split: prod.splits sum.splits)
  from b have "write_compressed G b (w, k) = (Inr (), fst st1, snd st1)"
    by (auto simp: envelope_write_def st split: prod.splits sum.splits)
  from write_compressed_state [OF assms Cons.prems(1) [unfolded st] this] Cons.prems(3)
  have "envelope_state G W ad e0 base hdr (cmp @ b) st1" by simp
  from Cons.IH [OF this ws] Cons.prems(3) show ?case by simp
qed

lemma encoder_run_state:
  assumes "faithful_sink (sink G) W" and "envelope_state G W ad e0 base hdr cmp st"
    and "encoder_run G (ws, success) st = (True, st')" and "small ws"
  shows "success \<and> envelope_state G W ad e0 base hdr (cmp @ concat ws) st'"
proof -
  from assms(3) have "sforeach ws (envelope_write G) st = (Inr (), st')" and "success"
    by (auto simp: encoder_run_def split: prod.splits sum.splits)
  with envelope_writes_state [OF assms(1,2) _ assms(4)] show ?thesis by blast
qed

text \<open>What the encoder passes on are Rust slices: shorter than \<open>2 ^ 64\<close> bytes.\<close>

definition slices_fit :: "'z zstd_encoder \<Rightarrow> bool" where
  "slices_fit Z \<longleftrightarrow>
     (\<forall>z i. small (fst (encoder_write_all Z z i))) \<and> (\<forall>z. small (fst (encoder_try_finish Z z)))"

text \<open>The state of an active writer that has accepted \<open>inputs\<close>.\<close>

definition writer_state ::
    "('e, 'd, 'z, 'k) object_env \<Rightarrow> ('k \<Rightarrow> bytes) \<Rightarrow> bytes \<Rightarrow> 'e \<Rightarrow> bytes \<Rightarrow> bytes \<Rightarrow> bytes list
      \<Rightarrow> ('e, 'z) object_writer \<times> 'k \<Rightarrow> bool" where
  "writer_state G W ad e0 base hdr inputs st \<longleftrightarrow>
     (\<exists>z0 cmp a. encoder_new (zstd G) 3 = Some z0 \<and>
        zstd_writes (zstd G) z0 inputs = Some (cmp, encoder a) \<and>
        terminal (fst st) = Active \<and> active (fst st) = Some a \<and>
        unat (plaintext_bytes a) = length (concat inputs) \<and> length (concat inputs) \<le> 1073741824 \<and>
        envelope_state G W ad e0 base hdr cmp (envelope a, snd st))"

lemma zstd_writes_snoc:
  "zstd_writes Z z inputs = Some (cmp, z1) \<Longrightarrow> encoder_write_all Z z1 i = (ws, True, z2) \<Longrightarrow>
     zstd_writes Z z (inputs @ [i]) = Some (cmp @ concat ws, z2)"
  by (induction Z z inputs arbitrary: cmp rule: zstd_writes.induct)
    (auto split: prod.splits bool.splits)

lemma writer_new_state:
  assumes "faithful_sink (sink G) W" and "writer_new G ctx k = (Inr wr, k')"
  obtains prefix where "random_fill G 19 = Some prefix" "length prefix = 19"
    "writer_state G W (canonical_bytes ctx) (encryptor_new (stream G) (object_key_bytes (object_key ctx)) prefix)
       (W k) (serialize_header prefix) [] (wr, k')"
proof -
  from assms(2) obtain prefix ew z where p: "random_fill G 19 = Some prefix"
    and ew: "envelope_new G ctx k prefix = (Inr ew, k')" and z: "encoder_new (zstd G) 3 = Some z"
    and wr: "wr = \<lparr>active = Some \<lparr>encoder = z, envelope = ew, plaintext_bytes = 0\<rparr>, terminal = Active\<rparr>"
    by (auto simp: writer_new_def envelope_consts split: option.splits sum.splits prod.splits)
  let ?e = "encryptor_new (stream G) (object_key_bytes (object_key ctx)) prefix"
  let ?w0 = "\<lparr>encryptor = Some ?e, ew_context = canonical_bytes ctx, pending = [], compressed_bytes = 0,
    ciphertext_bytes = 0, block_count = 0, hash = [], failure = None\<rparr>"
  from ew have len: "length prefix = 19"
    and h: "write_envelope_bytes G (serialize_header prefix) (?w0, k) = (Inr (), ew, k')"
    by (auto simp: envelope_new_def Let_def envelope_consts split: if_splits sum.splits prod.splits)
  have "envelope_inv ?w0" by (simp add: envelope_inv_def)
  then have "envelope_inv ew"
    using write_envelope_bytes_inv [of "(?w0, k)" "serialize_header prefix" G] h len by simp
  with write_envelope_bytes_InrD [OF assms(1) h]
  have "envelope_state G W (canonical_bytes ctx) ?e (W k) (serialize_header prefix) [] (ew, k')"
    by (simp add: envelope_state_def seal_blocks.simps envelope_consts)
  with z wr have "writer_state G W (canonical_bytes ctx) ?e (W k) (serialize_header prefix) [] (wr, k')"
    by (simp add: writer_state_def)
  from that [OF p len this] show thesis .
qed

lemma write_plaintext_state:
  assumes "faithful_sink (sink G) W" and "slices_fit (zstd G)" and "length bs < 2 ^ 64"
    and "writer_state G W ad e0 base hdr inputs (wr, k)"
    and "write_plaintext G bs (wr, k) = (Inr u, st')"
  shows "writer_state G W ad e0 base hdr (inputs @ [bs]) st'"
proof -
  from assms(4) obtain z0 cmp a where z0: "encoder_new (zstd G) 3 = Some z0"
    "zstd_writes (zstd G) z0 inputs = Some (cmp, encoder a)"
    and wr: "terminal wr = Active" "active wr = Some a"
    and pl: "unat (plaintext_bytes a) = length (concat inputs)"
    and ew: "envelope_state G W ad e0 base hdr cmp (envelope a, k)"
    unfolding writer_state_def by auto
  obtain ws success z' where run: "encoder_write_all (zstd G) (encoder a) bs = (ws, success, z')"
    by (metis prod_cases3)
  from assms(5) wr run obtain n w' k' where
    n: "checked_add_limited (plaintext_bytes a) (len64 bs) MAX_PLAINTEXT_OBJECT_BYTES_V1 = Inr n"
    and r: "encoder_run G (ws, success) (envelope a, k) = (True, w', k')"
    and st': "st' = (wr\<lparr>active := Some \<lparr>encoder = z', envelope = w', plaintext_bytes = n\<rparr>\<rparr>, k')"
    by (auto simp: write_plaintext_def write_active_def split: sum.splits prod.splits bool.splits)
  have "small ws" using assms(2) run unfolding slices_fit_def by (metis fst_conv)
  from encoder_run_state [OF assms(1) ew r this] have "success"
    and "envelope_state G W ad e0 base hdr (cmp @ concat ws) (w', k')" by auto
  moreover have "unat n = length (concat (inputs @ [bs]))" "length (concat (inputs @ [bs])) \<le> 1073741824"
    using checked_add_limited_InrD [OF n] pl assms(3) by (simp_all add: unat_len64)
  ultimately show ?thesis
    using zstd_writes_snoc [OF z0(2)] run z0(1) wr st' by (simp add: writer_state_def)
qed

lemma finish_state:
  assumes "faithful_sink (sink G) W" and "slices_fit (zstd G)"
    and "writer_state G W ad e0 base hdr inputs (wr, k)" and "finish G (wr, k) = (Inr d, wr', k')"
  shows "\<exists>cmp out. zstd_session (zstd G) inputs = Some cmp \<and> seal_stream (stream G) ad e0 cmp = Some out \<and>
    length (concat inputs) \<le> 1073741824 \<and>
    length cmp \<le> 268435456 \<and> length (hdr @ out) \<le> 268435456 \<and> W k' = base @ hdr @ out \<and>
    d = \<lparr>ciphertext_size = len64 (hdr @ out), ciphertext_sha256 = blit 0 (sha256 G (hdr @ out)) (replicate 32 0),
         format_version = ENVELOPE_VERSION\<rparr>"
proof -
  from assms(3) obtain z0 cmp a where z0: "encoder_new (zstd G) 3 = Some z0"
    "zstd_writes (zstd G) z0 inputs = Some (cmp, encoder a)"
    and wr: "terminal wr = Active" "active wr = Some a"
    and ew: "envelope_state G W ad e0 base hdr cmp (envelope a, k)"
    and pl: "length (concat inputs) \<le> 1073741824"
    unfolding writer_state_def by auto
  obtain ws success where fin: "encoder_try_finish (zstd G) (encoder a) = (ws, success)" by fastforce
  from assms(4) wr fin obtain w1 k1 where r: "encoder_run G (ws, success) (envelope a, k) = (True, w1, k1)"
    and ef: "envelope_finish G w1 k1 = (Inr d, k')"
    by (auto simp: finish_def Let_def split: prod.splits bool.splits sum.splits)
  have "small ws" using assms(2) fin unfolding slices_fit_def by (metis fst_conv)
  from encoder_run_state [OF assms(1) ew r this] have success
    and st: "envelope_state G W ad e0 base hdr (cmp @ concat ws) (w1, k1)" by auto
  then have sess: "zstd_session (zstd G) inputs = Some (cmp @ concat ws)"
    using z0 fin by (simp add: zstd_session_def)
  from st obtain out e rest where s: "envelope_inv w1" "ew_context w1 = ad"
      "unat (compressed_bytes w1) = length (cmp @ concat ws)" "W k1 = base @ hash w1"
      "seal_blocks (stream G) ad e0 (cmp @ concat ws) = Some (out, e, rest)" "encryptor w1 = Some e"
      "pending w1 = rest" "hash w1 = hdr @ out"
    unfolding envelope_state_def by auto
  from ef s obtain c w2 where c: "encrypt_last (stream G) e rest ad = Some c"
    and b: "write_encrypted_block G c (w1\<lparr>encryptor := None, pending := []\<rparr>, k1) = (Inr (), w2, k')"
    and d: "d = \<lparr>ciphertext_size = ciphertext_bytes w2, ciphertext_sha256 = blit 0 (sha256 G (hash w2)) (replicate 32 0),
         format_version = ENVELOPE_VERSION\<rparr>"
    by (auto simp: envelope_finish_def Let_def split: option.splits prod.splits sum.splits)
  note w2 = write_encrypted_block_InrD [OF assms(1) b]
  have "envelope_inv w2"
    using write_encrypted_block_inv [of "(w1\<lparr>encryptor := None, pending := []\<rparr>, k1)" G c] b s(1)
    by (simp add: envelope_inv_def)
  then have "length (hash w2) = unat (ciphertext_bytes w2)" "unat (ciphertext_bytes w2) \<le> 268435456"
    by (simp_all add: envelope_inv_def)
  moreover from this have "ciphertext_bytes w2 = len64 (hash w2)" by (simp add: len64_def)
  moreover have "hash w2 = hdr @ out @ frame c" using w2 s(8) by simp
  moreover have "length (cmp @ concat ws) \<le> 268435456" using s(1,3) by (simp add: envelope_inv_def)
  ultimately show ?thesis
    using sess c d s w2 pl by (intro exI [of _ "cmp @ concat ws"] exI [of _ "out @ frame c"]) (simp add: seal_stream_def)
qed

lemma seal_step_honest:
  assumes "honest_source S R" and "length buffer = 65536"
  obtains n b s' where "R s = [] \<longleftrightarrow> n = 0" "n \<le> length (R s)" "n \<le> 65536" "length b = 65536"
    "R s' = drop n (R s)"
    "seal_step G S buffer s wr k =
       (if n = 0 then (Inl (Inr ()), s', wr, k)
        else case write_plaintext G (take n (R s)) (wr, k) of
          (Inl e, st) \<Rightarrow> (Inl (Inl e), s', st) | (Inr _, st) \<Rightarrow> (Inr b, s', st))"
proof -
  have "buffer \<noteq> []" using assms(2) by auto
  obtain s1 where c1: "is_cancelled S s = (False, s1)" "R s1 = R s"
    using honest_source_cancelled [OF assms(1)] .
  have "length buffer \<le> 65536" using assms(2) by simp
  from assms(1) \<open>buffer \<noteq> []\<close> this obtain n b s2 where rd: "source_read S buffer s1 = (Inr n, b, s2)"
    and len: "length b = length buffer" "n \<le> length buffer" and n: "n \<le> length (R s1)" "n = 0 \<longleftrightarrow> R s1 = []"
    "take n b = take n (R s1)" "R s2 = drop n (R s1)"
    by (rule honest_source_read)
  obtain s3 where c2: "is_cancelled S s2 = (False, s3)" "R s3 = R s2"
    using honest_source_cancelled [OF assms(1)] .
  have le: "n \<le> 65536" "length b = 65536" using len assms(2) by simp_all
  show thesis
  proof (rule that [of n b "if n = 0 then s2 else s3"])
    show "seal_step G S buffer s wr k =
       (if n = 0 then (Inl (Inr ()), if n = 0 then s2 else s3, wr, k)
        else case write_plaintext G (take n (R s)) (wr, k) of
          (Inl e, st) \<Rightarrow> (Inl (Inl e), if n = 0 then s2 else s3, st)
        | (Inr _, st) \<Rightarrow> (Inr b, if n = 0 then s2 else s3, st))"
      using c1 c2 rd n le by (simp add: seal_step_def MAX_IO_CHUNK_BYTES_V1_def)
  qed (use n c1 c2 le in auto)
qed

lemma seal_loop_state:
  assumes S: "honest_source S R" and K: "faithful_sink (sink G) W" and Z: "slices_fit (zstd G)"
    and "length buffer = 65536" and "writer_state G W ad e0 base hdr inputs (wr, k)"
    and "seal_loop G S buffer s wr k = (Inr u, s', wr', k')"
  shows "\<exists>inputs'. concat inputs' = R s \<and> writer_state G W ad e0 base hdr (inputs @ inputs') (wr', k')"
  using assms(4-6)
proof (induction "length (R s)" arbitrary: buffer s wr k inputs rule: less_induct)
  case less
  obtain n b s1 where n: "R s = [] \<longleftrightarrow> n = 0" "n \<le> length (R s)" "n \<le> 65536" "length b = 65536"
    "R s1 = drop n (R s)"
    and step: "seal_step G S buffer s wr k =
       (if n = 0 then (Inl (Inr ()), s1, wr, k)
        else case write_plaintext G (take n (R s)) (wr, k) of
          (Inl e, st) \<Rightarrow> (Inl (Inl e), s1, st) | (Inr _, st) \<Rightarrow> (Inr b, s1, st))"
    by (rule seal_step_honest [OF S less.prems(1)])
  show ?case
  proof (cases "n = 0")
    case True
    with less.prems step n(1) show ?thesis
      by (intro exI [of _ "[]"]) (simp add: seal_loop.simps [of G S buffer] MAX_IO_CHUNK_BYTES_V1_def)
  next
    case False
    with less.prems(1,3) step obtain wr1 k1 where
      wp: "write_plaintext G (take n (R s)) (wr, k) = (Inr (), wr1, k1)"
      and rest: "seal_loop G S b s1 wr1 k1 = (Inr u, s', wr', k')"
      by (auto simp: seal_loop.simps [of G S buffer] MAX_IO_CHUNK_BYTES_V1_def split: prod.splits sum.splits)
    have "writer_state G W ad e0 base hdr (inputs @ [take n (R s)]) (wr1, k1)"
      using write_plaintext_state [OF K Z _ less.prems(2) wp] n(3) by simp
    from less.hyps [OF _ n(4) this rest] False n obtain inputs' where
      "concat inputs' = drop n (R s)"
      "writer_state G W ad e0 base hdr (inputs @ take n (R s) # inputs') (wr', k')" by auto
    then show ?thesis by (intro exI [of _ "take n (R s) # inputs'"]) simp
  qed
qed

lemma seal_object_state:
  assumes S: "honest_source S R" and K: "faithful_sink (sink G) W" and Z: "slices_fit (zstd G)"
    and "seal_object_v1 G ctx S s k = (Inr d, s', k')"
  shows "\<exists>prefix inputs cmp out. random_fill G 19 = Some prefix \<and> length prefix = 19 \<and>
    length (object_key_bytes (object_key ctx)) = 32 \<and> length (R s) \<le> 1073741824 \<and>
    concat inputs = R s \<and> zstd_session (zstd G) inputs = Some cmp \<and>
    seal_stream (stream G) (canonical_bytes ctx)
      (encryptor_new (stream G) (object_key_bytes (object_key ctx)) prefix) cmp = Some out \<and>
    W k' = W k @ serialize_header prefix @ out \<and>
    length cmp \<le> 268435456 \<and> length (serialize_header prefix @ out) \<le> 268435456 \<and>
    d = \<lparr>ciphertext_size = len64 (serialize_header prefix @ out),
         ciphertext_sha256 = blit 0 (sha256 G (serialize_header prefix @ out)) (replicate 32 0),
         format_version = ENVELOPE_VERSION\<rparr>"
proof -
  obtain s0 where c0: "is_cancelled S s = (False, s0)" "R s0 = R s" using honest_source_cancelled [OF S] .
  with assms(4) obtain wr k0 s1 wr1 k1 where new: "writer_new G ctx k = (Inr wr, k0)"
    and loop: "seal_loop G S (replicate 65536 0) s0 wr k0 = (Inr (), s1, wr1, k1)"
    and "\<exists>s2. is_cancelled S s1 = (False, s2)" and "\<exists>wr2. finish G (wr1, k1) = (Inr d, wr2, k')"
    by (auto simp: seal_object_v1_def MAX_IO_CHUNK_BYTES_V1_def split: prod.splits sum.splits bool.splits)
  then obtain wr2 where fin: "finish G (wr1, k1) = (Inr d, wr2, k')" by blast
  from writer_new_state [OF K new] obtain prefix where p: "random_fill G 19 = Some prefix" "length prefix = 19"
    and st: "writer_state G W (canonical_bytes ctx)
      (encryptor_new (stream G) (object_key_bytes (object_key ctx)) prefix)
      (W k) (serialize_header prefix) [] (wr, k0)" by blast
  from seal_loop_state [OF S K Z _ st loop] c0(2) obtain inputs where i: "concat inputs = R s"
    and st1: "writer_state G W (canonical_bytes ctx)
      (encryptor_new (stream G) (object_key_bytes (object_key ctx)) prefix)
      (W k) (serialize_header prefix) inputs (wr1, k1)" by auto
  have "length (object_key_bytes (object_key ctx)) = 32"
    using new by (auto simp: writer_new_def envelope_new_def split: option.splits sum.splits prod.splits if_splits)
  with finish_state [OF K Z st1 fin] p i show ?thesis by auto
qed

section \<open>The life cycle of a writer\<close>

text \<open>The states of a writer and its sink after any sequence of calls, successful or not.\<close>

inductive writer_reach ::
    "('e, 'd, 'z, 'k) object_env \<Rightarrow> object_context \<Rightarrow> 'k \<Rightarrow> ('e, 'z) object_writer \<times> 'k \<Rightarrow> bool"
  for G ctx k0 where
  reach_new: "writer_new G ctx k0 = (Inr wr, k) \<Longrightarrow> writer_reach G ctx k0 (wr, k)"
| reach_write: "writer_reach G ctx k0 st \<Longrightarrow> length bs < 2 ^ 64 \<Longrightarrow>
    writer_reach G ctx k0 (snd (write_plaintext G bs st))"
| reach_finish: "writer_reach G ctx k0 st \<Longrightarrow> writer_reach G ctx k0 (snd (finish G st))"
| reach_abort: "writer_reach G ctx k0 st \<Longrightarrow> writer_reach G ctx k0 (snd (abort st))"

definition active_inv :: "('e, 'z) active_writer \<Rightarrow> bool" where
  "active_inv a \<longleftrightarrow>
     envelope_inv (envelope a) \<and> encryptor (envelope a) \<noteq> None \<and>
     length (pending (envelope a)) < COMPRESSED_BLOCK_BYTES \<and>
     unat (plaintext_bytes a) \<le> unat MAX_PLAINTEXT_OBJECT_BYTES_V1"

definition writer_inv :: "('e, 'z) object_writer \<Rightarrow> bool" where
  "writer_inv wr \<longleftrightarrow>
     (terminal wr = Active \<longleftrightarrow> active wr \<noteq> None) \<and> (\<forall>a. active wr = Some a \<longrightarrow> active_inv a)"

lemma write_envelope_bytes_encryptor [simp]:
  "encryptor (fst (snd (write_envelope_bytes G bs st))) = encryptor (fst st)"
  by (auto simp: write_envelope_bytes_def Let_def split: prod.splits sum.splits)

lemma write_encrypted_block_encryptor [simp]:
  "encryptor (fst (snd (write_encrypted_block G c st))) = encryptor (fst st)"
  using sbind_preserves [where f = "\<lambda>st. encryptor (fst st)" and
      m = "write_envelope_bytes G (to_be_bytes32 (of_nat (length c)))" and k = "\<lambda>_. write_envelope_bytes G c"]
  by (simp add: write_encrypted_block_def Let_def split: prod.splits sum.splits)

lemma write_full_blocks_pending:
  "write_full_blocks G st = (Inr u, w', k') \<Longrightarrow> encryptor (fst st) \<noteq> None \<Longrightarrow>
     length (pending w') < COMPRESSED_BLOCK_BYTES \<and> encryptor w' \<noteq> None"
proof (induction G st rule: write_full_blocks.induct)
  case (1 G w k)
  let ?w1 = "w\<lparr>pending := drop COMPRESSED_BLOCK_BYTES (pending w)\<rparr>"
  show ?case
  proof (cases "length (pending w) < COMPRESSED_BLOCK_BYTES")
    case True
    with 1(2,3) show ?thesis by (auto simp: write_full_blocks.simps [of G w k])
  next
    case False
    from 1(3) obtain e where e: "encryptor ?w1 = Some e" by auto
    from False e 1(2) obtain c e1 w2 k2 where
      enc: "encrypt_next (stream G) e (take COMPRESSED_BLOCK_BYTES (pending w)) (ew_context ?w1) = (Some c, e1)"
      and blk: "write_encrypted_block G c (?w1\<lparr>encryptor := Some e1\<rparr>, k) = (Inr (), w2, k2)"
      and rest: "write_full_blocks G (w2, k2) = (Inr u, w', k')"
      by (auto simp: write_full_blocks.simps [of G w k] Let_def split: prod.splits option.splits sum.splits)
    have "encryptor (fst (w2, k2)) \<noteq> None"
      using write_encrypted_block_encryptor [of G c "(?w1\<lparr>encryptor := Some e1\<rparr>, k)"] blk by simp
    from 1(1) [OF False refl refl e enc [symmetric] refl blk [symmetric] refl rest this] show ?thesis .
  qed
qed

lemma envelope_write_ok:
  assumes "envelope_write G bs (w, k) = (Inr u, w', k')" and "envelope_inv w" and "encryptor w \<noteq> None"
    and "length (pending w) < COMPRESSED_BLOCK_BYTES" and "length bs < 2 ^ 64"
  shows "envelope_inv w' \<and> encryptor w' \<noteq> None \<and> length (pending w') < COMPRESSED_BLOCK_BYTES"
proof -
  from assms(1) have c: "write_compressed G bs (w, k) = (Inr (), w', k')"
    by (auto simp: envelope_write_def split: prod.splits sum.splits)
  have "envelope_inv w'" using write_compressed_inv [of "(w, k)" bs G] assms(2,5) c by simp
  moreover from c obtain n where
    "write_full_blocks G (w\<lparr>compressed_bytes := n, pending := pending w @ bs\<rparr>, k) = (Inr (), w', k')"
    by (auto simp: write_compressed_def split: sum.splits)
  from write_full_blocks_pending [OF this] assms(3)
  have "length (pending w') < COMPRESSED_BLOCK_BYTES \<and> encryptor w' \<noteq> None" by simp
  ultimately show ?thesis by simp
qed

lemma envelope_writes_ok:
  "sforeach ws (envelope_write G) (w, k) = (Inr u, w', k') \<Longrightarrow> small ws \<Longrightarrow> envelope_inv w \<Longrightarrow>
     encryptor w \<noteq> None \<Longrightarrow> length (pending w) < COMPRESSED_BLOCK_BYTES \<Longrightarrow>
     envelope_inv w' \<and> encryptor w' \<noteq> None \<and> length (pending w') < COMPRESSED_BLOCK_BYTES"
proof (induction ws arbitrary: w k)
  case Nil
  then show ?case by auto
next
  case (Cons b ws)
  then obtain w1 k1 where "envelope_write G b (w, k) = (Inr (), w1, k1)"
    "sforeach ws (envelope_write G) (w1, k1) = (Inr u, w', k')"
    by (auto split: prod.splits sum.splits)
  with Cons envelope_write_ok [of G b w k "()" w1 k1] show ?case by simp
qed

lemma write_plaintext_inv:
  assumes "slices_fit (zstd G)" and "writer_inv (fst st)" and "length bs < 2 ^ 64"
  shows "writer_inv (fst (snd (write_plaintext G bs st)))"
proof -
  obtain wr k where st: "st = (wr, k)" by fastforce
  obtain r wr' k' where wp: "write_plaintext G bs (wr, k) = (r, wr', k')" by (metis prod_cases3)
  show ?thesis
  proof (cases "terminal wr = Active")
    case False
    with assms st show ?thesis by (simp add: write_plaintext_def)
  next
    case True
    with assms(2) st obtain a where a: "active wr = Some a" "active_inv a" by (auto simp: writer_inv_def)
    obtain ra a' ka where wa: "write_active G bs (a, k) = (ra, a', ka)" by (metis prod_cases3)
    show ?thesis
    proof (cases ra)
      case (Inl e)
      with True a wa st show ?thesis by (simp add: write_plaintext_def writer_inv_def)
    next
      case (Inr u)
      obtain ws success z' where run: "encoder_write_all (zstd G) (encoder a) bs = (ws, success, z')"
        by (metis prod_cases3)
      with wa Inr obtain n w' where
        n: "checked_add_limited (plaintext_bytes a) (len64 bs) MAX_PLAINTEXT_OBJECT_BYTES_V1 = Inr n"
        and r: "encoder_run G (ws, success) (envelope a, k) = (True, w', ka)"
        and a': "a' = \<lparr>encoder = z', envelope = w', plaintext_bytes = n\<rparr>"
        by (auto simp: write_active_def split: sum.splits prod.splits bool.splits)
      have "small ws" using assms(1) run unfolding slices_fit_def by (metis fst_conv)
      moreover from r have "sforeach ws (envelope_write G) (envelope a, k) = (Inr (), w', ka)"
        by (auto simp: encoder_run_def split: prod.splits sum.splits)
      ultimately have "envelope_inv w' \<and> encryptor w' \<noteq> None \<and> length (pending w') < COMPRESSED_BLOCK_BYTES"
        using envelope_writes_ok [of ws G "envelope a" k "()" w' ka] a(2) by (simp add: active_inv_def)
      then have "active_inv a'" using checked_add_limited_InrD [OF n] a' by (simp add: active_inv_def)
      with True a wa Inr st show ?thesis by (simp add: write_plaintext_def writer_inv_def)
    qed
  qed
qed

lemma finish_inv: "writer_inv (fst st) \<Longrightarrow> writer_inv (fst (snd (finish G st)))"
  by (auto simp: finish_def writer_inv_def Let_def split: prod.splits option.splits bool.splits sum.splits)

lemma abort_inv: "writer_inv (fst st) \<Longrightarrow> writer_inv (fst (snd (abort st)))"
  by (auto simp: abort_def writer_inv_def split: prod.splits)

lemma writer_new_inv:
  assumes "writer_new G ctx k = (Inr wr, k')"
  shows "writer_inv wr"
proof -
  from assms obtain prefix ew z where ew: "envelope_new G ctx k prefix = (Inr ew, k')"
    and wr: "wr = \<lparr>active = Some \<lparr>encoder = z, envelope = ew, plaintext_bytes = 0\<rparr>, terminal = Active\<rparr>"
    by (auto simp: writer_new_def split: option.splits sum.splits prod.splits)
  from ew obtain e where len: "length prefix = 19"
    and h: "write_envelope_bytes G (serialize_header prefix) (\<lparr>encryptor = Some e, ew_context = canonical_bytes ctx,
      pending = [], compressed_bytes = 0, ciphertext_bytes = 0, block_count = 0, hash = [], failure = None\<rparr>, k) =
        (Inr (), ew, k')" (is "write_envelope_bytes G _ (?w0, k) = _")
    by (auto simp: envelope_new_def Let_def envelope_consts split: if_splits sum.splits prod.splits)
  have "envelope_inv ?w0" by (simp add: envelope_inv_def)
  with h len show ?thesis
    using write_envelope_bytes_inv [of "(?w0, k)" "serialize_header prefix" G]
      write_envelope_bytes_encryptor [of G "serialize_header prefix" "(?w0, k)"]
      write_envelope_bytes_pending [of G "serialize_header prefix" "(?w0, k)"]
    by (simp add: wr writer_inv_def active_inv_def COMPRESSED_BLOCK_BYTES_def)
qed

lemma writer_reach_inv:
  assumes "slices_fit (zstd G)" and "writer_reach G ctx k0 st"
  shows "writer_inv (fst st)"
  using assms(2)
proof (induction rule: writer_reach.induct)
  case (reach_new wr k)
  then show ?case by (simp add: writer_new_inv)
qed (simp_all add: assms(1) write_plaintext_inv finish_inv abort_inv)

section \<open>Properties\<close>

text \<open>C8: What sealing produces. When \<open>seal_object_v1\<close> returns a descriptor for a source that keeps its
  contract, the sink has received exactly the envelope header with the random nonce prefix followed by
  the frames of the whole compressed stream under the object key and context, where that stream is an
  encoder session over pieces that concatenate to the source's bytes; it depends in no other way on
  how reads and compressor writes were cut. The descriptor reports the size and the SHA-256 of exactly
  those bytes, and the object respects the 256 MiB limits.\<close>

theorem seal_object_output:
  assumes "honest_source S R" and "faithful_sink (sink G) W" and "slices_fit (zstd G)"
    and "seal_object_v1 G ctx S s k = (Inr d, s', k')"
  shows "\<exists>prefix inputs cmp frames. random_fill G STREAM_NONCE_PREFIX_BYTES = Some prefix \<and>
    concat inputs = R s \<and> zstd_session (zstd G) inputs = Some cmp \<and>
    seal_stream (stream G) (canonical_bytes ctx)
      (encryptor_new (stream G) (object_key_bytes (object_key ctx)) prefix) cmp = Some frames \<and>
    (let object = serialize_header prefix @ frames in
      W k' = W k @ object \<and> length object \<le> unat MAX_CIPHERTEXT_OBJECT_BYTES_V1 \<and>
      length cmp \<le> unat MAX_COMPRESSED_OBJECT_BYTES_V1 \<and>
      d = \<lparr>ciphertext_size = len64 object, ciphertext_sha256 = blit 0 (sha256 G object) (replicate 32 0),
           format_version = ENVELOPE_VERSION\<rparr>)"
proof -
  from seal_object_state [OF assms] obtain prefix inputs cmp out where
    "random_fill G 19 = Some prefix" "concat inputs = R s" "zstd_session (zstd G) inputs = Some cmp"
    "seal_stream (stream G) (canonical_bytes ctx)
      (encryptor_new (stream G) (object_key_bytes (object_key ctx)) prefix) cmp = Some out"
    "W k' = W k @ serialize_header prefix @ out" "length cmp \<le> 268435456"
    "length (serialize_header prefix @ out) \<le> 268435456"
    "d = \<lparr>ciphertext_size = len64 (serialize_header prefix @ out),
         ciphertext_sha256 = blit 0 (sha256 G (serialize_header prefix @ out)) (replicate 32 0),
         format_version = ENVELOPE_VERSION\<rparr>"
    by blast
  then show ?thesis
    by (intro exI [of _ prefix] exI [of _ inputs] exI [of _ cmp] exI [of _ out])
      (simp add: Let_def envelope_consts)
qed

text \<open>C14: The life cycle of a writer: in every state reachable by any sequence of \<open>write_plaintext\<close>,
  \<open>finish\<close> and \<open>abort\<close> calls the writer is active exactly when it holds an encoder; while it is active,
  all counters respect their limits, less than one block is pending and the encryptor is present;
  once it is finished, aborted or failed, every further call reports an invalid state and changes
  neither the writer nor the sink.\<close>

theorem writer_lifecycle:
  assumes "slices_fit (zstd G)" and "writer_reach G ctx k0 (wr, k)"
  shows "(terminal wr = Active \<longleftrightarrow> active wr \<noteq> None) \<and>
    (\<forall>a. active wr = Some a \<longrightarrow>
      unat (plaintext_bytes a) \<le> unat MAX_PLAINTEXT_OBJECT_BYTES_V1 \<and>
      unat (compressed_bytes (envelope a)) \<le> unat MAX_COMPRESSED_OBJECT_BYTES_V1 \<and>
      unat (ciphertext_bytes (envelope a)) \<le> unat MAX_CIPHERTEXT_OBJECT_BYTES_V1 \<and>
      unat (block_count (envelope a)) \<le> unat MAX_ENCRYPTED_BLOCKS_PER_OBJECT_V1 \<and>
      length (pending (envelope a)) < COMPRESSED_BLOCK_BYTES \<and> encryptor (envelope a) \<noteq> None) \<and>
    (terminal wr \<noteq> Active \<longrightarrow>
      write_plaintext G bs (wr, k) = (Inl invalid_state, wr, k) \<and>
      finish G (wr, k) = (Inl invalid_state, wr, k) \<and> abort (wr, k) = (Inl invalid_state, wr, k))"
  using writer_reach_inv [OF assms]
  by (auto simp: writer_inv_def active_inv_def envelope_inv_def write_plaintext_def finish_def abort_def)

section \<open>A sample environment\<close>

text \<open>A cipher whose tag is sixteen zero bytes, and an encoder that passes its input on.\<close>

definition sample_cipher :: "(unit, unit) stream_cipher" where
  "sample_cipher = \<lparr>
     encryptor_new = (\<lambda>_ _. ()), encrypt_next = (\<lambda>_ m _. (Some (m @ replicate 16 0), ())),
     encrypt_last = (\<lambda>_ m _. Some (m @ replicate 16 0)), decryptor_new = (\<lambda>_ _. ()),
     decrypt_next = (\<lambda>_ c _. (Some (take (length c - 16) c), ())),
     decrypt_last = (\<lambda>_ c _. Some (take (length c - 16) c))\<rparr>"

definition sample_env :: "'z zstd_encoder \<Rightarrow> (unit, unit, 'z, bytes) object_env" where
  "sample_env Z = \<lparr>stream = sample_cipher, zstd = Z, sink = memory_sink,
     sha256 = (\<lambda>_. replicate 32 1), random_fill = (\<lambda>n. Some (replicate n 9))\<rparr>"

text \<open>An encoder for the plaintext \<open>[42]\<close>, which it compresses to a given string.\<close>

definition one_shot_encoder :: "bytes \<Rightarrow> bool zstd_encoder" where
  "one_shot_encoder cmp = \<lparr>encoder_new = (\<lambda>_. Some False),
     encoder_write_all = (\<lambda>z i. ([], \<not> z \<and> i = [42], True)),
     encoder_try_finish = (\<lambda>z. ([cmp], z))\<rparr>"

lemma one_shot_encoder_sel [simp]:
  "encoder_new (one_shot_encoder cmp) l = Some False"
  "encoder_write_all (one_shot_encoder cmp) z i = ([], \<not> z \<and> i = [42], True)"
  "encoder_try_finish (one_shot_encoder cmp) z = ([cmp], z)"
  by (simp_all add: one_shot_encoder_def)

lemma one_shot_encoder_fits: "length cmp < 2 ^ 64 \<Longrightarrow> slices_fit (one_shot_encoder cmp)"
  by (simp add: slices_fit_def)

lemma zstd_writes_done: "zstd_writes (one_shot_encoder cmp) True inputs = Some r \<Longrightarrow> inputs = [] \<and> r = ([], True)"
  by (cases inputs) auto

lemma one_shot_session: "zstd_session (one_shot_encoder cmp) inputs = Some c \<longleftrightarrow> inputs = [[42]] \<and> c = cmp"
proof (cases inputs)
  case Nil
  then show ?thesis by (simp add: zstd_session_def)
next
  case (Cons i rest)
  then show ?thesis
    by (cases "i = [42]")
      (auto simp: zstd_session_def split: option.splits prod.splits bool.splits dest!: zstd_writes_done)
qed

lemma sample_env_sel [simp]:
  "stream (sample_env Z) = sample_cipher" "zstd (sample_env Z) = Z" "sink (sample_env Z) = memory_sink"
  "random_fill (sample_env Z) n = Some (replicate n 9)"
  by (simp_all add: sample_env_def)

lemma object_key_sample: "length (object_key_bytes (object_key (sample_context x))) = 32"
  by (simp add: sample_context_def label_defs canonical_context_layout sample_backup_id_def)

text \<open>The sample environment on a sink that appends every chunk, for any source of the plaintext \<open>[42]\<close>.\<close>

definition appending :: "bytes byte_sink \<Rightarrow> bool" where
  "appending K \<longleftrightarrow> (\<forall>c k. length c \<le> 65536 \<longrightarrow> sink_write K c k = (Inr (), k @ c))"

abbreviation sample_env_on :: "'z zstd_encoder \<Rightarrow> bytes byte_sink \<Rightarrow> (unit, unit, 'z, bytes) object_env" where
  "sample_env_on Z K \<equiv> (sample_env Z)\<lparr>sink := K\<rparr>"

lemma memory_sink_appending: "appending memory_sink"
  by (simp add: appending_def sink_write_def memory_sink_def)

lemma sample_env_memory: "sample_env_on Z memory_sink = sample_env Z"
  by (simp add: sample_env_def)

lemma appending_writes:
  "appending K \<Longrightarrow> \<forall>c \<in> set cs. length c \<le> 65536 \<Longrightarrow> sforeach cs (sink_write K) k = (Inr (), k @ concat cs)"
  by (induction cs arbitrary: k) (simp_all add: appending_def)

lemma sample_write_envelope_bytes:
  assumes "appending K" and "unat (ciphertext_bytes w) + length bs \<le> 268435456"
  shows "write_envelope_bytes (sample_env_on Z K) bs (w, k) =
    (Inr (), w\<lparr>ciphertext_bytes := ciphertext_bytes w + len64 bs, hash := hash w @ bs\<rparr>, k @ bs)"
proof -
  have "\<forall>c \<in> set (chunks 65536 bs). length c \<le> 65536" using chunks_bounded by blast
  with assms show ?thesis
    by (simp add: write_envelope_bytes_def checked_add_limited_Inr_iff [THEN iffD2] unat_len64 appending_writes
        concat_chunks MAX_IO_CHUNK_BYTES_V1_def)
qed

lemma sample_new:
  assumes "appending K"
  shows "\<exists>ew k0. writer_new (sample_env_on (one_shot_encoder cmp) K) (sample_context 1) k =
      (Inr \<lparr>active = Some \<lparr>encoder = False, envelope = ew, plaintext_bytes = 0\<rparr>, terminal = Active\<rparr>, k0) \<and>
    pending ew = [] \<and> unat (ciphertext_bytes ew) = 29 \<and> encryptor ew = Some () \<and> block_count ew = 0 \<and>
    compressed_bytes ew = 0"
  by (simp add: writer_new_def envelope_new_def envelope_consts object_key_sample
      sample_write_envelope_bytes [OF assms] len64_def)

lemma sample_loop:
  assumes S: "honest_source S R" and s: "R s = [42]"
  shows "\<exists>s'. seal_loop (sample_env_on (one_shot_encoder cmp) K) S (replicate MAX_IO_CHUNK_BYTES_V1 0) s
      \<lparr>active = Some \<lparr>encoder = False, envelope = ew, plaintext_bytes = 0\<rparr>, terminal = Active\<rparr> k =
    (Inr (), s', \<lparr>active = Some \<lparr>encoder = True, envelope = ew, plaintext_bytes = 1\<rparr>, terminal = Active\<rparr>, k) \<and>
    R s' = []"
proof -
  let ?G = "sample_env_on (one_shot_encoder cmp) K" and ?buf = "replicate 65536 0 :: bytes"
  let ?wr = "\<lparr>active = Some \<lparr>encoder = False, envelope = ew, plaintext_bytes = 0\<rparr>, terminal = Active\<rparr>"
  let ?wr1 = "\<lparr>active = Some \<lparr>encoder = True, envelope = ew, plaintext_bytes = 1\<rparr>, terminal = Active\<rparr>"
  have "checked_add_limited 0 1 MAX_PLAINTEXT_OBJECT_BYTES_V1 = Inr (1 :: u64)"
    by (simp add: checked_add_limited_Inr_iff)
  then have wp: "write_plaintext ?G [42] (?wr, k) = (Inr (), ?wr1, k)"
    by (simp add: write_plaintext_def write_active_def encoder_run_def len64_def)
  have b0: "length ?buf = 65536" by simp
  obtain n b s1 where n: "R s = [] \<longleftrightarrow> n = 0" "n \<le> length (R s)" "length b = 65536" "R s1 = drop n (R s)"
    and step: "seal_step ?G S ?buf s ?wr k =
       (if n = 0 then (Inl (Inr ()), s1, ?wr, k)
        else case write_plaintext ?G (take n (R s)) (?wr, k) of
          (Inl e, st) \<Rightarrow> (Inl (Inl e), s1, st) | (Inr _, st) \<Rightarrow> (Inr b, s1, st))"
    by (rule seal_step_honest [OF S b0])
  from n(1,2) s have "n = 1" by auto
  with step wp s have step: "seal_step ?G S ?buf s ?wr k = (Inr b, s1, ?wr1, k)" by simp
  obtain n' b' s2 where n': "R s1 = [] \<longleftrightarrow> n' = 0" "R s2 = drop n' (R s1)"
    and step': "seal_step ?G S b s1 ?wr1 k =
       (if n' = 0 then (Inl (Inr ()), s2, ?wr1, k)
        else case write_plaintext ?G (take n' (R s1)) (?wr1, k) of
          (Inl e, st) \<Rightarrow> (Inl (Inl e), s2, st) | (Inr _, st) \<Rightarrow> (Inr b', s2, st))"
    by (rule seal_step_honest [OF S n(3)])
  have "R s1 = []" using n(4) \<open>n = 1\<close> s by simp
  with n' step' have "seal_step ?G S b s1 ?wr1 k = (Inl (Inr ()), s2, ?wr1, k)" "R s2 = []" by simp_all
  with step n(3) show ?thesis
    by (simp add: seal_loop.simps [of _ _ ?buf] seal_loop.simps [of _ _ b] MAX_IO_CHUNK_BYTES_V1_def)
qed

lemma sample_finish:
  assumes "appending K" and "length cmp \<le> 1000" and "pending ew = []" "unat (ciphertext_bytes ew) = 29"
    "encryptor ew = Some ()" "block_count ew = 0" "compressed_bytes ew = 0"
  shows "\<exists>d wr' k'. finish (sample_env_on (one_shot_encoder cmp) K)
    (\<lparr>active = Some \<lparr>encoder = True, envelope = ew, plaintext_bytes = 1\<rparr>, terminal = Active\<rparr>, k) = (Inr d, wr', k')"
proof -
  let ?G = "sample_env_on (one_shot_encoder cmp) K" and ?w = "ew\<lparr>compressed_bytes := len64 cmp, pending := cmp\<rparr>"
  have add: "checked_add_limited 0 (len64 cmp) MAX_COMPRESSED_OBJECT_BYTES_V1 = Inr (len64 cmp)"
    "checked_add_limited 0 1 MAX_ENCRYPTED_BLOCKS_PER_OBJECT_V1 = Inr (1 :: u64)"
    using assms(2) by (simp_all add: checked_add_limited_Inr_iff unat_len64)
  have run: "encoder_run ?G ([cmp], True) (ew, k) = (True, ?w, k)"
    using assms(2-) add
    by (simp add: encoder_run_def envelope_write_def write_compressed_def write_full_blocks.simps
        COMPRESSED_BLOCK_BYTES_def)
  have uc: "unat (ciphertext_bytes ew + 4) = 33"
    using assms(4) unat_add64 [of "ciphertext_bytes ew" 4] by simp
  have "\<exists>d k'. envelope_finish ?G ?w k = (Inr d, k')"
    using assms(2-) add uc
    by (simp add: envelope_finish_def sample_cipher_def write_encrypted_block_def envelope_consts sbind_def
        sample_write_envelope_bytes [OF assms(1)]) (simp add: len64_def sample_write_envelope_bytes [OF assms(1)])
  with run show ?thesis by (auto simp: finish_def)
qed

lemma sample_seal_on:
  assumes "appending K" and "length cmp \<le> 1000" and S: "honest_source S R" and s: "R s = [42]"
  shows "\<exists>d s' k'. seal_object_v1 (sample_env_on (one_shot_encoder cmp) K) (sample_context 1) S s k = (Inr d, s', k')"
proof -
  let ?G = "sample_env_on (one_shot_encoder cmp) K"
  from sample_new [OF assms(1), where cmp = cmp and k = k] obtain ew k0 where new: "writer_new ?G (sample_context 1) k =
      (Inr \<lparr>active = Some \<lparr>encoder = False, envelope = ew, plaintext_bytes = 0\<rparr>, terminal = Active\<rparr>, k0)"
    and ew: "pending ew = []" "unat (ciphertext_bytes ew) = 29" "encryptor ew = Some ()" "block_count ew = 0"
      "compressed_bytes ew = 0" by auto
  obtain s0 where s0: "is_cancelled S s = (False, s0)" "R s0 = [42]"
    by (rule honest_source_cancelled [OF S, of s]) (simp add: s)
  from sample_loop [OF S s0(2), where cmp = cmp and K = K and ew = ew and k = k0] obtain s1 where loop: "seal_loop ?G S (replicate MAX_IO_CHUNK_BYTES_V1 0) s0
      \<lparr>active = Some \<lparr>encoder = False, envelope = ew, plaintext_bytes = 0\<rparr>, terminal = Active\<rparr> k0 =
    (Inr (), s1, \<lparr>active = Some \<lparr>encoder = True, envelope = ew, plaintext_bytes = 1\<rparr>, terminal = Active\<rparr>, k0)"
    by blast
  obtain s2 where s2: "is_cancelled S s1 = (False, s2)" by (rule honest_source_cancelled [OF S, of s1])
  from sample_finish [OF assms(1,2) ew, where k = k0] obtain d wr k1 where "finish ?G
      (\<lparr>active = Some \<lparr>encoder = True, envelope = ew, plaintext_bytes = 1\<rparr>, terminal = Active\<rparr>, k0) = (Inr d, wr, k1)"
    by blast
  with new s0(1) loop s2 have "seal_object_v1 ?G (sample_context 1) S s k = (Inr d, s2, k1)"
    by (simp add: seal_object_v1_def)
  then show ?thesis by blast
qed

lemma sample_seal_object:
  assumes "length cmp \<le> 1000"
  shows "\<exists>d s' k'. seal_object_v1 (sample_env (one_shot_encoder cmp)) (sample_context 1) (memory_source 2) [42] [] =
    (Inr d, s', k')"
  using sample_seal_on [OF memory_sink_appending assms memory_source_honest [of 2], where k = "[]" and s = "[42]"]
  by (simp only: sample_env_memory)

theorem seal_object_output_witness:
  "\<exists>d s' k' prefix. seal_object_v1 (sample_env (one_shot_encoder [1, 2])) (sample_context 1) (memory_source 2) [42] [] =
     (Inr d, s', k') \<and> take 29 k' = serialize_header prefix \<and> length k' \<le> 268435456"
proof -
  let ?G = "sample_env (one_shot_encoder [1, 2])"
  obtain d s' k' where s: "seal_object_v1 ?G (sample_context 1) (memory_source 2) [42] [] = (Inr d, s', k')"
    using sample_seal_object [of "[1, 2]"] by auto
  have Z: "slices_fit (zstd ?G)" by (simp add: one_shot_encoder_fits)
  have W: "faithful_sink (sink ?G) (\<lambda>k. k)" by (simp add: memory_sink_laws)
  from seal_object_output [OF memory_source_honest W Z s] s show ?thesis
    by (fastforce simp: Let_def envelope_consts)
qed

theorem writer_lifecycle_witness:
  "\<exists>wr k. writer_reach (sample_env (one_shot_encoder [1])) (sample_context 1) [] (wr, k) \<and> terminal wr = Aborted \<and>
     finish (sample_env (one_shot_encoder [1])) (wr, k) = (Inl invalid_state, wr, k)"
proof -
  let ?G = "sample_env (one_shot_encoder [1])"
  obtain wr k1 where new: "writer_new ?G (sample_context 1) [] = (Inr wr, k1)" and t: "terminal wr = Active"
    using sample_new [OF memory_sink_appending, where cmp = "[1]" and k = "[]"] by (auto simp: sample_env_memory)
  let ?wr = "wr\<lparr>active := None, terminal := Aborted\<rparr>"
  have "snd (abort (wr, k1)) = (?wr, k1)" using t by (simp add: abort_def)
  then have r: "writer_reach ?G (sample_context 1) [] (?wr, k1)"
    using reach_abort [OF reach_new [OF new]] by simp
  have Z: "slices_fit (zstd ?G)" by (simp add: one_shot_encoder_fits)
  from writer_lifecycle [OF Z r] r show ?thesis by (intro exI [of _ ?wr] exI [of _ k1]) simp
qed

end
