(* ===== verification/Backup_Compression_Correct.thy ===== *)
theory Backup_Compression_Correct
  imports Backup_Compression
begin

text \<open>
  Correctness of the bounded decoder: the header check against the format's definition, resource
  bounds and absence of panics for any input, and, for a decoder that decodes a frame, that the
  pieces pushed in any sizes produce exactly the frame's plaintext.
\<close>

section \<open>Contracts\<close>

text \<open>The sizes that \<open>run_on_buffers\<close> reports fit the buffers it was given.\<close>

definition decoder_bounded :: "'d zstd_decoder \<Rightarrow> bool" where
  "decoder_bounded D \<longleftrightarrow>
     (\<forall>z inp out st stored z'. run_on_buffers D z inp out = (Some (st, stored), z') \<longrightarrow>
        unat (bytes_read st) \<le> length inp \<and> unat (bytes_written st) \<le> length out)"

text \<open>The closures: \<open>W x\<close> is what \<open>emit\<close> has delivered; neither panics.\<close>

definition closures_ok ::
    "(bytes \<Rightarrow> ('x, backup_fault, unit) action) \<Rightarrow> ('x, backup_fault, unit) action \<Rightarrow> ('x \<Rightarrow> bytes) \<Rightarrow> bool" where
  "closures_ok emit canc W \<longleftrightarrow>
     (\<forall>b x r x'. emit b x = (r, x') \<longrightarrow>
        r \<noteq> Inl Panic \<and> W x' = (case r of Inl _ \<Rightarrow> W x | Inr _ \<Rightarrow> W x @ b)) \<and>
     (\<forall>x r x'. canc x = (r, x') \<longrightarrow> r \<noteq> Inl Panic \<and> W x' = W x)"

definition decoder_inv :: "'d bounded_decoder \<Rightarrow> bool" where
  "decoder_inv d \<longleftrightarrow>
     limit d = MAX_PLAINTEXT_OBJECT_BYTES_V1 \<and> unat (decoded d) \<le> unat (limit d) \<and>
     length (out_buf d) = MAX_IO_CHUNK_BYTES_V1"

section \<open>Lemmas\<close>

lemma header_spec_short: "header_spec h = Inr False \<Longrightarrow> length h < 14"
  using field_size_le [of "h ! 4"]
  by (auto simp: header_spec_def header_length_def split: if_splits)

lemma decode_run_inv:
  assumes "decoder_bounded D" and "decoder_inv d" and "decode_run D d bs = (r, d')"
  shows "decoder_inv d' \<and> r \<noteq> Inl Panic \<and> header d' = header d \<and> header_checked d' = header_checked d \<and>
    unat (decoded d) \<le> unat (decoded d') \<and>
    (\<forall>st. r = Inr st \<longrightarrow> unat (bytes_read st) \<le> length bs \<and> unat (bytes_written st) \<le> length (out_buf d') \<and>
       unat (decoded d') = unat (decoded d) + unat (bytes_written st))"
proof -
  from assms(2) have lim: "limit d = MAX_PLAINTEXT_OBJECT_BYTES_V1" and dec: "unat (decoded d) \<le> 1073741824"
    and len: "length (out_buf d) = MAX_IO_CHUNK_BYTES_V1" by (auto simp: decoder_inv_def)
  have le: "decoded d \<le> limit d" using dec lim by (simp add: word_le_nat_alt)
  then have "unat (limit d - decoded d) \<le> 1073741824" using lim by (simp add: unat_sub)
  then have "unat (limit d - decoded d + 1) = unat (limit d - decoded d) + 1"
    using unat_add64 [of "limit d - decoded d" 1] by simp
  then have nz: "limit d - decoded d + 1 \<noteq> 0" by (metis add_is_0 one_neq_zero unsigned_0)
  have nl: "\<not> limit d < decoded d" using le by simp
  let ?cap = "min (length (out_buf d)) (unat (limit d - decoded d + 1))"
  obtain res z where run: "run_on_buffers D (decoder d) bs (take ?cap (out_buf d)) = (res, z)" by fastforce
  show ?thesis
  proof (cases res)
    case None
    with assms(3) run nl nz have "r = Inl invalid" "d' = d\<lparr>decoder := z\<rparr>" by (auto simp: decode_run_def Let_def)
    with lim dec len show ?thesis by (simp add: decoder_inv_def)
  next
    case (Some p)
    obtain st stored where p: "p = (st, stored)" by fastforce
    with assms(1) run Some have b: "unat (bytes_read st) \<le> length bs" "unat (bytes_written st) \<le> length (out_buf d)"
      unfolding decoder_bounded_def by fastforce+
    let ?d1 = "d\<lparr>decoder := z, out_buf := overwrite (take ?cap (out_buf d)) stored @ drop ?cap (out_buf d)\<rparr>"
    have d1: "length (out_buf ?d1) = length (out_buf d)" by simp
    show ?thesis
    proof (cases "checked_add_limited (decoded d) (bytes_written st) (limit d)")
      case (Inl e)
      with assms(3) run Some p nl nz have "r = Inl e" "d' = ?d1" by (auto simp: decode_run_def Let_def)
      with checked_add_limited_Inl [OF Inl] d1 lim dec len show ?thesis by (simp add: decoder_inv_def)
    next
      case (Inr t)
      with assms(3) run Some p nl nz have "r = Inr st" "d' = ?d1\<lparr>decoded := t\<rparr>"
        by (auto simp: decode_run_def Let_def)
      with checked_add_limited_InrD [OF Inr] d1 lim dec len b show ?thesis by (simp add: decoder_inv_def)
    qed
  qed
qed

lemma emit_between:
  assumes E: "closures_ok emit canc W" and n: "n \<le> length b"
    and s: "sbind canc (\<lambda>_. sbind (if n = 0 then sret () else if length b < n then sfail Panic
      else emit (take n b)) (\<lambda>_. canc)) x = (r, x')"
  shows "\<exists>c. W x' = W x @ c \<and> length c \<le> n \<and> r \<noteq> Inl Panic \<and> (\<forall>u. r = Inr u \<longrightarrow> length c = n)"
proof -
  have canc: "r \<noteq> Inl Panic \<and> W x' = W x" if "canc x = (r, x')" for x r x'
    using E that unfolding closures_ok_def by blast
  have emit: "r \<noteq> Inl Panic \<and> W x' = (case r of Inl _ \<Rightarrow> W x | Inr _ \<Rightarrow> W x @ b)" if "emit b x = (r, x')" for b x r x'
    using E that unfolding closures_ok_def by blast
  obtain r1 x1 where 1: "canc x = (r1, x1)" by fastforce
  obtain r2 x2 where 2: "(if n = 0 then sret () else emit (take n b)) x1 = (r2, x2)" by fastforce
  have W2: "r2 \<noteq> Inl Panic \<and> (case r2 of Inl _ \<Rightarrow> W x2 = W x1 | Inr _ \<Rightarrow> W x2 = W x1 @ take n b)"
    using 2 emit [of "take n b" x1 r2 x2] by (cases "n = 0") (auto split: sum.splits)
  obtain r3 x3 where 3: "canc x2 = (r3, x3)" by fastforce
  have run: "sbind (if n = 0 then sret () else if length b < n then sfail Panic else emit (take n b)) (\<lambda>_. canc) x1 =
      (case r2 of Inl e \<Rightarrow> (Inl e, x2) | Inr _ \<Rightarrow> (r3, x3))"
    using 2 3 n by (cases "n = 0") (auto simp: sbind_def split: sum.splits)
  have "(r, x') = (case r1 of Inl e \<Rightarrow> (Inl e, x1) | Inr _ \<Rightarrow> (case r2 of Inl e \<Rightarrow> (Inl e, x2) | Inr _ \<Rightarrow> (r3, x3)))"
    using s run 1 by (cases r1) (auto simp: sbind_def [of canc])
  moreover have "length (take n b) = n" using n by simp
  ultimately show ?thesis
    using canc [OF 1] canc [OF 3] W2
    by (cases r1; cases r2) (auto intro: exI [of _ "[]"] exI [of _ "take n b"])
qed

text \<open>What one iteration, the loop, and a push deliver is covered by what they count.\<close>

lemma decode_step_inv:
  assumes D: "decoder_bounded D" and E: "closures_ok emit canc W" and d: "decoder_inv d"
    and step: "decode_step D emit canc d bs x = (r, d', x')"
  shows "decoder_inv d' \<and> r \<noteq> Inl (Inl Panic) \<and> header d' = header d \<and> header_checked d' = header_checked d \<and>
    (\<exists>c. W x' = W x @ c \<and> unat (decoded d) + length c \<le> unat (decoded d') \<and>
      ((\<nexists>e. r = Inl (Inl e)) \<longrightarrow> unat (decoded d) + length c = unat (decoded d')))"
proof -
  obtain r1 x1 where c1: "canc x = (r1, x1)" by fastforce
  then have W1: "W x1 = W x" "r1 \<noteq> Inl Panic" using E unfolding closures_ok_def by blast+
  show ?thesis
  proof (cases r1)
    case (Inl e)
    with step c1 W1 d show ?thesis by (auto simp: decode_step_def intro!: exI [of _ "[]"])
  next
    case (Inr u)
    obtain rr d1 where run: "decode_run D d bs = (rr, d1)" by fastforce
    note ri = decode_run_inv [OF D d run]
    show ?thesis
    proof (cases rr)
      case (Inl e)
      with step c1 Inr run W1 ri show ?thesis by (auto simp: decode_step_def intro!: exI [of _ "[]"])
    next
      case rr: (Inr st)
      let ?n = "unat (bytes_written st)"
      let ?emit = "if ?n = 0 then sret () else if length (out_buf d1) < ?n then sfail Panic
        else emit (take ?n (out_buf d1))"
      obtain r2 x2 where c2: "sbind canc (\<lambda>_. sbind ?emit (\<lambda>_. canc)) x1 = (r2, x2)" by fastforce
      have n: "?n \<le> length (out_buf d1)" "unat (bytes_read st) \<le> length bs"
        "unat (decoded d1) = unat (decoded d) + ?n" using ri rr by auto
      have ec: "\<exists>c. W x2 = W x1 @ c \<and> length c \<le> ?n \<and> r2 \<noteq> Inl Panic \<and> (\<forall>u. r2 = Inr u \<longrightarrow> length c = ?n)"
        by (rule emit_between [OF E n(1) c2])
      then obtain c where c: "W x2 = W x1 @ c" "length c \<le> ?n" "r2 \<noteq> Inl Panic" "\<forall>u. r2 = Inr u \<longrightarrow> length c = ?n"
        by blast
      have "d' = d1 \<or> d' = d1\<lparr>complete := True\<rparr>" and "x' = x2"
        and "r \<noteq> Inl (Inl Panic)" and "(\<nexists>e. r = Inl (Inl e)) \<longrightarrow> (\<exists>u. r2 = Inr u)"
        using step c1 Inr run rr c2 c(3) n(2)
        by (auto simp: decode_step_def Let_def split: sum.splits if_splits)
      with ri c W1 n show ?thesis by (auto simp: decoder_inv_def intro!: exI [of _ c])
    qed
  qed
qed

text \<open>The summary that the loop and the pushes share.\<close>

definition decode_summary ::
    "('x \<Rightarrow> bytes) \<Rightarrow> 'd bounded_decoder \<Rightarrow> 'x \<Rightarrow> 'a backup_result \<Rightarrow> 'd bounded_decoder \<Rightarrow> 'x \<Rightarrow> bool" where
  "decode_summary W d x r d' x' \<longleftrightarrow>
     decoder_inv d' \<and> r \<noteq> Inl Panic \<and>
     (\<exists>c. W x' = W x @ c \<and> unat (decoded d) + length c \<le> unat (decoded d') \<and>
       (\<forall>a. r = Inr a \<longrightarrow> unat (decoded d) + length c = unat (decoded d')))"

lemma decode_summary_refl: "decoder_inv d \<Longrightarrow> r \<noteq> Inl Panic \<Longrightarrow> decode_summary W d x r d x"
  by (simp add: decode_summary_def)

lemma decode_summary_trans:
  assumes "decode_summary W d x (Inr a) d1 x1" and "decode_summary W d1 x1 r d2 x2"
  shows "decode_summary W d x r d2 x2"
proof -
  from assms(1) obtain c where c: "W x1 = W x @ c" "unat (decoded d) + length c = unat (decoded d1)"
    unfolding decode_summary_def by blast
  from assms(2) obtain c' where "W x2 = W x1 @ c'" "unat (decoded d1) + length c' \<le> unat (decoded d2)"
    "\<forall>a. r = Inr a \<longrightarrow> unat (decoded d1) + length c' = unat (decoded d2)"
    unfolding decode_summary_def by blast
  with c assms(2) show ?thesis
    unfolding decode_summary_def by (intro conjI exI [of _ "c @ c'"]) auto
qed

lemma decode_loop_summary:
  assumes D: "decoder_bounded D" and E: "closures_ok emit canc W"
  shows "decoder_inv d \<Longrightarrow> decode_loop D emit canc d bs x = (r, d', x') \<Longrightarrow> decode_summary W d x r d' x'"
  using assms
proof (induction D emit canc d bs x rule: decode_loop.induct)
  case (1 D emit canc d bs x)
  obtain out d1 x1 where st: "decode_step D emit canc d bs x = (out, d1, x1)" by (metis prod_cases3)
  note si = decode_step_inv [OF 1(4,5,2) st]
  show ?case
  proof (cases out)
    case (Inl res)
    with 1(3) st have "r = res" "d' = d1" "x' = x1" by (simp_all add: decode_loop.simps)
    with si Inl show ?thesis unfolding decode_summary_def by auto
  next
    case (Inr bs')
    with si have s1: "decode_summary W d x (Inr ()) d1 x1" unfolding decode_summary_def by auto
    from Inr 1(3) st have rest: "decode_loop D emit canc d1 bs' x1 = (r, d', x')"
      by (simp add: decode_loop.simps [of D emit canc d])
    from si have "decoder_inv d1" by blast
    from 1(1) [OF st [symmetric] Inr refl this rest 1(4,5)] s1 show ?thesis
      by (blast intro: decode_summary_trans)
  qed
qed

lemma decode_summary_decode:
  assumes "decoder_bounded D" and "closures_ok emit canc W" and "decoder_inv d"
    and "decode D emit canc d bs x = (r, d', x')"
  shows "decode_summary W d x r d' x'"
proof (cases "complete d")
  case True
  with assms(3,4) show ?thesis by (auto simp: decode_def intro!: decode_summary_refl split: if_splits)
next
  case False
  with assms show ?thesis by (auto simp: decode_def intro: decode_loop_summary)
qed

lemma check_header_no_panic: "check_header h \<noteq> Inl Panic"
  by (simp add: check_header_eq_spec header_spec_def)

lemma decode_summary_fields:
  "decode_summary W (d\<lparr>header := h\<rparr>) x r d' x' = decode_summary W d x r d' x'"
  "decode_summary W (d\<lparr>header_checked := b\<rparr>) x r d' x' = decode_summary W d x r d' x'"
  "decode_summary W (d\<lparr>header_checked := b, header := h\<rparr>) x r d' x' = decode_summary W d x r d' x'"
  by (simp_all add: decode_summary_def)

lemma decoder_inv_fields [simp]:
  "decoder_inv (d\<lparr>header := h\<rparr>) = decoder_inv d" "decoder_inv (d\<lparr>header_checked := b\<rparr>) = decoder_inv d"
  by (simp_all add: decoder_inv_def)

lemma push_header_summary:
  assumes D: "decoder_bounded D" and E: "closures_ok emit canc W"
  shows "decoder_inv d \<Longrightarrow> push_header D emit canc d bs x = (r, d', x') \<Longrightarrow> decode_summary W d x r d' x'"
proof (induction bs arbitrary: d x)
  case Nil
  then show ?case by (auto intro: decode_summary_refl)
next
  case (Cons b bs)
  let ?d1 = "d\<lparr>header := header d @ [b]\<rparr>"
  show ?case
  proof (cases "header_checked d")
    case True
    with Cons.prems show ?thesis by (auto intro: decode_summary_refl)
  next
    case hc: False
    show ?thesis
    proof (cases "check_header (header ?d1)")
      case (Inl e)
      with hc Cons.prems check_header_no_panic [of "header ?d1"] show ?thesis
        by (auto simp: decode_summary_def decoder_inv_def)
    next
      case (Inr ready)
      show ?thesis
      proof (cases ready)
        case False
        with Inr hc Cons.prems(2) have "push_header D emit canc ?d1 bs x = (r, d', x')" by simp
        from Cons.IH [OF _ this] Cons.prems(1) show ?thesis by (simp add: decode_summary_fields)
      next
        case True
        let ?d2 = "?d1\<lparr>header_checked := True, header := []\<rparr>"
        obtain r2 d3 x2 where dec: "decode D emit canc ?d2 (header ?d1) x = (r2, d3, x2)" by (metis prod_cases3)
        from decode_summary_decode [OF D E _ dec] Cons.prems(1)
        have s2: "decode_summary W d x r2 d3 x2" by (simp add: decode_summary_fields)
        show ?thesis
        proof (cases r2)
          case (Inl e)
          with True Inr hc Cons.prems(2) dec s2 show ?thesis by (auto simp: decode_summary_def)
        next
          case r2: (Inr u)
          with True Inr hc Cons.prems(2) dec have "push_header D emit canc d3 bs x2 = (r, d', x')" by simp
          moreover have "decoder_inv d3" using s2 by (simp add: decode_summary_def)
          ultimately show ?thesis using Cons.IH s2 r2 by (blast intro: decode_summary_trans)
        qed
      qed
    qed
  qed
qed

lemma push_summary:
  assumes D: "decoder_bounded D" and E: "closures_ok emit canc W" and d: "decoder_inv d"
    and p: "push D emit canc d bs x = (r, d', x')"
  shows "decode_summary W d x r d' x'"
proof -
  obtain r1 d1 x1 where h: "push_header D emit canc d bs x = (r1, d1, x1)" by (metis prod_cases3)
  note s1 = push_header_summary [OF D E d h]
  show ?thesis
  proof (cases r1)
    case (Inl e)
    with p h s1 show ?thesis by (auto simp: push_def decode_summary_def)
  next
    case (Inr rest)
    then have d1: "decoder_inv d1" using s1 by (simp add: decode_summary_def)
    have "decode_summary W d1 x1 r d' x'"
      using p h Inr d1 decode_summary_decode [OF D E d1]
      by (auto simp: push_def intro: decode_summary_refl split: if_splits)
    with s1 Inr show ?thesis by (blast intro: decode_summary_trans)
  qed
qed

section \<open>Decoding a well-formed frame\<close>

text \<open>
  Documented behaviour of the raw decoder on a frame. In state \<open>z\<close> the frame's remaining compressed
  bytes are \<open>C z\<close> and its remaining plaintext \<open>P z\<close>. Before the end of the frame, fed with a prefix of \<open>C z\<close> and a non-empty output
  buffer it consumes and produces in order, reports zero remaining bytes exactly at the end of the
  frame, and makes no progress only when it lacks input.
\<close>

definition decodes :: "'d zstd_decoder \<Rightarrow> ('d \<Rightarrow> bytes) \<Rightarrow> ('d \<Rightarrow> bytes) \<Rightarrow> bool" where
  "decodes D C P \<longleftrightarrow>
     (\<forall>z inp rest out. C z = inp @ rest \<and> out \<noteq> [] \<and> (C z \<noteq> [] \<or> P z \<noteq> []) \<longrightarrow>
        (\<exists>st stored z'. run_on_buffers D z inp out = (Some (st, stored), z') \<and>
           unat (bytes_read st) \<le> length inp \<and> unat (bytes_written st) \<le> length out \<and>
           unat (bytes_written st) \<le> length stored \<and> unat (bytes_written st) \<le> length (P z) \<and>
           take (unat (bytes_written st)) stored = take (unat (bytes_written st)) (P z) \<and>
           C z' = drop (unat (bytes_read st)) (C z) \<and> P z' = drop (unat (bytes_written st)) (P z) \<and>
           (remaining st = 0 \<longleftrightarrow> C z' = [] \<and> P z' = []) \<and>
           (bytes_read st = 0 \<and> bytes_written st = 0 \<longrightarrow> inp = [] \<and> C z \<noteq> [])))"

definition closures_good ::
    "(bytes \<Rightarrow> ('x, backup_fault, unit) action) \<Rightarrow> ('x, backup_fault, unit) action \<Rightarrow> ('x \<Rightarrow> bytes) \<Rightarrow> bool" where
  "closures_good emit canc W \<longleftrightarrow>
     (\<forall>b x. length b \<le> MAX_IO_CHUNK_BYTES_V1 \<longrightarrow> (\<exists>x'. emit b x = (Inr (), x') \<and> W x' = W x @ b)) \<and>
     (\<forall>x. \<exists>x'. canc x = (Inr (), x') \<and> W x' = W x)"

text \<open>The decoder has consumed part of a frame whose rest is \<open>cs\<close> and which still yields \<open>ps\<close>.\<close>

definition decoding :: "('d \<Rightarrow> bytes) \<Rightarrow> ('d \<Rightarrow> bytes) \<Rightarrow> bytes \<Rightarrow> bytes \<Rightarrow> 'd bounded_decoder \<Rightarrow> bool" where
  "decoding C P cs ps d \<longleftrightarrow>
     decoder_inv d \<and> C (decoder d) = cs \<and> P (decoder d) = ps \<and>
     unat (decoded d) + length ps \<le> 1073741824 \<and> (complete d \<longleftrightarrow> cs = [] \<and> ps = [])"

lemma emit_between_good:
  assumes "closures_good emit canc W" and "n \<le> length b" and "length b = MAX_IO_CHUNK_BYTES_V1"
  shows "\<exists>x'. sbind canc (\<lambda>_. sbind (if n = 0 then sret () else if length b < n then sfail Panic
      else emit (take n b)) (\<lambda>_. canc)) x = (Inr (), x') \<and> W x' = W x @ take n b"
proof -
  from assms(1) obtain x1 where 1: "canc x = (Inr (), x1)" "W x1 = W x" unfolding closures_good_def by blast
  have "\<exists>x2. (if n = 0 then sret () else emit (take n b)) x1 = (Inr (), x2) \<and> W x2 = W x1 @ take n b"
    using assms unfolding closures_good_def by simp
  then obtain x2 where 2: "(if n = 0 then sret () else emit (take n b)) x1 = (Inr (), x2)" "W x2 = W x1 @ take n b"
    by blast
  from assms(1) obtain x3 where 3: "canc x2 = (Inr (), x3)" "W x3 = W x2" unfolding closures_good_def by blast
  have "(if n = 0 then sret () else if length b < n then sfail Panic else emit (take n b)) x1 = (Inr (), x2)"
    using 2(1) assms(2) by (cases "n = 0") auto
  with 1 2(2) 3 show ?thesis by (simp add: sbind_def)
qed

lemma decodesE:
  assumes "decodes D C P" and "C z = inp @ rest" and "out \<noteq> []" and "C z \<noteq> [] \<or> P z \<noteq> []"
  obtains st stored z' where "run_on_buffers D z inp out = (Some (st, stored), z')"
    "unat (bytes_read st) \<le> length inp" "unat (bytes_written st) \<le> length out"
    "unat (bytes_written st) \<le> length stored" "unat (bytes_written st) \<le> length (P z)"
    "take (unat (bytes_written st)) stored = take (unat (bytes_written st)) (P z)"
    "C z' = drop (unat (bytes_read st)) (C z)" "P z' = drop (unat (bytes_written st)) (P z)"
    "remaining st = 0 \<longleftrightarrow> C z' = [] \<and> P z' = []"
    "bytes_read st = 0 \<and> bytes_written st = 0 \<longrightarrow> inp = [] \<and> C z \<noteq> []"
  using assms unfolding decodes_def by blast

lemma decode_run_decodes:
  assumes D: "decodes D C P" and d: "decoding C P (bs @ rest) ps d" and nc: "\<not> complete d"
  obtains st d1 where "decode_run D d bs = (Inr st, d1)"
    "unat (bytes_read st) \<le> length bs" "unat (bytes_written st) \<le> length (out_buf d1)"
    "unat (bytes_written st) \<le> length ps" "take (unat (bytes_written st)) (out_buf d1) = take (unat (bytes_written st)) ps"
    "decoder_inv d1" "C (decoder d1) = drop (unat (bytes_read st)) (bs @ rest)"
    "P (decoder d1) = drop (unat (bytes_written st)) ps"
    "unat (decoded d1) = unat (decoded d) + unat (bytes_written st)"
    "remaining st = 0 \<longleftrightarrow> C (decoder d1) = [] \<and> P (decoder d1) = []"
    "bytes_read st = 0 \<and> bytes_written st = 0 \<longrightarrow> bs = [] \<and> bs @ rest \<noteq> []"
    "complete d1 = complete d" "header_checked d1 = header_checked d" "header d1 = header d"
proof -
  from d have lim: "limit d = MAX_PLAINTEXT_OBJECT_BYTES_V1" and dec: "unat (decoded d) + length ps \<le> 1073741824"
    and len: "length (out_buf d) = MAX_IO_CHUNK_BYTES_V1" and C: "C (decoder d) = bs @ rest" and P: "P (decoder d) = ps"
    by (auto simp: decoding_def decoder_inv_def)
  have le: "decoded d \<le> limit d" using dec lim by (simp add: word_le_nat_alt)
  then have "unat (limit d - decoded d) \<le> 1073741824" using lim by (simp add: unat_sub)
  then have cap1: "unat (limit d - decoded d + 1) = unat (limit d - decoded d) + 1"
    using unat_add64 [of "limit d - decoded d" 1] by simp
  then have nz: "limit d - decoded d + 1 \<noteq> 0" by (metis add_is_0 one_neq_zero unsigned_0)
  have nl: "\<not> limit d < decoded d" using le by simp
  let ?cap = "min (length (out_buf d)) (unat (limit d - decoded d + 1))"
  let ?out = "take ?cap (out_buf d)"
  have "0 < ?cap" using cap1 len by (simp add: MAX_IO_CHUNK_BYTES_V1_def)
  then have out: "?out \<noteq> []" using len by (auto simp: MAX_IO_CHUNK_BYTES_V1_def)
  have "C (decoder d) \<noteq> [] \<or> P (decoder d) \<noteq> []" using d nc by (auto simp: decoding_def)
  with D C out obtain st stored z' where run: "run_on_buffers D (decoder d) bs ?out = (Some (st, stored), z')"
    and r: "unat (bytes_read st) \<le> length bs" and w: "unat (bytes_written st) \<le> length ?out"
      "unat (bytes_written st) \<le> length stored" "unat (bytes_written st) \<le> length (P (decoder d))"
      "take (unat (bytes_written st)) stored = take (unat (bytes_written st)) (P (decoder d))"
    and z': "C z' = drop (unat (bytes_read st)) (C (decoder d))" "P z' = drop (unat (bytes_written st)) (P (decoder d))"
      "remaining st = 0 \<longleftrightarrow> C z' = [] \<and> P z' = []"
      "bytes_read st = 0 \<and> bytes_written st = 0 \<longrightarrow> bs = [] \<and> C (decoder d) \<noteq> []"
    by (rule decodesE)
  let ?d1 = "d\<lparr>decoder := z', out_buf := overwrite ?out stored @ drop ?cap (out_buf d)\<rparr>"
  have add: "checked_add_limited (decoded d) (bytes_written st) (limit d) = Inr (decoded d + bytes_written st)"
    using dec w(3) lim P by (simp add: checked_add_limited_Inr_iff)
  let ?d2 = "?d1\<lparr>decoded := decoded d + bytes_written st\<rparr>"
  have "decode_run D d bs = (Inr st, ?d2)"
    using run add nl nz by (simp add: decode_run_def Let_def)
  moreover have "take (unat (bytes_written st)) (out_buf ?d2) = take (unat (bytes_written st)) ps"
    using w P by (simp add: take_overwrite)
  moreover have "decoder_inv ?d2" "unat (decoded ?d2) = unat (decoded d) + unat (bytes_written st)"
    using checked_add_limited_InrD [OF add] lim len by (simp_all add: decoder_inv_def)
  moreover have "unat (bytes_written st) \<le> length (out_buf ?d2)" using w(1) by simp
  ultimately show thesis using that [of st ?d2] r w(3) z' C P by simp
qed

lemma decode_loop_decodes:
  assumes D: "decodes D C P" and E: "closures_good emit canc W"
    and "decoding C P (bs @ rest) ps d" and "\<not> complete d"
  shows "\<exists>d' x' c qs. decode_loop D emit canc d bs x = (Inr (), d', x') \<and> ps = c @ qs \<and> W x' = W x @ c \<and>
    decoding C P rest qs d' \<and> (rest = [] \<longrightarrow> qs = []) \<and> header_checked d' = header_checked d \<and>
    unat (decoded d') = unat (decoded d) + length c"
  using assms(3,4)
proof (induction "length bs + (1073741824 - unat (decoded d))" arbitrary: bs ps d x rule: less_induct)
  case less
  obtain st d1 where run: "decode_run D d bs = (Inr st, d1)"
    and r: "unat (bytes_read st) \<le> length bs" "unat (bytes_written st) \<le> length (out_buf d1)"
    and w: "unat (bytes_written st) \<le> length ps" "take (unat (bytes_written st)) (out_buf d1) = take (unat (bytes_written st)) ps"
    and d1: "decoder_inv d1" "C (decoder d1) = drop (unat (bytes_read st)) (bs @ rest)"
      "P (decoder d1) = drop (unat (bytes_written st)) ps" "unat (decoded d1) = unat (decoded d) + unat (bytes_written st)"
    and fin: "remaining st = 0 \<longleftrightarrow> C (decoder d1) = [] \<and> P (decoder d1) = []"
    and np: "bytes_read st = 0 \<and> bytes_written st = 0 \<longrightarrow> bs = [] \<and> bs @ rest \<noteq> []"
    and same: "complete d1 = complete d" "header_checked d1 = header_checked d" "header d1 = header d"
    by (rule decode_run_decodes [OF D less.prems])
  let ?n = "unat (bytes_written st)" and ?bs' = "drop (unat (bytes_read st)) bs"
  have dec: "unat (decoded d) + length ps \<le> 1073741824" using less.prems(1) by (simp add: decoding_def)
  from E obtain x1 where c1: "canc x = (Inr (), x1)" "W x1 = W x" unfolding closures_good_def by blast
  from emit_between_good [OF E r(2) d1(1) [unfolded decoder_inv_def, THEN conjunct2, THEN conjunct2], of x1] obtain x2 where
    em: "sbind canc (\<lambda>_. sbind (if ?n = 0 then sret () else if length (out_buf d1) < ?n then sfail Panic
      else emit (take ?n (out_buf d1))) (\<lambda>_. canc)) x1 = (Inr (), x2)"
    and W2: "W x2 = W x @ take ?n ps" using c1(2) w(2) by auto
  have step: "decode_step D emit canc d bs x =
      (if remaining st = 0 then (Inl (if ?bs' = [] then Inr () else Inl invalid), d1\<lparr>complete := True\<rparr>, x2)
       else if bytes_read st = 0 \<and> bytes_written st = 0 then (Inl (if ?bs' = [] then Inr () else Inl invalid), d1, x2)
       else (Inr ?bs', d1, x2))"
    using r(1) by (simp add: decode_step_def c1(1) run em Let_def)
  have Cd1: "C (decoder d1) = ?bs' @ rest" using d1(2) r(1) by simp
  show ?case
  proof (cases "remaining st = 0")
    case True
    then have "?bs' = []" "rest = []" "drop ?n ps = []" using fin Cd1 d1(3) by auto
    with True have "decode_step D emit canc d bs x = (Inl (Inr ()), d1\<lparr>complete := True\<rparr>, x2)"
      by (simp add: step)
    moreover have "decoding C P rest [] (d1\<lparr>complete := True\<rparr>)"
      using d1 \<open>rest = []\<close> \<open>?bs' = []\<close> \<open>drop ?n ps = []\<close> dec w(1) Cd1 by (simp add: decoding_def decoder_inv_def)
    moreover have "take ?n ps = ps" using \<open>drop ?n ps = []\<close> by simp
    ultimately show ?thesis using same d1(4) w(1) W2 \<open>drop ?n ps = []\<close>
      by (intro exI [of _ "d1\<lparr>complete := True\<rparr>"] exI [of _ x2] exI [of _ ps] exI [of _ "[]"])
        (simp add: decode_loop.simps)
  next
    case rem: False
    have dc: "decoding C P (?bs' @ rest) (drop ?n ps) d1"
      using d1 Cd1 dec w(1) same less.prems(2) fin rem by (auto simp: decoding_def)
    show ?thesis
    proof (cases "bytes_read st = 0 \<and> bytes_written st = 0")
      case True
      with np have "bs = []" "rest \<noteq> []" by auto
      then have "decode_step D emit canc d bs x = (Inl (Inr ()), d1, x2)" using step True rem by simp
      with True dc \<open>bs = []\<close> \<open>rest \<noteq> []\<close> same d1(4) W2 show ?thesis
        by (intro exI [of _ d1] exI [of _ x2] exI [of _ "[]"] exI [of _ ps]) (simp add: decode_loop.simps)
    next
      case False
      with rem have st: "decode_step D emit canc d bs x = (Inr ?bs', d1, x2)" by (auto simp: step)
      from decode_step_progress [OF st] have "length ?bs' + unat (decoded d) < length bs + unat (decoded d1)" by blast
      with d1(4) dec w(1)
      have "length ?bs' + (1073741824 - unat (decoded d1)) < length bs + (1073741824 - unat (decoded d))" by linarith
      from less.hyps [OF this dc, of x2] same less.prems(2) obtain d' x' c qs where
        lp: "decode_loop D emit canc d1 ?bs' x2 = (Inr (), d', x')" and ps: "drop ?n ps = c @ qs"
        and rs: "W x' = W x2 @ c" "decoding C P rest qs d'" "rest = [] \<longrightarrow> qs = []"
          "header_checked d' = header_checked d1" "unat (decoded d') = unat (decoded d1) + length c" by auto
      have "decode_loop D emit canc d bs x = (Inr (), d', x')"
        using lp st by (simp add: decode_loop.simps [of D emit canc d])
      moreover have "ps = (take ?n ps @ c) @ qs" using ps append_take_drop_id [of ?n ps] by simp
      moreover have "W x' = W x @ (take ?n ps @ c)" using rs(1) W2 by simp
      moreover have "unat (decoded d') = unat (decoded d) + length (take ?n ps @ c)"
        using rs(5) d1(4) w(1) by simp
      ultimately show ?thesis using rs(2-4) same(2) by metis
    qed
  qed
qed

text \<open>The compressed stream starts with a frame header that the check accepts.\<close>

definition accepted_header :: "bytes \<Rightarrow> bool" where
  "accepted_header full \<longleftrightarrow>
     (\<exists>n \<le> length full. header_spec (take n full) = Inr True \<and> (\<forall>m < n. header_spec (take m full) = Inr False))"

text \<open>
  The state after the prefix \<open>fed\<close> of the compressed stream \<open>full\<close> has been pushed; \<open>plain\<close> is the
  frame's plaintext and \<open>base\<close> what had been delivered before.
\<close>

definition push_state ::
    "('d \<Rightarrow> bytes) \<Rightarrow> ('d \<Rightarrow> bytes) \<Rightarrow> ('x \<Rightarrow> bytes) \<Rightarrow> bytes \<Rightarrow> bytes \<Rightarrow> bytes \<Rightarrow> bytes
      \<Rightarrow> 'd bounded_decoder \<Rightarrow> 'x \<Rightarrow> bool" where
  "push_state C P W base full plain fed d x \<longleftrightarrow>
     (if header_checked d
      then (\<exists>rest c qs. full = fed @ rest \<and> plain = c @ qs \<and> W x = base @ c \<and> decoding C P rest qs d \<and>
              (rest = [] \<longrightarrow> qs = []))
      else (\<exists>rest. full = fed @ rest) \<and> header d = fed \<and> W x = base \<and> \<not> complete d \<and>
           decoding C P full plain d \<and> (\<forall>m \<le> length fed. header_spec (take m full) = Inr False))"

lemma decode_state:
  assumes D: "decodes D C P" and E: "closures_good emit canc W" and hc: "header_checked d"
    and st: "push_state C P W base full plain fed d x" and full: "full = fed @ bs @ xs"
  shows "\<exists>d' x'. decode D emit canc d bs x = (Inr (), d', x') \<and> header_checked d' \<and>
    push_state C P W base full plain (fed @ bs) d' x'"
proof -
  from st hc full obtain c qs where s: "plain = c @ qs" "W x = base @ c" "decoding C P (bs @ xs) qs d"
      "bs @ xs = [] \<longrightarrow> qs = []"
    unfolding push_state_def by auto
  show ?thesis
  proof (cases "complete d")
    case True
    with s(3) have "bs = []" "xs = []" "qs = []" by (auto simp: decoding_def)
    with True st hc show ?thesis by (simp add: decode_def)
  next
    case False
    from decode_loop_decodes [OF D E s(3) False, of x] obtain d' x' c' qs' where
      "decode_loop D emit canc d bs x = (Inr (), d', x')" "qs = c' @ qs'" "W x' = W x @ c'"
      "decoding C P xs qs' d'" "xs = [] \<longrightarrow> qs' = []" "header_checked d' = header_checked d" by blast
    with False hc s full show ?thesis
      by (intro exI [of _ d'] exI [of _ x']) (auto simp: decode_def push_state_def)
  qed
qed

lemma push_header_state:
  assumes D: "decodes D C P" and E: "closures_good emit canc W" and H: "accepted_header full"
  shows "push_state C P W base full plain fed d x \<Longrightarrow> full = fed @ bs @ xs \<Longrightarrow>
    \<exists>rest d' x' fed'. push_header D emit canc d bs x = (Inr rest, d', x') \<and> fed' @ rest = fed @ bs \<and>
      push_state C P W base full plain fed' d' x' \<and> (\<not> header_checked d' \<longrightarrow> rest = [])"
proof (induction bs arbitrary: fed d x)
  case Nil
  then show ?case by auto
next
  case (Cons b bs)
  show ?case
  proof (cases "header_checked d")
    case True
    with Cons.prems(1) show ?thesis by auto
  next
    case hc: False
    with Cons.prems have h: "header d = fed" and Wx: "W x = base" and nc: "\<not> complete d"
      and dc: "decoding C P full plain d" and no: "\<forall>m \<le> length fed. header_spec (take m full) = Inr False"
      by (auto simp: push_state_def)
    have pre: "take (Suc (length fed)) full = fed @ [b]" using Cons.prems(2) by simp
    from H obtain n where n: "n \<le> length full" "header_spec (take n full) = Inr True"
      "\<forall>m < n. header_spec (take m full) = Inr False" unfolding accepted_header_def by blast
    with no have "length fed < n" by (metis Inr_inject not_less)
    let ?d1 = "d\<lparr>header := header d @ [b]\<rparr>"
    show ?thesis
    proof (cases "Suc (length fed) = n")
      case True
      then have ok: "check_header (header ?d1) = Inr True" using n(2) pre h by (simp add: check_header_eq_spec)
      let ?d2 = "?d1\<lparr>header_checked := True, header := []\<rparr>"
      have "push_state C P W base full plain [] ?d2 x"
        using dc nc Wx Cons.prems(2) by (auto simp: push_state_def decoding_def)
      from decode_state [OF D E _ this, of "fed @ [b]" "bs @ xs"] Cons.prems(2) h obtain d3 x3 where
        "decode D emit canc ?d2 (header ?d1) x = (Inr (), d3, x3)" and hc3: "header_checked d3"
        and st3: "push_state C P W base full plain (fed @ [b]) d3 x3" by auto
      with Cons.IH [OF st3] Cons.prems(2) ok hc show ?thesis by auto
    next
      case False
      with n(3) \<open>length fed < n\<close> have f: "header_spec (fed @ [b]) = Inr False" using pre by (metis Suc_lessI)
      then have "check_header (header ?d1) = Inr False" using h by (simp add: check_header_eq_spec)
      moreover have "\<forall>m \<le> Suc (length fed). header_spec (take m full) = Inr False"
        using no f pre by (metis le_SucE)
      then have "push_state C P W base full plain (fed @ [b]) ?d1 x"
        using hc h Wx nc dc Cons.prems(2) by (auto simp: push_state_def decoding_def)
      from Cons.IH [OF this] Cons.prems(2) have "\<exists>rest d' x' fed'. push_header D emit canc ?d1 bs x = (Inr rest, d', x') \<and>
        fed' @ rest = fed @ b # bs \<and> push_state C P W base full plain fed' d' x' \<and> (\<not> header_checked d' \<longrightarrow> rest = [])"
        by simp
      ultimately show ?thesis using hc by simp
    qed
  qed
qed

lemma push_state_push:
  assumes D: "decodes D C P" and E: "closures_good emit canc W" and H: "accepted_header full"
    and st: "push_state C P W base full plain fed d x" and full: "full = fed @ bs @ xs"
  shows "\<exists>d' x'. push D emit canc d bs x = (Inr (), d', x') \<and> push_state C P W base full plain (fed @ bs) d' x'"
proof -
  from push_header_state [OF D E H st full] obtain rest d1 x1 fed1 where
    p: "push_header D emit canc d bs x = (Inr rest, d1, x1)" "fed1 @ rest = fed @ bs"
    "push_state C P W base full plain fed1 d1 x1" "\<not> header_checked d1 \<longrightarrow> rest = []" by blast
  show ?thesis
  proof (cases "header_checked d1")
    case True
    have "full = fed1 @ rest @ xs" using p(2) full by (metis append_assoc)
    from decode_state [OF D E True p(3) this] True p(1,2) show ?thesis by (auto simp: push_def)
  next
    case False
    with p show ?thesis by (auto simp: push_def)
  qed
qed

lemma push_state_done:
  assumes "accepted_header full" and "push_state C P W base full plain full d x"
  shows "decoder_finish d = Inr () \<and> W x = base @ plain"
proof (cases "header_checked d")
  case True
  with assms(2) show ?thesis by (auto simp: push_state_def decoder_finish_def decoding_def)
next
  case False
  with assms show ?thesis by (auto simp: push_state_def accepted_header_def)
qed

section \<open>Properties\<close>

text \<open>C34: The header check agrees with the frame format: computed with the machine arithmetic of the
  code it accepts, rejects or asks for more bytes exactly as the definition on natural numbers does
  (no shift, sum or product wraps); it accepts only headers without dictionary whose window is at
  most 8 MiB and whose content size is at most 1 GiB, and it never asks for more than 14 bytes.\<close>

theorem check_header_matches_format:
  "check_header h = header_spec h \<and>
   (check_header h = Inr True \<longrightarrow>
      plain_descriptor (h ! 4) \<and> window_size h \<le> unat MAX_ZSTD_WINDOW_BYTES_V1 \<and>
      content_size h \<le> unat MAX_PLAINTEXT_OBJECT_BYTES_V1) \<and>
   (check_header h = Inr False \<longrightarrow> length h < 14)"
  using header_spec_short [of h]
  by (auto simp: check_header_eq_spec header_spec_def split: if_splits)

theorem check_header_matches_format_witness:
  "check_header [0x28, 0xb5, 0x2f, 0xfd, 0, 0x58] = Inr True \<and>
   window_size [0x28, 0xb5, 0x2f, 0xfd, 0, 0x58] \<le> 8388608"
proof -
  let ?h = "[0x28, 0xb5, 0x2f, 0xfd, 0, 0x58] :: bytes"
  have "header_spec ?h = Inr True"
    by (simp add: header_spec_def plain_descriptor_def header_length_def field_size_def window_size_def
        content_size_def slice_def Let_def)
  then show ?thesis using check_header_matches_format [of ?h] by auto
qed

text \<open>Decoding is bounded for every input: whatever bytes are pushed and whatever the decoder
  produces within its buffers, a push does not panic, what has been delivered so far is never more
  than what has been counted, the count never exceeds the 1 GiB plaintext limit, and on success the
  delivered bytes are exactly the counted ones.\<close>

theorem push_bounded:
  assumes "decoder_bounded D" and "closures_ok emit canc W" and "decoder_inv d"
    and "push D emit canc d bs x = (r, d', x')"
  shows "decoder_inv d' \<and> r \<noteq> Inl Panic \<and> unat (decoded d') \<le> unat MAX_PLAINTEXT_OBJECT_BYTES_V1 \<and>
    (\<exists>c. W x' = W x @ c \<and> unat (decoded d) + length c \<le> unat (decoded d') \<and>
      (r = Inr () \<longrightarrow> unat (decoded d) + length c = unat (decoded d')))"
proof -
  have "decode_summary W d x r d' x'" by (rule push_summary [OF assms])
  moreover from this have "unat (decoded d') \<le> unat MAX_PLAINTEXT_OBJECT_BYTES_V1"
    by (auto simp: decode_summary_def decoder_inv_def)
  ultimately show ?thesis by (auto simp: decode_summary_def)
qed

text \<open>Pushing a frame in pieces of any sizes decodes it: once the pieces make up the whole frame
  of a decoder that keeps its documented behaviour, all pushes have succeeded, exactly the frame's
  plaintext has been delivered, and \<open>finish\<close> accepts.\<close>

theorem push_pieces_decode:
  assumes "decodes D C P" and "closures_good emit canc W" and "accepted_header full"
    and "push_state C P W base full plain [] d x" and "concat pieces = full"
  shows "\<exists>d' x'. foldl (\<lambda>(r, d, x) piece. case r of Inl e \<Rightarrow> (Inl e, d, x) | Inr _ \<Rightarrow> push D emit canc d piece x)
      (Inr (), d, x) pieces = (Inr (), d', x') \<and> W x' = base @ plain \<and> decoder_finish d' = Inr ()"
proof -
  have "\<exists>d' x'. foldl (\<lambda>(r, d, x) piece. case r of Inl e \<Rightarrow> (Inl e, d, x) | Inr _ \<Rightarrow> push D emit canc d piece x)
      (Inr (), d, x) pieces = (Inr (), d', x') \<and> push_state C P W base full plain (fed @ concat pieces) d' x'"
    if "push_state C P W base full plain fed d x" "full = fed @ concat pieces" for fed
    using that
  proof (induction pieces arbitrary: fed d x)
    case Nil
    then show ?case by simp
  next
    case (Cons p pieces)
    then have "full = fed @ p @ concat pieces" by simp
    from push_state_push [OF assms(1,2,3) Cons.prems(1) this] obtain d1 x1 where
      p: "push D emit canc d p x = (Inr (), d1, x1)" "push_state C P W base full plain (fed @ p) d1 x1" by blast
    from Cons.IH [OF p(2)] Cons.prems(2) p(1) show ?case by simp
  qed
  from this [of "[]"] assms(3,4,5) push_state_done show ?thesis by fastforce
qed

text \<open>A decoder for frames that carry their plaintext as is: the state is the undelivered rest.\<close>

definition sample_frame :: "bytes \<Rightarrow> bytes" where
  "sample_frame plain = [0x28, 0xb5, 0x2f, 0xfd, 0, 0x58] @ plain @ [0]"

definition sample_decoder :: "(bytes \<times> bytes) zstd_decoder" where
  "sample_decoder = \<lparr>
     decoder_new = Some ([], []),
     set_window_log_max = (\<lambda>z n. Some z),
     run_on_buffers = (\<lambda>(cs, ps) inp out.
       let n = min (length inp) 65536; m = min (min (length ps) (length out)) 65536;
           cs' = drop n cs; ps' = drop m ps in
       (Some (\<lparr>bytes_read = of_nat n, bytes_written = of_nat m,
               remaining = (if cs' = [] \<and> ps' = [] then 0 else 1)\<rparr>, take m ps), (cs', ps')))\<rparr>"

lemma sample_decoder_decodes: "decodes sample_decoder fst snd"
proof -
  have w: "unat (of_nat (min n 65536) :: u64) = min n 65536" for n
    using unat_small_count [of "min n 65536"] by simp
  have z: "(of_nat (min n 65536) :: u64) = 0 \<longleftrightarrow> n = 0" for n
  proof -
    have "(of_nat (min n 65536) :: u64) = 0 \<longleftrightarrow> unat (of_nat (min n 65536) :: u64) = 0"
      by (simp only: unsigned_eq_0_iff)
    then show ?thesis unfolding w by (simp add: min_def)
  qed
  have m: "min a b = (0 :: nat) \<longleftrightarrow> a = 0 \<or> b = 0" for a b by (auto simp: min_def)
  show ?thesis
    unfolding decodes_def
    by (intro allI impI) (auto simp: sample_decoder_def Let_def w z m split: prod.splits if_splits)
qed

lemma sample_decoder_bounded: "decoder_bounded sample_decoder"
proof -
  have w: "unat (of_nat (min n 65536) :: u64) = min n 65536" for n
    using unat_small_count [of "min n 65536"] by simp
  show ?thesis by (auto simp: decoder_bounded_def sample_decoder_def Let_def w split: prod.splits)
qed

definition sample_state :: "bytes \<Rightarrow> (bytes \<times> bytes) bounded_decoder" where
  "sample_state plain = \<lparr>decoder = (sample_frame plain, plain), header = [], header_checked = False,
     complete = False, decoded = 0, limit = MAX_PLAINTEXT_OBJECT_BYTES_V1,
     out_buf = replicate MAX_IO_CHUNK_BYTES_V1 0\<rparr>"

lemma sample_state_inv: "decoder_inv (sample_state plain)"
  by (simp add: sample_state_def decoder_inv_def)

lemma sample_push_state:
  "length plain \<le> 1073741824 \<Longrightarrow> push_state fst snd W (W x) (sample_frame plain) plain [] (sample_state plain) x"
  using sample_state_inv [of plain]
  by (simp add: push_state_def decoding_def) (simp add: sample_state_def sample_frame_def header_spec_def)

lemma sample_header: "accepted_header (sample_frame plain)"
proof -
  have "header_spec (take 6 (sample_frame plain)) = Inr True"
    by (simp add: sample_frame_def header_spec_def plain_descriptor_def header_length_def field_size_def
        window_size_def content_size_def slice_def Let_def)
  moreover have "header_spec (take m (sample_frame plain)) = Inr False" if "m < 6" for m
  proof -
    from that consider "m < 5" | "m = 5" by linarith
    then show ?thesis
    proof cases
      case 1
      then have "length (take m (sample_frame plain)) < 5" by simp
      then show ?thesis by (simp only: header_spec_def if_True)
    next
      case 2
      then show ?thesis
        by (simp add: sample_frame_def header_spec_def plain_descriptor_def header_length_def field_size_def)
    qed
  qed
  ultimately show ?thesis unfolding accepted_header_def by (intro exI [of _ 6]) (simp add: sample_frame_def)
qed

definition log_emit :: "bytes \<Rightarrow> (bytes, backup_fault, unit) action" where
  "log_emit b x = (Inr (), x @ b)"

definition never_cancelled :: "('x, backup_fault, unit) action" where
  "never_cancelled x = (Inr (), x)"

lemma log_closures: "closures_good log_emit never_cancelled (\<lambda>x. x)" "closures_ok log_emit never_cancelled (\<lambda>x. x)"
  by (auto simp: closures_good_def closures_ok_def log_emit_def never_cancelled_def)

theorem push_bounded_witness:
  "decoder_inv (fst (snd (push sample_decoder log_emit never_cancelled (sample_state [7]) [0x28, 0xb5] [])))"
proof -
  obtain r d' x' where p: "push sample_decoder log_emit never_cancelled (sample_state [7]) [0x28, 0xb5] [] = (r, d', x')"
    by (metis prod_cases3)
  from push_bounded [OF sample_decoder_bounded log_closures(2) sample_state_inv p] p show ?thesis by simp
qed

theorem push_pieces_decode_witness:
  "\<exists>d' x'. foldl (\<lambda>(r, d, x) piece. case r of Inl e \<Rightarrow> (Inl e, d, x)
        | Inr _ \<Rightarrow> push sample_decoder log_emit never_cancelled d piece x)
      (Inr (), sample_state [7, 8], []) [[0x28, 0xb5, 0x2f], [0xfd, 0, 0x58, 7], [8, 0]] = (Inr (), d', x') \<and>
    x' = [7, 8] \<and> decoder_finish d' = Inr ()"
proof -
  have "length [7 :: byte, 8] \<le> 1073741824" by simp
  from push_pieces_decode [OF sample_decoder_decodes log_closures(1) sample_header
      sample_push_state [OF this, where W = "\<lambda>x. x" and x = "[]"],
      of "[[0x28, 0xb5, 0x2f], [0xfd, 0, 0x58, 7], [8, 0]]"]
  show ?thesis by (simp add: sample_frame_def)
qed

end
