(* ===== verification/Backup_Roundtrip.thy ===== *)
theory Backup_Roundtrip
  imports Backup_Source_Inv Backup_Writer_Correct Backup_Compression_Correct
begin

text \<open>
  The reader against the writer: an object that \<open>seal_object_v1\<close> produced is opened by
  \<open>open_object_v1\<close> to exactly the sealed plaintext, for every way in which the source cuts its reads,
  given the documented behaviour of the STREAM cipher and of the Zstd codec. The resource
  bounds of the reader hold for every source.
\<close>

section \<open>Laws of the cipher and the codec\<close>

text \<open>
  A decryptor created with the same key and nonce prefix recovers the messages in order; a
  ciphertext is its message plus a 16-byte tag. \<open>sync\<close> relates the two counters.
\<close>

definition stream_sync :: "('e, 'd) stream_cipher \<Rightarrow> ('e \<Rightarrow> 'd \<Rightarrow> bool) \<Rightarrow> bool" where
  "stream_sync C sync \<longleftrightarrow>
     (\<forall>key nonce. sync (encryptor_new C key nonce) (decryptor_new C key nonce)) \<and>
     (\<forall>e d m ad c e'. sync e d \<and> encrypt_next C e m ad = (Some c, e') \<longrightarrow>
        length c = length m + 16 \<and> (\<exists>d'. decrypt_next C d c ad = (Some m, d') \<and> sync e' d')) \<and>
     (\<forall>e d m ad c. sync e d \<and> encrypt_last C e m ad = Some c \<longrightarrow>
        length c = length m + 16 \<and> decrypt_last C d c ad = Some m)"

text \<open>
  The output of an encoder session is a frame with an accepted header, and a fresh decoder with the
  window limit set decodes it to the session's input.
\<close>

definition zstd_codec :: "'z zstd_encoder \<Rightarrow> 'y zstd_decoder \<Rightarrow> bool" where
  "zstd_codec Z Y \<longleftrightarrow>
     (\<forall>inputs cmp. zstd_session Z inputs = Some cmp \<longrightarrow>
        accepted_header cmp \<and>
        (\<exists>y0 y C P. decoder_new Y = Some y0 \<and> set_window_log_max Y y0 23 = Some y \<and>
           decodes Y C P \<and> C y = cmp \<and> P y = concat inputs))"

section \<open>The ciphertexts of a stream\<close>

function stream_ciphertexts :: "('e, 'd) stream_cipher \<Rightarrow> bytes \<Rightarrow> 'e \<Rightarrow> bytes \<Rightarrow> bytes list option" where
  "stream_ciphertexts C ad e data =
     (if length data < COMPRESSED_BLOCK_BYTES then map_option (\<lambda>c. [c]) (encrypt_last C e data ad)
      else
        (case encrypt_next C e (take COMPRESSED_BLOCK_BYTES data) ad of
           (None, _) \<Rightarrow> None
         | (Some c, e') \<Rightarrow>
             map_option (Cons c) (stream_ciphertexts C ad e' (drop COMPRESSED_BLOCK_BYTES data))))"
  by pat_completeness auto
termination
  by (relation "measure (\<lambda>(C, ad, e, data). length data)") (auto simp: COMPRESSED_BLOCK_BYTES_def)

declare stream_ciphertexts.simps [simp del]

lemma seal_stream_rec:
  "seal_stream C ad e data =
     (if length data < COMPRESSED_BLOCK_BYTES then map_option frame (encrypt_last C e data ad)
      else
        (case encrypt_next C e (take COMPRESSED_BLOCK_BYTES data) ad of
           (None, _) \<Rightarrow> None
         | (Some c, e') \<Rightarrow>
             map_option (\<lambda>out. frame c @ out) (seal_stream C ad e' (drop COMPRESSED_BLOCK_BYTES data))))"
  by (auto simp: seal_stream_def seal_blocks.simps [of C ad e data] option.map_comp comp_def
      split: option.splits prod.splits)

lemma seal_stream_ciphertexts:
  "seal_stream C ad e data = map_option (\<lambda>cs. concat (map frame cs)) (stream_ciphertexts C ad e data)"
proof (induction C ad e data rule: stream_ciphertexts.induct)
  case (1 C ad e data)
  then show ?case
    by (simp add: seal_stream_rec [of C ad e data] stream_ciphertexts.simps [of C ad e data] option.map_comp
        comp_def split: option.splits prod.splits)
qed

lemma stream_ciphertexts_nonempty: "stream_ciphertexts C ad e data = Some cs \<Longrightarrow> cs \<noteq> []"
  by (subst (asm) stream_ciphertexts.simps) (auto split: if_splits prod.splits option.splits)

section \<open>Reading from a source that keeps its contract\<close>

definition src_state :: "('s \<Rightarrow> bytes) \<Rightarrow> bytes \<Rightarrow> 's checked_source \<Rightarrow> bool" where
  "src_state R rem inp \<longleftrightarrow>
     R (src inp) = rem \<and> unat (read_bytes inp) + length rem \<le> 268435456 \<and> (eof inp \<longrightarrow> rem = [])"

lemma check_cancelled_honest:
  assumes "honest_source S R" and "src_state R rem inp"
  shows "\<exists>inp'. check_cancelled S inp = (Inr (), inp') \<and> src_state R rem inp' \<and>
    read_bytes inp' = read_bytes inp \<and> eof inp' = eof inp"
proof -
  obtain s' where "is_cancelled S (src inp) = (False, s')" "R s' = R (src inp)"
    using honest_source_cancelled [OF assms(1)] .
  with assms(2) show ?thesis by (auto simp: check_cancelled_def src_state_def)
qed

lemma checked_read_honest:
  assumes S: "honest_source S R" and st: "src_state R rem inp" and dest: "dest \<noteq> []"
  shows "\<exists>n dest' inp'. checked_read S dest inp = (Inr (n, dest'), inp') \<and> n \<le> length dest \<and> n \<le> length rem \<and>
    (n = 0 \<longleftrightarrow> rem = []) \<and> length dest' = length dest \<and> take n dest' = take n rem \<and> src_state R (drop n rem) inp'"
proof -
  from check_cancelled_honest [OF S st] obtain inp1 where c1: "check_cancelled S inp = (Inr (), inp1)"
    and st1: "src_state R rem inp1" by blast
  show ?thesis
  proof (cases "eof inp1")
    case True
    with st1 have "rem = []" by (simp add: src_state_def)
    with c1 True st1 show ?thesis by (simp add: checked_read_def)
  next
    case False
    have le: "unat (read_bytes inp1) + length rem \<le> 268435456" and R1: "R (src inp1) = rem"
      using st1 by (simp_all add: src_state_def)
    then have nl: "\<not> MAX_CIPHERTEXT_OBJECT_BYTES_V1 < read_bytes inp1" by (simp add: word_less_nat_alt)
    then have "unat (MAX_CIPHERTEXT_OBJECT_BYTES_V1 - read_bytes inp1) = 268435456 - unat (read_bytes inp1)"
      by (simp add: unat_sub not_less)
    then have probe: "unat (MAX_CIPHERTEXT_OBJECT_BYTES_V1 - read_bytes inp1 + 1) = 268435457 - unat (read_bytes inp1)"
      using unat_add64 [of "MAX_CIPHERTEXT_OBJECT_BYTES_V1 - read_bytes inp1" 1] le by simp
    let ?cap = "min (min (length dest) MAX_IO_CHUNK_BYTES_V1)
      (unat (MAX_CIPHERTEXT_OBJECT_BYTES_V1 - read_bytes inp1 + 1))"
    have cap: "0 < ?cap" "?cap \<le> 65536" "?cap \<le> length dest"
      using dest probe le by (auto simp: MAX_IO_CHUNK_BYTES_V1_def)
    then have "take ?cap dest \<noteq> []" "length (take ?cap dest) \<le> 65536" using dest by auto
    with S obtain n b s' where rd: "source_read S (take ?cap dest) (src inp1) = (Inr n, b, s')"
      and b: "length b = length (take ?cap dest)" "n \<le> length (take ?cap dest)" "n \<le> length (R (src inp1))"
        "n = 0 \<longleftrightarrow> R (src inp1) = []" "take n b = take n (R (src inp1))" "R s' = drop n (R (src inp1))"
      by (rule honest_source_read)
    have n: "n \<le> ?cap" using b(2) cap by simp
    have u: "unat (of_nat n :: u64) = n" by (rule unat_small_count [OF le_trans [OF n cap(2)]])
    have sum: "unat (read_bytes inp1 + of_nat n) = unat (read_bytes inp1) + n"
      using u le R1 b(3) unat_add64 [of "read_bytes inp1" "of_nat n"] by simp
    let ?inp2 = "inp1\<lparr>src := s'\<rparr>"
    have "src_state R (drop n rem) ?inp2" using b(6) R1 le False by (simp add: src_state_def)
    from check_cancelled_honest [OF S this] obtain inp3 where c3: "check_cancelled S ?inp2 = (Inr (), inp3)"
      and st3: "src_state R (drop n rem) inp3" "read_bytes inp3 = read_bytes inp1" by auto
    let ?inp4 = "inp3\<lparr>read_bytes := read_bytes inp3 + of_nat n, eof := (n = 0)\<rparr>"
    have lim: "\<not> read_bytes inp3 + of_nat n > MAX_CIPHERTEXT_OBJECT_BYTES_V1"
      using sum st3(2) le b(3) R1 by (simp add: word_less_nat_alt)
    have "checked_read S dest inp = (Inr (n, b @ drop ?cap dest), ?inp4)"
      using c1 False nl rd c3 leD [OF n] lim by (simp add: checked_read_def Let_def)
    moreover have "src_state R (drop n rem) ?inp4"
      using st3 sum le b(3,4) R1 by (auto simp: src_state_def)
    moreover have "length (b @ drop ?cap dest) = length dest" using b(1) cap by simp
    moreover have "take n (b @ drop ?cap dest) = take n rem" using b(1,2,5) R1 by simp
    moreover have "n \<le> length dest" by (rule le_trans [OF n cap(3)])
    moreover have "n \<le> length rem" "n = 0 \<longleftrightarrow> rem = []" using b(3,4) R1 by simp_all
    ultimately show ?thesis by blast
  qed
qed

lemma read_exact_honest:
  assumes S: "honest_source S R"
  shows "src_state R (a @ b) inp \<Longrightarrow> length a = length dest \<Longrightarrow>
    \<exists>inp'. read_exact S dest inp = (Inr a, inp') \<and> src_state R b inp'"
proof (induction "length dest" arbitrary: dest a inp rule: less_induct)
  case less
  show ?case
  proof (cases "dest = []")
    case True
    with less.prems show ?thesis by (simp add: read_exact.simps)
  next
    case False
    from checked_read_honest [OF S less.prems(1) False] obtain n dest' inp1 where
      rd: "checked_read S dest inp = (Inr (n, dest'), inp1)"
      and n: "n \<le> length dest" "n = 0 \<longleftrightarrow> a @ b = []" "length dest' = length dest"
        "take n dest' = take n (a @ b)" "src_state R (drop n (a @ b)) inp1" by blast
    have "a \<noteq> []" using False less.prems(2) by auto
    then have n0: "n \<noteq> 0" using n(2) by simp
    have st: "src_state R (drop n a @ b) inp1" using n(1,5) less.prems(2) by simp
    have "length (drop n dest') < length dest" "length (drop n a) = length (drop n dest')"
      using n(1,3) n0 False less.prems(2) by simp_all
    from less.hyps [OF this(1) st this(2)] obtain inp2 where
      re: "read_exact S (drop n dest') inp1 = (Inr (drop n a), inp2)" and st2: "src_state R b inp2" by blast
    have "take n dest' @ drop n a = a" using n(1,4) less.prems(2) by simp
    then have "read_exact S dest inp = (Inr a, inp2)"
      using False rd n0 re by (simp add: read_exact.simps [of S dest])
    with st2 show ?thesis by blast
  qed
qed

lemma next_length_end:
  assumes "honest_source S R" and "src_state R [] inp"
  shows "\<exists>inp'. next_length S inp = (Inr None, inp') \<and> src_state R [] inp'"
  using checked_read_honest [OF assms, of "replicate 1 0"] by (auto simp: next_length_def)

lemma next_length_frame:
  assumes S: "honest_source S R" and st: "src_state R (frame c @ b) inp" and c: "16 \<le> length c" "length c \<le> 65552"
  shows "\<exists>inp'. next_length S inp = (Inr (Some (length c)), inp') \<and> src_state R (c @ b) inp'"
proof -
  obtain x xs where xs: "to_be_bytes32 (of_nat (length c)) = x # xs" "length xs = 3"
    by (simp add: to_be_bytes32_def)
  from checked_read_honest [OF S st, of "replicate 1 0"] obtain n dest' inp1 where
    rd: "checked_read S (replicate 1 0) inp = (Inr (n, dest'), inp1)"
    and n: "n \<le> 1" "n = 0 \<longleftrightarrow> frame c @ b = []" "length dest' = 1" "take n dest' = take n (frame c @ b)"
      "src_state R (drop n (frame c @ b)) inp1" by auto
  have n1: "n = 1" using n(1,2) xs(1) by (cases n) (auto simp: frame_def)
  then have d: "dest' = [x]" using n(3,4) xs(1) by (simp add: frame_def)
  have "src_state R (xs @ c @ b) inp1" using n(5) n1 xs(1) by (simp add: frame_def)
  from read_exact_honest [OF S this, of "replicate 3 0"] xs(2) obtain inp2 where
    re: "read_exact S (replicate 3 0) inp1 = (Inr xs, inp2)" and st2: "src_state R (c @ b) inp2" by auto
  have "unat (from_be_bytes32 (dest' @ xs)) = length c"
    using from_to_be_bytes32 [of "of_nat (length c)"] xs(1) d c by (simp add: unat_of_nat)
  then have "next_length S inp = (Inr (Some (length c)), inp2)"
    using rd n1 re c by (simp add: next_length_def Let_def envelope_consts)
  with st2 show ?thesis by blast
qed

section \<open>Decrypting the frames of a stream\<close>

lemma reader_closures_good:
  assumes "honest_source S R" and "faithful_sink (sink G) W" and "accepting_sink (sink G)"
  shows "closures_good (reader_emit G) (reader_cancelled S) (\<lambda>x. W (snd x))"
proof -
  have "\<exists>x'. reader_emit G b x = (Inr (), x') \<and> W (snd x') = W (snd x) @ b"
    if small: "length b \<le> MAX_IO_CHUNK_BYTES_V1" for b and x :: "'a checked_source \<times> 'b"
  proof -
    obtain k' where k': "sink_write (sink G) b (snd x) = (Inr (), k')" 
      using sink_write_accepting [OF assms(3), of b "snd x"] small
      unfolding MAX_IO_CHUNK_BYTES_V1_def by auto
    from sink_write_faithful [OF assms(2) k'] k' show ?thesis
      by (cases x) (auto simp: reader_emit_def)
  qed
  moreover have "\<exists>x'. reader_cancelled S x = (Inr (), x') \<and> W (snd x') = W (snd x)" for x :: "'a checked_source \<times> 'b"
  proof -
    obtain s' where "is_cancelled S (src (fst x)) = (False, s')" using honest_source_cancelled [OF assms(1)] .
    then show ?thesis by (cases x) (simp add: reader_cancelled_def check_cancelled_def)
  qed
  ultimately show ?thesis unfolding closures_good_def by blast
qed

lemma reader_closures_source:
  assumes "honest_source S R"
  defines "f \<equiv> \<lambda>x :: 'a checked_source \<times> 'b. (R (src (fst x)), read_bytes (fst x), eof (fst x))"
  shows "f (snd (reader_emit G b x)) = f x" "f (snd (reader_cancelled S x)) = f x"
proof -
  show "f (snd (reader_emit G b x)) = f x" by (auto simp: f_def reader_emit_def split: prod.splits)
  obtain s' where "is_cancelled S (src (fst x)) = (False, s')" "R s' = R (src (fst x))"
    using honest_source_cancelled [OF assms(1)] .
  then show "f (snd (reader_cancelled S x)) = f x"
    by (cases x) (simp add: f_def reader_cancelled_def check_cancelled_def)
qed

lemma push_decrypted_state:
  assumes S: "honest_source S R" and K: "faithful_sink (sink G) W" "accepting_sink (sink G)"
    and Y: "decodes Y C P" and H: "accepted_header full"
    and st: "src_state R rem inp" and ps: "push_state C P W' base full plain fed dec (inp, k)"
    and W': "W' = (\<lambda>x. W (snd x))" and full: "full = fed @ b @ xs"
  shows "\<exists>inp' dec' k'. push_decrypted G Y S b inp dec k = (Inr (), inp', dec', k') \<and> src_state R rem inp' \<and>
    push_state C P W' base full plain (fed @ b) dec' (inp', k')"
proof -
  from check_cancelled_honest [OF S st] obtain inp1 where c1: "check_cancelled S inp = (Inr (), inp1)"
    and st1: "src_state R rem inp1" by blast
  have ps1: "push_state C P W' base full plain fed dec (inp1, k)" using ps unfolding push_state_def W' by (simp only: snd_conv)
  have E: "closures_good (reader_emit G) (reader_cancelled S) W'"
    unfolding W' by (rule reader_closures_good [OF S K])
  from push_state_push [OF Y E H ps1 full] obtain dec' x' where
    p: "push Y (reader_emit G) (reader_cancelled S) dec b (inp1, k) = (Inr (), dec', x')"
    and ps2: "push_state C P W' base full plain (fed @ b) dec' x'" by blast
  from push_preserves [of "\<lambda>x. (R (src (fst x)), read_bytes (fst x), eof (fst x))", OF reader_closures_source [OF S] p]
  have "src_state R rem (fst x')" using st1 by (simp add: src_state_def)
  with c1 p ps2 show ?thesis by (cases x') (simp add: push_decrypted_def)
qed

lemma ciphertext_lengths:
  assumes "stream_sync C sync"
  shows "stream_ciphertexts C ad e data = Some cs \<Longrightarrow> sync e d \<Longrightarrow> \<forall>c \<in> set cs. 16 \<le> length c \<and> length c \<le> 65552"
  using assms
proof (induction C ad e data arbitrary: cs d rule: stream_ciphertexts.induct)
  case (1 C ad e data)
  show ?case
  proof (cases "length data < COMPRESSED_BLOCK_BYTES")
    case True
    with 1(2) obtain c where "encrypt_last C e data ad = Some c" "cs = [c]"
      by (auto simp: stream_ciphertexts.simps [of C ad e data])
    with 1(3,4) True show ?thesis by (fastforce simp: stream_sync_def envelope_consts)
  next
    case False
    with 1(2) obtain c e' cs' where c: "encrypt_next C e (take COMPRESSED_BLOCK_BYTES data) ad = (Some c, e')"
      and cs: "stream_ciphertexts C ad e' (drop COMPRESSED_BLOCK_BYTES data) = Some cs'" "cs = c # cs'"
      by (auto simp: stream_ciphertexts.simps [of C ad e data] split: prod.splits option.splits)
    from 1(3,4) c obtain d' where "length c = length (take COMPRESSED_BLOCK_BYTES data) + 16" "sync e' d'"
      unfolding stream_sync_def by blast
    with 1(1) [OF False c [symmetric] refl cs(1) _ 1(4)] cs(2) show ?thesis by (auto simp: envelope_consts)
  qed
qed

lemma frame_loop_stream:
  assumes S: "honest_source S R" and K: "faithful_sink (sink G) W" "accepting_sink (sink G)"
    and Y: "decodes Y C P" and H: "accepted_header full" and sy: "stream_sync (stream G) sync"
    and W': "W' = (\<lambda>x. W (snd x))"
  shows "stream_ciphertexts (stream G) ad e data = Some (c # cs) \<Longrightarrow> sync e d \<Longrightarrow>
    src_state R (c @ concat (map frame cs)) inp \<Longrightarrow> push_state C P W' base full plain fed dec (inp, k) \<Longrightarrow>
    full = fed @ data \<Longrightarrow> length frm = 65552 \<Longrightarrow>
    \<exists>inp' dec' k'. frame_loop G Y S ad (length c) frm inp d dec k = (Inr (), inp', dec', k') \<and>
      src_state R [] inp' \<and> push_state C P W' base full plain full dec' (inp', k')"
proof (induction "length data" arbitrary: e data c cs d inp fed dec k frm rule: less_induct)
  case less
  note next_law = sy [unfolded stream_sync_def, THEN conjunct2, THEN conjunct1, rule_format]
    and last_law = sy [unfolded stream_sync_def, THEN conjunct2, THEN conjunct2, rule_format]
  note pd = push_decrypted_state [OF S K Y H _ _ W']
  show ?case
  proof (cases "length data < COMPRESSED_BLOCK_BYTES")
    case True
    with less.prems(1) have c: "encrypt_last (stream G) e data ad = Some c" "cs = []"
      by (auto simp: stream_ciphertexts.simps [of _ _ _ data])
    with last_law [OF conjI [OF less.prems(2)]] have dc: "length c = length data + 16"
      "decrypt_last (stream G) d c ad = Some data" by blast+
    have len: "length c \<le> length frm" using dc(1) True less.prems(6) by (simp add: envelope_consts)
    from read_exact_honest [OF S less.prems(3), of "take (length c) frm"] len obtain inp1 where
      re: "read_exact S (take (length c) frm) inp = (Inr c, inp1)" and "src_state R [] inp1" using c(2) by auto
    from next_length_end [OF S this(2)] obtain inp2 where nl: "next_length S inp1 = (Inr None, inp2)"
      and st2: "src_state R [] inp2" by blast
    have "push_state C P W' base full plain fed dec (inp2, k)"
      using less.prems(4) unfolding push_state_def W' by (simp only: snd_conv)
    from pd [OF st2 this, of data "[]"] less.prems(5) obtain inp3 dec3 k3 where
      "push_decrypted G Y S data inp2 dec k = (Inr (), inp3, dec3, k3)" "src_state R [] inp3"
      "push_state C P W' base full plain full dec3 (inp3, k3)" by auto
    with len re nl dc(2) show ?thesis
      by (simp add: frame_loop.simps [of G Y S ad "length c"] frame_step_def)
  next
    case False
    let ?B = "COMPRESSED_BLOCK_BYTES"
    from False less.prems(1) obtain e' where c: "encrypt_next (stream G) e (take ?B data) ad = (Some c, e')"
      and cs: "stream_ciphertexts (stream G) ad e' (drop ?B data) = Some cs"
      by (auto simp: stream_ciphertexts.simps [of _ _ _ data] split: prod.splits option.splits)
    from next_law [OF conjI [OF less.prems(2) c]] obtain d' where dc: "length c = length (take ?B data) + 16"
      "decrypt_next (stream G) d c ad = (Some (take ?B data), d')" "sync e' d'" by blast
    from stream_ciphertexts_nonempty [OF cs] obtain c1 cs1 where cs1: "cs = c1 # cs1" by (cases cs) auto
    have len: "length c = 65552" using dc(1) False by (simp add: envelope_consts)
    have len1: "16 \<le> length c1" "length c1 \<le> 65552"
      using ciphertext_lengths [OF sy cs dc(3)] cs1 by auto
    from read_exact_honest [OF S less.prems(3), of "take (length c) frm"] len less.prems(6) obtain inp1 where
      re: "read_exact S (take (length c) frm) inp = (Inr c, inp1)"
      and st1: "src_state R (frame c1 @ concat (map frame cs1)) inp1" using cs1 by auto
    from next_length_frame [OF S st1 len1] obtain inp2 where nl: "next_length S inp1 = (Inr (Some (length c1)), inp2)"
      and st2: "src_state R (c1 @ concat (map frame cs1)) inp2" by blast
    have "push_state C P W' base full plain fed dec (inp2, k)"
      using less.prems(4) unfolding push_state_def W' by (simp only: snd_conv)
    from pd [OF st2 this, of "take ?B data" "drop ?B data"] less.prems(5) obtain inp3 dec3 k3 where
      push: "push_decrypted G Y S (take ?B data) inp2 dec k = (Inr (), inp3, dec3, k3)"
      and st3: "src_state R (c1 @ concat (map frame cs1)) inp3"
      and ps3: "push_state C P W' base full plain (fed @ take ?B data) dec3 (inp3, k3)" by auto
    have step: "frame_step G Y S ad (length c) frm inp d dec k =
        (Inr (length c1, c @ drop (length c) frm, d'), inp3, dec3, k3)"
      using len less.prems(6) re nl dc(2) push by (simp add: frame_step_def envelope_consts)
    have "length (drop ?B data) < length data" using False by (simp add: envelope_consts)
    from less.hyps [OF this cs [unfolded cs1] dc(3) st3 ps3, of "c @ drop (length c) frm"] less.prems(5,6) len
    show ?thesis using step by (simp add: frame_loop.simps [of G Y S ad 65552])
  qed
qed

text \<open>What a successful seal wrote opens to the sealed bytes.\<close>

lemma sealed_object_opens:
  assumes S: "honest_source S R" and K: "faithful_sink (sink G) W" and Z: "slices_fit (zstd G)"
    and sy: "stream_sync (stream G) sync" and codec: "zstd_codec (zstd G) Y"
    and seal: "seal_object_v1 G ctx S s k = (Inr d, s', k')" and obj: "W k' = W k @ object"
    and G': "stream G' = stream G" "faithful_sink (sink G') V" "accepting_sink (sink G')"
    and T: "honest_source T Q" "Q t = object"
  shows "\<exists>t' q'. open_object_v1 G' Y T ctx t q = (Inr (), t', q') \<and> V q' = V q @ R s"
proof -
  from seal_object_state [OF S K Z seal] obj obtain prefix inputs cmp out where
    p: "length prefix = 19" and key: "length (object_key_bytes (object_key ctx)) = 32"
    and i: "concat inputs = R s" "length (R s) \<le> 1073741824" and cmp: "zstd_session (zstd G) inputs = Some cmp"
    and out: "seal_stream (stream G) (canonical_bytes ctx)
      (encryptor_new (stream G) (object_key_bytes (object_key ctx)) prefix) cmp = Some out"
    and object: "object = serialize_header prefix @ out" and small: "length object \<le> 268435456"
    by auto
  let ?e = "encryptor_new (stream G) (object_key_bytes (object_key ctx)) prefix"
  let ?d = "decryptor_new (stream G) (object_key_bytes (object_key ctx)) prefix"
  have sync: "sync ?e ?d" using sy unfolding stream_sync_def by blast
  from codec cmp obtain y0 y C P where H: "accepted_header cmp"
    and y: "decoder_new Y = Some y0" "set_window_log_max Y y0 23 = Some y"
    and Y: "decodes Y C P" "C y = cmp" "P y = concat inputs" unfolding zstd_codec_def by blast
  from out obtain z where z: "stream_ciphertexts (stream G) (canonical_bytes ctx) ?e cmp = Some z"
    "out = concat (map frame z)" by (auto simp: seal_stream_ciphertexts)
  from stream_ciphertexts_nonempty [OF z(1)] obtain c cs where "z = c # cs" by (cases z) auto
  with z have cts: "stream_ciphertexts (stream G) (canonical_bytes ctx) ?e cmp = Some (c # cs)"
    and out': "out = frame c @ concat (map frame cs)" by simp_all
  have c: "16 \<le> length c" "length c \<le> 65552" using ciphertext_lengths [OF sy cts sync] by auto
  have st: "src_state Q object \<lparr>src = t, read_bytes = 0, eof = False\<rparr>" using T(2) small by (simp add: src_state_def)
  from check_cancelled_honest [OF T(1) st] obtain inp where inp: "checked_source_new T t = (Inr (), inp)"
    and st0: "src_state Q object inp" by (auto simp: checked_source_new_def)
  obtain dec where dec: "bounded_decoder_new Y = Inr dec" "decoder dec = y" "header dec = []" "\<not> header_checked dec"
      "\<not> complete dec" "decoder_inv dec" "decoded dec = 0"
    using y by (simp add: bounded_decoder_new_def ilog2_window decoder_inv_def del: unat_limits)
  from read_exact_honest [OF T(1) st0 [unfolded object], of "replicate 29 0"] p obtain inp1 where
    re: "read_exact T (replicate 29 0) inp = (Inr (serialize_header prefix), inp1)"
    and st1: "src_state Q (frame c @ concat (map frame cs)) inp1" using out' by auto
  from next_length_frame [OF T(1) st1 c] obtain inp2 where nl: "next_length T inp1 = (Inr (Some (length c)), inp2)"
    and st2: "src_state Q (c @ concat (map frame cs)) inp2" by blast
  let ?W = "\<lambda>x :: 'i checked_source \<times> 'h. V (snd x)"
  have hs: "header_spec [] = Inr False" by (simp add: header_spec_def)
  have "cmp \<noteq> []" using H by (auto simp: accepted_header_def hs)
  then have ps: "push_state C P ?W (V q) cmp (R s) [] dec (inp2, q)"
    using dec Y i hs by (simp add: push_state_def decoding_def)
  have frm: "length (replicate 65552 (0 :: byte)) = 65552" and whole: "cmp = [] @ cmp" by simp_all
  have sy': "stream_sync (stream G') sync"
    and cts': "stream_ciphertexts (stream G') (canonical_bytes ctx) ?e cmp = Some (c # cs)"
    using sy cts G'(1) by simp_all
  obtain inp3 dec3 k3 where fl: "frame_loop G' Y T (canonical_bytes ctx) (length c) (replicate 65552 0) inp2 ?d dec q =
      (Inr (), inp3, dec3, k3)" and st3: "src_state Q [] inp3"
    and ps3: "push_state C P ?W (V q) cmp (R s) cmp dec3 (inp3, k3)"
    using frame_loop_stream [OF T(1) G'(2,3) Y(1) H sy' refl cts' sync st2 ps whole frm] by blast
  have ae: "authenticate_envelope G' Y T ctx inp dec q = (Inr (), inp3, dec3, k3)"
    using re p key nl fl G'(1) by (simp add: authenticate_envelope_def envelope_consts)
  from check_cancelled_honest [OF T(1) st3] obtain inp4 where "check_cancelled T inp3 = (Inr (), inp4)" by blast
  with inp dec(1) ae push_state_done [OF H ps3] show ?thesis by (simp add: open_object_v1_def)
qed

section \<open>Properties\<close>

text \<open>C1: Seal and open are inverse: if \<open>seal_object_v1\<close> returned a descriptor for a source with the
  bytes \<open>R s\<close>, then \<open>open_object_v1\<close> with the same context, on any source that delivers the object in
  reads of any sizes and any sink that accepts writes, succeeds and appends exactly \<open>R s\<close> to the sink.
  The hypotheses on third-party code are that the STREAM cipher decrypts what it encrypted in order,
  and that the Zstd decoder decodes the frame an encoder session produced.\<close>

theorem seal_open_roundtrip:
  assumes S: "honest_source S R" and K: "faithful_sink (sink G) W" and Z: "slices_fit (zstd G)"
    and sy: "stream_sync (stream G) sync" and codec: "zstd_codec (zstd G) Y"
    and seal: "seal_object_v1 G ctx S s k = (Inr d, s', k')" and obj: "W k' = W k @ object"
    and G': "stream G' = stream G" "faithful_sink (sink G') V" "accepting_sink (sink G')"
    and T: "honest_source T Q" "Q t = object"
  shows "\<exists>t' q'. open_object_v1 G' Y T ctx t q = (Inr (), t', q') \<and> V q' = V q @ R s"
  by (rule sealed_object_opens [OF assms])

text \<open>A codec for the plaintext \<open>[42]\<close> on which the hypotheses hold.\<close>

definition one_shot_decoder :: "(bytes \<times> bytes) zstd_decoder" where
  "one_shot_decoder = sample_decoder\<lparr>decoder_new := Some (sample_frame [42], [42])\<rparr>"

lemma sample_cipher_sync: "stream_sync sample_cipher (\<lambda>_ _. True)"
  by (auto simp: stream_sync_def sample_cipher_def)

lemma one_shot_codec: "zstd_codec (one_shot_encoder (sample_frame [42])) one_shot_decoder"
proof -
  have "decodes one_shot_decoder fst snd"
    using sample_decoder_decodes by (simp add: decodes_def one_shot_decoder_def)
  moreover have "decoder_new one_shot_decoder = Some (sample_frame [42], [42])"
    "set_window_log_max one_shot_decoder z n = Some z" for z n
    by (simp_all add: one_shot_decoder_def sample_decoder_def)
  ultimately have "\<exists>y0 y C P. decoder_new one_shot_decoder = Some y0 \<and> set_window_log_max one_shot_decoder y0 23 = Some y \<and>
      decodes one_shot_decoder C P \<and> C y = sample_frame [42] \<and> P y = concat [[42]]"
    by (intro exI [of _ "(sample_frame [42], [42])"] exI [of _ fst] exI [of _ snd]) simp
  then show ?thesis unfolding zstd_codec_def one_shot_session using sample_header by blast
qed

theorem seal_open_roundtrip_witness:
  "\<exists>d s' object t'. seal_object_v1 (sample_env (one_shot_encoder (sample_frame [42]))) (sample_context 1)
      (memory_source 2) [42] [] = (Inr d, s', object) \<and>
    open_object_v1 (sample_env (one_shot_encoder (sample_frame [42]))) one_shot_decoder (memory_source 5)
      (sample_context 1) object [] = (Inr (), t', [42])"
proof -
  let ?G = "sample_env (one_shot_encoder (sample_frame [42]))"
  have len: "length (sample_frame [42]) \<le> 1000" by (simp add: sample_frame_def)
  then obtain d s' k' where seal: "seal_object_v1 ?G (sample_context 1) (memory_source 2) [42] [] = (Inr d, s', k')"
    using sample_seal_object by blast
  have G: "faithful_sink (sink ?G) (\<lambda>k. k)" "accepting_sink (sink ?G)" by (simp_all add: memory_sink_laws)
  have Z: "slices_fit (zstd ?G)" using len by (simp add: one_shot_encoder_fits)
  have sy: "stream_sync (stream ?G) (\<lambda>_ _. True)" by (simp add: sample_cipher_sync)
  have codec: "zstd_codec (zstd ?G) one_shot_decoder" by (simp add: one_shot_codec)
  from seal_open_roundtrip [OF memory_source_honest G(1) Z sy codec seal _ refl G memory_source_honest [of 5] refl,
      of k' "[]"]
  show ?thesis using seal by auto
qed

section \<open>Bounds for every source\<close>

lemma reader_closures_ok:
  fixes G :: "('e, 'd, 'z, 'k) object_env" and S :: "'s byte_source"
  assumes "faithful_sink (sink G) W"
  shows "closures_ok (reader_emit G) (reader_cancelled S) (\<lambda>x. W (snd x))"
proof -
  have "r \<noteq> Inl Panic \<and> W (snd x') = (case r of Inl _ \<Rightarrow> W (snd x) | Inr _ \<Rightarrow> W (snd x) @ b)"
    if e: "reader_emit G b x = (r, x')" for b r and x x' :: "'s checked_source \<times> 'k"
  proof -
    obtain inp k where x: "x = (inp, k)" by fastforce
    obtain r' k' where w: "sink_write (sink G) b k = (r', k')" by fastforce
    then have "r' \<noteq> Inl Panic" by (auto simp: sink_write_def map_err_def split: prod.splits sum.splits)
    with sink_write_faithful [OF assms w] e x w show ?thesis by (cases r) (auto simp: reader_emit_def)
  qed
  moreover have "r \<noteq> Inl Panic \<and> W (snd x') = W (snd x)"
    if "reader_cancelled S x = (r, x')" for r and x x' :: "'s checked_source \<times> 'k"
    using that by (auto simp: reader_cancelled_def split: prod.splits dest!: check_cancelled_eq)
  ultimately show ?thesis unfolding closures_ok_def by blast
qed

lemma checked_read_safe:
  assumes "unat (read_bytes inp) \<le> 268435456" and "checked_read S dest inp = (r, inp')"
  shows "r \<noteq> Inl Panic"
proof
  assume r: "r = Inl Panic"
  obtain r1 inp1 where c1: "check_cancelled S inp = (r1, inp1)" by fastforce
  note f1 = check_cancelled_eq [OF c1]
  then have "\<not> MAX_CIPHERTEXT_OBJECT_BYTES_V1 < read_bytes inp1" using assms(1) by (simp add: word_less_nat_alt)
  with assms(2) r c1 f1 show False
    by (auto simp: checked_read_def Let_def source_read_def map_err_def split: prod.splits sum.splits if_splits
        dest!: check_cancelled_eq)
qed

lemma read_exact_safe:
  "unat (read_bytes inp) \<le> 268435456 \<Longrightarrow> read_exact S dest inp = (r, inp') \<Longrightarrow> r \<noteq> Inl Panic"
proof (induction S dest inp arbitrary: r rule: read_exact.induct)
  case (1 S dest inp)
  obtain r1 inp1 where rd: "checked_read S dest inp = (r1, inp1)" by fastforce
  note safe = checked_read_safe [OF 1(2) rd]
  show ?case
  proof (cases "dest = []")
    case True
    with 1(3) show ?thesis by (auto simp: read_exact.simps)
  next
    case False
    show ?thesis
    proof (cases r1)
      case (Inl e)
      with False rd safe 1(3) show ?thesis by (auto simp: read_exact.simps [of S dest])
    next
      case (Inr p)
      obtain n dest' where p: "p = (n, dest')" by fastforce
      have "unat (read_bytes inp1) \<le> 268435456" using checked_read_progress [of S dest inp n dest' inp1] rd Inr p 1(2) by simp
      with 1(1) [OF False rd [symmetric] Inr p [symmetric]] False rd Inr p 1(3) show ?thesis
        by (auto simp: read_exact.simps [of S dest] split: if_splits prod.splits sum.splits)
    qed
  qed
qed

lemma next_length_safe:
  assumes "unat (read_bytes inp) \<le> 268435456" and "next_length S inp = (r, inp')"
  shows "r \<noteq> Inl Panic"
proof -
  obtain r1 inp1 where rd: "checked_read S (replicate 1 0) inp = (r1, inp1)" by fastforce
  note safe = checked_read_safe [OF assms(1) rd]
  show ?thesis
  proof (cases r1)
    case (Inl e)
    with rd safe assms(2) show ?thesis by (auto simp: next_length_def)
  next
    case (Inr p)
    obtain n dest' where p: "p = (n, dest')" by fastforce
    have "unat (read_bytes inp1) \<le> 268435456"
      using checked_read_progress [of S "replicate 1 0" inp n dest' inp1] rd Inr p assms(1) by simp
    from read_exact_safe [OF this] rd Inr p assms(2) show ?thesis
      by (auto simp: next_length_def Let_def split: if_splits prod.splits sum.splits)
  qed
qed

lemma push_decrypted_summary:
  assumes "decoder_bounded Y" and "faithful_sink (sink G) W" and "decoder_inv dec"
    and "push_decrypted G Y S b inp dec k = (r, inp', dec', k')"
  shows "decode_summary W dec k r dec' k'"
proof -
  obtain r1 inp1 where c1: "check_cancelled S inp = (r1, inp1)" by fastforce
  note f1 = check_cancelled_eq [OF c1]
  show ?thesis
  proof (cases r1)
    case (Inl e)
    with c1 f1 assms(3,4) show ?thesis by (auto simp: push_decrypted_def intro!: decode_summary_refl)
  next
    case (Inr u)
    with c1 assms(4) have "push Y (reader_emit G) (reader_cancelled S) dec b (inp1, k) = (r, dec', inp', k')"
      by (auto simp: push_decrypted_def split: prod.splits)
    from push_summary [OF assms(1) reader_closures_ok [OF assms(2)] assms(3) this]
    show ?thesis by (simp add: decode_summary_def)
  qed
qed

text \<open>The outcome of a frame step as a result: \<open>Inr\<close> unless the step failed.\<close>

definition step_result :: "(unit backup_result + 'a) \<Rightarrow> unit backup_result" where
  "step_result r = (case r of Inl q \<Rightarrow> q | Inr _ \<Rightarrow> Inr ())"

lemma frame_step_summary:
  assumes Y: "decoder_bounded Y" and K: "faithful_sink (sink G) W" and dec: "decoder_inv dec"
    and small: "unat (read_bytes inp) \<le> 268435456" and len: "len \<le> length frm"
    and step: "frame_step G Y S ad len frm inp d dec k = (r, inp', dec', k')"
  shows "decode_summary W dec k (step_result r) dec' k'"
proof -
  obtain r1 inp1 where re: "read_exact S (take len frm) inp = (r1, inp1)" by fastforce
  note s1 = read_exact_safe [OF small re]
  note refl = decode_summary_refl [OF dec, of r W k for r :: "unit backup_result"] and push = push_decrypted_summary [OF Y K dec]
  show ?thesis
  proof (cases r1)
    case (Inl e)
    with re s1 step len refl show ?thesis by (auto simp: frame_step_def step_result_def)
  next
    case (Inr msg)
    obtain r2 inp2 where nl: "next_length S inp1 = (r2, inp2)" by fastforce
    have "unat (read_bytes inp1) \<le> 268435456" using read_exact_progress [of S "take len frm" inp msg inp1] re Inr small by simp
    note s2 = next_length_safe [OF this nl]
    have nlen: "\<not> length frm < len" using len by simp
    show ?thesis
    proof (cases r2)
      case (Inl e)
      with re Inr nl s2 step nlen refl show ?thesis by (auto simp: frame_step_def step_result_def)
    next
      case r2: (Inr o_len)
      show ?thesis
      proof (cases o_len)
        case None
        with re Inr nl r2 step nlen refl push show ?thesis
          by (auto simp: frame_step_def step_result_def split: option.splits prod.splits)
      next
        case (Some len')
        with re Inr nl r2 step nlen refl push show ?thesis
          by (auto simp: frame_step_def step_result_def split: option.splits prod.splits if_splits sum.splits)
      qed
    qed
  qed
qed

lemma frame_loop_summary:
  assumes "decoder_bounded Y" and "faithful_sink (sink G) W"
  shows "decoder_inv dec \<Longrightarrow> unat (read_bytes inp) \<le> 268435456 \<Longrightarrow> len \<le> length frm \<Longrightarrow> length frm = 65552 \<Longrightarrow>
    frame_loop G Y S ad len frm inp d dec k = (r, inp', dec', k') \<Longrightarrow> decode_summary W dec k r dec' k'"
  using assms
proof (induction G Y S ad len frm inp d dec k rule: frame_loop.induct)
  case (1 G Y S ad len frm inp d dec k)
  obtain q inp1 dec1 k1 where step: "frame_step G Y S ad len frm inp d dec k = (q, inp1, dec1, k1)" by (metis prod_cases4)
  note s = frame_step_summary [OF 1(7,8,2,3,4) step]
  show ?case
  proof (cases q)
    case (Inl q')
    with 1(6) step s show ?thesis by (auto simp: frame_loop.simps step_result_def)
  next
    case (Inr p)
    obtain len' frm' d' where p: "p = (len', frm', d')" by (metis prod_cases3)
    from frame_step_progress [OF step [unfolded Inr p]]
    have pr: "unat (read_bytes inp1) \<le> 268435456" "length frm' = length frm" "len' \<le> 65552" by auto
    have dec1: "decoder_inv dec1" using s by (simp add: decode_summary_def)
    from Inr p step 1(6) have rest: "frame_loop G Y S ad len' frm' inp1 d' dec1 k1 = (r, inp', dec', k')"
      by (simp add: frame_loop.simps [of G Y S ad len frm])
    have "decode_summary W dec1 k1 r dec' k'"
      using 1(1) [OF step [symmetric] _ _ _ _ _ dec1 pr(1) _ _ rest 1(7,8)] Inr p pr 1(5) by auto
    with s Inr show ?thesis by (auto simp: step_result_def intro: decode_summary_trans)
  qed
qed

lemma authenticate_envelope_summary:
  assumes Y: "decoder_bounded Y" and K: "faithful_sink (sink G) W" and dec: "decoder_inv dec"
    and small: "unat (read_bytes inp) \<le> 268435456"
    and ae: "authenticate_envelope G Y S ctx inp dec k = (r, inp', dec', k')"
  shows "decode_summary W dec k r dec' k'"
proof -
  note refl = decode_summary_refl [OF dec, of r W k for r :: "unit backup_result"]
  have ph: "parse_header h \<noteq> Inl Panic" for h by (simp add: parse_header_def)
  obtain r1 inp1 where re: "read_exact S (replicate ENVELOPE_HEADER_BYTES 0) inp = (r1, inp1)" by fastforce
  note s1 = read_exact_safe [OF small re]
  show ?thesis
  proof (cases r1)
    case (Inl e)
    with re s1 ae refl show ?thesis by (auto simp: authenticate_envelope_def)
  next
    case (Inr hdr)
    obtain r2 inp2 where nl: "next_length S inp1 = (r2, inp2)" by fastforce
    have small1: "unat (read_bytes inp1) \<le> 268435456"
      using read_exact_progress [of S "replicate ENVELOPE_HEADER_BYTES 0" inp hdr inp1] re Inr small by simp
    note s2 = next_length_safe [OF small1 nl]
    have loop: "decode_summary W dec k r dec' k'"
      if "r2 = Inr (Some len)" "frame_loop G Y S ad len (replicate (COMPRESSED_BLOCK_BYTES + AEAD_TAG_BYTES) 0) inp2 d dec k =
        (r, inp', dec', k')" for len ad d
      using that frame_loop_summary [OF Y K dec, of inp2 len "replicate 65552 0" S ad d k r inp' dec' k'] next_length_progress [of S inp1 "Some len" inp2] nl small1
      by (simp add: envelope_consts)
    show ?thesis
      using re Inr nl s2 ae refl ph [of hdr] loop
      by (auto simp: authenticate_envelope_def Let_def split: sum.splits if_splits option.splits)
  qed
qed

text \<open>What \<open>open_object_v1\<close> does on any source.\<close>

lemma opened_object_bounded:
  assumes Y: "decoder_bounded Y" and K: "faithful_sink (sink G) W"
    and op: "open_object_v1 G Y S ctx s k = (r, s', k')"
  shows "r \<noteq> Inl Panic \<and> (\<exists>c. W k' = W k @ c \<and> length c \<le> unat MAX_PLAINTEXT_OBJECT_BYTES_V1)"
proof -
  obtain r0 inp where c0: "checked_source_new S s = (r0, inp)" by fastforce
  then have cs: "r0 \<noteq> Inl Panic" "unat (read_bytes inp) \<le> 268435456"
    by (auto simp: checked_source_new_def dest!: check_cancelled_eq)
  have new: "decoder_inv d \<and> decoded d = 0" if "bounded_decoder_new Y = Inr d" for d
    using that by (auto simp: bounded_decoder_new_def decoder_inv_def rbind_Inr_iff simp del: unat_limits)
  have newp: "bounded_decoder_new Y \<noteq> Inl Panic"
    by (auto simp: bounded_decoder_new_def rbind_def ok_or_def split: option.splits sum.splits)
  show ?thesis
  proof (cases "\<exists>u d. r0 = Inr u \<and> bounded_decoder_new Y = Inr d")
    case False
    with op c0 cs newp show ?thesis by (auto simp: open_object_v1_def split: sum.splits)
  next
    case True
    then obtain d where d: "r0 = Inr ()" "bounded_decoder_new Y = Inr d" by auto
    obtain r1 inp1 d1 k1 where ae: "authenticate_envelope G Y S ctx inp d k = (r1, inp1, d1, k1)" by (metis prod_cases4)
    from authenticate_envelope_summary [OF Y K _ cs(2) ae] new [OF d(2)]
    have sm: "decoder_inv d1" "r1 \<noteq> Inl Panic"
      "\<exists>c. W k1 = W k @ c \<and> length c \<le> unat (decoded d1)" by (auto simp: decode_summary_def)
    then have "\<exists>c. W k1 = W k @ c \<and> length c \<le> 1073741824"
      by (auto simp: decoder_inv_def intro: le_trans)
    moreover have "k' = k1 \<and> r \<noteq> Inl Panic"
      using op c0 d ae sm(2)
      by (auto simp: open_object_v1_def decoder_finish_def split: sum.splits prod.splits if_splits dest!: check_cancelled_eq)
    ultimately show ?thesis by simp
  qed
qed

text \<open>C12: Opening an object is bounded, whatever the source sends, whatever the cipher returns and whatever
  the decoder makes of it. If the decoder's reported sizes stay within its buffers and the sink only
  appends what it accepts, then \<open>open_object_v1\<close> (which always returns: it is a total function) does not
  panic; it takes from the source at most the ciphertext limit, 256 MiB, and the one byte that probes
  for more; and what reaches the sink, also when the object is rejected half way, is at most 1 GiB.\<close>

theorem open_object_bounded:
  assumes Y: "decoder_bounded Y" and K: "faithful_sink (sink G) W" and S: "counts_reads taken S"
    and op: "open_object_v1 G Y S ctx s k = (r, s', k')"
  shows "r \<noteq> Inl Panic \<and> taken s' \<le> taken s + unat MAX_CIPHERTEXT_OBJECT_BYTES_V1 + 1 \<and>
    (\<exists>c. W k' = W k @ c \<and> length c \<le> unat MAX_PLAINTEXT_OBJECT_BYTES_V1)"
  using opened_object_bounded [OF Y K op] open_object_reads [OF S op] by blast

text \<open>A source that never ends, and counts what it hands out.\<close>

definition endless_source :: "nat byte_source" where
  "endless_source = \<lparr>read_chunk = (\<lambda>dest n. (Inr (length dest), dest, n + length dest)), is_cancelled = (\<lambda>n. (False, n))\<rparr>"

theorem open_object_bounded_witness:
  "\<exists>r n k'. open_object_v1 (sample_env (one_shot_encoder [])) sample_decoder endless_source (sample_context 1) 0 [] = (r, n, k') \<and>
     r \<noteq> Inl Panic \<and> n \<le> 268435457 \<and> length k' \<le> 1073741824"
proof -
  let ?G = "sample_env (one_shot_encoder [])"
  obtain r n k' where op: "open_object_v1 ?G sample_decoder endless_source (sample_context 1) 0 [] = (r, n, k')"
    by (metis prod_cases3)
  have K: "faithful_sink (sink ?G) (\<lambda>k. k)" by (simp add: memory_sink_laws)
  have S: "counts_reads (\<lambda>n. n) endless_source" by (simp add: counts_reads_def endless_source_def)
  from open_object_bounded [OF sample_decoder_bounded K S op] op show ?thesis by auto
qed

end
