(* ===== verification/Sqlite_Model.thy ===== *)
theory Sqlite_Model
  imports Prelude "HOL-Library.Multiset"
begin

text \<open>
  The storage the provider works on: the database of \<open>kchat-storage-provider/migrations\<close> as lists of
  rows in rowid order, the error values of \<open>rusqlite\<close>, the connection pool and transactions of
  \<open>storage_provider.rs\<close>, and the statement forms the tables are accessed with. Every call of the
  engine may fail: the state carries a schedule of faults, and each call consumes one entry. A
  statement that fails changes nothing; a transaction that fails is rolled back. Serialisation is
  the \<open>Codec\<close> trait, implemented by the caller.
\<close>

section \<open>Errors and codecs\<close>

text \<open>
  \<open>rusqlite::Error\<close>: the extended result code and the message of an engine failure, the text of an
  error boxed in a conversion failure, and the other variants.
\<close>

datatype sql_error =
    SqliteFailure int "string option"
  | ToSqlConversionFailure string
  | FromSqlConversionFailure string
  | InvalidColumnType
  | OtherSqlError string

record 'v codec =
  to_vec :: "'v \<Rightarrow> string + bytes"
  from_slice :: "bytes \<Rightarrow> string + 'v"

text \<open>\<open>KeyRefWrapper\<close>, \<open>EntityRefWrapper\<close> and \<open>EntitySliceWrapper\<close> to a column, \<open>KeyWrapper\<close>,
  \<open>EntityWrapper\<close> and \<open>EntityVecWrapper\<close> from one.\<close>

definition to_sql :: "'v codec \<Rightarrow> 'v \<Rightarrow> sql_error + bytes" where
  "to_sql C v = map_err ToSqlConversionFailure (to_vec C v)"

definition column_result :: "'v codec \<Rightarrow> bytes \<Rightarrow> sql_error + 'v" where
  "column_result C b = map_err FromSqlConversionFailure (from_slice C b)"

text \<open>Decoding gives back what was encoded.\<close>

definition codec_roundtrip :: "'v codec \<Rightarrow> bool" where
  "codec_roundtrip C \<longleftrightarrow> (\<forall>v b. to_vec C v = Inr b \<longrightarrow> from_slice C b = Inr v)"

definition STORAGE_PROVIDER_VERSION :: nat where
  "STORAGE_PROVIDER_VERSION = 1"

section \<open>Tables\<close>

text \<open>A row: the columns of its primary key, \<open>provider_version\<close>, and the payload.\<close>

type_synonym ('k, 'v) row = "'k \<times> nat \<times> 'v"

record decrypted_application_message =
  ciphertext_digest :: bytes
  plaintext :: bytes
  created_at :: int
  expires_at :: int

text \<open>A row of a migration history: version, name, time of application, checksum.\<close>

type_synonym history_row = "int \<times> string option \<times> string option \<times> string option"

record tables =
  encryption_keys :: "(bytes, bytes) row list"
  epoch_keys_pairs :: "(bytes \<times> bytes \<times> u32, bytes) row list"
  group_data :: "(bytes \<times> string, bytes) row list"
  key_packages :: "(bytes, bytes) row list"
  own_leaf_nodes :: "(bytes, bytes) row list"
  proposals :: "(bytes \<times> bytes, bytes) row list"
  psks :: "(bytes, bytes) row list"
  signature_keys :: "(bytes, bytes) row list"
  epoch_message_secrets :: "(bytes \<times> int, bytes) row list"
  epoch_migration_state :: "(unit, int) row list"
  decrypted_messages :: "(bytes \<times> string, decrypted_application_message) row list"
  legacy_history :: "history_row list option"
  kchat_history :: "history_row list option"

text \<open>A database of any schema, and the database of the MLS state.\<close>

record 't sql_db =
  tables :: 't
  faults :: "sql_error option list"

type_synonym db = "tables sql_db"

type_synonym ('t, 'a) sql_call = "('t sql_db, sql_error, 'a) action"

type_synonym 'a sql_action = "(tables, 'a) sql_call"

section \<open>Engine calls\<close>

definition engine :: "('t, unit) sql_call" where
  "engine d =
     (case faults d of
        [] \<Rightarrow> (Inr (), d)
      | f # fs \<Rightarrow> (case f of None \<Rightarrow> Inr () | Some e \<Rightarrow> Inl e, d\<lparr>faults := fs\<rparr>))"

text \<open>\<open>.map_err(f)\<close> on the result of a call.\<close>

definition smap_err :: "('e \<Rightarrow> 'f) \<Rightarrow> ('s, 'e, 'a) action \<Rightarrow> ('s, 'f, 'a) action" where
  "smap_err f m s = (case m s of (r, s') \<Rightarrow> (map_err f r, s'))"

text \<open>\<open>checkout\<close>: an error of the pool is boxed in a \<open>ToSqlConversionFailure\<close>, whatever its text.\<close>

definition fault_text :: "sql_error \<Rightarrow> string" where
  "fault_text e =
     (case e of
        SqliteFailure _ (Some s) \<Rightarrow> s
      | ToSqlConversionFailure s \<Rightarrow> s
      | FromSqlConversionFailure s \<Rightarrow> s
      | OtherSqlError s \<Rightarrow> s
      | _ \<Rightarrow> [])"

definition checkout :: "('t, unit) sql_call" where
  "checkout = smap_err (\<lambda>e. ToSqlConversionFailure (fault_text e)) engine"

text \<open>A transaction that is dropped without a commit is rolled back.\<close>

definition rollback_on_error :: "('t sql_db, 'e, 'a) action \<Rightarrow> ('t sql_db, 'e, 'a) action" where
  "rollback_on_error f d =
     (case f d of
        (Inr result, d') \<Rightarrow> (Inr result, d')
      | (Inl e, d') \<Rightarrow> (Inl e, d'\<lparr>tables := tables d\<rparr>))"

text \<open>
  \<open>SqliteConnectionPool::transaction\<close>: begin, set the busy timeout, run the closure, commit.
\<close>

definition transaction :: "('t, 'a) sql_call \<Rightarrow> ('t, 'a) sql_call" where
  "transaction f =
     sbind checkout (\<lambda>_.
     sbind engine (\<lambda>_.
     rollback_on_error (sbind engine (\<lambda>_. sbind f (\<lambda>result. sbind engine (\<lambda>_. sret result))))))"

text \<open>A statement on a connection: prepare, bind the parameters, step.\<close>

definition statement :: "(sql_error + 'p) \<Rightarrow> ('p \<Rightarrow> 't \<Rightarrow> 't) \<Rightarrow> ('t, unit) sql_call" where
  "statement params effect =
     sbind engine (\<lambda>_.
     sbind (slift params) (\<lambda>p.
     sbind engine (\<lambda>_.
     smodify (\<lambda>d. d\<lparr>tables := effect p (tables d)\<rparr>))))"

definition query :: "(sql_error + 'p) \<Rightarrow> ('p \<Rightarrow> 't \<Rightarrow> 'r) \<Rightarrow> ('t, 'r) sql_call" where
  "query params select =
     sbind engine (\<lambda>_.
     sbind (slift params) (\<lambda>p.
     sbind engine (\<lambda>_ d. (Inr (select p (tables d)), d))))"

text \<open>Mapping rows as \<open>collect::<Result<Vec<_>, _>>\<close> does: the first failing row is the error.\<close>

fun collect_rows :: "('r \<Rightarrow> sql_error + 'a) \<Rightarrow> 'r list \<Rightarrow> sql_error + 'a list" where
  "collect_rows f [] = Inr []"
| "collect_rows f (r # rs) = rbind (f r) (\<lambda>a. rbind (collect_rows f rs) (\<lambda>as. Inr (a # as)))"

text \<open>\<open>query_row(..).optional()\<close>: no row is \<open>None\<close>, an undecodable first row is an error.\<close>

definition optional_row :: "('r \<Rightarrow> sql_error + 'a) \<Rightarrow> 'r list \<Rightarrow> sql_error + 'a option" where
  "optional_row f rs = (case rs of [] \<Rightarrow> Inr None | r # _ \<Rightarrow> rbind (f r) (\<lambda>a. Inr (Some a)))"

section \<open>Statement forms\<close>

definition row_key :: "('k, 'v) row \<Rightarrow> 'k" where
  "row_key r = fst r"

definition row_version :: "('k, 'v) row \<Rightarrow> nat" where
  "row_version r = fst (snd r)"

definition row_value :: "('k, 'v) row \<Rightarrow> 'v" where
  "row_value r = snd (snd r)"

text \<open>\<open>WHERE key = .. AND provider_version = ..\<close>\<close>

definition matches :: "('k \<Rightarrow> bool) \<Rightarrow> ('k, 'v) row \<Rightarrow> bool" where
  "matches P r \<longleftrightarrow> P (row_key r) \<and> row_version r = STORAGE_PROVIDER_VERSION"

definition select_rows :: "('k \<Rightarrow> bool) \<Rightarrow> ('k, 'v) row list \<Rightarrow> ('k, 'v) row list" where
  "select_rows P t = filter (matches P) t"

definition delete_rows :: "('k \<Rightarrow> bool) \<Rightarrow> ('k, 'v) row list \<Rightarrow> ('k, 'v) row list" where
  "delete_rows P t = filter (\<lambda>r. \<not> matches P r) t"

text \<open>
  \<open>INSERT OR REPLACE\<close>: a row with the same primary key is deleted, whatever its version, and the new
  row gets the largest rowid.
\<close>

definition insert_or_replace :: "'k \<Rightarrow> 'v \<Rightarrow> ('k, 'v) row list \<Rightarrow> ('k, 'v) row list" where
  "insert_or_replace k v t = filter (\<lambda>r. row_key r \<noteq> k) t @ [(k, STORAGE_PROVIDER_VERSION, v)]"

definition insert_or_ignore :: "'k \<Rightarrow> 'v \<Rightarrow> ('k, 'v) row list \<Rightarrow> ('k, 'v) row list" where
  "insert_or_ignore k v t =
     (if \<exists>r \<in> set t. row_key r = k then t else t @ [(k, STORAGE_PROVIDER_VERSION, v)])"

text \<open>
  \<open>INSERT .. ON CONFLICT(provider_version, key) DO UPDATE\<close>: the row with this key and version keeps
  its rowid.
\<close>

definition upsert :: "'k \<Rightarrow> 'v \<Rightarrow> ('k, 'v) row list \<Rightarrow> ('k, 'v) row list" where
  "upsert k v t =
     (if \<exists>r \<in> set t. matches (\<lambda>k'. k' = k) r
      then map (\<lambda>r. if matches (\<lambda>k'. k' = k) r then (k, STORAGE_PROVIDER_VERSION, v) else r) t
      else t @ [(k, STORAGE_PROVIDER_VERSION, v)])"

text \<open>What a keyed lookup finds: the payload of the first matching row.\<close>

definition lookup :: "'k \<Rightarrow> ('k, 'v) row list \<Rightarrow> 'v option" where
  "lookup k t = (case select_rows (\<lambda>k'. k' = k) t of [] \<Rightarrow> None | r # _ \<Rightarrow> Some (row_value r))"

text \<open>The primary keys.\<close>

definition key_unique :: "('k, 'v) row list \<Rightarrow> bool" where
  "key_unique t \<longleftrightarrow> distinct (map row_key t)"

definition versioned_key_unique :: "('k, 'v) row list \<Rightarrow> bool" where
  "versioned_key_unique t \<longleftrightarrow> distinct (map (\<lambda>r. (row_key r, row_version r)) t)"

text \<open>A database to run examples on, and a codec that stores byte strings as they are.\<close>

definition empty_tables :: tables where
  "empty_tables =
     \<lparr>encryption_keys = [], epoch_keys_pairs = [], group_data = [], key_packages = [], own_leaf_nodes = [],
      proposals = [], psks = [], signature_keys = [], epoch_message_secrets = [], epoch_migration_state = [],
      decrypted_messages = [], legacy_history = None, kchat_history = None\<rparr>"

definition empty_db :: db where
  "empty_db = \<lparr>tables = empty_tables, faults = []\<rparr>"

definition bytes_codec :: "bytes codec" where
  "bytes_codec = \<lparr>to_vec = Inr, from_slice = Inr\<rparr>"

section \<open>The contract of a keyed table\<close>

text \<open>
  What the provider's tables promise their users: a stored value is found under its key and nothing
  else changes, a deletion removes the rows it selects and nothing else, and the primary key stays
  unique.
\<close>

locale keyed_table =
  fixes store :: "'k \<Rightarrow> 'v \<Rightarrow> ('k, 'v) row list \<Rightarrow> ('k, 'v) row list"
    and unique :: "('k, 'v) row list \<Rightarrow> bool"
  assumes lookup_store: "unique t \<Longrightarrow> lookup j (store k v t) = (if j = k then Some v else lookup j t)"
    and unique_store: "unique t \<Longrightarrow> unique (store k v t)"
    and unique_delete: "unique t \<Longrightarrow> unique (delete_rows P t)"
begin

lemma lookup_store_same: "unique t \<Longrightarrow> lookup k (store k v t) = Some v"
  by (simp add: lookup_store)

lemma lookup_store_twice:
  "unique t \<Longrightarrow> lookup j (store k w (store k v t)) = lookup j (store k w t)"
  by (simp add: lookup_store unique_store)

lemma lookup_store_commute:
  "unique t \<Longrightarrow> k \<noteq> l \<Longrightarrow> lookup j (store k v (store l w t)) = lookup j (store l w (store k v t))"
  by (simp add: lookup_store unique_store)

text \<open>A batch of stores leaves the last value of every key and everything else as it was.\<close>

lemma lookup_store_all:
  "unique t \<Longrightarrow> lookup j (fold (\<lambda>(k, v). store k v) kvs t) =
     (case map_of (rev kvs) j of None \<Rightarrow> lookup j t | Some v \<Rightarrow> Some v) \<and>
     unique (fold (\<lambda>(k, v). store k v) kvs t)"
proof (induction kvs arbitrary: t)
  case Nil
  then show ?case by simp
next
  case (Cons kv kvs)
  obtain k v where kv: "kv = (k, v)" by fastforce
  have "unique (store k v t)" using Cons.prems by (rule unique_store)
  from Cons.IH [OF this] Cons.prems kv show ?case
    by (auto simp: lookup_store map_add_def map_of_append split: option.splits)
qed

end

lemma lookup_delete: "lookup j (delete_rows P t) = (if P j then None else lookup j t)"
  by (induction t) (auto simp: lookup_def select_rows_def delete_rows_def matches_def)

lemma lookup_append:
  "lookup j (t @ [(k, STORAGE_PROVIDER_VERSION, v)]) =
     (case lookup j t of None \<Rightarrow> if j = k then Some v else None | Some w \<Rightarrow> Some w)"
  by (auto simp: lookup_def select_rows_def matches_def row_key_def row_version_def row_value_def
      split: list.splits)

lemma lookup_filter_key: "lookup j (filter (\<lambda>r. row_key r \<noteq> k) t) = (if j = k then None else lookup j t)"
  by (induction t) (auto simp: lookup_def select_rows_def matches_def)

interpretation replace_table: keyed_table insert_or_replace key_unique
proof
  fix t :: "('a, 'b) row list" and j k v P
  show "lookup j (insert_or_replace k v t) = (if j = k then Some v else lookup j t)"
    by (auto simp: insert_or_replace_def lookup_append lookup_filter_key split: option.splits)
  show "key_unique t \<Longrightarrow> key_unique (insert_or_replace k v t)"
    by (auto simp: key_unique_def insert_or_replace_def distinct_map_filter row_key_def)
  show "key_unique t \<Longrightarrow> key_unique (delete_rows P t)"
    by (simp add: key_unique_def delete_rows_def distinct_map_filter)
qed

lemma lookup_None_iff: "lookup k t = None \<longleftrightarrow> (\<forall>r \<in> set t. \<not> matches (\<lambda>k'. k' = k) r)"
proof -
  have "lookup k t = None \<longleftrightarrow> select_rows (\<lambda>k'. k' = k) t = []"
    by (cases "select_rows (\<lambda>k'. k' = k) t") (simp_all add: lookup_def)
  then show ?thesis by (simp add: select_rows_def filter_empty_conv)
qed

lemma lookup_update:
  "lookup j (map (\<lambda>r. if matches (\<lambda>k'. k' = k) r then (k, STORAGE_PROVIDER_VERSION, v) else r) t) =
     (if j = k \<and> lookup k t \<noteq> None then Some v else lookup j t)"
  by (induction t) (auto simp: lookup_def select_rows_def matches_def row_key_def row_version_def row_value_def
      split: if_splits list.splits)

lemma lookup_upsert: "lookup j (upsert k v t) = (if j = k then Some v else lookup j t)"
  using lookup_None_iff [of k t]
  by (auto simp: upsert_def lookup_update lookup_append split: option.splits)

lemma map_key_update:
  "map (\<lambda>r. (row_key r, row_version r))
      (map (\<lambda>r. if matches (\<lambda>k'. k' = k) r then (k, STORAGE_PROVIDER_VERSION, v) else r) t) =
     map (\<lambda>r. (row_key r, row_version r)) t"
  by (induction t) (auto simp: matches_def row_key_def row_version_def)

lemma versioned_key_unique_upsert:
  assumes "versioned_key_unique t"
  shows "versioned_key_unique (upsert k v t)"
proof (cases "\<exists>r \<in> set t. matches (\<lambda>k'. k' = k) r")
  case True
  then show ?thesis using assms by (simp only: versioned_key_unique_def upsert_def map_key_update if_True)
next
  case False
  have "(k, STORAGE_PROVIDER_VERSION) \<notin> set (map (\<lambda>r. (row_key r, row_version r)) t)"
    using False by (auto simp: matches_def)
  moreover have "upsert k v t = t @ [(k, STORAGE_PROVIDER_VERSION, v)]" using False by (simp only: upsert_def if_False)
  ultimately show ?thesis
    using assms by (simp add: versioned_key_unique_def row_key_def row_version_def)
qed

interpretation upsert_table: keyed_table upsert versioned_key_unique
proof
  fix t :: "('a, 'b) row list" and j k v P
  show "lookup j (upsert k v t) = (if j = k then Some v else lookup j t)" by (rule lookup_upsert)
  show "versioned_key_unique t \<Longrightarrow> versioned_key_unique (upsert k v t)" by (rule versioned_key_unique_upsert)
  show "versioned_key_unique t \<Longrightarrow> versioned_key_unique (delete_rows P t)"
    by (simp add: versioned_key_unique_def delete_rows_def distinct_map_filter)
qed

section \<open>Row access shared by the tables\<close>

text \<open>The pool variant of an operation checks a connection out first.\<close>

definition pooled :: "('t, 'a) sql_call \<Rightarrow> ('t, 'a) sql_call" where
  "pooled f = sbind checkout (\<lambda>_. f)"

definition store_row ::
    "((('k, bytes) row list \<Rightarrow> ('k, bytes) row list) \<Rightarrow> tables \<Rightarrow> tables) \<Rightarrow> (sql_error + 'k \<times> bytes) \<Rightarrow> unit sql_action" where
  "store_row upd params = statement params (\<lambda>(k, b). upd (insert_or_replace k b))"

definition delete_row ::
    "((('k, bytes) row list \<Rightarrow> ('k, bytes) row list) \<Rightarrow> tables \<Rightarrow> tables) \<Rightarrow> (sql_error + 'k) \<Rightarrow> unit sql_action" where
  "delete_row upd params = statement params (\<lambda>k. upd (delete_rows (\<lambda>k'. k' = k)))"

definition load_row ::
    "(tables \<Rightarrow> ('k, bytes) row list) \<Rightarrow> (sql_error + 'k) \<Rightarrow> (bytes \<Rightarrow> sql_error + 'a) \<Rightarrow> 'a option sql_action" where
  "load_row get params from_row =
     sbind (query params (\<lambda>k t. map row_value (select_rows (\<lambda>k'. k' = k) (get t)))) (\<lambda>rows.
     slift (optional_row from_row rows))"

text \<open>Binding a key, and a key with an entity.\<close>

definition key_entity :: "(sql_error + 'k) \<Rightarrow> (sql_error + bytes) \<Rightarrow> sql_error + 'k \<times> bytes" where
  "key_entity k b = rbind k (\<lambda>k. rbind b (\<lambda>b. Inr (k, b)))"

section \<open>Lemmas on engine calls\<close>

lemma engine_tables [simp]: "tables (snd (engine d)) = tables d"
  by (auto simp: engine_def split: list.splits)

lemma engine_result: "engine d = (r, d') \<Longrightarrow> tables d' = tables d"
  using engine_tables [of d] by simp

lemma checkout_result: "checkout d = (r, d') \<Longrightarrow> tables d' = tables d"
  by (auto simp: checkout_def smap_err_def split: prod.splits dest!: engine_result)

lemma statement_result:
  assumes "statement params effect d = (r, d')"
  shows "(case r of Inl _ \<Rightarrow> tables d' = tables d
    | Inr _ \<Rightarrow> \<exists>p. params = Inr p \<and> tables d' = effect p (tables d))"
  using assms
  by (auto simp: statement_def sbind_def split: prod.splits sum.splits dest!: engine_result)

lemma query_result:
  assumes "query params select d = (r, d')"
  shows "tables d' = tables d \<and> (\<forall>a. r = Inr a \<longrightarrow> (\<exists>p. params = Inr p \<and> a = select p (tables d)))"
  using assms
  by (auto simp: query_def sbind_def split: prod.splits sum.splits dest!: engine_result)

lemma query_Inr:
  "query params select d = (Inr a, d') \<Longrightarrow> tables d' = tables d \<and> (\<exists>p. params = Inr p \<and> a = select p (tables d))"
  using query_result by blast

lemma statement_Inr:
  "statement params effect d = (Inr a, d') \<Longrightarrow> \<exists>p. params = Inr p \<and> tables d' = effect p (tables d)"
  using statement_result [of params effect d "Inr a" d'] by simp

lemma pooled_result:
  assumes "pooled f d = (r, d')"
  shows "tables d' = tables d \<and> (\<exists>e. r = Inl e) \<or> (\<exists>d1. tables d1 = tables d \<and> f d1 = (r, d'))"
  using assms
  by (auto simp: pooled_def sbind_def split: prod.splits sum.splits dest!: checkout_result)

text \<open>A failing transaction leaves the tables as they were; a successful one is its closure.\<close>

lemma transaction_result:
  assumes "transaction f d = (r, d')"
  shows "(\<exists>e. r = Inl e) \<and> tables d' = tables d \<or>
    (\<exists>a d1 d2. r = Inr a \<and> tables d1 = tables d \<and> f d1 = (Inr a, d2) \<and> tables d' = tables d2)"
  using assms
  by (fastforce simp: transaction_def rollback_on_error_def sbind_def split: prod.splits sum.splits
      dest!: engine_result checkout_result)

lemma load_row_result:
  assumes "load_row get params from_row d = (r, d')"
  shows "tables d' = tables d \<and>
    (\<forall>a. r = Inr a \<longrightarrow> (\<exists>k. params = Inr k \<and>
       (case lookup k (get (tables d)) of None \<Rightarrow> a = None
        | Some b \<Rightarrow> \<exists>v. from_row b = Inr v \<and> a = Some v)))"
proof -
  obtain q d1 where q: "query params (\<lambda>k t. map row_value (select_rows (\<lambda>k'. k' = k) (get t))) d = (q, d1)"
    by fastforce
  note qr = query_result [OF q]
  show ?thesis
  proof (cases q)
    case (Inl e)
    with q qr assms show ?thesis by (auto simp: load_row_def sbind_def)
  next
    case (Inr rows)
    with qr obtain k where k: "params = Inr k" "rows = map row_value (select_rows (\<lambda>k'. k' = k) (get (tables d)))"
      "tables d1 = tables d" by auto
    from q Inr assms have "r = optional_row from_row rows" "d' = d1" by (simp_all add: load_row_def sbind_def)
    with k show ?thesis
      by (auto simp: optional_row_def lookup_def rbind_Inr_iff split: list.splits)
  qed
qed

section \<open>Lemmas on a healthy engine\<close>

lemma engine_healthy [simp]: "faults d = [] \<Longrightarrow> engine d = (Inr (), d)"
  by (simp add: engine_def)

lemma checkout_healthy [simp]: "faults d = [] \<Longrightarrow> checkout d = (Inr (), d)"
  by (simp add: checkout_def smap_err_def)

lemma pooled_healthy: "faults d = [] \<Longrightarrow> pooled f d = f d"
  by (simp add: pooled_def sbind_def)

lemma query_healthy:
  "faults d = [] \<Longrightarrow> query params select d =
     (case params of Inl e \<Rightarrow> Inl e | Inr p \<Rightarrow> Inr (select p (tables d)), d)"
  by (simp add: query_def sbind_def split: sum.splits)

lemma statement_healthy:
  "faults d = [] \<Longrightarrow> statement params effect d =
     (case params of Inl e \<Rightarrow> (Inl e, d) | Inr p \<Rightarrow> (Inr (), d\<lparr>tables := effect p (tables d)\<rparr>))"
  by (simp add: statement_def sbind_def split: sum.splits)

lemma load_row_healthy:
  "faults d = [] \<Longrightarrow> params = Inr k \<Longrightarrow> load_row get params from_row d =
     (case lookup k (get (tables d)) of None \<Rightarrow> Inr None | Some b \<Rightarrow> rbind (from_row b) (\<lambda>v. Inr (Some v)), d)"
  by (simp add: load_row_def sbind_def query_healthy optional_row_def lookup_def split: list.splits)

lemma pooled_Inr:
  assumes "pooled f d = (Inr a, d')"
  obtains d1 where "tables d1 = tables d" "f d1 = (Inr a, d')"
  using pooled_result [OF assms] by auto

section \<open>Lemmas on codecs\<close>

lemma to_sql_Inr_iff: "to_sql C v = Inr b \<longleftrightarrow> to_vec C v = Inr b"
  by (simp add: to_sql_def)

lemma to_sql_inject:
  assumes "codec_roundtrip C" and "to_sql C v = Inr b" and "to_sql C w = Inr c"
  shows "b = c \<longleftrightarrow> v = w"
  using assms by (auto simp: codec_roundtrip_def to_sql_Inr_iff) (metis sum.inject(2))

lemma column_result_to_sql: "codec_roundtrip C \<Longrightarrow> to_sql C v = Inr b \<Longrightarrow> column_result C b = Inr v"
  by (simp add: codec_roundtrip_def to_sql_Inr_iff column_result_def)

lemma bytes_codec_roundtrip [simp]: "codec_roundtrip bytes_codec" "to_sql bytes_codec b = Inr b"
  by (simp_all add: codec_roundtrip_def bytes_codec_def to_sql_def)

end
