(* ===== verification/Storage_Keys.thy ===== *)
theory Storage_Keys
  imports Sqlite_Model
begin

text \<open>
  The tables keyed by one serialised key: HPKE key pairs (\<open>encryption_key_pairs.rs\<close>), signature key
  pairs (\<open>signature_key_pairs.rs\<close>), key packages (\<open>key_packages.rs\<close>) and pre-shared keys (\<open>psks.rs\<close>).
  \<open>KC\<close> is the codec of the key, \<open>VC\<close> the codec of the entity.
\<close>

section \<open>Encryption key pairs\<close>

definition encryption_key_load_in_tx :: "'k codec \<Rightarrow> 'v codec \<Rightarrow> 'k \<Rightarrow> 'v option sql_action" where
  "encryption_key_load_in_tx KC VC public_key =
     load_row encryption_keys (to_sql KC public_key) (column_result VC)"

definition encryption_key_load :: "'k codec \<Rightarrow> 'v codec \<Rightarrow> 'k \<Rightarrow> 'v option sql_action" where
  "encryption_key_load KC VC public_key = pooled (encryption_key_load_in_tx KC VC public_key)"

definition encryption_key_store_in_tx :: "'k codec \<Rightarrow> 'v codec \<Rightarrow> 'k \<Rightarrow> 'v \<Rightarrow> unit sql_action" where
  "encryption_key_store_in_tx KC VC public_key key_pair =
     store_row encryption_keys_update (key_entity (to_sql KC public_key) (to_sql VC key_pair))"

definition encryption_key_store :: "'k codec \<Rightarrow> 'v codec \<Rightarrow> 'k \<Rightarrow> 'v \<Rightarrow> unit sql_action" where
  "encryption_key_store KC VC public_key key_pair = pooled (encryption_key_store_in_tx KC VC public_key key_pair)"

definition encryption_key_delete_in_tx :: "'k codec \<Rightarrow> 'k \<Rightarrow> unit sql_action" where
  "encryption_key_delete_in_tx KC public_key = delete_row encryption_keys_update (to_sql KC public_key)"

definition encryption_key_delete :: "'k codec \<Rightarrow> 'k \<Rightarrow> unit sql_action" where
  "encryption_key_delete KC public_key = pooled (encryption_key_delete_in_tx KC public_key)"

section \<open>Signature key pairs\<close>

definition signature_key_load_in_tx :: "'k codec \<Rightarrow> 'v codec \<Rightarrow> 'k \<Rightarrow> 'v option sql_action" where
  "signature_key_load_in_tx KC VC public_key =
     load_row signature_keys (to_sql KC public_key) (column_result VC)"

definition signature_key_load :: "'k codec \<Rightarrow> 'v codec \<Rightarrow> 'k \<Rightarrow> 'v option sql_action" where
  "signature_key_load KC VC public_key = pooled (signature_key_load_in_tx KC VC public_key)"

definition signature_key_store_in_tx :: "'k codec \<Rightarrow> 'v codec \<Rightarrow> 'k \<Rightarrow> 'v \<Rightarrow> unit sql_action" where
  "signature_key_store_in_tx KC VC public_key signature_key =
     store_row signature_keys_update (key_entity (to_sql KC public_key) (to_sql VC signature_key))"

definition signature_key_store :: "'k codec \<Rightarrow> 'v codec \<Rightarrow> 'k \<Rightarrow> 'v \<Rightarrow> unit sql_action" where
  "signature_key_store KC VC public_key signature_key =
     pooled (signature_key_store_in_tx KC VC public_key signature_key)"

definition signature_key_delete_in_tx :: "'k codec \<Rightarrow> 'k \<Rightarrow> unit sql_action" where
  "signature_key_delete_in_tx KC public_key = delete_row signature_keys_update (to_sql KC public_key)"

definition signature_key_delete :: "'k codec \<Rightarrow> 'k \<Rightarrow> unit sql_action" where
  "signature_key_delete KC public_key = pooled (signature_key_delete_in_tx KC public_key)"

section \<open>Key packages\<close>

definition key_package_load_in_tx :: "'k codec \<Rightarrow> 'v codec \<Rightarrow> 'k \<Rightarrow> 'v option sql_action" where
  "key_package_load_in_tx KC VC key_package_ref =
     load_row key_packages (to_sql KC key_package_ref) (column_result VC)"

definition key_package_load :: "'k codec \<Rightarrow> 'v codec \<Rightarrow> 'k \<Rightarrow> 'v option sql_action" where
  "key_package_load KC VC key_package_ref = pooled (key_package_load_in_tx KC VC key_package_ref)"

definition key_package_store_in_tx :: "'k codec \<Rightarrow> 'v codec \<Rightarrow> 'k \<Rightarrow> 'v \<Rightarrow> unit sql_action" where
  "key_package_store_in_tx KC VC key_package_ref key_package =
     store_row key_packages_update (key_entity (to_sql KC key_package_ref) (to_sql VC key_package))"

definition key_package_store :: "'k codec \<Rightarrow> 'v codec \<Rightarrow> 'k \<Rightarrow> 'v \<Rightarrow> unit sql_action" where
  "key_package_store KC VC key_package_ref key_package =
     pooled (key_package_store_in_tx KC VC key_package_ref key_package)"

definition key_package_delete_in_tx :: "'k codec \<Rightarrow> 'k \<Rightarrow> unit sql_action" where
  "key_package_delete_in_tx KC key_package_ref = delete_row key_packages_update (to_sql KC key_package_ref)"

definition key_package_delete :: "'k codec \<Rightarrow> 'k \<Rightarrow> unit sql_action" where
  "key_package_delete KC key_package_ref = pooled (key_package_delete_in_tx KC key_package_ref)"

section \<open>Pre-shared keys\<close>

definition psk_load_in_tx :: "'k codec \<Rightarrow> 'v codec \<Rightarrow> 'k \<Rightarrow> 'v option sql_action" where
  "psk_load_in_tx KC VC psk_id = load_row psks (to_sql KC psk_id) (column_result VC)"

definition psk_load :: "'k codec \<Rightarrow> 'v codec \<Rightarrow> 'k \<Rightarrow> 'v option sql_action" where
  "psk_load KC VC psk_id = pooled (psk_load_in_tx KC VC psk_id)"

definition psk_store_in_tx :: "'k codec \<Rightarrow> 'v codec \<Rightarrow> 'k \<Rightarrow> 'v \<Rightarrow> unit sql_action" where
  "psk_store_in_tx KC VC psk_id psk_bundle =
     store_row psks_update (key_entity (to_sql KC psk_id) (to_sql VC psk_bundle))"

definition psk_store :: "'k codec \<Rightarrow> 'v codec \<Rightarrow> 'k \<Rightarrow> 'v \<Rightarrow> unit sql_action" where
  "psk_store KC VC psk_id psk_bundle = pooled (psk_store_in_tx KC VC psk_id psk_bundle)"

definition psk_delete_in_tx :: "'k codec \<Rightarrow> 'k \<Rightarrow> unit sql_action" where
  "psk_delete_in_tx KC psk_id = delete_row psks_update (to_sql KC psk_id)"

definition psk_delete :: "'k codec \<Rightarrow> 'k \<Rightarrow> unit sql_action" where
  "psk_delete KC psk_id = pooled (psk_delete_in_tx KC psk_id)"

end
