(* ===== verification/Storage_Group.thy ===== *)
theory Storage_Group
  imports Sqlite_Model
begin

text \<open>
  The group-scoped tables of OpenMLS state: \<open>group_data.rs\<close>, \<open>own_leaf_nodes.rs\<close>, \<open>proposals.rs\<close> and
  \<open>epoch_key_pairs.rs\<close>. The order of a \<open>SELECT\<close> without \<open>ORDER BY\<close> is the engine's choice: the
  argument \<open>ord\<close> of the two operations that return several rows.
\<close>

section \<open>Group data\<close>

datatype group_data_type =
    JoinGroupConfig
  | Tree
  | InterimTranscriptHash
  | Context
  | ConfirmationTag
  | GroupState
  | MessageSecrets
  | ResumptionPskStore
  | OwnLeafIndex
  | UseRatchetTreeExtension
  | GroupEpochSecrets
  | ApplicationExportTree

fun data_type_to_sql :: "group_data_type \<Rightarrow> string" where
  "data_type_to_sql JoinGroupConfig = ''join_group_config''"
| "data_type_to_sql Tree = ''tree''"
| "data_type_to_sql InterimTranscriptHash = ''interim_transcript_hash''"
| "data_type_to_sql Context = ''context''"
| "data_type_to_sql ConfirmationTag = ''confirmation_tag''"
| "data_type_to_sql GroupState = ''group_state''"
| "data_type_to_sql MessageSecrets = ''message_secrets''"
| "data_type_to_sql ResumptionPskStore = ''resumption_psk_store''"
| "data_type_to_sql OwnLeafIndex = ''own_leaf_index''"
| "data_type_to_sql UseRatchetTreeExtension = ''use_ratchet_tree_extension''"
| "data_type_to_sql GroupEpochSecrets = ''group_epoch_secrets''"
| "data_type_to_sql ApplicationExportTree = ''application_export_tree''"

definition data_type_column_result :: "string \<Rightarrow> sql_error + group_data_type" where
  "data_type_column_result s =
     (if s = ''join_group_config'' then Inr JoinGroupConfig
      else if s = ''tree'' then Inr Tree
      else if s = ''interim_transcript_hash'' then Inr InterimTranscriptHash
      else if s = ''context'' then Inr Context
      else if s = ''confirmation_tag'' then Inr ConfirmationTag
      else if s = ''group_state'' then Inr GroupState
      else if s = ''message_secrets'' then Inr MessageSecrets
      else if s = ''resumption_psk_store'' then Inr ResumptionPskStore
      else if s = ''own_leaf_index'' then Inr OwnLeafIndex
      else if s = ''use_ratchet_tree_extension'' then Inr UseRatchetTreeExtension
      else if s = ''group_epoch_secrets'' then Inr GroupEpochSecrets
      else if s = ''application_export_tree'' then Inr ApplicationExportTree
      else Inl InvalidColumnType)"

definition group_data_key :: "'g codec \<Rightarrow> 'g \<Rightarrow> group_data_type \<Rightarrow> sql_error + bytes \<times> string" where
  "group_data_key GC group_id data_type =
     rbind (to_sql GC group_id) (\<lambda>g. Inr (g, data_type_to_sql data_type))"

definition group_data_load_in_tx ::
    "'g codec \<Rightarrow> 'v codec \<Rightarrow> 'g \<Rightarrow> group_data_type \<Rightarrow> 'v option sql_action" where
  "group_data_load_in_tx GC VC group_id data_type =
     load_row group_data (group_data_key GC group_id data_type) (column_result VC)"

definition group_data_load :: "'g codec \<Rightarrow> 'v codec \<Rightarrow> 'g \<Rightarrow> group_data_type \<Rightarrow> 'v option sql_action" where
  "group_data_load GC VC group_id data_type = pooled (group_data_load_in_tx GC VC group_id data_type)"

definition group_data_store_in_tx ::
    "'g codec \<Rightarrow> 'v codec \<Rightarrow> 'g \<Rightarrow> group_data_type \<Rightarrow> 'v \<Rightarrow> unit sql_action" where
  "group_data_store_in_tx GC VC group_id data_type v =
     store_row group_data_update (key_entity (group_data_key GC group_id data_type) (to_sql VC v))"

definition group_data_store :: "'g codec \<Rightarrow> 'v codec \<Rightarrow> 'g \<Rightarrow> group_data_type \<Rightarrow> 'v \<Rightarrow> unit sql_action" where
  "group_data_store GC VC group_id data_type v = pooled (group_data_store_in_tx GC VC group_id data_type v)"

definition delete_group_data_in_tx :: "'g codec \<Rightarrow> 'g \<Rightarrow> group_data_type \<Rightarrow> unit sql_action" where
  "delete_group_data_in_tx GC group_id data_type =
     delete_row group_data_update (group_data_key GC group_id data_type)"

definition delete_group_data :: "'g codec \<Rightarrow> 'g \<Rightarrow> group_data_type \<Rightarrow> unit sql_action" where
  "delete_group_data GC group_id data_type = pooled (delete_group_data_in_tx GC group_id data_type)"

section \<open>Own leaf nodes\<close>

text \<open>The primary key is an automatic row number, so \<open>INSERT OR REPLACE\<close> always appends.\<close>

definition leaf_nodes_load_in_tx ::
    "(bytes list \<Rightarrow> bytes list) \<Rightarrow> 'g codec \<Rightarrow> 'v codec \<Rightarrow> 'g \<Rightarrow> 'v list sql_action" where
  "leaf_nodes_load_in_tx ord GC VC group_id =
     sbind (query (to_sql GC group_id)
              (\<lambda>g t. ord (map row_value (select_rows (\<lambda>k. k = g) (own_leaf_nodes t))))) (\<lambda>rows.
     slift (collect_rows (column_result VC) rows))"

definition leaf_nodes_load ::
    "(bytes list \<Rightarrow> bytes list) \<Rightarrow> 'g codec \<Rightarrow> 'v codec \<Rightarrow> 'g \<Rightarrow> 'v list sql_action" where
  "leaf_nodes_load ord GC VC group_id = pooled (leaf_nodes_load_in_tx ord GC VC group_id)"

definition leaf_node_store_in_tx :: "'g codec \<Rightarrow> 'v codec \<Rightarrow> 'g \<Rightarrow> 'v \<Rightarrow> unit sql_action" where
  "leaf_node_store_in_tx GC VC group_id leaf_node =
     statement (key_entity (to_sql GC group_id) (to_sql VC leaf_node))
       (\<lambda>(g, b). own_leaf_nodes_update (\<lambda>t. t @ [(g, STORAGE_PROVIDER_VERSION, b)]))"

definition leaf_node_store :: "'g codec \<Rightarrow> 'v codec \<Rightarrow> 'g \<Rightarrow> 'v \<Rightarrow> unit sql_action" where
  "leaf_node_store GC VC group_id leaf_node = pooled (leaf_node_store_in_tx GC VC group_id leaf_node)"

definition delete_leaf_nodes_in_tx :: "'g codec \<Rightarrow> 'g \<Rightarrow> unit sql_action" where
  "delete_leaf_nodes_in_tx GC group_id = delete_row own_leaf_nodes_update (to_sql GC group_id)"

definition delete_leaf_nodes :: "'g codec \<Rightarrow> 'g \<Rightarrow> unit sql_action" where
  "delete_leaf_nodes GC group_id = pooled (delete_leaf_nodes_in_tx GC group_id)"

section \<open>Proposals\<close>

definition group_proposals :: "bytes \<Rightarrow> tables \<Rightarrow> (bytes \<times> bytes) list" where
  "group_proposals g t = map (\<lambda>r. (snd (row_key r), row_value r)) (select_rows (\<lambda>k. fst k = g) (proposals t))"

definition proposal_from_row :: "'r codec \<Rightarrow> 'p codec \<Rightarrow> bytes \<times> bytes \<Rightarrow> sql_error + 'r \<times> 'p" where
  "proposal_from_row RC PC row =
     rbind (column_result RC (fst row)) (\<lambda>proposal_ref.
     rbind (column_result PC (snd row)) (\<lambda>proposal.
     Inr (proposal_ref, proposal)))"

definition proposals_load_in_tx ::
    "((bytes \<times> bytes) list \<Rightarrow> (bytes \<times> bytes) list) \<Rightarrow> 'g codec \<Rightarrow> 'r codec \<Rightarrow> 'p codec \<Rightarrow> 'g
      \<Rightarrow> ('r \<times> 'p) list sql_action" where
  "proposals_load_in_tx ord GC RC PC group_id =
     sbind (query (to_sql GC group_id) (\<lambda>g t. ord (group_proposals g t))) (\<lambda>rows.
     slift (collect_rows (proposal_from_row RC PC) rows))"

definition proposals_load ::
    "((bytes \<times> bytes) list \<Rightarrow> (bytes \<times> bytes) list) \<Rightarrow> 'g codec \<Rightarrow> 'r codec \<Rightarrow> 'p codec \<Rightarrow> 'g
      \<Rightarrow> ('r \<times> 'p) list sql_action" where
  "proposals_load ord GC RC PC group_id = pooled (proposals_load_in_tx ord GC RC PC group_id)"

definition proposals_load_refs_in_tx ::
    "((bytes \<times> bytes) list \<Rightarrow> (bytes \<times> bytes) list) \<Rightarrow> 'g codec \<Rightarrow> 'r codec \<Rightarrow> 'g \<Rightarrow> 'r list sql_action" where
  "proposals_load_refs_in_tx ord GC RC group_id =
     sbind (query (to_sql GC group_id) (\<lambda>g t. ord (group_proposals g t))) (\<lambda>rows.
     slift (collect_rows (\<lambda>row. column_result RC (fst row)) rows))"

definition proposals_load_refs ::
    "((bytes \<times> bytes) list \<Rightarrow> (bytes \<times> bytes) list) \<Rightarrow> 'g codec \<Rightarrow> 'r codec \<Rightarrow> 'g \<Rightarrow> 'r list sql_action" where
  "proposals_load_refs ord GC RC group_id = pooled (proposals_load_refs_in_tx ord GC RC group_id)"

definition proposal_key :: "'g codec \<Rightarrow> 'r codec \<Rightarrow> 'g \<Rightarrow> 'r \<Rightarrow> sql_error + bytes \<times> bytes" where
  "proposal_key GC RC group_id proposal_ref =
     rbind (to_sql GC group_id) (\<lambda>g. rbind (to_sql RC proposal_ref) (\<lambda>r. Inr (g, r)))"

definition proposal_store_in_tx ::
    "'g codec \<Rightarrow> 'r codec \<Rightarrow> 'p codec \<Rightarrow> 'g \<Rightarrow> 'r \<Rightarrow> 'p \<Rightarrow> unit sql_action" where
  "proposal_store_in_tx GC RC PC group_id proposal_ref proposal =
     statement (key_entity (proposal_key GC RC group_id proposal_ref) (to_sql PC proposal))
       (\<lambda>(k, b). proposals_update (insert_or_ignore k b))"

definition proposal_store :: "'g codec \<Rightarrow> 'r codec \<Rightarrow> 'p codec \<Rightarrow> 'g \<Rightarrow> 'r \<Rightarrow> 'p \<Rightarrow> unit sql_action" where
  "proposal_store GC RC PC group_id proposal_ref proposal =
     pooled (proposal_store_in_tx GC RC PC group_id proposal_ref proposal)"

definition delete_all_proposals_in_tx :: "'g codec \<Rightarrow> 'g \<Rightarrow> unit sql_action" where
  "delete_all_proposals_in_tx GC group_id =
     statement (to_sql GC group_id) (\<lambda>g. proposals_update (delete_rows (\<lambda>k. fst k = g)))"

definition delete_all_proposals :: "'g codec \<Rightarrow> 'g \<Rightarrow> unit sql_action" where
  "delete_all_proposals GC group_id = pooled (delete_all_proposals_in_tx GC group_id)"

definition delete_proposal_in_tx :: "'g codec \<Rightarrow> 'r codec \<Rightarrow> 'g \<Rightarrow> 'r \<Rightarrow> unit sql_action" where
  "delete_proposal_in_tx GC RC group_id proposal_ref =
     delete_row proposals_update (proposal_key GC RC group_id proposal_ref)"

definition delete_proposal :: "'g codec \<Rightarrow> 'r codec \<Rightarrow> 'g \<Rightarrow> 'r \<Rightarrow> unit sql_action" where
  "delete_proposal GC RC group_id proposal_ref = pooled (delete_proposal_in_tx GC RC group_id proposal_ref)"

section \<open>Epoch key pairs\<close>

definition epoch_key_pairs_key ::
    "'g codec \<Rightarrow> 'e codec \<Rightarrow> 'g \<Rightarrow> 'e \<Rightarrow> u32 \<Rightarrow> sql_error + bytes \<times> bytes \<times> u32" where
  "epoch_key_pairs_key GC EC group_id epoch_id leaf_index =
     rbind (to_sql GC group_id) (\<lambda>g. rbind (to_sql EC epoch_id) (\<lambda>e. Inr (g, e, leaf_index)))"

text \<open>A missing row is the empty vector: \<open>unwrap_or_default\<close>.\<close>

definition epoch_key_pairs_load_in_tx ::
    "'g codec \<Rightarrow> 'e codec \<Rightarrow> 'v list codec \<Rightarrow> 'g \<Rightarrow> 'e \<Rightarrow> u32 \<Rightarrow> 'v list sql_action" where
  "epoch_key_pairs_load_in_tx GC EC VC group_id epoch_id leaf_index =
     sbind (load_row epoch_keys_pairs (epoch_key_pairs_key GC EC group_id epoch_id leaf_index) (column_result VC))
       (\<lambda>found. sret (case found of None \<Rightarrow> [] | Some key_pairs \<Rightarrow> key_pairs))"

definition epoch_key_pairs_load ::
    "'g codec \<Rightarrow> 'e codec \<Rightarrow> 'v list codec \<Rightarrow> 'g \<Rightarrow> 'e \<Rightarrow> u32 \<Rightarrow> 'v list sql_action" where
  "epoch_key_pairs_load GC EC VC group_id epoch_id leaf_index =
     pooled (epoch_key_pairs_load_in_tx GC EC VC group_id epoch_id leaf_index)"

definition epoch_key_pairs_store_in_tx ::
    "'g codec \<Rightarrow> 'e codec \<Rightarrow> 'v list codec \<Rightarrow> 'g \<Rightarrow> 'e \<Rightarrow> u32 \<Rightarrow> 'v list \<Rightarrow> unit sql_action" where
  "epoch_key_pairs_store_in_tx GC EC VC group_id epoch_id leaf_index key_pairs =
     store_row epoch_keys_pairs_update
       (key_entity (epoch_key_pairs_key GC EC group_id epoch_id leaf_index) (to_sql VC key_pairs))"

definition epoch_key_pairs_store ::
    "'g codec \<Rightarrow> 'e codec \<Rightarrow> 'v list codec \<Rightarrow> 'g \<Rightarrow> 'e \<Rightarrow> u32 \<Rightarrow> 'v list \<Rightarrow> unit sql_action" where
  "epoch_key_pairs_store GC EC VC group_id epoch_id leaf_index key_pairs =
     pooled (epoch_key_pairs_store_in_tx GC EC VC group_id epoch_id leaf_index key_pairs)"

definition delete_epoch_key_pair_in_tx :: "'g codec \<Rightarrow> 'e codec \<Rightarrow> 'g \<Rightarrow> 'e \<Rightarrow> u32 \<Rightarrow> unit sql_action" where
  "delete_epoch_key_pair_in_tx GC EC group_id epoch_key leaf_index =
     delete_row epoch_keys_pairs_update (epoch_key_pairs_key GC EC group_id epoch_key leaf_index)"

definition delete_epoch_key_pair :: "'g codec \<Rightarrow> 'e codec \<Rightarrow> 'g \<Rightarrow> 'e \<Rightarrow> u32 \<Rightarrow> unit sql_action" where
  "delete_epoch_key_pair GC EC group_id epoch_key leaf_index =
     pooled (delete_epoch_key_pair_in_tx GC EC group_id epoch_key leaf_index)"

section \<open>Lemmas on group data\<close>

lemma data_type_roundtrip: "data_type_column_result (data_type_to_sql kind) = Inr kind"
  by (cases kind) (simp_all add: data_type_column_result_def)

lemma data_type_to_sql_inject: "data_type_to_sql k = data_type_to_sql l \<longleftrightarrow> k = l"
  by (metis data_type_roundtrip sum.inject(2))

declare data_type_to_sql.simps [simp del]

lemma group_data_key_Inr_iff:
  "group_data_key GC g kind = Inr k \<longleftrightarrow> (\<exists>b. to_sql GC g = Inr b \<and> k = (b, data_type_to_sql kind))"
  by (auto simp: group_data_key_def rbind_Inr_iff)

lemma key_entity_Inr_iff: "key_entity k b = Inr p \<longleftrightarrow> (\<exists>k' b'. k = Inr k' \<and> b = Inr b' \<and> p = (k', b'))"
  by (auto simp: key_entity_def rbind_Inr_iff)

lemma group_data_store_Inr:
  assumes "group_data_store_in_tx GC VC g kind v d = (Inr u, d')"
  obtains b w where "to_sql GC g = Inr b" "to_sql VC v = Inr w"
    "tables d' = tables d\<lparr>group_data := insert_or_replace (b, data_type_to_sql kind) w (group_data (tables d))\<rparr>"
  using statement_Inr [OF assms [unfolded group_data_store_in_tx_def store_row_def]]
  by (auto simp: key_entity_Inr_iff group_data_key_Inr_iff)

lemma delete_group_data_Inr:
  assumes "delete_group_data_in_tx GC g kind d = (Inr u, d')"
  obtains b where "to_sql GC g = Inr b"
    "tables d' = tables d\<lparr>group_data := delete_rows (\<lambda>k. k = (b, data_type_to_sql kind)) (group_data (tables d))\<rparr>"
  using statement_Inr [OF assms [unfolded delete_group_data_in_tx_def delete_row_def]]
  by (auto simp: group_data_key_Inr_iff)

lemma group_data_load_healthy:
  assumes "faults d = []" and "to_sql GC g = Inr b"
  shows "group_data_load GC VC g kind d =
    (case lookup (b, data_type_to_sql kind) (group_data (tables d)) of
       None \<Rightarrow> Inr None | Some w \<Rightarrow> rbind (column_result VC w) (\<lambda>v. Inr (Some v)), d)"
proof -
  have "group_data_key GC g kind = Inr (b, data_type_to_sql kind)" using assms by (simp add: group_data_key_Inr_iff)
  from load_row_healthy [OF assms(1) this, of group_data "column_result VC"] assms(1) show ?thesis
    by (simp add: group_data_load_def group_data_load_in_tx_def pooled_healthy)
qed

end
