(* ===== verification/Storage_Epoch.thy ===== *)
theory Storage_Epoch
  imports Storage_Group
begin

text \<open>
  Per-epoch message secrets (\<open>group_epoch_message_secrets.rs\<close>) and the state of their migration from
  the single legacy row in \<open>openmls_group_data\<close> (\<open>epoch_migration_state.rs\<close>). Epochs are \<open>u64\<close> in the
  code and signed 64-bit integers in the table: binding an epoch above \<open>i64::MAX\<close> fails.
\<close>

section \<open>Epoch message secrets\<close>

definition DEFAULT_MIGRATION_BATCH_SIZE :: nat where
  "DEFAULT_MIGRATION_BATCH_SIZE = 20"

text \<open>\<open>u64\<close> as a column: \<open>i64::try_from\<close>.\<close>

definition u64_to_sql :: "u64 \<Rightarrow> sql_error + int" where
  "u64_to_sql n = (if uint n \<le> 0x7FFFFFFFFFFFFFFF then Inr (uint n) else Inl (ToSqlConversionFailure ''out of range integral type conversion attempted''))"

definition epoch_secrets_key :: "'g codec \<Rightarrow> 'g \<Rightarrow> u64 \<Rightarrow> sql_error + bytes \<times> int" where
  "epoch_secrets_key GC group_id epoch =
     rbind (to_sql GC group_id) (\<lambda>g. rbind (u64_to_sql epoch) (\<lambda>e. Inr (g, e)))"

definition epoch_secrets_load_in_tx :: "'g codec \<Rightarrow> 'g \<Rightarrow> u64 \<Rightarrow> bytes option sql_action" where
  "epoch_secrets_load_in_tx GC group_id epoch =
     load_row epoch_message_secrets (epoch_secrets_key GC group_id epoch) Inr"

definition epoch_secrets_load :: "'g codec \<Rightarrow> 'g \<Rightarrow> u64 \<Rightarrow> bytes option sql_action" where
  "epoch_secrets_load GC group_id epoch = pooled (epoch_secrets_load_in_tx GC group_id epoch)"

definition epoch_secrets_store_in_tx :: "'g codec \<Rightarrow> 'g \<Rightarrow> u64 \<Rightarrow> bytes \<Rightarrow> unit sql_action" where
  "epoch_secrets_store_in_tx GC group_id epoch message_secrets =
     statement (epoch_secrets_key GC group_id epoch) (\<lambda>k. epoch_message_secrets_update (upsert k message_secrets))"

definition epoch_secrets_store :: "'g codec \<Rightarrow> 'g \<Rightarrow> u64 \<Rightarrow> bytes \<Rightarrow> unit sql_action" where
  "epoch_secrets_store GC group_id epoch message_secrets =
     pooled (epoch_secrets_store_in_tx GC group_id epoch message_secrets)"

definition epoch_secrets_delete_in_tx :: "'g codec \<Rightarrow> 'g \<Rightarrow> unit sql_action" where
  "epoch_secrets_delete_in_tx GC group_id =
     statement (to_sql GC group_id) (\<lambda>g. epoch_message_secrets_update (delete_rows (\<lambda>k. fst k = g)))"

definition epoch_secrets_delete :: "'g codec \<Rightarrow> 'g \<Rightarrow> unit sql_action" where
  "epoch_secrets_delete GC group_id = pooled (epoch_secrets_delete_in_tx GC group_id)"

definition epoch_secrets_replace_in_tx :: "'g codec \<Rightarrow> 'g \<Rightarrow> (u64 \<times> bytes) list \<Rightarrow> unit sql_action" where
  "epoch_secrets_replace_in_tx GC group_id message_secrets =
     sbind (epoch_secrets_delete_in_tx GC group_id) (\<lambda>_.
     sforeach message_secrets (\<lambda>(epoch, bs). epoch_secrets_store_in_tx GC group_id epoch bs))"

definition epoch_secrets_prune_in_tx :: "'g codec \<Rightarrow> 'g \<Rightarrow> u64 \<Rightarrow> u64 \<Rightarrow> unit sql_action" where
  "epoch_secrets_prune_in_tx GC group_id keep_from_epoch current_epoch =
     statement (rbind (to_sql GC group_id) (\<lambda>g. rbind (u64_to_sql keep_from_epoch) (\<lambda>lo.
        rbind (u64_to_sql current_epoch) (\<lambda>hi. Inr (g, lo, hi)))))
       (\<lambda>(g, lo, hi). epoch_message_secrets_update
          (delete_rows (\<lambda>k. fst k = g \<and> (snd k < lo \<or> snd k > hi))))"

definition epoch_secrets_prune :: "'g codec \<Rightarrow> 'g \<Rightarrow> u64 \<Rightarrow> u64 \<Rightarrow> unit sql_action" where
  "epoch_secrets_prune GC group_id keep_from_epoch current_epoch =
     pooled (epoch_secrets_prune_in_tx GC group_id keep_from_epoch current_epoch)"

text \<open>The newest groups with a legacy row: \<open>ORDER BY rowid DESC LIMIT\<close>.\<close>

definition list_group_ids_with_message_secrets :: "'g codec \<Rightarrow> nat \<Rightarrow> 'g list sql_action" where
  "list_group_ids_with_message_secrets GC lim =
     pooled (sbind (query (Inr ()) (\<lambda>_ t. take lim (rev (map (\<lambda>r. fst (row_key r))
         (select_rows (\<lambda>k. snd k = data_type_to_sql MessageSecrets) (group_data t)))))) (\<lambda>rows.
       slift (collect_rows (column_result GC) rows)))"

definition has_legacy_message_secrets :: "bool sql_action" where
  "has_legacy_message_secrets =
     pooled (query (Inr ()) (\<lambda>_ t.
       select_rows (\<lambda>k. snd k = data_type_to_sql MessageSecrets) (group_data t) \<noteq> []))"

definition has_legacy_message_secrets_for_group_in_tx :: "'g codec \<Rightarrow> 'g \<Rightarrow> bool sql_action" where
  "has_legacy_message_secrets_for_group_in_tx GC group_id =
     query (to_sql GC group_id) (\<lambda>g t.
       select_rows (\<lambda>k. k = (g, data_type_to_sql MessageSecrets)) (group_data t) \<noteq> [])"

definition has_legacy_message_secrets_for_group :: "'g codec \<Rightarrow> 'g \<Rightarrow> bool sql_action" where
  "has_legacy_message_secrets_for_group GC group_id =
     pooled (has_legacy_message_secrets_for_group_in_tx GC group_id)"

definition is_migration_done :: "'g codec \<Rightarrow> 'g \<Rightarrow> bool sql_action" where
  "is_migration_done GC group_id =
     sbind (has_legacy_message_secrets_for_group GC group_id) (\<lambda>legacy. sret (\<not> legacy))"

definition is_migration_done_in_tx :: "'g codec \<Rightarrow> 'g \<Rightarrow> bool sql_action" where
  "is_migration_done_in_tx GC group_id =
     sbind (has_legacy_message_secrets_for_group_in_tx GC group_id) (\<lambda>legacy. sret (\<not> legacy))"

text \<open>\<open>SqliteStorageProvider::replace_group_epoch_message_secrets\<close>: one transaction.\<close>

definition replace_group_epoch_message_secrets :: "'g codec \<Rightarrow> 'g \<Rightarrow> (u64 \<times> bytes) list \<Rightarrow> unit sql_action" where
  "replace_group_epoch_message_secrets GC group_id message_secrets =
     transaction (epoch_secrets_replace_in_tx GC group_id message_secrets)"

text \<open>The methods the two providers add to the \<open>StorageProvider\<close> trait: \<open>sp_\<close> on the pool, \<open>tx_\<close> in a
  transaction.\<close>

definition sp_load_group_epoch_message_secrets :: "'g codec \<Rightarrow> 'g \<Rightarrow> u64 \<Rightarrow> bytes option sql_action" where
  "sp_load_group_epoch_message_secrets GC group_id epoch = epoch_secrets_load GC group_id epoch"

definition sp_upsert_group_epoch_message_secrets :: "'g codec \<Rightarrow> 'g \<Rightarrow> u64 \<Rightarrow> bytes \<Rightarrow> unit sql_action" where
  "sp_upsert_group_epoch_message_secrets GC group_id epoch message_secrets =
     epoch_secrets_store GC group_id epoch message_secrets"

definition sp_list_group_ids_with_message_secrets :: "'g codec \<Rightarrow> 'g list sql_action" where
  "sp_list_group_ids_with_message_secrets GC = list_group_ids_with_message_secrets GC DEFAULT_MIGRATION_BATCH_SIZE"

definition sp_has_legacy_message_secrets :: "bool sql_action" where
  "sp_has_legacy_message_secrets = has_legacy_message_secrets"

definition tx_load_group_epoch_message_secrets :: "'g codec \<Rightarrow> 'g \<Rightarrow> u64 \<Rightarrow> bytes option sql_action" where
  "tx_load_group_epoch_message_secrets GC group_id epoch = epoch_secrets_load_in_tx GC group_id epoch"

definition tx_upsert_group_epoch_message_secrets :: "'g codec \<Rightarrow> 'g \<Rightarrow> u64 \<Rightarrow> bytes \<Rightarrow> unit sql_action" where
  "tx_upsert_group_epoch_message_secrets GC group_id epoch message_secrets =
     epoch_secrets_store_in_tx GC group_id epoch message_secrets"

section \<open>Migration state\<close>

definition is_legacy_message_secrets_migration_done_in_tx :: "bool sql_action" where
  "is_legacy_message_secrets_migration_done_in_tx =
     sbind (query (Inr ()) (\<lambda>_ t. map row_value (select_rows (\<lambda>_. True) (epoch_migration_state t)))) (\<lambda>rows.
     sbind (slift (optional_row Inr rows)) (\<lambda>found.
     sret ((case found of None \<Rightarrow> 0 | Some d \<Rightarrow> d) \<noteq> 0)))"

definition is_legacy_message_secrets_migration_done :: "bool sql_action" where
  "is_legacy_message_secrets_migration_done = pooled is_legacy_message_secrets_migration_done_in_tx"

definition mark_legacy_message_secrets_migration_done_in_tx :: "bool \<Rightarrow> unit sql_action" where
  "mark_legacy_message_secrets_migration_done_in_tx flag =
     statement (Inr ()) (\<lambda>_. epoch_migration_state_update (upsert () (if flag then 1 else 0)))"

definition mark_legacy_message_secrets_migration_done :: "bool \<Rightarrow> unit sql_action" where
  "mark_legacy_message_secrets_migration_done flag = pooled (mark_legacy_message_secrets_migration_done_in_tx flag)"

definition sp_is_legacy_message_secrets_migration_done :: "bool sql_action" where
  "sp_is_legacy_message_secrets_migration_done = is_legacy_message_secrets_migration_done"

definition sp_mark_legacy_message_secrets_migration_done :: "bool \<Rightarrow> unit sql_action" where
  "sp_mark_legacy_message_secrets_migration_done flag = mark_legacy_message_secrets_migration_done flag"

definition tx_is_legacy_message_secrets_migration_done :: "bool sql_action" where
  "tx_is_legacy_message_secrets_migration_done = is_legacy_message_secrets_migration_done_in_tx"

definition tx_mark_legacy_message_secrets_migration_done :: "bool \<Rightarrow> unit sql_action" where
  "tx_mark_legacy_message_secrets_migration_done flag = mark_legacy_message_secrets_migration_done_in_tx flag"

section \<open>Lemmas\<close>

lemma u64_to_sql_Inr_iff: "u64_to_sql n = Inr i \<longleftrightarrow> unat n < 2 ^ 63 \<and> i = int (unat n)"
proof -
  have "uint n = int (unat n)" by simp
  then have "uint n \<le> 0x7FFFFFFFFFFFFFFF \<longleftrightarrow> unat n < 2 ^ 63" by (auto simp del: of_nat_unat)
  then show ?thesis by (auto simp: u64_to_sql_def)
qed

lemma u64_to_sql_inject: "u64_to_sql m = Inr i \<Longrightarrow> u64_to_sql n = Inr i \<Longrightarrow> m = n"
  by (auto simp: u64_to_sql_Inr_iff intro: word_uint_eqI)

lemma epoch_secrets_key_Inr_iff:
  "epoch_secrets_key GC g n = Inr k \<longleftrightarrow>
     (\<exists>b. to_sql GC g = Inr b \<and> unat n < 2 ^ 63 \<and> k = (b, int (unat n)))"
  by (auto simp: epoch_secrets_key_def rbind_Inr_iff u64_to_sql_Inr_iff)

text \<open>The epochs a batch of stores leaves: all of the batch, the last value of each.\<close>

lemma epoch_secrets_stores:
  assumes "to_sql GC g = Inr b"
  shows "sforeach ms (\<lambda>(n, bs). epoch_secrets_store_in_tx GC g n bs) d = (Inr u, d') \<Longrightarrow>
    tables d' = tables d\<lparr>epoch_message_secrets :=
      fold (\<lambda>(k, v). upsert k v) (map (\<lambda>(n, bs). ((b, int (unat n)), bs)) ms) (epoch_message_secrets (tables d))\<rparr> \<and>
    (\<forall>(n, bs) \<in> set ms. unat n < 2 ^ 63)"
proof (induction ms arbitrary: d)
  case Nil
  then show ?case by simp
next
  case (Cons m ms)
  obtain n bs where m: "m = (n, bs)" by fastforce
  with Cons.prems obtain d1 where st: "epoch_secrets_store_in_tx GC g n bs d = (Inr (), d1)"
    and rest: "sforeach ms (\<lambda>(n, bs). epoch_secrets_store_in_tx GC g n bs) d1 = (Inr u, d')"
    by (auto split: prod.splits sum.splits)
  from statement_result [OF st [unfolded epoch_secrets_store_in_tx_def]] assms
  have d1: "tables d1 = tables d\<lparr>epoch_message_secrets := upsert (b, int (unat n)) bs (epoch_message_secrets (tables d))\<rparr>"
    and n: "unat n < 2 ^ 63"
    by (auto simp: epoch_secrets_key_Inr_iff)
  from Cons.IH [OF rest] d1 n m show ?case by simp
qed


lemma map_of_epochs:
  "map_of (map (\<lambda>(n, bs). ((b, int (unat n)), bs)) ms) (c, int (unat (n :: u64))) =
     (if c = b then map_of ms n else None)"
  by (induction ms) (auto simp flip: word_unat_eq_iff simp del: of_nat_unat)

text \<open>What a load of an epoch returns.\<close>

lemma epoch_secrets_load_healthy:
  assumes "faults d = []" and "to_sql GC g = Inr b" and "unat n < 2 ^ 63"
  shows "epoch_secrets_load GC g n d = (Inr (lookup (b, int (unat n)) (epoch_message_secrets (tables d))), d)"
proof -
  have "epoch_secrets_key GC g n = Inr (b, int (unat n))" using assms by (simp add: epoch_secrets_key_Inr_iff)
  from load_row_healthy [OF assms(1) this, of epoch_message_secrets Inr] assms(1) show ?thesis
    by (simp add: epoch_secrets_load_def epoch_secrets_load_in_tx_def pooled_healthy split: option.split)
qed

lemma epoch_secrets_replaced:
  assumes "epoch_secrets_replace_in_tx GC g ms d = (Inr u, d')" and "versioned_key_unique (epoch_message_secrets (tables d))"
  obtains b where "to_sql GC g = Inr b"
    and "\<And>c n. lookup (c, int (unat n)) (epoch_message_secrets (tables d')) =
      (if c = b then map_of (rev ms) n else lookup (c, int (unat n)) (epoch_message_secrets (tables d)))"
    and "tables d' = tables d\<lparr>epoch_message_secrets := epoch_message_secrets (tables d')\<rparr>"
    and "\<forall>(n, bs) \<in> set ms. unat n < 2 ^ 63"
    and "versioned_key_unique (epoch_message_secrets (tables d'))"
proof -
  from assms(1) obtain d1 where del: "epoch_secrets_delete_in_tx GC g d = (Inr (), d1)"
    and rest: "sforeach ms (\<lambda>(n, bs). epoch_secrets_store_in_tx GC g n bs) d1 = (Inr u, d')"
    by (auto simp: epoch_secrets_replace_in_tx_def elim!: sbind_InrE)
  from statement_Inr [OF del [unfolded epoch_secrets_delete_in_tx_def]] obtain b where b: "to_sql GC g = Inr b"
    and d1: "tables d1 = tables d\<lparr>epoch_message_secrets := delete_rows (\<lambda>k. fst k = b) (epoch_message_secrets (tables d))\<rparr>"
    by auto
  let ?t = "delete_rows (\<lambda>k. fst k = b) (epoch_message_secrets (tables d))"
  let ?kvs = "map (\<lambda>(n, bs). ((b, int (unat n)), bs)) ms"
  have u: "versioned_key_unique ?t" by (rule upsert_table.unique_delete [OF assms(2)])
  from epoch_secrets_stores [OF b rest] d1
  have t: "tables d' = tables d\<lparr>epoch_message_secrets := fold (\<lambda>(k, v). upsert k v) ?kvs ?t\<rparr>"
    and fit: "\<forall>(n, bs) \<in> set ms. unat n < 2 ^ 63" by auto
  note all = upsert_table.lookup_store_all [OF u, of _ ?kvs]
  have "lookup (c, int (unat n)) (epoch_message_secrets (tables d')) =
      (if c = b then map_of (rev ms) n else lookup (c, int (unat n)) (epoch_message_secrets (tables d)))" for c n
    using all [of "(c, int (unat n))"] t map_of_epochs [of b "rev ms" c n]
    by (simp add: lookup_delete rev_map split: option.splits)
  with that [OF b _ _ fit] t all show thesis by simp
qed

section \<open>Properties\<close>

text \<open>C10: replacing the message secrets of a group is exact and atomic. If it succeeds, every epoch of the
  batch fits a signed 64-bit integer, loading an epoch of this group gives the last secrets the batch
  has for it and nothing for an epoch that is not in the batch, every epoch of every other group loads
  as before and no other table changes; if it fails, no table changes.\<close>

theorem replace_epoch_secrets_exact:
  assumes run: "replace_group_epoch_message_secrets GC g ms d = (r, d')"
    and uniq: "versioned_key_unique (epoch_message_secrets (tables d))"
    and roundtrip: "codec_roundtrip GC"
    and g': "to_sql GC g' = Inr b'" and n: "unat n < 2 ^ 63"
    and d2: "tables d2 = tables d'" "faults d2 = []"
    and d3: "tables d3 = tables d" "faults d3 = []"
  shows "(case r of
      Inl _ \<Rightarrow> tables d' = tables d
    | Inr _ \<Rightarrow> (\<forall>(m, bs) \<in> set ms. unat m < 2 ^ 63) \<and>
        fst (epoch_secrets_load GC g' n d2) =
          (if g' = g then Inr (map_of (rev ms) n) else fst (epoch_secrets_load GC g' n d3)) \<and>
        tables d' = tables d\<lparr>epoch_message_secrets := epoch_message_secrets (tables d')\<rparr>)"
proof (cases r)
  case (Inl e)
  with transaction_result [OF run [unfolded replace_group_epoch_message_secrets_def]] show ?thesis by auto
next
  case (Inr u)
  with transaction_result [OF run [unfolded replace_group_epoch_message_secrets_def]] obtain d1 e2
    where d1: "tables d1 = tables d" and body: "epoch_secrets_replace_in_tx GC g ms d1 = (Inr u, e2)"
      and e2: "tables d' = tables e2" by auto
  from uniq d1 have "versioned_key_unique (epoch_message_secrets (tables d1))" by simp
  from body this obtain b where b: "to_sql GC g = Inr b"
    and l: "\<And>c n. lookup (c, int (unat n)) (epoch_message_secrets (tables e2)) =
      (if c = b then map_of (rev ms) n else lookup (c, int (unat n)) (epoch_message_secrets (tables d1)))"
    and rest: "tables e2 = tables d1\<lparr>epoch_message_secrets := epoch_message_secrets (tables e2)\<rparr>"
      "\<forall>(n, bs) \<in> set ms. unat n < 2 ^ 63"
    by (rule epoch_secrets_replaced) blast
  have "b' = b \<longleftrightarrow> g' = g" by (rule to_sql_inject [OF roundtrip g' b])
  then have "fst (epoch_secrets_load GC g' n d2) =
      (if g' = g then Inr (map_of (rev ms) n) else fst (epoch_secrets_load GC g' n d3))"
    using epoch_secrets_load_healthy [OF d2(2) g' n] epoch_secrets_load_healthy [OF d3(2) g' n] l [of b' n] d1 e2 d2 d3
    by simp
  with rest Inr d1 e2 show ?thesis by simp
qed

text \<open>Pruning keeps exactly the window. After a successful prune, loading an epoch of the group gives
  what it gave before if the epoch is between the first one to keep and the current one, and nothing
  otherwise; every other group is as before, and no other table changes.\<close>

theorem prune_epoch_secrets_window:
  assumes run: "epoch_secrets_prune GC g keep_from current d = (Inr (), d')"
    and roundtrip: "codec_roundtrip GC"
    and g': "to_sql GC g' = Inr b'" and n: "unat n < 2 ^ 63"
    and d2: "tables d2 = tables d'" "faults d2 = []"
    and d3: "tables d3 = tables d" "faults d3 = []"
  shows "fst (epoch_secrets_load GC g' n d2) =
      (if g' = g \<and> (n < keep_from \<or> n > current) then Inr None else fst (epoch_secrets_load GC g' n d3)) \<and>
    tables d' = tables d\<lparr>epoch_message_secrets := epoch_message_secrets (tables d')\<rparr>"
proof -
  from pooled_Inr [OF run [unfolded epoch_secrets_prune_def]] obtain d1
    where d1: "tables d1 = tables d" and body: "epoch_secrets_prune_in_tx GC g keep_from current d1 = (Inr (), d')" by blast
  from statement_Inr [OF body [unfolded epoch_secrets_prune_in_tx_def]] obtain b
    where b: "to_sql GC g = Inr b" and t: "tables d' = tables d\<lparr>epoch_message_secrets :=
        delete_rows (\<lambda>k. fst k = b \<and> (snd k < int (unat keep_from) \<or> snd k > int (unat current)))
          (epoch_message_secrets (tables d))\<rparr>"
    using d1 by (auto simp: rbind_Inr_iff u64_to_sql_Inr_iff)
  have "b' = b \<longleftrightarrow> g' = g" by (rule to_sql_inject [OF roundtrip g' b])
  moreover have "int (unat n) < int (unat keep_from) \<longleftrightarrow> n < keep_from" "int (unat current) < int (unat n) \<longleftrightarrow> current < n"
    by (simp_all only: word_less_nat_alt of_nat_less_iff)
  ultimately show ?thesis
    using epoch_secrets_load_healthy [OF d2(2) g' n] epoch_secrets_load_healthy [OF d3(2) g' n] t d2 d3
    by (auto simp: lookup_delete simp del: of_nat_unat)
qed

text \<open>An epoch that does not fit a signed 64-bit integer is never stored: the store fails whatever the
  engine does and changes no table.\<close>

theorem epoch_secrets_store_bounded:
  assumes "2 ^ 63 \<le> unat n"
  shows "\<exists>e. fst (epoch_secrets_store GC g n bs d) = Inl e \<and> tables (snd (epoch_secrets_store GC g n bs d)) = tables d"
proof -
  obtain r d' where run: "epoch_secrets_store GC g n bs d = (r, d')" by fastforce
  from pooled_result [OF run [unfolded epoch_secrets_store_def]] show ?thesis
  proof (elim disjE exE conjE)
    fix d1
    assume d1: "tables d1 = tables d" and st: "epoch_secrets_store_in_tx GC g n bs d1 = (r, d')"
    have "epoch_secrets_key GC g n \<noteq> Inr k" for k using assms by (auto simp: epoch_secrets_key_Inr_iff)
    with statement_result [OF st [unfolded epoch_secrets_store_in_tx_def]] d1 run show ?thesis
      by (auto split: sum.splits)
  qed (use run in auto)
qed

section \<open>Examples\<close>

definition sample_epochs :: db where
  "sample_epochs = empty_db\<lparr>tables := empty_tables\<lparr>epoch_message_secrets :=
     [(([7], 1), STORAGE_PROVIDER_VERSION, [1]), (([7], 2), STORAGE_PROVIDER_VERSION, [2]),
      (([7], 3), STORAGE_PROVIDER_VERSION, [3]), (([8], 1), STORAGE_PROVIDER_VERSION, [4])]\<rparr>\<rparr>"

theorem replace_epoch_secrets_exact_witness:
  "fst (epoch_secrets_load bytes_codec [7] 5
      (snd (replace_group_epoch_message_secrets bytes_codec [7] [(5, [50]), (6, [60]), (5, [51])] sample_epochs))) =
    Inr (Some [51])"
proof -
  let ?ms = "[(5, [50]), (6, [60]), (5, [51])] :: (u64 \<times> bytes) list"
  let ?run = "replace_group_epoch_message_secrets bytes_codec [7] ?ms sample_epochs"
  have run: "?run = (Inr (), snd ?run)" by code_simp
  have uniq: "versioned_key_unique (epoch_message_secrets (tables sample_epochs))" by code_simp
  have f: "faults (snd ?run) = []" "faults sample_epochs = []" by code_simp+
  have "unat (5 :: u64) < 2 ^ 63" by simp
  from replace_epoch_secrets_exact
    [OF run uniq bytes_codec_roundtrip(1) bytes_codec_roundtrip(2) [of "[7]"] this refl f(1) refl f(2)]
  show ?thesis by simp
qed

theorem prune_epoch_secrets_window_witness:
  "fst (epoch_secrets_load bytes_codec [7] 1 (snd (epoch_secrets_prune bytes_codec [7] 2 2 sample_epochs))) = Inr None"
proof -
  let ?run = "epoch_secrets_prune bytes_codec [7] 2 2 sample_epochs"
  have run: "?run = (Inr (), snd ?run)" by code_simp
  have f: "faults (snd ?run) = []" "faults sample_epochs = []" by code_simp+
  have "unat (1 :: u64) < 2 ^ 63" by simp
  from prune_epoch_secrets_window
    [OF run bytes_codec_roundtrip(1) bytes_codec_roundtrip(2) [of "[7]"] this refl f(1) refl f(2)]
  show ?thesis by simp
qed

theorem epoch_secrets_store_bounded_witness:
  "\<exists>e. fst (epoch_secrets_store bytes_codec [7] 9223372036854775808 [1] sample_epochs) = Inl e \<and>
     tables (snd (epoch_secrets_store bytes_codec [7] 9223372036854775808 [1] sample_epochs)) = tables sample_epochs"
  by (rule epoch_secrets_store_bounded) simp

end
