(* ===== verification/Storage_Messages.thy ===== *)
theory Storage_Messages
  imports Sqlite_Model
begin

text \<open>
  The cache of decrypted application messages (\<open>decrypted_application_messages.rs\<close>). Times are only
  compared, so they are integers. An entry is kept until it expires: inserting over a live entry does
  nothing, inserting over an expired one replaces it, and a load never returns an expired entry.
\<close>

section \<open>Operations\<close>

definition message_key :: "'g codec \<Rightarrow> 'g \<Rightarrow> string \<Rightarrow> sql_error + bytes \<times> string" where
  "message_key GC group_id message_id = rbind (to_sql GC group_id) (\<lambda>g. Inr (g, message_id))"

definition message_load_in_connection ::
    "'g codec \<Rightarrow> 'g \<Rightarrow> string \<Rightarrow> int \<Rightarrow> decrypted_application_message option sql_action" where
  "message_load_in_connection GC group_id message_id now =
     sbind (query (message_key GC group_id message_id) (\<lambda>k t.
       filter (\<lambda>e. expires_at e > now) (map row_value (select_rows (\<lambda>k'. k' = k) (decrypted_messages t))))) (\<lambda>rows.
     slift (optional_row Inr rows))"

definition message_load ::
    "'g codec \<Rightarrow> 'g \<Rightarrow> string \<Rightarrow> int \<Rightarrow> decrypted_application_message option sql_action" where
  "message_load GC group_id message_id now = pooled (message_load_in_connection GC group_id message_id now)"

definition message_load_in_tx ::
    "'g codec \<Rightarrow> 'g \<Rightarrow> string \<Rightarrow> int \<Rightarrow> decrypted_application_message option sql_action" where
  "message_load_in_tx GC group_id message_id now = message_load_in_connection GC group_id message_id now"

text \<open>
  \<open>INSERT .. ON CONFLICT(group_id, message_id) DO UPDATE .. WHERE expires_at <= excluded.created_at\<close>:
  the conflict is on the primary key, whatever the version of the row.
\<close>

definition insert_unless_live ::
    "'k \<Rightarrow> decrypted_application_message \<Rightarrow> ('k, decrypted_application_message) row list
      \<Rightarrow> ('k, decrypted_application_message) row list" where
  "insert_unless_live k entry t =
     (if \<exists>r \<in> set t. row_key r = k
      then map (\<lambda>r. if row_key r = k \<and> expires_at (row_value r) \<le> created_at entry
                     then (k, STORAGE_PROVIDER_VERSION, entry) else r) t
      else t @ [(k, STORAGE_PROVIDER_VERSION, entry)])"

definition message_insert_in_connection ::
    "'g codec \<Rightarrow> 'g \<Rightarrow> string \<Rightarrow> decrypted_application_message \<Rightarrow> unit sql_action" where
  "message_insert_in_connection GC group_id message_id entry =
     statement (message_key GC group_id message_id) (\<lambda>k. decrypted_messages_update (insert_unless_live k entry))"

definition message_insert ::
    "'g codec \<Rightarrow> 'g \<Rightarrow> string \<Rightarrow> decrypted_application_message \<Rightarrow> unit sql_action" where
  "message_insert GC group_id message_id entry = pooled (message_insert_in_connection GC group_id message_id entry)"

definition message_insert_in_tx ::
    "'g codec \<Rightarrow> 'g \<Rightarrow> string \<Rightarrow> decrypted_application_message \<Rightarrow> unit sql_action" where
  "message_insert_in_tx GC group_id message_id entry = message_insert_in_connection GC group_id message_id entry"

definition prune_rows ::
    "int \<Rightarrow> ('k, decrypted_application_message) row list \<Rightarrow> ('k, decrypted_application_message) row list" where
  "prune_rows now t =
     filter (\<lambda>r. \<not> (row_version r = STORAGE_PROVIDER_VERSION \<and> expires_at (row_value r) \<le> now)) t"

definition message_prune_in_connection :: "int \<Rightarrow> unit sql_action" where
  "message_prune_in_connection now = statement (Inr ()) (\<lambda>_. decrypted_messages_update (prune_rows now))"

definition message_prune :: "int \<Rightarrow> unit sql_action" where
  "message_prune now = pooled (message_prune_in_connection now)"

definition message_prune_in_tx :: "int \<Rightarrow> unit sql_action" where
  "message_prune_in_tx now = message_prune_in_connection now"

definition message_delete_in_connection :: "'g codec \<Rightarrow> 'g \<Rightarrow> unit sql_action" where
  "message_delete_in_connection GC group_id =
     statement (to_sql GC group_id) (\<lambda>g. decrypted_messages_update (delete_rows (\<lambda>k. fst k = g)))"

definition message_delete :: "'g codec \<Rightarrow> 'g \<Rightarrow> unit sql_action" where
  "message_delete GC group_id = pooled (message_delete_in_connection GC group_id)"

definition message_delete_in_tx :: "'g codec \<Rightarrow> 'g \<Rightarrow> unit sql_action" where
  "message_delete_in_tx GC group_id = message_delete_in_connection GC group_id"

section \<open>The methods of the two providers\<close>

definition sp_load_decrypted_application_message ::
    "'g codec \<Rightarrow> 'g \<Rightarrow> string \<Rightarrow> int \<Rightarrow> decrypted_application_message option sql_action" where
  "sp_load_decrypted_application_message GC group_id message_id now = message_load GC group_id message_id now"

definition sp_insert_decrypted_application_message ::
    "'g codec \<Rightarrow> 'g \<Rightarrow> string \<Rightarrow> decrypted_application_message \<Rightarrow> unit sql_action" where
  "sp_insert_decrypted_application_message GC group_id message_id entry = message_insert GC group_id message_id entry"

definition sp_prune_decrypted_application_messages :: "int \<Rightarrow> unit sql_action" where
  "sp_prune_decrypted_application_messages now = message_prune now"

definition sp_delete_decrypted_application_messages :: "'g codec \<Rightarrow> 'g \<Rightarrow> unit sql_action" where
  "sp_delete_decrypted_application_messages GC group_id = message_delete GC group_id"

definition tx_load_decrypted_application_message ::
    "'g codec \<Rightarrow> 'g \<Rightarrow> string \<Rightarrow> int \<Rightarrow> decrypted_application_message option sql_action" where
  "tx_load_decrypted_application_message GC group_id message_id now = message_load_in_tx GC group_id message_id now"

definition tx_insert_decrypted_application_message ::
    "'g codec \<Rightarrow> 'g \<Rightarrow> string \<Rightarrow> decrypted_application_message \<Rightarrow> unit sql_action" where
  "tx_insert_decrypted_application_message GC group_id message_id entry =
     message_insert_in_tx GC group_id message_id entry"

definition tx_prune_decrypted_application_messages :: "int \<Rightarrow> unit sql_action" where
  "tx_prune_decrypted_application_messages now = message_prune_in_tx now"

definition tx_delete_decrypted_application_messages :: "'g codec \<Rightarrow> 'g \<Rightarrow> unit sql_action" where
  "tx_delete_decrypted_application_messages GC group_id = message_delete_in_tx GC group_id"

section \<open>The entry a key has at a time\<close>

text \<open>
  A row of another provider version occupies its key but is never returned, so the specification is
  over rows: the row of a key, and what it shows at a time.
\<close>

definition row_of :: "'k \<Rightarrow> ('k, 'v) row list \<Rightarrow> ('k, 'v) row option" where
  "row_of k t = find (\<lambda>r. row_key r = k) t"

definition shown :: "int \<Rightarrow> ('k, decrypted_application_message) row option \<Rightarrow> decrypted_application_message option" where
  "shown now found =
     (case found of
        Some r \<Rightarrow> if row_version r = STORAGE_PROVIDER_VERSION \<and> now < expires_at (row_value r)
                  then Some (row_value r) else None
      | None \<Rightarrow> None)"

lemma message_key_Inr_iff:
  "message_key GC g m = Inr k \<longleftrightarrow> (\<exists>b. to_sql GC g = Inr b \<and> k = (b, m))"
  by (auto simp: message_key_def rbind_Inr_iff)

lemma key_unique_Cons: "key_unique (r # t) \<longleftrightarrow> (\<forall>q \<in> set t. row_key q \<noteq> row_key r) \<and> key_unique t"
  by (auto simp: key_unique_def image_iff dest: sym)

lemma row_of_Cons: "row_of k (r # t) = (if row_key r = k then Some r else row_of k t)"
  by (simp add: row_of_def)

lemma row_of_None_iff: "row_of k t = None \<longleftrightarrow> (\<forall>r \<in> set t. row_key r \<noteq> k)"
  by (auto simp: row_of_def find_None_iff)

lemma select_live:
  "key_unique t \<Longrightarrow>
     filter (\<lambda>e. expires_at e > now) (map row_value (select_rows (\<lambda>k'. k' = k) t)) =
       (case shown now (row_of k t) of None \<Rightarrow> [] | Some e \<Rightarrow> [e])"
proof (induction t)
  case Nil
  then show ?case by (simp add: select_rows_def row_of_def shown_def)
next
  case (Cons r t)
  show ?case
  proof (cases "row_key r = k")
    case True
    with Cons.prems have "row_of k t = None" by (auto simp: key_unique_Cons row_of_None_iff)
    with True Cons show ?thesis
      by (auto simp: key_unique_Cons select_rows_def matches_def row_of_Cons shown_def)
  next
    case False
    with Cons show ?thesis by (simp add: key_unique_Cons select_rows_def matches_def row_of_Cons)
  qed
qed


section \<open>What the operations do to it\<close>

lemma row_of_insert:
  "row_of j (insert_unless_live k entry t) =
     (if j = k \<and> (\<forall>r. row_of k t = Some r \<longrightarrow> expires_at (row_value r) \<le> created_at entry)
      then Some (k, STORAGE_PROVIDER_VERSION, entry) else row_of j t)"
proof (cases "\<exists>r \<in> set t. row_key r = k")
  case False
  then have "row_of k t = None" by (simp add: row_of_None_iff)
  moreover have "row_of j (t @ [(k, STORAGE_PROVIDER_VERSION, entry)]) =
      (case row_of j t of None \<Rightarrow> if j = k then Some (k, STORAGE_PROVIDER_VERSION, entry) else None | Some r \<Rightarrow> Some r)"
    by (induction t) (auto simp: row_of_def row_key_def)
  moreover have "insert_unless_live k entry t = t @ [(k, STORAGE_PROVIDER_VERSION, entry)]"
    using False by (simp only: insert_unless_live_def if_False)
  ultimately show ?thesis by (auto split: option.splits)
next
  case True
  have "row_of j (map (\<lambda>r. if row_key r = k \<and> expires_at (row_value r) \<le> created_at entry
                     then (k, STORAGE_PROVIDER_VERSION, entry) else r) t) =
      (if j = k \<and> (\<exists>r. row_of k t = Some r \<and> expires_at (row_value r) \<le> created_at entry)
       then Some (k, STORAGE_PROVIDER_VERSION, entry) else row_of j t)"
    by (induction t) (auto simp: row_of_def row_key_def)
  moreover from True have "row_of k t \<noteq> None" by (simp add: row_of_None_iff)
  ultimately show ?thesis using True by (simp only: insert_unless_live_def if_True) auto
qed

lemma key_unique_insert: "key_unique t \<Longrightarrow> key_unique (insert_unless_live k entry t)"
proof (cases "\<exists>r \<in> set t. row_key r = k")
  case True
  have "map row_key (map (\<lambda>r. if row_key r = k \<and> expires_at (row_value r) \<le> created_at entry
                     then (k, STORAGE_PROVIDER_VERSION, entry) else r) t) = map row_key t"
    by (induction t) (auto simp: row_key_def)
  then show "key_unique t \<Longrightarrow> ?thesis" using True by (simp only: insert_unless_live_def key_unique_def if_True)
next
  case False
  then have "k \<notin> set (map row_key t)" by auto
  then show "key_unique t \<Longrightarrow> ?thesis"
    using False by (simp only: insert_unless_live_def key_unique_def if_False) (simp add: row_key_def)
qed

lemma key_unique_prune: "key_unique t \<Longrightarrow> key_unique (prune_rows now t)"
  by (simp add: key_unique_def prune_rows_def distinct_map_filter)

lemma shown_prune:
  "key_unique t \<Longrightarrow> shown later (row_of k (prune_rows now t)) =
     (case row_of k t of None \<Rightarrow> None
      | Some r \<Rightarrow> if expires_at (row_value r) \<le> now then None else shown later (Some r))"
proof (induction t)
  case Nil
  then show ?case by (simp add: prune_rows_def row_of_def shown_def)
next
  case (Cons r t)
  show ?case
  proof (cases "row_key r = k")
    case True
    with Cons.prems have "row_of k (prune_rows now t) = None"
      by (auto simp: key_unique_Cons row_of_None_iff prune_rows_def)
    with True show ?thesis by (auto simp: prune_rows_def row_of_Cons shown_def)
  next
    case False
    with Cons show ?thesis by (simp add: key_unique_Cons row_of_Cons prune_rows_def)
  qed
qed

lemma shown_prune_later:
  assumes "key_unique t" and "now \<le> later"
  shows "shown later (row_of k (prune_rows now t)) = shown later (row_of k t)"
  using assms(2) unfolding shown_prune [OF assms(1)] by (auto simp: shown_def split: option.split)

text \<open>On a healthy engine a load returns what is shown and changes nothing.\<close>

lemma message_load_healthy:
  assumes "faults d = []" and "to_sql GC g = Inr b" and "key_unique (decrypted_messages (tables d))"
  shows "message_load_in_connection GC g m now d =
    (Inr (shown now (row_of (b, m) (decrypted_messages (tables d)))), d)"
  using assms
  by (auto simp: message_load_in_connection_def message_key_def sbind_def query_healthy select_live optional_row_def
      split: option.splits)

section \<open>Properties\<close>

text \<open>C18: inserting into the cache of decrypted messages never overwrites a live entry. After a
  successful insert, a load of the same message at any time shows the old row if there was one that
  had not expired when the new entry was created, and the new entry otherwise; it never shows an
  entry that has expired; every other message of every group is as before, and no other table
  changes.\<close>

theorem message_insert_first_wins:
  assumes ins: "message_insert GC g m entry d = (Inr (), d1)"
    and uniq: "key_unique (decrypted_messages (tables d))"
    and roundtrip: "codec_roundtrip GC"
    and b: "to_sql GC g = Inr b" and b': "to_sql GC g' = Inr b'"
    and later: "tables d2 = tables d1" "faults d2 = []"
  shows "message_load GC g' m' now d2 =
      (Inr (if g' = g \<and> m' = m then
              (case row_of (b, m) (decrypted_messages (tables d)) of
                 Some old \<Rightarrow> if created_at entry < expires_at (row_value old) then shown now (Some old)
                             else if now < expires_at entry then Some entry else None
               | None \<Rightarrow> if now < expires_at entry then Some entry else None)
            else shown now (row_of (b', m') (decrypted_messages (tables d)))), d2) \<and>
    tables d1 = tables d\<lparr>decrypted_messages := decrypted_messages (tables d1)\<rparr>"
proof -
  have same: "b' = b \<longleftrightarrow> g' = g" using to_sql_inject [OF roundtrip b' b] b b' by auto
  from pooled_Inr [OF ins [unfolded message_insert_def]] obtain d0
    where d0: "tables d0 = tables d" "message_insert_in_connection GC g m entry d0 = (Inr (), d1)" by blast
  from statement_result [OF d0(2) [unfolded message_insert_in_connection_def]] b d0(1)
  have t: "tables d1 = tables d\<lparr>decrypted_messages := insert_unless_live (b, m) entry (decrypted_messages (tables d))\<rparr>"
    by (auto simp: message_key_Inr_iff)
  have "message_load GC g' m' now d2 =
      (Inr (shown now (row_of (b', m') (insert_unless_live (b, m) entry (decrypted_messages (tables d))))), d2)"
    using message_load_healthy [OF later(2) b', of m' now] later uniq t
    by (simp add: message_load_def pooled_healthy key_unique_insert)
  with t same show ?thesis
    by (auto simp: row_of_insert shown_def row_value_def row_version_def split: option.splits)
qed

definition sample_entry :: "bytes \<Rightarrow> int \<Rightarrow> int \<Rightarrow> decrypted_application_message" where
  "sample_entry p from until = \<lparr>ciphertext_digest = [1], plaintext = p, created_at = from, expires_at = until\<rparr>"

definition sample_cache :: db where
  "sample_cache = empty_db\<lparr>tables := empty_tables\<lparr>decrypted_messages :=
     [(([7], ''m''), STORAGE_PROVIDER_VERSION, sample_entry [10] 0 100),
      (([7], ''n''), STORAGE_PROVIDER_VERSION, sample_entry [11] 0 50)]\<rparr>\<rparr>"

text \<open>An entry that lives until 100 survives an insert at time 60.\<close>

theorem message_insert_first_wins_witness:
  "fst (message_load bytes_codec [7] ''m'' 70 (snd (message_insert bytes_codec [7] ''m'' (sample_entry [12] 60 160) sample_cache))) =
     Inr (Some (sample_entry [10] 0 100))"
proof -
  let ?d1 = "snd (message_insert bytes_codec [7] ''m'' (sample_entry [12] 60 160) sample_cache)"
  have "message_insert bytes_codec [7] ''m'' (sample_entry [12] 60 160) sample_cache = (Inr (), ?d1)"
    by code_simp
  moreover have "key_unique (decrypted_messages (tables sample_cache))" by code_simp
  moreover have "faults ?d1 = []" by code_simp
  ultimately have "message_load bytes_codec [7] ''m'' 70 ?d1 =
      (Inr (case row_of ([7], ''m'') (decrypted_messages (tables sample_cache)) of
                 Some old \<Rightarrow> if created_at (sample_entry [12] 60 160) < expires_at (row_value old) then shown 70 (Some old)
                             else if 70 < expires_at (sample_entry [12] 60 160) then Some (sample_entry [12] 60 160) else None
               | None \<Rightarrow> if 70 < expires_at (sample_entry [12] 60 160) then Some (sample_entry [12] 60 160) else None), ?d1)"
    using message_insert_first_wins
      [of bytes_codec "[7]" "''m''" "sample_entry [12] 60 160" sample_cache ?d1 "[7]" "[7]" "[7]" ?d1 "''m''" 70]
    by simp
  moreover have "row_of ([7], ''m'') (decrypted_messages (tables sample_cache)) =
      Some (([7], ''m''), STORAGE_PROVIDER_VERSION, sample_entry [10] 0 100)" by code_simp
  ultimately show ?thesis by (simp add: sample_entry_def shown_def row_value_def row_version_def)
qed

text \<open>Pruning the cache is invisible to every later reader. After a successful prune at a time, a
  load at that time or later returns exactly what it returned before, for every message.\<close>

theorem message_prune_invisible:
  assumes pr: "message_prune t0 d = (Inr (), d1)"
    and uniq: "key_unique (decrypted_messages (tables d))"
    and d2: "tables d2 = tables d1" "faults d2 = []"
    and d3: "tables d3 = tables d" "faults d3 = []"
    and now: "t0 \<le> now"
  shows "fst (message_load GC g m now d2) = fst (message_load GC g m now d3)"
proof (cases "to_sql GC g")
  case (Inl e)
  with d2 d3 show ?thesis
    by (simp add: message_load_def message_load_in_connection_def pooled_healthy sbind_def query_healthy message_key_def)
next
  case (Inr b)
  from pooled_Inr [OF pr [unfolded message_prune_def]] obtain d0
    where d0: "tables d0 = tables d" "message_prune_in_connection t0 d0 = (Inr (), d1)" by blast
  from statement_result [OF d0(2) [unfolded message_prune_in_connection_def]] d0(1)
  have "tables d1 = tables d\<lparr>decrypted_messages := prune_rows t0 (decrypted_messages (tables d))\<rparr>" by simp
  with d2 d3 uniq now Inr show ?thesis
    using message_load_healthy [OF d2(2) Inr, of m now] message_load_healthy [OF d3(2) Inr, of m now]
    by (simp add: message_load_def pooled_healthy key_unique_prune shown_prune_later)
qed

theorem message_prune_invisible_witness:
  "fst (message_load bytes_codec [7] ''m'' 70 (snd (message_prune 60 sample_cache))) =
     fst (message_load bytes_codec [7] ''m'' 70 sample_cache) \<and>
   length (decrypted_messages (tables (snd (message_prune 60 sample_cache)))) = 1"
proof
  have pr: "message_prune 60 sample_cache = (Inr (), snd (message_prune 60 sample_cache))" by code_simp
  have uniq: "key_unique (decrypted_messages (tables sample_cache))" by code_simp
  have f: "faults (snd (message_prune 60 sample_cache)) = []" "faults sample_cache = []" by code_simp+
  show "fst (message_load bytes_codec [7] ''m'' 70 (snd (message_prune 60 sample_cache))) =
      fst (message_load bytes_codec [7] ''m'' 70 sample_cache)"
    by (rule message_prune_invisible [OF pr uniq refl f(1) refl f(2)]) simp
  show "length (decrypted_messages (tables (snd (message_prune 60 sample_cache)))) = 1" by code_simp
qed

end
