(* ===== verification/Storage_Delete.thy ===== *)
theory Storage_Delete
  imports Storage_Epoch Storage_Messages
begin

text \<open>
  Deleting a group (\<open>group_delete.rs\<close>) inside a transaction of the caller, and the context it adds to
  the engine's failures (\<open>sqlite_error_context\<close> of \<open>storage_provider.rs\<close>). How the engine prints its
  failure codes is the engine's: \<open>disp\<close> and \<open>dbg\<close> are its \<open>Display\<close> and \<open>Debug\<close> of a code.
\<close>

section \<open>Operations\<close>

definition sqlite_error_context :: "(int \<Rightarrow> string) \<Rightarrow> (int \<Rightarrow> string) \<Rightarrow> sql_error \<Rightarrow> string \<Rightarrow> sql_error" where
  "sqlite_error_context disp dbg err ctxt =
     (case err of
        SqliteFailure code detail \<Rightarrow>
          (let detail = (case detail of Some s \<Rightarrow> s | None \<Rightarrow> disp code)
           in SqliteFailure code (Some (ctxt @ '': '' @ detail @ '' ('' @ dbg code @ '')'')))
      | other \<Rightarrow> other)"

text \<open>The tables with a \<open>group_id\<close> column, in the order they are cleared.\<close>

definition group_tables :: "string list" where
  "group_tables =
     [''openmls_group_data'', ''openmls_epoch_keys_pairs'', ''openmls_own_leaf_nodes'', ''openmls_proposals'',
      ''openmls_group_epoch_message_secrets'', ''openmls_decrypted_application_messages'']"

text \<open>\<open>DELETE FROM {table} WHERE provider_version = ?1 AND group_id = ?2\<close> for each of them.\<close>

definition delete_from :: "string \<Rightarrow> bytes \<Rightarrow> tables \<Rightarrow> tables" where
  "delete_from table g =
     (if table = ''openmls_group_data'' then group_data_update (delete_rows (\<lambda>k. fst k = g))
      else if table = ''openmls_epoch_keys_pairs'' then epoch_keys_pairs_update (delete_rows (\<lambda>k. fst k = g))
      else if table = ''openmls_own_leaf_nodes'' then own_leaf_nodes_update (delete_rows (\<lambda>k. k = g))
      else if table = ''openmls_proposals'' then proposals_update (delete_rows (\<lambda>k. fst k = g))
      else if table = ''openmls_group_epoch_message_secrets'' then epoch_message_secrets_update (delete_rows (\<lambda>k. fst k = g))
      else if table = ''openmls_decrypted_application_messages'' then decrypted_messages_update (delete_rows (\<lambda>k. fst k = g))
      else id)"

definition delete_group_by_id ::
    "(int \<Rightarrow> string) \<Rightarrow> (int \<Rightarrow> string) \<Rightarrow> 'g codec \<Rightarrow> 'g \<Rightarrow> unit sql_action" where
  "delete_group_by_id disp dbg GC group_id =
     sforeach group_tables (\<lambda>table.
       smap_err (\<lambda>err. sqlite_error_context disp dbg err (''delete_group MLS table '' @ table))
         (statement (to_sql GC group_id) (delete_from table)))"

section \<open>Lemmas\<close>

text \<open>All the rows of a group, gone from the six tables.\<close>

definition without_group :: "bytes \<Rightarrow> tables \<Rightarrow> tables" where
  "without_group g t =
     t\<lparr>group_data := delete_rows (\<lambda>k. fst k = g) (group_data t),
       epoch_keys_pairs := delete_rows (\<lambda>k. fst k = g) (epoch_keys_pairs t),
       own_leaf_nodes := delete_rows (\<lambda>k. k = g) (own_leaf_nodes t),
       proposals := delete_rows (\<lambda>k. fst k = g) (proposals t),
       epoch_message_secrets := delete_rows (\<lambda>k. fst k = g) (epoch_message_secrets t),
       decrypted_messages := delete_rows (\<lambda>k. fst k = g) (decrypted_messages t)\<rparr>"

lemma fold_delete_from: "fold (\<lambda>table. delete_from table g) group_tables t = without_group g t"
  by (simp add: group_tables_def delete_from_def without_group_def)

lemma smap_err_Inr: "smap_err f m s = (Inr a, s') \<longleftrightarrow> m s = (Inr a, s')"
  by (auto simp: smap_err_def split: prod.splits)

lemma smap_err_Inl: "smap_err f m s = (Inl e, s') \<longleftrightarrow> (\<exists>e0. m s = (Inl e0, s') \<and> e = f e0)"
proof (cases "m s")
  case (Pair r t)
  then show ?thesis by (cases r) (auto simp: smap_err_def)
qed

lemma delete_tables_done:
  "sforeach ts (\<lambda>table. smap_err (f table) (statement (to_sql GC g) (delete_from table))) d = (Inr u, d') \<Longrightarrow>
     ts \<noteq> [] \<Longrightarrow> \<exists>b. to_sql GC g = Inr b \<and> tables d' = fold (\<lambda>table. delete_from table b) ts (tables d)"
proof (induction ts arbitrary: d)
  case Nil
  then show ?case by simp
next
  case (Cons x ts)
  from Cons.prems obtain d1 where st: "statement (to_sql GC g) (delete_from x) d = (Inr (), d1)"
    and rest: "sforeach ts (\<lambda>table. smap_err (f table) (statement (to_sql GC g) (delete_from table))) d1 = (Inr u, d')"
    by (auto split: prod.splits sum.splits simp: smap_err_Inr)
  from statement_result [OF st] obtain b where b: "to_sql GC g = Inr b" "tables d1 = delete_from x b (tables d)"
    by auto
  show ?case
  proof (cases "ts = []")
    case True
    with rest b show ?thesis by simp
  next
    case False
    from Cons.IH [OF rest this] b show ?thesis by auto
  qed
qed

lemma delete_tables_failed:
  "sforeach ts (\<lambda>table. smap_err (f table) (statement (to_sql GC g) (delete_from table))) d = (Inl e, d') \<Longrightarrow>
     \<exists>table \<in> set ts. \<exists>e0. e = f table e0"
proof (induction ts arbitrary: d)
  case Nil
  then show ?case by simp
next
  case (Cons x ts)
  obtain r d1 where st: "smap_err (f x) (statement (to_sql GC g) (delete_from x)) d = (r, d1)" by fastforce
  show ?case
  proof (cases r)
    case (Inl e1)
    with st Cons.prems have "e = e1" by simp
    moreover from st Inl have "\<exists>e0. e1 = f x e0" by (auto simp: smap_err_Inl)
    ultimately show ?thesis by auto
  next
    case (Inr a)
    with st Cons.prems Cons.IH [of d1] show ?thesis by auto
  qed
qed

lemma delete_in_transaction_result:
  assumes "transaction (delete_group_by_id cdisp cdbg GC g) d = (r, d')"
  shows "(case r of Inl _ \<Rightarrow> tables d' = tables d
    | Inr _ \<Rightarrow> (\<exists>b. to_sql GC g = Inr b \<and> tables d' = without_group b (tables d)))"
proof (cases r)
  case (Inl e)
  with transaction_result [OF assms] show ?thesis by auto
next
  case (Inr u)
  with transaction_result [OF assms] obtain d1 d2 where d: "tables d1 = tables d"
    "delete_group_by_id cdisp cdbg GC g d1 = (Inr u, d2)" "tables d' = tables d2" by auto
  from delete_tables_done [OF d(2) [unfolded delete_group_by_id_def]] d Inr
  show ?thesis by (auto simp: fold_delete_from group_tables_def [THEN arg_cong, of "\<lambda>l. l = []"])
qed

section \<open>Properties\<close>

text \<open>C9: deleting a group inside a transaction is complete and atomic. If it succeeds, exactly the rows
  of that group (of this provider version) are gone from the six group tables, every other row
  survives in its order, and credentials, key packages, signature keys, pre-shared keys and the
  migration state are untouched; if any engine call fails, at any point, no table has changed.\<close>

theorem delete_group_complete_or_nothing:
  assumes "transaction (delete_group_by_id disp dbg GC g) d = (r, d')"
  shows "(case r of
      Inl _ \<Rightarrow> tables d' = tables d
    | Inr _ \<Rightarrow> (\<exists>b. to_sql GC g = Inr b \<and> tables d' = without_group b (tables d)))"
  using assms by (rule delete_in_transaction_result)

text \<open>A failure of the engine while a group is deleted keeps its code and says which table was being
  cleared; an error of another kind is passed on as it is.\<close>

theorem delete_group_error_context:
  assumes "delete_group_by_id disp dbg GC g d = (Inl e, d')"
  shows "\<exists>table \<in> set group_tables. \<exists>e0.
    e = (case e0 of
           SqliteFailure code detail \<Rightarrow>
             SqliteFailure code (Some (''delete_group MLS table '' @ table @ '': '' @
               (case detail of Some s \<Rightarrow> s | None \<Rightarrow> disp code) @ '' ('' @ dbg code @ '')''))
         | other \<Rightarrow> other)"
proof -
  from delete_tables_failed [OF assms [unfolded delete_group_by_id_def]] obtain table e0
    where "table \<in> set group_tables" "e = sqlite_error_context disp dbg e0 (''delete_group MLS table '' @ table)" by blast
  then show ?thesis
    by (intro bexI [of _ table] exI [of _ e0]) (auto simp: sqlite_error_context_def Let_def split: sql_error.split)
qed

section \<open>Examples\<close>

text \<open>Two groups; the third statement of the deletion fails, then a run without failures.\<close>

definition sample_groups :: db where
  "sample_groups = empty_db\<lparr>tables := empty_tables\<lparr>
     group_data := [(([7], ''tree''), STORAGE_PROVIDER_VERSION, [1]), (([8], ''tree''), STORAGE_PROVIDER_VERSION, [2])],
     proposals := [(([7], [1]), STORAGE_PROVIDER_VERSION, [3])],
     psks := [([7], STORAGE_PROVIDER_VERSION, [4])]\<rparr>\<rparr>"

definition failing_at :: "nat \<Rightarrow> db \<Rightarrow> db" where
  "failing_at n d = d\<lparr>faults := replicate n None @ [Some (SqliteFailure 10 None)]\<rparr>"

theorem delete_group_complete_or_nothing_witness:
  "fst (transaction (delete_group_by_id (\<lambda>_. ''disk'') (\<lambda>_. ''IO'') bytes_codec [7]) sample_groups) = Inr () \<and>
   tables (snd (transaction (delete_group_by_id (\<lambda>_. ''disk'') (\<lambda>_. ''IO'') bytes_codec [7]) sample_groups)) =
     without_group [7] (tables sample_groups)"
proof -
  let ?run = "transaction (delete_group_by_id (\<lambda>_. ''disk'') (\<lambda>_. ''IO'') bytes_codec [7]) sample_groups"
  have "fst ?run = Inr ()" by code_simp
  moreover from this have "?run = (Inr (), snd ?run)" by (metis prod.collapse)
  from delete_group_complete_or_nothing [OF this] have "tables (snd ?run) = without_group [7] (tables sample_groups)"
    by simp
  ultimately show ?thesis by blast
qed

theorem delete_group_error_context_witness:
  "\<exists>table \<in> set group_tables. fst (delete_group_by_id (\<lambda>_. ''disk'') (\<lambda>_. ''IO'') bytes_codec [7] (failing_at 5 sample_groups)) =
     Inl (SqliteFailure 10 (Some (''delete_group MLS table '' @ table @ '': disk (IO)'')))"
proof -
  let ?run = "delete_group_by_id (\<lambda>_. ''disk'') (\<lambda>_. ''IO'') bytes_codec [7] (failing_at 5 sample_groups)"
  let ?e = "SqliteFailure 10 (Some ''delete_group MLS table openmls_own_leaf_nodes: disk (IO)'')"
  have e: "fst ?run = Inl ?e" by code_simp
  then have "?run = (Inl ?e, snd ?run)" by (metis prod.collapse)
  from delete_group_error_context [OF this] obtain table e0 where "table \<in> set group_tables"
    and "?e = (case e0 of
           SqliteFailure code detail \<Rightarrow>
             SqliteFailure code (Some (''delete_group MLS table '' @ table @ '': '' @
               (case detail of Some s \<Rightarrow> s | None \<Rightarrow> ''disk'') @ '' ('' @ ''IO'' @ '')''))
         | other \<Rightarrow> other)" by blast
  then have "''openmls_own_leaf_nodes'' \<in> set group_tables" by (simp add: group_tables_def)
  then show ?thesis using e by (intro bexI [of _ "''openmls_own_leaf_nodes''"]) simp_all
qed

end
