(* ===== verification/Storage_Migrations.thy ===== *)
theory Storage_Migrations
  imports Sqlite_Model
begin

text \<open>
  Taking over the migration history of earlier releases (\<open>run_migrations\<close> and
  \<open>bootstrap_legacy_kchat_migration_history\<close> of \<open>storage_provider.rs\<close>). The embedded migrations and
  the migration runner come from the \<open>refinery\<close> package: arguments of the definitions.
\<close>

section \<open>Operations\<close>

definition LEGACY_KCHAT_MIGRATION_VERSION :: int where
  "LEGACY_KCHAT_MIGRATION_VERSION = 5"

text \<open>What the code reads of a \<open>refinery::Migration\<close>.\<close>

record migration =
  migration_version :: int
  migration_name :: string
  migration_checksum :: u64

text \<open>\<open>u64::to_string\<close>.\<close>

fun decimal :: "nat \<Rightarrow> string" where
  "decimal n = (if n < 10 then [char_of (48 + n)] else decimal (n div 10) @ [char_of (48 + n mod 10)])"

text \<open>\<open>migration_err(msg, None)\<close>: a \<open>refinery::Error\<close> with a message and its cause.\<close>

type_synonym migration_error = "string \<times> sql_error"

definition migration_err :: "string \<Rightarrow> 'a sql_action \<Rightarrow> (db, migration_error, 'a) action" where
  "migration_err msg f = smap_err (\<lambda>e. (msg, e)) f"

definition history_version :: "history_row \<Rightarrow> int" where
  "history_version r = fst r"

text \<open>\<open>row.get::<_, String>\<close>: a \<open>NULL\<close> is an error.\<close>

definition history_from_row :: "history_row \<Rightarrow> sql_error + int \<times> string \<times> string" where
  "history_from_row r =
     (case r of (version, name, applied_on, checksum) \<Rightarrow>
       rbind (ok_or InvalidColumnType name) (\<lambda>name.
       rbind (ok_or InvalidColumnType checksum) (\<lambda>checksum.
       Inr (version, name, checksum))))"

definition expected_migrations :: "migration list \<Rightarrow> (int \<times> string \<times> string) list" where
  "expected_migrations migrations =
     sort_key fst
       (map (\<lambda>m. (migration_version m, migration_name m, decimal (unat (migration_checksum m))))
         (filter (\<lambda>m. migration_version m \<le> LEGACY_KCHAT_MIGRATION_VERSION) migrations))"

definition commit_bootstrap :: "(db, migration_error, unit) action" where
  "commit_bootstrap = migration_err ''failed to finish KChat migration history bootstrap'' engine"

definition load_legacy_history :: "(db, migration_error, (int \<times> string \<times> string) list) action" where
  "load_legacy_history =
     sbind (migration_err ''failed to read legacy migration history'' engine) (\<lambda>_.
     sbind (migration_err ''failed to query legacy migration history'' engine) (\<lambda>_.
     migration_err ''failed to collect legacy migration history''
       (sbind engine (\<lambda>_ d.
         (collect_rows history_from_row
            (sort_key history_version (case legacy_history (tables d) of None \<Rightarrow> [] | Some rows \<Rightarrow> rows)), d)))))"

text \<open>The batch that creates the new history table and copies the legacy rows.\<close>

definition create_kchat_history :: "(db, migration_error, unit) action" where
  "create_kchat_history =
     migration_err ''failed to create KChat migration history table''
       (sbind (statement (Inr ()) (\<lambda>_. kchat_history_update (\<lambda>_. Some []))) (\<lambda>_.
        statement (Inr ()) (\<lambda>_ t. t\<lparr>kchat_history := map_option (sort_key history_version) (legacy_history t)\<rparr>)))"

definition bootstrap_from_legacy :: "migration list \<Rightarrow> (db, migration_error, unit) action" where
  "bootstrap_from_legacy migrations =
     sbind load_legacy_history (\<lambda>legacy_migrations.
     sbind (if legacy_migrations = expected_migrations migrations then create_kchat_history else sret ()) (\<lambda>_.
     commit_bootstrap))"

definition bootstrap_legacy_kchat_migration_history :: "migration list \<Rightarrow> (db, migration_error, unit) action" where
  "bootstrap_legacy_kchat_migration_history migrations =
     sbind (migration_err ''failed to start KChat migration history bootstrap'' engine) (\<lambda>_.
     rollback_on_error
      (sbind (migration_err ''failed to query KChat migration history table''
                (query (Inr ()) (\<lambda>_ t. kchat_history t \<noteq> None))) (\<lambda>kchat_history_exists.
       if kchat_history_exists then commit_bootstrap
       else
         sbind (migration_err ''failed to query legacy migration history table''
                  (query (Inr ()) (\<lambda>_ t. legacy_history t \<noteq> None))) (\<lambda>legacy_history_exists.
         if \<not> legacy_history_exists then commit_bootstrap
         else bootstrap_from_legacy migrations))))"

definition run_migrations ::
    "migration list \<Rightarrow> (migration list \<Rightarrow> (db, migration_error, unit) action) \<Rightarrow> (db, migration_error, unit) action" where
  "run_migrations migrations runner =
     sbind (migration_err ''failed to acquire pooled sqlite connection for migrations'' checkout) (\<lambda>_.
     sbind (bootstrap_legacy_kchat_migration_history migrations) (\<lambda>_.
     runner migrations))"

section \<open>What the bootstrap means\<close>

text \<open>The legacy history is taken over when it lists exactly the migrations up to version 5.\<close>

definition same_history :: "migration list \<Rightarrow> history_row list \<Rightarrow> bool" where
  "same_history migrations rows \<longleftrightarrow>
     map (\<lambda>(version, name, applied_on, checksum). (version, name, checksum)) (sort_key history_version rows) =
     map (\<lambda>(version, name, checksum). (version, Some name, Some checksum)) (expected_migrations migrations)"

definition adopt_history :: "migration list \<Rightarrow> tables \<Rightarrow> tables" where
  "adopt_history migrations t =
     (case (kchat_history t, legacy_history t) of
        (None, Some rows) \<Rightarrow>
          if same_history migrations rows then t\<lparr>kchat_history := Some (sort_key history_version rows)\<rparr> else t
      | _ \<Rightarrow> t)"

lemma collect_history:
  "collect_rows history_from_row rows = Inr xs \<longleftrightarrow>
     map (\<lambda>(version, name, applied_on, checksum). (version, name, checksum)) rows =
     map (\<lambda>(version, name, checksum). (version, Some name, Some checksum)) xs"
proof (induction rows arbitrary: xs)
  case Nil
  then show ?case by auto
next
  case (Cons r rows)
  obtain v n a c where "r = (v, n, a, c)" by (cases r)
  with Cons show ?case by (cases xs) (auto simp: history_from_row_def rbind_Inr_iff)
qed

lemma migration_err_Inr: "migration_err msg f d = (Inr a, d') \<longleftrightarrow> f d = (Inr a, d')"
  by (auto simp: migration_err_def smap_err_def split: prod.splits)

lemma rollback_on_error_result:
  assumes "rollback_on_error f d = (r, d')"
  shows "(\<exists>e. r = Inl e) \<and> tables d' = tables d \<or> (\<exists>a. r = Inr a \<and> f d = (Inr a, d'))"
  using assms by (auto simp: rollback_on_error_def split: prod.splits sum.splits)

lemma load_legacy_history_Inr:
  assumes "load_legacy_history d = (Inr xs, d')"
  shows "tables d' = tables d \<and>
    collect_rows history_from_row
      (sort_key history_version (case legacy_history (tables d) of None \<Rightarrow> [] | Some rows \<Rightarrow> rows)) = Inr xs"
  using assms
  by (auto simp: load_legacy_history_def migration_err_Inr elim!: sbind_InrE dest!: engine_result)

lemma same_history_load:
  "load_legacy_history d = (Inr xs, d') \<Longrightarrow> legacy_history (tables d) = Some rows \<Longrightarrow>
     same_history migrations rows \<longleftrightarrow> xs = expected_migrations migrations"
  using collect_history [of "sort_key history_version rows"]
  by (fastforce dest!: load_legacy_history_Inr simp: same_history_def)

lemma commit_bootstrap_Inr: "commit_bootstrap d = (Inr a, d') \<Longrightarrow> tables d' = tables d"
  by (auto simp: commit_bootstrap_def migration_err_Inr dest: engine_result)

lemma create_kchat_history_Inr:
  "create_kchat_history d = (Inr a, d') \<Longrightarrow>
     tables d' = (tables d)\<lparr>kchat_history := map_option (sort_key history_version) (legacy_history (tables d))\<rparr>"
  by (auto simp: create_kchat_history_def migration_err_Inr elim!: sbind_InrE dest!: statement_Inr)

lemma bootstrap_from_legacy_Inr:
  assumes run: "bootstrap_from_legacy migrations d = (Inr a, d')"
    and rows: "kchat_history (tables d) = None" "legacy_history (tables d) = Some rows"
  shows "tables d' = adopt_history migrations (tables d)"
proof -
  from run obtain xs d1 d2 where load: "load_legacy_history d = (Inr xs, d1)"
    and create: "(if xs = expected_migrations migrations then create_kchat_history else sret ()) d1 = (Inr (), d2)"
    and commit: "commit_bootstrap d2 = (Inr a, d')"
    by (auto simp: bootstrap_from_legacy_def elim!: sbind_InrE)
  have "tables d1 = tables d" using load_legacy_history_Inr [OF load] by simp
  moreover have "same_history migrations rows \<longleftrightarrow> xs = expected_migrations migrations"
    by (rule same_history_load [OF load rows(2)])
  moreover have "tables d' = tables d2" by (rule commit_bootstrap_Inr [OF commit])
  ultimately show ?thesis
    using create rows by (auto simp: adopt_history_def split: if_splits dest!: create_kchat_history_Inr)
qed

lemma bootstrap_Inr:
  assumes "bootstrap_legacy_kchat_migration_history migrations d = (Inr a, d')"
  shows "tables d' = adopt_history migrations (tables d)"
proof -
  have adopted: "adopt_history migrations t = t" if "kchat_history t \<noteq> None \<or> legacy_history t = None" for t
    using that by (auto simp: adopt_history_def split: option.splits)
  have legacy: "bootstrap_from_legacy migrations s = (Inr b, s') \<Longrightarrow> kchat_history (tables s) = None \<longrightarrow>
      legacy_history (tables s) \<noteq> None \<longrightarrow> tables s' = adopt_history migrations (tables s)" for s b s'
    by (auto dest: bootstrap_from_legacy_Inr)
  show ?thesis
    using assms unfolding bootstrap_legacy_kchat_migration_history_def
    by (auto elim!: sbind_InrE dest!: rollback_on_error_result query_Inr legacy commit_bootstrap_Inr engine_result
        simp: migration_err_Inr adopted split: if_splits)
qed

lemma bootstrap_Inl:
  assumes "bootstrap_legacy_kchat_migration_history migrations d = (Inl e, d')"
  shows "tables d' = tables d"
proof -
  have begin_tables: "tables (snd (migration_err msg engine d)) = tables d" for msg
    by (auto simp: migration_err_def smap_err_def split: prod.splits dest: engine_result)
  show ?thesis
    using assms begin_tables [of "''failed to start KChat migration history bootstrap''"]
    unfolding bootstrap_legacy_kchat_migration_history_def sbind_def [of "migration_err _ engine"]
    by (auto split: prod.splits sum.splits dest!: rollback_on_error_result)
qed

section \<open>Properties\<close>

text \<open>The bootstrap of the migration history is exact and atomic. On success the legacy history has
  been copied, in version order, exactly when there was no new history yet and the legacy table lists
  the migrations up to version 5 with their names and checksums and nothing else; in every other case,
  and whenever an engine call fails, no table has changed, so migrations the database never saw are
  never marked as applied. A second run changes nothing.\<close>

theorem bootstrap_history_exact:
  assumes "bootstrap_legacy_kchat_migration_history migrations d = (r, d')"
  shows "tables d' = (case r of Inl _ \<Rightarrow> tables d | Inr _ \<Rightarrow> adopt_history migrations (tables d)) \<and>
    adopt_history migrations (adopt_history migrations (tables d)) = adopt_history migrations (tables d)"
proof
  show "tables d' = (case r of Inl _ \<Rightarrow> tables d | Inr _ \<Rightarrow> adopt_history migrations (tables d))"
    using assms by (cases r) (auto dest: bootstrap_Inr bootstrap_Inl)
  show "adopt_history migrations (adopt_history migrations (tables d)) = adopt_history migrations (tables d)"
    by (auto simp: adopt_history_def split: option.splits)
qed

text \<open>The migration runner starts only on a database whose history has been bootstrapped, and a
  failure before it starts leaves every table as it was.\<close>

theorem run_migrations_after_bootstrap:
  assumes "run_migrations migrations runner d = (r, d')"
  shows "(\<exists>e. r = Inl e) \<and> tables d' = tables d \<or>
    (\<exists>d1. tables d1 = adopt_history migrations (tables d) \<and> runner migrations d1 = (r, d'))"
proof -
  obtain c d1 where c: "migration_err ''failed to acquire pooled sqlite connection for migrations'' checkout d = (c, d1)"
    by fastforce
  then have d1: "tables d1 = tables d"
    by (auto simp: migration_err_def smap_err_def split: prod.splits dest: checkout_result)
  obtain b d2 where b: "bootstrap_legacy_kchat_migration_history migrations d1 = (b, d2)" by fastforce
  show ?thesis
  proof (cases c)
    case (Inl e)
    with c d1 assms show ?thesis by (auto simp: run_migrations_def sbind_def)
  next
    case Inr
    with c assms have "sbind (bootstrap_legacy_kchat_migration_history migrations) (\<lambda>_. runner migrations) d1 = (r, d')"
      by (simp add: run_migrations_def sbind_def)
    with b d1 show ?thesis
      by (cases b) (auto simp: sbind_def dest: bootstrap_Inr bootstrap_Inl)
  qed
qed

section \<open>Examples\<close>

definition sample_migrations :: "migration list" where
  "sample_migrations =
     [\<lparr>migration_version = 6, migration_name = ''decrypted_application_messages'', migration_checksum = 66\<rparr>,
      \<lparr>migration_version = 1, migration_name = ''initial'', migration_checksum = 11\<rparr>]"

definition sample_legacy :: db where
  "sample_legacy = empty_db\<lparr>tables := empty_tables\<lparr>legacy_history := Some [(1, Some ''initial'', None, Some ''11'')]\<rparr>\<rparr>"

theorem bootstrap_history_exact_witness:
  "kchat_history (tables (snd (bootstrap_legacy_kchat_migration_history sample_migrations sample_legacy))) =
     Some [(1, Some ''initial'', None, Some ''11'')]"
proof -
  let ?run = "bootstrap_legacy_kchat_migration_history sample_migrations sample_legacy"
  have "fst ?run = Inr ()" by code_simp
  then have "?run = (Inr (), snd ?run)" by (metis prod.collapse)
  from bootstrap_history_exact [OF this]
  have "tables (snd ?run) = adopt_history sample_migrations (tables sample_legacy)" by simp
  moreover have "kchat_history (adopt_history sample_migrations (tables sample_legacy)) =
      Some [(1, Some ''initial'', None, Some ''11'')]" by code_simp
  ultimately show ?thesis by simp
qed

theorem run_migrations_after_bootstrap_witness:
  "\<exists>d1. tables d1 = adopt_history sample_migrations (tables sample_legacy) \<and>
     sret () d1 = run_migrations sample_migrations (\<lambda>_. sret ()) sample_legacy"
proof -
  let ?run = "run_migrations sample_migrations (\<lambda>_. sret ()) sample_legacy"
  have "fst ?run = Inr ()" by code_simp
  then have "?run = (Inr (), snd ?run)" by (metis prod.collapse)
  from run_migrations_after_bootstrap [OF this] show ?thesis
    by (metis \<open>?run = (Inr (), snd ?run)\<close> sum.distinct(1))
qed

end
