(* ===== verification/Storage_Provider.thy ===== *)
theory Storage_Provider
  imports Storage_Keys Storage_Delete Storage_Migrations
begin

text \<open>
  The \<open>StorageProvider\<close> implementations of \<open>storage_provider.rs\<close>: \<open>sp_m\<close> is the method \<open>m\<close> of
  \<open>SqliteStorageProvider\<close>, which checks a connection out of the pool for each call, and \<open>tx_m\<close> the
  method of \<open>TransactionalStorageProvider\<close>, which works in an open transaction.
\<close>

section \<open>\<open>SqliteStorageProvider\<close>\<close>

definition sp_write_mls_join_config :: "'g codec \<Rightarrow> 'v codec \<Rightarrow> 'g \<Rightarrow> 'v \<Rightarrow> unit sql_action" where
  "sp_write_mls_join_config GC VC group_id v =
     group_data_store GC VC group_id JoinGroupConfig v"

definition sp_append_own_leaf_node :: "'g codec \<Rightarrow> 'v codec \<Rightarrow> 'g \<Rightarrow> 'v \<Rightarrow> unit sql_action" where
  "sp_append_own_leaf_node GC VC group_id leaf_node =
     leaf_node_store GC VC group_id leaf_node"

definition sp_queue_proposal :: "'g codec \<Rightarrow> 'r codec \<Rightarrow> 'p codec \<Rightarrow> 'g \<Rightarrow> 'r \<Rightarrow> 'p \<Rightarrow> unit sql_action" where
  "sp_queue_proposal GC RC PC group_id proposal_ref proposal =
     proposal_store GC RC PC group_id proposal_ref proposal"

definition sp_write_tree :: "'g codec \<Rightarrow> 'v codec \<Rightarrow> 'g \<Rightarrow> 'v \<Rightarrow> unit sql_action" where
  "sp_write_tree GC VC group_id v =
     group_data_store GC VC group_id Tree v"

definition sp_write_interim_transcript_hash :: "'g codec \<Rightarrow> 'v codec \<Rightarrow> 'g \<Rightarrow> 'v \<Rightarrow> unit sql_action" where
  "sp_write_interim_transcript_hash GC VC group_id v =
     group_data_store GC VC group_id InterimTranscriptHash v"

definition sp_write_context :: "'g codec \<Rightarrow> 'v codec \<Rightarrow> 'g \<Rightarrow> 'v \<Rightarrow> unit sql_action" where
  "sp_write_context GC VC group_id v =
     group_data_store GC VC group_id Context v"

definition sp_write_confirmation_tag :: "'g codec \<Rightarrow> 'v codec \<Rightarrow> 'g \<Rightarrow> 'v \<Rightarrow> unit sql_action" where
  "sp_write_confirmation_tag GC VC group_id v =
     group_data_store GC VC group_id ConfirmationTag v"

definition sp_write_group_state :: "'g codec \<Rightarrow> 'v codec \<Rightarrow> 'g \<Rightarrow> 'v \<Rightarrow> unit sql_action" where
  "sp_write_group_state GC VC group_id v =
     group_data_store GC VC group_id GroupState v"

definition sp_write_message_secrets :: "'g codec \<Rightarrow> 'v codec \<Rightarrow> 'g \<Rightarrow> 'v \<Rightarrow> unit sql_action" where
  "sp_write_message_secrets GC VC group_id v =
     group_data_store GC VC group_id MessageSecrets v"

definition sp_write_resumption_psk_store :: "'g codec \<Rightarrow> 'v codec \<Rightarrow> 'g \<Rightarrow> 'v \<Rightarrow> unit sql_action" where
  "sp_write_resumption_psk_store GC VC group_id v =
     group_data_store GC VC group_id ResumptionPskStore v"

definition sp_write_own_leaf_index :: "'g codec \<Rightarrow> 'v codec \<Rightarrow> 'g \<Rightarrow> 'v \<Rightarrow> unit sql_action" where
  "sp_write_own_leaf_index GC VC group_id v =
     group_data_store GC VC group_id OwnLeafIndex v"

definition sp_write_group_epoch_secrets :: "'g codec \<Rightarrow> 'v codec \<Rightarrow> 'g \<Rightarrow> 'v \<Rightarrow> unit sql_action" where
  "sp_write_group_epoch_secrets GC VC group_id v =
     group_data_store GC VC group_id GroupEpochSecrets v"

definition sp_write_signature_key_pair :: "'k codec \<Rightarrow> 'v codec \<Rightarrow> 'k \<Rightarrow> 'v \<Rightarrow> unit sql_action" where
  "sp_write_signature_key_pair KC VC public_key v =
     signature_key_store KC VC public_key v"

definition sp_write_encryption_key_pair :: "'k codec \<Rightarrow> 'v codec \<Rightarrow> 'k \<Rightarrow> 'v \<Rightarrow> unit sql_action" where
  "sp_write_encryption_key_pair KC VC public_key v =
     encryption_key_store KC VC public_key v"

definition sp_write_encryption_epoch_key_pairs :: "'g codec \<Rightarrow> 'e codec \<Rightarrow> 'v list codec \<Rightarrow> 'g \<Rightarrow> 'e \<Rightarrow> u32 \<Rightarrow> 'v list \<Rightarrow> unit sql_action" where
  "sp_write_encryption_epoch_key_pairs GC EC VC group_id epoch leaf_index key_pairs =
     epoch_key_pairs_store GC EC VC group_id epoch leaf_index key_pairs"

definition sp_write_key_package :: "'k codec \<Rightarrow> 'v codec \<Rightarrow> 'k \<Rightarrow> 'v \<Rightarrow> unit sql_action" where
  "sp_write_key_package KC VC hash_ref v =
     key_package_store KC VC hash_ref v"

definition sp_write_psk :: "'k codec \<Rightarrow> 'v codec \<Rightarrow> 'k \<Rightarrow> 'v \<Rightarrow> unit sql_action" where
  "sp_write_psk KC VC psk_id v =
     psk_store KC VC psk_id v"

definition sp_mls_group_join_config :: "'g codec \<Rightarrow> 'v codec \<Rightarrow> 'g \<Rightarrow> 'v option sql_action" where
  "sp_mls_group_join_config GC VC group_id =
     group_data_load GC VC group_id JoinGroupConfig"

definition sp_own_leaf_nodes :: "(bytes list \<Rightarrow> bytes list) \<Rightarrow> 'g codec \<Rightarrow> 'v codec \<Rightarrow> 'g \<Rightarrow> 'v list sql_action" where
  "sp_own_leaf_nodes ord GC VC group_id =
     leaf_nodes_load ord GC VC group_id"

definition sp_queued_proposal_refs :: "((bytes \<times> bytes) list \<Rightarrow> (bytes \<times> bytes) list) \<Rightarrow> 'g codec \<Rightarrow> 'r codec \<Rightarrow> 'g \<Rightarrow> 'r list sql_action" where
  "sp_queued_proposal_refs ord GC RC group_id =
     proposals_load_refs ord GC RC group_id"

definition sp_queued_proposals :: "((bytes \<times> bytes) list \<Rightarrow> (bytes \<times> bytes) list) \<Rightarrow> 'g codec \<Rightarrow> 'r codec \<Rightarrow> 'p codec \<Rightarrow> 'g \<Rightarrow> ('r \<times> 'p) list sql_action" where
  "sp_queued_proposals ord GC RC PC group_id =
     proposals_load ord GC RC PC group_id"

definition sp_tree :: "'g codec \<Rightarrow> 'v codec \<Rightarrow> 'g \<Rightarrow> 'v option sql_action" where
  "sp_tree GC VC group_id =
     group_data_load GC VC group_id Tree"

definition sp_group_context :: "'g codec \<Rightarrow> 'v codec \<Rightarrow> 'g \<Rightarrow> 'v option sql_action" where
  "sp_group_context GC VC group_id =
     group_data_load GC VC group_id Context"

definition sp_interim_transcript_hash :: "'g codec \<Rightarrow> 'v codec \<Rightarrow> 'g \<Rightarrow> 'v option sql_action" where
  "sp_interim_transcript_hash GC VC group_id =
     group_data_load GC VC group_id InterimTranscriptHash"

definition sp_confirmation_tag :: "'g codec \<Rightarrow> 'v codec \<Rightarrow> 'g \<Rightarrow> 'v option sql_action" where
  "sp_confirmation_tag GC VC group_id =
     group_data_load GC VC group_id ConfirmationTag"

definition sp_group_state :: "'g codec \<Rightarrow> 'v codec \<Rightarrow> 'g \<Rightarrow> 'v option sql_action" where
  "sp_group_state GC VC group_id =
     group_data_load GC VC group_id GroupState"

definition sp_message_secrets :: "'g codec \<Rightarrow> 'v codec \<Rightarrow> 'g \<Rightarrow> 'v option sql_action" where
  "sp_message_secrets GC VC group_id =
     group_data_load GC VC group_id MessageSecrets"

definition sp_supports_epoch_message_secrets :: bool where
  "sp_supports_epoch_message_secrets \<longleftrightarrow> True"

definition sp_is_group_epoch_message_secrets_migrated :: "'g codec \<Rightarrow> 'g \<Rightarrow> bool sql_action" where
  "sp_is_group_epoch_message_secrets_migrated GC group_id =
     is_migration_done GC group_id"

definition sp_group_epoch_message_secrets :: "'g codec \<Rightarrow> 'g \<Rightarrow> u64 \<Rightarrow> bytes option sql_action" where
  "sp_group_epoch_message_secrets GC group_id epoch =
     epoch_secrets_load GC group_id epoch"

definition sp_write_group_epoch_message_secrets :: "'g codec \<Rightarrow> 'g \<Rightarrow> u64 \<Rightarrow> bytes \<Rightarrow> unit sql_action" where
  "sp_write_group_epoch_message_secrets GC group_id epoch message_secrets =
     epoch_secrets_store GC group_id epoch message_secrets"

definition sp_replace_group_epoch_message_secrets :: "'g codec \<Rightarrow> 'g \<Rightarrow> (u64 \<times> bytes) list \<Rightarrow> unit sql_action" where
  "sp_replace_group_epoch_message_secrets GC group_id message_secrets =
     transaction (epoch_secrets_replace_in_tx GC group_id message_secrets)"

definition sp_delete_group_epoch_message_secrets :: "'g codec \<Rightarrow> 'g \<Rightarrow> unit sql_action" where
  "sp_delete_group_epoch_message_secrets GC group_id =
     epoch_secrets_delete GC group_id"

definition sp_prune_group_epoch_message_secrets :: "'g codec \<Rightarrow> 'g \<Rightarrow> u64 \<Rightarrow> u64 \<Rightarrow> unit sql_action" where
  "sp_prune_group_epoch_message_secrets GC group_id keep_from_epoch current_epoch =
     epoch_secrets_prune GC group_id keep_from_epoch current_epoch"

definition sp_resumption_psk_store :: "'g codec \<Rightarrow> 'v codec \<Rightarrow> 'g \<Rightarrow> 'v option sql_action" where
  "sp_resumption_psk_store GC VC group_id =
     group_data_load GC VC group_id ResumptionPskStore"

definition sp_own_leaf_index :: "'g codec \<Rightarrow> 'v codec \<Rightarrow> 'g \<Rightarrow> 'v option sql_action" where
  "sp_own_leaf_index GC VC group_id =
     group_data_load GC VC group_id OwnLeafIndex"

definition sp_group_epoch_secrets :: "'g codec \<Rightarrow> 'v codec \<Rightarrow> 'g \<Rightarrow> 'v option sql_action" where
  "sp_group_epoch_secrets GC VC group_id =
     group_data_load GC VC group_id GroupEpochSecrets"

definition sp_signature_key_pair :: "'k codec \<Rightarrow> 'v codec \<Rightarrow> 'k \<Rightarrow> 'v option sql_action" where
  "sp_signature_key_pair KC VC public_key =
     signature_key_load KC VC public_key"

definition sp_encryption_key_pair :: "'k codec \<Rightarrow> 'v codec \<Rightarrow> 'k \<Rightarrow> 'v option sql_action" where
  "sp_encryption_key_pair KC VC public_key =
     encryption_key_load KC VC public_key"

definition sp_encryption_epoch_key_pairs :: "'g codec \<Rightarrow> 'e codec \<Rightarrow> 'v list codec \<Rightarrow> 'g \<Rightarrow> 'e \<Rightarrow> u32 \<Rightarrow> 'v list sql_action" where
  "sp_encryption_epoch_key_pairs GC EC VC group_id epoch leaf_index =
     epoch_key_pairs_load GC EC VC group_id epoch leaf_index"

definition sp_key_package :: "'k codec \<Rightarrow> 'v codec \<Rightarrow> 'k \<Rightarrow> 'v option sql_action" where
  "sp_key_package KC VC hash_ref =
     key_package_load KC VC hash_ref"

definition sp_psk :: "'k codec \<Rightarrow> 'v codec \<Rightarrow> 'k \<Rightarrow> 'v option sql_action" where
  "sp_psk KC VC psk_id =
     psk_load KC VC psk_id"

definition sp_remove_proposal :: "'g codec \<Rightarrow> 'r codec \<Rightarrow> 'g \<Rightarrow> 'r \<Rightarrow> unit sql_action" where
  "sp_remove_proposal GC RC group_id proposal_ref =
     delete_proposal GC RC group_id proposal_ref"

definition sp_delete_own_leaf_nodes :: "'g codec \<Rightarrow> 'g \<Rightarrow> unit sql_action" where
  "sp_delete_own_leaf_nodes GC group_id =
     delete_leaf_nodes GC group_id"

definition sp_delete_group_config :: "'g codec \<Rightarrow> 'g \<Rightarrow> unit sql_action" where
  "sp_delete_group_config GC group_id =
     delete_group_data GC group_id JoinGroupConfig"

definition sp_delete_tree :: "'g codec \<Rightarrow> 'g \<Rightarrow> unit sql_action" where
  "sp_delete_tree GC group_id =
     delete_group_data GC group_id Tree"

definition sp_delete_confirmation_tag :: "'g codec \<Rightarrow> 'g \<Rightarrow> unit sql_action" where
  "sp_delete_confirmation_tag GC group_id =
     delete_group_data GC group_id ConfirmationTag"

definition sp_delete_group_state :: "'g codec \<Rightarrow> 'g \<Rightarrow> unit sql_action" where
  "sp_delete_group_state GC group_id =
     delete_group_data GC group_id GroupState"

definition sp_delete_context :: "'g codec \<Rightarrow> 'g \<Rightarrow> unit sql_action" where
  "sp_delete_context GC group_id =
     delete_group_data GC group_id Context"

definition sp_delete_interim_transcript_hash :: "'g codec \<Rightarrow> 'g \<Rightarrow> unit sql_action" where
  "sp_delete_interim_transcript_hash GC group_id =
     delete_group_data GC group_id InterimTranscriptHash"

definition sp_delete_message_secrets :: "'g codec \<Rightarrow> 'g \<Rightarrow> unit sql_action" where
  "sp_delete_message_secrets GC group_id =
     delete_group_data GC group_id MessageSecrets"

definition sp_delete_all_resumption_psk_secrets :: "'g codec \<Rightarrow> 'g \<Rightarrow> unit sql_action" where
  "sp_delete_all_resumption_psk_secrets GC group_id =
     delete_group_data GC group_id ResumptionPskStore"

definition sp_delete_own_leaf_index :: "'g codec \<Rightarrow> 'g \<Rightarrow> unit sql_action" where
  "sp_delete_own_leaf_index GC group_id =
     delete_group_data GC group_id OwnLeafIndex"

definition sp_delete_group_epoch_secrets :: "'g codec \<Rightarrow> 'g \<Rightarrow> unit sql_action" where
  "sp_delete_group_epoch_secrets GC group_id =
     delete_group_data GC group_id GroupEpochSecrets"

definition sp_clear_proposal_queue :: "'g codec \<Rightarrow> 'g \<Rightarrow> unit sql_action" where
  "sp_clear_proposal_queue GC group_id =
     delete_all_proposals GC group_id"

definition sp_delete_signature_key_pair :: "'k codec \<Rightarrow> 'k \<Rightarrow> unit sql_action" where
  "sp_delete_signature_key_pair KC public_key =
     signature_key_delete KC public_key"

definition sp_delete_encryption_key_pair :: "'k codec \<Rightarrow> 'k \<Rightarrow> unit sql_action" where
  "sp_delete_encryption_key_pair KC public_key =
     encryption_key_delete KC public_key"

definition sp_delete_encryption_epoch_key_pairs :: "'g codec \<Rightarrow> 'e codec \<Rightarrow> 'g \<Rightarrow> 'e \<Rightarrow> u32 \<Rightarrow> unit sql_action" where
  "sp_delete_encryption_epoch_key_pairs GC EC group_id epoch leaf_index =
     delete_epoch_key_pair GC EC group_id epoch leaf_index"

definition sp_delete_key_package :: "'k codec \<Rightarrow> 'k \<Rightarrow> unit sql_action" where
  "sp_delete_key_package KC hash_ref =
     key_package_delete KC hash_ref"

definition sp_delete_psk :: "'k codec \<Rightarrow> 'k \<Rightarrow> unit sql_action" where
  "sp_delete_psk KC psk_id =
     psk_delete KC psk_id"

definition sp_write_application_export_tree :: "'g codec \<Rightarrow> 'v codec \<Rightarrow> 'g \<Rightarrow> 'v \<Rightarrow> unit sql_action" where
  "sp_write_application_export_tree GC VC group_id v =
     group_data_store GC VC group_id ApplicationExportTree v"

definition sp_application_export_tree :: "'g codec \<Rightarrow> 'v codec \<Rightarrow> 'g \<Rightarrow> 'v option sql_action" where
  "sp_application_export_tree GC VC group_id =
     group_data_load GC VC group_id ApplicationExportTree"

definition sp_delete_application_export_tree :: "'g codec \<Rightarrow> 'g \<Rightarrow> unit sql_action" where
  "sp_delete_application_export_tree GC group_id =
     delete_group_data GC group_id ApplicationExportTree"

section \<open>\<open>TransactionalStorageProvider\<close>\<close>

definition tx_write_mls_join_config :: "'g codec \<Rightarrow> 'v codec \<Rightarrow> 'g \<Rightarrow> 'v \<Rightarrow> unit sql_action" where
  "tx_write_mls_join_config GC VC group_id v =
     group_data_store_in_tx GC VC group_id JoinGroupConfig v"

definition tx_append_own_leaf_node :: "'g codec \<Rightarrow> 'v codec \<Rightarrow> 'g \<Rightarrow> 'v \<Rightarrow> unit sql_action" where
  "tx_append_own_leaf_node GC VC group_id leaf_node =
     leaf_node_store_in_tx GC VC group_id leaf_node"

definition tx_queue_proposal :: "'g codec \<Rightarrow> 'r codec \<Rightarrow> 'p codec \<Rightarrow> 'g \<Rightarrow> 'r \<Rightarrow> 'p \<Rightarrow> unit sql_action" where
  "tx_queue_proposal GC RC PC group_id proposal_ref proposal =
     proposal_store_in_tx GC RC PC group_id proposal_ref proposal"

definition tx_write_tree :: "'g codec \<Rightarrow> 'v codec \<Rightarrow> 'g \<Rightarrow> 'v \<Rightarrow> unit sql_action" where
  "tx_write_tree GC VC group_id v =
     group_data_store_in_tx GC VC group_id Tree v"

definition tx_write_interim_transcript_hash :: "'g codec \<Rightarrow> 'v codec \<Rightarrow> 'g \<Rightarrow> 'v \<Rightarrow> unit sql_action" where
  "tx_write_interim_transcript_hash GC VC group_id v =
     group_data_store_in_tx GC VC group_id InterimTranscriptHash v"

definition tx_write_context :: "'g codec \<Rightarrow> 'v codec \<Rightarrow> 'g \<Rightarrow> 'v \<Rightarrow> unit sql_action" where
  "tx_write_context GC VC group_id v =
     group_data_store_in_tx GC VC group_id Context v"

definition tx_write_confirmation_tag :: "'g codec \<Rightarrow> 'v codec \<Rightarrow> 'g \<Rightarrow> 'v \<Rightarrow> unit sql_action" where
  "tx_write_confirmation_tag GC VC group_id v =
     group_data_store_in_tx GC VC group_id ConfirmationTag v"

definition tx_write_group_state :: "'g codec \<Rightarrow> 'v codec \<Rightarrow> 'g \<Rightarrow> 'v \<Rightarrow> unit sql_action" where
  "tx_write_group_state GC VC group_id v =
     group_data_store_in_tx GC VC group_id GroupState v"

definition tx_write_message_secrets :: "'g codec \<Rightarrow> 'v codec \<Rightarrow> 'g \<Rightarrow> 'v \<Rightarrow> unit sql_action" where
  "tx_write_message_secrets GC VC group_id v =
     group_data_store_in_tx GC VC group_id MessageSecrets v"

definition tx_write_resumption_psk_store :: "'g codec \<Rightarrow> 'v codec \<Rightarrow> 'g \<Rightarrow> 'v \<Rightarrow> unit sql_action" where
  "tx_write_resumption_psk_store GC VC group_id v =
     group_data_store_in_tx GC VC group_id ResumptionPskStore v"

definition tx_write_own_leaf_index :: "'g codec \<Rightarrow> 'v codec \<Rightarrow> 'g \<Rightarrow> 'v \<Rightarrow> unit sql_action" where
  "tx_write_own_leaf_index GC VC group_id v =
     group_data_store_in_tx GC VC group_id OwnLeafIndex v"

definition tx_write_group_epoch_secrets :: "'g codec \<Rightarrow> 'v codec \<Rightarrow> 'g \<Rightarrow> 'v \<Rightarrow> unit sql_action" where
  "tx_write_group_epoch_secrets GC VC group_id v =
     group_data_store_in_tx GC VC group_id GroupEpochSecrets v"

definition tx_write_signature_key_pair :: "'k codec \<Rightarrow> 'v codec \<Rightarrow> 'k \<Rightarrow> 'v \<Rightarrow> unit sql_action" where
  "tx_write_signature_key_pair KC VC public_key v =
     signature_key_store_in_tx KC VC public_key v"

definition tx_write_encryption_key_pair :: "'k codec \<Rightarrow> 'v codec \<Rightarrow> 'k \<Rightarrow> 'v \<Rightarrow> unit sql_action" where
  "tx_write_encryption_key_pair KC VC public_key v =
     encryption_key_store_in_tx KC VC public_key v"

definition tx_write_encryption_epoch_key_pairs :: "'g codec \<Rightarrow> 'e codec \<Rightarrow> 'v list codec \<Rightarrow> 'g \<Rightarrow> 'e \<Rightarrow> u32 \<Rightarrow> 'v list \<Rightarrow> unit sql_action" where
  "tx_write_encryption_epoch_key_pairs GC EC VC group_id epoch leaf_index key_pairs =
     epoch_key_pairs_store_in_tx GC EC VC group_id epoch leaf_index key_pairs"

definition tx_write_key_package :: "'k codec \<Rightarrow> 'v codec \<Rightarrow> 'k \<Rightarrow> 'v \<Rightarrow> unit sql_action" where
  "tx_write_key_package KC VC hash_ref v =
     key_package_store_in_tx KC VC hash_ref v"

definition tx_write_psk :: "'k codec \<Rightarrow> 'v codec \<Rightarrow> 'k \<Rightarrow> 'v \<Rightarrow> unit sql_action" where
  "tx_write_psk KC VC psk_id v =
     psk_store_in_tx KC VC psk_id v"

definition tx_mls_group_join_config :: "'g codec \<Rightarrow> 'v codec \<Rightarrow> 'g \<Rightarrow> 'v option sql_action" where
  "tx_mls_group_join_config GC VC group_id =
     group_data_load_in_tx GC VC group_id JoinGroupConfig"

definition tx_own_leaf_nodes :: "(bytes list \<Rightarrow> bytes list) \<Rightarrow> 'g codec \<Rightarrow> 'v codec \<Rightarrow> 'g \<Rightarrow> 'v list sql_action" where
  "tx_own_leaf_nodes ord GC VC group_id =
     leaf_nodes_load_in_tx ord GC VC group_id"

definition tx_queued_proposal_refs :: "((bytes \<times> bytes) list \<Rightarrow> (bytes \<times> bytes) list) \<Rightarrow> 'g codec \<Rightarrow> 'r codec \<Rightarrow> 'g \<Rightarrow> 'r list sql_action" where
  "tx_queued_proposal_refs ord GC RC group_id =
     proposals_load_refs_in_tx ord GC RC group_id"

definition tx_queued_proposals :: "((bytes \<times> bytes) list \<Rightarrow> (bytes \<times> bytes) list) \<Rightarrow> 'g codec \<Rightarrow> 'r codec \<Rightarrow> 'p codec \<Rightarrow> 'g \<Rightarrow> ('r \<times> 'p) list sql_action" where
  "tx_queued_proposals ord GC RC PC group_id =
     proposals_load_in_tx ord GC RC PC group_id"

definition tx_tree :: "'g codec \<Rightarrow> 'v codec \<Rightarrow> 'g \<Rightarrow> 'v option sql_action" where
  "tx_tree GC VC group_id =
     group_data_load_in_tx GC VC group_id Tree"

definition tx_group_context :: "'g codec \<Rightarrow> 'v codec \<Rightarrow> 'g \<Rightarrow> 'v option sql_action" where
  "tx_group_context GC VC group_id =
     group_data_load_in_tx GC VC group_id Context"

definition tx_interim_transcript_hash :: "'g codec \<Rightarrow> 'v codec \<Rightarrow> 'g \<Rightarrow> 'v option sql_action" where
  "tx_interim_transcript_hash GC VC group_id =
     group_data_load_in_tx GC VC group_id InterimTranscriptHash"

definition tx_confirmation_tag :: "'g codec \<Rightarrow> 'v codec \<Rightarrow> 'g \<Rightarrow> 'v option sql_action" where
  "tx_confirmation_tag GC VC group_id =
     group_data_load_in_tx GC VC group_id ConfirmationTag"

definition tx_group_state :: "'g codec \<Rightarrow> 'v codec \<Rightarrow> 'g \<Rightarrow> 'v option sql_action" where
  "tx_group_state GC VC group_id =
     group_data_load_in_tx GC VC group_id GroupState"

definition tx_message_secrets :: "'g codec \<Rightarrow> 'v codec \<Rightarrow> 'g \<Rightarrow> 'v option sql_action" where
  "tx_message_secrets GC VC group_id =
     group_data_load_in_tx GC VC group_id MessageSecrets"

definition tx_supports_epoch_message_secrets :: bool where
  "tx_supports_epoch_message_secrets \<longleftrightarrow> True"

definition tx_is_group_epoch_message_secrets_migrated :: "'g codec \<Rightarrow> 'g \<Rightarrow> bool sql_action" where
  "tx_is_group_epoch_message_secrets_migrated GC group_id =
     is_migration_done_in_tx GC group_id"

definition tx_group_epoch_message_secrets :: "'g codec \<Rightarrow> 'g \<Rightarrow> u64 \<Rightarrow> bytes option sql_action" where
  "tx_group_epoch_message_secrets GC group_id epoch =
     epoch_secrets_load_in_tx GC group_id epoch"

definition tx_write_group_epoch_message_secrets :: "'g codec \<Rightarrow> 'g \<Rightarrow> u64 \<Rightarrow> bytes \<Rightarrow> unit sql_action" where
  "tx_write_group_epoch_message_secrets GC group_id epoch message_secrets =
     epoch_secrets_store_in_tx GC group_id epoch message_secrets"

definition tx_replace_group_epoch_message_secrets :: "'g codec \<Rightarrow> 'g \<Rightarrow> (u64 \<times> bytes) list \<Rightarrow> unit sql_action" where
  "tx_replace_group_epoch_message_secrets GC group_id message_secrets =
     epoch_secrets_replace_in_tx GC group_id message_secrets"

definition tx_delete_group_epoch_message_secrets :: "'g codec \<Rightarrow> 'g \<Rightarrow> unit sql_action" where
  "tx_delete_group_epoch_message_secrets GC group_id =
     epoch_secrets_delete_in_tx GC group_id"

definition tx_prune_group_epoch_message_secrets :: "'g codec \<Rightarrow> 'g \<Rightarrow> u64 \<Rightarrow> u64 \<Rightarrow> unit sql_action" where
  "tx_prune_group_epoch_message_secrets GC group_id keep_from_epoch current_epoch =
     epoch_secrets_prune_in_tx GC group_id keep_from_epoch current_epoch"

definition tx_resumption_psk_store :: "'g codec \<Rightarrow> 'v codec \<Rightarrow> 'g \<Rightarrow> 'v option sql_action" where
  "tx_resumption_psk_store GC VC group_id =
     group_data_load_in_tx GC VC group_id ResumptionPskStore"

definition tx_own_leaf_index :: "'g codec \<Rightarrow> 'v codec \<Rightarrow> 'g \<Rightarrow> 'v option sql_action" where
  "tx_own_leaf_index GC VC group_id =
     group_data_load_in_tx GC VC group_id OwnLeafIndex"

definition tx_group_epoch_secrets :: "'g codec \<Rightarrow> 'v codec \<Rightarrow> 'g \<Rightarrow> 'v option sql_action" where
  "tx_group_epoch_secrets GC VC group_id =
     group_data_load_in_tx GC VC group_id GroupEpochSecrets"

definition tx_signature_key_pair :: "'k codec \<Rightarrow> 'v codec \<Rightarrow> 'k \<Rightarrow> 'v option sql_action" where
  "tx_signature_key_pair KC VC public_key =
     signature_key_load_in_tx KC VC public_key"

definition tx_encryption_key_pair :: "'k codec \<Rightarrow> 'v codec \<Rightarrow> 'k \<Rightarrow> 'v option sql_action" where
  "tx_encryption_key_pair KC VC public_key =
     encryption_key_load_in_tx KC VC public_key"

definition tx_encryption_epoch_key_pairs :: "'g codec \<Rightarrow> 'e codec \<Rightarrow> 'v list codec \<Rightarrow> 'g \<Rightarrow> 'e \<Rightarrow> u32 \<Rightarrow> 'v list sql_action" where
  "tx_encryption_epoch_key_pairs GC EC VC group_id epoch leaf_index =
     epoch_key_pairs_load_in_tx GC EC VC group_id epoch leaf_index"

definition tx_key_package :: "'k codec \<Rightarrow> 'v codec \<Rightarrow> 'k \<Rightarrow> 'v option sql_action" where
  "tx_key_package KC VC hash_ref =
     key_package_load_in_tx KC VC hash_ref"

definition tx_psk :: "'k codec \<Rightarrow> 'v codec \<Rightarrow> 'k \<Rightarrow> 'v option sql_action" where
  "tx_psk KC VC psk_id =
     psk_load_in_tx KC VC psk_id"

definition tx_remove_proposal :: "'g codec \<Rightarrow> 'r codec \<Rightarrow> 'g \<Rightarrow> 'r \<Rightarrow> unit sql_action" where
  "tx_remove_proposal GC RC group_id proposal_ref =
     delete_proposal_in_tx GC RC group_id proposal_ref"

definition tx_delete_own_leaf_nodes :: "'g codec \<Rightarrow> 'g \<Rightarrow> unit sql_action" where
  "tx_delete_own_leaf_nodes GC group_id =
     delete_leaf_nodes_in_tx GC group_id"

definition tx_delete_group_config :: "'g codec \<Rightarrow> 'g \<Rightarrow> unit sql_action" where
  "tx_delete_group_config GC group_id =
     delete_group_data_in_tx GC group_id JoinGroupConfig"

definition tx_delete_tree :: "'g codec \<Rightarrow> 'g \<Rightarrow> unit sql_action" where
  "tx_delete_tree GC group_id =
     delete_group_data_in_tx GC group_id Tree"

definition tx_delete_confirmation_tag :: "'g codec \<Rightarrow> 'g \<Rightarrow> unit sql_action" where
  "tx_delete_confirmation_tag GC group_id =
     delete_group_data_in_tx GC group_id ConfirmationTag"

definition tx_delete_group_state :: "'g codec \<Rightarrow> 'g \<Rightarrow> unit sql_action" where
  "tx_delete_group_state GC group_id =
     delete_group_data_in_tx GC group_id GroupState"

definition tx_delete_context :: "'g codec \<Rightarrow> 'g \<Rightarrow> unit sql_action" where
  "tx_delete_context GC group_id =
     delete_group_data_in_tx GC group_id Context"

definition tx_delete_interim_transcript_hash :: "'g codec \<Rightarrow> 'g \<Rightarrow> unit sql_action" where
  "tx_delete_interim_transcript_hash GC group_id =
     delete_group_data_in_tx GC group_id InterimTranscriptHash"

definition tx_delete_message_secrets :: "'g codec \<Rightarrow> 'g \<Rightarrow> unit sql_action" where
  "tx_delete_message_secrets GC group_id =
     delete_group_data_in_tx GC group_id MessageSecrets"

definition tx_delete_all_resumption_psk_secrets :: "'g codec \<Rightarrow> 'g \<Rightarrow> unit sql_action" where
  "tx_delete_all_resumption_psk_secrets GC group_id =
     delete_group_data_in_tx GC group_id ResumptionPskStore"

definition tx_delete_own_leaf_index :: "'g codec \<Rightarrow> 'g \<Rightarrow> unit sql_action" where
  "tx_delete_own_leaf_index GC group_id =
     delete_group_data_in_tx GC group_id OwnLeafIndex"

definition tx_delete_group_epoch_secrets :: "'g codec \<Rightarrow> 'g \<Rightarrow> unit sql_action" where
  "tx_delete_group_epoch_secrets GC group_id =
     delete_group_data_in_tx GC group_id GroupEpochSecrets"

definition tx_clear_proposal_queue :: "'g codec \<Rightarrow> 'g \<Rightarrow> unit sql_action" where
  "tx_clear_proposal_queue GC group_id =
     delete_all_proposals_in_tx GC group_id"

definition tx_delete_signature_key_pair :: "'k codec \<Rightarrow> 'k \<Rightarrow> unit sql_action" where
  "tx_delete_signature_key_pair KC public_key =
     signature_key_delete_in_tx KC public_key"

definition tx_delete_encryption_key_pair :: "'k codec \<Rightarrow> 'k \<Rightarrow> unit sql_action" where
  "tx_delete_encryption_key_pair KC public_key =
     encryption_key_delete_in_tx KC public_key"

definition tx_delete_encryption_epoch_key_pairs :: "'g codec \<Rightarrow> 'e codec \<Rightarrow> 'g \<Rightarrow> 'e \<Rightarrow> u32 \<Rightarrow> unit sql_action" where
  "tx_delete_encryption_epoch_key_pairs GC EC group_id epoch leaf_index =
     delete_epoch_key_pair_in_tx GC EC group_id epoch leaf_index"

definition tx_delete_key_package :: "'k codec \<Rightarrow> 'k \<Rightarrow> unit sql_action" where
  "tx_delete_key_package KC hash_ref =
     key_package_delete_in_tx KC hash_ref"

definition tx_delete_psk :: "'k codec \<Rightarrow> 'k \<Rightarrow> unit sql_action" where
  "tx_delete_psk KC psk_id =
     psk_delete_in_tx KC psk_id"

definition tx_write_application_export_tree :: "'g codec \<Rightarrow> 'v codec \<Rightarrow> 'g \<Rightarrow> 'v \<Rightarrow> unit sql_action" where
  "tx_write_application_export_tree GC VC group_id v =
     group_data_store_in_tx GC VC group_id ApplicationExportTree v"

definition tx_application_export_tree :: "'g codec \<Rightarrow> 'v codec \<Rightarrow> 'g \<Rightarrow> 'v option sql_action" where
  "tx_application_export_tree GC VC group_id =
     group_data_load_in_tx GC VC group_id ApplicationExportTree"

definition tx_delete_application_export_tree :: "'g codec \<Rightarrow> 'g \<Rightarrow> unit sql_action" where
  "tx_delete_application_export_tree GC group_id =
     delete_group_data_in_tx GC group_id ApplicationExportTree"

end
