(* ===== verification/Storage_Provider_Correct.thy ===== *)
theory Storage_Provider_Correct
  imports Storage_Provider
begin

text \<open>
  What the two \<open>StorageProvider\<close> implementations promise: every kind of group data has a slot of its
  own, the two implementations agree, no call leaves a table half updated, and the primary keys and
  constraints of the schema hold in every state a provider can reach.
\<close>

section \<open>The slots of a group\<close>

text \<open>The methods that write, read and delete the eleven kinds of group data, in the same order.\<close>

definition group_writers :: "'g codec \<Rightarrow> 'v codec \<Rightarrow> ('g \<Rightarrow> 'v \<Rightarrow> unit sql_action) list" where
  "group_writers GC VC =
     [sp_write_mls_join_config GC VC, sp_write_tree GC VC,
      sp_write_interim_transcript_hash GC VC, sp_write_context GC VC,
      sp_write_confirmation_tag GC VC, sp_write_group_state GC VC,
      sp_write_message_secrets GC VC, sp_write_resumption_psk_store GC VC,
      sp_write_own_leaf_index GC VC, sp_write_group_epoch_secrets GC VC,
      sp_write_application_export_tree GC VC]"

definition group_readers :: "'g codec \<Rightarrow> 'v codec \<Rightarrow> ('g \<Rightarrow> 'v option sql_action) list" where
  "group_readers GC VC =
     [sp_mls_group_join_config GC VC, sp_tree GC VC,
      sp_interim_transcript_hash GC VC, sp_group_context GC VC,
      sp_confirmation_tag GC VC, sp_group_state GC VC,
      sp_message_secrets GC VC, sp_resumption_psk_store GC VC,
      sp_own_leaf_index GC VC, sp_group_epoch_secrets GC VC,
      sp_application_export_tree GC VC]"

definition group_deleters :: "'g codec \<Rightarrow> ('g \<Rightarrow> unit sql_action) list" where
  "group_deleters GC =
     [sp_delete_group_config GC, sp_delete_tree GC,
      sp_delete_interim_transcript_hash GC, sp_delete_context GC,
      sp_delete_confirmation_tag GC, sp_delete_group_state GC,
      sp_delete_message_secrets GC, sp_delete_all_resumption_psk_secrets GC,
      sp_delete_own_leaf_index GC, sp_delete_group_epoch_secrets GC,
      sp_delete_application_export_tree GC]"

definition tx_group_writers :: "'g codec \<Rightarrow> 'v codec \<Rightarrow> ('g \<Rightarrow> 'v \<Rightarrow> unit sql_action) list" where
  "tx_group_writers GC VC =
     [tx_write_mls_join_config GC VC, tx_write_tree GC VC,
      tx_write_interim_transcript_hash GC VC, tx_write_context GC VC,
      tx_write_confirmation_tag GC VC, tx_write_group_state GC VC,
      tx_write_message_secrets GC VC, tx_write_resumption_psk_store GC VC,
      tx_write_own_leaf_index GC VC, tx_write_group_epoch_secrets GC VC,
      tx_write_application_export_tree GC VC]"

definition tx_group_readers :: "'g codec \<Rightarrow> 'v codec \<Rightarrow> ('g \<Rightarrow> 'v option sql_action) list" where
  "tx_group_readers GC VC =
     [tx_mls_group_join_config GC VC, tx_tree GC VC,
      tx_interim_transcript_hash GC VC, tx_group_context GC VC,
      tx_confirmation_tag GC VC, tx_group_state GC VC,
      tx_message_secrets GC VC, tx_resumption_psk_store GC VC,
      tx_own_leaf_index GC VC, tx_group_epoch_secrets GC VC,
      tx_application_export_tree GC VC]"

definition tx_group_deleters :: "'g codec \<Rightarrow> ('g \<Rightarrow> unit sql_action) list" where
  "tx_group_deleters GC =
     [tx_delete_group_config GC, tx_delete_tree GC,
      tx_delete_interim_transcript_hash GC, tx_delete_context GC,
      tx_delete_confirmation_tag GC, tx_delete_group_state GC,
      tx_delete_message_secrets GC, tx_delete_all_resumption_psk_secrets GC,
      tx_delete_own_leaf_index GC, tx_delete_group_epoch_secrets GC,
      tx_delete_application_export_tree GC]"

definition group_kinds :: "group_data_type list" where
  "group_kinds =
     [JoinGroupConfig, Tree, InterimTranscriptHash, Context, ConfirmationTag, GroupState,
      MessageSecrets, ResumptionPskStore, OwnLeafIndex, GroupEpochSecrets, ApplicationExportTree]"

lemmas sp_defs =
  sp_write_mls_join_config_def sp_append_own_leaf_node_def sp_queue_proposal_def sp_write_tree_def
  sp_write_interim_transcript_hash_def sp_write_context_def sp_write_confirmation_tag_def
  sp_write_group_state_def sp_write_message_secrets_def sp_write_resumption_psk_store_def
  sp_write_own_leaf_index_def sp_write_group_epoch_secrets_def sp_write_signature_key_pair_def
  sp_write_encryption_key_pair_def sp_write_encryption_epoch_key_pairs_def sp_write_key_package_def
  sp_write_psk_def sp_mls_group_join_config_def sp_own_leaf_nodes_def sp_queued_proposal_refs_def
  sp_queued_proposals_def sp_tree_def sp_group_context_def sp_interim_transcript_hash_def
  sp_confirmation_tag_def sp_group_state_def sp_message_secrets_def sp_supports_epoch_message_secrets_def
  sp_is_group_epoch_message_secrets_migrated_def sp_group_epoch_message_secrets_def
  sp_write_group_epoch_message_secrets_def sp_replace_group_epoch_message_secrets_def
  sp_delete_group_epoch_message_secrets_def sp_prune_group_epoch_message_secrets_def
  sp_resumption_psk_store_def sp_own_leaf_index_def sp_group_epoch_secrets_def sp_signature_key_pair_def
  sp_encryption_key_pair_def sp_encryption_epoch_key_pairs_def sp_key_package_def sp_psk_def
  sp_remove_proposal_def sp_delete_own_leaf_nodes_def sp_delete_group_config_def sp_delete_tree_def
  sp_delete_confirmation_tag_def sp_delete_group_state_def sp_delete_context_def
  sp_delete_interim_transcript_hash_def sp_delete_message_secrets_def
  sp_delete_all_resumption_psk_secrets_def sp_delete_own_leaf_index_def sp_delete_group_epoch_secrets_def
  sp_clear_proposal_queue_def sp_delete_signature_key_pair_def sp_delete_encryption_key_pair_def
  sp_delete_encryption_epoch_key_pairs_def sp_delete_key_package_def sp_delete_psk_def
  sp_write_application_export_tree_def sp_application_export_tree_def sp_delete_application_export_tree_def

lemmas tx_defs =
  tx_write_mls_join_config_def tx_append_own_leaf_node_def tx_queue_proposal_def tx_write_tree_def
  tx_write_interim_transcript_hash_def tx_write_context_def tx_write_confirmation_tag_def
  tx_write_group_state_def tx_write_message_secrets_def tx_write_resumption_psk_store_def
  tx_write_own_leaf_index_def tx_write_group_epoch_secrets_def tx_write_signature_key_pair_def
  tx_write_encryption_key_pair_def tx_write_encryption_epoch_key_pairs_def tx_write_key_package_def
  tx_write_psk_def tx_mls_group_join_config_def tx_own_leaf_nodes_def tx_queued_proposal_refs_def
  tx_queued_proposals_def tx_tree_def tx_group_context_def tx_interim_transcript_hash_def
  tx_confirmation_tag_def tx_group_state_def tx_message_secrets_def tx_supports_epoch_message_secrets_def
  tx_is_group_epoch_message_secrets_migrated_def tx_group_epoch_message_secrets_def
  tx_write_group_epoch_message_secrets_def tx_replace_group_epoch_message_secrets_def
  tx_delete_group_epoch_message_secrets_def tx_prune_group_epoch_message_secrets_def
  tx_resumption_psk_store_def tx_own_leaf_index_def tx_group_epoch_secrets_def tx_signature_key_pair_def
  tx_encryption_key_pair_def tx_encryption_epoch_key_pairs_def tx_key_package_def tx_psk_def
  tx_remove_proposal_def tx_delete_own_leaf_nodes_def tx_delete_group_config_def tx_delete_tree_def
  tx_delete_confirmation_tag_def tx_delete_group_state_def tx_delete_context_def
  tx_delete_interim_transcript_hash_def tx_delete_message_secrets_def
  tx_delete_all_resumption_psk_secrets_def tx_delete_own_leaf_index_def tx_delete_group_epoch_secrets_def
  tx_clear_proposal_queue_def tx_delete_signature_key_pair_def tx_delete_encryption_key_pair_def
  tx_delete_encryption_epoch_key_pairs_def tx_delete_key_package_def tx_delete_psk_def
  tx_write_application_export_tree_def tx_application_export_tree_def tx_delete_application_export_tree_def

lemma group_writers_eq: "group_writers GC VC = map (\<lambda>kind g. group_data_store GC VC g kind) group_kinds"
  by (simp add: group_writers_def group_kinds_def sp_defs fun_eq_iff)

lemma group_readers_eq: "group_readers GC VC = map (\<lambda>kind g. group_data_load GC VC g kind) group_kinds"
  by (simp add: group_readers_def group_kinds_def sp_defs fun_eq_iff)

lemma group_deleters_eq: "group_deleters GC = map (\<lambda>kind g. delete_group_data GC g kind) group_kinds"
  by (simp add: group_deleters_def group_kinds_def sp_defs fun_eq_iff)

lemma tx_group_eq:
  "tx_group_writers GC VC = map (\<lambda>kind g. group_data_store_in_tx GC VC g kind) group_kinds"
  "tx_group_readers GC VC = map (\<lambda>kind g. group_data_load_in_tx GC VC g kind) group_kinds"
  "tx_group_deleters GC = map (\<lambda>kind g. delete_group_data_in_tx GC g kind) group_kinds"
  by (simp_all add: tx_group_writers_def tx_group_readers_def tx_group_deleters_def group_kinds_def tx_defs fun_eq_iff)

lemma group_kinds_distinct: "distinct group_kinds" "length group_kinds = 11"
  by (simp_all add: group_kinds_def)

text \<open>The call on the pool is the call in a transaction on a connection that was checked out.\<close>

lemma group_writer_Inr:
  assumes "i < length group_kinds"
    and "(group_writers GC VC ! i) g v d = (Inr u, d1) \<or> (tx_group_writers GC VC ! i) g v d = (Inr u, d1)"
  obtains d0 where "tables d0 = tables d" "group_data_store_in_tx GC VC g (group_kinds ! i) v d0 = (Inr u, d1)"
  using assms pooled_result [of "group_data_store_in_tx GC VC g (group_kinds ! i) v" d "Inr u" d1]
  by (auto simp: group_writers_eq tx_group_eq group_data_store_def)

lemma group_deleter_Inr:
  assumes "i < length group_kinds"
    and "(group_deleters GC ! i) g d = (Inr u, d1) \<or> (tx_group_deleters GC ! i) g d = (Inr u, d1)"
  obtains d0 where "tables d0 = tables d" "delete_group_data_in_tx GC g (group_kinds ! i) d0 = (Inr u, d1)"
  using assms pooled_result [of "delete_group_data_in_tx GC g (group_kinds ! i)" d "Inr u" d1]
  by (auto simp: group_deleters_eq tx_group_eq delete_group_data_def)

lemma group_kinds_nth: "i < length group_kinds \<Longrightarrow> j < length group_kinds \<Longrightarrow> group_kinds ! i = group_kinds ! j \<longleftrightarrow> i = j"
  by (rule nth_eq_iff_index_eq [OF group_kinds_distinct(1)])

section \<open>Properties\<close>

text \<open>A reader of either provider, on a healthy engine.\<close>

lemma group_reader_healthy:
  assumes "R = group_readers GC VC \<or> R = tx_group_readers GC VC" and j: "j < length group_kinds"
    and d: "faults d = []" and g: "to_sql GC g = Inr b"
  shows "(R ! j) g d =
    (case lookup (b, data_type_to_sql (group_kinds ! j)) (group_data (tables d)) of
       None \<Rightarrow> Inr None | Some w \<Rightarrow> rbind (column_result VC w) (\<lambda>v. Inr (Some v)), d)"
proof -
  have "group_data_load GC VC g kind d = group_data_load_in_tx GC VC g kind d" for kind
    using d by (simp add: group_data_load_def pooled_healthy)
  with assms(1) j group_data_load_healthy [OF d g, of VC "group_kinds ! j"] show ?thesis
    by (auto simp: group_readers_eq tx_group_eq)
qed

text \<open>C38: every kind of group data has a slot of its own in every group, and the two providers share it.
  After a successful write by the writer of one kind, in a group, through the pool or inside a
  transaction, the reader of that kind, of the pool or of a transaction, returns the written value for
  that group, and each of the eleven readers of either provider returns for every group what it
  returned before in all other cases.\<close>

theorem group_slots_write:
  assumes codecs: "codec_roundtrip GC" "codec_roundtrip VC"
    and ij: "i < length (group_writers GC VC)" "j < length (group_readers GC VC)"
    and wr: "(group_writers GC VC ! i) g v d = (Inr (), d1) \<or> (tx_group_writers GC VC ! i) g v d = (Inr (), d1)"
    and g': "to_sql GC g' = Inr b'"
    and d2: "tables d2 = tables d1" "faults d2 = []"
    and d3: "tables d3 = tables d" "faults d3 = []"
    and R: "R = group_readers GC VC \<or> R = tx_group_readers GC VC"
    and R': "R' = group_readers GC VC \<or> R' = tx_group_readers GC VC"
  shows "fst ((R ! j) g' d2) = (if i = j \<and> g = g' then Inr (Some v) else fst ((R' ! j) g' d3))"
proof -
  from ij have k: "i < length group_kinds" "j < length group_kinds" by (simp_all add: group_writers_eq group_readers_eq)
  from k(1) wr obtain d0 where d0: "tables d0 = tables d"
    "group_data_store_in_tx GC VC g (group_kinds ! i) v d0 = (Inr (), d1)" by (rule group_writer_Inr)
  from d0(2) obtain b w where b: "to_sql GC g = Inr b" "to_sql VC v = Inr w"
    and t: "tables d1 = tables d0\<lparr>group_data := insert_or_replace (b, data_type_to_sql (group_kinds ! i)) w (group_data (tables d0))\<rparr>"
    by (rule group_data_store_Inr)
  have "b' = b \<longleftrightarrow> g' = g" by (rule to_sql_inject [OF codecs(1) g' b(1)])
  moreover have "column_result VC w = Inr v" by (rule column_result_to_sql [OF codecs(2) b(2)])
  moreover have "lookup k (insert_or_replace l w t) = (if k = l then Some w else lookup k t)"
    for k l :: "bytes \<times> string" and t
    by (auto simp: insert_or_replace_def lookup_append lookup_filter_key split: option.splits)
  ultimately show ?thesis
    using k group_kinds_nth [OF k] t d0(1) d2(1) d3(1)
      group_reader_healthy [OF R k(2) d2(2) g'] group_reader_healthy [OF R' k(2) d3(2) g']
    by (auto simp: data_type_to_sql_inject)
qed

text \<open>A deleter of group data empties its own slot and no other. After a successful delete of one kind
  in a group, through the pool or inside a transaction, the reader of that kind returns nothing for
  that group, and each of the eleven readers returns for every group what it returned before in all
  other cases.\<close>

theorem group_slots_delete:
  assumes codecs: "codec_roundtrip GC"
    and ij: "i < length (group_deleters GC)" "j < length (group_readers GC VC)"
    and del: "(group_deleters GC ! i) g d = (Inr (), d1) \<or> (tx_group_deleters GC ! i) g d = (Inr (), d1)"
    and g': "to_sql GC g' = Inr b'"
    and d2: "tables d2 = tables d1" "faults d2 = []"
    and d3: "tables d3 = tables d" "faults d3 = []"
  shows "fst ((group_readers GC VC ! j) g' d2) =
    (if i = j \<and> g = g' then Inr None else fst ((group_readers GC VC ! j) g' d3))"
proof -
  from ij have k: "i < length group_kinds" "j < length group_kinds" by (simp_all add: group_deleters_eq group_readers_eq)
  from k(1) del obtain d0 where d0: "tables d0 = tables d"
    "delete_group_data_in_tx GC g (group_kinds ! i) d0 = (Inr (), d1)" by (rule group_deleter_Inr)
  from d0(2) obtain b where b: "to_sql GC g = Inr b"
    and t: "tables d1 = tables d0\<lparr>group_data := delete_rows (\<lambda>k. k = (b, data_type_to_sql (group_kinds ! i))) (group_data (tables d0))\<rparr>"
    by (rule delete_group_data_Inr)
  have "b' = b \<longleftrightarrow> g' = g" by (rule to_sql_inject [OF codecs g' b])
  then show ?thesis
    using k group_kinds_nth [OF k] t d0(1) d2 d3
      group_data_load_healthy [OF d2(2) g', of VC "group_kinds ! j"] group_data_load_healthy [OF d3(2) g', of VC "group_kinds ! j"]
    by (auto simp: group_readers_eq data_type_to_sql_inject lookup_delete)
qed

section \<open>Calls and runs\<close>

text \<open>
  A call that changes state inside a transaction; a program of such calls, which stops at the first
  error; and a call of a user of the provider: a method on the pool, or a program in a transaction.
  \<open>KC\<close> stands for the codecs of all keys other than group identifiers, \<open>VC\<close> for those of all entities.
\<close>

inductive tx_call :: "'g codec \<Rightarrow> 'k codec \<Rightarrow> 'v codec \<Rightarrow> 'v list codec \<Rightarrow> unit sql_action \<Rightarrow> bool"
  for GC :: "'g codec" and KC :: "'k codec" and VC :: "'v codec" and LC :: "'v list codec" where
  "tx_call GC KC VC LC (tx_write_mls_join_config GC VC group_id v)"
| "tx_call GC KC VC LC (tx_append_own_leaf_node GC VC group_id leaf_node)"
| "tx_call GC KC VC LC (tx_queue_proposal GC KC VC group_id proposal_ref proposal)"
| "tx_call GC KC VC LC (tx_write_tree GC VC group_id v)"
| "tx_call GC KC VC LC (tx_write_interim_transcript_hash GC VC group_id v)"
| "tx_call GC KC VC LC (tx_write_context GC VC group_id v)"
| "tx_call GC KC VC LC (tx_write_confirmation_tag GC VC group_id v)"
| "tx_call GC KC VC LC (tx_write_group_state GC VC group_id v)"
| "tx_call GC KC VC LC (tx_write_message_secrets GC VC group_id v)"
| "tx_call GC KC VC LC (tx_write_resumption_psk_store GC VC group_id v)"
| "tx_call GC KC VC LC (tx_write_own_leaf_index GC VC group_id v)"
| "tx_call GC KC VC LC (tx_write_group_epoch_secrets GC VC group_id v)"
| "tx_call GC KC VC LC (tx_write_signature_key_pair KC VC public_key v)"
| "tx_call GC KC VC LC (tx_write_encryption_key_pair KC VC public_key v)"
| "tx_call GC KC VC LC (tx_write_encryption_epoch_key_pairs GC KC LC group_id epoch leaf_index key_pairs)"
| "tx_call GC KC VC LC (tx_write_key_package KC VC hash_ref v)"
| "tx_call GC KC VC LC (tx_write_psk KC VC psk_id v)"
| "tx_call GC KC VC LC (tx_write_group_epoch_message_secrets GC group_id epoch message_secrets)"
| "tx_call GC KC VC LC (tx_replace_group_epoch_message_secrets GC group_id message_secrets)"
| "tx_call GC KC VC LC (tx_delete_group_epoch_message_secrets GC group_id)"
| "tx_call GC KC VC LC (tx_prune_group_epoch_message_secrets GC group_id keep_from_epoch current_epoch)"
| "tx_call GC KC VC LC (tx_remove_proposal GC KC group_id proposal_ref)"
| "tx_call GC KC VC LC (tx_delete_own_leaf_nodes GC group_id)"
| "tx_call GC KC VC LC (tx_delete_group_config GC group_id)"
| "tx_call GC KC VC LC (tx_delete_tree GC group_id)"
| "tx_call GC KC VC LC (tx_delete_confirmation_tag GC group_id)"
| "tx_call GC KC VC LC (tx_delete_group_state GC group_id)"
| "tx_call GC KC VC LC (tx_delete_context GC group_id)"
| "tx_call GC KC VC LC (tx_delete_interim_transcript_hash GC group_id)"
| "tx_call GC KC VC LC (tx_delete_message_secrets GC group_id)"
| "tx_call GC KC VC LC (tx_delete_all_resumption_psk_secrets GC group_id)"
| "tx_call GC KC VC LC (tx_delete_own_leaf_index GC group_id)"
| "tx_call GC KC VC LC (tx_delete_group_epoch_secrets GC group_id)"
| "tx_call GC KC VC LC (tx_clear_proposal_queue GC group_id)"
| "tx_call GC KC VC LC (tx_delete_signature_key_pair KC public_key)"
| "tx_call GC KC VC LC (tx_delete_encryption_key_pair KC public_key)"
| "tx_call GC KC VC LC (tx_delete_encryption_epoch_key_pairs GC KC group_id epoch leaf_index)"
| "tx_call GC KC VC LC (tx_delete_key_package KC hash_ref)"
| "tx_call GC KC VC LC (tx_delete_psk KC psk_id)"
| "tx_call GC KC VC LC (tx_write_application_export_tree GC VC group_id v)"
| "tx_call GC KC VC LC (tx_delete_application_export_tree GC group_id)"
| "tx_call GC KC VC LC (tx_insert_decrypted_application_message GC group_id message_id entry)"
| "tx_call GC KC VC LC (tx_prune_decrypted_application_messages now)"
| "tx_call GC KC VC LC (tx_delete_decrypted_application_messages GC group_id)"
| "tx_call GC KC VC LC (tx_upsert_group_epoch_message_secrets GC group_id epoch message_secrets)"
| "tx_call GC KC VC LC (tx_mark_legacy_message_secrets_migration_done flag)"
| "tx_call GC KC VC LC (delete_group_by_id disp dbg GC group_id)"

inductive tx_program :: "'g codec \<Rightarrow> 'k codec \<Rightarrow> 'v codec \<Rightarrow> 'v list codec \<Rightarrow> unit sql_action \<Rightarrow> bool"
  for GC :: "'g codec" and KC :: "'k codec" and VC :: "'v codec" and LC :: "'v list codec" where
  "tx_program GC KC VC LC (sret ())"
| "tx_call GC KC VC LC c \<Longrightarrow> tx_program GC KC VC LC p \<Longrightarrow> tx_program GC KC VC LC (sbind c (\<lambda>_. p))"

inductive provider_call :: "'g codec \<Rightarrow> 'k codec \<Rightarrow> 'v codec \<Rightarrow> 'v list codec \<Rightarrow> unit sql_action \<Rightarrow> bool"
  for GC :: "'g codec" and KC :: "'k codec" and VC :: "'v codec" and LC :: "'v list codec" where
  "provider_call GC KC VC LC (sp_write_mls_join_config GC VC group_id v)"
| "provider_call GC KC VC LC (sp_append_own_leaf_node GC VC group_id leaf_node)"
| "provider_call GC KC VC LC (sp_queue_proposal GC KC VC group_id proposal_ref proposal)"
| "provider_call GC KC VC LC (sp_write_tree GC VC group_id v)"
| "provider_call GC KC VC LC (sp_write_interim_transcript_hash GC VC group_id v)"
| "provider_call GC KC VC LC (sp_write_context GC VC group_id v)"
| "provider_call GC KC VC LC (sp_write_confirmation_tag GC VC group_id v)"
| "provider_call GC KC VC LC (sp_write_group_state GC VC group_id v)"
| "provider_call GC KC VC LC (sp_write_message_secrets GC VC group_id v)"
| "provider_call GC KC VC LC (sp_write_resumption_psk_store GC VC group_id v)"
| "provider_call GC KC VC LC (sp_write_own_leaf_index GC VC group_id v)"
| "provider_call GC KC VC LC (sp_write_group_epoch_secrets GC VC group_id v)"
| "provider_call GC KC VC LC (sp_write_signature_key_pair KC VC public_key v)"
| "provider_call GC KC VC LC (sp_write_encryption_key_pair KC VC public_key v)"
| "provider_call GC KC VC LC (sp_write_encryption_epoch_key_pairs GC KC LC group_id epoch leaf_index key_pairs)"
| "provider_call GC KC VC LC (sp_write_key_package KC VC hash_ref v)"
| "provider_call GC KC VC LC (sp_write_psk KC VC psk_id v)"
| "provider_call GC KC VC LC (sp_write_group_epoch_message_secrets GC group_id epoch message_secrets)"
| "provider_call GC KC VC LC (sp_replace_group_epoch_message_secrets GC group_id message_secrets)"
| "provider_call GC KC VC LC (sp_delete_group_epoch_message_secrets GC group_id)"
| "provider_call GC KC VC LC (sp_prune_group_epoch_message_secrets GC group_id keep_from_epoch current_epoch)"
| "provider_call GC KC VC LC (sp_remove_proposal GC KC group_id proposal_ref)"
| "provider_call GC KC VC LC (sp_delete_own_leaf_nodes GC group_id)"
| "provider_call GC KC VC LC (sp_delete_group_config GC group_id)"
| "provider_call GC KC VC LC (sp_delete_tree GC group_id)"
| "provider_call GC KC VC LC (sp_delete_confirmation_tag GC group_id)"
| "provider_call GC KC VC LC (sp_delete_group_state GC group_id)"
| "provider_call GC KC VC LC (sp_delete_context GC group_id)"
| "provider_call GC KC VC LC (sp_delete_interim_transcript_hash GC group_id)"
| "provider_call GC KC VC LC (sp_delete_message_secrets GC group_id)"
| "provider_call GC KC VC LC (sp_delete_all_resumption_psk_secrets GC group_id)"
| "provider_call GC KC VC LC (sp_delete_own_leaf_index GC group_id)"
| "provider_call GC KC VC LC (sp_delete_group_epoch_secrets GC group_id)"
| "provider_call GC KC VC LC (sp_clear_proposal_queue GC group_id)"
| "provider_call GC KC VC LC (sp_delete_signature_key_pair KC public_key)"
| "provider_call GC KC VC LC (sp_delete_encryption_key_pair KC public_key)"
| "provider_call GC KC VC LC (sp_delete_encryption_epoch_key_pairs GC KC group_id epoch leaf_index)"
| "provider_call GC KC VC LC (sp_delete_key_package KC hash_ref)"
| "provider_call GC KC VC LC (sp_delete_psk KC psk_id)"
| "provider_call GC KC VC LC (sp_write_application_export_tree GC VC group_id v)"
| "provider_call GC KC VC LC (sp_delete_application_export_tree GC group_id)"
| "provider_call GC KC VC LC (sp_insert_decrypted_application_message GC group_id message_id entry)"
| "provider_call GC KC VC LC (sp_prune_decrypted_application_messages now)"
| "provider_call GC KC VC LC (sp_delete_decrypted_application_messages GC group_id)"
| "provider_call GC KC VC LC (sp_upsert_group_epoch_message_secrets GC group_id epoch message_secrets)"
| "provider_call GC KC VC LC (sp_mark_legacy_message_secrets_migration_done flag)"
| "tx_program GC KC VC LC p \<Longrightarrow> provider_call GC KC VC LC (transaction p)"

text \<open>The databases a provider reaches from an empty one, whatever faults the engine has.\<close>

inductive provider_reach :: "'g codec \<Rightarrow> 'k codec \<Rightarrow> 'v codec \<Rightarrow> 'v list codec \<Rightarrow> db \<Rightarrow> bool"
  for GC :: "'g codec" and KC :: "'k codec" and VC :: "'v codec" and LC :: "'v list codec" where
  "tables d = empty_tables \<Longrightarrow> provider_reach GC KC VC LC d"
| "provider_reach GC KC VC LC d \<Longrightarrow> provider_call GC KC VC LC c \<Longrightarrow> provider_reach GC KC VC LC (snd (c d))"

section \<open>Row changes\<close>

text \<open>What a single statement of the provider does to the tables.\<close>

inductive table_change :: "tables \<Rightarrow> tables \<Rightarrow> bool" where
  "table_change t (encryption_keys_update (insert_or_replace k v) t)"
| "table_change t (signature_keys_update (insert_or_replace k v) t)"
| "table_change t (key_packages_update (insert_or_replace k v) t)"
| "table_change t (psks_update (insert_or_replace k v) t)"
| "table_change t (epoch_keys_pairs_update (insert_or_replace ek v) t)"
| "table_change t (group_data_update (insert_or_replace (g, data_type_to_sql kind) v) t)"
| "table_change t (own_leaf_nodes_update (\<lambda>rs. rs @ [(g, STORAGE_PROVIDER_VERSION, v)]) t)"
| "table_change t (proposals_update (insert_or_ignore pk v) t)"
| "table_change t (epoch_message_secrets_update (upsert (g, int (unat (n :: u64))) v) t)" if "unat n < 2 ^ 63"
| "table_change t (epoch_migration_state_update (upsert () n') t)" if "n' = 0 \<or> n' = 1"
| "table_change t (decrypted_messages_update (insert_unless_live mk entry) t)"
| "table_change t (decrypted_messages_update (prune_rows now) t)"
| "table_change t (encryption_keys_update (delete_rows P1) t)"
| "table_change t (signature_keys_update (delete_rows P1) t)"
| "table_change t (key_packages_update (delete_rows P1) t)"
| "table_change t (psks_update (delete_rows P1) t)"
| "table_change t (epoch_keys_pairs_update (delete_rows P2) t)"
| "table_change t (group_data_update (delete_rows P3) t)"
| "table_change t (own_leaf_nodes_update (delete_rows P1) t)"
| "table_change t (proposals_update (delete_rows P4) t)"
| "table_change t (epoch_message_secrets_update (delete_rows P5) t)"
| "table_change t (decrypted_messages_update (delete_rows P3) t)"

lemmas table_change_once = table_change.intros [THEN r_into_rtranclp [of table_change]]

definition changes :: "'a sql_action \<Rightarrow> bool" where
  "changes f \<longleftrightarrow> (\<forall>d. table_change\<^sup>*\<^sup>* (tables d) (tables (snd (f d))))"

lemma changes_statement:
  assumes "\<And>p t. params = Inr p \<Longrightarrow> table_change\<^sup>*\<^sup>* t (effect p t)"
  shows "changes (statement params effect)"
proof (unfold changes_def, rule allI)
  fix d
  obtain r d' where run: "statement params effect d = (r, d')" by fastforce
  from statement_result [OF run] assms show "table_change\<^sup>*\<^sup>* (tables d) (tables (snd (statement params effect d)))"
    by (cases r) (auto simp: run)
qed

lemma changes_sret [intro]: "changes (sret a)"
  by (simp add: changes_def)

lemma changes_sbind:
  assumes "changes m" and "\<And>a. changes (k a)"
  shows "changes (sbind m k)"
proof (unfold changes_def, rule allI)
  fix d
  obtain r d1 where m: "m d = (r, d1)" by fastforce
  with assms(1) have 1: "table_change\<^sup>*\<^sup>* (tables d) (tables d1)" by (metis changes_def snd_conv)
  from assms(2) have 2: "table_change\<^sup>*\<^sup>* (tables d1) (tables (snd (k a d1)))" for a by (simp add: changes_def)
  from 1 2 m show "table_change\<^sup>*\<^sup>* (tables d) (tables (snd (sbind m k d)))"
    by (cases r) (auto simp: sbind_def intro: rtranclp_trans)
qed

lemma changes_sforeach: "(\<And>x. changes (f x)) \<Longrightarrow> changes (sforeach xs f)"
proof (induction xs)
  case Nil
  then show ?case by (simp add: changes_def)
next
  case (Cons x xs)
  have "sforeach (x # xs) f = sbind (f x) (\<lambda>_. sforeach xs f)" by (rule ext) (simp add: sbind_def)
  with Cons changes_sbind show ?case by metis
qed

lemma changes_smap_err: "changes f \<Longrightarrow> changes (smap_err g f)"
  by (simp add: changes_def smap_err_def split_beta)

lemma changes_tables: "(\<And>d. tables (snd (f d)) = tables d) \<Longrightarrow> changes f"
  by (simp add: changes_def)

lemma changes_checkout: "changes checkout"
  by (rule changes_tables) (metis checkout_result prod.collapse)

lemma changes_pooled: "changes f \<Longrightarrow> changes (pooled f)"
  unfolding pooled_def by (rule changes_sbind [OF changes_checkout])

lemma changes_transaction:
  assumes "changes f"
  shows "changes (transaction f)"
proof (unfold changes_def, rule allI)
  fix d
  obtain r d' where run: "transaction f d = (r, d')" by fastforce
  from transaction_result [OF run] assms show "table_change\<^sup>*\<^sup>* (tables d) (tables (snd (transaction f d)))"
    by (auto simp: run changes_def) (metis snd_conv)
qed

lemmas in_tx_defs =
  encryption_key_store_in_tx_def encryption_key_delete_in_tx_def signature_key_store_in_tx_def
  signature_key_delete_in_tx_def key_package_store_in_tx_def key_package_delete_in_tx_def psk_store_in_tx_def
  psk_delete_in_tx_def group_data_store_in_tx_def delete_group_data_in_tx_def leaf_node_store_in_tx_def
  delete_leaf_nodes_in_tx_def proposal_store_in_tx_def delete_all_proposals_in_tx_def delete_proposal_in_tx_def
  epoch_key_pairs_store_in_tx_def delete_epoch_key_pair_in_tx_def epoch_secrets_store_in_tx_def
  epoch_secrets_delete_in_tx_def epoch_secrets_prune_in_tx_def message_insert_in_tx_def message_prune_in_tx_def
  message_delete_in_tx_def message_insert_in_connection_def message_prune_in_connection_def
  message_delete_in_connection_def mark_legacy_message_secrets_migration_done_in_tx_def store_row_def delete_row_def
  tx_insert_decrypted_application_message_def tx_prune_decrypted_application_messages_def
  tx_delete_decrypted_application_messages_def tx_upsert_group_epoch_message_secrets_def
  tx_mark_legacy_message_secrets_migration_done_def

lemma changes_epoch_secrets_store: "changes (epoch_secrets_store_in_tx GC g n bs)"
  by (auto simp: epoch_secrets_store_in_tx_def epoch_secrets_key_Inr_iff simp del: of_nat_unat
      intro!: changes_statement table_change_once)

lemma changes_epoch_secrets_replace: "changes (epoch_secrets_replace_in_tx GC g ms)"
  unfolding epoch_secrets_replace_in_tx_def epoch_secrets_delete_in_tx_def
  by (auto intro!: changes_sbind changes_sforeach changes_statement table_change_once changes_epoch_secrets_store)

lemma delete_from_change: "table_change\<^sup>*\<^sup>* t (delete_from table g t)"
  by (simp add: delete_from_def table_change_once)

lemma changes_delete_group: "changes (delete_group_by_id disp dbg GC g)"
  unfolding delete_group_by_id_def
  by (intro changes_sforeach changes_smap_err changes_statement delete_from_change)

lemma tx_call_changes: "tx_call GC KC VC LC c \<Longrightarrow> changes c"
  by (induction rule: tx_call.induct)
    (auto simp: tx_defs in_tx_defs key_entity_Inr_iff group_data_key_Inr_iff epoch_secrets_key_Inr_iff simp del: of_nat_unat
      intro!: changes_statement table_change_once changes_delete_group changes_epoch_secrets_replace)

lemma tx_program_changes: "tx_program GC KC VC LC p \<Longrightarrow> changes p"
  by (induction rule: tx_program.induct) (blast intro: changes_sret changes_sbind tx_call_changes)+

text \<open>Every method on the pool is a statement on a connection that was checked out, or a transaction.\<close>

lemmas pool_defs =
  encryption_key_store_def encryption_key_delete_def signature_key_store_def signature_key_delete_def
  key_package_store_def key_package_delete_def psk_store_def psk_delete_def group_data_store_def delete_group_data_def
  leaf_node_store_def delete_leaf_nodes_def proposal_store_def delete_all_proposals_def delete_proposal_def
  epoch_key_pairs_store_def delete_epoch_key_pair_def epoch_secrets_store_def epoch_secrets_delete_def
  epoch_secrets_prune_def message_insert_def message_prune_def message_delete_def
  mark_legacy_message_secrets_migration_done_def sp_insert_decrypted_application_message_def
  sp_prune_decrypted_application_messages_def sp_delete_decrypted_application_messages_def
  sp_upsert_group_epoch_message_secrets_def sp_mark_legacy_message_secrets_migration_done_def

lemma provider_call_changes: "provider_call GC KC VC LC c \<Longrightarrow> changes c"
  by (induction rule: provider_call.induct)
    (auto simp: sp_defs pool_defs in_tx_defs key_entity_Inr_iff group_data_key_Inr_iff epoch_secrets_key_Inr_iff
      simp del: of_nat_unat
      intro!: changes_pooled changes_statement table_change_once changes_transaction changes_epoch_secrets_replace
      dest: tx_program_changes)

text \<open>A call that fails leaves the tables as they were.\<close>

definition settled :: "'a sql_action \<Rightarrow> bool" where
  "settled f \<longleftrightarrow> (\<forall>d e d'. f d = (Inl e, d') \<longrightarrow> tables d' = tables d)"

lemma settled_statement: "settled (pooled (statement params effect))"
proof (unfold settled_def, intro allI impI)
  fix d e d'
  assume "pooled (statement params effect) d = (Inl e, d')"
  from pooled_result [OF this] show "tables d' = tables d"
    using statement_result [of params effect _ "Inl e" d'] by auto
qed

lemma settled_transaction: "settled (transaction f)"
  by (auto simp: settled_def dest: transaction_result)

lemma provider_call_settled: "provider_call GC KC VC LC c \<Longrightarrow> settled c"
  by (induction rule: provider_call.induct)
    (simp_all add: sp_defs pool_defs in_tx_defs settled_statement settled_transaction)

section \<open>Invariants of the schema\<close>

text \<open>
  An invariant of the tables that every row change keeps holds in every database a provider reaches:
  the interface between the constraints of the schema and the methods of the provider.
\<close>

locale schema_invariant =
  fixes inv :: "tables \<Rightarrow> bool"
  assumes initially: "inv empty_tables"
    and change: "table_change t t' \<Longrightarrow> inv t \<Longrightarrow> inv t'"
begin

lemma many_changes: "table_change\<^sup>*\<^sup>* t t' \<Longrightarrow> inv t \<Longrightarrow> inv t'"
  by (induction rule: rtranclp_induct) (auto intro: change)

lemma call: "provider_call GC KC VC LC c \<Longrightarrow> inv (tables d) \<Longrightarrow> inv (tables (snd (c d)))"
  using provider_call_changes [of GC KC VC LC c] many_changes by (auto simp: changes_def)

lemma reachable: "provider_reach GC KC VC LC d \<Longrightarrow> inv (tables d)"
  by (induction rule: provider_reach.induct) (simp_all add: initially call)

end

text \<open>The primary keys of the tables.\<close>

definition primary_keys :: "tables \<Rightarrow> bool" where
  "primary_keys t \<longleftrightarrow>
     key_unique (encryption_keys t) \<and> key_unique (signature_keys t) \<and> key_unique (key_packages t) \<and>
     key_unique (psks t) \<and> key_unique (epoch_keys_pairs t) \<and> key_unique (group_data t) \<and>
     key_unique (proposals t) \<and> versioned_key_unique (epoch_message_secrets t) \<and>
     versioned_key_unique (epoch_migration_state t) \<and> key_unique (decrypted_messages t)"

text \<open>The \<open>CHECK\<close> constraint on \<open>data_type\<close>, the range of the columns, and the version of the rows.\<close>

definition column_constraints :: "tables \<Rightarrow> bool" where
  "column_constraints t \<longleftrightarrow>
     (\<forall>r \<in> set (group_data t). \<exists>kind. data_type_column_result (snd (row_key r)) = Inr kind) \<and>
     (\<forall>r \<in> set (epoch_message_secrets t). 0 \<le> snd (row_key r) \<and> snd (row_key r) < 2 ^ 63) \<and>
     (\<forall>r \<in> set (epoch_migration_state t). row_value r = 0 \<or> row_value r = 1) \<and>
     (\<forall>r \<in> set (proposals t). row_version r = STORAGE_PROVIDER_VERSION)"

lemma key_unique_ignore: "key_unique t \<Longrightarrow> key_unique (insert_or_ignore k v t)"
  by (auto simp: key_unique_def insert_or_ignore_def row_key_def)

interpretation keys_inv: schema_invariant primary_keys
proof
  show "primary_keys empty_tables"
    by (simp add: primary_keys_def empty_tables_def key_unique_def versioned_key_unique_def)
  show "primary_keys t'" if "table_change t t'" "primary_keys t" for t t'
    using that
    by cases (simp_all add: primary_keys_def replace_table.unique_store replace_table.unique_delete
        upsert_table.unique_store upsert_table.unique_delete key_unique_ignore key_unique_insert key_unique_prune)
qed

lemma set_upsert: "set (upsert k v t) \<subseteq> insert (k, STORAGE_PROVIDER_VERSION, v) (set t)"
  by (auto simp: upsert_def)

lemma set_insert_or_replace: "set (insert_or_replace k v t) \<subseteq> insert (k, STORAGE_PROVIDER_VERSION, v) (set t)"
  by (auto simp: insert_or_replace_def)

lemma set_insert_or_ignore: "set (insert_or_ignore k v t) \<subseteq> insert (k, STORAGE_PROVIDER_VERSION, v) (set t)"
  by (auto simp: insert_or_ignore_def)

lemma set_delete_rows: "set (delete_rows P t) \<subseteq> set t"
  by (auto simp: delete_rows_def)

interpretation columns_inv: schema_invariant column_constraints
proof
  show "column_constraints empty_tables" by (simp add: column_constraints_def empty_tables_def)
  show "column_constraints t'" if "table_change t t'" "column_constraints t" for t t'
    using that
    by cases (auto simp: column_constraints_def row_key_def row_value_def row_version_def data_type_roundtrip simp del: of_nat_unat
        dest!: subsetD [OF set_insert_or_ignore] subsetD [OF set_upsert] subsetD [OF set_insert_or_replace] subsetD [OF set_delete_rows])
qed

text \<open>C7: in every database a provider can reach from an empty one, by any sequence of pool calls and of
  transactions of any calls, with any pattern of engine failures, the primary keys of all tables are
  unique, every row of group data has one of the known types, every stored epoch fits a signed 64-bit
  integer, the migration flag is 0 or 1 and every proposal has the current version.\<close>

theorem provider_schema_invariant:
  assumes "provider_reach GC KC VC LC d"
  shows "primary_keys (tables d) \<and> column_constraints (tables d)"
  using keys_inv.reachable [OF assms] columns_inv.reachable [OF assms] by blast

text \<open>C37: no call of the provider leaves a table half updated: a method on the pool that returns an error,
  and a transaction of any sequence of calls that returns an error, whichever engine call failed,
  leave every table as it was.\<close>

theorem provider_call_atomic:
  assumes "provider_call GC KC VC LC c" and "c d = (Inl e, d')"
  shows "tables d' = tables d"
  using provider_call_settled [OF assms(1)] assms(2) by (simp add: settled_def)

section \<open>Queued proposals\<close>

lemma collect_rows_all:
  "(\<forall>x \<in> set xs. \<exists>a. f x = Inr a) \<Longrightarrow> collect_rows f xs = Inr (map (\<lambda>x. projr (f x)) xs)"
  by (induction xs) auto

lemma collect_rows_Inr: "collect_rows f xs = Inr ys \<Longrightarrow> ys = map (\<lambda>x. projr (f x)) xs \<and> (\<forall>x \<in> set xs. \<exists>a. f x = Inr a)"
  by (induction xs arbitrary: ys) (auto simp: rbind_Inr_iff)

lemma proposal_key_Inr_iff:
  "proposal_key GC RC g r = Inr k \<longleftrightarrow> (\<exists>b c. to_sql GC g = Inr b \<and> to_sql RC r = Inr c \<and> k = (b, c))"
  by (auto simp: proposal_key_def rbind_Inr_iff)

lemma queued_proposals_healthy:
  assumes "faults d = []" and "to_sql GC g = Inr b"
  shows "sp_queued_proposals ord GC RC PC g d =
    (collect_rows (proposal_from_row RC PC) (ord (group_proposals b (tables d))), d)"
  using assms
  by (simp add: sp_queued_proposals_def proposals_load_def proposals_load_in_tx_def pooled_healthy query_healthy sbind_def)

lemma group_proposals_ignore:
  assumes "\<forall>r \<in> set (proposals t). row_version r = STORAGE_PROVIDER_VERSION"
  shows "group_proposals g (proposals_update (insert_or_ignore (b, c) w) t) =
    (if g = b \<and> c \<notin> fst ` set (group_proposals b t) then group_proposals b t @ [(c, w)] else group_proposals g t)"
proof (cases "\<exists>r \<in> set (proposals t). row_key r = (b, c)")
  case True
  then have "c \<in> fst ` set (group_proposals b t)"
    using assms by (force simp: group_proposals_def select_rows_def matches_def)
  moreover have "insert_or_ignore (b, c) w (proposals t) = proposals t"
    using True by (simp only: insert_or_ignore_def if_True)
  ultimately show ?thesis by (simp add: group_proposals_def)
next
  case False
  then have "c \<notin> fst ` set (group_proposals b t)"
    by (auto simp: group_proposals_def select_rows_def matches_def)
  moreover have "insert_or_ignore (b, c) w (proposals t) = proposals t @ [((b, c), STORAGE_PROVIDER_VERSION, w)]"
    using False by (simp only: insert_or_ignore_def if_False)
  ultimately show ?thesis
    by (simp add: group_proposals_def select_rows_def matches_def row_key_def row_version_def row_value_def)
qed

lemma queue_proposal_Inr:
  assumes "sp_queue_proposal GC RC PC g r p d = (Inr (), d1)"
  obtains b c w where "to_sql GC g = Inr b" "to_sql RC r = Inr c" "to_sql PC p = Inr w"
    "tables d1 = proposals_update (insert_or_ignore (b, c) w) (tables d)"
proof -
  from pooled_Inr [OF assms [unfolded sp_queue_proposal_def proposal_store_def]] obtain d0
    where d0: "tables d0 = tables d" "proposal_store_in_tx GC RC PC g r p d0 = (Inr (), d1)" by blast
  from statement_Inr [OF d0(2) [unfolded proposal_store_in_tx_def]] d0(1) that show thesis
    by (auto simp: key_entity_Inr_iff proposal_key_Inr_iff)
qed

lemma proposal_refs_decode:
  assumes "codec_roundtrip RC" "to_sql RC r = Inr c" and "\<forall>x \<in> set xs. \<exists>a. proposal_from_row RC PC x = Inr a"
    and canonical: "\<And>x. x \<in> set xs \<Longrightarrow> \<exists>q. to_sql RC q = Inr (fst x)"
  shows "c \<in> fst ` set xs \<longleftrightarrow> r \<in> fst ` set (map (\<lambda>x. projr (proposal_from_row RC PC x)) xs)"
proof -
  have "fst x = c \<longleftrightarrow> fst (projr (proposal_from_row RC PC x)) = r" if x: "x \<in> set xs" for x
  proof -
    from canonical [OF x] obtain q where q: "to_sql RC q = Inr (fst x)" by blast
    from assms(3) x obtain a where a: "proposal_from_row RC PC x = Inr a" by blast
    then have "fst a = q" using column_result_to_sql [OF assms(1) q] by (auto simp: proposal_from_row_def rbind_Inr_iff)
    moreover have "fst x = c \<longleftrightarrow> q = r" by (rule to_sql_inject [OF assms(1) q assms(2)])
    ultimately show ?thesis using a by simp
  qed
  then have "(\<exists>x \<in> set xs. fst x = c) \<longleftrightarrow> (\<exists>x \<in> set xs. fst (projr (proposal_from_row RC PC x)) = r)" by simp
  moreover have "c \<in> fst ` set xs \<longleftrightarrow> (\<exists>x \<in> set xs. fst x = c)" by blast
  moreover have "r \<in> fst ` set (map (\<lambda>x. projr (proposal_from_row RC PC x)) xs) \<longleftrightarrow>
      (\<exists>x \<in> set xs. fst (projr (proposal_from_row RC PC x)) = r)" unfolding set_map image_image by blast
  ultimately show ?thesis by blast
qed

text \<open>A proposal is queued once. If the queue of a group could be read before, then after a successful
  call of \<open>queue_proposal\<close> it reads, in whatever order the engine returns the rows, the same
  proposals and the new one if its reference was not queued yet; a proposal whose reference is queued
  already is never replaced. The queue of every other group reads as before.\<close>

theorem queue_proposal_once:
  assumes codecs: "codec_roundtrip GC" "codec_roundtrip RC" "codec_roundtrip PC"
    and ord: "\<And>xs. mset (ord xs) = mset xs"
    and versions: "column_constraints (tables d)"
    and refs: "\<And>r'. r' \<in> set (proposals (tables d)) \<Longrightarrow> \<exists>q. to_sql RC q = Inr (snd (row_key r'))"
    and run: "sp_queue_proposal GC RC PC g r p d = (Inr (), d1)"
    and g': "to_sql GC g' = Inr b'"
    and d2: "tables d2 = tables d1" "faults d2 = []"
    and d3: "tables d3 = tables d" "faults d3 = []"
    and before: "fst (sp_queued_proposals ord GC RC PC g' d3) = Inr qs"
  shows "\<exists>qs'. fst (sp_queued_proposals ord GC RC PC g' d2) = Inr qs' \<and>
    mset qs' = (if g' = g \<and> r \<notin> fst ` set qs then add_mset (r, p) (mset qs) else mset qs)"
proof -
  let ?f = "proposal_from_row RC PC" and ?v = "\<lambda>x. projr (proposal_from_row RC PC x)"
  let ?old = "group_proposals b' (tables d)" and ?new = "group_proposals b' (tables d1)"
  have set_ord: "set (ord xs) = set xs" for xs using ord [of xs] by (metis set_mset_mset)
  from run obtain b c w where b: "to_sql GC g = Inr b" "to_sql RC r = Inr c" "to_sql PC p = Inr w"
    and t: "tables d1 = proposals_update (insert_or_ignore (b, c) w) (tables d)" by (rule queue_proposal_Inr)
  from before have collect: "collect_rows ?f (ord ?old) = Inr qs"
    using d3 by (simp add: queued_proposals_healthy [OF d3(2) g'])
  from collect_rows_Inr [OF this] have qs: "qs = map ?v (ord ?old)" and ok: "\<forall>x \<in> set ?old. \<exists>a. ?f x = Inr a"
    by (simp_all add: set_ord)
  have refs': "\<exists>q. to_sql RC q = Inr (fst x)" if "x \<in> set ?old" for x
    using that refs by (auto simp: group_proposals_def select_rows_def)
  have "mset qs = image_mset ?v (mset ?old)" by (simp add: qs ord)
  moreover have "c \<in> fst ` set ?old \<longleftrightarrow> r \<in> fst ` set qs"
    using proposal_refs_decode [OF codecs(2) b(2) ok refs'] by (simp add: qs set_ord)
  moreover have "b' = b \<longleftrightarrow> g' = g" by (rule to_sql_inject [OF codecs(1) g' b(1)])
  moreover have "?new = (if b' = b \<and> c \<notin> fst ` set ?old then ?old @ [(c, w)] else ?old)"
    using group_proposals_ignore [of "tables d" b' b c w] versions by (auto simp: column_constraints_def t)
  moreover have new: "?f (c, w) = Inr (r, p)"
    using column_result_to_sql [OF codecs(2) b(2)] column_result_to_sql [OF codecs(3) b(3)]
    by (simp add: proposal_from_row_def)
  moreover from calculation(4) ok new have "\<forall>x \<in> set (ord ?new). \<exists>a. ?f x = Inr a" by (auto simp: set_ord)
  ultimately show ?thesis
    using d2 by (auto simp: queued_proposals_healthy [OF d2(2) g'] collect_rows_all ord)
qed

section \<open>The legacy message secrets\<close>

lemma select_empty_iff: "select_rows (\<lambda>k'. k' = k) t = [] \<longleftrightarrow> lookup k t = None"
  by (auto simp: lookup_def split: list.splits)

lemma is_migration_done_healthy:
  assumes "faults d = []" and "to_sql GC g = Inr b"
  shows "is_migration_done GC g d =
    (Inr (lookup (b, data_type_to_sql MessageSecrets) (group_data (tables d)) = None), d)"
  using assms
  by (simp add: is_migration_done_def has_legacy_message_secrets_for_group_def
      has_legacy_message_secrets_for_group_in_tx_def sbind_def pooled_healthy query_healthy select_empty_iff)

text \<open>On a healthy engine a group counts as migrated to per-epoch message secrets exactly when the
  legacy method \<open>message_secrets\<close> reads nothing for it; in particular a legacy row that cannot be
  decoded still counts as not migrated.\<close>

theorem migrated_iff_no_legacy_secrets:
  assumes "faults d = []" and "to_sql GC g = Inr b"
  shows "fst (sp_is_group_epoch_message_secrets_migrated GC g d) =
    Inr (fst (sp_message_secrets GC VC g d) = Inr None)"
  using is_migration_done_healthy [OF assms] group_data_load_healthy [OF assms, of VC MessageSecrets]
  by (auto simp: sp_is_group_epoch_message_secrets_migrated_def sp_message_secrets_def rbind_Inr_iff split: option.splits)

section \<open>Examples\<close>

text \<open>A database with a tree and a legacy row of one group, and a queued proposal.\<close>

definition sample_group :: db where
  "sample_group = empty_db\<lparr>tables := empty_tables\<lparr>
     group_data := [(([7], ''tree''), STORAGE_PROVIDER_VERSION, [1]), (([7], ''message_secrets''), STORAGE_PROVIDER_VERSION, [2])],
     proposals := [(([7], [1]), STORAGE_PROVIDER_VERSION, [3])]\<rparr>\<rparr>"

lemma sample_group_faults: "faults sample_group = []"
  by (simp add: sample_group_def empty_db_def)

text \<open>The context is written through the pool and read in a transaction; the tree stays as it was.\<close>

theorem group_slots_write_witness:
  "fst (tx_group_context bytes_codec bytes_codec [7] (snd (sp_write_context bytes_codec bytes_codec [7] [9] sample_group))) = Inr (Some [9]) \<and>
   fst (tx_tree bytes_codec bytes_codec [7] (snd (sp_write_context bytes_codec bytes_codec [7] [9] sample_group))) =
     fst (sp_tree bytes_codec bytes_codec [7] sample_group)"
proof -
  let ?run = "sp_write_context bytes_codec bytes_codec [7] [9] sample_group"
  let ?W = "group_writers bytes_codec bytes_codec" and ?R = "group_readers bytes_codec bytes_codec"
    and ?T = "tx_group_readers bytes_codec bytes_codec"
  have run: "(?W ! 3) [7] [9] sample_group = (Inr (), snd ?run) \<or>
      (tx_group_writers bytes_codec bytes_codec ! 3) [7] [9] sample_group = (Inr (), snd ?run)" by code_simp
  have f: "faults (snd ?run) = []" by code_simp
  have len: "3 < length ?W" "1 < length ?R" "3 < length ?R" by (simp_all add: group_writers_def group_readers_def)
  have T: "?T = ?R \<or> ?T = ?T" and R: "?R = ?R \<or> ?R = ?T" by simp_all
  note slot = group_slots_write [OF bytes_codec_roundtrip(1) bytes_codec_roundtrip(1) len(1) _ run
      bytes_codec_roundtrip(2) [of "[7]"] refl f refl sample_group_faults T R]
  from slot [OF len(3)] slot [OF len(2)] show ?thesis by (simp add: group_readers_def tx_group_readers_def)
qed

theorem group_slots_delete_witness:
  "fst (sp_tree bytes_codec bytes_codec [7] (snd (sp_delete_tree bytes_codec [7] sample_group))) = Inr None"
proof -
  let ?run = "sp_delete_tree bytes_codec [7] sample_group"
  have run: "(group_deleters bytes_codec ! 1) [7] sample_group = (Inr (), snd ?run) \<or>
      (tx_group_deleters bytes_codec ! 1) [7] sample_group = (Inr (), snd ?run)" by code_simp
  have f: "faults (snd ?run) = []" by code_simp
  have len: "1 < length (group_deleters bytes_codec)" "1 < length (group_readers bytes_codec bytes_codec)"
    by (simp_all add: group_deleters_def group_readers_def)
  from group_slots_delete [OF bytes_codec_roundtrip(1) len run bytes_codec_roundtrip(2) [of "[7]"]
      refl f refl sample_group_faults]
  show ?thesis by (simp add: group_readers_def)
qed

definition list_codec :: "bytes list codec" where
  "list_codec = \<lparr>to_vec = (\<lambda>v. Inr (concat v)), from_slice = (\<lambda>b. Inr [b])\<rparr>"

theorem provider_schema_invariant_witness:
  "primary_keys (tables (snd (sp_write_tree bytes_codec bytes_codec [7] [9] empty_db))) \<and>
   column_constraints (tables (snd (sp_write_tree bytes_codec bytes_codec [7] [9] empty_db)))"
proof -
  have "provider_reach bytes_codec bytes_codec bytes_codec list_codec empty_db"
    by (rule provider_reach.intros) (simp add: empty_db_def)
  then have "provider_reach bytes_codec bytes_codec bytes_codec list_codec
      (snd (sp_write_tree bytes_codec bytes_codec [7] [9] empty_db))"
    by (rule provider_reach.intros) (rule provider_call.intros)
  from provider_schema_invariant [OF this] show ?thesis .
qed

theorem provider_call_atomic_witness:
  "fst (sp_write_tree bytes_codec bytes_codec [7] [9] (failing_at 2 sample_group)) = Inl (SqliteFailure 10 None) \<and>
   tables (snd (sp_write_tree bytes_codec bytes_codec [7] [9] (failing_at 2 sample_group))) = tables (failing_at 2 sample_group)"
proof -
  let ?run = "sp_write_tree bytes_codec bytes_codec [7] [9] (failing_at 2 sample_group)"
  have e: "fst ?run = Inl (SqliteFailure 10 None)" by code_simp
  then have "?run = (Inl (SqliteFailure 10 None), snd ?run)" by (metis prod.collapse)
  moreover have "provider_call bytes_codec bytes_codec bytes_codec list_codec (sp_write_tree bytes_codec bytes_codec [7] [9])"
    by (rule provider_call.intros)
  ultimately have "tables (snd ?run) = tables (failing_at 2 sample_group)" by (intro provider_call_atomic)
  with e show ?thesis by blast
qed

theorem queue_proposal_once_witness:
  "\<exists>qs. fst (sp_queued_proposals id bytes_codec bytes_codec bytes_codec [7]
       (snd (sp_queue_proposal bytes_codec bytes_codec bytes_codec [7] [1] [9] sample_group))) = Inr qs \<and>
     mset qs = {#([1], [3])#}"
proof -
  let ?run = "sp_queue_proposal bytes_codec bytes_codec bytes_codec [7] [1] [9] sample_group"
  have run: "?run = (Inr (), snd ?run)" by code_simp
  have f: "faults (snd ?run) = []" by code_simp
  have old: "fst (sp_queued_proposals id bytes_codec bytes_codec bytes_codec [7] sample_group) = Inr [([1], [3])]" by code_simp
  have inv: "column_constraints (tables sample_group)"
    by (simp add: column_constraints_def sample_group_def empty_db_def empty_tables_def row_key_def row_version_def
        data_type_column_result_def)
  have refs: "\<And>r'. r' \<in> set (proposals (tables sample_group)) \<Longrightarrow> \<exists>q. to_sql bytes_codec q = Inr (snd (row_key r'))"
    by simp
  have ord: "\<And>xs :: (bytes \<times> bytes) list. mset (id xs) = mset xs" by simp
  from queue_proposal_once [OF bytes_codec_roundtrip(1) bytes_codec_roundtrip(1) bytes_codec_roundtrip(1) ord inv refs run
      bytes_codec_roundtrip(2) [of "[7]"] refl f refl sample_group_faults old]
  show ?thesis by simp
qed

theorem migrated_iff_no_legacy_secrets_witness:
  "fst (sp_is_group_epoch_message_secrets_migrated bytes_codec [7] sample_group) = Inr False"
proof -
  have "fst (sp_message_secrets bytes_codec bytes_codec [7] sample_group) = Inr (Some [2])" by code_simp
  with migrated_iff_no_legacy_secrets [OF sample_group_faults bytes_codec_roundtrip(2) [of "[7]"], of bytes_codec]
  show ?thesis by simp
qed

end
