(* ===== verification/Mls_Error.thy ===== *)
theory Mls_Error
  imports Storage_Delete
begin

text \<open>
  The error type of the MLS crates (\<open>uq-openmls/src/error.rs\<close>): its variants, its texts and the
  conversions into it. The errors of OpenMLS are texts; how \<open>rusqlite\<close> prints its errors is the
  argument \<open>disp\<close>.
\<close>

section \<open>Variants and texts\<close>

datatype mls_error =
    Error_Mls string
  | Error_Crypto string
  | Error_KeyPackageNew string
  | Error_AddMembers string
  | Error_MergePendingCommit string
  | Error_NewGroup string
  | Error_ProcessMessage string
  | Error_MergeCommit string
  | Error_InvalidOperationMessage
  | Error_InvalidWelcomeMessage
  | Error_InvalidApplicationMessage
  | Error_InvalidProposalMessage
  | Error_InvalidGroupInfo
  | Error_Welcome string
  | Error_WelcomeGroupAlreadyExisted
  | Error_ProtocolMessage string
  | Error_Storage string
  | Error_KeyPackageVerify string
  | Error_GroupIsNotExisted
  | Error_CreateMessage string
  | Error_ExportGroupInfo string
  | Error_ExportGroupInfoInvalidExportType
  | Error_ExternalCommit string
  | Error_CreationFromExternal string
  | Error_MissingRatchetTree
  | Error_CredentialIsExisted
  | Error_RemoveMembers string
  | Error_CommitToPendingProposals string
  | Error_LeaveGroup string
  | Error_UpdateLeafNode string
  | Error_Sqlite string
  | Error_SqliteNotFound
  | Error_SqliteMigration string
  | Error_Deserialize
  | Error_Serialize
  | Error_MissingOwnLeafNodeInGroup
  | Error_MissingSignatureKeyPair
  | Error_SomeMembersAlreadyExistedInGroup
  | Error_ExternalCommitBuilder string
  | Error_ExternalCommitBuilderFinalize string
  | Error_CreateCommit string
  | Error_ReAdd string
  | Error_CommitBuilderStage string
  | Error_Proposal string

fun display :: "mls_error \<Rightarrow> string" where
  "display (Error_Mls s) = ''MLS error: '' @ s"
| "display (Error_Crypto s) = ''Crypto error: '' @ s"
| "display (Error_KeyPackageNew s) = ''Key package new error: '' @ s"
| "display (Error_AddMembers s) = ''Add members error: '' @ s"
| "display (Error_MergePendingCommit s) = ''Merge pending commit error: '' @ s"
| "display (Error_NewGroup s) = ''New group error: '' @ s"
| "display (Error_ProcessMessage s) = ''Process message error: '' @ s"
| "display (Error_MergeCommit s) = ''Merge commit error: '' @ s"
| "display Error_InvalidOperationMessage = ''Invalid operation message''"
| "display Error_InvalidWelcomeMessage = ''Invalid welcome message''"
| "display Error_InvalidApplicationMessage = ''Invalid application message''"
| "display Error_InvalidProposalMessage = ''Invalid proposal message''"
| "display Error_InvalidGroupInfo = ''Invalid group info''"
| "display (Error_Welcome s) = ''Welcome error: '' @ s"
| "display Error_WelcomeGroupAlreadyExisted = ''Welcome error: a group with the same id existed.''"
| "display (Error_ProtocolMessage s) = ''Protocol message error: '' @ s"
| "display (Error_Storage s) = ''Storage error: '' @ s"
| "display (Error_KeyPackageVerify s) = ''Key package verify error: '' @ s"
| "display Error_GroupIsNotExisted = ''Group is not existed''"
| "display (Error_CreateMessage s) = ''Create message error: '' @ s"
| "display (Error_ExportGroupInfo s) = ''Export group info error: '' @ s"
| "display Error_ExportGroupInfoInvalidExportType = ''Export group info error: invalid export type''"
| "display (Error_ExternalCommit s) = ''External commit error: '' @ s"
| "display (Error_CreationFromExternal s) = ''Creation from external error: '' @ s"
| "display Error_MissingRatchetTree = ''Missing ratchet tree error''"
| "display Error_CredentialIsExisted = ''Credential is existed.''"
| "display (Error_RemoveMembers s) = ''Remove members error: '' @ s"
| "display (Error_CommitToPendingProposals s) = ''Commit to pending proposals error: '' @ s"
| "display (Error_LeaveGroup s) = ''Leave group error: '' @ s"
| "display (Error_UpdateLeafNode s) = ''Update leaf node error: '' @ s"
| "display (Error_Sqlite s) = ''Sqlite error: '' @ s"
| "display Error_SqliteNotFound = ''Sqlite error: not found''"
| "display (Error_SqliteMigration s) = ''Sqlite migration error: '' @ s"
| "display Error_Deserialize = ''Deserialize error''"
| "display Error_Serialize = ''Serialize error''"
| "display Error_MissingOwnLeafNodeInGroup = ''Missing own leaf node in group''"
| "display Error_MissingSignatureKeyPair = ''Missing signature key pair''"
| "display Error_SomeMembersAlreadyExistedInGroup = ''Some members already existed in group''"
| "display (Error_ExternalCommitBuilder s) = ''External commit builder error: '' @ s"
| "display (Error_ExternalCommitBuilderFinalize s) = ''External commit builder finalize error: '' @ s"
| "display (Error_CreateCommit s) = ''Create commit error: '' @ s"
| "display (Error_ReAdd s) = ''Re-add error: '' @ s"
| "display (Error_CommitBuilderStage s) = ''Commit build stage error: '' @ s"
| "display (Error_Proposal s) = ''Proposal error: '' @ s"

section \<open>Conversions\<close>

definition from_mls_error :: "string \<Rightarrow> mls_error" where
  "from_mls_error s = Error_Mls s"

definition from_crypto_error :: "string \<Rightarrow> mls_error" where
  "from_crypto_error s = Error_Crypto s"

definition from_key_package_new_error :: "string \<Rightarrow> mls_error" where
  "from_key_package_new_error s = Error_KeyPackageNew s"

definition from_add_members_error :: "string \<Rightarrow> mls_error" where
  "from_add_members_error s = Error_AddMembers s"

definition from_merge_pending_commit_error :: "string \<Rightarrow> mls_error" where
  "from_merge_pending_commit_error s = Error_MergePendingCommit s"

definition from_new_group_error :: "string \<Rightarrow> mls_error" where
  "from_new_group_error s = Error_NewGroup s"

definition from_process_message_error :: "string \<Rightarrow> mls_error" where
  "from_process_message_error s = Error_ProcessMessage s"

definition from_merge_commit_error :: "string \<Rightarrow> mls_error" where
  "from_merge_commit_error s = Error_MergeCommit s"

definition from_welcome_error :: "string \<Rightarrow> mls_error" where
  "from_welcome_error s = Error_Welcome s"

definition from_protocol_message_error :: "string \<Rightarrow> mls_error" where
  "from_protocol_message_error s = Error_ProtocolMessage s"

definition from_key_package_verify_error :: "string \<Rightarrow> mls_error" where
  "from_key_package_verify_error s = Error_KeyPackageVerify s"

definition from_create_message_error :: "string \<Rightarrow> mls_error" where
  "from_create_message_error s = Error_CreateMessage s"

definition from_export_group_info_error :: "string \<Rightarrow> mls_error" where
  "from_export_group_info_error s = Error_ExportGroupInfo s"

definition from_external_commit_error :: "string \<Rightarrow> mls_error" where
  "from_external_commit_error s = Error_ExternalCommit s"

definition from_creation_from_external_error :: "string \<Rightarrow> mls_error" where
  "from_creation_from_external_error s = Error_CreationFromExternal s"

definition from_remove_members_error :: "string \<Rightarrow> mls_error" where
  "from_remove_members_error s = Error_RemoveMembers s"

definition from_commit_to_pending_proposals_error :: "string \<Rightarrow> mls_error" where
  "from_commit_to_pending_proposals_error s = Error_RemoveMembers s"

definition from_leave_group_error :: "string \<Rightarrow> mls_error" where
  "from_leave_group_error s = Error_LeaveGroup s"

definition from_self_update_error :: "string \<Rightarrow> mls_error" where
  "from_self_update_error s = Error_UpdateLeafNode s"

definition from_sqlite_error :: "(sql_error \<Rightarrow> string) \<Rightarrow> sql_error \<Rightarrow> mls_error" where
  "from_sqlite_error disp e = Error_Sqlite (disp e)"

definition from_external_commit_builder_error :: "string \<Rightarrow> mls_error" where
  "from_external_commit_builder_error s = Error_ExternalCommitBuilder s"

definition from_create_commit_error :: "string \<Rightarrow> mls_error" where
  "from_create_commit_error s = Error_CreateCommit s"

definition from_external_commit_builder_finalize_error :: "string \<Rightarrow> mls_error" where
  "from_external_commit_builder_finalize_error s = Error_ExternalCommitBuilderFinalize s"

definition from_commit_builder_stage_error :: "string \<Rightarrow> mls_error" where
  "from_commit_builder_stage_error s = Error_CommitBuilderStage s"

definition from_proposal_error :: "string \<Rightarrow> mls_error" where
  "from_proposal_error s = Error_Proposal s"

lemmas from_error_defs =
  from_mls_error_def from_crypto_error_def from_key_package_new_error_def from_add_members_error_def from_merge_pending_commit_error_def from_new_group_error_def from_process_message_error_def from_merge_commit_error_def from_welcome_error_def from_protocol_message_error_def from_key_package_verify_error_def from_create_message_error_def from_export_group_info_error_def from_external_commit_error_def from_creation_from_external_error_def from_remove_members_error_def from_commit_to_pending_proposals_error_def from_leave_group_error_def from_self_update_error_def from_external_commit_builder_error_def from_create_commit_error_def from_external_commit_builder_finalize_error_def from_commit_builder_stage_error_def from_proposal_error_def

end
