(* ===== verification/Mls_Provider.thy ===== *)
theory Mls_Provider
  imports Mls_Error Storage_Provider
begin

text \<open>
  The SQLite provider of the MLS crate (\<open>uq-openmls/src/provider/sqlite_provider.rs\<close>): transactions
  with the crate's own errors, deletion of a group with its recovery from damaged pages, and the
  migration of legacy message secrets to one row per epoch. Loading a group and exporting its legacy
  secrets are OpenMLS functions on the storage: arguments of the definitions. Log callbacks only
  receive text and are left out. \<open>disp\<close> prints a \<open>rusqlite\<close> error, \<open>cdisp\<close> and \<open>cdbg\<close> a result code.
\<close>

section \<open>Transactions\<close>

text \<open>The closure's error is boxed, so that the transaction returns a \<open>rusqlite\<close> error.\<close>

definition boxed :: "(db, mls_error, 'a) action \<Rightarrow> 'a sql_action" where
  "boxed f = smap_err (\<lambda>e. ToSqlConversionFailure (display e)) f"

definition provider_transaction :: "(db, mls_error, 'a) action \<Rightarrow> 'a sql_action" where
  "provider_transaction f = transaction (boxed f)"

text \<open>\<open>self.transaction(|tx| Ok(load(tx)))?\<close>: the load's own error is a value of the closure, so the
  transaction commits, and it is returned after it.\<close>

definition load_in_snapshot :: "(sql_error \<Rightarrow> string) \<Rightarrow> (db, mls_error, 'grp) action \<Rightarrow> (db, mls_error, 'grp) action" where
  "load_in_snapshot disp load =
     sbind (smap_err (from_sqlite_error disp)
              (provider_transaction (\<lambda>d. case load d of (r, d') \<Rightarrow> (Inr r, d')))) (\<lambda>r.
     slift r)"

definition load_group ::
    "(sql_error \<Rightarrow> string) \<Rightarrow> (string \<Rightarrow> (db, mls_error, 'grp) action) \<Rightarrow> string \<Rightarrow> (db, mls_error, 'grp) action" where
  "load_group disp core_group group_id = load_in_snapshot disp (core_group group_id)"

definition load_group_with_epoch_message_secrets ::
    "(sql_error \<Rightarrow> string) \<Rightarrow> (string \<Rightarrow> u64 list \<Rightarrow> (db, mls_error, 'grp) action) \<Rightarrow> string \<Rightarrow> u64 list
      \<Rightarrow> (db, mls_error, 'grp) action" where
  "load_group_with_epoch_message_secrets disp core_group group_id epochs =
     load_in_snapshot disp (core_group group_id epochs)"

section \<open>Deleting a group\<close>

text \<open>\<open>SQLITE_ERROR\<close> and \<open>SQLITE_CORRUPT\<close>, whatever their extended code.\<close>

definition recoverable :: "sql_error \<Rightarrow> bool" where
  "recoverable err = (case err of SqliteFailure code _ \<Rightarrow> code mod 256 = 1 \<or> code mod 256 = 11 | _ \<Rightarrow> False)"

text \<open>The cleanup on a fresh connection: open, switch scrubbing off, and delete in a transaction.\<close>

definition isolated_cleanup ::
    "(int \<Rightarrow> string) \<Rightarrow> (int \<Rightarrow> string) \<Rightarrow> 'g codec \<Rightarrow> 'g \<Rightarrow> unit sql_action" where
  "isolated_cleanup cdisp cdbg GC group_id =
     sbind engine (\<lambda>_.
     sbind engine (\<lambda>_.
     sbind engine (\<lambda>_.
     rollback_on_error (sbind (delete_group_by_id cdisp cdbg GC group_id) (\<lambda>_. engine)))))"

definition delete_group ::
    "(sql_error \<Rightarrow> string) \<Rightarrow> (int \<Rightarrow> string) \<Rightarrow> (int \<Rightarrow> string) \<Rightarrow> 'g codec \<Rightarrow> 'g \<Rightarrow> (db, mls_error, unit) action" where
  "delete_group disp cdisp cdbg GC group_id d =
     (case transaction (delete_group_by_id cdisp cdbg GC group_id) d of
        (Inr _, d1) \<Rightarrow> (Inr (), d1)
      | (Inl err, d1) \<Rightarrow>
          if \<not> recoverable err then (Inl (Error_Sqlite (''delete_group MLS transaction: '' @ disp err)), d1)
          else
            smap_err (\<lambda>cleanup_error. Error_Sqlite
                (''delete_group MLS transaction: '' @ disp err @ ''; isolated cleanup: '' @ disp cleanup_error))
              (isolated_cleanup cdisp cdbg GC group_id) d1)"

section \<open>Migration of the legacy message secrets\<close>

text \<open>\<open>export\<close> is OpenMLS reading the legacy secrets of a group as one value per epoch.\<close>

type_synonym 'g exporter = "'g \<Rightarrow> (db, string, (u64 \<times> bytes) list option) action"

definition migrate_group_epoch_message_secrets ::
    "(sql_error \<Rightarrow> string) \<Rightarrow> 'g codec \<Rightarrow> 'g exporter \<Rightarrow> 'g \<Rightarrow> (db, mls_error, unit) action" where
  "migrate_group_epoch_message_secrets disp GC export group_id =
     sbind (smap_err Error_Storage (export group_id)) (\<lambda>snapshot.
     (case snapshot of
        None \<Rightarrow> sret ()
      | Some message_secrets \<Rightarrow>
          sbind (smap_err (from_sqlite_error disp)
                   (tx_replace_group_epoch_message_secrets GC group_id message_secrets)) (\<lambda>_.
          smap_err (from_sqlite_error disp) (tx_delete_message_secrets GC group_id))))"

text \<open>One transaction per group; a group that fails is only logged.\<close>

definition migrate_group_logged ::
    "(sql_error \<Rightarrow> string) \<Rightarrow> 'g codec \<Rightarrow> 'g exporter \<Rightarrow> 'g \<Rightarrow> (db, mls_error, unit) action" where
  "migrate_group_logged disp GC export group_id d =
     (Inr (), snd (provider_transaction (migrate_group_epoch_message_secrets disp GC export group_id) d))"

definition try_migrate_epoch_message_secrets ::
    "(sql_error \<Rightarrow> string) \<Rightarrow> 'g codec \<Rightarrow> 'g exporter \<Rightarrow> (db, mls_error, unit) action" where
  "try_migrate_epoch_message_secrets disp GC export =
     sbind (smap_err (from_sqlite_error disp) sp_is_legacy_message_secrets_migration_done) (\<lambda>finished.
     if finished then sret ()
     else
       sbind (smap_err (from_sqlite_error disp) (sp_list_group_ids_with_message_secrets GC)) (\<lambda>group_ids.
       if group_ids = []
       then smap_err (from_sqlite_error disp) (sp_mark_legacy_message_secrets_migration_done True)
       else
         sbind (sforeach group_ids (migrate_group_logged disp GC export)) (\<lambda>_.
         sbind (smap_err (from_sqlite_error disp) sp_has_legacy_message_secrets) (\<lambda>legacy.
         if \<not> legacy
         then smap_err (from_sqlite_error disp) (sp_mark_legacy_message_secrets_migration_done True)
         else sret ()))))"

text \<open>\<open>migrate_epoch_message_secrets\<close>: an error is only logged.\<close>

definition migrate_epoch_message_secrets ::
    "(sql_error \<Rightarrow> string) \<Rightarrow> 'g codec \<Rightarrow> 'g exporter \<Rightarrow> db \<Rightarrow> db" where
  "migrate_epoch_message_secrets disp GC export d = snd (try_migrate_epoch_message_secrets disp GC export d)"

text \<open>\<open>new_with_log\<close>: the schema, then the secrets; \<open>rdisp\<close> prints a migration error.\<close>

definition new_with_log ::
    "(sql_error \<Rightarrow> string) \<Rightarrow> (migration_error \<Rightarrow> string) \<Rightarrow> migration list
      \<Rightarrow> (migration list \<Rightarrow> (db, migration_error, unit) action) \<Rightarrow> 'g codec \<Rightarrow> 'g exporter \<Rightarrow> (db, mls_error, unit) action" where
  "new_with_log disp rdisp migrations runner GC export =
     sbind (smap_err (\<lambda>e. Error_SqliteMigration (rdisp e)) (run_migrations migrations runner)) (\<lambda>_ d.
     (Inr (), migrate_epoch_message_secrets disp GC export d))"

section \<open>Lemmas\<close>

lemma rollback_settled: "rollback_on_error f d = (Inl e, d') \<Longrightarrow> tables d' = tables d"
  by (auto dest: rollback_on_error_result)

lemma isolated_cleanup_result:
  assumes "isolated_cleanup cdisp cdbg GC g d = (r, d')"
  shows "(case r of Inl _ \<Rightarrow> tables d' = tables d
    | Inr _ \<Rightarrow> (\<exists>b. to_sql GC g = Inr b \<and> tables d' = without_group b (tables d)))"
proof (cases r)
  case (Inl e)
  with assms show ?thesis
    by (auto simp: isolated_cleanup_def sbind_def split: prod.splits sum.splits dest!: rollback_settled engine_result)
next
  case (Inr u)
  with assms obtain d1 d2 where d: "tables d1 = tables d" "delete_group_by_id cdisp cdbg GC g d1 = (Inr (), d2)" "tables d' = tables d2"
    by (auto simp: isolated_cleanup_def elim!: sbind_InrE dest!: engine_result rollback_on_error_result)
  from delete_tables_done [OF d(2) [unfolded delete_group_by_id_def]] d Inr
  show ?thesis by (auto simp: fold_delete_from group_tables_def [THEN arg_cong, of "\<lambda>l. l = []"])
qed

lemma delete_group_by_id_healthy:
  assumes "faults d = []" and "to_sql GC g = Inr b"
  shows "delete_group_by_id cdisp cdbg GC g d = (Inr (), d\<lparr>tables := without_group b (tables d)\<rparr>)"
proof -
  have "sforeach ts (\<lambda>table. smap_err (f table) (statement (to_sql GC g) (delete_from table))) d =
      (Inr (), d\<lparr>tables := fold (\<lambda>table. delete_from table b) ts (tables d)\<rparr>)" for ts f
    using assms(1)
    by (induction ts arbitrary: d) (simp_all add: smap_err_def statement_healthy assms(2))
  note this [of group_tables "\<lambda>table err. sqlite_error_context cdisp cdbg err (''delete_group MLS table '' @ table)"]
  then show ?thesis by (simp only: delete_group_by_id_def fold_delete_from)
qed

section \<open>Properties of deletion\<close>

text \<open>C33: \<open>SqliteProvider::delete_group\<close> deletes the whole group or nothing, also through its recovery:
  if it returns success, from the first transaction or from the cleanup on a fresh connection, exactly
  the rows of the group are gone from the six group tables and every other row is kept; if it returns
  an error, whatever failed and in whichever attempt, no table has changed and the error is the
  crate's SQLite error with the text of the first failure.\<close>

theorem provider_delete_group_all_or_nothing:
  assumes "delete_group disp cdisp cdbg GC g d = (r, d')"
  shows "(case r of
      Inr _ \<Rightarrow> (\<exists>b. to_sql GC g = Inr b \<and> tables d' = without_group b (tables d))
    | Inl e \<Rightarrow> tables d' = tables d \<and>
        (\<exists>err d1 more. transaction (delete_group_by_id cdisp cdbg GC g) d = (Inl err, d1) \<and>
           e = Error_Sqlite (''delete_group MLS transaction: '' @ disp err @ more) \<and> (more \<noteq> [] \<longrightarrow> recoverable err)))"
proof -
  obtain r1 d1 where first: "transaction (delete_group_by_id cdisp cdbg GC g) d = (r1, d1)" by fastforce
  note fr = delete_in_transaction_result [OF first]
  show ?thesis
  proof (cases r1)
    case (Inr u)
    with first fr assms show ?thesis by (auto simp: delete_group_def)
  next
    case (Inl err)
    show ?thesis
    proof (cases "recoverable err")
      case False
      with Inl first fr assms show ?thesis by (auto simp: delete_group_def)
    next
      case True
      obtain r2 d2 where second: "isolated_cleanup cdisp cdbg GC g d1 = (r2, d2)" by fastforce
      note sr = isolated_cleanup_result [OF second]
      from True Inl first second assms
      have "d' = d2" "r = map_err (\<lambda>cleanup_error. Error_Sqlite (''delete_group MLS transaction: '' @ disp err @
          ''; isolated cleanup: '' @ disp cleanup_error)) r2"
        by (simp_all add: delete_group_def smap_err_def)
      with sr fr Inl first True show ?thesis by (cases r2) auto
    qed
  qed
qed

text \<open>Recovery works: when the first transaction fails with a generic or a corruption error of the
  engine, which may concern a single damaged page, and the engine then works on the fresh connection,
  \<open>delete_group\<close> succeeds and the group is gone.\<close>

theorem provider_delete_group_recovers:
  assumes "transaction (delete_group_by_id cdisp cdbg GC g) d = (Inl (SqliteFailure code m), d1)"
    and "code mod 256 = 1 \<or> code mod 256 = 11" and "faults d1 = []" and "to_sql GC g = Inr b"
  shows "delete_group disp cdisp cdbg GC g d = (Inr (), d1\<lparr>tables := without_group b (tables d)\<rparr>)"
proof -
  from delete_in_transaction_result [OF assms(1)] have "tables d1 = tables d" by simp
  moreover have "isolated_cleanup cdisp cdbg GC g d1 = (Inr (), d1\<lparr>tables := without_group b (tables d1)\<rparr>)"
    using assms(3) delete_group_by_id_healthy [OF assms(3,4), of cdisp cdbg]
    by (simp add: isolated_cleanup_def sbind_def rollback_on_error_def)
  ultimately show ?thesis using assms(1,2) by (simp add: delete_group_def recoverable_def smap_err_def)
qed

section \<open>Examples\<close>

text \<open>The first deletion meets a corrupt page, the cleanup works.\<close>

definition damaged_groups :: db where
  "damaged_groups = sample_groups\<lparr>faults := replicate 5 None @ [Some (SqliteFailure 779 None)]\<rparr>"

theorem provider_delete_group_all_or_nothing_witness:
  "tables (snd (delete_group (\<lambda>_. ''sql'') (\<lambda>_. ''disk'') (\<lambda>_. ''IO'') bytes_codec [7] (failing_at 5 sample_groups))) =
     tables sample_groups"
proof -
  let ?run = "delete_group (\<lambda>_. ''sql'') (\<lambda>_. ''disk'') (\<lambda>_. ''IO'') bytes_codec [7] (failing_at 5 sample_groups)"
  have "fst ?run = Inl (Error_Sqlite ''delete_group MLS transaction: sql'')" by code_simp
  then have "?run = (Inl (Error_Sqlite ''delete_group MLS transaction: sql''), snd ?run)" by (metis prod.collapse)
  from provider_delete_group_all_or_nothing [OF this] show ?thesis by (simp add: failing_at_def)
qed

theorem provider_delete_group_recovers_witness:
  "fst (delete_group (\<lambda>_. ''sql'') (\<lambda>_. ''disk'') (\<lambda>_. ''IO'') bytes_codec [7] damaged_groups) = Inr () \<and>
   tables (snd (delete_group (\<lambda>_. ''sql'') (\<lambda>_. ''disk'') (\<lambda>_. ''IO'') bytes_codec [7] damaged_groups)) =
     without_group [7] (tables damaged_groups)"
proof -
  let ?tx = "transaction (delete_group_by_id (\<lambda>_. ''disk'') (\<lambda>_. ''IO'') bytes_codec [7]) damaged_groups"
  let ?m = "Some ''delete_group MLS table openmls_epoch_keys_pairs: disk (IO)''"
  have "fst ?tx = Inl (SqliteFailure 779 ?m)" by code_simp
  then have tx: "?tx = (Inl (SqliteFailure 779 ?m), snd ?tx)" by (metis prod.collapse)
  have "faults (snd ?tx) = []" by code_simp
  from provider_delete_group_recovers [OF tx _ this bytes_codec_roundtrip(2)] show ?thesis by simp
qed

end
