(* ===== verification/Mls_Migration.thy ===== *)
theory Mls_Migration
  imports Mls_Provider
begin

text \<open>
  What the migration of the legacy message secrets guarantees (\<open>try_migrate_epoch_message_secrets\<close> of
  \<open>sqlite_provider.rs\<close> over \<open>group_epoch_message_secrets.rs\<close> and \<open>epoch_migration_state.rs\<close>): each group is
  migrated exactly or not at all, the database is marked as migrated only when no legacy row is left,
  and restarts get as far as the groups that cannot be exported let them.
\<close>

section \<open>Legacy rows and the mark\<close>

abbreviation legacy_kind :: string where
  "legacy_kind \<equiv> data_type_to_sql MessageSecrets"

text \<open>The encoded ids of the groups that still have a legacy row, oldest first.\<close>

definition legacy_ids :: "tables \<Rightarrow> bytes list" where
  "legacy_ids t = map (\<lambda>r. fst (row_key r)) (select_rows (\<lambda>k. snd k = legacy_kind) (group_data t))"

definition migration_done :: "tables \<Rightarrow> bool" where
  "migration_done t \<longleftrightarrow> (case lookup () (epoch_migration_state t) of None \<Rightarrow> False | Some n \<Rightarrow> n \<noteq> 0)"

text \<open>Reading the legacy secrets does not write.\<close>

definition read_only :: "'g exporter \<Rightarrow> bool" where
  "read_only export \<longleftrightarrow> (\<forall>g d. tables (snd (export g d)) = tables d)"

lemma read_only_result: "read_only export \<Longrightarrow> export g d = (r, d') \<Longrightarrow> tables d' = tables d"
  unfolding read_only_def by (metis snd_conv)

section \<open>One group\<close>

text \<open>What a migrated group looks like: the epochs of the snapshot and no legacy row; everything else is
  as before.\<close>

definition group_migrated :: "bytes \<Rightarrow> (u64 \<times> bytes) list \<Rightarrow> tables \<Rightarrow> tables \<Rightarrow> bool" where
  "group_migrated b ms t t' \<longleftrightarrow>
     (\<forall>c n. lookup (c, int (unat n)) (epoch_message_secrets t') =
        (if c = b then map_of (rev ms) n else lookup (c, int (unat n)) (epoch_message_secrets t))) \<and>
     t' = t\<lparr>epoch_message_secrets := epoch_message_secrets t',
            group_data := delete_rows (\<lambda>k. k = (b, legacy_kind)) (group_data t)\<rparr>"

lemma migrate_group_Inr:
  assumes "read_only export" and "versioned_key_unique (epoch_message_secrets (tables d))"
    and "migrate_group_epoch_message_secrets disp GC export g d = (Inr u, d')"
  shows "\<exists>snapshot d1. export g d = (Inr snapshot, d1) \<and>
    (case snapshot of None \<Rightarrow> tables d' = tables d
     | Some ms \<Rightarrow> \<exists>b. to_sql GC g = Inr b \<and> group_migrated b ms (tables d) (tables d'))"
proof -
  from assms(3) obtain snapshot d1 where ex: "export g d = (Inr snapshot, d1)"
    and rest: "(case snapshot of None \<Rightarrow> sret ()
      | Some ms \<Rightarrow> sbind (smap_err (from_sqlite_error disp) (tx_replace_group_epoch_message_secrets GC g ms)) (\<lambda>_.
          smap_err (from_sqlite_error disp) (tx_delete_message_secrets GC g))) d1 = (Inr u, d')"
    by (auto simp: migrate_group_epoch_message_secrets_def smap_err_Inr elim!: sbind_InrE)
  have d1: "tables d1 = tables d" by (rule read_only_result [OF assms(1) ex])
  show ?thesis
  proof (cases snapshot)
    case None
    with ex rest d1 show ?thesis by auto
  next
    case (Some ms)
    with rest obtain d2 where repl: "epoch_secrets_replace_in_tx GC g ms d1 = (Inr (), d2)"
      and del: "delete_group_data_in_tx GC g MessageSecrets d2 = (Inr u, d')"
      by (auto simp: smap_err_Inr tx_replace_group_epoch_message_secrets_def tx_delete_message_secrets_def elim!: sbind_InrE)
    from assms(2) d1 have "versioned_key_unique (epoch_message_secrets (tables d1))" by simp
    from repl this obtain b where b: "to_sql GC g = Inr b"
      and l: "\<And>c n. lookup (c, int (unat n)) (epoch_message_secrets (tables d2)) =
        (if c = b then map_of (rev ms) n else lookup (c, int (unat n)) (epoch_message_secrets (tables d1)))"
      and t: "tables d2 = tables d1\<lparr>epoch_message_secrets := epoch_message_secrets (tables d2)\<rparr>"
      by (rule epoch_secrets_replaced) blast
    have "tables d' = tables d2\<lparr>group_data := delete_rows (\<lambda>k. k = (b, legacy_kind)) (group_data (tables d2))\<rparr>"
      using statement_Inr [OF del [unfolded delete_group_data_in_tx_def delete_row_def]] b
      by (auto simp: group_data_key_def)
    moreover have "group_data (tables d2) = group_data (tables d)" by (subst t) (simp add: d1)
    ultimately have t': "tables d' = tables d\<lparr>epoch_message_secrets := epoch_message_secrets (tables d2),
        group_data := delete_rows (\<lambda>k. k = (b, legacy_kind)) (group_data (tables d))\<rparr>"
      using t d1 by simp
    have "group_migrated b ms (tables d) (tables d')"
      unfolding group_migrated_def using t' l d1 by simp
    with ex b Some show ?thesis by auto
  qed
qed

lemma provider_transaction_Inr:
  assumes "provider_transaction f d = (Inr u, d')"
  obtains d1 d2 where "tables d1 = tables d" "f d1 = (Inr u, d2)" "tables d' = tables d2"
  using transaction_result [OF assms [unfolded provider_transaction_def]]
  by (auto simp: boxed_def smap_err_Inr)

lemma provider_transaction_Inl: "provider_transaction f d = (Inl e, d') \<Longrightarrow> tables d' = tables d"
  by (auto simp: provider_transaction_def dest: transaction_result)

text \<open>C16: migrating a group is exact and atomic. Whatever fails (the export, binding an epoch, any engine
  call), no table changes; on success either OpenMLS had nothing to export and no table changes, or
  the per-epoch secrets of the group are exactly the exported snapshot, its legacy row is gone, and
  every other row of every table is as before.\<close>

theorem migrate_group_exact:
  assumes "read_only export" and "versioned_key_unique (epoch_message_secrets (tables d))"
    and run: "provider_transaction (migrate_group_epoch_message_secrets disp GC export g) d = (r, d')"
  shows "(case r of
      Inl _ \<Rightarrow> tables d' = tables d
    | Inr _ \<Rightarrow> \<exists>snapshot d1 d2. tables d1 = tables d \<and> export g d1 = (Inr snapshot, d2) \<and>
        (case snapshot of None \<Rightarrow> tables d' = tables d
         | Some ms \<Rightarrow> \<exists>b. to_sql GC g = Inr b \<and> group_migrated b ms (tables d) (tables d')))"
proof (cases r)
  case (Inl e)
  with run provider_transaction_Inl show ?thesis by simp
next
  case (Inr u)
  from run [unfolded Inr] obtain d1 d2 where d: "tables d1 = tables d"
    "migrate_group_epoch_message_secrets disp GC export g d1 = (Inr u, d2)" "tables d' = tables d2"
    by (rule provider_transaction_Inr)
  from assms(2) d(1) have "versioned_key_unique (epoch_message_secrets (tables d1))" by simp
  from migrate_group_Inr [OF assms(1) this d(2)] obtain snapshot d3 where "export g d1 = (Inr snapshot, d3)"
    "case snapshot of None \<Rightarrow> tables d2 = tables d1
     | Some ms \<Rightarrow> \<exists>b. to_sql GC g = Inr b \<and> group_migrated b ms (tables d1) (tables d2)" by blast
  with d have "tables d1 = tables d \<and> export g d1 = (Inr snapshot, d3) \<and>
      (case snapshot of None \<Rightarrow> tables d' = tables d
       | Some ms \<Rightarrow> \<exists>b. to_sql GC g = Inr b \<and> group_migrated b ms (tables d) (tables d'))" by (cases snapshot) auto
  with Inr show ?thesis by auto
qed

section \<open>The mark\<close>

lemma replace_keeps:
  assumes "epoch_secrets_replace_in_tx GC g ms d = (Inr u, d')"
  shows "epoch_migration_state (tables d') = epoch_migration_state (tables d) \<and> group_data (tables d') = group_data (tables d)"
proof -
  from assms obtain d1 where del: "epoch_secrets_delete_in_tx GC g d = (Inr (), d1)"
    and rest: "sforeach ms (\<lambda>(n, bs). epoch_secrets_store_in_tx GC g n bs) d1 = (Inr u, d')"
    by (auto simp: epoch_secrets_replace_in_tx_def elim!: sbind_InrE)
  from statement_Inr [OF del [unfolded epoch_secrets_delete_in_tx_def]] obtain b where b: "to_sql GC g = Inr b"
    and "tables d1 = tables d\<lparr>epoch_message_secrets := delete_rows (\<lambda>k. fst k = b) (epoch_message_secrets (tables d))\<rparr>"
    by auto
  with epoch_secrets_stores [OF b rest] show ?thesis by simp
qed

lemma delete_group_data_keeps:
  "delete_group_data_in_tx GC g kind d = (Inr u, d') \<Longrightarrow> epoch_migration_state (tables d') = epoch_migration_state (tables d)"
  by (auto simp: delete_group_data_in_tx_def delete_row_def dest: statement_Inr)

lemma migrate_group_logged_keeps_mark:
  assumes "read_only export"
  shows "epoch_migration_state (tables (snd (migrate_group_logged disp GC export g d))) = epoch_migration_state (tables d)"
proof -
  obtain r d' where run: "provider_transaction (migrate_group_epoch_message_secrets disp GC export g) d = (r, d')" by fastforce
  have "epoch_migration_state (tables d') = epoch_migration_state (tables d)"
  proof (cases r)
    case (Inl e)
    from provider_transaction_Inl [OF run [unfolded Inl]] show ?thesis by simp
  next
    case (Inr u)
    from run [unfolded Inr] obtain d1 d2 where d: "tables d1 = tables d"
      "migrate_group_epoch_message_secrets disp GC export g d1 = (Inr u, d2)" "tables d' = tables d2"
      by (rule provider_transaction_Inr)
    then show ?thesis
      by (auto simp: migrate_group_epoch_message_secrets_def smap_err_Inr tx_replace_group_epoch_message_secrets_def
          tx_delete_message_secrets_def elim!: sbind_InrE split: option.splits
          dest!: read_only_result [OF assms] replace_keeps delete_group_data_keeps)
  qed
  with run show ?thesis by (simp add: migrate_group_logged_def)
qed

lemma migrate_groups_total: "\<exists>d'. sforeach gs (migrate_group_logged disp GC export) d = (Inr (), d')"
  by (induction gs arbitrary: d) (simp_all add: migrate_group_logged_def)

lemma migrate_groups_keep_mark:
  assumes "read_only export"
  shows "epoch_migration_state (tables (snd (sforeach gs (migrate_group_logged disp GC export) d))) = epoch_migration_state (tables d)"
  using migrate_group_logged_keeps_mark [OF assms]
  by (induction gs arbitrary: d) (simp_all add: migrate_group_logged_def)

text \<open>Calls that only read.\<close>

definition reads :: "(db, 'e, 'a) action \<Rightarrow> bool" where
  "reads f \<longleftrightarrow> (\<forall>d r d'. f d = (r, d') \<longrightarrow> tables d' = tables d)"

lemma readsD: "reads f \<Longrightarrow> f d = (r, d') \<Longrightarrow> tables d' = tables d"
  unfolding reads_def by blast

lemma reads_query: "reads (query params select)"
  unfolding reads_def using query_result by blast

lemma reads_simps [simp]: "reads (slift r)" "reads (sret a)" "reads checkout"
  by (auto simp: reads_def checkout_result)

lemma reads_smap_err: "reads f \<Longrightarrow> reads (smap_err h f)"
  by (auto simp: reads_def smap_err_def split: prod.splits)

lemma reads_sbind:
  assumes "reads f" and "\<And>a. reads (k a)"
  shows "reads (sbind f k)"
  unfolding reads_def
proof (intro allI impI)
  fix d r d' assume run: "sbind f k d = (r, d')"
  obtain q d1 where q: "f d = (q, d1)" by fastforce
  from readsD [OF assms(1) q] run q show "tables d' = tables d"
    by (cases q) (auto simp: sbind_def dest: readsD [OF assms(2)])
qed

lemma reads_pooled: "reads f \<Longrightarrow> reads (pooled f)"
  by (simp add: pooled_def reads_sbind)

lemmas reads_intros = reads_query reads_sbind reads_pooled

lemma migration_reads:
  "reads sp_is_legacy_message_secrets_migration_done"
  "reads (sp_list_group_ids_with_message_secrets GC)"
  "reads sp_has_legacy_message_secrets"
  by (auto simp: sp_is_legacy_message_secrets_migration_done_def is_legacy_message_secrets_migration_done_def
      is_legacy_message_secrets_migration_done_in_tx_def sp_list_group_ids_with_message_secrets_def
      list_group_ids_with_message_secrets_def sp_has_legacy_message_secrets_def has_legacy_message_secrets_def
      intro!: reads_intros)

lemma has_legacy_result:
  assumes "sp_has_legacy_message_secrets d = (Inr legacy, d')"
  shows "legacy \<longleftrightarrow> legacy_ids (tables d) \<noteq> []"
  using assms
  by (auto simp: sp_has_legacy_message_secrets_def has_legacy_message_secrets_def legacy_ids_def
      elim!: pooled_Inr dest!: query_Inr)

lemma collect_rows_Nil: "collect_rows f rs = Inr [] \<Longrightarrow> rs = []"
  by (cases rs) (auto simp: rbind_Inr_iff)

lemma list_legacy_result:
  assumes "sp_list_group_ids_with_message_secrets GC d = (Inr [], d')"
  shows "legacy_ids (tables d) = []"
  using assms
  by (auto simp: sp_list_group_ids_with_message_secrets_def list_group_ids_with_message_secrets_def
      DEFAULT_MIGRATION_BATCH_SIZE_def legacy_ids_def elim!: pooled_Inr sbind_InrE dest!: query_Inr collect_rows_Nil)

lemma mark_done_result:
  assumes "sp_mark_legacy_message_secrets_migration_done True d = (r, d')"
  shows "legacy_ids (tables d') = legacy_ids (tables d) \<and>
    (case r of Inl _ \<Rightarrow> tables d' = tables d | Inr _ \<Rightarrow> migration_done (tables d'))"
  using pooled_result [OF assms [unfolded sp_mark_legacy_message_secrets_migration_done_def
        mark_legacy_message_secrets_migration_done_def]]
  by (auto simp: mark_legacy_message_secrets_migration_done_in_tx_def legacy_ids_def migration_done_def lookup_upsert
      dest!: statement_result split: sum.splits)

text \<open>The result of a run: unchanged mark, or no legacy row.\<close>

lemma try_migrate_mark:
  assumes ro: "read_only export" and run: "try_migrate_epoch_message_secrets disp GC export d = (r, d')"
  shows "epoch_migration_state (tables d') = epoch_migration_state (tables d) \<or> legacy_ids (tables d') = []"
proof -
  let ?E = "smap_err (from_sqlite_error disp)"
  note reads = migration_reads [THEN reads_smap_err, THEN readsD]
  have mark: "legacy_ids (tables e') = []"
    if "?E (sp_mark_legacy_message_secrets_migration_done True) e = (q, e')" "legacy_ids (tables e) = []" for e q e'
    using that by (auto simp: smap_err_def dest!: mark_done_result split: prod.splits)
  obtain q1 d1 where q1: "?E sp_is_legacy_message_secrets_migration_done d = (q1, d1)" by fastforce
  obtain q2 d2 where q2: "?E (sp_list_group_ids_with_message_secrets GC) d1 = (q2, d2)" by fastforce
  have t: "tables d1 = tables d" "tables d2 = tables d1" using reads q1 q2 by blast+
  show ?thesis
  proof (cases "\<exists>gs. q1 = Inr False \<and> q2 = Inr gs")
    case False
    with run q1 q2 t show ?thesis
      by (cases q1; cases q2) (auto simp: try_migrate_epoch_message_secrets_def sbind_def split: if_splits)
  next
    case True
    then obtain gs where q: "q1 = Inr False" "q2 = Inr gs" by blast
    obtain dl where loop: "sforeach gs (migrate_group_logged disp GC export) d2 = (Inr (), dl)"
      using migrate_groups_total by blast
    obtain q3 d3 where q3: "?E sp_has_legacy_message_secrets dl = (q3, d3)" by fastforce
    have t3: "tables d3 = tables dl" using reads q3 by blast
    show ?thesis
    proof (cases "gs = []")
      case True
      with q q2 have "legacy_ids (tables d1) = []" by (auto simp: smap_err_Inr dest: list_legacy_result)
      with t True run q1 q2 q show ?thesis
        by (auto simp: try_migrate_epoch_message_secrets_def sbind_def intro: mark)
    next
      case False
      then have run': "(case q3 of Inl e \<Rightarrow> (Inl e, d3) | Inr legacy \<Rightarrow>
          if \<not> legacy then ?E (sp_mark_legacy_message_secrets_migration_done True) d3 else (Inr (), d3)) = (r, d')"
        using run q1 q2 q loop q3
        by (auto simp: try_migrate_epoch_message_secrets_def sbind_def split: sum.split)
      have same: "epoch_migration_state (tables d3) = epoch_migration_state (tables d)"
        using t t3 migrate_groups_keep_mark [OF ro, of gs disp GC d2] loop by simp
      show ?thesis
      proof (cases "q3 = Inr False")
        case True
        with q3 t3 have "legacy_ids (tables d3) = []" by (auto simp: smap_err_Inr dest: has_legacy_result)
        with True run' show ?thesis by (auto intro: mark)
      next
        case False
        with run' same show ?thesis by (auto split: sum.splits if_splits)
      qed
    qed
  qed
qed

text \<open>The mark is honest. If a start of the provider marks the migration as done, there is no legacy
  row left in the database: the mark is never set while a group still has legacy secrets, whatever
  fails on the way.\<close>

theorem marked_only_when_migrated:
  assumes "read_only export" and "\<not> migration_done (tables d)"
    and "migration_done (tables (migrate_epoch_message_secrets disp GC export d))"
  shows "legacy_ids (tables (migrate_epoch_message_secrets disp GC export d)) = []"
proof -
  obtain r d' where run: "try_migrate_epoch_message_secrets disp GC export d = (r, d')" by fastforce
  with assms(2,3) try_migrate_mark [OF assms(1) run] show ?thesis
    by (auto simp: migrate_epoch_message_secrets_def migration_done_def)
qed

section \<open>Progress\<close>

text \<open>The tables as far as they concern one group: without the rows of other groups in the two tables
  that the migration writes, and without its mark.\<close>

definition own_view :: "bytes \<Rightarrow> tables \<Rightarrow> tables" where
  "own_view b t = t\<lparr>group_data := filter (\<lambda>r. fst (row_key r) = b) (group_data t),
     epoch_message_secrets := filter (\<lambda>r. fst (row_key r) = b) (epoch_message_secrets t), epoch_migration_state := []\<rparr>"

text \<open>The export reads what is stored under the group's id: on a database without faults it returns what
  it returns on the group's own view, and it leaves the database as it is. It may return an error, or
  nothing.\<close>

definition reads_own :: "'g codec \<Rightarrow> 'g exporter \<Rightarrow> bool" where
  "reads_own GC export \<longleftrightarrow> (\<forall>g b d. to_sql GC g = Inr b \<longrightarrow> faults d = [] \<longrightarrow>
     export g d = (fst (export g \<lparr>tables = own_view b (tables d), faults = []\<rparr>), d))"

text \<open>The groups whose secrets can be exported and stored: the export returns a snapshot, and its epochs
  fit the column. The others are stuck.\<close>

definition exportable :: "'g codec \<Rightarrow> 'g exporter \<Rightarrow> tables \<Rightarrow> bytes \<Rightarrow> bool" where
  "exportable GC export t b \<longleftrightarrow>
     (\<exists>g ms. column_result GC b = Inr g \<and> fst (export g \<lparr>tables = own_view b t, faults = []\<rparr>) = Inr (Some ms) \<and>
        (\<forall>(n, bs) \<in> set ms. unat n < 2 ^ 63))"

definition stuck_groups :: "'g codec \<Rightarrow> 'g exporter \<Rightarrow> tables \<Rightarrow> bytes list" where
  "stuck_groups GC export t = filter (\<lambda>b. \<not> exportable GC export t b) (legacy_ids t)"

lemma own_view_export:
  "reads_own GC export \<Longrightarrow> to_sql GC g = Inr b \<Longrightarrow> faults d = [] \<Longrightarrow>
     export g d = (fst (export g \<lparr>tables = own_view b (tables d), faults = []\<rparr>), d)"
  unfolding reads_own_def by blast

lemma own_rows_delete:
  fixes t :: "('a \<times> 'b, 'v) row list"
  assumes "\<And>k. fst k = c \<Longrightarrow> \<not> P k"
  shows "filter (\<lambda>r. fst (row_key r) = c) (delete_rows P t) = filter (\<lambda>r. fst (row_key r) = c) t"
proof -
  have "(\<not> matches P r \<and> fst (row_key r) = c) = (fst (row_key r) = c)" for r :: "('a \<times> 'b, 'v) row"
    using assms [of "row_key r"] by (auto simp: matches_def)
  then show ?thesis by (simp only: delete_rows_def filter_filter)
qed

lemma own_rows_upsert:
  assumes "fst k \<noteq> c"
  shows "filter (\<lambda>r. fst (row_key r) = c) (upsert k v t) = filter (\<lambda>r. fst (row_key r) = c) t"
proof -
  have "filter (\<lambda>r. fst (row_key r) = c) (map (\<lambda>r. if matches (\<lambda>k'. k' = k) r then (k, STORAGE_PROVIDER_VERSION, v) else r) t) =
      filter (\<lambda>r. fst (row_key r) = c) t"
    using assms by (induction t) (auto simp: matches_def row_key_def)
  with assms show ?thesis by (simp add: upsert_def row_key_def)
qed

lemma transaction_healthy:
  "faults d = [] \<Longrightarrow> f d = (Inr a, d') \<Longrightarrow> faults d' = [] \<Longrightarrow> transaction f d = (Inr a, d')"
  by (simp add: transaction_def sbind_def rollback_on_error_def)

text \<open>Storing the epochs of a snapshot: it succeeds exactly if they all fit, and only writes rows of its
  group.\<close>

lemma epoch_stores_healthy:
  assumes "to_sql GC g = Inr b"
  shows "faults d = [] \<Longrightarrow>
    \<exists>r d'. sforeach ms (\<lambda>(n, bs). epoch_secrets_store_in_tx GC g n bs) d = (r, d') \<and> faults d' = [] \<and>
      (isl r \<longleftrightarrow> \<not> (\<forall>(n, bs) \<in> set ms. unat n < 2 ^ 63)) \<and> (\<forall>c. c \<noteq> b \<longrightarrow> own_view c (tables d') = own_view c (tables d))"
proof (induction ms arbitrary: d)
  case Nil
  then show ?case by simp
next
  case (Cons m ms)
  obtain n bs where m: "m = (n, bs)" by fastforce
  show ?case
  proof (cases "unat n < 2 ^ 63")
    case True
    with assms have key: "epoch_secrets_key GC g n = Inr (b, int (unat n))" by (simp add: epoch_secrets_key_Inr_iff)
    let ?d1 = "d\<lparr>tables := epoch_message_secrets_update (upsert (b, int (unat n)) bs) (tables d)\<rparr>"
    have step: "epoch_secrets_store_in_tx GC g n bs d = (Inr (), ?d1)"
      using key Cons.prems by (simp add: epoch_secrets_store_in_tx_def statement_healthy)
    have own: "own_view c (tables ?d1) = own_view c (tables d)" if "c \<noteq> b" for c
      using that own_rows_upsert [of "(b, int (unat n))" c bs] by (simp add: own_view_def)
    have "faults ?d1 = []" using Cons.prems by simp
    from Cons.IH [OF this] obtain r d' where d':
      "sforeach ms (\<lambda>(n, bs). epoch_secrets_store_in_tx GC g n bs) ?d1 = (r, d')" "faults d' = []"
      "isl r \<longleftrightarrow> \<not> (\<forall>(n, bs) \<in> set ms. unat n < 2 ^ 63)" "\<forall>c. c \<noteq> b \<longrightarrow> own_view c (tables d') = own_view c (tables ?d1)" by blast
    show ?thesis
      using d' step own True m by (intro exI [of _ r] exI [of _ d']) (simp add: sbind_def)
  next
    case False
    then have "epoch_secrets_key GC g n \<noteq> Inr k" for k using assms by (auto simp: epoch_secrets_key_Inr_iff)
    then obtain e where "epoch_secrets_key GC g n = Inl e" by (cases "epoch_secrets_key GC g n") auto
    then have "epoch_secrets_store_in_tx GC g n bs d = (Inl e, d)"
      using Cons.prems by (simp add: epoch_secrets_store_in_tx_def statement_healthy)
    with m False Cons.prems show ?thesis by (intro exI [of _ "Inl e"] exI [of _ d]) (simp add: sbind_def)
  qed
qed

lemma replace_healthy:
  assumes "faults d = []" and b: "to_sql GC g = Inr b"
  shows "\<exists>r d'. epoch_secrets_replace_in_tx GC g ms d = (r, d') \<and> faults d' = [] \<and>
    (isl r \<longleftrightarrow> \<not> (\<forall>(n, bs) \<in> set ms. unat n < 2 ^ 63)) \<and> (\<forall>c. c \<noteq> b \<longrightarrow> own_view c (tables d') = own_view c (tables d))"
proof -
  let ?d1 = "d\<lparr>tables := epoch_message_secrets_update (delete_rows (\<lambda>k. fst k = b)) (tables d)\<rparr>"
  have "faults ?d1 = []" using assms(1) by simp
  from epoch_stores_healthy [OF b this, of ms] obtain r d2
    where d2: "sforeach ms (\<lambda>(n, bs). epoch_secrets_store_in_tx GC g n bs) ?d1 = (r, d2)" "faults d2 = []"
      "isl r \<longleftrightarrow> \<not> (\<forall>(n, bs) \<in> set ms. unat n < 2 ^ 63)" "\<forall>c. c \<noteq> b \<longrightarrow> own_view c (tables d2) = own_view c (tables ?d1)" by blast
  have "own_view c (tables ?d1) = own_view c (tables d)" if "c \<noteq> b" for c
    using that own_rows_delete [of c "\<lambda>k. fst k = b" "epoch_message_secrets (tables d)"] by (simp add: own_view_def)
  with d2 show ?thesis
    using assms by (intro exI [of _ r] exI [of _ d2])
      (simp add: epoch_secrets_replace_in_tx_def epoch_secrets_delete_in_tx_def statement_healthy sbind_def)
qed

lemma migrate_exportable:
  assumes own: "reads_own GC export" and f: "faults d = []" and b: "to_sql GC g = Inr b" "column_result GC b = Inr g"
    and can: "exportable GC export (tables d) b"
  shows "\<exists>d'. migrate_group_epoch_message_secrets disp GC export g d = (Inr (), d') \<and> faults d' = [] \<and>
    group_data (tables d') = delete_rows (\<lambda>k. k = (b, legacy_kind)) (group_data (tables d)) \<and>
    (\<forall>c. c \<noteq> b \<longrightarrow> own_view c (tables d') = own_view c (tables d))"
proof -
  from can b own_view_export [OF own b(1) f] obtain ms where ms: "export g d = (Inr (Some ms), d)" "\<forall>(n, bs) \<in> set ms. unat n < 2 ^ 63"
    unfolding exportable_def by fastforce
  from replace_healthy [OF f b(1), of ms] ms(2) obtain u :: unit and d2 where repl: "epoch_secrets_replace_in_tx GC g ms d = (Inr u, d2)"
    and d2: "faults d2 = []" "\<forall>c. c \<noteq> b \<longrightarrow> own_view c (tables d2) = own_view c (tables d)"
    by (metis isl_def sumE)
  let ?d3 = "d2\<lparr>tables := group_data_update (delete_rows (\<lambda>k. k = (b, legacy_kind))) (tables d2)\<rparr>"
  have del: "delete_group_data_in_tx GC g MessageSecrets d2 = (Inr (), ?d3)"
    using b d2 by (simp add: delete_group_data_in_tx_def delete_row_def statement_healthy group_data_key_def)
  have "own_view c (tables ?d3) = own_view c (tables d2)" if "c \<noteq> b" for c
  proof -
    have "filter (\<lambda>r. fst (row_key r) = c) (delete_rows (\<lambda>k. k = (b, legacy_kind)) (group_data (tables d2))) =
        filter (\<lambda>r. fst (row_key r) = c) (group_data (tables d2))"
      by (rule own_rows_delete) (use that in auto)
    then show ?thesis by (simp add: own_view_def)
  qed
  with ms(1) repl del d2 replace_keeps [OF repl] show ?thesis
    by (simp add: migrate_group_epoch_message_secrets_def smap_err_def sbind_def
        tx_replace_group_epoch_message_secrets_def tx_delete_message_secrets_def)
qed

text \<open>One group on a healthy engine: migrated if it can be exported, and else as it was; other groups are
  not touched.\<close>

lemma transaction_healthy_Inl:
  "faults d = [] \<Longrightarrow> f d = (Inl e, d') \<Longrightarrow> faults d' = [] \<Longrightarrow> transaction f d = (Inl e, d)"
  by (simp add: transaction_def sbind_def rollback_on_error_def)

lemma migrate_stuck:
  assumes own: "reads_own GC export" and f: "faults d = []" and b: "to_sql GC g = Inr b" "column_result GC b = Inr g"
    and stuck: "\<not> exportable GC export (tables d) b"
  shows "migrate_group_logged disp GC export g d = (Inr (), d)"
proof -
  obtain x where x: "export g d = (x, d)" "x = fst (export g \<lparr>tables = own_view b (tables d), faults = []\<rparr>)"
    using own_view_export [OF own b(1) f] by blast
  let ?run = "migrate_group_epoch_message_secrets disp GC export g d"
  have "?run = (Inr (), d) \<or> (\<exists>e d'. ?run = (Inl e, d') \<and> faults d' = [])"
  proof (cases x)
    case (Inl e)
    with x(1) f show ?thesis by (simp add: migrate_group_epoch_message_secrets_def sbind_def smap_err_def)
  next
    case (Inr snapshot)
    show ?thesis
    proof (cases snapshot)
      case None
      with Inr x(1) f show ?thesis by (simp add: migrate_group_epoch_message_secrets_def sbind_def smap_err_def)
    next
      case (Some ms)
      with Inr x(2) stuck b have "\<not> (\<forall>(n, bs) \<in> set ms. unat n < 2 ^ 63)" unfolding exportable_def by auto
      with replace_healthy [OF f b(1), of ms] obtain r :: "sql_error + unit" and d' where
        "epoch_secrets_replace_in_tx GC g ms d = (r, d')" "faults d' = []" "isl r" by blast
      with Inr Some x(1) show ?thesis
        by (cases r) (auto simp: migrate_group_epoch_message_secrets_def sbind_def smap_err_def
            tx_replace_group_epoch_message_secrets_def)
    qed
  qed
  then show ?thesis
    using f by (auto simp: migrate_group_logged_def provider_transaction_def boxed_def smap_err_def transaction_healthy transaction_healthy_Inl)
qed

lemma legacy_ids_delete:
  "group_data t' = delete_rows (\<lambda>k. k = (b, legacy_kind)) (group_data t) \<Longrightarrow>
     legacy_ids t' = filter (\<lambda>c. c \<noteq> b) (legacy_ids t)"
  by (simp add: legacy_ids_def select_rows_def delete_rows_def filter_map o_def)
    (rule arg_cong [where f = "map _"], rule filter_cong, auto simp: matches_def prod_eq_iff)

lemma exportable_own: "own_view b t = own_view b t' \<Longrightarrow> exportable GC export t b = exportable GC export t' b"
  by (simp add: exportable_def)

lemma migrate_groups_healthy:
  assumes "reads_own GC export"
  shows "faults d = [] \<Longrightarrow> list_all2 (\<lambda>g b. to_sql GC g = Inr b \<and> column_result GC b = Inr g) gs bs \<Longrightarrow> distinct bs \<Longrightarrow>
    \<exists>d'. sforeach gs (migrate_group_logged disp GC export) d = (Inr (), d') \<and> faults d' = [] \<and>
      legacy_ids (tables d') = filter (\<lambda>c. \<not> (c \<in> set bs \<and> exportable GC export (tables d) c)) (legacy_ids (tables d)) \<and>
      (\<forall>c. \<not> (c \<in> set bs \<and> exportable GC export (tables d) c) \<longrightarrow> own_view c (tables d') = own_view c (tables d)) \<and>
      ((\<forall>c \<in> set bs. \<not> exportable GC export (tables d) c) \<longrightarrow> d' = d)"
proof (induction gs arbitrary: d bs)
  case Nil
  then show ?case by simp
next
  case (Cons g gs)
  then obtain b bs' where bs: "bs = b # bs'" "to_sql GC g = Inr b" "column_result GC b = Inr g" "distinct bs'" "b \<notin> set bs'"
    "list_all2 (\<lambda>g b. to_sql GC g = Inr b \<and> column_result GC b = Inr g) gs bs'"
    by (auto simp: list_all2_Cons1)
  show ?case
  proof (cases "exportable GC export (tables d) b")
    case False
    have in_bs: "(c \<in> set bs \<and> exportable GC export (tables d) c) = (c \<in> set bs' \<and> exportable GC export (tables d) c)" for c
      using False bs(1) by auto
    have "sforeach (g # gs) (migrate_group_logged disp GC export) d = sforeach gs (migrate_group_logged disp GC export) d"
      using migrate_stuck [OF assms Cons.prems(1) bs(2,3) False, of disp] by (simp add: sbind_def)
    with Cons.IH [OF Cons.prems(1) bs(6,4)] show ?thesis unfolding in_bs using bs(1) False by simp
  next
    case True
    from migrate_exportable [OF assms Cons.prems(1) bs(2,3) True, of disp] obtain d1
      where run: "migrate_group_epoch_message_secrets disp GC export g d = (Inr (), d1)" "faults d1 = []"
        and left: "legacy_ids (tables d1) = filter (\<lambda>c. c \<noteq> b) (legacy_ids (tables d))"
        and own: "\<And>c. c \<noteq> b \<Longrightarrow> own_view c (tables d1) = own_view c (tables d)"
      by (auto dest: legacy_ids_delete)
    then have step: "migrate_group_logged disp GC export g d = (Inr (), d1)"
      using Cons.prems(1)
      by (simp add: migrate_group_logged_def provider_transaction_def boxed_def smap_err_def transaction_healthy)
    have same: "exportable GC export (tables d1) c = exportable GC export (tables d) c" if "c \<noteq> b" for c
      by (rule exportable_own [OF own [OF that]])
    from Cons.IH [OF run(2) bs(6,4)] obtain d' where d':
      "sforeach gs (migrate_group_logged disp GC export) d1 = (Inr (), d')" "faults d' = []"
      "legacy_ids (tables d') = filter (\<lambda>c. \<not> (c \<in> set bs' \<and> exportable GC export (tables d1) c)) (legacy_ids (tables d1))"
      "\<And>c. \<not> (c \<in> set bs' \<and> exportable GC export (tables d1) c) \<Longrightarrow> own_view c (tables d') = own_view c (tables d1)" by blast
    have "legacy_ids (tables d') = filter (\<lambda>c. \<not> (c \<in> set bs \<and> exportable GC export (tables d) c)) (legacy_ids (tables d))"
    proof -
      have "exportable GC export (tables d1) c = exportable GC export (tables d) c" if "c \<in> set bs'" for c
        using same that bs(5) by metis
      with True bs(1) show ?thesis unfolding d'(3) left filter_filter by (intro filter_cong) auto
    qed
    moreover have "own_view c (tables d') = own_view c (tables d)"
      if "\<not> (c \<in> set bs \<and> exportable GC export (tables d) c)" for c
    proof -
      from that True bs(1) have c: "c \<noteq> b" by auto
      with that bs(1) same have "\<not> (c \<in> set bs' \<and> exportable GC export (tables d1) c)" by simp
      from d'(4) [OF this] own [OF c] show ?thesis by simp
    qed
    ultimately show ?thesis
      using d'(1,2) step True bs(1) by (intro exI [of _ d']) (simp add: sbind_def)
  qed
qed

text \<open>The id column of a legacy row decodes, and encodes to the same bytes.\<close>

definition ids_decode :: "'g codec \<Rightarrow> tables \<Rightarrow> bool" where
  "ids_decode GC t \<longleftrightarrow> (\<forall>b \<in> set (legacy_ids t). \<exists>g. column_result GC b = Inr g \<and> to_sql GC g = Inr b)"

lemma collect_ids:
  "\<forall>b \<in> set bs. \<exists>g. column_result GC b = Inr g \<and> to_sql GC g = Inr b \<Longrightarrow>
     \<exists>gs. collect_rows (column_result GC) bs = Inr gs \<and>
       list_all2 (\<lambda>g b. to_sql GC g = Inr b \<and> column_result GC b = Inr g) gs bs"
  by (induction bs) auto

lemma list_legacy_healthy:
  "faults d = [] \<Longrightarrow> sp_list_group_ids_with_message_secrets GC d =
     (collect_rows (column_result GC) (take 20 (rev (legacy_ids (tables d)))), d)"
  by (simp add: sp_list_group_ids_with_message_secrets_def list_group_ids_with_message_secrets_def
      DEFAULT_MIGRATION_BATCH_SIZE_def legacy_ids_def pooled_healthy query_healthy sbind_def)

lemma is_done_healthy:
  "faults d = [] \<Longrightarrow> sp_is_legacy_message_secrets_migration_done d = (Inr (migration_done (tables d)), d)"
  by (auto simp: sp_is_legacy_message_secrets_migration_done_def is_legacy_message_secrets_migration_done_def
      is_legacy_message_secrets_migration_done_in_tx_def migration_done_def optional_row_def lookup_def
      pooled_healthy query_healthy sbind_def split: list.splits)

lemma has_legacy_healthy:
  "faults d = [] \<Longrightarrow> sp_has_legacy_message_secrets d = (Inr (legacy_ids (tables d) \<noteq> []), d)"
  by (simp add: sp_has_legacy_message_secrets_def has_legacy_message_secrets_def legacy_ids_def
      pooled_healthy query_healthy)

lemma mark_done_healthy:
  assumes "faults d = []"
  shows "\<exists>d'. sp_mark_legacy_message_secrets_migration_done True d = (Inr (), d') \<and> faults d' = [] \<and>
    legacy_ids (tables d') = legacy_ids (tables d) \<and> migration_done (tables d') \<and>
    tables d' = tables d\<lparr>epoch_migration_state := epoch_migration_state (tables d')\<rparr>"
  using assms
  by (simp add: sp_mark_legacy_message_secrets_migration_done_def mark_legacy_message_secrets_migration_done_def
      mark_legacy_message_secrets_migration_done_in_tx_def pooled_healthy statement_healthy legacy_ids_def
      migration_done_def lookup_upsert)

lemma filter_newest:
  assumes "distinct xs"
  shows "filter (\<lambda>x. x \<notin> set (take n (rev xs))) xs = take (length xs - n) xs"
proof -
  let ?m = "length xs - n"
  have new: "set (take n (rev xs)) = set (drop ?m xs)" by (simp add: take_rev)
  have "filter (\<lambda>x. x \<notin> set (drop ?m xs)) (take ?m xs @ drop ?m xs) = take ?m xs"
    using assms set_take_disj_set_drop_if_distinct [OF assms, of ?m ?m]
    by (simp only: filter_append) (auto simp: filter_empty_conv filter_id_conv)
  with new show ?thesis by simp
qed

text \<open>One start on a healthy engine: of the newest twenty groups, those that can be exported are migrated.
  Nothing else changes what concerns a group that is left.\<close>

lemma migrate_step:
  assumes own: "reads_own GC export" and ro: "read_only export" and f: "faults d = []" and nd: "\<not> migration_done (tables d)"
    and ids: "ids_decode GC (tables d)" and dist: "distinct (legacy_ids (tables d))"
    and d': "d' = migrate_epoch_message_secrets disp GC export d"
  defines "taken \<equiv> \<lambda>c. c \<in> set (take 20 (rev (legacy_ids (tables d)))) \<and> exportable GC export (tables d) c"
  shows "faults d' = []" and "legacy_ids (tables d') = filter (\<lambda>c. \<not> taken c) (legacy_ids (tables d))"
    and "migration_done (tables d') \<longleftrightarrow> legacy_ids (tables d') = []"
    and "\<And>c. \<not> taken c \<Longrightarrow> exportable GC export (tables d') c = exportable GC export (tables d) c"
    and "legacy_ids (tables d) \<noteq> [] \<Longrightarrow> (\<And>c. \<not> taken c) \<Longrightarrow> d' = d"
proof -
  let ?L = "legacy_ids (tables d)"
  let ?bs = "take 20 (rev ?L)"
  let ?E = "smap_err (from_sqlite_error disp)"
  have "\<forall>b \<in> set ?bs. \<exists>g. column_result GC b = Inr g \<and> to_sql GC g = Inr b"
    using ids by (auto simp: ids_decode_def dest!: in_set_takeD)
  then obtain gs where gs: "collect_rows (column_result GC) ?bs = Inr gs"
    "list_all2 (\<lambda>g b. to_sql GC g = Inr b \<and> column_result GC b = Inr g) gs ?bs"
    using collect_ids by blast
  have gs_Nil: "gs = [] \<longleftrightarrow> ?L = []" using list_all2_lengthD [OF gs(2)] by (cases "?L = []") (auto simp: min_def split: if_splits)
  have "distinct ?bs" using dist by simp
  from migrate_groups_healthy [OF own f gs(2) this] obtain d1
    where d1: "sforeach gs (migrate_group_logged disp GC export) d = (Inr (), d1)" "faults d1 = []"
      and left: "legacy_ids (tables d1) = filter (\<lambda>c. \<not> taken c) ?L"
      and same: "\<And>c. \<not> taken c \<Longrightarrow> own_view c (tables d1) = own_view c (tables d)"
      and still: "(\<And>c. \<not> taken c) \<Longrightarrow> d1 = d"
    unfolding taken_def by blast
  have mark1: "epoch_migration_state (tables d1) = epoch_migration_state (tables d)"
    using migrate_groups_keep_mark [OF ro, of gs disp GC d] d1(1) by simp
  have d1': "gs = [] \<Longrightarrow> d1 = d" using d1(1) by simp
  have run: "d' = snd ((if legacy_ids (tables d1) = [] then ?E (sp_mark_legacy_message_secrets_migration_done True)
      else sret ()) d1)"
    using f nd gs(1) d1 d1' gs_Nil
    by (cases "gs = []") (simp_all add: d' migrate_epoch_message_secrets_def try_migrate_epoch_message_secrets_def sbind_def
        smap_err_def is_done_healthy list_legacy_healthy has_legacy_healthy)
  note mark = mark_done_healthy [OF d1(2)]
  show "faults d' = []" "legacy_ids (tables d') = filter (\<lambda>c. \<not> taken c) ?L"
    and marked: "migration_done (tables d') \<longleftrightarrow> legacy_ids (tables d') = []"
    using run d1(2) left mark mark1 nd by (auto simp: smap_err_def migration_done_def)
  have "own_view c (tables d') = own_view c (tables d1)" for c
  proof -
    have "\<exists>s. tables d' = tables d1\<lparr>epoch_migration_state := s\<rparr>"
    proof (cases "legacy_ids (tables d1) = []")
      case True
      with mark run show ?thesis by (auto simp: smap_err_def)
    next
      case False
      with run show ?thesis by (intro exI [of _ "epoch_migration_state (tables d1)"]) simp
    qed
    then show ?thesis by (auto simp: own_view_def)
  qed
  with same show "exportable GC export (tables d') c = exportable GC export (tables d) c" if "\<not> taken c" for c
    using that by (intro exportable_own) simp
  show "d' = d" if "?L \<noteq> []" "\<And>c. \<not> taken c"
    using run still [OF that(2)] that(1) by simp
qed

lemma migrate_done_stays:
  "faults d = [] \<Longrightarrow> migration_done (tables d) \<Longrightarrow> migrate_epoch_message_secrets disp GC export d = d"
  by (simp add: migrate_epoch_message_secrets_def try_migrate_epoch_message_secrets_def sbind_def smap_err_def is_done_healthy)

text \<open>The window of twenty always holds a group to migrate while fewer than twenty are stuck.\<close>

lemma window_progress:
  assumes "distinct L" and "length (filter (\<lambda>c. \<not> P c) L) < n" and "m \<le> length (filter P L)" "m \<le> n - length (filter (\<lambda>c. \<not> P c) L)"
  shows "m \<le> length (filter P (take n (rev L)))"
proof (cases "length L \<le> n")
  case True
  then have "take n (rev L) = rev L" by simp
  then have "length (filter P (take n (rev L))) = length (filter P L)" by (metis length_rev rev_filter)
  with assms(3) show ?thesis by simp
next
  case False
  have "set (filter (\<lambda>c. \<not> P c) (take n (rev L))) \<subseteq> set (filter (\<lambda>c. \<not> P c) L)" by (auto dest: in_set_takeD)
  then have "card (set (filter (\<lambda>c. \<not> P c) (take n (rev L)))) \<le> card (set (filter (\<lambda>c. \<not> P c) L))" by (intro card_mono) auto
  then have "length (filter (\<lambda>c. \<not> P c) (take n (rev L))) \<le> length (filter (\<lambda>c. \<not> P c) L)"
    using assms(1) by (simp add: distinct_card del: set_filter)
  moreover have "length (filter P (take n (rev L))) + length (filter (\<lambda>c. \<not> P c) (take n (rev L))) = n"
    using False sum_length_filter_compl [of P "take n (rev L)"] by simp
  ultimately show ?thesis using assms(4) by simp
qed

lemma length_filter_outside:
  assumes "distinct L" and "set W \<subseteq> set L" and "distinct W"
  shows "length (filter P (filter (\<lambda>c. \<not> (c \<in> set W \<and> P c)) L)) = length (filter P L) - length (filter P W)"
proof -
  have "filter P (filter (\<lambda>c. \<not> (c \<in> set W \<and> P c)) L) = filter (\<lambda>c. P c \<and> c \<notin> set W) L"
    unfolding filter_filter by (rule filter_cong) auto
  then have "length (filter P (filter (\<lambda>c. \<not> (c \<in> set W \<and> P c)) L)) = card (set (filter P L) - set (filter P W))"
    using assms(1) by (simp add: distinct_card [symmetric] del: set_filter) (rule arg_cong [where f = card], auto)
  also have "\<dots> = card (set (filter P L)) - card (set (filter P W))"
    using assms(2) by (intro card_Diff_subset) auto
  finally show ?thesis using assms by (simp add: distinct_card del: set_filter)
qed

lemma funpow_fixed: "f x = x \<Longrightarrow> (f ^^ k) x = x"
  by (induction k) simp_all

lemma migration_rounds:
  assumes own: "reads_own GC export" and ro: "read_only export"
  shows "faults d = [] \<Longrightarrow> \<not> migration_done (tables d) \<Longrightarrow> ids_decode GC (tables d) \<Longrightarrow> distinct (legacy_ids (tables d)) \<Longrightarrow>
    length (stuck_groups GC export (tables d)) < 20 \<Longrightarrow> 0 < k \<Longrightarrow>
    length (filter (exportable GC export (tables d)) (legacy_ids (tables d))) \<le> (20 - length (stuck_groups GC export (tables d))) * k \<Longrightarrow>
    legacy_ids (tables ((migrate_epoch_message_secrets disp GC export ^^ k) d)) = stuck_groups GC export (tables d) \<and>
    (migration_done (tables ((migrate_epoch_message_secrets disp GC export ^^ k) d)) \<longleftrightarrow> stuck_groups GC export (tables d) = [])"
proof (induction k arbitrary: d)
  case 0
  then show ?case by simp
next
  case (Suc k)
  let ?m = "migrate_epoch_message_secrets disp GC export"
  let ?L = "legacy_ids (tables d)" and ?P = "exportable GC export (tables d)"
  let ?W = "take 20 (rev ?L)" and ?S = "stuck_groups GC export (tables d)"
  note step = migrate_step [OF own ro Suc.prems(1-4) refl, where disp = disp]
  have same: "exportable GC export (tables (?m d)) c = ?P c" if "c \<in> set (legacy_ids (tables (?m d)))" for c
    using that step(2,4) by auto
  have stuck: "stuck_groups GC export (tables (?m d)) = ?S"
    unfolding stuck_groups_def using same by (auto simp: step(2) intro!: filter_cong)
  have left: "length (filter (exportable GC export (tables (?m d))) (legacy_ids (tables (?m d)))) =
      length (filter ?P ?L) - length (filter ?P ?W)"
  proof -
    have "filter (exportable GC export (tables (?m d))) (legacy_ids (tables (?m d))) = filter ?P (legacy_ids (tables (?m d)))"
      by (rule filter_cong) (use same in auto)
    moreover have "set ?W \<subseteq> set ?L" "distinct ?W" using Suc.prems(4) by (auto dest: in_set_takeD)
    ultimately show ?thesis using length_filter_outside [OF Suc.prems(4), of ?W ?P] step(2) by simp
  qed
  have progress: "n \<le> length (filter ?P ?W)" if "n \<le> length (filter ?P ?L)" "n \<le> 20 - length ?S" for n
    using window_progress [OF Suc.prems(4), of ?P 20 n] Suc.prems(5) that by (simp add: stuck_groups_def)
  show ?case
  proof (cases "legacy_ids (tables (?m d)) = []")
    case True
    with step(3) have "(?m ^^ k) (?m d) = ?m d" by (intro funpow_fixed migrate_done_stays step(1)) simp
    with True stuck step(3) show ?thesis by (simp add: funpow_swap1 stuck_groups_def)
  next
    case False
    have nd: "\<not> migration_done (tables (?m d))" using False step(3) by simp
    have ids: "ids_decode GC (tables (?m d))" "distinct (legacy_ids (tables (?m d)))"
      using step(2) Suc.prems(3,4) by (auto simp: ids_decode_def)
    show ?thesis
    proof (cases "k = 0")
      case True
      have "length (filter ?P ?L) \<le> length (filter ?P ?W)" using progress [of "length (filter ?P ?L)"] Suc.prems(7) True by simp
      with left have "filter (exportable GC export (tables (?m d))) (legacy_ids (tables (?m d))) = []" by simp
      then have "legacy_ids (tables (?m d)) = ?S"
        using stuck unfolding stuck_groups_def by (metis (mono_tags, lifting) filter_True filter_empty_conv)
      with nd False True show ?thesis by simp
    next
      case k: False
      have "length (filter ?P ?L) - length (filter ?P ?W) \<le> (20 - length ?S) * k"
        using progress [of "20 - length ?S"] progress [of "length (filter ?P ?L)"] Suc.prems(7)
        by (cases "20 - length ?S \<le> length (filter ?P ?L)") auto
      with Suc.IH [OF step(1) nd ids] stuck left k Suc.prems(5) show ?thesis by (simp add: funpow_swap1)
    qed
  qed
qed

text \<open>C15: how far the migration gets. On an engine without faults, a start migrates those of the newest
  twenty groups that are left which can be exported. Groups whose export fails, returns nothing or has
  an epoch that does not fit the column are stuck. If fewer than twenty are stuck, then after enough
  starts (with \<open>s\<close> stuck groups, one for every \<open>20 - s\<close> of the others, rounded up) exactly their legacy
  rows are left, and the database is marked as migrated if and only if no group is stuck. But if the
  newest twenty groups are all stuck, no number of starts changes anything, whatever older groups there
  are.\<close>

theorem migration_finishes:
  assumes "reads_own GC export" and "read_only export" and "faults d = []" and "\<not> migration_done (tables d)"
    and "ids_decode GC (tables d)" and "distinct (legacy_ids (tables d))"
  shows "(length (stuck_groups GC export (tables d)) < 20 \<and> 0 < k \<and>
      length (filter (exportable GC export (tables d)) (legacy_ids (tables d))) \<le> (20 - length (stuck_groups GC export (tables d))) * k \<longrightarrow>
      legacy_ids (tables ((migrate_epoch_message_secrets disp GC export ^^ k) d)) = stuck_groups GC export (tables d) \<and>
      (migration_done (tables ((migrate_epoch_message_secrets disp GC export ^^ k) d)) \<longleftrightarrow> stuck_groups GC export (tables d) = [])) \<and>
    (legacy_ids (tables d) \<noteq> [] \<and> set (take 20 (rev (legacy_ids (tables d)))) \<subseteq> set (stuck_groups GC export (tables d)) \<longrightarrow>
      (migrate_epoch_message_secrets disp GC export ^^ k) d = d)"
proof (intro conjI impI; elim conjE)
  assume "legacy_ids (tables d) \<noteq> []" "set (take 20 (rev (legacy_ids (tables d)))) \<subseteq> set (stuck_groups GC export (tables d))"
  then have "migrate_epoch_message_secrets disp GC export d = d"
    by (intro migrate_step(5) [OF assms refl]) (auto simp: stuck_groups_def)
  then show "(migrate_epoch_message_secrets disp GC export ^^ k) d = d" by (rule funpow_fixed)
qed (use migration_rounds [OF assms] in blast)+

section \<open>Examples\<close>

text \<open>An export that gives every group one epoch, on a database with one legacy group.\<close>

definition sample_export :: "bytes exporter" where
  "sample_export g d = (Inr (Some [(4, [40])]), d)"

definition sample_legacy_group :: db where
  "sample_legacy_group = empty_db\<lparr>tables := empty_tables\<lparr>
     group_data := [(([7], ''message_secrets''), STORAGE_PROVIDER_VERSION, [2])]\<rparr>\<rparr>"

lemma sample_export_laws: "read_only sample_export"
  by (simp add: read_only_def sample_export_def)

text \<open>Two legacy groups, of which the newer one is stuck.\<close>

definition sample_partial_export :: "bytes exporter" where
  "sample_partial_export g d = (if g = [8] then Inr None else Inr (Some [(4, [40])]), d)"

definition sample_legacy_groups :: db where
  "sample_legacy_groups = empty_db\<lparr>tables := empty_tables\<lparr>
     group_data := [(([7], ''message_secrets''), STORAGE_PROVIDER_VERSION, [2]),
                    (([8], ''message_secrets''), STORAGE_PROVIDER_VERSION, [3])]\<rparr>\<rparr>"

theorem migrate_group_exact_witness:
  "\<exists>b ms. group_migrated b ms (tables sample_legacy_group)
     (tables (snd (provider_transaction (migrate_group_epoch_message_secrets (\<lambda>_. ''sql'') bytes_codec sample_export [7])
        sample_legacy_group)))"
proof -
  let ?run = "provider_transaction (migrate_group_epoch_message_secrets (\<lambda>_. ''sql'') bytes_codec sample_export [7]) sample_legacy_group"
  have "fst ?run = Inr ()" by code_simp
  then have run: "?run = (Inr (), snd ?run)" by (metis prod.collapse)
  have "versioned_key_unique (epoch_message_secrets (tables sample_legacy_group))" by code_simp
  from migrate_group_exact [OF sample_export_laws this run] show ?thesis by (auto simp: sample_export_def)
qed

theorem marked_only_when_migrated_witness:
  "legacy_ids (tables (migrate_epoch_message_secrets (\<lambda>_. ''sql'') bytes_codec sample_export sample_legacy_group)) = []"
proof (rule marked_only_when_migrated [OF sample_export_laws])
  show "\<not> migration_done (tables sample_legacy_group)" by code_simp
  show "migration_done (tables (migrate_epoch_message_secrets (\<lambda>_. ''sql'') bytes_codec sample_export sample_legacy_group))"
    by code_simp
qed

theorem migration_finishes_witness:
  "legacy_ids (tables ((migrate_epoch_message_secrets (\<lambda>_. ''sql'') bytes_codec sample_partial_export ^^ 1) sample_legacy_groups)) = [[8]] \<and>
   \<not> migration_done (tables ((migrate_epoch_message_secrets (\<lambda>_. ''sql'') bytes_codec sample_partial_export ^^ 1) sample_legacy_groups))"
proof -
  let ?d = sample_legacy_groups
  have ids: "legacy_ids (tables ?d) = [[7], [8]]" by code_simp
  have laws: "reads_own bytes_codec sample_partial_export" "read_only sample_partial_export"
    by (simp_all add: reads_own_def read_only_def sample_partial_export_def)
  have d: "faults ?d = []" "\<not> migration_done (tables ?d)" by code_simp+
  have dec: "ids_decode bytes_codec (tables ?d)" "distinct (legacy_ids (tables ?d))"
    by (simp_all add: ids_decode_def ids column_result_def bytes_codec_def to_sql_def)
  have can: "exportable bytes_codec sample_partial_export (tables ?d) b \<longleftrightarrow> b \<noteq> [8]" for b
    by (simp add: exportable_def sample_partial_export_def column_result_def bytes_codec_def)
  have stuck: "stuck_groups bytes_codec sample_partial_export (tables ?d) = [[8]]" by (simp add: stuck_groups_def ids can)
  from migration_finishes [OF laws d dec, of 1 "\<lambda>_. ''sql''"] show ?thesis by (simp add: stuck ids can)
qed

end
