(* ===== verification/Utf8.thy ===== *)
theory Utf8
  imports Prelude
begin

text \<open>
  Strings of the standard library as the MLS crates use them: a Rust string is the list of its UTF-8
  bytes as characters, \<open>from_utf8\<close> accepts exactly well-formed bytes and \<open>from_utf8_lossy\<close> replaces
  each maximal ill-formed part by U+FFFD, as the documentation of \<open>String\<close> and of \<open>Utf8Chunks\<close>
  states it.
\<close>

section \<open>Decoding\<close>

definition as_bytes :: "string \<Rightarrow> bytes" where
  "as_bytes s = map of_char s"

definition as_string :: "bytes \<Rightarrow> string" where
  "as_string b = map (\<lambda>x. char_of (unat x)) b"

definition continuation :: "8 word \<Rightarrow> bool" where
  "continuation b \<longleftrightarrow> 0x80 \<le> b \<and> b \<le> 0xBF"

text \<open>The second byte of a sequence of three or four bytes.\<close>

definition second_of_three :: "8 word \<Rightarrow> 8 word \<Rightarrow> bool" where
  "second_of_three a b \<longleftrightarrow>
     (if a = 0xE0 then 0xA0 \<le> b \<and> b \<le> 0xBF
      else if a = 0xED then 0x80 \<le> b \<and> b \<le> 0x9F
      else continuation b)"

definition second_of_four :: "8 word \<Rightarrow> 8 word \<Rightarrow> bool" where
  "second_of_four a b \<longleftrightarrow>
     (if a = 0xF0 then 0x90 \<le> b \<and> b \<le> 0xBF
      else if a = 0xF4 then 0x80 \<le> b \<and> b \<le> 0x8F
      else continuation b)"

text \<open>How many of the bytes satisfy the given tests in turn.\<close>

fun accepted :: "(8 word \<Rightarrow> bool) list \<Rightarrow> bytes \<Rightarrow> nat" where
  "accepted (p # ps) (b # bs) = (if p b then Suc (accepted ps bs) else 0)"
| "accepted _ _ = 0"

text \<open>The first character: its number of bytes and whether it is well formed.\<close>

definition tail_tests :: "8 word \<Rightarrow> (8 word \<Rightarrow> bool) list option" where
  "tail_tests a =
     (if a < 0x80 then Some []
      else if 0xC2 \<le> a \<and> a \<le> 0xDF then Some [continuation]
      else if 0xE0 \<le> a \<and> a \<le> 0xEF then Some [second_of_three a, continuation]
      else if 0xF0 \<le> a \<and> a \<le> 0xF4 then Some [second_of_four a, continuation, continuation]
      else None)"

definition first_char :: "8 word \<Rightarrow> bytes \<Rightarrow> nat \<times> bool" where
  "first_char a bs =
     (case tail_tests a of
        None \<Rightarrow> (1, False)
      | Some tests \<Rightarrow> (let n = accepted tests bs in (Suc n, n = length tests)))"

function utf8_valid :: "bytes \<Rightarrow> bool" where
  "utf8_valid [] = True"
| "utf8_valid (a # bs) = (case first_char a bs of (n, ok) \<Rightarrow> ok \<and> utf8_valid (drop (n - 1) bs))"
  by pat_completeness auto
termination by (relation "measure length") auto

function utf8_lossy :: "bytes \<Rightarrow> bytes" where
  "utf8_lossy [] = []"
| "utf8_lossy (a # bs) =
     (case first_char a bs of (n, ok) \<Rightarrow>
        (if ok then take n (a # bs) else [0xEF, 0xBF, 0xBD]) @ utf8_lossy (drop (n - 1) bs))"
  by pat_completeness auto
termination by (relation "measure length") auto

definition from_utf8 :: "bytes \<Rightarrow> string option" where
  "from_utf8 b = (if utf8_valid b then Some (as_string b) else None)"

definition from_utf8_lossy :: "bytes \<Rightarrow> string" where
  "from_utf8_lossy b = as_string (utf8_lossy b)"

section \<open>Lemmas\<close>

lemma of_char_unat: "(of_char (char_of (unat x)) :: 8 word) = x"
proof -
  have "unat x mod 256 = unat x" using unsigned_less [of x, where ?'a = nat] by simp
  then have "of_char (char_of (unat x)) = unat x" by (simp only: of_char_of)
  then have "(of_nat (of_char (char_of (unat x))) :: 8 word) = of_nat (unat x)" by (rule arg_cong)
  then show ?thesis by (simp only: of_nat_of_char) simp
qed

lemma unat_of_char: "char_of (unat (of_char c :: 8 word)) = c"
proof -
  have "unat (of_nat (of_char c) :: 8 word) = of_char c mod 2 ^ 8" by (simp only: unat_of_nat) simp
  then have "unat (of_char c :: 8 word) = of_char c" by (simp only: of_nat_of_char) simp
  then show ?thesis by simp
qed

lemma as_bytes_string [simp]: "as_bytes (as_string b) = b" "as_string (as_bytes s) = s"
  unfolding as_bytes_def as_string_def map_map o_def of_char_unat unat_of_char by simp_all

lemma as_bytes_inject: "as_bytes s = as_bytes t \<longleftrightarrow> s = t"
  by (metis as_bytes_string(2))

lemma accepted_le: "accepted ps bs \<le> length bs"
  by (induction ps bs rule: accepted.induct) auto

lemma utf8_lossy_valid: "utf8_valid b \<Longrightarrow> utf8_lossy b = b"
proof (induction b rule: utf8_valid.induct)
  case (2 a bs)
  obtain n ok where f: "first_char a bs = (n, ok)" by fastforce
  then have n: "n = Suc (n - 1)" by (auto simp: first_char_def Let_def split: option.splits)
  have "take n (a # bs) @ drop (n - 1) bs = a # bs" by (subst n) simp
  with 2 f show ?case by simp
qed simp

text \<open>The two decoders agree on well-formed bytes.\<close>

lemma from_utf8_lossy: "from_utf8 b = Some s \<Longrightarrow> from_utf8_lossy b = s"
  by (auto simp: from_utf8_def from_utf8_lossy_def utf8_lossy_valid split: if_splits)

lemma from_utf8_inject: "from_utf8 a = Some s \<Longrightarrow> from_utf8 b = Some s \<Longrightarrow> a = b"
  by (auto simp: from_utf8_def split: if_splits) (metis as_bytes_string(1))

text \<open>ASCII text is well formed.\<close>

lemma utf8_valid_ascii: "\<forall>a \<in> set b. a < 0x80 \<Longrightarrow> utf8_valid b"
  by (induction b) (simp_all add: first_char_def tail_tests_def)

end
