(* ===== verification/Mls_Core.thy ===== *)
theory Mls_Core
  imports Mls_Error Utf8
begin

text \<open>
  The operations on MLS groups (\<open>uq-openmls/src/core.rs\<close> and \<open>util.rs\<close>). OpenMLS is an argument, the
  record \<open>openmls\<close>: \<open>'st\<close> is the state of the provider (its storage and its randomness), \<open>'g\<close> an
  \<open>MlsGroup\<close> in memory and \<open>'o\<close> the opaque values OpenMLS hands out (messages, key packages, key pairs,
  staged commits, configurations). A method that takes \<open>&mut MlsGroup\<close> and a provider is an action on
  the pair of both, so that what a failing call leaves in memory is part of the model.
\<close>

section \<open>What OpenMLS shows of its values\<close>

text \<open>The proposals of OpenMLS, and \<open>enum Proposal\<close> of the crate with its conversion. The two draft
  variants are behind a feature of OpenMLS.\<close>

datatype openmls_proposal =
    OpenMls_Add | OpenMls_Update | OpenMls_Remove | OpenMls_PreSharedKey | OpenMls_ReInit | OpenMls_ExternalInit
  | OpenMls_GroupContextExtensions | OpenMls_AppDataUpdate | OpenMls_SelfRemove | OpenMls_AppEphemeral | OpenMls_Custom

datatype proposal_kind =
    Kind_Add | Kind_Update | Kind_Remove | Kind_PreSharedKey | Kind_ReInit | Kind_ExternalInit
  | Kind_GroupContextExtensions | Kind_AppAck | Kind_SelfRemove | Kind_Custom

fun proposal_from :: "openmls_proposal \<Rightarrow> proposal_kind" where
  "proposal_from OpenMls_Add = Kind_Add"
| "proposal_from OpenMls_Update = Kind_Update"
| "proposal_from OpenMls_Remove = Kind_Remove"
| "proposal_from OpenMls_PreSharedKey = Kind_PreSharedKey"
| "proposal_from OpenMls_ReInit = Kind_ReInit"
| "proposal_from OpenMls_ExternalInit = Kind_ExternalInit"
| "proposal_from OpenMls_GroupContextExtensions = Kind_GroupContextExtensions"
| "proposal_from OpenMls_AppDataUpdate = Kind_Custom"
| "proposal_from OpenMls_SelfRemove = Kind_SelfRemove"
| "proposal_from OpenMls_AppEphemeral = Kind_Custom"
| "proposal_from OpenMls_Custom = Kind_Custom"

text \<open>A member: its leaf index and, when its credential is a basic one, its identity.\<close>

record mls_member =
  leaf_index :: u32
  identity :: "bytes option"

datatype 'o message_body = Body_Welcome 'o | Body_GroupInfo 'o | Body_Other

datatype 'o message_content =
    ApplicationMessage bytes | ProposalMessage 'o | ExternalJoinProposalMessage 'o | StagedCommitMessage 'o

datatype message_sender = Sender_Member u32 | Sender_Other

record 'o processed_message =
  content :: "'o message_content"
  message_epoch :: u64
  message_group_id :: bytes

datatype verify_error = LifetimeError string | OtherVerifyError string

datatype load_error = MissingGroupEpochMessageSecretsMetadata | OtherLoadError string

datatype external_commit_error =
    Builder_Error string | Create_Error string | Finalize_Error string

datatype readd_error = Readd_Create_Error string | Readd_Stage_Error string

section \<open>The interface of OpenMLS\<close>

type_synonym ('st, 'g, 'a) group_call = "('g \<times> 'st, string, 'a) action"

text \<open>A commit comes with an optional welcome and an optional group info.\<close>

type_synonym 'o commit_messages = "'o \<times> 'o option \<times> 'o option"

record ('st, 'g, 'o) openmls =
  message_in :: "bytes \<Rightarrow> string + 'o"
  into_protocol_message :: "'o \<Rightarrow> string + 'o"
  protocol_epoch :: "'o \<Rightarrow> u64"
  message_body_of :: "'o \<Rightarrow> 'o message_body"
  serialize :: "'o \<Rightarrow> string + bytes"
  key_package_in :: "bytes \<Rightarrow> string + 'o"
  key_package_validate :: "'o \<Rightarrow> verify_error + 'o"
  key_package_identity :: "'o \<Rightarrow> bytes option"
  key_package_build :: "bool \<Rightarrow> 'o \<Rightarrow> bytes \<times> bytes \<Rightarrow> 'o \<Rightarrow> ('st, string, 'o) action"
  signature_new :: "'o \<Rightarrow> ('st, string, 'o) action"
  signature_read :: "bytes \<Rightarrow> 'o \<Rightarrow> 'st \<Rightarrow> 'o option \<times> 'st"
  signature_store :: "'o \<Rightarrow> ('st, string, unit) action"
  signature_public :: "'o \<Rightarrow> bytes"
  signature_algorithm :: "'o \<Rightarrow> 'o"
  group_epoch :: "'g \<Rightarrow> u64"
  group_tree_hash :: "'g \<Rightarrow> bytes"
  group_ciphersuite :: "'g \<Rightarrow> 'o"
  own_leaf_key :: "'g \<Rightarrow> bytes option"
  own_leaf_identity :: "'g \<Rightarrow> bytes option"
  group_members :: "'g \<Rightarrow> mls_member list"
  group_member :: "'g \<Rightarrow> u32 \<Rightarrow> bytes option"
  group_pending_commit :: "'g \<Rightarrow> openmls_proposal list option"
  group_pending_proposals :: "'g \<Rightarrow> openmls_proposal list"
  supports_epoch_secrets :: bool
  load_group_all :: "bytes \<Rightarrow> ('st, string, 'g option) action"
  load_group_optimize :: "bytes \<Rightarrow> u64 list \<Rightarrow> ('st, load_error, 'g option) action"
  load_group_context :: "bytes \<Rightarrow> ('st, string, 'o option) action"
  new_group :: "'o \<Rightarrow> 'o \<Rightarrow> bytes \<Rightarrow> bytes \<times> bytes \<Rightarrow> ('st, string, 'g) action"
  join_welcome :: "'o \<Rightarrow> 'o \<Rightarrow> ('st, string, 'g) action"
  process_message :: "'o \<Rightarrow> ('st, 'g, 'o processed_message) group_call"
  staged_proposal :: "'o \<Rightarrow> openmls_proposal"
  staged_sender :: "'o \<Rightarrow> message_sender"
  merge_staged :: "'o \<Rightarrow> ('st, 'g, unit) group_call"
  store_proposal :: "'o \<Rightarrow> ('st, 'g, unit) group_call"
  commit_pending :: "'o \<Rightarrow> ('st, 'g, 'o commit_messages) group_call"
  add_to_group :: "'o \<Rightarrow> 'o list \<Rightarrow> ('st, 'g, 'o \<times> 'o \<times> 'o option) group_call"
  remove_from_group :: "'o \<Rightarrow> u32 list \<Rightarrow> ('st, 'g, 'o commit_messages) group_call"
  propose_leave :: "'o \<Rightarrow> ('st, 'g, 'o) group_call"
  self_update :: "'o \<Rightarrow> ('st, 'g, 'o commit_messages) group_call"
  create_message :: "'o \<Rightarrow> bytes \<Rightarrow> ('st, 'g, 'o) group_call"
  export_info :: "'g \<Rightarrow> 'o \<Rightarrow> string + 'o"
  out_group_info :: "'o \<Rightarrow> 'o option"
  merge_pending :: "('st, 'g, unit) group_call"
  clear_commit :: "('st, 'g, unit) group_call"
  clear_proposals :: "('st, 'g, unit) group_call"
  set_configuration :: "'o \<Rightarrow> ('st, 'g, unit) group_call"
  delete_stored :: "('st, 'g, unit) group_call"
  group_info_in :: "bytes \<Rightarrow> string + 'o"
  info_ratchet_tree :: "'o \<Rightarrow> 'o option"
  context_tree_hash :: "bytes \<Rightarrow> string + bytes"
  public_members :: "'o \<Rightarrow> 'o \<Rightarrow> 'st \<Rightarrow> (mls_member list) option \<times> 'st"
  external_commit :: "'o \<Rightarrow> 'o \<Rightarrow> bytes \<times> bytes \<Rightarrow> 'o \<Rightarrow> ('st, external_commit_error, 'g \<times> 'o \<times> 'o option) action"
  fork_by_readding :: "'g \<Rightarrow> u32 list \<Rightarrow> string + 'o"
  readd_commit :: "'o \<Rightarrow> 'o list \<Rightarrow> 'o \<Rightarrow> ('g \<times> 'st, readd_error, 'o commit_messages) action"

section \<open>Actions on a group and its provider\<close>

text \<open>What a group in memory shows, a call that only needs the provider, and a group that a function
  loads for itself and drops when it returns.\<close>

definition sreads :: "('g \<Rightarrow> 'a) \<Rightarrow> ('g \<times> 'st, 'e, 'a) action" where
  "sreads f gs = (Inr (f (fst gs)), gs)"

definition on_provider :: "('st, 'e, 'a) action \<Rightarrow> ('g \<times> 'st, 'e, 'a) action" where
  "on_provider f gs = (case f (snd gs) of (r, st') \<Rightarrow> (r, fst gs, st'))"

definition on_group :: "('st, 'e, 'g) action \<Rightarrow> ('g \<times> 'st, 'e, 'a) action \<Rightarrow> ('st, 'e, 'a) action" where
  "on_group load f = sbind load (\<lambda>g st. case f (g, st) of (r, _, st') \<Rightarrow> (r, st'))"

section \<open>Helpers of \<open>util.rs\<close>\<close>

definition find_members_by_identity :: "mls_member list \<Rightarrow> bytes list \<Rightarrow> mls_member list" where
  "find_members_by_identity members identities =
     filter (\<lambda>member. case identity member of None \<Rightarrow> False | Some i \<Rightarrow> i \<in> set identities) members"

definition get_own_signature_key_from_group :: "('st, 'g, 'o) openmls \<Rightarrow> ('g \<times> 'st, mls_error, 'o) action" where
  "get_own_signature_key_from_group M gs =
     (case own_leaf_key M (fst gs) of
        None \<Rightarrow> (Inl Error_MissingOwnLeafNodeInGroup, gs)
      | Some public_key \<Rightarrow>
          (case signature_read M public_key (signature_algorithm M (group_ciphersuite M (fst gs))) (snd gs) of
             (found, st') \<Rightarrow> (ok_or Error_MissingSignatureKeyPair found, fst gs, st')))"

definition get_identity_from_key_packages :: "('st, 'g, 'o) openmls \<Rightarrow> 'o list \<Rightarrow> bytes list" where
  "get_identity_from_key_packages M packages = List.map_filter (key_package_identity M) packages"

definition get_credential_with_key ::
    "('st, 'g, 'o) openmls \<Rightarrow> string \<Rightarrow> 'o \<Rightarrow> bytes option \<Rightarrow> ('st, mls_error, (bytes \<times> bytes) \<times> 'o) action" where
  "get_credential_with_key M user_id ciphersuite public_key =
     sbind (case public_key of
              Some public_key \<Rightarrow> (\<lambda>st.
                (case signature_read M public_key (signature_algorithm M ciphersuite) st of
                   (found, st') \<Rightarrow> (ok_or Error_MissingSignatureKeyPair found, st')))
            | None \<Rightarrow> smap_err from_crypto_error (signature_new M (signature_algorithm M ciphersuite))) (\<lambda>signature_key.
     sbind (smap_err Error_Storage (signature_store M signature_key)) (\<lambda>_.
     sret ((as_bytes user_id, signature_public M signature_key), signature_key)))"

section \<open>Loading a group\<close>

definition protocol_message :: "('st, 'g, 'o) openmls \<Rightarrow> bytes \<Rightarrow> mls_error + 'o" where
  "protocol_message M message =
     rbind (map_err from_mls_error (message_in M message)) (\<lambda>m.
     map_err from_protocol_message_error (into_protocol_message M m))"

text \<open>The \<open>BTreeSet\<close> of epochs is the strictly increasing list of its elements.\<close>

fun collect_epochs :: "('st, 'g, 'o) openmls \<Rightarrow> bytes list \<Rightarrow> u64 list \<Rightarrow> mls_error + u64 list" where
  "collect_epochs M [] epochs = Inr epochs"
| "collect_epochs M (message # messages) epochs =
     rbind (protocol_message M message) (\<lambda>p. collect_epochs M messages (insort_insert (protocol_epoch M p) epochs))"

definition protocol_message_epochs :: "('st, 'g, 'o) openmls \<Rightarrow> bytes list \<Rightarrow> mls_error + u64 list" where
  "protocol_message_epochs M messages = collect_epochs M messages []"

text \<open>\<open>MlsGroup::load\<close> with its error texts.\<close>

definition load_whole_group :: "('st, 'g, 'o) openmls \<Rightarrow> bytes \<Rightarrow> ('st, mls_error, 'g) action" where
  "load_whole_group M group_id =
     sbind (smap_err Error_Storage (load_group_all M group_id)) (\<lambda>found. slift (ok_or Error_GroupIsNotExisted found))"

definition core_group ::
    "(load_error \<Rightarrow> string) \<Rightarrow> ('st, 'g, 'o) openmls \<Rightarrow> string \<Rightarrow> bytes list \<Rightarrow> ('st, mls_error, 'g) action" where
  "core_group ldisp M group_id messages =
     sbind (slift (protocol_message_epochs M messages)) (\<lambda>epochs st.
     if supports_epoch_secrets M then
       (case load_group_optimize M (as_bytes group_id) epochs st of
          (Inr (Some g), st') \<Rightarrow> (Inr g, st')
        | (Inr None, st') \<Rightarrow> load_whole_group M (as_bytes group_id) st'
        | (Inl MissingGroupEpochMessageSecretsMetadata, st') \<Rightarrow> load_whole_group M (as_bytes group_id) st'
        | (Inl err, st') \<Rightarrow> (Inl (Error_Storage (ldisp err)), st'))
     else load_whole_group M (as_bytes group_id) st)"

definition group_current_epoch_message_secrets ::
    "(load_error \<Rightarrow> string) \<Rightarrow> ('st, 'g, 'o) openmls \<Rightarrow> string \<Rightarrow> ('st, mls_error, 'g) action" where
  "group_current_epoch_message_secrets ldisp M group_id = core_group ldisp M group_id []"

definition group_with_epoch_message_secrets ::
    "(load_error \<Rightarrow> string) \<Rightarrow> ('st, 'g, 'o) openmls \<Rightarrow> string \<Rightarrow> u64 list \<Rightarrow> ('st, mls_error, 'g) action" where
  "group_with_epoch_message_secrets ldisp M group_id epochs st =
     (case load_group_optimize M (as_bytes group_id) epochs st of
        (Inr (Some g), st') \<Rightarrow> (Inr g, st')
      | (Inr None, st') \<Rightarrow> (Inl Error_GroupIsNotExisted, st')
      | (Inl MissingGroupEpochMessageSecretsMetadata, st') \<Rightarrow> core_group ldisp M group_id [] st'
      | (Inl err, st') \<Rightarrow> (Inl (Error_Storage (ldisp err)), st'))"

definition group_context :: "('st, 'g, 'o) openmls \<Rightarrow> string \<Rightarrow> ('st, mls_error, 'o) action" where
  "group_context M group_id =
     sbind (smap_err Error_Storage (load_group_context M (as_bytes group_id))) (\<lambda>found.
     slift (ok_or Error_GroupIsNotExisted found))"

section \<open>Keys and new groups\<close>

definition group_signer :: "('st, 'g, 'o) openmls \<Rightarrow> ('g \<times> 'st, mls_error, 'o) action" where
  "group_signer M = get_own_signature_key_from_group M"

definition generate_signature_key :: "('st, 'g, 'o) openmls \<Rightarrow> 'o \<Rightarrow> ('st, mls_error, 'o) action" where
  "generate_signature_key M ciphersuite =
     sbind (smap_err from_crypto_error (signature_new M (signature_algorithm M ciphersuite))) (\<lambda>signer.
     sbind (smap_err Error_Storage (signature_store M signer)) (\<lambda>_.
     sret signer))"

text \<open>\<open>tls_serialize_detached()?\<close>, and the same on an option.\<close>

definition serialized :: "('st, 'g, 'o) openmls \<Rightarrow> 'o \<Rightarrow> mls_error + bytes" where
  "serialized M m = map_err from_mls_error (serialize M m)"

definition serialized_option :: "('st, 'g, 'o) openmls \<Rightarrow> 'o option \<Rightarrow> mls_error + bytes option" where
  "serialized_option M m = (case m of None \<Rightarrow> Inr None | Some m \<Rightarrow> rbind (serialized M m) (\<lambda>b. Inr (Some b)))"

definition generate_key_package ::
    "('st, 'g, 'o) openmls \<Rightarrow> string \<Rightarrow> 'o \<Rightarrow> bool \<Rightarrow> bytes option \<Rightarrow> ('st, mls_error, bytes) action" where
  "generate_key_package M user_id ciphersuite last_resort public_key =
     sbind (get_credential_with_key M user_id ciphersuite public_key) (\<lambda>(credential_with_key, signer).
     sbind (smap_err from_key_package_new_error
              (key_package_build M last_resort ciphersuite credential_with_key signer)) (\<lambda>key_package.
     slift (serialized M key_package)))"

definition create_group ::
    "('st, 'g, 'o) openmls \<Rightarrow> string \<Rightarrow> string \<Rightarrow> 'o \<Rightarrow> 'o \<Rightarrow> bytes option \<Rightarrow> ('st, mls_error, 'g) action" where
  "create_group M creator_id group_id ciphersuite config public_key =
     sbind (get_credential_with_key M creator_id ciphersuite public_key) (\<lambda>(creator_credential, signer).
     smap_err from_new_group_error (new_group M signer config (as_bytes group_id) creator_credential))"

section \<open>Changing the members\<close>

record add_members_result =
  am_welcome :: bytes
  am_commit :: bytes
  am_group_info :: "bytes option"
  am_current_epoch :: u64
  am_pre_tree_hash :: bytes

text \<open>The loop over the key packages: an expired one is skipped, another invalid one is an error.\<close>

fun validate_unexpired :: "(verify_error \<Rightarrow> string) \<Rightarrow> ('st, 'g, 'o) openmls \<Rightarrow> bytes list \<Rightarrow> mls_error + 'o list" where
  "validate_unexpired vdisp M [] = Inr []"
| "validate_unexpired vdisp M (b # bs) =
     rbind (map_err from_mls_error (key_package_in M b)) (\<lambda>k.
     (case key_package_validate M k of
        Inr key_package \<Rightarrow> rbind (validate_unexpired vdisp M bs) (\<lambda>rest. Inr (key_package # rest))
      | Inl (LifetimeError _) \<Rightarrow> validate_unexpired vdisp M bs
      | Inl err \<Rightarrow> Inl (from_key_package_verify_error (vdisp err))))"

definition add_members ::
    "(verify_error \<Rightarrow> string) \<Rightarrow> ('st, 'g, 'o) openmls \<Rightarrow> 'o \<Rightarrow> bytes list
      \<Rightarrow> ('g \<times> 'st, mls_error, add_members_result) action" where
  "add_members vdisp M signer key_package_ins =
     sbind (slift (validate_unexpired vdisp M key_package_ins)) (\<lambda>packages.
     if packages = [] then sfail (Error_AddMembers ''The lifetime of the all leaf node is not valid.'')
     else
       sbind (sreads (group_members M)) (\<lambda>members.
       if find_members_by_identity members (get_identity_from_key_packages M packages) \<noteq> []
       then sfail Error_SomeMembersAlreadyExistedInGroup
       else
         sbind (sreads (group_tree_hash M)) (\<lambda>pre_tree_hash.
         sbind (smap_err from_add_members_error (add_to_group M signer packages)) (\<lambda>(commit, welcome, group_info).
         sbind (slift (serialized_option M group_info)) (\<lambda>group_info.
         sbind (slift (serialized M welcome)) (\<lambda>welcome.
         sbind (slift (serialized M commit)) (\<lambda>commit.
         sbind (sreads (group_epoch M)) (\<lambda>current_epoch.
         sret \<lparr>am_welcome = welcome, am_commit = commit, am_group_info = group_info,
               am_current_epoch = current_epoch, am_pre_tree_hash = pre_tree_hash\<rparr>))))))))"

record commit_result =
  cr_commit :: bytes
  cr_group_info :: "bytes option"
  cr_current_epoch :: u64
  cr_pre_tree_hash :: bytes

definition remove_members ::
    "('st, 'g, 'o) openmls \<Rightarrow> 'o \<Rightarrow> string list \<Rightarrow> ('g \<times> 'st, mls_error, commit_result) action" where
  "remove_members M signer member_ids =
     sbind (sreads (group_members M)) (\<lambda>members.
     let member_leaf_node_indices = map leaf_index (find_members_by_identity members (map as_bytes member_ids)) in
     sbind (sreads (group_tree_hash M)) (\<lambda>pre_tree_hash.
     sbind (smap_err from_remove_members_error (remove_from_group M signer member_leaf_node_indices))
       (\<lambda>(commit, _, group_info).
     sbind (slift (serialized_option M group_info)) (\<lambda>group_info.
     sbind (slift (serialized M commit)) (\<lambda>commit.
     sbind (sreads (group_epoch M)) (\<lambda>current_epoch.
     sret \<lparr>cr_commit = commit, cr_group_info = group_info, cr_current_epoch = current_epoch,
           cr_pre_tree_hash = pre_tree_hash\<rparr>))))))"

definition update_leaf_node ::
    "('st, 'g, 'o) openmls \<Rightarrow> 'o \<Rightarrow> ('g \<times> 'st, mls_error, commit_result) action" where
  "update_leaf_node M signer =
     sbind (sreads (group_tree_hash M)) (\<lambda>pre_tree_hash.
     sbind (smap_err from_self_update_error (self_update M signer)) (\<lambda>(commit, _, group_info).
     sbind (slift (serialized M commit)) (\<lambda>commit.
     sbind (slift (serialized_option M group_info)) (\<lambda>group_info.
     sbind (sreads (group_epoch M)) (\<lambda>current_epoch.
     sret \<lparr>cr_commit = commit, cr_group_info = group_info, cr_current_epoch = current_epoch,
           cr_pre_tree_hash = pre_tree_hash\<rparr>)))))"

definition leave_group :: "('st, 'g, 'o) openmls \<Rightarrow> 'o \<Rightarrow> ('g \<times> 'st, mls_error, bytes) action" where
  "leave_group M signer =
     sbind (smap_err from_leave_group_error (propose_leave M signer)) (\<lambda>proposal. slift (serialized M proposal))"

record readd_result =
  ra_welcome :: "bytes option"
  ra_commit :: bytes
  ra_group_info :: "bytes option"
  ra_current_epoch :: u64
  ra_pre_tree_hash :: bytes

fun validate_all :: "(verify_error \<Rightarrow> string) \<Rightarrow> ('st, 'g, 'o) openmls \<Rightarrow> bytes list \<Rightarrow> mls_error + 'o list" where
  "validate_all vdisp M [] = Inr []"
| "validate_all vdisp M (b # bs) =
     rbind (map_err from_mls_error (key_package_in M b)) (\<lambda>k.
     rbind (map_err (\<lambda>err. from_key_package_verify_error (vdisp err)) (key_package_validate M k)) (\<lambda>key_package.
     rbind (validate_all vdisp M bs) (\<lambda>rest. Inr (key_package # rest))))"

fun from_readd_error :: "readd_error \<Rightarrow> mls_error" where
  "from_readd_error (Readd_Create_Error s) = from_create_commit_error s"
| "from_readd_error (Readd_Stage_Error s) = from_commit_builder_stage_error s"

text \<open>Everyone who is not re-added is on our side of the fork.\<close>

definition partition_without :: "mls_member list \<Rightarrow> bytes list \<Rightarrow> u32 list" where
  "partition_without members identities =
     (let indices = map leaf_index (find_members_by_identity members identities) in
      map leaf_index (filter (\<lambda>member. leaf_index member \<notin> set indices) members))"

definition readd ::
    "(verify_error \<Rightarrow> string) \<Rightarrow> ('st, 'g, 'o) openmls \<Rightarrow> 'o \<Rightarrow> string list \<Rightarrow> bytes list
      \<Rightarrow> ('g \<times> 'st, mls_error, readd_result) action" where
  "readd vdisp M signer member_ids key_package_ins =
     sbind (sreads (group_tree_hash M)) (\<lambda>pre_tree_hash.
     sbind (sreads (group_members M)) (\<lambda>members.
     let our_partition = partition_without members (map as_bytes member_ids) in
     sbind (sreads id) (\<lambda>g.
     sbind (slift (map_err Error_ReAdd (fork_by_readding M g our_partition))) (\<lambda>builder.
     sbind (slift (validate_all vdisp M key_package_ins)) (\<lambda>packages.
     sbind (smap_err from_readd_error (readd_commit M builder packages signer)) (\<lambda>(commit, welcome, group_info).
     sbind (slift (serialized_option M welcome)) (\<lambda>welcome.
     sbind (slift (serialized_option M (Option.bind group_info (out_group_info M)))) (\<lambda>group_info.
     sbind (slift (serialized M commit)) (\<lambda>commit.
     sbind (sreads (group_epoch M)) (\<lambda>current_epoch.
     sret \<lparr>ra_welcome = welcome, ra_commit = commit, ra_group_info = group_info,
           ra_current_epoch = current_epoch, ra_pre_tree_hash = pre_tree_hash\<rparr>))))))))))"

section \<open>Joining\<close>

definition process_welcome ::
    "('st, 'g, 'o) openmls \<Rightarrow> bytes \<Rightarrow> 'o \<Rightarrow> ('st, mls_error, 'g) action" where
  "process_welcome M welcome config =
     sbind (slift (map_err from_mls_error (message_in M welcome))) (\<lambda>m.
     (case message_body_of M m of
        Body_Welcome welcome \<Rightarrow> smap_err from_welcome_error (join_welcome M config welcome)
      | _ \<Rightarrow> sfail Error_InvalidWelcomeMessage))"

text \<open>The group info as such, or inside a message.\<close>

definition parse_group_info :: "('st, 'g, 'o) openmls \<Rightarrow> bytes \<Rightarrow> mls_error + 'o" where
  "parse_group_info M group_info =
     (case group_info_in M group_info of
        Inr verifiable \<Rightarrow> Inr verifiable
      | Inl _ \<Rightarrow>
          (case message_in M group_info of
             Inr m \<Rightarrow> (case message_body_of M m of Body_GroupInfo verifiable \<Rightarrow> Inr verifiable | _ \<Rightarrow> Inl Error_InvalidGroupInfo)
           | Inl _ \<Rightarrow> Inl Error_InvalidGroupInfo))"

fun from_external_error :: "external_commit_error \<Rightarrow> mls_error" where
  "from_external_error (Builder_Error s) = from_external_commit_builder_error s"
| "from_external_error (Create_Error s) = from_create_commit_error s"
| "from_external_error (Finalize_Error s) = from_external_commit_builder_finalize_error s"

text \<open>\<open>epoch - 1\<close> on a \<open>u64\<close>: with overflow checks zero panics, which is \<open>None\<close>.\<close>

definition join_by_external_commit ::
    "('st, 'g, 'o) openmls \<Rightarrow> string \<Rightarrow> bytes \<Rightarrow> 'o \<Rightarrow> 'o \<Rightarrow> bytes option
      \<Rightarrow> ('st, mls_error, commit_result option) action" where
  "join_by_external_commit M user_id group_info ciphersuite config public_key =
     sbind (slift (parse_group_info M group_info)) (\<lambda>verifiable.
     sbind (slift (ok_or Error_MissingRatchetTree (info_ratchet_tree M verifiable))) (\<lambda>ratchet_tree.
     sbind (slift (serialized M verifiable)) (\<lambda>full_bytes.
     sbind (slift (map_err from_mls_error (context_tree_hash M full_bytes))) (\<lambda>pre_tree_hash.
     sbind (\<lambda>st. case public_members M ratchet_tree verifiable st of
              (Some members, st') \<Rightarrow>
                (if find_members_by_identity members [as_bytes user_id] \<noteq> [] then Inl Error_CredentialIsExisted else Inr (), st')
            | (None, st') \<Rightarrow> (Inr (), st')) (\<lambda>_.
     sbind (get_credential_with_key M user_id ciphersuite public_key) (\<lambda>(credential_with_key, signer).
     sbind (smap_err from_external_error (external_commit M config verifiable credential_with_key signer))
       (\<lambda>(g, commit, group_info).
     sbind (slift (serialized_option M group_info)) (\<lambda>group_info.
     sbind (slift (serialized M commit)) (\<lambda>commit.
     sret (if group_epoch M g = 0 then None
           else Some \<lparr>cr_commit = commit, cr_group_info = group_info, cr_current_epoch = group_epoch M g - 1,
                     cr_pre_tree_hash = pre_tree_hash\<rparr>))))))))))"

section \<open>Messages\<close>

text \<open>Deserialise, turn into a protocol message and let the group process it.\<close>

definition processed :: "('st, 'g, 'o) openmls \<Rightarrow> bytes \<Rightarrow> ('g \<times> 'st, mls_error, 'o processed_message) action" where
  "processed M message =
     sbind (slift (protocol_message M message)) (\<lambda>p. smap_err from_process_message_error (process_message M p))"

definition process_application_message :: "('st, 'g, 'o) openmls \<Rightarrow> bytes \<Rightarrow> ('g \<times> 'st, mls_error, bytes) action" where
  "process_application_message M message =
     sbind (processed M message) (\<lambda>p.
     (case content p of
        ApplicationMessage b \<Rightarrow> sret b
      | _ \<Rightarrow> sfail Error_InvalidApplicationMessage))"

definition process_application_message_for_group ::
    "(load_error \<Rightarrow> string) \<Rightarrow> ('st, 'g, 'o) openmls \<Rightarrow> string \<Rightarrow> bytes \<Rightarrow> ('st, mls_error, bytes) action" where
  "process_application_message_for_group ldisp M group_id message =
     on_group (core_group ldisp M group_id [message]) (process_application_message M message)"

record operation_result =
  or_commit :: "bytes option"
  or_group_info :: "bytes option"

text \<open>A proposal is stored and all pending proposals are committed.\<close>

definition commit_to_proposal ::
    "('st, 'g, 'o) openmls \<Rightarrow> 'o \<Rightarrow> ('g \<times> 'st, mls_error, operation_result) action" where
  "commit_to_proposal M staged =
     sbind (group_signer M) (\<lambda>signer.
     sbind (smap_err Error_Storage (store_proposal M staged)) (\<lambda>_.
     sbind (smap_err from_commit_to_pending_proposals_error (commit_pending M signer)) (\<lambda>(commit, _, group_info).
     sbind (slift (serialized M commit)) (\<lambda>commit.
     sbind (slift (serialized_option M group_info)) (\<lambda>group_info.
     sret \<lparr>or_commit = Some commit, or_group_info = group_info\<rparr>)))))"

definition process_operation_message ::
    "('st, 'g, 'o) openmls \<Rightarrow> bytes \<Rightarrow> ('g \<times> 'st, mls_error, operation_result) action" where
  "process_operation_message M message =
     sbind (processed M message) (\<lambda>p.
     (case content p of
        StagedCommitMessage staged \<Rightarrow>
          sbind (smap_err from_merge_commit_error (merge_staged M staged)) (\<lambda>_.
          sret \<lparr>or_commit = None, or_group_info = None\<rparr>)
      | ProposalMessage staged \<Rightarrow> commit_to_proposal M staged
      | ExternalJoinProposalMessage staged \<Rightarrow> commit_to_proposal M staged
      | ApplicationMessage _ \<Rightarrow> sfail Error_InvalidOperationMessage))"

definition process_operation_message_for_group ::
    "(load_error \<Rightarrow> string) \<Rightarrow> ('st, 'g, 'o) openmls \<Rightarrow> string \<Rightarrow> bytes \<Rightarrow> ('st, mls_error, operation_result) action" where
  "process_operation_message_for_group ldisp M group_id message =
     on_group (core_group ldisp M group_id [message]) (process_operation_message M message)"

text \<open>The loop over many messages keeps the signer it has looked up; the commits it creates are not
  returned, and an application message is passed over.\<close>

definition commit_with_signer ::
    "('st, 'g, 'o) openmls \<Rightarrow> 'o option \<Rightarrow> 'o \<Rightarrow> ('g \<times> 'st, mls_error, 'o) action" where
  "commit_with_signer M signer staged =
     sbind (case signer of None \<Rightarrow> group_signer M | Some s \<Rightarrow> sret s) (\<lambda>s.
     sbind (smap_err Error_Storage (store_proposal M staged)) (\<lambda>_.
     sbind (smap_err from_commit_to_pending_proposals_error (commit_pending M s)) (\<lambda>_.
     sret s)))"

fun process_many_loop ::
    "('st, 'g, 'o) openmls \<Rightarrow> 'o option \<Rightarrow> bytes list \<Rightarrow> ('g \<times> 'st, mls_error, unit) action" where
  "process_many_loop M signer [] = sret ()"
| "process_many_loop M signer (message # messages) =
     sbind (processed M message) (\<lambda>p.
     (case content p of
        StagedCommitMessage staged \<Rightarrow>
          sbind (smap_err from_merge_commit_error (merge_staged M staged)) (\<lambda>_. process_many_loop M signer messages)
      | ProposalMessage staged \<Rightarrow>
          sbind (commit_with_signer M signer staged) (\<lambda>s. process_many_loop M (Some s) messages)
      | ExternalJoinProposalMessage staged \<Rightarrow>
          sbind (commit_with_signer M signer staged) (\<lambda>s. process_many_loop M (Some s) messages)
      | ApplicationMessage _ \<Rightarrow> process_many_loop M signer messages))"

definition process_many_operation_messages ::
    "('st, 'g, 'o) openmls \<Rightarrow> bytes list \<Rightarrow> ('g \<times> 'st, mls_error, u64) action" where
  "process_many_operation_messages M messages =
     sbind (process_many_loop M None messages) (\<lambda>_. sreads (group_epoch M))"

definition process_many_operation_messages_for_group ::
    "(load_error \<Rightarrow> string) \<Rightarrow> ('st, 'g, 'o) openmls \<Rightarrow> string \<Rightarrow> bytes list \<Rightarrow> ('st, mls_error, u64) action" where
  "process_many_operation_messages_for_group ldisp M group_id messages =
     on_group (core_group ldisp M group_id messages) (process_many_operation_messages M messages)"

record queued_proposal =
  qp_group_id :: string
  qp_proposal :: proposal_kind
  qp_sender :: string
  qp_epoch :: u64

definition process_proposal_message ::
    "('st, 'g, 'o) openmls \<Rightarrow> bytes \<Rightarrow> ('g \<times> 'st, mls_error, queued_proposal) action" where
  "process_proposal_message M message =
     sbind (processed M message) (\<lambda>p.
     (case content p of
        ProposalMessage staged \<Rightarrow>
          (case staged_sender M staged of
             Sender_Member leaf \<Rightarrow>
               sbind (sreads (\<lambda>g. Option.bind (group_member M g leaf) from_utf8)) (\<lambda>found.
               (case found of
                  Some sender \<Rightarrow> sret \<lparr>qp_group_id = from_utf8_lossy (message_group_id p),
                    qp_proposal = proposal_from (staged_proposal M staged), qp_sender = sender, qp_epoch = message_epoch p\<rparr>
                | None \<Rightarrow> sfail Error_InvalidProposalMessage))
           | Sender_Other \<Rightarrow> sfail Error_InvalidProposalMessage)
      | _ \<Rightarrow> sfail Error_InvalidProposalMessage))"

definition process_proposal_message_for_group ::
    "(load_error \<Rightarrow> string) \<Rightarrow> ('st, 'g, 'o) openmls \<Rightarrow> string \<Rightarrow> bytes \<Rightarrow> ('st, mls_error, queued_proposal) action" where
  "process_proposal_message_for_group ldisp M group_id message =
     on_group (core_group ldisp M group_id [message]) (process_proposal_message M message)"

definition encrypt_message :: "('st, 'g, 'o) openmls \<Rightarrow> 'o \<Rightarrow> bytes \<Rightarrow> ('g \<times> 'st, mls_error, bytes) action" where
  "encrypt_message M signer message =
     sbind (smap_err from_create_message_error (create_message M signer message)) (\<lambda>out. slift (serialized M out))"

definition encrypt_message_for_group ::
    "(load_error \<Rightarrow> string) \<Rightarrow> ('st, 'g, 'o) openmls \<Rightarrow> string \<Rightarrow> bytes \<Rightarrow> ('st, mls_error, bytes) action" where
  "encrypt_message_for_group ldisp M group_id message =
     on_group (group_current_epoch_message_secrets ldisp M group_id)
       (sbind (group_signer M) (\<lambda>signer. encrypt_message M signer message))"

definition export_group_info :: "('st, 'g, 'o) openmls \<Rightarrow> 'o \<Rightarrow> 'g \<Rightarrow> mls_error + bytes" where
  "export_group_info M signer g =
     rbind (map_err from_export_group_info_error (export_info M g signer)) (\<lambda>out.
     (case out_group_info M out of
        Some group_info \<Rightarrow> serialized M group_info
      | None \<Rightarrow> Inl Error_ExportGroupInfoInvalidExportType))"

section \<open>Pending state and configuration\<close>

definition merge_pending_commit :: "('st, 'g, 'o) openmls \<Rightarrow> ('g \<times> 'st, mls_error, unit) action" where
  "merge_pending_commit M = smap_err from_merge_pending_commit_error (merge_pending M)"

definition clear_pending_commit :: "('st, 'g, 'o) openmls \<Rightarrow> ('g \<times> 'st, mls_error, unit) action" where
  "clear_pending_commit M = smap_err Error_Storage (clear_commit M)"

definition clear_pending_proposals :: "('st, 'g, 'o) openmls \<Rightarrow> ('g \<times> 'st, mls_error, unit) action" where
  "clear_pending_proposals M = smap_err Error_Storage (clear_proposals M)"

definition pending_commit :: "('st, 'g, 'o) openmls \<Rightarrow> 'g \<Rightarrow> proposal_kind list option" where
  "pending_commit M g = map_option (map proposal_from) (group_pending_commit M g)"

definition pending_proposals :: "('st, 'g, 'o) openmls \<Rightarrow> 'g \<Rightarrow> proposal_kind list" where
  "pending_proposals M g = map proposal_from (group_pending_proposals M g)"

definition update_group_config ::
    "(load_error \<Rightarrow> string) \<Rightarrow> ('st, 'g, 'o) openmls \<Rightarrow> string \<Rightarrow> 'o \<Rightarrow> ('st, mls_error, unit) action" where
  "update_group_config ldisp M group_id config =
     on_group (group_current_epoch_message_secrets ldisp M group_id)
       (smap_err Error_Storage (set_configuration M config))"

definition core_delete_group :: "('st, 'g, 'o) openmls \<Rightarrow> ('g \<times> 'st, mls_error, unit) action" where
  "core_delete_group M = smap_err Error_Storage (delete_stored M)"

section \<open>An instance for examples\<close>

text \<open>Values are byte strings. A message is a kind (0 application, 1 commit, 2 proposal, 3 welcome), an
  epoch and a payload; a key package is its identity.\<close>

record sample_state =
  sample_epoch :: u64
  sample_members :: "mls_member list"

definition sample_message :: "bytes \<Rightarrow> 8 word \<times> u64 \<times> bytes" where
  "sample_message b = (case b of k # e # p \<Rightarrow> (k, ucast e, p) | _ \<Rightarrow> (9, 0, []))"

definition sample_process :: "bytes \<Rightarrow> ('st, sample_state, bytes processed_message) group_call" where
  "sample_process m gs =
     (case sample_message m of (k, e, p) \<Rightarrow>
       if e \<noteq> sample_epoch (fst gs) then (Inl ''wrong epoch'', gs)
       else (Inr \<lparr>content = (if k = 0 then ApplicationMessage p else if k = 1 then StagedCommitMessage p else ProposalMessage p),
                  message_epoch = e, message_group_id = [71]\<rparr>, gs))"

definition sample_advance :: "'a \<Rightarrow> ('st, sample_state, 'a) group_call" where
  "sample_advance a gs = (Inr a, (fst gs)\<lparr>sample_epoch := sample_epoch (fst gs) + 1\<rparr>, snd gs)"

definition sample_start :: sample_state where
  "sample_start = \<lparr>sample_epoch = 0, sample_members =
     [\<lparr>leaf_index = 0, identity = Some [97]\<rparr>, \<lparr>leaf_index = 1, identity = Some [98]\<rparr>]\<rparr>"

definition sample_mls :: "('st, sample_state, bytes) openmls" where
  "sample_mls = \<lparr>
     message_in = (\<lambda>b. if b = [] then Inl ''empty'' else Inr b),
     into_protocol_message = Inr,
     protocol_epoch = (\<lambda>m. fst (snd (sample_message m))),
     message_body_of = (\<lambda>m. if fst (sample_message m) = 3 then Body_Welcome m else Body_Other),
     serialize = Inr,
     key_package_in = Inr,
     key_package_validate = (\<lambda>k. if k = [] then Inl (LifetimeError ''expired'') else Inr k),
     key_package_identity = Some,
     key_package_build = (\<lambda>_ _ credential _. sret (fst credential)),
     signature_new = (\<lambda>_. sret [1]),
     signature_read = (\<lambda>public_key _ st. (Some public_key, st)),
     signature_store = (\<lambda>_. sret ()),
     signature_public = id,
     signature_algorithm = id,
     group_epoch = sample_epoch,
     group_tree_hash = (\<lambda>_. [5]),
     group_ciphersuite = (\<lambda>_. []),
     own_leaf_key = (\<lambda>_. Some [1]),
     own_leaf_identity = (\<lambda>_. Some [97]),
     group_members = sample_members,
     group_member = (\<lambda>g i. Option.bind (find (\<lambda>m. leaf_index m = i) (sample_members g)) identity),
     group_pending_commit = (\<lambda>_. None),
     group_pending_proposals = (\<lambda>_. []),
     supports_epoch_secrets = True,
     load_group_all = (\<lambda>_. sret (Some sample_start)),
     load_group_optimize = (\<lambda>_ _. sret (Some sample_start)),
     load_group_context = (\<lambda>_. sret None),
     new_group = (\<lambda>_ _ _ _. sret sample_start),
     join_welcome = (\<lambda>_ _. sret sample_start),
     process_message = sample_process,
     staged_proposal = (\<lambda>_. OpenMls_Remove),
     staged_sender = (\<lambda>_. Sender_Member 1),
     merge_staged = (\<lambda>_. sample_advance ()),
     store_proposal = (\<lambda>_. sret ()),
     commit_pending = (\<lambda>_. sret ([1, 0], None, None)),
     add_to_group = (\<lambda>_ _. sample_advance ([1, 0], [3, 0], None)),
     remove_from_group = (\<lambda>_ _. sample_advance ([1, 0], None, None)),
     propose_leave = (\<lambda>_. sret [2, 0]),
     self_update = (\<lambda>_. sret ([1, 0], None, None)),
     create_message = (\<lambda>_ b. sret (0 # 0 # b)),
     export_info = (\<lambda>_ _. Inr []),
     out_group_info = Some,
     merge_pending = sample_advance (),
     clear_commit = sret (),
     clear_proposals = sret (),
     set_configuration = (\<lambda>_. sret ()),
     delete_stored = sret (),
     group_info_in = Inr,
     info_ratchet_tree = Some,
     context_tree_hash = Inr,
     public_members = (\<lambda>_ _ st. (Some [], st)),
     external_commit = (\<lambda>_ _ _ _. sret (sample_start, [1, 0], None)),
     fork_by_readding = (\<lambda>_ _. Inr []),
     readd_commit = (\<lambda>_ _ _. sret ([1, 0], None, None))\<rparr>"

end
