(* ===== verification/Mls_Core_Correct.thy ===== *)
theory Mls_Core_Correct
  imports Mls_Core
begin

text \<open>
  Properties of the group operations of \<open>core.rs\<close>: the epochs preloaded for a batch of messages, the
  agreement of batch processing with message-by-message processing while the own key is kept, whom \<open>add_members\<close> adds, and how
  \<open>readd\<close> and \<open>remove_members\<close> split the members.
\<close>

section \<open>Preloaded epochs\<close>

lemma collect_epochs_sorted:
  "sorted epochs \<Longrightarrow> distinct epochs \<Longrightarrow> collect_epochs M ms epochs = Inr es \<Longrightarrow>
     sorted es \<and> distinct es \<and> (\<forall>m \<in> set ms. \<exists>p. protocol_message M m = Inr p) \<and>
     set es = set epochs \<union> {protocol_epoch M p | p m. m \<in> set ms \<and> protocol_message M m = Inr p}"
proof (induction ms arbitrary: epochs)
  case Nil
  then show ?case by simp
next
  case (Cons m ms)
  from Cons.prems(3) obtain p where p: "protocol_message M m = Inr p"
    and rest: "collect_epochs M ms (insort_insert (protocol_epoch M p) epochs) = Inr es"
    by (auto simp: rbind_Inr_iff)
  have "sorted (insort_insert (protocol_epoch M p) epochs)" "distinct (insort_insert (protocol_epoch M p) epochs)"
    using Cons.prems by (simp_all add: sorted_insort_insert distinct_insort_insert)
  from Cons.IH [OF this rest] p show ?case by (auto simp: set_insort_insert)
qed

lemma collect_epochs_error:
  "collect_epochs M ms epochs = Inl e \<longleftrightarrow>
     (\<exists>before m after. ms = before @ m # after \<and> protocol_message M m = Inl e \<and>
        (\<forall>x \<in> set before. \<exists>p. protocol_message M x = Inr p))"
proof (induction ms arbitrary: epochs)
  case Nil
  then show ?case by simp
next
  case (Cons m ms)
  show ?case
  proof (cases "protocol_message M m")
    case (Inl e')
    have "(\<exists>before x after. m # ms = before @ x # after \<and> protocol_message M x = Inl e \<and>
        (\<forall>x \<in> set before. \<exists>p. protocol_message M x = Inr p)) \<longleftrightarrow> e' = e" (is "?L \<longleftrightarrow> _")
    proof
      assume ?L
      then obtain before x after where "m # ms = before @ x # after" "protocol_message M x = Inl e"
        "\<forall>x \<in> set before. \<exists>p. protocol_message M x = Inr p" by blast
      with Inl show "e' = e" by (cases before) auto
    next
      assume "e' = e"
      with Inl show ?L by (intro exI [of _ "[]"] exI [of _ m] exI [of _ ms]) simp
    qed
    with Inl show ?thesis by simp
  next
    case (Inr p)
    have "(\<exists>before x after. m # ms = before @ x # after \<and> protocol_message M x = Inl e \<and>
        (\<forall>x \<in> set before. \<exists>p. protocol_message M x = Inr p)) \<longleftrightarrow>
      (\<exists>before x after. ms = before @ x # after \<and> protocol_message M x = Inl e \<and>
        (\<forall>x \<in> set before. \<exists>p. protocol_message M x = Inr p))" (is "?L \<longleftrightarrow> ?R")
    proof
      assume ?L
      then obtain before x after where b: "m # ms = before @ x # after" "protocol_message M x = Inl e"
        "\<forall>x \<in> set before. \<exists>p. protocol_message M x = Inr p" by blast
      from b Inr obtain before' where "before = m # before'" by (cases before) auto
      with b show ?R by auto
    next
      assume ?R
      then obtain before x after where "ms = before @ x # after" "protocol_message M x = Inl e"
        "\<forall>x \<in> set before. \<exists>p. protocol_message M x = Inr p" by blast
      with Inr show ?L by (intro exI [of _ "m # before"] exI [of _ x] exI [of _ after]) simp
    qed
    with Inr Cons.IH show ?thesis by simp
  qed
qed

text \<open>The epochs that are preloaded for a batch of messages are exactly the epochs of its messages, once
  each and in increasing order, whatever the order of the batch; if a message cannot be parsed, the
  batch is refused with the error of the first such message.\<close>

theorem protocol_message_epochs_exact:
  "(case protocol_message_epochs M ms of
      Inr es \<Rightarrow> sorted es \<and> distinct es \<and> (\<forall>m \<in> set ms. \<exists>p. protocol_message M m = Inr p) \<and>
        set es = {protocol_epoch M p | p m. m \<in> set ms \<and> protocol_message M m = Inr p}
    | Inl e \<Rightarrow> \<exists>before m after. ms = before @ m # after \<and> protocol_message M m = Inl e \<and>
        (\<forall>x \<in> set before. \<exists>p. protocol_message M x = Inr p))"
proof (cases "protocol_message_epochs M ms")
  case (Inl e)
  then have "collect_epochs M ms [] = Inl e" by (simp add: protocol_message_epochs_def)
  with Inl show ?thesis by (simp add: collect_epochs_error)
next
  case (Inr es)
  then have "collect_epochs M ms [] = Inr es" by (simp add: protocol_message_epochs_def)
  from collect_epochs_sorted [OF _ _ this] Inr show ?thesis by simp
qed

section \<open>Batches of messages\<close>

text \<open>Processing the messages one by one with \<open>process_operation_message\<close>, passing over application
  messages.\<close>

definition tolerant_step :: "('st, 'g, 'o) openmls \<Rightarrow> bytes \<Rightarrow> ('g \<times> 'st, mls_error, unit) action" where
  "tolerant_step M message gs =
     (case process_operation_message M message gs of
        (Inr _, gs') \<Rightarrow> (Inr (), gs')
      | (Inl e, gs') \<Rightarrow> (if e = Error_InvalidOperationMessage then Inr () else Inl e, gs'))"

text \<open>A run that goes message by message comes to \<open>gs1\<close> after the messages \<open>pre\<close> and reading \<open>m\<close>, which is a
  proposal: there it looks up the group's own signature key.\<close>

definition looks_up ::
    "('st, 'g, 'o) openmls \<Rightarrow> bytes list \<Rightarrow> bytes \<Rightarrow> 'g \<times> 'st \<Rightarrow> 'g \<times> 'st \<Rightarrow> bool" where
  "looks_up M pre m gs gs1 \<longleftrightarrow>
     (\<exists>gs0 p staged. sforeach pre (tolerant_step M) gs = (Inr (), gs0) \<and> processed M m gs0 = (Inr p, gs1) \<and>
        (content p = ProposalMessage staged \<or> content p = ExternalJoinProposalMessage staged))"

text \<open>The key that the run finds first is the key that its later look-ups find, and these only read: the
  own leaf keeps its key, and the storage the key pair, while the messages are processed. The first
  look-up may do anything, and nothing is asked of other groups, storages or messages.\<close>

definition signer_kept :: "('st, 'g, 'o) openmls \<Rightarrow> bytes list \<Rightarrow> 'g \<times> 'st \<Rightarrow> bool" where
  "signer_kept M ms gs \<longleftrightarrow>
     (\<forall>pre m mid m' post gs1 s gs2 gs3. ms = pre @ m # mid @ m' # post \<longrightarrow> looks_up M pre m gs gs1 \<longrightarrow>
        group_signer M gs1 = (Inr s, gs2) \<longrightarrow> looks_up M (pre @ m # mid) m' gs gs3 \<longrightarrow> group_signer M gs3 = (Inr s, gs3))"

text \<open>The commit that answers a proposal has been made, and its bytes, or those of its group info, cannot be
  written. Only \<open>process_operation_message\<close> writes them.\<close>

definition unwritable_commit :: "('st, 'g, 'o) openmls \<Rightarrow> 'o \<Rightarrow> 'g \<times> 'st \<Rightarrow> mls_error \<Rightarrow> bool" where
  "unwritable_commit M staged gs e \<longleftrightarrow>
     (\<exists>s gs1 gs2 commit welcome group_info gs3. group_signer M gs = (Inr s, gs1) \<and>
        store_proposal M staged gs1 = (Inr (), gs2) \<and> commit_pending M s gs2 = (Inr (commit, welcome, group_info), gs3) \<and>
        rbind (serialized M commit) (\<lambda>_. serialized_option M group_info) = Inl e)"

definition stopped_unwritable :: "('st, 'g, 'o) openmls \<Rightarrow> bytes list \<Rightarrow> 'g \<times> 'st \<Rightarrow> mls_error \<Rightarrow> bool" where
  "stopped_unwritable M ms gs e \<longleftrightarrow>
     (\<exists>pre m post gs0 p gs1 staged. ms = pre @ m # post \<and> sforeach pre (tolerant_step M) gs = (Inr (), gs0) \<and>
        processed M m gs0 = (Inr p, gs1) \<and>
        (content p = ProposalMessage staged \<or> content p = ExternalJoinProposalMessage staged) \<and>
        unwritable_commit M staged gs1 e)"

text \<open>Only an application message makes \<open>process_operation_message\<close> return \<open>InvalidOperationMessage\<close>.\<close>

definition never :: "'e \<Rightarrow> ('s, 'e, 'a) action \<Rightarrow> bool" where
  "never x f \<longleftrightarrow> (\<forall>s t. f s \<noteq> (Inl x, t))"

lemma neverD: "never x f \<Longrightarrow> f s = (Inl e, t) \<Longrightarrow> e \<noteq> x"
  unfolding never_def by blast

lemma never_smap_err: "(\<And>e. h e \<noteq> x) \<Longrightarrow> never x (smap_err h f)"
  by (auto simp: never_def smap_err_Inl)

lemma never_slift: "r \<noteq> Inl x \<Longrightarrow> never x (slift r)"
  by (auto simp: never_def slift_def)

lemma never_sret: "never x (sret a)"
  by (auto simp: never_def sret_def)

lemma never_sbind: "never x f \<Longrightarrow> (\<And>a. never x (k a)) \<Longrightarrow> never x (sbind f k)"
  by (auto simp: never_def sbind_def split: prod.splits sum.splits)

lemma never_prod: "(\<And>a b. never x (f a b)) \<Longrightarrow> never x (case p of (a, b) \<Rightarrow> f a b)"
  by (cases p) simp

lemmas never_intros = never_smap_err never_slift never_sret never_sbind never_prod

lemma never_invalid_operation:
  "never Error_InvalidOperationMessage (processed M m)"
  "never Error_InvalidOperationMessage (smap_err from_merge_commit_error f)"
  by (auto simp: processed_def protocol_message_def from_error_defs rbind_def map_err_def
      intro!: never_intros split: sum.splits)

lemma never_signer: "never Error_InvalidOperationMessage (group_signer M)"
  by (auto simp: never_def group_signer_def get_own_signature_key_from_group_def ok_or_def split: option.splits prod.splits)

lemma commit_to_proposal_never: "never Error_InvalidOperationMessage (commit_to_proposal M staged)"
  by (auto simp: commit_to_proposal_def from_error_defs serialized_def serialized_option_def rbind_def map_err_def
      intro!: never_intros never_signer split: option.splits sum.splits)

text \<open>With the key at hand that a look-up would find, the batch's commit ends as the single one, unless its
  bytes cannot be written.\<close>

lemma commit_with_signer_is_commit:
  assumes "sg = None \<or> (\<exists>s. sg = Some s \<and> group_signer M gs = (Inr s, gs))"
    and "commit_to_proposal M staged gs = (r, gs')"
  shows "case r of
      Inr _ \<Rightarrow> \<exists>s gs1. group_signer M gs = (Inr s, gs1) \<and> commit_with_signer M sg staged gs = (Inr s, gs')
    | Inl e \<Rightarrow> commit_with_signer M sg staged gs = (Inl e, gs') \<or> unwritable_commit M staged gs e"
proof -
  obtain q gs1 where q: "group_signer M gs = (q, gs1)" by (cases "group_signer M gs")
  have pick: "(case sg of None \<Rightarrow> group_signer M | Some s \<Rightarrow> sret s) gs = (q, gs1)"
    using assms(1) q by (auto simp: sret_def)
  show ?thesis
  proof (cases q)
    case (Inl e)
    with assms(2) q pick show ?thesis
      by (auto simp: commit_with_signer_def commit_to_proposal_def sbind_def [of "group_signer M"]
          sbind_def [of "case sg of None \<Rightarrow> group_signer M | Some s \<Rightarrow> sret s"])
  next
    case (Inr s)
    obtain x gs2 where x: "store_proposal M staged gs1 = (x, gs2)" by (cases "store_proposal M staged gs1")
    obtain y gs3 where y: "commit_pending M s gs2 = (y, gs3)" by (cases "commit_pending M s gs2")
    let ?bytes = "\<lambda>commit info. rbind (serialized M commit) (\<lambda>c. rbind (serialized_option M info) (\<lambda>g.
        Inr \<lparr>or_commit = Some c, or_group_info = g\<rparr>))"
    have single: "commit_to_proposal M staged gs = (case x of Inl e \<Rightarrow> (Inl (Error_Storage e), gs2) | Inr _ \<Rightarrow>
        (case y of Inl e \<Rightarrow> (Inl (from_commit_to_pending_proposals_error e), gs3) | Inr (commit, _, info) \<Rightarrow> (?bytes commit info, gs3)))"
      using q Inr x y
      by (auto simp: commit_to_proposal_def sbind_def smap_err_def slift_def rbind_def sret_def split: sum.splits)
    have batch: "commit_with_signer M sg staged gs = (case x of Inl e \<Rightarrow> (Inl (Error_Storage e), gs2) | Inr _ \<Rightarrow>
        (case y of Inl e \<Rightarrow> (Inl (from_commit_to_pending_proposals_error e), gs3) | Inr _ \<Rightarrow> (Inr s, gs3)))"
      using pick Inr x y
      by (auto simp: commit_with_signer_def sbind_def [of "case sg of None \<Rightarrow> group_signer M | Some s \<Rightarrow> sret s"])
        (auto simp: sbind_def smap_err_def sret_def split: sum.splits)
    have unwritable: "unwritable_commit M staged gs e"
      if "x = Inr ()" "y = Inr (commit, w, info)" "?bytes commit info = Inl e" for commit w info e
      unfolding unwritable_commit_def using q Inr x y that
      by (intro exI [of _ s] exI [of _ gs1] exI [of _ gs2] exI [of _ commit] exI [of _ w] exI [of _ info] exI [of _ gs3])
        (auto simp: rbind_def split: sum.splits)
    show ?thesis
      using assms(2) q Inr single batch unwritable by (auto split: sum.splits)
  qed
qed

text \<open>A look-up after one more message.\<close>

lemma looks_up_Cons:
  "tolerant_step M m gs = (Inr (), gs1) \<Longrightarrow> looks_up M (m # pre) m' gs gs2 \<longleftrightarrow> looks_up M pre m' gs1 gs2"
  by (simp add: looks_up_def sbind_def)

lemma stopped_unwritable_Cons:
  assumes "tolerant_step M m gs = (Inr (), gs1)" and "stopped_unwritable M ms gs1 e"
  shows "stopped_unwritable M (m # ms) gs e"
proof -
  from assms(2) obtain pre m' post gs0 p gs2 staged where "ms = pre @ m' # post" "sforeach pre (tolerant_step M) gs1 = (Inr (), gs0)"
    "processed M m' gs0 = (Inr p, gs2)" "content p = ProposalMessage staged \<or> content p = ExternalJoinProposalMessage staged"
    "unwritable_commit M staged gs2 e" unfolding stopped_unwritable_def by blast
  with assms(1) show ?thesis unfolding stopped_unwritable_def
    by (intro exI [of _ "m # pre"] exI [of _ m'] exI [of _ post] exI [of _ gs0] exI [of _ p] exI [of _ gs2] exI [of _ staged])
      (simp add: sbind_def)
qed

text \<open>What the loop knows: the key it carries is the one every look-up still to come finds.\<close>

definition carries :: "('st, 'g, 'o) openmls \<Rightarrow> 'o option \<Rightarrow> bytes list \<Rightarrow> 'g \<times> 'st \<Rightarrow> bool" where
  "carries M sg ms gs \<longleftrightarrow>
     (case sg of
        None \<Rightarrow> signer_kept M ms gs
      | Some s \<Rightarrow> \<forall>pre m post gs1. ms = pre @ m # post \<longrightarrow> looks_up M pre m gs gs1 \<longrightarrow> group_signer M gs1 = (Inr s, gs1))"

lemma carries_step:
  assumes "carries M sg (m # ms) gs" and "tolerant_step M m gs = (Inr (), gs1)"
  shows "carries M sg ms gs1"
proof (cases sg)
  case None
  show ?thesis
    unfolding carries_def None option.case signer_kept_def
  proof (intro allI impI)
    fix pre m1 mid m2 post gs2 s gs3 gs4
    assume "ms = pre @ m1 # mid @ m2 # post" "looks_up M pre m1 gs1 gs2" "group_signer M gs2 = (Inr s, gs3)"
      "looks_up M (pre @ m1 # mid) m2 gs1 gs4"
    with assms(1) [unfolded carries_def None option.case signer_kept_def, rule_format, of "m # pre" m1 mid m2 post gs2 s gs3 gs4]
    show "group_signer M gs4 = (Inr s, gs4)" by (simp add: looks_up_Cons [OF assms(2)])
  qed
next
  case (Some s)
  show ?thesis
    unfolding carries_def Some option.case
  proof (intro allI impI)
    fix pre m1 post gs2
    assume "ms = pre @ m1 # post" "looks_up M pre m1 gs1 gs2"
    with assms(1) [unfolded carries_def Some option.case, rule_format, of "m # pre" m1 post gs2]
    show "group_signer M gs2 = (Inr s, gs2)" by (simp add: looks_up_Cons [OF assms(2)])
  qed
qed

lemma carries_first:
  assumes "carries M sg (m # ms) gs" and "looks_up M [] m gs gs1" and "tolerant_step M m gs = (Inr (), gs3)"
    and "group_signer M gs1 = (Inr s, gs2)"
  shows "carries M (Some s) ms gs3"
  unfolding carries_def option.case
proof (intro allI impI)
  fix pre m1 post gs4
  assume ms: "ms = pre @ m1 # post" and up: "looks_up M pre m1 gs3 gs4"
  have up': "looks_up M (m # pre) m1 gs gs4" using up looks_up_Cons [OF assms(3)] by simp
  show "group_signer M gs4 = (Inr s, gs4)"
  proof (cases sg)
    case None
    from assms(1) [unfolded carries_def None option.case signer_kept_def, rule_format, of "[]" m pre m1 post gs1 s gs2 gs4]
      ms up' assms(2,4) show ?thesis by simp
  next
    case (Some s')
    from assms(1) [unfolded carries_def Some option.case, rule_format, of "[]" m ms gs1] assms(2,4) have "s' = s" by simp
    with assms(1) [unfolded carries_def Some option.case, rule_format, of "m # pre" m1 post gs4] ms up' show ?thesis by simp
  qed
qed

lemma process_many_is_each:
  "carries M sg ms gs \<Longrightarrow> sforeach ms (tolerant_step M) gs = (r, gs') \<Longrightarrow>
     process_many_loop M sg ms gs = (r, gs') \<or> (\<exists>e. r = Inl e \<and> stopped_unwritable M ms gs e)"
proof (induction ms arbitrary: sg gs)
  case Nil
  then show ?case by simp
next
  case (Cons m ms)
  obtain q gs1 where q: "processed M m gs = (q, gs1)" by (cases "processed M m gs")
  have step: ?case if "process_many_loop M sg (m # ms) gs = process_many_loop M sg ms gs1" "tolerant_step M m gs = (Inr (), gs1)" for gs1
    using Cons.IH [OF carries_step [OF Cons.prems(1) that(2)]] Cons.prems(2) that stopped_unwritable_Cons [OF that(2)]
    by (auto simp: sbind_def)
  have proposal: ?case
    if p: "q = Inr p" "content p = ProposalMessage staged \<or> content p = ExternalJoinProposalMessage staged"
    for p staged
  proof -
    obtain x gs2 where x: "commit_to_proposal M staged gs1 = (x, gs2)" by (cases "commit_to_proposal M staged gs1")
    have up: "looks_up M [] m gs gs1" using q p unfolding looks_up_def by auto
    have have_signer: "sg = None \<or> (\<exists>s. sg = Some s \<and> group_signer M gs1 = (Inr s, gs1))"
    proof (cases sg)
      case (Some s)
      with Cons.prems(1) have "m # ms = [] @ m # ms \<longrightarrow> looks_up M [] m gs gs1 \<longrightarrow> group_signer M gs1 = (Inr s, gs1)"
        unfolding carries_def Some option.case by blast
      with up Some show ?thesis by simp
    qed simp
    have loop: "process_many_loop M sg (m # ms) gs = sbind (commit_with_signer M sg staged) (\<lambda>s. process_many_loop M (Some s) ms) gs1"
      using q p by (auto simp: sbind_def [of "processed M m"])
    have op: "process_operation_message M m gs = (x, gs2)"
      using q p x by (auto simp: process_operation_message_def sbind_def [of "processed M m"])
    note commit = commit_with_signer_is_commit [OF have_signer x]
    show ?case
    proof (cases x)
      case (Inl e)
      then have e: "r = Inl e" "gs' = gs2" using Cons.prems(2) op neverD [OF commit_to_proposal_never, of M staged gs1 e] x
        by (auto simp: sbind_def tolerant_step_def)
      from commit Inl consider "commit_with_signer M sg staged gs1 = (Inl e, gs2)" | "unwritable_commit M staged gs1 e" by auto
      then show ?thesis
      proof cases
        case 1
        with loop e show ?thesis by (simp add: sbind_def)
      next
        case 2
        have "stopped_unwritable M (m # ms) gs e" unfolding stopped_unwritable_def
          using 2 p q by (intro exI [of _ "[]"] exI [of _ m] exI [of _ ms] exI [of _ gs] exI [of _ p] exI [of _ gs1] exI [of _ staged]) simp
        with e show ?thesis by blast
      qed
    next
      case (Inr y)
      with commit obtain s gs3 where s: "group_signer M gs1 = (Inr s, gs3)" "commit_with_signer M sg staged gs1 = (Inr s, gs2)" by auto
      have t: "tolerant_step M m gs = (Inr (), gs2)" using op Inr by (simp add: tolerant_step_def)
      from Cons.IH [OF carries_first [OF Cons.prems(1) up t s(1)]] Cons.prems(2) t loop s(2) stopped_unwritable_Cons [OF t]
      show ?thesis by (auto simp: sbind_def)
    qed
  qed
  show ?case
  proof (cases q)
    case (Inl e)
    with q Cons.prems(2) neverD [OF never_invalid_operation(1), of M m gs] show ?thesis
      by (auto simp: sbind_def tolerant_step_def [of M m] process_operation_message_def)
  next
    case (Inr p)
    show ?thesis
    proof (cases "content p")
      case (StagedCommitMessage staged)
      obtain x gs2 where x: "merge_staged M staged gs1 = (x, gs2)" by (cases "merge_staged M staged gs1")
      show ?thesis
      proof (cases x)
        case (Inl e)
        with q \<open>q = Inr p\<close> x StagedCommitMessage Cons.prems(2) neverD [OF never_invalid_operation(2), of "merge_staged M staged" gs1]
        show ?thesis by (auto simp: sbind_def tolerant_step_def [of M m] process_operation_message_def smap_err_def)
      next
        case (Inr u)
        show ?thesis
          by (rule step [of gs2]) (use q \<open>q = Inr p\<close> x Inr StagedCommitMessage in
              \<open>auto simp: sbind_def tolerant_step_def [of M m] process_operation_message_def smap_err_def\<close>)
      qed
    next
      case (ProposalMessage staged)
      with Inr show ?thesis by (intro proposal [of p staged]) simp_all
    next
      case (ExternalJoinProposalMessage staged)
      with Inr show ?thesis by (intro proposal [of p staged]) simp_all
    next
      case (ApplicationMessage b)
      show ?thesis
        by (rule step [of gs1]) (use q Inr ApplicationMessage in
            \<open>auto simp: sbind_def tolerant_step_def [of M m] process_operation_message_def\<close>)
    qed
  qed
qed

text \<open>C13: batch processing agrees with processing message by message. If the key that the run looks up first
  is the one its later look-ups find (the batch looks it up only once), then
  \<open>process_many_operation_messages\<close> ends as calling \<open>process_operation_message\<close> on each message in turn
  and passing over application messages: where all of these succeed, with the same group and storage,
  and the epoch of the group; where one fails, with the same error, group and storage, unless the
  failure was to write out a commit it had made, which the batch does not do.\<close>

theorem process_many_equals_each:
  assumes "signer_kept M ms gs"
  shows "case sforeach ms (tolerant_step M) gs of
       (Inr _, gs') \<Rightarrow> process_many_operation_messages M ms gs = (Inr (group_epoch M (fst gs')), gs')
     | (Inl e, gs') \<Rightarrow> process_many_operation_messages M ms gs = (Inl e, gs') \<or> stopped_unwritable M ms gs e"
proof -
  obtain r gs' where r: "sforeach ms (tolerant_step M) gs = (r, gs')" by (cases "sforeach ms (tolerant_step M) gs")
  have "carries M None ms gs" using assms by (simp add: carries_def)
  from process_many_is_each [OF this r] show ?thesis
    using r by (cases r) (auto simp: process_many_operation_messages_def sbind_def sreads_def)
qed

section \<open>Members\<close>

text \<open>The key packages that reach OpenMLS: all that parse and are valid, without the expired ones.\<close>

definition unexpired :: "('st, 'g, 'o) openmls \<Rightarrow> bytes \<Rightarrow> 'o option" where
  "unexpired M b =
     (case key_package_in M b of
        Inl _ \<Rightarrow> None
      | Inr k \<Rightarrow> (case key_package_validate M k of Inr key_package \<Rightarrow> Some key_package | Inl _ \<Rightarrow> None))"

definition acceptable :: "('st, 'g, 'o) openmls \<Rightarrow> bytes \<Rightarrow> bool" where
  "acceptable M b \<longleftrightarrow>
     (\<exists>k. key_package_in M b = Inr k \<and>
        (case key_package_validate M k of Inr _ \<Rightarrow> True | Inl e \<Rightarrow> (\<exists>s. e = LifetimeError s)))"

lemma validate_unexpired_Inr:
  "validate_unexpired vdisp M bs = Inr ks \<longleftrightarrow> (\<forall>b \<in> set bs. acceptable M b) \<and> ks = List.map_filter (unexpired M) bs"
proof (induction bs arbitrary: ks)
  case Nil
  then show ?case by (auto simp: map_filter_simps)
next
  case (Cons b bs)
  then show ?case
    by (auto simp: rbind_Inr_iff acceptable_def unexpired_def map_filter_simps
        split: sum.splits verify_error.splits)
qed

lemma find_members_Nil:
  "find_members_by_identity members ids = [] \<longleftrightarrow> (\<forall>m \<in> set members. \<forall>i \<in> set ids. identity m \<noteq> Some i)"
  by (auto simp: find_members_by_identity_def filter_empty_conv split: option.splits)

text \<open>C20: \<open>add_members\<close> adds only new members. If it succeeds, every key package given to it parses and is
  valid or expired, at least one is not expired, OpenMLS was given exactly those that are not, in
  their order, and no identity among them is the identity of a member; the result carries the tree
  hash from before the commit and the epoch of the group after the call. If it fails before OpenMLS is
  asked to add anyone, group and storage are unchanged.\<close>

theorem add_members_only_new:
  assumes "add_members vdisp M signer ins (g, st) = (r, gs')"
  defines "ks \<equiv> List.map_filter (unexpired M) ins"
  shows "(case r of
      Inr res \<Rightarrow> (\<forall>b \<in> set ins. acceptable M b) \<and> ks \<noteq> [] \<and>
        (\<forall>m \<in> set (group_members M g). \<forall>k \<in> set ks. \<forall>i. key_package_identity M k = Some i \<longrightarrow> identity m \<noteq> Some i) \<and>
        (\<exists>messages. add_to_group M signer ks (g, st) = (Inr messages, gs')) \<and>
        am_pre_tree_hash res = group_tree_hash M g \<and> am_current_epoch res = group_epoch M (fst gs')
    | Inl _ \<Rightarrow> gs' = (g, st) \<or> (\<exists>q. add_to_group M signer ks (g, st) = (q, gs')))"
proof -
  have ids: "set (get_identity_from_key_packages M ks) = {i. \<exists>k \<in> set ks. key_package_identity M k = Some i}" for ks
    by (force simp: get_identity_from_key_packages_def map_filter_def)
  show ?thesis
  proof (cases "validate_unexpired vdisp M ins")
    case (Inl e)
    with assms(1) show ?thesis by (auto simp: add_members_def sbind_def)
  next
    case (Inr ks')
    then have ks: "ks' = ks" "\<forall>b \<in> set ins. acceptable M b" by (simp_all add: validate_unexpired_Inr ks_def)
    show ?thesis
    proof (cases "ks = [] \<or> find_members_by_identity (group_members M g) (get_identity_from_key_packages M ks) \<noteq> []")
      case True
      with Inr ks assms(1) show ?thesis by (auto simp: add_members_def sbind_def sreads_def split: if_splits)
    next
      case False
      obtain q gs1 where q: "add_to_group M signer ks (g, st) = (q, gs1)" by (cases "add_to_group M signer ks (g, st)")
      have run: "(case q of Inl e \<Rightarrow> (Inl (from_add_members_error e), gs1)
         | Inr (commit, welcome, group_info) \<Rightarrow>
            (sbind (slift (serialized_option M group_info)) (\<lambda>group_info.
             sbind (slift (serialized M welcome)) (\<lambda>welcome.
             sbind (slift (serialized M commit)) (\<lambda>commit.
             sbind (sreads (group_epoch M)) (\<lambda>current_epoch.
             sret \<lparr>am_welcome = welcome, am_commit = commit, am_group_info = group_info,
               am_current_epoch = current_epoch, am_pre_tree_hash = group_tree_hash M g\<rparr>))))) gs1) = (r, gs')"
        using assms(1) Inr ks False q
        by (auto simp: add_members_def sbind_def [of "slift (Inr _)"] sbind_def [of "sreads (group_members M)"]
            sbind_def [of "sreads (group_tree_hash M)"] sbind_def [of "smap_err _ _"] sreads_def smap_err_def split: sum.splits)
      have "gs' = gs1"
        using run by (auto simp: sbind_def slift_def sreads_def sret_def split: sum.splits prod.splits)
      moreover have "\<And>res. r = Inr res \<Longrightarrow> (\<exists>messages. q = Inr messages) \<and>
          am_pre_tree_hash res = group_tree_hash M g \<and> am_current_epoch res = group_epoch M (fst gs1)"
        using run by (auto simp: sbind_def slift_def sreads_def sret_def split: sum.splits prod.splits)
      moreover have "\<forall>m \<in> set (group_members M g). \<forall>k \<in> set ks. \<forall>i.
          key_package_identity M k = Some i \<longrightarrow> identity m \<noteq> Some i"
        using False ids [of ks] unfolding find_members_Nil by blast
      ultimately show ?thesis using q False ks by (auto split: sum.split)
    qed
  qed
qed

text \<open>\<open>readd\<close> and \<open>remove_members\<close> split the members exactly. When leaf indices are distinct, every member
  is either on our side of the fork or among those found by identity, never on both, in particular no
  member is lost; and a member is found exactly when it has a basic credential with one of the given
  identities.\<close>

theorem members_partitioned:
  assumes "distinct (map leaf_index members)"
  shows "mset (map leaf_index members) =
      mset (partition_without members ids) + mset (map leaf_index (find_members_by_identity members ids)) \<and>
    set (partition_without members ids) = {leaf_index m | m. m \<in> set members \<and> (\<forall>i \<in> set ids. identity m \<noteq> Some i)}"
proof -
  let ?found = "\<lambda>m. case identity m of None \<Rightarrow> False | Some i \<Rightarrow> i \<in> set ids"
  have inj: "inj_on leaf_index (set members)" using assms by (simp add: distinct_map)
  have "m \<in> set members \<Longrightarrow> leaf_index m \<notin> set (map leaf_index (filter ?found members)) \<longleftrightarrow> \<not> ?found m" for m
    using inj by (auto simp: inj_on_def)
  then have part: "partition_without members ids = map leaf_index (filter (\<lambda>m. \<not> ?found m) members)"
    unfolding partition_without_def find_members_by_identity_def Let_def
    by (intro arg_cong [where f = "map leaf_index"] filter_cong) simp_all
  have "mset (map leaf_index members) =
      mset (map leaf_index (filter (\<lambda>m. \<not> ?found m) members)) + mset (map leaf_index (filter ?found members))"
    by (induction members) auto
  moreover have "set (map leaf_index (filter (\<lambda>m. \<not> ?found m) members)) =
      {leaf_index m | m. m \<in> set members \<and> (\<forall>i \<in> set ids. identity m \<noteq> Some i)}"
    by (auto split: option.splits)
  ultimately show ?thesis by (simp only: part find_members_by_identity_def)
qed

section \<open>Examples\<close>

lemma sample_signer_kept: "signer_kept sample_mls ms gs"
  by (simp add: signer_kept_def group_signer_def get_own_signature_key_from_group_def sample_mls_def)

theorem protocol_message_epochs_exact_witness:
  "protocol_message_epochs (sample_mls :: (unit, sample_state, bytes) openmls) [[1, 5], [2, 3], [1, 5]] = Inr [3, 5] \<and>
     sorted [3, 5 :: u64] \<and> distinct [3, 5 :: u64]"
proof -
  let ?ms = "[[1, 5], [2, 3], [1, 5]] :: bytes list" and ?mls = "sample_mls :: (unit, sample_state, bytes) openmls"
  have run: "protocol_message_epochs ?mls ?ms = Inr [3, 5]" by code_simp
  from protocol_message_epochs_exact [where M = ?mls and ms = ?ms, unfolded run sum.case] have "sorted [3, 5 :: u64] \<and> distinct [3, 5 :: u64]"
    by blast
  with run show ?thesis by blast
qed

theorem process_many_equals_each_witness:
  "process_many_operation_messages sample_mls [[2, 0], [1, 0], [0, 1, 7], [2, 1], [1, 1]] (sample_start, ()) =
     (Inr 2, sample_start\<lparr>sample_epoch := 2\<rparr>, ())"
proof -
  let ?ms = "[[2, 0], [1, 0], [0, 1, 7], [2, 1], [1, 1]] :: bytes list"
  have "sforeach ?ms (tolerant_step sample_mls) (sample_start, ()) = (Inr (), sample_start\<lparr>sample_epoch := 2\<rparr>, ())" by code_simp
  with process_many_equals_each [OF sample_signer_kept, of ?ms "(sample_start, ())"]
  show ?thesis by (simp add: sample_mls_def)
qed

theorem add_members_only_new_witness:
  "Some [99] \<notin> identity ` set (group_members (sample_mls :: (unit, sample_state, bytes) openmls) sample_start)"
proof -
  let ?mls = "sample_mls :: (unit, sample_state, bytes) openmls"
  let ?run = "add_members (\<lambda>_. ''bad'') ?mls [1] [[], [99]] (sample_start, ())"
  have run: "?run = (Inr \<lparr>am_welcome = [3, 0], am_commit = [1, 0], am_group_info = None, am_current_epoch = 1,
      am_pre_tree_hash = [5]\<rparr>, sample_start\<lparr>sample_epoch := 1\<rparr>, ())" by code_simp
  have ks: "List.map_filter (unexpired ?mls) [[], [99]] = [[99]]" "key_package_identity ?mls [99] = Some [99]"
    by code_simp+
  from add_members_only_new [OF run, unfolded sum.case] have
    "\<forall>m \<in> set (group_members ?mls sample_start). \<forall>k \<in> set (List.map_filter (unexpired ?mls) [[], [99]]).
       \<forall>i. key_package_identity ?mls k = Some i \<longrightarrow> identity m \<noteq> Some i" by blast
  then show ?thesis unfolding ks(1) using ks(2) by auto
qed

theorem members_partitioned_witness:
  "mset [0, 1 :: u32] = mset (partition_without (sample_members sample_start) [[98]]) + {#1#}"
proof -
  have d: "distinct (map leaf_index (sample_members sample_start))" by code_simp
  have "map leaf_index (sample_members sample_start) = [0, 1]"
    "map leaf_index (find_members_by_identity (sample_members sample_start) [[98]]) = [1]" by code_simp+
  with members_partitioned [OF d, of "[[98]]"] show ?thesis by simp
qed

end
