(* ===== verification/Kchat_Status.thy ===== *)
theory Kchat_Status
  imports Mls_Error Utf8
begin

text \<open>
  The group status database of \<open>kchat-mls/src/lib.rs\<close>: its table, the operations on it, the pending
  operations it stores, and how an existing file is opened. A row is a group id and the text of its
  pending operation; \<open>None\<close> is a database without the table. \<open>disp\<close> prints a \<open>rusqlite\<close> error,
  \<open>cdisp\<close> and \<open>cdbg\<close> a result code, and \<open>ord\<close> is the order in which the engine returns rows.
\<close>

section \<open>Pending operations and message types\<close>

datatype message_type = Type_Welcome | Type_Commit | Type_Proposal | Type_Unknown

definition message_type_from :: "string \<Rightarrow> message_type" where
  "message_type_from value =
     (if value = ''MLS_MESSAGE_TYPE_WELCOME'' then Type_Welcome
      else if value = ''MLS_MESSAGE_TYPE_COMMIT'' then Type_Commit
      else if value = ''MLS_MESSAGE_TYPE_PROPOSAL'' then Type_Proposal
      else Type_Unknown)"

datatype pending_operation =
    Op_CreateGroup | Op_JoinByExternalCommit | Op_LeaveGroup | Op_UpdateTree | Op_None

definition OP_CREATE_GROUP :: string where "OP_CREATE_GROUP = ''create_group''"
definition OP_JOIN_BY_EXTERNAL_COMMIT :: string where "OP_JOIN_BY_EXTERNAL_COMMIT = ''join_by_external_commit''"
definition OP_LEAVE_GROUP :: string where "OP_LEAVE_GROUP = ''leave_group''"
definition OP_UPDATE_TREE :: string where "OP_UPDATE_TREE = ''update_tree''"
definition OP_NONE :: string where "OP_NONE = ''none''"

lemmas op_texts = OP_CREATE_GROUP_def OP_JOIN_BY_EXTERNAL_COMMIT_def OP_LEAVE_GROUP_def OP_UPDATE_TREE_def OP_NONE_def

definition pending_operation_from :: "string option \<Rightarrow> pending_operation" where
  "pending_operation_from value =
     (case value of
        None \<Rightarrow> Op_None
      | Some value \<Rightarrow>
          if value = OP_CREATE_GROUP then Op_CreateGroup
          else if value = OP_JOIN_BY_EXTERNAL_COMMIT then Op_JoinByExternalCommit
          else if value = OP_LEAVE_GROUP then Op_LeaveGroup
          else if value = OP_UPDATE_TREE then Op_UpdateTree
          else Op_None)"

fun pending_operation_text :: "pending_operation \<Rightarrow> string" where
  "pending_operation_text Op_CreateGroup = OP_CREATE_GROUP"
| "pending_operation_text Op_JoinByExternalCommit = OP_JOIN_BY_EXTERNAL_COMMIT"
| "pending_operation_text Op_LeaveGroup = OP_LEAVE_GROUP"
| "pending_operation_text Op_UpdateTree = OP_UPDATE_TREE"
| "pending_operation_text Op_None = OP_NONE"

section \<open>The table\<close>

type_synonym status_rows = "(string \<times> string) list"

type_synonym status_db = "status_rows option sql_db"

definition no_such_table :: sql_error where
  "no_such_table = SqliteFailure 1 (Some ''no such table: group_statuses'')"

text \<open>Preparing a statement on the table, and a step of it.\<close>

definition prepare_status :: "(status_rows option, unit) sql_call" where
  "prepare_status =
     sbind engine (\<lambda>_ d. (if tables d = None then Inl no_such_table else Inr (), d))"

definition execute_status :: "(status_rows \<Rightarrow> status_rows) \<Rightarrow> (status_rows option, unit) sql_call" where
  "execute_status effect = sbind engine (\<lambda>_. smodify (\<lambda>d. d\<lparr>tables := map_option effect (tables d)\<rparr>))"

definition query_status :: "(status_rows \<Rightarrow> 'r) \<Rightarrow> (status_rows option, 'r) sql_call" where
  "query_status select =
     sbind engine (\<lambda>_ d. (Inr (select (case tables d of None \<Rightarrow> [] | Some rows \<Rightarrow> rows)), d))"

text \<open>\<open>INSERT .. ON CONFLICT(group_id) DO UPDATE\<close>\<close>

definition set_status :: "string \<Rightarrow> string \<Rightarrow> status_rows \<Rightarrow> status_rows" where
  "set_status group_id operation rows =
     (if group_id \<in> fst ` set rows
      then map (\<lambda>r. if fst r = group_id then (group_id, operation) else r) rows
      else rows @ [(group_id, operation)])"

definition status_of :: "string \<Rightarrow> status_rows \<Rightarrow> string list" where
  "status_of group_id rows = map snd (filter (\<lambda>r. fst r = group_id) rows)"

section \<open>Operations\<close>

definition initialize :: "(sql_error \<Rightarrow> string) \<Rightarrow> (status_db, mls_error, unit) action" where
  "initialize disp =
     smap_err (from_sqlite_error disp)
       (sbind checkout (\<lambda>_.
        sbind engine (\<lambda>_.
        sbind engine (\<lambda>_.
        smodify (\<lambda>d. d\<lparr>tables := (case tables d of None \<Rightarrow> Some [] | Some rows \<Rightarrow> Some rows)\<rparr>)))))"

definition insert_or_update_group_status ::
    "(sql_error \<Rightarrow> string) \<Rightarrow> string \<Rightarrow> pending_operation \<Rightarrow> (status_db, mls_error, unit) action" where
  "insert_or_update_group_status disp group_id pending =
     smap_err (from_sqlite_error disp)
       (sbind checkout (\<lambda>_.
        sbind prepare_status (\<lambda>_.
        execute_status (set_status group_id (pending_operation_text pending)))))"

definition delete_group_status ::
    "(sql_error \<Rightarrow> string) \<Rightarrow> (int \<Rightarrow> string) \<Rightarrow> (int \<Rightarrow> string) \<Rightarrow> string \<Rightarrow> (status_db, mls_error, unit) action" where
  "delete_group_status disp cdisp cdbg group_id =
     sbind (smap_err (\<lambda>e. Error_Sqlite (''delete_group status connection checkout: '' @ disp e)) checkout) (\<lambda>_.
     sbind (smap_err (\<lambda>e. from_sqlite_error disp
                (sqlite_error_context cdisp cdbg e ''delete_group status table group_statuses prepare'')) prepare_status) (\<lambda>_.
     smap_err (\<lambda>e. from_sqlite_error disp
         (sqlite_error_context cdisp cdbg e ''delete_group status table group_statuses execute''))
       (execute_status (filter (\<lambda>r. fst r \<noteq> group_id)))))"

definition get_group_pending_operation ::
    "(sql_error \<Rightarrow> string) \<Rightarrow> string \<Rightarrow> (status_db, mls_error, string option) action" where
  "get_group_pending_operation disp group_id =
     smap_err (from_sqlite_error disp)
       (sbind checkout (\<lambda>_.
        sbind prepare_status (\<lambda>_.
        sbind (query_status (status_of group_id)) (\<lambda>found.
        sret (case found of [] \<Rightarrow> None | operation # _ \<Rightarrow> Some operation)))))"

definition get_group_pending_operations_batch ::
    "(sql_error \<Rightarrow> string) \<Rightarrow> (status_rows \<Rightarrow> status_rows) \<Rightarrow> string list
      \<Rightarrow> (status_db, mls_error, string \<rightharpoonup> string) action" where
  "get_group_pending_operations_batch disp ord group_ids =
     (if group_ids = [] then sret Map.empty
      else smap_err (from_sqlite_error disp)
        (sbind checkout (\<lambda>_.
         sbind prepare_status (\<lambda>_.
         sbind (query_status (\<lambda>rows. ord (filter (\<lambda>r. fst r \<in> set group_ids) rows))) (\<lambda>rows.
         sret (fold (\<lambda>(group_id, operation) result. result(group_id \<mapsto> operation)) rows Map.empty))))))"

section \<open>Opening a file\<close>

text \<open>What the file system answers: no file, an error, or the bytes of the file.\<close>

datatype file_probe =
    File_NotFound | File_OpenError string | File_MetadataError string | File_ReadError string | File_Contents bytes

definition sqlite_header :: bytes where
  "sqlite_header = as_bytes ''SQLite format 3'' @ [0]"

definition group_status_file_is_encrypted :: "file_probe \<Rightarrow> mls_error + bool option" where
  "group_status_file_is_encrypted file =
     (case file of
        File_NotFound \<Rightarrow> Inr None
      | File_OpenError s \<Rightarrow> Inl (Error_Storage s)
      | File_MetadataError s \<Rightarrow> Inl (Error_Storage s)
      | File_ReadError s \<Rightarrow> Inl (Error_Storage s)
      | File_Contents b \<Rightarrow>
          if length b = 0 then Inr None
          else if length b < 16 then Inl (Error_Storage ''failed to fill whole buffer'')
          else Inr (Some (take 16 b \<noteq> sqlite_header)))"

text \<open>The result is the key the connections of the pool use.\<close>

definition open_group_status_connection_with_secret ::
    "(sql_error \<Rightarrow> string) \<Rightarrow> string option \<Rightarrow> (status_db, mls_error, string option) action" where
  "open_group_status_connection_with_secret disp secret = sbind (initialize disp) (\<lambda>_. sret secret)"

definition open_group_status_connection ::
    "(sql_error \<Rightarrow> string) \<Rightarrow> file_probe \<Rightarrow> string option \<Rightarrow> (status_db, mls_error, string option) action" where
  "open_group_status_connection disp file secret =
     sbind (slift (group_status_file_is_encrypted file)) (\<lambda>encrypted.
     if encrypted = Some False then open_group_status_connection_with_secret disp None
     else open_group_status_connection_with_secret disp secret)"

definition open_compatible_group_status_connection ::
    "(sql_error \<Rightarrow> string) \<Rightarrow> file_probe \<Rightarrow> string option \<Rightarrow> (status_db, mls_error, string option) action" where
  "open_compatible_group_status_connection disp file secret =
     sbind (slift (group_status_file_is_encrypted file)) (\<lambda>encrypted.
     if (case encrypted of None \<Rightarrow> False | Some e \<Rightarrow> e) then open_group_status_connection_with_secret disp secret
     else open_group_status_connection_with_secret disp None)"

section \<open>Lemmas\<close>

text \<open>The primary key of the table.\<close>

definition status_keys :: "status_rows \<Rightarrow> bool" where
  "status_keys rows \<longleftrightarrow> distinct (map fst rows)"

lemma pending_operation_roundtrip: "pending_operation_from (Some (pending_operation_text op)) = op"
  by (cases op) (simp_all add: pending_operation_from_def op_texts)

lemma map_of_set_status: "map_of (set_status g op rows) = (map_of rows)(g \<mapsto> op)"
proof (cases "g \<in> fst ` set rows")
  case True
  have "map_of (map (\<lambda>r. if fst r = g then (g, op) else r) rs) k =
      (if k = g then (if g \<in> fst ` set rs then Some op else None) else map_of rs k)" for rs k
    by (induction rs) (force split: if_splits)+
  with True show ?thesis by (simp add: set_status_def fun_eq_iff)
next
  case False
  then have "map_of rows g = None" by (simp add: map_of_eq_None_iff)
  with False show ?thesis by (simp add: set_status_def fun_eq_iff map_add_def split: option.split)
qed

lemma map_of_delete_status: "map_of (filter (\<lambda>r. fst r \<noteq> g) rows) = (map_of rows)(g := None)"
  by (induction rows) auto

lemma status_keys_set:
  assumes "status_keys rows"
  shows "status_keys (set_status g op rows)"
proof -
  have "map fst (map (\<lambda>r. if fst r = g then (g, op) else r) rows) = map fst rows" by (induction rows) auto
  with assms show ?thesis by (simp add: status_keys_def set_status_def del: map_map)
qed

lemma status_keys_delete: "status_keys rows \<Longrightarrow> status_keys (filter P rows)"
  by (simp add: status_keys_def distinct_map_filter)

lemma status_of_map_of: "(case status_of g rows of [] \<Rightarrow> None | op # _ \<Rightarrow> Some op) = map_of rows g"
  by (induction rows) (auto simp: status_of_def)

lemma fold_status:
  "fold (\<lambda>(g, op) m. m(g \<mapsto> op)) rows m0 = m0 ++ map_of (rev rows)"
  by (induction rows arbitrary: m0) auto

lemma batch_map:
  assumes "status_keys rows" and "mset (ord (filter P rows)) = mset (filter P rows)"
  shows "fold (\<lambda>(g, op) m. m(g \<mapsto> op)) (ord (filter P rows)) Map.empty = map_of (filter P rows)"
proof -
  let ?rows = "filter P rows"
  have d: "distinct (map fst ?rows)" using status_keys_delete [OF assms(1)] by (simp add: status_keys_def)
  have "mset (map fst (ord ?rows)) = mset (map fst ?rows)" using assms(2) by (simp only: mset_map)
  with d have "distinct (map fst (ord ?rows))" by (metis mset_eq_imp_distinct_iff)
  then have "distinct (map fst (rev (ord ?rows)))" by (simp flip: rev_map)
  moreover have "set (rev (ord ?rows)) = set ?rows" using assms(2) by (metis set_mset_mset set_rev)
  ultimately have "map_of (rev (ord ?rows)) = map_of ?rows" using d by (metis map_of_inject_set)
  then show ?thesis by (simp add: fold_status)
qed

text \<open>What the calls do, whatever fails.\<close>

lemma prepare_status_result:
  "prepare_status d = (r, d') \<Longrightarrow> tables d' = tables d \<and> (r = Inr () \<longrightarrow> (\<exists>rows. tables d = Some rows))"
  by (cases "tables d") (auto simp: prepare_status_def sbind_def split: prod.splits sum.splits if_splits dest!: engine_result)

lemma execute_status_result:
  "execute_status effect d = (r, d') \<Longrightarrow>
     (case r of Inl _ \<Rightarrow> tables d' = tables d | Inr _ \<Rightarrow> tables d' = map_option effect (tables d))"
  by (auto simp: execute_status_def sbind_def split: prod.splits sum.splits dest!: engine_result)

lemma query_status_result:
  "query_status select d = (r, d') \<Longrightarrow>
     tables d' = tables d \<and> (\<forall>a. r = Inr a \<longrightarrow> a = select (case tables d of None \<Rightarrow> [] | Some rows \<Rightarrow> rows))"
  by (auto simp: query_status_def sbind_def split: prod.splits sum.splits dest!: engine_result)

lemma prepared_call:
  assumes "sbind (smap_err h1 checkout) (\<lambda>_. sbind (smap_err h2 prepare_status) (\<lambda>_. f)) d = (r, d')"
  shows "(\<exists>e. r = Inl e) \<and> tables d' = tables d \<or>
    (\<exists>d1 rows. tables d1 = tables d \<and> tables d = Some rows \<and> f d1 = (r, d'))"
proof -
  obtain q1 e1 where q1: "checkout d = (q1, e1)" by fastforce
  obtain q2 e2 where q2: "prepare_status e1 = (q2, e2)" by fastforce
  note t = checkout_result [OF q1] prepare_status_result [OF q2]
  show ?thesis
    using assms q1 q2 t by (cases q1; cases q2) (auto simp: sbind_def smap_err_def)
qed

lemma smap_err_sbind: "smap_err h (sbind f k) = sbind (smap_err h f) (\<lambda>a. smap_err h (k a))"
  by (auto simp: smap_err_def sbind_def fun_eq_iff split: prod.splits sum.splits)

lemma smap_err_execute:
  "smap_err h (execute_status effect) d = (r, d') \<Longrightarrow>
     (case r of Inl _ \<Rightarrow> tables d' = tables d | Inr _ \<Rightarrow> tables d' = map_option effect (tables d))"
  by (cases r) (auto simp: smap_err_Inl smap_err_Inr dest: execute_status_result)

lemma insert_status_result:
  assumes "insert_or_update_group_status disp g op d = (r, d')"
  shows "(case r of Inl _ \<Rightarrow> tables d' = tables d
    | Inr _ \<Rightarrow> \<exists>rows. tables d = Some rows \<and> tables d' = Some (set_status g (pending_operation_text op) rows))"
  using prepared_call [OF assms [unfolded insert_or_update_group_status_def smap_err_sbind]]
  by (cases r) (auto dest!: smap_err_execute)

lemma delete_status_result:
  assumes "delete_group_status disp cdisp cdbg g d = (r, d')"
  shows "(case r of Inl _ \<Rightarrow> tables d' = tables d
    | Inr _ \<Rightarrow> \<exists>rows. tables d = Some rows \<and> tables d' = Some (filter (\<lambda>r. fst r \<noteq> g) rows))"
  using prepared_call [OF assms [unfolded delete_group_status_def]]
  by (cases r) (auto dest!: smap_err_execute)

lemma status_query_result:
  assumes "smap_err h (sbind checkout (\<lambda>_. sbind prepare_status (\<lambda>_. sbind (query_status select) (\<lambda>found. sret (f found))))) d = (r, d')"
  shows "tables d' = tables d \<and> (\<forall>v. r = Inr v \<longrightarrow> (\<exists>rows. tables d = Some rows \<and> v = f (select rows)))"
proof -
  from prepared_call [OF assms [unfolded smap_err_sbind [of _ checkout] smap_err_sbind [of _ prepare_status]]] show ?thesis
  proof (elim disjE exE conjE)
    fix d1 rows
    assume d1: "tables d1 = tables d" "tables d = Some rows"
      and run: "smap_err h (sbind (query_status select) (\<lambda>found. sret (f found))) d1 = (r, d')"
    obtain q d2 where q: "query_status select d1 = (q, d2)" by fastforce
    from query_status_result [OF q] run q d1 show ?thesis by (cases q) (auto simp: smap_err_def sbind_def)
  qed auto
qed

lemma get_status_result:
  assumes "get_group_pending_operation disp g d = (r, d')"
  shows "tables d' = tables d \<and> (\<forall>v. r = Inr v \<longrightarrow> (\<exists>rows. tables d = Some rows \<and> v = map_of rows g))"
  using status_query_result [OF assms [unfolded get_group_pending_operation_def]] by (simp add: status_of_map_of)

lemma batch_status_result:
  assumes "get_group_pending_operations_batch disp ord ids d = (r, d')" and "\<And>rows. mset (ord rows) = mset rows"
    and "tables d = Some rows" "status_keys rows"
  shows "tables d' = tables d \<and> (\<forall>m. r = Inr m \<longrightarrow> m = map_of rows |` set ids)"
proof (cases "ids = []")
  case True
  with assms(1) show ?thesis by (auto simp: get_group_pending_operations_batch_def)
next
  case False
  have "map_of (filter (\<lambda>r. fst r \<in> A) rs) = map_of rs |` A" for A and rs :: status_rows
    by (induction rs) (auto simp: restrict_map_def fun_eq_iff)
  then have "fold (\<lambda>(g, op) m. m(g \<mapsto> op)) (ord (filter (\<lambda>r. fst r \<in> set ids) rows)) Map.empty = map_of rows |` set ids"
    using batch_map [OF assms(4), of ord] assms(2) by simp
  with False assms(3) status_query_result [OF assms(1) [unfolded get_group_pending_operations_batch_def if_not_P [OF False]]]
  show ?thesis by auto
qed

section \<open>Properties\<close>

text \<open>C19: the status database is a map from groups to operations. Whatever the engine does, storing a status
  updates exactly the entry of the group or changes nothing and fails, deleting removes exactly the
  entry of the group or changes nothing and fails, both keep the primary key; reading one status and
  reading a batch never change anything and return the entries of the map, the batch exactly those of
  the groups asked for, whatever the order in which the engine returns rows.\<close>

theorem status_database_is_map:
  assumes rows: "tables d = Some rows" "status_keys rows" and ord: "\<And>rows. mset (ord rows) = mset rows"
  shows "(case insert_or_update_group_status disp g op d of
       (Inl _, d') \<Rightarrow> tables d' = tables d
     | (Inr _, d') \<Rightarrow> \<exists>rows'. tables d' = Some rows' \<and> status_keys rows' \<and>
         map_of rows' = (map_of rows)(g \<mapsto> pending_operation_text op)) \<and>
    (case delete_group_status disp cdisp cdbg g d of
       (Inl _, d') \<Rightarrow> tables d' = tables d
     | (Inr _, d') \<Rightarrow> \<exists>rows'. tables d' = Some rows' \<and> status_keys rows' \<and> map_of rows' = (map_of rows)(g := None)) \<and>
    (case get_group_pending_operation disp g d of
       (Inl _, d') \<Rightarrow> tables d' = tables d
     | (Inr v, d') \<Rightarrow> tables d' = tables d \<and> v = map_of rows g) \<and>
    (case get_group_pending_operations_batch disp ord ids d of
       (Inl _, d') \<Rightarrow> tables d' = tables d
     | (Inr m, d') \<Rightarrow> tables d' = tables d \<and> m = map_of rows |` set ids)"
proof (intro conjI)
  show "case insert_or_update_group_status disp g op d of
       (Inl _, d') \<Rightarrow> tables d' = tables d
     | (Inr _, d') \<Rightarrow> \<exists>rows'. tables d' = Some rows' \<and> status_keys rows' \<and>
         map_of rows' = (map_of rows)(g \<mapsto> pending_operation_text op)"
    using rows status_keys_set map_of_set_status by (auto split: prod.split sum.split dest!: insert_status_result)
  show "case delete_group_status disp cdisp cdbg g d of
       (Inl _, d') \<Rightarrow> tables d' = tables d
     | (Inr _, d') \<Rightarrow> \<exists>rows'. tables d' = Some rows' \<and> status_keys rows' \<and> map_of rows' = (map_of rows)(g := None)"
    using rows status_keys_delete map_of_delete_status by (auto split: prod.split sum.split dest!: delete_status_result)
  show "case get_group_pending_operation disp g d of
       (Inl _, d') \<Rightarrow> tables d' = tables d
     | (Inr v, d') \<Rightarrow> tables d' = tables d \<and> v = map_of rows g"
    using rows by (auto split: prod.split sum.split dest: get_status_result)
  show "case get_group_pending_operations_batch disp ord ids d of
       (Inl _, d') \<Rightarrow> tables d' = tables d
     | (Inr m, d') \<Rightarrow> tables d' = tables d \<and> m = map_of rows |` set ids"
    using batch_status_result [OF _ ord rows] by (auto split: prod.split sum.split)
qed

text \<open>Opening never changes the format of an existing status database. A file with the header of SQLite is
  opened without a key, any other file of at least sixteen bytes with the given key, by both openers
  alike; only for a missing or empty file they differ, the one using the given key and the compatible
  one none. A file that cannot be probed, or that is shorter than a header, is an error and the
  database is not touched.\<close>

theorem status_open_keeps_format:
  "(case group_status_file_is_encrypted probe of
      Inl e \<Rightarrow> open_group_status_connection disp probe secret d = (Inl e, d) \<and>
        open_compatible_group_status_connection disp probe secret d = (Inl e, d)
    | Inr None \<Rightarrow> (probe = File_NotFound \<or> probe = File_Contents []) \<and>
        open_group_status_connection disp probe secret d = open_group_status_connection_with_secret disp secret d \<and>
        open_compatible_group_status_connection disp probe secret d = open_group_status_connection_with_secret disp None d
    | Inr (Some encrypted) \<Rightarrow> (\<exists>b. probe = File_Contents b \<and> 16 \<le> length b \<and> encrypted = (take 16 b \<noteq> sqlite_header)) \<and>
        open_group_status_connection disp probe secret d =
          open_group_status_connection_with_secret disp (if encrypted then secret else None) d \<and>
        open_compatible_group_status_connection disp probe secret d = open_group_status_connection disp probe secret d)"
  by (cases probe) (auto simp: group_status_file_is_encrypted_def open_group_status_connection_def
      open_compatible_group_status_connection_def sbind_def)

section \<open>Examples\<close>

definition sample_statuses :: status_db where
  "sample_statuses = \<lparr>tables = Some [(''g'', ''update_tree''), (''h'', ''none'')], faults = []\<rparr>"

theorem status_database_is_map_witness:
  "\<exists>rows. tables (snd (insert_or_update_group_status (\<lambda>_. ''sql'') ''g'' Op_None sample_statuses)) = Some rows \<and>
     map_of rows = [''g'' \<mapsto> ''none'', ''h'' \<mapsto> ''none'']"
proof -
  let ?run = "insert_or_update_group_status (\<lambda>_. ''sql'') ''g'' Op_None sample_statuses"
  have rows: "tables sample_statuses = Some [(''g'', ''update_tree''), (''h'', ''none'')]"
    "status_keys [(''g'', ''update_tree''), (''h'', ''none'')]" by code_simp+
  have ok: "fst ?run = Inr ()" by code_simp
  have o: "\<And>rows :: status_rows. mset (id rows) = mset rows" by simp
  from status_database_is_map [OF rows o, where disp = "\<lambda>_. ''sql''" and g = "''g''" and op = Op_None, THEN conjunct1] ok obtain rows'
    where "tables (snd ?run) = Some rows'"
      "map_of rows' = (map_of [(''g'', ''update_tree''), (''h'', ''none'')])(''g'' \<mapsto> pending_operation_text Op_None)"
    by (auto split: prod.splits sum.splits)
  then show ?thesis by (auto simp: OP_NONE_def)
qed

end
