(* ===== verification/Kchat_Process.thy ===== *)
theory Kchat_Process
  imports Kchat_Status Mls_Core Mls_Provider "HOL-Library.AList"
begin

text \<open>
  Processing the messages a client finds when it comes online (\<open>process_all_messages\<close> of
  \<open>kchat-mls/src/lib.rs\<close>) and the helpers it uses. The world is the status database and the MLS
  database. OpenMLS, the JSON codec of custom proposals, the printers of foreign errors and the
  iteration order of hash containers are the fields of \<open>process_env\<close>. Log callbacks are left out.
\<close>

section \<open>Data\<close>

record mls_message =
  blob :: bytes
  msg_epoch :: u64
  sender :: string
  msg_type :: message_type

record all_messages_of_group =
  gm_group_id :: string
  gm_messages :: "mls_message list"
  gm_current_epoch :: int
  gm_current_tree_hash :: bytes
  gm_pending_epoch :: int
  gm_pending_tree_hash :: bytes

datatype custom_proposal_type = Custom_ReAdd | Custom_Remove

definition custom_proposal_type_text :: "custom_proposal_type \<Rightarrow> string" where
  "custom_proposal_type_text t = (case t of Custom_ReAdd \<Rightarrow> ''ReAdd'' | Custom_Remove \<Rightarrow> ''Remove'')"

record custom_proposal =
  cp_client_jid :: "string option"
  cp_mls_client_id :: "string option"
  cp_mls_fingerprint :: "string option"
  cp_epoch :: "u64 option"
  cp_group_id :: string
  cp_proposal_type :: custom_proposal_type

datatype group_error_code = Code_Storage | Code_Aead | Code_ProcessCommit

record group_error =
  error_code :: group_error_code
  error_message :: string

record member_info =
  client_jid :: "string option"
  mls_client_id :: "string option"
  mls_fingerprint :: "string option"

record group_result =
  gr_group_id :: string
  members_to_remove :: "member_info list"
  members_to_readd :: "member_info list"
  gr_error :: "group_error option"

record process_all_messages_result =
  group_results :: "group_result list"
  deleted_groups :: "string list"

section \<open>Identifiers\<close>

definition slash :: char where
  "slash = CHR ''/''"

text \<open>\<open>str::split_once\<close>\<close>

definition split_once :: "string \<Rightarrow> (string \<times> string) option" where
  "split_once s =
     (if slash \<in> set s then Some (takeWhile (\<lambda>c. c \<noteq> slash) s, tl (dropWhile (\<lambda>c. c \<noteq> slash) s)) else None)"

definition sender_matches_member_id :: "string \<Rightarrow> string \<Rightarrow> bool" where
  "sender_matches_member_id member_id from =
     (if from = [] then False
      else member_id = from \<or>
        (case split_once member_id of None \<Rightarrow> False | Some (_, fingerprint) \<Rightarrow> fingerprint = from))"

definition extract_jid_from_member_id :: "string \<Rightarrow> string option" where
  "extract_jid_from_member_id i = (if slash \<in> set i then Some (takeWhile (\<lambda>c. c \<noteq> slash) i) else None)"

definition own_id_from_leaf_node :: "('st, 'g, 'o) openmls \<Rightarrow> 'g \<Rightarrow> string option" where
  "own_id_from_leaf_node M g = Option.bind (own_leaf_identity M g) from_utf8"

definition id_from_credential :: "mls_member \<Rightarrow> string option" where
  "id_from_credential member = Option.bind (identity member) from_utf8"

definition collect_group_member_ids_and_jids :: "('st, 'g, 'o) openmls \<Rightarrow> 'g \<Rightarrow> string set \<times> string set" where
  "collect_group_member_ids_and_jids M g =
     (let ids = List.map_filter id_from_credential (group_members M g) in
      (set ids, set (List.map_filter extract_jid_from_member_id ids)))"

section \<open>Custom proposals and error codes\<close>

definition create_custom_proposal ::
    "custom_proposal codec \<Rightarrow> string \<Rightarrow> string \<Rightarrow> string \<Rightarrow> custom_proposal_type \<Rightarrow> bytes" where
  "create_custom_proposal J client_id group_id fingerprint proposal_type =
     (case to_vec J \<lparr>cp_client_jid = extract_jid_from_member_id client_id, cp_mls_client_id = Some client_id,
         cp_mls_fingerprint = Some fingerprint, cp_epoch = None, cp_group_id = group_id,
         cp_proposal_type = proposal_type\<rparr> of
        Inl _ \<Rightarrow> [] | Inr b \<Rightarrow> b)"

definition process_custom_proposal :: "custom_proposal codec \<Rightarrow> bytes \<Rightarrow> custom_proposal option" where
  "process_custom_proposal J b = to_option (from_slice J b)"

text \<open>\<open>str::contains\<close>\<close>

fun contains :: "string \<Rightarrow> string \<Rightarrow> bool" where
  "contains [] pat = (pat = [])"
| "contains (c # s) pat = (take (length pat) (c # s) = pat \<or> contains s pat)"

definition convert_to_error_code :: "mls_error \<Rightarrow> group_error_code" where
  "convert_to_error_code err =
     (if contains (display err) ''An error occurred during AEAD decryption.'' then Code_Aead
      else if contains (display err) ''Storage error'' then Code_Storage
      else Code_ProcessCommit)"

text \<open>The texts after which the processing of a group stops.\<close>

definition storage_failure :: "string \<Rightarrow> bool" where
  "storage_failure err_log \<longleftrightarrow>
     contains err_log ''Error writing updated group data to storage'' \<or>
     contains err_log ''database is locked'' \<or>
     contains err_log ''Error interacting with storage''"

section \<open>The first commit after the group's epoch\<close>

text \<open>An error of the crate, or an arithmetic overflow of a \<open>u64\<close>.\<close>

datatype process_fault = Fault_Error mls_error | Fault_Overflow

fun find_commit :: "u64 \<Rightarrow> mls_message list \<Rightarrow> process_fault + mls_message option" where
  "find_commit epoch [] = Inr None"
| "find_commit epoch (m # ms) =
     (if epoch = - 1 then Inl Fault_Overflow
      else if msg_epoch m = epoch + 1 \<and> msg_type m = Type_Commit then Inr (Some m)
      else find_commit epoch ms)"

definition get_first_message ::
    "u64 \<Rightarrow> all_messages_of_group \<Rightarrow> pending_operation \<Rightarrow> process_fault + mls_message option" where
  "get_first_message epoch args pending =
     rbind (if pending = Op_JoinByExternalCommit
            then (if epoch = 0 then Inl Fault_Overflow else Inr (epoch - 1)) else Inr epoch) (\<lambda>epoch.
     find_commit epoch (gm_messages args))"

section \<open>The world\<close>

record world =
  status :: status_db
  mls :: db

record ('g, 'o) process_env =
  pe_mls :: "(db, 'g, 'o) openmls"
  pe_config :: 'o
  pe_json :: "custom_proposal codec"
  pe_sql :: "sql_error \<Rightarrow> string"
  pe_code :: "int \<Rightarrow> string"
  pe_code_debug :: "int \<Rightarrow> string"
  pe_load :: "load_error \<Rightarrow> string"
  pe_order :: "member_info list \<Rightarrow> member_info list"

definition on_status :: "(status_db, mls_error, 'a) action \<Rightarrow> (world, process_fault, 'a) action" where
  "on_status f w = (case f (status w) of (r, d) \<Rightarrow> (map_err Fault_Error r, w\<lparr>status := d\<rparr>))"

definition on_mls :: "(db, mls_error, 'a) action \<Rightarrow> (world, process_fault, 'a) action" where
  "on_mls f w = (case f (mls w) of (r, d) \<Rightarrow> (map_err Fault_Error r, w\<lparr>mls := d\<rparr>))"

text \<open>\<open>let _ = f;\<close>\<close>

definition ignore_error :: "('s, 'e, 'a) action \<Rightarrow> ('s, 'e, unit) action" where
  "ignore_error f s = (Inr (), snd (f s))"

text \<open>\<open>provider.transaction(|tx| { let mut g = group(tx, id, [])?; f(&mut g, tx)?; Ok(g) })\<close> with its error
  as a storage error.\<close>

definition in_group_transaction ::
    "('g, 'o) process_env \<Rightarrow> string \<Rightarrow> ('g \<times> db, mls_error, unit) action \<Rightarrow> (db, mls_error, 'g) action" where
  "in_group_transaction E group_id f =
     smap_err (\<lambda>e. Error_Storage (pe_sql E e))
       (provider_transaction
          (sbind (core_group (pe_load E) (pe_mls E) group_id []) (\<lambda>g d.
           (case f (g, d) of (Inl e, _, d') \<Rightarrow> (Inl e, d') | (Inr _, g', d') \<Rightarrow> (Inr g', d')))))"

text \<open>A transaction around a group that lives outside of it: a rollback restores the tables, not the
  group in memory.\<close>

definition captured_transaction :: "('g \<times> db, mls_error, 'a) action \<Rightarrow> ('g \<times> db, sql_error, 'a) action" where
  "captured_transaction f gd =
     (case gd of (g, d) \<Rightarrow>
       (case sbind checkout (\<lambda>_. engine) d of
          (Inl e, d1) \<Rightarrow> (Inl e, g, d1)
        | (Inr _, d1) \<Rightarrow>
            (case engine d1 of
               (Inl e, d2) \<Rightarrow> (Inl e, g, d2\<lparr>tables := tables d1\<rparr>)
             | (Inr _, d2) \<Rightarrow>
                 (case f (g, d2) of
                    (Inl e, g', d3) \<Rightarrow> (Inl (ToSqlConversionFailure (display e)), g', d3\<lparr>tables := tables d1\<rparr>)
                  | (Inr a, g', d3) \<Rightarrow>
                      (case engine d3 of
                         (Inl e, d4) \<Rightarrow> (Inl e, g', d4\<lparr>tables := tables d1\<rparr>)
                       | (Inr _, d4) \<Rightarrow> (Inr a, g', d4))))))"

section \<open>Resolving a pending operation\<close>

text \<open>The outcome: the group to go on with, and whether the group has been deleted.\<close>

type_synonym 'g resolution = "'g option \<times> bool"

definition merge_pending_in_storage ::
    "('g, 'o) process_env \<Rightarrow> string \<Rightarrow> (world, process_fault, 'g resolution) action" where
  "merge_pending_in_storage E group_id =
     sbind (on_mls (in_group_transaction E group_id (merge_pending_commit (pe_mls E)))) (\<lambda>g. sret (Some g, False))"

definition clear_pending_in_storage ::
    "('g, 'o) process_env \<Rightarrow> string \<Rightarrow> (world, process_fault, 'g resolution) action" where
  "clear_pending_in_storage E group_id =
     sbind (on_mls (in_group_transaction E group_id (clear_pending_commit (pe_mls E)))) (\<lambda>g. sret (Some g, False))"

definition forget_group :: "('g, 'o) process_env \<Rightarrow> string \<Rightarrow> (world, process_fault, 'g resolution) action" where
  "forget_group E group_id =
     sbind (on_mls (in_group_transaction E group_id (core_delete_group (pe_mls E)))) (\<lambda>_.
     sbind (ignore_error (on_status (delete_group_status (pe_sql E) (pe_code E) (pe_code_debug E) group_id))) (\<lambda>_.
     sret (None, True)))"

definition mark_resolved :: "('g, 'o) process_env \<Rightarrow> string \<Rightarrow> (world, process_fault, unit) action" where
  "mark_resolved E group_id =
     ignore_error (on_status (insert_or_update_group_status (pe_sql E) group_id Op_None))"

definition resolve_pending ::
    "('g, 'o) process_env \<Rightarrow> all_messages_of_group \<Rightarrow> 'g \<Rightarrow> string \<Rightarrow> pending_operation
      \<Rightarrow> mls_message option \<Rightarrow> (world, process_fault, 'g resolution) action" where
  "resolve_pending E args existing own_member_id pending first_message =
     (let group_id = gm_group_id args;
          mine = (\<lambda>msg. sender_matches_member_id own_member_id (sender msg)) in
      (case pending of
         Op_LeaveGroup \<Rightarrow> sret (Some existing, False)
       | Op_None \<Rightarrow> sret (Some existing, False)
       | Op_UpdateTree \<Rightarrow>
           sbind (case first_message of
                    Some msg \<Rightarrow> if \<not> mine msg then clear_pending_in_storage E group_id else merge_pending_in_storage E group_id
                  | None \<Rightarrow> clear_pending_in_storage E group_id) (\<lambda>res.
           sbind (mark_resolved E group_id) (\<lambda>_. sret res))
       | _ \<Rightarrow>
           if pending = Op_CreateGroup \<and> group_epoch (pe_mls E) existing = 0 then
             if gm_pending_epoch args = 0 then
               sbind (if group_tree_hash (pe_mls E) existing = gm_pending_tree_hash args
                      then merge_pending_in_storage E group_id else forget_group E group_id) (\<lambda>res.
               sbind (mark_resolved E group_id) (\<lambda>_. sret res))
             else sret (Some existing, False)
           else
             sbind (case first_message of
                      Some msg \<Rightarrow> if \<not> mine msg then forget_group E group_id else merge_pending_in_storage E group_id
                    | None \<Rightarrow> forget_group E group_id) (\<lambda>res.
             sbind (mark_resolved E group_id) (\<lambda>_. sret res))))"

section \<open>Collecting proposals\<close>

record 'g scan =
  sc_group :: "'g option"
  sc_sets :: "(string set \<times> string set) option"
  sc_remove :: "(member_info \<times> u64) list"
  sc_latest :: u64

text \<open>\<open>get_or_insert_with(|| collect_group_member_ids_and_jids(group))\<close>\<close>

definition cached_sets :: "('st, 'g, 'o) openmls \<Rightarrow> 'g \<Rightarrow> 'g scan \<Rightarrow> string set \<times> string set" where
  "cached_sets M g sc = (case sc_sets sc of Some sets \<Rightarrow> sets | None \<Rightarrow> collect_group_member_ids_and_jids M g)"

definition scan_proposal :: "('g, 'o) process_env \<Rightarrow> mls_message \<Rightarrow> 'g \<Rightarrow> 'g scan \<Rightarrow> db \<Rightarrow> 'g scan \<times> db" where
  "scan_proposal E msg g sc d =
     (case process_proposal_message (pe_mls E) (blob msg) (g, d) of
        (Inr p, g', d') \<Rightarrow>
          let sc' = sc\<lparr>sc_group := Some g'\<rparr> in
          if qp_proposal p = Kind_Remove then
            let sets = cached_sets (pe_mls E) g' sc' in
            (if qp_sender p \<in> fst sets
             then sc'\<lparr>sc_sets := Some sets,
                      sc_remove := AList.update \<lparr>client_jid = extract_jid_from_member_id (qp_sender p),
                        mls_client_id = Some (qp_sender p), mls_fingerprint = Some (sender msg)\<rparr> (msg_epoch msg) (sc_remove sc')\<rparr>
             else sc'\<lparr>sc_sets := Some sets\<rparr>, d')
          else (sc', d')
      | (Inl _, g', d') \<Rightarrow>
          let sc' = sc\<lparr>sc_group := Some g'\<rparr> in
          (case process_custom_proposal (pe_json E) (blob msg) of
             None \<Rightarrow> (sc', d')
           | Some custom \<Rightarrow>
               (case cp_client_jid custom of
                  Some jid \<Rightarrow>
                    if cp_proposal_type custom = Custom_Remove then
                      let sets = cached_sets (pe_mls E) g' sc' in
                      (if jid \<in> snd sets
                       then sc'\<lparr>sc_sets := Some sets,
                                sc_remove := AList.update \<lparr>client_jid = Some jid, mls_client_id = None, mls_fingerprint = None\<rparr>
                                  (msg_epoch msg) (sc_remove sc')\<rparr>
                       else sc'\<lparr>sc_sets := Some sets\<rparr>, d')
                    else (sc', d')
                | None \<Rightarrow> (sc', d'))))"

definition scan_message :: "('g, 'o) process_env \<Rightarrow> mls_message \<Rightarrow> 'g scan \<times> db \<Rightarrow> 'g scan \<times> db" where
  "scan_message E msg scd =
     (case scd of (sc, d) \<Rightarrow>
       let sc1 = (if sc_latest sc < msg_epoch msg \<and> msg_type msg = Type_Commit then sc\<lparr>sc_latest := msg_epoch msg\<rparr> else sc) in
       (case sc_group sc1 of
          Some g \<Rightarrow> if msg_type msg = Type_Proposal then scan_proposal E msg g sc1 d else (sc1, d)
        | None \<Rightarrow> (sc1, d)))"

definition scan_messages :: "('g, 'o) process_env \<Rightarrow> mls_message list \<Rightarrow> 'g option \<Rightarrow> db \<Rightarrow> 'g scan \<times> db" where
  "scan_messages E msgs g d =
     fold (scan_message E) msgs (\<lparr>sc_group = g, sc_sets = None, sc_remove = [], sc_latest = 0\<rparr>, d)"

section \<open>Processing the messages of a group\<close>

record 'g progress =
  pr_group :: "'g option"
  pr_remove :: "(member_info \<times> u64) list"
  pr_readd :: "member_info list"
  pr_error :: "group_error option"
  pr_loaded :: bool

text \<open>A failure that stops the group: the error is kept and the removals are dropped.\<close>

definition stop_with :: "mls_error \<Rightarrow> string \<Rightarrow> 'g progress \<Rightarrow> 'g progress" where
  "stop_with err err_log p =
     p\<lparr>pr_error := Some \<lparr>error_code = convert_to_error_code err, error_message = err_log\<rparr>, pr_remove := []\<rparr>"

definition welcome_step :: "('g, 'o) process_env \<Rightarrow> mls_message \<Rightarrow> 'g progress \<Rightarrow> db \<Rightarrow> 'g progress \<times> db" where
  "welcome_step E msg p d =
     (case provider_transaction (process_welcome (pe_mls E) (blob msg) (pe_config E)) d of
        (Inr joined, d') \<Rightarrow> (p\<lparr>pr_group := Some joined\<rparr>, d')
      | (Inl _, d') \<Rightarrow> (p, d'))"

text \<open>The group is reloaded once, before the first commit. The flag says whether processing goes on.\<close>

definition reload_step ::
    "('g, 'o) process_env \<Rightarrow> string \<Rightarrow> mls_message \<Rightarrow> 'g progress \<Rightarrow> db \<Rightarrow> bool \<times> 'g progress \<times> db" where
  "reload_step E group_id msg p d =
     (if pr_loaded p then (True, p, d)
      else
        (case load_group_with_epoch_message_secrets (pe_sql E)
                (group_with_epoch_message_secrets (pe_load E) (pe_mls E)) group_id [msg_epoch msg] d of
           (Inr fresh_group, d') \<Rightarrow> (True, p\<lparr>pr_group := Some fresh_group, pr_loaded := True\<rparr>, d')
         | (Inl err, d') \<Rightarrow>
             let err_log = ''process commit - load group data error, group '' @ group_id @ '': '' @ display err in
             if storage_failure err_log then (False, stop_with err err_log p, d') else (True, p, d')))"

definition apply_commit ::
    "('g, 'o) process_env \<Rightarrow> string \<Rightarrow> mls_message \<Rightarrow> 'g \<Rightarrow> 'g progress \<Rightarrow> db \<Rightarrow> bool \<times> 'g progress \<times> db" where
  "apply_commit E group_id msg current_group p d =
     (case captured_transaction (process_operation_message (pe_mls E) (blob msg)) (current_group, d) of
        (Inr _, g', d') \<Rightarrow> (True, p\<lparr>pr_group := Some g'\<rparr>, d')
      | (Inl e, g', d') \<Rightarrow>
          let err = Error_ProcessMessage (pe_sql E e);
              err_log = ''process commit error, group '' @ group_id @ '': '' @ display err;
              p' = p\<lparr>pr_group := Some g'\<rparr> in
          if storage_failure err_log then (False, stop_with err err_log p', d') else (True, p', d'))"

text \<open>A member that a commit has removed meanwhile no longer has to be removed.\<close>

definition already_removed :: "string set \<times> string set \<Rightarrow> u64 \<Rightarrow> member_info \<times> u64 \<Rightarrow> bool" where
  "already_removed sets epoch entry =
     (case mls_client_id (fst entry) of
        Some i \<Rightarrow> snd entry \<le> epoch \<and> i \<notin> fst sets
      | None \<Rightarrow> (case client_jid (fst entry) of Some jid \<Rightarrow> snd entry \<le> epoch \<and> jid \<notin> snd sets | None \<Rightarrow> False))"

definition drop_removed :: "('g, 'o) process_env \<Rightarrow> mls_message \<Rightarrow> 'g progress \<Rightarrow> 'g progress" where
  "drop_removed E msg p =
     (if pr_remove p = [] then p
      else
        (case pr_group p of
           None \<Rightarrow> p
         | Some g \<Rightarrow>
             let sets = collect_group_member_ids_and_jids (pe_mls E) g in
             p\<lparr>pr_remove := filter (\<lambda>entry. \<not> already_removed sets (msg_epoch msg) entry) (pr_remove p)\<rparr>))"

definition commit_step ::
    "('g, 'o) process_env \<Rightarrow> string \<Rightarrow> mls_message \<Rightarrow> 'g progress \<Rightarrow> db \<Rightarrow> bool \<times> 'g progress \<times> db" where
  "commit_step E group_id msg p d =
     (case pr_group p of
        None \<Rightarrow> (True, drop_removed E msg p, d)
      | Some _ \<Rightarrow>
          (case reload_step E group_id msg p d of
             (False, p1, d1) \<Rightarrow> (False, p1, d1)
           | (True, p1, d1) \<Rightarrow>
               (case pr_group p1 of
                  None \<Rightarrow> (True, drop_removed E msg p1, d1)
                | Some g \<Rightarrow>
                    (case apply_commit E group_id msg g p1 d1 of
                       (False, p2, d2) \<Rightarrow> (False, p2, d2)
                     | (True, p2, d2) \<Rightarrow> (True, drop_removed E msg p2, d2)))))"

definition readd_step :: "('g, 'o) process_env \<Rightarrow> u64 \<Rightarrow> mls_message \<Rightarrow> 'g progress \<Rightarrow> 'g progress" where
  "readd_step E latest msg p =
     (case process_custom_proposal (pe_json E) (blob msg) of
        None \<Rightarrow> p
      | Some custom \<Rightarrow>
          if cp_proposal_type custom = Custom_ReAdd \<and> latest < msg_epoch msg then
            p\<lparr>pr_readd := List.insert
                \<lparr>client_jid = (case cp_client_jid custom of
                    Some jid \<Rightarrow> Some jid
                  | None \<Rightarrow> (case cp_mls_client_id custom of
                      Some client_id \<Rightarrow> extract_jid_from_member_id client_id
                    | None \<Rightarrow> None)),
                 mls_client_id = cp_mls_client_id custom, mls_fingerprint = Some (sender msg)\<rparr> (pr_readd p)\<rparr>
          else p)"

fun process_messages ::
    "('g, 'o) process_env \<Rightarrow> string \<Rightarrow> u64 \<Rightarrow> mls_message list \<Rightarrow> 'g progress \<Rightarrow> db \<Rightarrow> 'g progress \<times> db" where
  "process_messages E group_id latest [] p d = (p, d)"
| "process_messages E group_id latest (msg # msgs) p d =
     (case msg_type msg of
        Type_Welcome \<Rightarrow> (case welcome_step E msg p d of (p', d') \<Rightarrow> process_messages E group_id latest msgs p' d')
      | Type_Commit \<Rightarrow>
          (case commit_step E group_id msg p d of
             (True, p', d') \<Rightarrow> process_messages E group_id latest msgs p' d'
           | (False, p', d') \<Rightarrow> (p', d'))
      | Type_Proposal \<Rightarrow> process_messages E group_id latest msgs (readd_step E latest msg p) d
      | Type_Unknown \<Rightarrow> process_messages E group_id latest msgs p d)"

section \<open>A group, and all groups\<close>

text \<open>From the resolution on, nothing fails: the result of the group.\<close>

definition finish_group ::
    "('g, 'o) process_env \<Rightarrow> all_messages_of_group \<Rightarrow> 'g option \<Rightarrow> (world, process_fault, group_result) action" where
  "finish_group E args g w =
     (case scan_messages E (gm_messages args) g (mls w) of (sc, d1) \<Rightarrow>
       (case process_messages E (gm_group_id args) (sc_latest sc) (gm_messages args)
               \<lparr>pr_group = sc_group sc, pr_remove = sc_remove sc, pr_readd = [], pr_error = None, pr_loaded = False\<rparr> d1 of (p, d2) \<Rightarrow>
         (Inr \<lparr>gr_group_id = gm_group_id args, members_to_remove = pe_order E (map fst (pr_remove p)),
               members_to_readd = pe_order E (pr_readd p), gr_error = pr_error p\<rparr>, w\<lparr>mls := d2\<rparr>)))"

definition append_result ::
    "string \<Rightarrow> bool \<Rightarrow> group_result option \<Rightarrow> process_all_messages_result \<Rightarrow> process_all_messages_result" where
  "append_result group_id deleted res result =
     \<lparr>group_results = group_results result @ (case res of None \<Rightarrow> [] | Some r \<Rightarrow> [r]),
      deleted_groups = deleted_groups result @ (if deleted then [group_id] else [])\<rparr>"

text \<open>One group: no result if its own leaf has no readable identity, which skips it.\<close>

definition process_group ::
    "('g, 'o) process_env \<Rightarrow> all_messages_of_group \<Rightarrow> (world, process_fault, bool \<times> group_result option) action" where
  "process_group E args w =
     (case load_group_with_epoch_message_secrets (pe_sql E)
             (group_with_epoch_message_secrets (pe_load E) (pe_mls E)) (gm_group_id args)
             (map msg_epoch (filter (\<lambda>m. msg_type m \<noteq> Type_Welcome) (gm_messages args))) (mls w) of
        (Inl _, d) \<Rightarrow> sbind (finish_group E args None) (\<lambda>res. sret (False, Some res)) (w\<lparr>mls := d\<rparr>)
      | (Inr existing, d) \<Rightarrow>
          (case own_id_from_leaf_node (pe_mls E) existing of
             None \<Rightarrow> (Inr (False, None), w\<lparr>mls := d\<rparr>)
           | Some own_member_id \<Rightarrow>
               sbind (on_status (get_group_pending_operation (pe_sql E) (gm_group_id args))) (\<lambda>text.
               let pending = pending_operation_from text in
               sbind (slift (get_first_message (group_epoch (pe_mls E) existing) args pending)) (\<lambda>first_message.
               sbind (resolve_pending E args existing own_member_id pending first_message) (\<lambda>(g, deleted).
               sbind (finish_group E args g) (\<lambda>res.
               sret (deleted, Some res))))) (w\<lparr>mls := d\<rparr>)))"

fun process_groups ::
    "('g, 'o) process_env \<Rightarrow> all_messages_of_group list \<Rightarrow> process_all_messages_result
      \<Rightarrow> (world, process_fault, process_all_messages_result) action" where
  "process_groups E [] result = sret result"
| "process_groups E (args # rest) result =
     sbind (process_group E args) (\<lambda>(deleted, res).
     process_groups E rest (append_result (gm_group_id args) deleted res result))"

definition process_all_messages ::
    "('g, 'o) process_env \<Rightarrow> all_messages_of_group list \<Rightarrow> (world, process_fault, process_all_messages_result) action" where
  "process_all_messages E group_messages = process_groups E group_messages \<lparr>group_results = [], deleted_groups = []\<rparr>"

section \<open>Listing the groups\<close>

text \<open>The ids in the order the engine returns the distinct blobs; a blob that does not decode is passed
  over, and two blobs with the same text are listed once.\<close>

definition get_all_group_ids :: "bytes codec \<Rightarrow> (bytes list \<Rightarrow> bytes list) \<Rightarrow> db \<Rightarrow> string list \<times> db" where
  "get_all_group_ids GC ord d =
     (case sbind checkout (\<lambda>_. query (Inr ()) (\<lambda>_ t.
             ord (remdups (map (\<lambda>r. fst (row_key r)) (select_rows (\<lambda>_. True) (group_data t)))))) d of
        (Inl _, d') \<Rightarrow> ([], d')
      | (Inr blobs, d') \<Rightarrow>
          (rev (fold (\<lambda>b ids. case from_slice GC b of
                 Inr group_id \<Rightarrow> (let i = from_utf8_lossy group_id in if i \<in> set ids then ids else i # ids)
               | Inl _ \<Rightarrow> ids) blobs []), d'))"

end
