(* ===== verification/Client_Base.thy ===== *)
theory Client_Base
  imports Kchat_Process
begin

text \<open>
  What the two client bindings (\<open>kchat-uniffi/src/mls\<close> and \<open>kchat-napi/src/mls\<close>) have in common: the
  client object, the configuration it hands to OpenMLS, the records it returns, and the way it runs
  an operation of the MLS crate: in a transaction of the MLS database, with the status of the group
  recorded afterwards in the status database. The records are declared over the type \<open>'n\<close> of epochs,
  a \<open>u64\<close> in the one binding and a JavaScript \<open>BigInt\<close> in the other. A binding turns every error into
  its own error type, the argument \<open>h\<close>; an arithmetic overflow is a panic.
\<close>

section \<open>Configuration\<close>

datatype wire_format_policy = PurePlaintext | PureCiphertext | MixedPlaintext | MixedCiphertext

datatype openmls_wire_format_policy =
    PURE_PLAINTEXT_WIRE_FORMAT_POLICY | PURE_CIPHERTEXT_WIRE_FORMAT_POLICY
  | MIXED_PLAINTEXT_WIRE_FORMAT_POLICY | MIXED_CIPHERTEXT_WIRE_FORMAT_POLICY

text \<open>What the builders of \<open>MlsGroupJoinConfig\<close> and \<open>MlsGroupCreateConfig\<close> are given.\<close>

record join_settings =
  js_policy :: openmls_wire_format_policy
  js_ratchet_tree :: bool
  js_past_epochs :: nat
  js_tolerance :: u32
  js_distance :: u32

record group_config_update =
  gu_max_past_epochs :: "u16 option"
  gu_out_of_order_tolerance :: "u32 option"
  gu_maximum_forward_distance :: "u32 option"

text \<open>The client object; its connection and its provider are the world. Only the uniffi client has a
  lifetime of cached messages.\<close>

record uq_mls =
  um_client_id :: string
  um_ciphersuite :: u16
  um_wire_format_policy :: wire_format_policy
  um_use_ratchet_tree_extension :: bool
  um_max_past_epochs :: u16
  um_out_of_order_tolerance :: u32
  um_maximum_forward_distance :: u32
  um_decrypted_message_ttl_seconds :: int

text \<open>\<open>MLS_128_DHKEMX25519_CHACHA20POLY1305_SHA256_Ed25519\<close> has the number 3 in RFC 9420.\<close>

definition DEFAULT_CIPHERSUITE :: u16 where
  "DEFAULT_CIPHERSUITE = 3"

text \<open>The parameters: those of \<open>process_env\<close>, the builders of configurations and what OpenMLS shows of a
  ciphersuite, a key and a group context, the printer of a key package error, the codec of group ids,
  SHA-256, and the order in which the status database returns rows.\<close>

record ('g, 'o) client_env =
  ce_process :: "('g, 'o) process_env"
  ce_join_config :: "join_settings \<Rightarrow> 'o"
  ce_create_config :: "'o \<Rightarrow> join_settings \<Rightarrow> 'o"
  ce_ciphersuite :: "u16 \<Rightarrow> string + 'o"
  ce_scheme :: "'o \<Rightarrow> u16"
  ce_context_epoch :: "'o \<Rightarrow> u64"
  ce_context_hash :: "'o \<Rightarrow> bytes"
  ce_verify :: "verify_error \<Rightarrow> string"
  ce_group_id :: "bytes codec"
  ce_digest :: "bytes \<Rightarrow> bytes"
  ce_status_order :: "status_rows \<Rightarrow> status_rows"

section \<open>Records\<close>

record signature_public_key =
  spk_public :: bytes
  spk_signature_scheme :: u16

record 'n add_members_out =
  ao_commit :: bytes
  ao_welcome :: bytes
  ao_group_info :: "bytes option"
  ao_current_epoch :: 'n
  ao_pre_tree_hash :: bytes

text \<open>Removing members, updating the leaf node and joining return the same fields.\<close>

record 'n commit_out =
  co_commit :: bytes
  co_group_info :: "bytes option"
  co_current_epoch :: 'n
  co_pre_tree_hash :: bytes

record 'n readd_out =
  ro_commit :: bytes
  ro_welcome :: "bytes option"
  ro_group_info :: "bytes option"
  ro_current_epoch :: 'n
  ro_pre_tree_hash :: bytes

datatype client_proposal =
    Client_Add | Client_Update | Client_Remove | Client_ReAdd | Client_PreSharedKey | Client_ReInit | Client_ExternalInit
  | Client_GroupContextExtensions | Client_AppAck | Client_SelfRemove | Client_Custom

record 'n queued_out =
  qo_sender :: string
  qo_client_jid :: "string option"
  qo_mls_client_id :: "string option"
  qo_mls_fingerprint :: "string option"
  qo_epoch :: "'n option"
  qo_group_id :: string
  qo_proposal :: client_proposal

record join_args =
  ja_group_id :: string
  ja_group_info :: bytes

record 'n wrapped_join =
  wj_group_id :: string
  wj_result :: "'n commit_out option"
  wj_err :: "string option"

record 'n wrapped_epoch =
  we_group_id :: string
  we_epoch :: 'n
  we_tree_hash :: bytes
  we_err :: "string option"
  we_pending_operation :: "string option"

record 'n wrapped_context =
  wc_group_id :: string
  wc_current_epoch :: 'n
  wc_pending_epoch :: 'n
  wc_tree_hash :: bytes
  wc_err :: "string option"
  wc_pending_operation :: "string option"

record 'm message_args =
  ma_blob :: bytes
  ma_epoch :: 'm
  ma_sender :: string
  ma_message_type :: string

record ('m, 'i) group_args =
  ga_group_id :: string
  ga_messages :: "'m message_args list"
  ga_current_epoch :: 'i
  ga_current_tree_hash :: bytes
  ga_pending_epoch :: 'i
  ga_pending_tree_hash :: bytes

section \<open>Running an operation\<close>

datatype 'e client_fault = Client_Error 'e | Client_Panic

abbreviation client_mls :: "('g, 'o) client_env \<Rightarrow> (db, 'g, 'o) openmls" where
  "client_mls E \<equiv> pe_mls (ce_process E)"

abbreviation client_sql :: "('g, 'o) client_env \<Rightarrow> sql_error \<Rightarrow> string" where
  "client_sql E \<equiv> pe_sql (ce_process E)"

abbreviation client_load :: "('g, 'o) client_env \<Rightarrow> load_error \<Rightarrow> string" where
  "client_load E \<equiv> pe_load (ce_process E)"

text \<open>\<open>f(&self.provider)?\<close> and \<open>f(&self.conn)?\<close>\<close>

definition on_client_mls ::
    "(mls_error \<Rightarrow> 'e) \<Rightarrow> (db, mls_error, 'a) action \<Rightarrow> (world, 'e client_fault, 'a) action" where
  "on_client_mls h f w = (case f (mls w) of (r, d) \<Rightarrow> (map_err (\<lambda>e. Client_Error (h e)) r, w\<lparr>mls := d\<rparr>))"

definition on_client_status ::
    "(mls_error \<Rightarrow> 'e) \<Rightarrow> (status_db, mls_error, 'a) action \<Rightarrow> (world, 'e client_fault, 'a) action" where
  "on_client_status h f w = (case f (status w) of (r, d) \<Rightarrow> (map_err (\<lambda>e. Client_Error (h e)) r, w\<lparr>status := d\<rparr>))"

text \<open>\<open>self.provider.transaction(f).map_err(|e| h(e.to_string()))?\<close>\<close>

definition in_transaction ::
    "('g, 'o) client_env \<Rightarrow> (string \<Rightarrow> 'e) \<Rightarrow> (db, mls_error, 'a) action \<Rightarrow> (world, 'e client_fault, 'a) action" where
  "in_transaction E h f w =
     (case provider_transaction f (mls w) of
        (r, d) \<Rightarrow> (map_err (\<lambda>e. Client_Error (h (client_sql E e))) r, w\<lparr>mls := d\<rparr>))"

text \<open>A closure that may panic, which is \<open>None\<close>: unwinding drops the transaction, which rolls back.\<close>

definition unwinding :: "(db, mls_error, 'a option) action \<Rightarrow> (db, sql_error option, 'a) action" where
  "unwinding f d =
     (case boxed f d of
        (Inl e, d') \<Rightarrow> (Inl (Some e), d')
      | (Inr None, d') \<Rightarrow> (Inl None, d')
      | (Inr (Some a), d') \<Rightarrow> (Inr a, d'))"

definition panicking_transaction :: "(db, mls_error, 'a option) action \<Rightarrow> (db, sql_error option, 'a) action" where
  "panicking_transaction f =
     sbind (smap_err Some checkout) (\<lambda>_.
     sbind (smap_err Some engine) (\<lambda>_.
     rollback_on_error
       (sbind (smap_err Some engine) (\<lambda>_.
        sbind (unwinding f) (\<lambda>result.
        sbind (smap_err Some engine) (\<lambda>_.
        sret result))))))"

definition in_panicking_transaction ::
    "('g, 'o) client_env \<Rightarrow> (string \<Rightarrow> 'e) \<Rightarrow> (db, mls_error, 'a option) action \<Rightarrow> (world, 'e client_fault, 'a) action" where
  "in_panicking_transaction E h f w =
     (case panicking_transaction f (mls w) of
        (r, d) \<Rightarrow>
          (map_err (\<lambda>e. case e of None \<Rightarrow> Client_Panic | Some e \<Rightarrow> Client_Error (h (client_sql E e))) r, w\<lparr>mls := d\<rparr>))"

text \<open>\<open>let mut mls_group = core::group(tx_provider, group_id, messages)?; f(&mut mls_group, tx_provider)\<close>,
  and the same with the signer of the group.\<close>

definition on_loaded_group ::
    "('g, 'o) client_env \<Rightarrow> string \<Rightarrow> bytes list \<Rightarrow> ('g \<times> db, mls_error, 'a) action \<Rightarrow> (db, mls_error, 'a) action" where
  "on_loaded_group E group_id messages f = on_group (core_group (client_load E) (client_mls E) group_id messages) f"

definition with_signer ::
    "('g, 'o) client_env \<Rightarrow> string \<Rightarrow> ('o \<Rightarrow> ('g \<times> db, mls_error, 'a) action) \<Rightarrow> (db, mls_error, 'a) action" where
  "with_signer E group_id f = on_loaded_group E group_id [] (sbind (group_signer (client_mls E)) f)"

text \<open>\<open>self.provider.load_group(group_id)?\<close>\<close>

definition loaded_group ::
    "('g, 'o) client_env \<Rightarrow> (mls_error \<Rightarrow> 'e) \<Rightarrow> string \<Rightarrow> (world, 'e client_fault, 'g) action" where
  "loaded_group E h group_id =
     on_client_mls h (load_group (client_sql E) (\<lambda>i. core_group (client_load E) (client_mls E) i []) group_id)"

text \<open>\<open>let _ = insert_or_update_group_status(..);\<close>, and the pending operation of one or of many groups
  with an error as no operation.\<close>

definition set_pending ::
    "('g, 'o) client_env \<Rightarrow> string \<Rightarrow> pending_operation \<Rightarrow> (world, 'e, unit) action" where
  "set_pending E group_id op w =
     (Inr (), w\<lparr>status := snd (insert_or_update_group_status (client_sql E) group_id op (status w))\<rparr>)"

definition pending_text :: "('g, 'o) client_env \<Rightarrow> string \<Rightarrow> (world, 'e, string option) action" where
  "pending_text E group_id w =
     (case get_group_pending_operation (client_sql E) group_id (status w) of
        (Inl _, d) \<Rightarrow> (Inr None, w\<lparr>status := d\<rparr>)
      | (Inr op, d) \<Rightarrow> (Inr op, w\<lparr>status := d\<rparr>))"

definition pending_texts :: "('g, 'o) client_env \<Rightarrow> string list \<Rightarrow> (world, 'e, string \<rightharpoonup> string) action" where
  "pending_texts E group_ids w =
     (case get_group_pending_operations_batch (client_sql E) (ce_status_order E) group_ids (status w) of
        (Inl _, d) \<Rightarrow> (Inr Map.empty, w\<lparr>status := d\<rparr>)
      | (Inr ops, d) \<Rightarrow> (Inr ops, w\<lparr>status := d\<rparr>))"

text \<open>\<open>map(f).collect()\<close> over calls with effects.\<close>

fun scollect :: "('x \<Rightarrow> ('s, 'e, 'a) action) \<Rightarrow> 'x list \<Rightarrow> ('s, 'e, 'a list) action" where
  "scollect f [] = sret []"
| "scollect f (x # xs) = sbind (f x) (\<lambda>a. sbind (scollect f xs) (\<lambda>as. sret (a # as)))"

section \<open>Lemmas\<close>

lemma provider_transaction_settled: "provider_transaction f d = (Inl e, d') \<Longrightarrow> tables d' = tables d"
  unfolding provider_transaction_def transaction_def
  by (auto simp: sbind_def split: prod.splits sum.splits dest!: rollback_settled checkout_result engine_result)

lemma provider_transaction_InrE:
  assumes "provider_transaction f d = (Inr a, d')"
  obtains d1 d2 where "tables d1 = tables d" "f d1 = (Inr a, d2)" "tables d' = tables d2"
proof -
  from transaction_result [OF assms [unfolded provider_transaction_def]] obtain d1 d2
    where "tables d1 = tables d" "boxed f d1 = (Inr a, d2)" "tables d' = tables d2" by auto
  moreover from this(2) have "f d1 = (Inr a, d2)"
    by (auto simp: boxed_def smap_err_def map_err_def split: prod.splits sum.splits)
  ultimately show thesis using that by blast
qed

lemma panicking_transaction_settled: "panicking_transaction f d = (Inl e, d') \<Longrightarrow> tables d' = tables d"
  unfolding panicking_transaction_def
  by (auto simp: sbind_def smap_err_def split: prod.splits sum.splits dest!: checkout_result engine_result
      rollback_on_error_result)

lemma set_pending_result [simp]: "fst (set_pending E g op w) = Inr ()" "mls (snd (set_pending E g op w)) = mls w"
  by (simp_all add: set_pending_def)

lemma pending_text_Inr: "\<exists>op. fst (pending_text E g w) = Inr op"
  by (auto simp: pending_text_def split: prod.splits sum.splits)

end
