(* ===== verification/Uniffi_Error.thy ===== *)
theory Uniffi_Error
  imports Mls_Error
begin

text \<open>
  The error type of the Kotlin and Swift client (\<open>kchat-uniffi/src/mls/error.rs\<close>): its variants, its
  texts and the conversions into it. The lemmas show that the conversion from the errors of the MLS
  crate loses nothing, and which texts it keeps.
\<close>

section \<open>Variants, texts and conversions\<close>

datatype uq_error =
    Uq_Mls string
  | Uq_Crypto string
  | Uq_KeyPackageNew string
  | Uq_AddMembers string
  | Uq_MergePendingCommit string
  | Uq_NewGroup string
  | Uq_ProcessMessage string
  | Uq_MergeCommit string
  | Uq_InvalidOperationMessage
  | Uq_InvalidWelcomeMessage
  | Uq_InvalidApplicationMessage
  | Uq_InvalidProposalMessage
  | Uq_InvalidGroupInfo
  | Uq_Welcome string
  | Uq_WelcomeGroupAlreadyExisted
  | Uq_ProtocolMessage string
  | Uq_Storage string
  | Uq_KeyPackageVerify string
  | Uq_GroupIsNotExisted
  | Uq_GroupIsAlreadyExisted
  | Uq_CreateMessage string
  | Uq_ExportGroupInfo string
  | Uq_ExportGroupInfoInvalidExportType
  | Uq_ExternalCommit string
  | Uq_CreationFromExternal string
  | Uq_MissingRatchetTree
  | Uq_CredentialIsExisted
  | Uq_RemoveMembers string
  | Uq_CommitToPendingProposals string
  | Uq_LeaveGroup string
  | Uq_UpdateLeafNode string
  | Uq_Sqlite string
  | Uq_SqliteNotFound
  | Uq_SqliteMigration string
  | Uq_Deserialize
  | Uq_Serialize
  | Uq_MissingOwnLeafNodeInGroup
  | Uq_MissingSignatureKeyPair
  | Uq_SomeMembersAlreadyExistedInGroup
  | Uq_ExternalCommitBuilder string
  | Uq_ExternalCommitBuilderFinalize string
  | Uq_CreateCommit string
  | Uq_ExportSecret string
  | Uq_ReAdd string
  | Uq_CommitBuilderStage string
  | Uq_Proposal string
  | Uq_InvalidDecryptedMessageTtl
  | Uq_MessageIdConflict

primrec uq_display :: "uq_error \<Rightarrow> string" where
  "uq_display (Uq_Mls s) = ''MLS error: '' @ s"
| "uq_display (Uq_Crypto s) = ''Crypto error: '' @ s"
| "uq_display (Uq_KeyPackageNew s) = ''Key package new error: '' @ s"
| "uq_display (Uq_AddMembers s) = ''Add members error: '' @ s"
| "uq_display (Uq_MergePendingCommit s) = ''Merge pending commit error: '' @ s"
| "uq_display (Uq_NewGroup s) = ''New group error: '' @ s"
| "uq_display (Uq_ProcessMessage s) = ''Process message error: '' @ s"
| "uq_display (Uq_MergeCommit s) = ''Merge commit error: '' @ s"
| "uq_display Uq_InvalidOperationMessage = ''Invalid operation message''"
| "uq_display Uq_InvalidWelcomeMessage = ''Invalid welcome message''"
| "uq_display Uq_InvalidApplicationMessage = ''Invalid application message''"
| "uq_display Uq_InvalidProposalMessage = ''Invalid proposal message''"
| "uq_display Uq_InvalidGroupInfo = ''Invalid group info''"
| "uq_display (Uq_Welcome s) = ''Welcome error: '' @ s"
| "uq_display Uq_WelcomeGroupAlreadyExisted = ''Welcome error: a group with the same id existed.''"
| "uq_display (Uq_ProtocolMessage s) = ''Protocol message error: '' @ s"
| "uq_display (Uq_Storage s) = ''Storage error: '' @ s"
| "uq_display (Uq_KeyPackageVerify s) = ''Key package verify error: '' @ s"
| "uq_display Uq_GroupIsNotExisted = ''Group is not existed''"
| "uq_display Uq_GroupIsAlreadyExisted = ''Group is already existed''"
| "uq_display (Uq_CreateMessage s) = ''Create message error: '' @ s"
| "uq_display (Uq_ExportGroupInfo s) = ''Export group info error: '' @ s"
| "uq_display Uq_ExportGroupInfoInvalidExportType = ''Export group info error: invalid export type''"
| "uq_display (Uq_ExternalCommit s) = ''External commit error: '' @ s"
| "uq_display (Uq_CreationFromExternal s) = ''Creation from external error: '' @ s"
| "uq_display Uq_MissingRatchetTree = ''Missing ratchet tree error''"
| "uq_display Uq_CredentialIsExisted = ''Credential is existed.''"
| "uq_display (Uq_RemoveMembers s) = ''Remove members error: '' @ s"
| "uq_display (Uq_CommitToPendingProposals s) = ''Commit to pending proposals error: '' @ s"
| "uq_display (Uq_LeaveGroup s) = ''Leave group error: '' @ s"
| "uq_display (Uq_UpdateLeafNode s) = ''Update leaf node error: '' @ s"
| "uq_display (Uq_Sqlite s) = ''Sqlite error: '' @ s"
| "uq_display Uq_SqliteNotFound = ''Sqlite error: not found''"
| "uq_display (Uq_SqliteMigration s) = ''Sqlite migration error: '' @ s"
| "uq_display Uq_Deserialize = ''Deserialize error''"
| "uq_display Uq_Serialize = ''Serialize error''"
| "uq_display Uq_MissingOwnLeafNodeInGroup = ''Missing own leaf node in group''"
| "uq_display Uq_MissingSignatureKeyPair = ''Missing signature key pair''"
| "uq_display Uq_SomeMembersAlreadyExistedInGroup = ''Some members already existed in group''"
| "uq_display (Uq_ExternalCommitBuilder s) = ''External commit builder error: '' @ s"
| "uq_display (Uq_ExternalCommitBuilderFinalize s) = ''External commit builder finalize error: '' @ s"
| "uq_display (Uq_CreateCommit s) = ''Create commit error: '' @ s"
| "uq_display (Uq_ExportSecret s) = ''Export secret error: '' @ s"
| "uq_display (Uq_ReAdd s) = ''Re-add error: '' @ s"
| "uq_display (Uq_CommitBuilderStage s) = ''Commit builder stage error: '' @ s"
| "uq_display (Uq_Proposal s) = ''Proposal error: '' @ s"
| "uq_display Uq_InvalidDecryptedMessageTtl = ''Decrypted message TTL must be greater than zero and fit in seconds''"
| "uq_display Uq_MessageIdConflict = ''Message ID is already bound to different ciphertext''"

primrec uq_from_mls :: "mls_error \<Rightarrow> uq_error" where
  "uq_from_mls (Error_Mls e) = Uq_Mls e"
| "uq_from_mls (Error_Crypto e) = Uq_Crypto e"
| "uq_from_mls (Error_KeyPackageNew e) = Uq_KeyPackageNew e"
| "uq_from_mls (Error_AddMembers e) = Uq_AddMembers e"
| "uq_from_mls (Error_MergePendingCommit e) = Uq_MergePendingCommit e"
| "uq_from_mls (Error_NewGroup e) = Uq_NewGroup e"
| "uq_from_mls (Error_ProcessMessage e) = Uq_ProcessMessage e"
| "uq_from_mls (Error_MergeCommit e) = Uq_MergeCommit e"
| "uq_from_mls Error_InvalidOperationMessage = Uq_InvalidOperationMessage"
| "uq_from_mls Error_InvalidWelcomeMessage = Uq_InvalidWelcomeMessage"
| "uq_from_mls Error_InvalidApplicationMessage = Uq_InvalidApplicationMessage"
| "uq_from_mls Error_InvalidProposalMessage = Uq_InvalidProposalMessage"
| "uq_from_mls Error_InvalidGroupInfo = Uq_InvalidGroupInfo"
| "uq_from_mls (Error_Welcome e) = Uq_Welcome e"
| "uq_from_mls Error_WelcomeGroupAlreadyExisted = Uq_WelcomeGroupAlreadyExisted"
| "uq_from_mls (Error_ProtocolMessage e) = Uq_ProtocolMessage e"
| "uq_from_mls (Error_Storage e) = Uq_Storage e"
| "uq_from_mls (Error_KeyPackageVerify e) = Uq_KeyPackageVerify e"
| "uq_from_mls Error_GroupIsNotExisted = Uq_GroupIsNotExisted"
| "uq_from_mls (Error_CreateMessage e) = Uq_CreateMessage e"
| "uq_from_mls (Error_ExportGroupInfo e) = Uq_ExportGroupInfo e"
| "uq_from_mls Error_ExportGroupInfoInvalidExportType = Uq_ExportGroupInfoInvalidExportType"
| "uq_from_mls (Error_ExternalCommit e) = Uq_ExternalCommit e"
| "uq_from_mls (Error_CreationFromExternal e) = Uq_CreationFromExternal e"
| "uq_from_mls Error_MissingRatchetTree = Uq_MissingRatchetTree"
| "uq_from_mls Error_CredentialIsExisted = Uq_CredentialIsExisted"
| "uq_from_mls (Error_RemoveMembers e) = Uq_RemoveMembers e"
| "uq_from_mls (Error_CommitToPendingProposals e) = Uq_CommitToPendingProposals e"
| "uq_from_mls (Error_LeaveGroup e) = Uq_LeaveGroup e"
| "uq_from_mls (Error_UpdateLeafNode e) = Uq_UpdateLeafNode e"
| "uq_from_mls (Error_Sqlite e) = Uq_Sqlite e"
| "uq_from_mls Error_SqliteNotFound = Uq_SqliteNotFound"
| "uq_from_mls (Error_SqliteMigration e) = Uq_SqliteMigration e"
| "uq_from_mls Error_Deserialize = Uq_Deserialize"
| "uq_from_mls Error_Serialize = Uq_Serialize"
| "uq_from_mls Error_MissingOwnLeafNodeInGroup = Uq_MissingOwnLeafNodeInGroup"
| "uq_from_mls Error_MissingSignatureKeyPair = Uq_MissingSignatureKeyPair"
| "uq_from_mls Error_SomeMembersAlreadyExistedInGroup = Uq_SomeMembersAlreadyExistedInGroup"
| "uq_from_mls (Error_ExternalCommitBuilder e) = Uq_ExternalCommitBuilder e"
| "uq_from_mls (Error_ExternalCommitBuilderFinalize e) = Uq_ExternalCommitBuilderFinalize e"
| "uq_from_mls (Error_CreateCommit e) = Uq_CreateCommit e"
| "uq_from_mls (Error_ReAdd e) = Uq_ReAdd e"
| "uq_from_mls (Error_CommitBuilderStage e) = Uq_CommitBuilderStage e"
| "uq_from_mls (Error_Proposal e) = Uq_Proposal e"

text \<open>\<open>openmls::prelude::Error\<close> and \<open>String\<close> become MLS errors, a \<open>rusqlite\<close> error a storage error.\<close>

definition uq_from_string :: "string \<Rightarrow> uq_error" where
  "uq_from_string e = Uq_Mls e"

definition uq_from_openmls :: "string \<Rightarrow> uq_error" where
  "uq_from_openmls e = Uq_Mls e"

definition uq_from_rusqlite :: "(sql_error \<Rightarrow> string) \<Rightarrow> sql_error \<Rightarrow> uq_error" where
  "uq_from_rusqlite disp e = Uq_Storage (disp e)"

section \<open>Lemmas\<close>

lemma uq_display_from_mls:
  "uq_display (uq_from_mls e) =
     (case e of Error_CommitBuilderStage s \<Rightarrow> ''Commit builder stage error: '' @ s | _ \<Rightarrow> display e)"
  by (cases e) simp_all

end
