(* ===== verification/Uniffi_Client.thy ===== *)
theory Uniffi_Client
  imports Client_Base Uniffi_Error
begin

text \<open>
  The Kotlin and Swift client, \<open>UqMls\<close> of \<open>kchat-uniffi/src/mls/mod.rs\<close> (\<open>kchat-mls-uniffi/src/mls.rs\<close>
  is the same text but for the path of its error type): every exported method and every conversion.
  \<open>E\<close> is the environment, \<open>C\<close> the client object. The clock is an argument of the methods that read it:
  the error text of a clock before the epoch, or the seconds since. Log callbacks are left out.
\<close>

section \<open>Time\<close>

definition uq_ttl_seconds :: "u64 \<Rightarrow> uq_error + int" where
  "uq_ttl_seconds decrypted_message_ttl_hours =
     (if 2 ^ 64 \<le> uint decrypted_message_ttl_hours * 3600 then Inl Uq_InvalidDecryptedMessageTtl
      else
        let seconds = decrypted_message_ttl_hours * 3600 in
        if uint seconds < 2 ^ 63 then Inr (uint seconds) else Inl Uq_InvalidDecryptedMessageTtl)"

definition uq_unix_seconds :: "string + u64 \<Rightarrow> uq_error + int" where
  "uq_unix_seconds clock =
     rbind (map_err (\<lambda>error. Uq_Storage (''system clock before unix epoch: '' @ error)) clock) (\<lambda>seconds.
     if uint seconds < 2 ^ 63 then Inr (uint seconds)
     else Inl (Uq_Storage ''system clock exceeds i64 unix seconds''))"

text \<open>\<open>i64::checked_add\<close>\<close>

definition checked_add_i64 :: "int \<Rightarrow> int \<Rightarrow> int option" where
  "checked_add_i64 a b = (if - (2 ^ 63) \<le> a + b \<and> a + b < 2 ^ 63 then Some (a + b) else None)"

section \<open>Configuration\<close>

definition uq_ciphersuite :: "('g, 'o) client_env \<Rightarrow> uq_mls \<Rightarrow> uq_error + 'o" where
  "uq_ciphersuite E C = map_err uq_from_openmls (ce_ciphersuite E (um_ciphersuite C))"

fun uq_wire_format_policy :: "wire_format_policy \<Rightarrow> openmls_wire_format_policy" where
  "uq_wire_format_policy PurePlaintext = PURE_PLAINTEXT_WIRE_FORMAT_POLICY"
| "uq_wire_format_policy PureCiphertext = PURE_CIPHERTEXT_WIRE_FORMAT_POLICY"
| "uq_wire_format_policy MixedPlaintext = MIXED_PLAINTEXT_WIRE_FORMAT_POLICY"
| "uq_wire_format_policy MixedCiphertext = MIXED_CIPHERTEXT_WIRE_FORMAT_POLICY"

definition uq_build_join_config :: "('g, 'o) client_env \<Rightarrow> uq_mls \<Rightarrow> group_config_update option \<Rightarrow> 'o" where
  "uq_build_join_config E C update =
     (let max_past_epochs =
            (case Option.bind update gu_max_past_epochs of Some n \<Rightarrow> n | None \<Rightarrow> um_max_past_epochs C);
          out_of_order_tolerance =
            (case Option.bind update gu_out_of_order_tolerance of Some n \<Rightarrow> n | None \<Rightarrow> um_out_of_order_tolerance C);
          maximum_forward_distance =
            (case Option.bind update gu_maximum_forward_distance of Some n \<Rightarrow> n | None \<Rightarrow> um_maximum_forward_distance C) in
      ce_join_config E \<lparr>js_policy = uq_wire_format_policy (um_wire_format_policy C),
        js_ratchet_tree = um_use_ratchet_tree_extension C, js_past_epochs = unat max_past_epochs,
        js_tolerance = out_of_order_tolerance, js_distance = maximum_forward_distance\<rparr>)"

section \<open>Conversions\<close>

definition uq_add_members_from :: "add_members_result \<Rightarrow> u64 add_members_out" where
  "uq_add_members_from r =
     \<lparr>ao_commit = am_commit r, ao_welcome = am_welcome r, ao_group_info = am_group_info r,
      ao_current_epoch = am_current_epoch r, ao_pre_tree_hash = am_pre_tree_hash r\<rparr>"

definition uq_remove_members_from :: "commit_result \<Rightarrow> u64 commit_out" where
  "uq_remove_members_from r =
     \<lparr>co_commit = cr_commit r, co_group_info = cr_group_info r, co_current_epoch = cr_current_epoch r,
      co_pre_tree_hash = cr_pre_tree_hash r\<rparr>"

definition uq_join_from :: "commit_result \<Rightarrow> u64 commit_out" where
  "uq_join_from r =
     \<lparr>co_commit = cr_commit r, co_group_info = cr_group_info r, co_current_epoch = cr_current_epoch r,
      co_pre_tree_hash = cr_pre_tree_hash r\<rparr>"

definition uq_update_leaf_from :: "commit_result \<Rightarrow> u64 commit_out" where
  "uq_update_leaf_from r =
     \<lparr>co_commit = cr_commit r, co_group_info = cr_group_info r, co_current_epoch = cr_current_epoch r,
      co_pre_tree_hash = cr_pre_tree_hash r\<rparr>"

definition uq_readd_from :: "readd_result \<Rightarrow> u64 readd_out" where
  "uq_readd_from r =
     \<lparr>ro_commit = ra_commit r, ro_welcome = ra_welcome r, ro_group_info = ra_group_info r,
      ro_current_epoch = ra_current_epoch r, ro_pre_tree_hash = ra_pre_tree_hash r\<rparr>"

fun uq_proposal_from :: "proposal_kind \<Rightarrow> client_proposal" where
  "uq_proposal_from Kind_Add = Client_Add"
| "uq_proposal_from Kind_Update = Client_Update"
| "uq_proposal_from Kind_Remove = Client_Remove"
| "uq_proposal_from Kind_PreSharedKey = Client_PreSharedKey"
| "uq_proposal_from Kind_ReInit = Client_ReInit"
| "uq_proposal_from Kind_ExternalInit = Client_ExternalInit"
| "uq_proposal_from Kind_GroupContextExtensions = Client_GroupContextExtensions"
| "uq_proposal_from Kind_AppAck = Client_AppAck"
| "uq_proposal_from Kind_SelfRemove = Client_SelfRemove"
| "uq_proposal_from Kind_Custom = Client_Custom"

fun uq_proposal_from_custom :: "custom_proposal_type \<Rightarrow> client_proposal" where
  "uq_proposal_from_custom Custom_ReAdd = Client_ReAdd"
| "uq_proposal_from_custom Custom_Remove = Client_Remove"

definition uq_queued_from :: "queued_proposal \<Rightarrow> u64 queued_out" where
  "uq_queued_from p =
     \<lparr>qo_sender = qp_sender p, qo_client_jid = extract_jid_from_member_id (qp_sender p),
      qo_mls_client_id = Some (qp_sender p), qo_mls_fingerprint = None, qo_epoch = Some (qp_epoch p),
      qo_group_id = qp_group_id p, qo_proposal = uq_proposal_from (qp_proposal p)\<rparr>"

section \<open>Opening a client\<close>

text \<open>The two databases of the world; \<open>file\<close> is what the file of the status database holds. Pruning the
  cache of messages may fail, which is only logged.\<close>

definition uq_prune_on_open :: "string + u64 \<Rightarrow> (world, uq_error client_fault, unit) action" where
  "uq_prune_on_open clock w =
     (case uq_unix_seconds clock of
        Inl _ \<Rightarrow> (Inr (), w)
      | Inr now \<Rightarrow> (Inr (), w\<lparr>mls := snd (sp_prune_decrypted_application_messages now (mls w))\<rparr>))"

definition uq_new ::
    "('g, 'o) client_env \<Rightarrow> (migration_error \<Rightarrow> string) \<Rightarrow> migration list
      \<Rightarrow> (migration list \<Rightarrow> (db, migration_error, unit) action) \<Rightarrow> bytes exporter \<Rightarrow> string + u64 \<Rightarrow> file_probe
      \<Rightarrow> string \<Rightarrow> u16 \<Rightarrow> u64 \<Rightarrow> string option \<Rightarrow> u32 \<Rightarrow> u32 \<Rightarrow> (world, uq_error client_fault, uq_mls) action" where
  "uq_new E rdisp migrations runner export clock file client_id max_past_epochs decrypted_message_ttl_hours password
       out_of_order_tolerance maximum_forward_distance =
     (if decrypted_message_ttl_hours = 0 then sfail (Client_Error Uq_InvalidDecryptedMessageTtl)
      else
        sbind (slift (map_err Client_Error (uq_ttl_seconds decrypted_message_ttl_hours))) (\<lambda>ttl.
        sbind (on_client_status uq_from_mls (open_group_status_connection (client_sql E) file password)) (\<lambda>_.
        sbind (on_client_mls uq_from_mls (new_with_log (client_sql E) rdisp migrations runner (ce_group_id E) export)) (\<lambda>_.
        sbind (uq_prune_on_open clock) (\<lambda>_.
        sret \<lparr>um_client_id = client_id, um_ciphersuite = DEFAULT_CIPHERSUITE, um_wire_format_policy = PureCiphertext,
          um_use_ratchet_tree_extension = True, um_max_past_epochs = max_past_epochs,
          um_out_of_order_tolerance = out_of_order_tolerance, um_maximum_forward_distance = maximum_forward_distance,
          um_decrypted_message_ttl_seconds = ttl\<rparr>)))))"

section \<open>Keys and groups\<close>

definition uq_generate_signature_key ::
    "('g, 'o) client_env \<Rightarrow> uq_mls \<Rightarrow> (world, uq_error client_fault, signature_public_key) action" where
  "uq_generate_signature_key E C =
     sbind (slift (map_err Client_Error (uq_ciphersuite E C))) (\<lambda>ciphersuite.
     sbind (on_client_mls uq_from_mls (generate_signature_key (client_mls E) ciphersuite)) (\<lambda>signer.
     sret \<lparr>spk_public = signature_public (client_mls E) signer, spk_signature_scheme = ce_scheme E signer\<rparr>))"

text \<open>\<open>for _ in 0..quantity\<close>; the packages already generated are stored even if a later one fails.\<close>

fun uq_key_package_loop ::
    "('g, 'o) client_env \<Rightarrow> uq_mls \<Rightarrow> bool \<Rightarrow> bytes option \<Rightarrow> nat \<Rightarrow> bytes list
      \<Rightarrow> (world, uq_error client_fault, bytes list) action" where
  "uq_key_package_loop E C last_resort public_key 0 result = sret result"
| "uq_key_package_loop E C last_resort public_key (Suc n) result =
     sbind (slift (map_err Client_Error (uq_ciphersuite E C))) (\<lambda>ciphersuite.
     sbind (on_client_mls uq_from_mls
              (generate_key_package (client_mls E) (um_client_id C) ciphersuite last_resort public_key)) (\<lambda>key_package.
     uq_key_package_loop E C last_resort public_key n (result @ [key_package])))"

definition uq_generate_key_packages ::
    "('g, 'o) client_env \<Rightarrow> uq_mls \<Rightarrow> u16 \<Rightarrow> bool \<Rightarrow> bytes option \<Rightarrow> (world, uq_error client_fault, bytes list) action" where
  "uq_generate_key_packages E C quantity last_resort public_key =
     uq_key_package_loop E C last_resort public_key (unat quantity) []"

definition uq_create_group ::
    "('g, 'o) client_env \<Rightarrow> uq_mls \<Rightarrow> string \<Rightarrow> bytes option \<Rightarrow> (world, uq_error client_fault, unit) action" where
  "uq_create_group E C group_id public_key w =
     (case loaded_group E uq_from_mls group_id w of
        (Inr _, w1) \<Rightarrow> (Inl (Client_Error Uq_GroupIsAlreadyExisted), w1)
      | (Inl _, w1) \<Rightarrow>
          sbind (slift (map_err Client_Error (uq_ciphersuite E C))) (\<lambda>ciphersuite.
          let config = ce_create_config E ciphersuite
                \<lparr>js_policy = uq_wire_format_policy (um_wire_format_policy C),
                 js_ratchet_tree = um_use_ratchet_tree_extension C, js_past_epochs = unat (um_max_past_epochs C),
                 js_tolerance = um_out_of_order_tolerance C, js_distance = um_maximum_forward_distance C\<rparr> in
          sbind (in_transaction E Uq_Sqlite
                   (create_group (client_mls E) (um_client_id C) group_id ciphersuite config public_key)) (\<lambda>_.
          set_pending E group_id Op_CreateGroup)) w1)"

definition uq_update_group_config ::
    "('g, 'o) client_env \<Rightarrow> uq_mls \<Rightarrow> string \<Rightarrow> group_config_update \<Rightarrow> (world, uq_error client_fault, unit) action" where
  "uq_update_group_config E C group_id update =
     in_transaction E Uq_Sqlite
       (update_group_config (client_load E) (client_mls E) group_id (uq_build_join_config E C (Some update)))"

section \<open>Members\<close>

definition uq_add_members ::
    "('g, 'o) client_env \<Rightarrow> uq_mls \<Rightarrow> string \<Rightarrow> bytes list \<Rightarrow> (world, uq_error client_fault, u64 add_members_out) action" where
  "uq_add_members E C group_id packages =
     sbind (in_transaction E Uq_Sqlite
              (with_signer E group_id (\<lambda>signer. add_members (ce_verify E) (client_mls E) signer packages))) (\<lambda>result.
     sbind (pending_text E group_id) (\<lambda>op.
     sbind (if pending_operation_from op = Op_None then set_pending E group_id Op_UpdateTree else sret ()) (\<lambda>_.
     sret (uq_add_members_from result))))"

definition uq_readd ::
    "('g, 'o) client_env \<Rightarrow> uq_mls \<Rightarrow> string \<Rightarrow> string list \<Rightarrow> bytes list
      \<Rightarrow> (world, uq_error client_fault, u64 readd_out) action" where
  "uq_readd E C group_id member_ids packages =
     sbind (pending_text E group_id) (\<lambda>op.
     if op \<noteq> None \<and> the op \<noteq> OP_NONE
     then sfail (Client_Error (Uq_ReAdd (''There is a pending operation: '' @ the op)))
     else
       sbind (in_transaction E Uq_Sqlite
                (with_signer E group_id (\<lambda>signer. readd (ce_verify E) (client_mls E) signer member_ids packages))) (\<lambda>result.
       sbind (set_pending E group_id Op_UpdateTree) (\<lambda>_.
       sret (uq_readd_from result))))"

definition uq_propose_readd :: "('g, 'o) client_env \<Rightarrow> uq_mls \<Rightarrow> string \<Rightarrow> string \<Rightarrow> bytes" where
  "uq_propose_readd E C group_id fingerprint =
     create_custom_proposal (pe_json (ce_process E)) (um_client_id C) group_id fingerprint Custom_ReAdd"

definition uq_remove_members ::
    "('g, 'o) client_env \<Rightarrow> uq_mls \<Rightarrow> string \<Rightarrow> string list \<Rightarrow> (world, uq_error client_fault, u64 commit_out) action" where
  "uq_remove_members E C group_id member_ids =
     sbind (in_transaction E Uq_Sqlite
              (with_signer E group_id (\<lambda>signer. remove_members (client_mls E) signer member_ids))) (\<lambda>result.
     sbind (set_pending E group_id Op_UpdateTree) (\<lambda>_.
     sret (uq_remove_members_from result)))"

section \<open>Messages\<close>

definition uq_process_welcome ::
    "('g, 'o) client_env \<Rightarrow> uq_mls \<Rightarrow> bytes \<Rightarrow> (world, uq_error client_fault, unit) action" where
  "uq_process_welcome E C welcome =
     in_transaction E Uq_Sqlite
       (sbind (process_welcome (client_mls E) welcome (uq_build_join_config E C None)) (\<lambda>_. sret ()))"

definition uq_process_operation_message ::
    "('g, 'o) client_env \<Rightarrow> string \<Rightarrow> bytes \<Rightarrow> (world, uq_error client_fault, operation_result) action" where
  "uq_process_operation_message E group_id message =
     in_transaction E Uq_Sqlite (on_loaded_group E group_id [message] (process_operation_message (client_mls E) message))"

definition uq_process_application_message ::
    "('g, 'o) client_env \<Rightarrow> string \<Rightarrow> bytes \<Rightarrow> (world, uq_error client_fault, bytes) action" where
  "uq_process_application_message E group_id message =
     in_transaction E Uq_Sqlite (on_loaded_group E group_id [message] (process_application_message (client_mls E) message))"

datatype wal_outcome = Wal_Message bytes | Wal_MessageIdConflict

text \<open>The closure of the transaction: the cache first, then OpenMLS, and the plaintext into the cache.\<close>

definition wal_decrypt ::
    "('g, 'o) client_env \<Rightarrow> string \<Rightarrow> string \<Rightarrow> bytes \<Rightarrow> int \<Rightarrow> int \<Rightarrow> (db, mls_error, wal_outcome) action" where
  "wal_decrypt E group_id message_id message now expires =
     (let digest = ce_digest E message;
          cache_group_id = as_bytes group_id in
      sbind (smap_err (from_sqlite_error (client_sql E))
               (tx_load_decrypted_application_message (ce_group_id E) cache_group_id message_id now)) (\<lambda>found.
      (case found of
         Some entry \<Rightarrow>
           if ciphertext_digest entry \<noteq> digest then sret Wal_MessageIdConflict
           else sret (Wal_Message (plaintext entry))
       | None \<Rightarrow>
           sbind (on_loaded_group E group_id [message] (process_application_message (client_mls E) message)) (\<lambda>result.
           sbind (smap_err (from_sqlite_error (client_sql E))
                    (tx_insert_decrypted_application_message (ce_group_id E) cache_group_id message_id
                       \<lparr>ciphertext_digest = digest, plaintext = result, created_at = now, expires_at = expires\<rparr>)) (\<lambda>_.
           sret (Wal_Message result))))))"

definition uq_process_application_message_with_wal ::
    "('g, 'o) client_env \<Rightarrow> uq_mls \<Rightarrow> string + u64 \<Rightarrow> string \<Rightarrow> string \<Rightarrow> bytes
      \<Rightarrow> (world, uq_error client_fault, bytes) action" where
  "uq_process_application_message_with_wal E C clock group_id message_id message =
     sbind (slift (map_err Client_Error (uq_unix_seconds clock))) (\<lambda>now.
     sbind (slift (ok_or (Client_Error Uq_InvalidDecryptedMessageTtl)
              (checked_add_i64 now (um_decrypted_message_ttl_seconds C)))) (\<lambda>expires.
     sbind (in_transaction E Uq_Sqlite (wal_decrypt E group_id message_id message now expires)) (\<lambda>outcome.
     (case outcome of
        Wal_Message result \<Rightarrow> sret result
      | Wal_MessageIdConflict \<Rightarrow> sfail (Client_Error Uq_MessageIdConflict)))))"

definition uq_prune_decrypted_application_messages ::
    "('g, 'o) client_env \<Rightarrow> string + u64 \<Rightarrow> (world, uq_error client_fault, unit) action" where
  "uq_prune_decrypted_application_messages E clock =
     sbind (slift (map_err Client_Error (uq_unix_seconds clock))) (\<lambda>now w.
     (case sp_prune_decrypted_application_messages now (mls w) of
        (r, d) \<Rightarrow> (map_err (\<lambda>e. Client_Error (Uq_Sqlite (client_sql E e))) r, w\<lparr>mls := d\<rparr>)))"

definition uq_process_many_operation_messages ::
    "('g, 'o) client_env \<Rightarrow> string \<Rightarrow> bytes list \<Rightarrow> (world, uq_error client_fault, u64) action" where
  "uq_process_many_operation_messages E group_id messages =
     in_transaction E Uq_Sqlite
       (on_loaded_group E group_id messages (process_many_operation_messages (client_mls E) messages))"

definition uq_process_proposal_message ::
    "('g, 'o) client_env \<Rightarrow> string \<Rightarrow> bytes \<Rightarrow> (world, uq_error client_fault, u64 queued_out) action" where
  "uq_process_proposal_message E group_id message =
     sbind (in_transaction E Uq_Sqlite
              (on_loaded_group E group_id [message] (process_proposal_message (client_mls E) message))) (\<lambda>p.
     sret (uq_queued_from p))"

definition uq_process_custom_proposal_message :: "custom_proposal codec \<Rightarrow> bytes \<Rightarrow> u64 queued_out option" where
  "uq_process_custom_proposal_message J custom_proposal =
     map_option (\<lambda>result.
       \<lparr>qo_sender = (case cp_mls_client_id result of Some i \<Rightarrow> i | None \<Rightarrow> []), qo_client_jid = cp_client_jid result,
        qo_mls_client_id = cp_mls_client_id result, qo_mls_fingerprint = cp_mls_fingerprint result,
        qo_epoch = cp_epoch result, qo_group_id = cp_group_id result,
        qo_proposal = uq_proposal_from_custom (cp_proposal_type result)\<rparr>)
       (process_custom_proposal J custom_proposal)"

definition uq_encrypt_message ::
    "('g, 'o) client_env \<Rightarrow> string \<Rightarrow> bytes \<Rightarrow> (world, uq_error client_fault, bytes) action" where
  "uq_encrypt_message E group_id message =
     in_transaction E Uq_Sqlite (with_signer E group_id (\<lambda>signer. encrypt_message (client_mls E) signer message))"

definition uq_export_group_info ::
    "('g, 'o) client_env \<Rightarrow> string \<Rightarrow> (world, uq_error client_fault, bytes) action" where
  "uq_export_group_info E group_id =
     sbind (loaded_group E uq_from_mls group_id) (\<lambda>g.
     sbind (on_client_mls uq_from_mls
              (\<lambda>d. case group_signer (client_mls E) (g, d) of (r, _, d') \<Rightarrow> (r, d'))) (\<lambda>signer.
     slift (map_err (\<lambda>e. Client_Error (uq_from_mls e)) (export_group_info (client_mls E) signer g))))"

section \<open>Joining and leaving\<close>

definition uq_join_by_external_commit ::
    "('g, 'o) client_env \<Rightarrow> uq_mls \<Rightarrow> string \<Rightarrow> bytes \<Rightarrow> bytes option
      \<Rightarrow> (world, uq_error client_fault, u64 commit_out) action" where
  "uq_join_by_external_commit E C group_id group_info public_key =
     sbind (slift (map_err Client_Error (uq_ciphersuite E C))) (\<lambda>ciphersuite.
     sbind (in_panicking_transaction E Uq_Sqlite
              (join_by_external_commit (client_mls E) (um_client_id C) group_info ciphersuite
                 (uq_build_join_config E C None) public_key)) (\<lambda>result.
     sbind (set_pending E group_id Op_JoinByExternalCommit) (\<lambda>_.
     sret (uq_join_from result))))"

text \<open>One element of a batch: an error is an entry of the result, a panic ends the batch.\<close>

definition uq_batch_join_one ::
    "('g, 'o) client_env \<Rightarrow> uq_mls \<Rightarrow> 'o \<Rightarrow> bytes option \<Rightarrow> join_args
      \<Rightarrow> (world, uq_error client_fault, u64 wrapped_join) action" where
  "uq_batch_join_one E C ciphersuite public_key arg w =
     (case in_panicking_transaction E id
             (join_by_external_commit (client_mls E) (um_client_id C) (ja_group_info arg) ciphersuite
                (uq_build_join_config E C None) public_key) w of
        (Inr result, w1) \<Rightarrow>
          sbind (set_pending E (ja_group_id arg) Op_JoinByExternalCommit) (\<lambda>_.
          sret \<lparr>wj_group_id = ja_group_id arg, wj_result = Some (uq_join_from result), wj_err = None\<rparr>) w1
      | (Inl (Client_Error err), w1) \<Rightarrow> (Inr \<lparr>wj_group_id = ja_group_id arg, wj_result = None, wj_err = Some err\<rparr>, w1)
      | (Inl Client_Panic, w1) \<Rightarrow> (Inl Client_Panic, w1))"

definition uq_batch_join_by_external_commit ::
    "('g, 'o) client_env \<Rightarrow> uq_mls \<Rightarrow> join_args list \<Rightarrow> bytes option
      \<Rightarrow> (world, uq_error client_fault, u64 wrapped_join list) action" where
  "uq_batch_join_by_external_commit E C args public_key =
     sbind (slift (map_err Client_Error (uq_ciphersuite E C))) (\<lambda>ciphersuite.
     scollect (uq_batch_join_one E C ciphersuite public_key) args)"

definition uq_leave_group :: "('g, 'o) client_env \<Rightarrow> string \<Rightarrow> (world, uq_error client_fault, bytes) action" where
  "uq_leave_group E group_id =
     in_transaction E Uq_Sqlite (with_signer E group_id (\<lambda>signer. leave_group (client_mls E) signer))"

definition uq_update_leaf_node :: "('g, 'o) client_env \<Rightarrow> string \<Rightarrow> (world, uq_error client_fault, u64 commit_out) action" where
  "uq_update_leaf_node E group_id =
     sbind (in_transaction E Uq_Sqlite (with_signer E group_id (\<lambda>signer. update_leaf_node (client_mls E) signer))) (\<lambda>result.
     sbind (set_pending E group_id Op_UpdateTree) (\<lambda>_.
     sret (uq_update_leaf_from result)))"

section \<open>Pending state\<close>

definition uq_merge_pending_commit :: "('g, 'o) client_env \<Rightarrow> string \<Rightarrow> (world, uq_error client_fault, unit) action" where
  "uq_merge_pending_commit E group_id =
     sbind (in_transaction E Uq_Sqlite (on_loaded_group E group_id [] (merge_pending_commit (client_mls E)))) (\<lambda>_.
     set_pending E group_id Op_None)"

definition uq_clear_pending_commit :: "('g, 'o) client_env \<Rightarrow> string \<Rightarrow> (world, uq_error client_fault, unit) action" where
  "uq_clear_pending_commit E group_id =
     sbind (in_transaction E Uq_Sqlite (on_loaded_group E group_id [] (clear_pending_commit (client_mls E)))) (\<lambda>_.
     set_pending E group_id Op_None)"

definition uq_clear_pending_proposals :: "('g, 'o) client_env \<Rightarrow> string \<Rightarrow> (world, uq_error client_fault, unit) action" where
  "uq_clear_pending_proposals E group_id =
     sbind (in_transaction E Uq_Sqlite (on_loaded_group E group_id [] (clear_pending_proposals (client_mls E)))) (\<lambda>_.
     set_pending E group_id Op_None)"

definition uq_pending_commit ::
    "('g, 'o) client_env \<Rightarrow> string \<Rightarrow> (world, uq_error client_fault, client_proposal list option) action" where
  "uq_pending_commit E group_id =
     sbind (loaded_group E uq_from_mls group_id) (\<lambda>g.
     sret (map_option (map uq_proposal_from) (pending_commit (client_mls E) g)))"

definition uq_pending_proposals ::
    "('g, 'o) client_env \<Rightarrow> string \<Rightarrow> (world, uq_error client_fault, client_proposal list) action" where
  "uq_pending_proposals E group_id =
     sbind (loaded_group E uq_from_mls group_id) (\<lambda>g.
     sret (map uq_proposal_from (pending_proposals (client_mls E) g)))"

section \<open>Epochs\<close>

text \<open>\<open>epoch as i64\<close>, and \<open>epoch as i64 - 1\<close> with its overflow check.\<close>

definition epoch_i64 :: "u64 \<Rightarrow> int" where
  "epoch_i64 e = sint e"

definition uq_pending_epoch :: "string option \<Rightarrow> u64 \<Rightarrow> uq_error client_fault + int" where
  "uq_pending_epoch op e =
     (if op = Some OP_JOIN_BY_EXTERNAL_COMMIT
      then if epoch_i64 e = - (2 ^ 63) then Inl Client_Panic else Inr (epoch_i64 e - 1)
      else Inr (epoch_i64 e))"

definition uq_epoch_entry ::
    "('g, 'o) client_env \<Rightarrow> string \<Rightarrow> string option \<Rightarrow> (world, uq_error client_fault, int wrapped_epoch) action" where
  "uq_epoch_entry E group_id op w =
     (case group_context (client_mls E) group_id (mls w) of
        (Inr ctx, d) \<Rightarrow>
          (rbind (uq_pending_epoch op (ce_context_epoch E ctx)) (\<lambda>epoch.
           Inr \<lparr>we_group_id = group_id, we_epoch = epoch, we_tree_hash = ce_context_hash E ctx, we_err = None,
                we_pending_operation = op\<rparr>), w\<lparr>mls := d\<rparr>)
      | (Inl err, d) \<Rightarrow>
          (Inr \<lparr>we_group_id = group_id, we_epoch = - 1, we_tree_hash = [], we_err = Some (display err),
                we_pending_operation = None\<rparr>, w\<lparr>mls := d\<rparr>))"

definition uq_context_entry ::
    "('g, 'o) client_env \<Rightarrow> string \<Rightarrow> string option \<Rightarrow> (world, uq_error client_fault, int wrapped_context) action" where
  "uq_context_entry E group_id op w =
     (case group_context (client_mls E) group_id (mls w) of
        (Inr ctx, d) \<Rightarrow>
          (rbind (uq_pending_epoch op (ce_context_epoch E ctx)) (\<lambda>pending_epoch.
           Inr \<lparr>wc_group_id = group_id, wc_current_epoch = epoch_i64 (ce_context_epoch E ctx),
                wc_pending_epoch = pending_epoch, wc_tree_hash = ce_context_hash E ctx, wc_err = None,
                wc_pending_operation = op\<rparr>), w\<lparr>mls := d\<rparr>)
      | (Inl err, d) \<Rightarrow>
          (Inr \<lparr>wc_group_id = group_id, wc_current_epoch = - 1, wc_pending_epoch = - 1, wc_tree_hash = [],
                wc_err = Some (display err), wc_pending_operation = None\<rparr>, w\<lparr>mls := d\<rparr>))"

definition uq_group_epoch ::
    "('g, 'o) client_env \<Rightarrow> string \<Rightarrow> (world, uq_error client_fault, int wrapped_epoch) action" where
  "uq_group_epoch E group_id = sbind (pending_text E group_id) (uq_epoch_entry E group_id)"

definition uq_group_context ::
    "('g, 'o) client_env \<Rightarrow> string \<Rightarrow> (world, uq_error client_fault, int wrapped_context) action" where
  "uq_group_context E group_id = sbind (pending_text E group_id) (uq_context_entry E group_id)"

definition uq_group_epochs ::
    "('g, 'o) client_env \<Rightarrow> string list \<Rightarrow> (world, uq_error client_fault, int wrapped_epoch list) action" where
  "uq_group_epochs E group_ids =
     sbind (pending_texts E group_ids) (\<lambda>ops.
     scollect (\<lambda>group_id. uq_epoch_entry E group_id (ops group_id)) group_ids)"

definition uq_group_contexts ::
    "('g, 'o) client_env \<Rightarrow> string list \<Rightarrow> (world, uq_error client_fault, int wrapped_context list) action" where
  "uq_group_contexts E group_ids =
     sbind (pending_texts E group_ids) (\<lambda>ops.
     scollect (\<lambda>group_id. uq_context_entry E group_id (ops group_id)) group_ids)"

section \<open>Deletion, members and all messages\<close>

definition uq_delete_group :: "('g, 'o) client_env \<Rightarrow> string \<Rightarrow> (world, uq_error client_fault, unit) action" where
  "uq_delete_group E group_id =
     (let P = ce_process E in
      sbind (on_client_mls uq_from_mls (delete_group (pe_sql P) (pe_code P) (pe_code_debug P) (ce_group_id E) (as_bytes group_id))) (\<lambda>_.
      sbind (on_client_status uq_from_mls (delete_group_status (pe_sql P) (pe_code P) (pe_code_debug P) group_id)) (\<lambda>_.
      sret ())))"

definition uq_members :: "('g, 'o) client_env \<Rightarrow> string \<Rightarrow> (world, uq_error client_fault, string list) action" where
  "uq_members E group_id =
     sbind (loaded_group E uq_from_mls group_id) (\<lambda>g.
     sret (List.map_filter id_from_credential (group_members (client_mls E) g)))"

definition uq_message_from :: "u64 message_args \<Rightarrow> mls_message" where
  "uq_message_from m =
     \<lparr>blob = ma_blob m, msg_epoch = ma_epoch m, sender = ma_sender m, msg_type = message_type_from (ma_message_type m)\<rparr>"

definition uq_group_args_from :: "(u64, int) group_args \<Rightarrow> all_messages_of_group" where
  "uq_group_args_from a =
     \<lparr>gm_group_id = ga_group_id a, gm_messages = map uq_message_from (ga_messages a),
      gm_current_epoch = ga_current_epoch a, gm_current_tree_hash = ga_current_tree_hash a,
      gm_pending_epoch = ga_pending_epoch a, gm_pending_tree_hash = ga_pending_tree_hash a\<rparr>"

text \<open>The records of the result have the fields of the crate's and are not repeated.\<close>

definition uq_process_all_messages ::
    "('g, 'o) client_env \<Rightarrow> uq_mls \<Rightarrow> (u64, int) group_args list
      \<Rightarrow> (world, uq_error client_fault, process_all_messages_result) action" where
  "uq_process_all_messages E C args =
     smap_err (\<lambda>fault. case fault of Fault_Error e \<Rightarrow> Client_Error (uq_from_mls e) | Fault_Overflow \<Rightarrow> Client_Panic)
       (process_all_messages
          ((ce_process E)\<lparr>pe_config := ce_join_config E
             \<lparr>js_policy = uq_wire_format_policy (um_wire_format_policy C),
              js_ratchet_tree = um_use_ratchet_tree_extension C, js_past_epochs = unat (um_max_past_epochs C),
              js_tolerance = um_out_of_order_tolerance C, js_distance = um_maximum_forward_distance C\<rparr>\<rparr>)
          (map uq_group_args_from args))"

end
