(* ===== verification/Kchat_Process_Correct.thy ===== *)
theory Kchat_Process_Correct
  imports Kchat_Process "HOL-Library.Sublist"
begin

text \<open>
  What \<open>process_all_messages\<close> guarantees: which groups appear in its result and with what, whom it asks to
  remove, when it deletes a group, that the storage is never left half changed by a commit, and that
  it only touches the statuses of the groups it is given.
\<close>

section \<open>Statuses of other groups\<close>

definition status_map :: "world \<Rightarrow> string \<rightharpoonup> string" where
  "status_map w = (case tables (status w) of None \<Rightarrow> Map.empty | Some rows \<Rightarrow> map_of rows)"

definition status_wf :: "world \<Rightarrow> bool" where
  "status_wf w \<longleftrightarrow> (case tables (status w) of None \<Rightarrow> True | Some rows \<Rightarrow> status_keys rows)"

text \<open>An action that changes no status but that of one group, and keeps the primary key.\<close>

definition only_status :: "string \<Rightarrow> (world, 'e, 'a) action \<Rightarrow> bool" where
  "only_status g f \<longleftrightarrow> (\<forall>w r w'. f w = (r, w') \<longrightarrow>
     (\<forall>k. k \<noteq> g \<longrightarrow> status_map w' k = status_map w k) \<and> (status_wf w \<longrightarrow> status_wf w'))"

lemma only_status_sbind: "only_status g f \<Longrightarrow> (\<And>a. only_status g (k a)) \<Longrightarrow> only_status g (sbind f k)"
  unfolding only_status_def
proof (intro allI impI)
  fix w r w'
  assume f: "\<forall>w r w'. f w = (r, w') \<longrightarrow> (\<forall>k. k \<noteq> g \<longrightarrow> status_map w' k = status_map w k) \<and> (status_wf w \<longrightarrow> status_wf w')"
    and k: "\<And>a. \<forall>w r w'. k a w = (r, w') \<longrightarrow> (\<forall>k. k \<noteq> g \<longrightarrow> status_map w' k = status_map w k) \<and> (status_wf w \<longrightarrow> status_wf w')"
    and run: "sbind f k w = (r, w')"
  obtain q w1 where q: "f w = (q, w1)" by (cases "f w")
  show "(\<forall>k. k \<noteq> g \<longrightarrow> status_map w' k = status_map w k) \<and> (status_wf w \<longrightarrow> status_wf w')"
  proof (cases q)
    case (Inl e)
    with run q have "w' = w1" by (simp add: sbind_def)
    with f q show ?thesis by blast
  next
    case (Inr a)
    with run q have "k a w1 = (r, w')" by (simp add: sbind_def)
    with k [of a] f q show ?thesis by fastforce
  qed
qed

lemma only_status_simps: "only_status g (sret a)" "only_status g (slift r)"
  by (auto simp: only_status_def)

lemma only_status_on_mls: "only_status g (on_mls f)"
  by (auto simp: only_status_def on_mls_def status_map_def status_wf_def split: prod.splits)

lemma only_status_ignore: "only_status g f \<Longrightarrow> only_status g (ignore_error f)"
  unfolding only_status_def ignore_error_def by (metis prod.collapse prod.inject)

lemma only_status_insert: "only_status g (on_status (insert_or_update_group_status disp g op))"
  unfolding only_status_def on_status_def
proof (intro allI impI)
  fix w w' :: world and r
  assume run: "(case insert_or_update_group_status disp g op (status w) of (r, d) \<Rightarrow> (map_err Fault_Error r, w\<lparr>status := d\<rparr>)) = (r, w')"
  obtain q d where q: "insert_or_update_group_status disp g op (status w) = (q, d)" by fastforce
  from insert_status_result [OF q] run q show "(\<forall>k. k \<noteq> g \<longrightarrow> status_map w' k = status_map w k) \<and> (status_wf w \<longrightarrow> status_wf w')"
    by (cases q) (auto simp: status_map_def status_wf_def map_of_set_status status_keys_set)
qed

lemma only_status_delete: "only_status g (on_status (delete_group_status disp cdisp cdbg g))"
  unfolding only_status_def on_status_def
proof (intro allI impI)
  fix w w' :: world and r
  assume run: "(case delete_group_status disp cdisp cdbg g (status w) of (r, d) \<Rightarrow> (map_err Fault_Error r, w\<lparr>status := d\<rparr>)) = (r, w')"
  obtain q d where q: "delete_group_status disp cdisp cdbg g (status w) = (q, d)" by fastforce
  from delete_status_result [OF q] run q show "(\<forall>k. k \<noteq> g \<longrightarrow> status_map w' k = status_map w k) \<and> (status_wf w \<longrightarrow> status_wf w')"
    by (cases q) (auto simp: status_map_def status_wf_def map_of_delete_status status_keys_delete)
qed

lemma only_status_get: "only_status g (on_status (get_group_pending_operation disp i))"
  by (auto simp: only_status_def on_status_def status_map_def status_wf_def split: prod.splits dest!: get_status_result)

lemma only_status_finish: "only_status g (finish_group E args grp)"
  by (auto simp: only_status_def finish_group_def status_map_def status_wf_def split: prod.splits)

lemmas only_status_intros = only_status_sbind only_status_simps only_status_on_mls only_status_ignore
  only_status_insert only_status_delete only_status_get only_status_finish

lemma only_status_resolve: "only_status (gm_group_id args) (resolve_pending E args g own pending first)"
  by (auto simp: resolve_pending_def merge_pending_in_storage_def clear_pending_in_storage_def forget_group_def
      mark_resolved_def Let_def intro!: only_status_intros split: pending_operation.split option.split)

lemma only_status_mls: "only_status g f \<Longrightarrow> only_status g (\<lambda>w. f (w\<lparr>mls := d\<rparr>))"
  unfolding only_status_def status_map_def status_wf_def by fastforce

lemma only_status_group: "only_status (gm_group_id args) (process_group E args)"
  unfolding only_status_def
proof (intro allI impI)
  fix w r w'
  assume run: "process_group E args w = (r, w')"
  obtain q d where q: "load_group_with_epoch_message_secrets (pe_sql E) (group_with_epoch_message_secrets (pe_load E) (pe_mls E))
      (gm_group_id args) (map msg_epoch (filter (\<lambda>m. msg_type m \<noteq> Type_Welcome) (gm_messages args))) (mls w) = (q, d)" by fastforce
  have ok: "(\<forall>k. k \<noteq> gm_group_id args \<longrightarrow> status_map w' k = status_map w k) \<and> (status_wf w \<longrightarrow> status_wf w')"
    if "only_status (gm_group_id args) f" "f (w\<lparr>mls := d\<rparr>) = (r, w')"
    for f :: "(world, process_fault, bool \<times> group_result option) action"
    using only_status_mls [OF that(1), of d] that(2) unfolding only_status_def by blast
  have pair: "only_status i (case p of (g, deleted) \<Rightarrow> f g deleted)"
    if "\<And>g deleted. only_status i (f g deleted)" for i p and f :: "_ \<Rightarrow> _ \<Rightarrow> (world, process_fault, bool \<times> group_result option) action"
    using that by (cases p) simp
  show "(\<forall>k. k \<noteq> gm_group_id args \<longrightarrow> status_map w' k = status_map w k) \<and> (status_wf w \<longrightarrow> status_wf w')"
  proof (cases q)
    case (Inl e)
    have "only_status (gm_group_id args) (sbind (finish_group E args None) (\<lambda>res. sret (False, Some res)))"
      by (intro only_status_intros)
    moreover have "sbind (finish_group E args None) (\<lambda>res. sret (False, Some res)) (w\<lparr>mls := d\<rparr>) = (r, w')"
      using Inl run q by (simp add: process_group_def)
    ultimately show ?thesis by (rule ok)
  next
    case (Inr existing)
    show ?thesis
    proof (cases "own_id_from_leaf_node (pe_mls E) existing")
      case None
      with Inr run q show ?thesis by (auto simp: process_group_def status_map_def status_wf_def)
    next
      case (Some own)
      let ?f = "sbind (on_status (get_group_pending_operation (pe_sql E) (gm_group_id args))) (\<lambda>text.
               let pending = pending_operation_from text in
               sbind (slift (get_first_message (group_epoch (pe_mls E) existing) args pending)) (\<lambda>first_message.
               sbind (resolve_pending E args existing own pending first_message) (\<lambda>(g, deleted).
               sbind (finish_group E args g) (\<lambda>res.
               sret (deleted, Some res)))))"
      have "only_status (gm_group_id args) ?f"
        unfolding Let_def by (intro only_status_intros only_status_resolve pair)
      moreover have "?f (w\<lparr>mls := d\<rparr>) = (r, w')" using Inr Some run q by (simp add: process_group_def)
      ultimately show ?thesis by (rule ok)
    qed
  qed
qed

lemma only_status_groups:
  assumes "process_groups E argss result w = (r, w')"
  shows "(\<forall>k. k \<notin> gm_group_id ` set argss \<longrightarrow> status_map w' k = status_map w k) \<and> (status_wf w \<longrightarrow> status_wf w')"
  using assms
proof (induction argss arbitrary: result w)
  case Nil
  then show ?case by simp
next
  case (Cons args argss)
  obtain q w1 where q: "process_group E args w = (q, w1)" by fastforce
  from only_status_group [of args E] q have
    step: "(\<forall>k. k \<noteq> gm_group_id args \<longrightarrow> status_map w1 k = status_map w k) \<and> (status_wf w \<longrightarrow> status_wf w1)"
    unfolding only_status_def by blast
  show ?case
  proof (cases q)
    case (Inl e)
    with Cons.prems q step show ?thesis by (auto simp: sbind_def)
  next
    case (Inr dr)
    obtain deleted res where dr: "dr = (deleted, res)" by fastforce
    with Inr q Cons.prems have "process_groups E argss (append_result (gm_group_id args) deleted res result) w1 = (r, w')"
      by (simp add: sbind_def)
    from Cons.IH [OF this] step show ?thesis by auto
  qed
qed

text \<open>C17: processing messages only touches the statuses of the groups it is given. Whether it succeeds or
  fails half way, and whatever the engine does, the status of every other group is as before, and the
  primary key of the status table is kept.\<close>

theorem other_statuses_untouched:
  assumes "process_all_messages E argss w = (r, w')"
  shows "(\<forall>k. k \<notin> gm_group_id ` set argss \<longrightarrow> status_map w' k = status_map w k) \<and> (status_wf w \<longrightarrow> status_wf w')"
  using assms unfolding process_all_messages_def by (rule only_status_groups)

section \<open>When a group is deleted\<close>

text \<open>A pending creation or join lost: the server has another tree at epoch 0, or the first commit after
  the group's epoch is missing or someone else's.\<close>

definition lost :: "('g, 'o) process_env \<Rightarrow> all_messages_of_group \<Rightarrow> 'g \<Rightarrow> string \<Rightarrow> pending_operation \<Rightarrow> mls_message option \<Rightarrow> bool" where
  "lost E args g own pending first \<longleftrightarrow>
     (pending = Op_CreateGroup \<or> pending = Op_JoinByExternalCommit) \<and>
     (if pending = Op_CreateGroup \<and> group_epoch (pe_mls E) g = 0
      then gm_pending_epoch args = 0 \<and> group_tree_hash (pe_mls E) g \<noteq> gm_pending_tree_hash args
      else (\<forall>msg. first = Some msg \<longrightarrow> \<not> sender_matches_member_id own (sender msg)))"

lemma storage_steps_result:
  "merge_pending_in_storage E i w = (Inr res, w') \<Longrightarrow> \<not> snd res \<and> fst res \<noteq> None"
  "clear_pending_in_storage E i w = (Inr res, w') \<Longrightarrow> \<not> snd res \<and> fst res \<noteq> None"
  "forget_group E i w = (Inr res, w') \<Longrightarrow> res = (None, True)"
  by (auto simp: merge_pending_in_storage_def clear_pending_in_storage_def forget_group_def elim!: sbind_InrE)

text \<open>C3: a group is deleted only when its pending creation or join has lost. If resolving the pending
  operation of a group succeeds, the group is deleted exactly if a creation or an external join was
  pending and lost: at epoch 0 of a creation the server's tree differs, otherwise no commit, or
  somebody else's, follows the epoch of the group. A group whose own commit won, a group with a pending
  tree update and a group with nothing pending are always kept.\<close>

theorem deleted_iff_lost:
  assumes "resolve_pending E args g own pending first w = (Inr (res, deleted), w')"
  shows "(deleted \<longleftrightarrow> lost E args g own pending first) \<and> (deleted \<longleftrightarrow> res = None)"
proof -
  note cases = storage_steps_result
  show ?thesis
  proof (cases "pending = Op_CreateGroup \<or> pending = Op_JoinByExternalCommit")
    case False
    with assms show ?thesis
      by (cases pending) (auto simp: resolve_pending_def lost_def Let_def mark_resolved_def ignore_error_def
          elim!: sbind_InrE split: option.splits if_splits dest!: cases)
  next
    case True
    with assms show ?thesis
      by (cases "pending = Op_CreateGroup \<and> group_epoch (pe_mls E) g = 0"; cases "gm_pending_epoch args = 0"; cases first)
        (auto simp: resolve_pending_def lost_def Let_def mark_resolved_def ignore_error_def
          elim!: sbind_InrE split: option.splits if_splits dest!: cases)
  qed
qed

section \<open>The status after a resolution\<close>

definition healthy_status :: "world \<Rightarrow> bool" where
  "healthy_status w \<longleftrightarrow> faults (status w) = [] \<and> (\<exists>rows. tables (status w) = Some rows)"

lemma delete_status_healthy:
  assumes "faults d = []" and "tables d = Some rows"
  shows "delete_group_status disp cdisp cdbg g d = (Inr (), d\<lparr>tables := Some (filter (\<lambda>r. fst r \<noteq> g) rows)\<rparr>)"
  using assms
  by (simp add: delete_group_status_def sbind_def smap_err_def prepare_status_def execute_status_def)

lemma insert_status_healthy:
  assumes "faults d = []" and "tables d = Some rows"
  shows "insert_or_update_group_status disp g op d =
    (Inr (), d\<lparr>tables := Some (set_status g (pending_operation_text op) rows)\<rparr>)"
  using assms
  by (simp add: insert_or_update_group_status_def sbind_def smap_err_def prepare_status_def execute_status_def)

lemma on_mls_healthy: "healthy_status w \<Longrightarrow> on_mls f w = (r, w') \<Longrightarrow> healthy_status w'"
  by (auto simp: on_mls_def healthy_status_def split: prod.splits)

lemma storage_steps_healthy:
  assumes "healthy_status w"
  shows "merge_pending_in_storage E i w = (r, w') \<Longrightarrow> healthy_status w'"
    and "clear_pending_in_storage E i w = (r, w') \<Longrightarrow> healthy_status w'"
    and "forget_group E i w = (r, w') \<Longrightarrow> healthy_status w'"
proof -
  show "merge_pending_in_storage E i w = (r, w') \<Longrightarrow> healthy_status w'"
    "clear_pending_in_storage E i w = (r, w') \<Longrightarrow> healthy_status w'"
    using assms
    by (auto simp: merge_pending_in_storage_def clear_pending_in_storage_def sbind_def
        split: prod.splits sum.splits dest: on_mls_healthy)
  assume run: "forget_group E i w = (r, w')"
  obtain q w1 where q: "on_mls (in_group_transaction E i (core_delete_group (pe_mls E))) w = (q, w1)" by fastforce
  have h: "healthy_status w1" using assms q by (rule on_mls_healthy)
  then obtain rows where rows: "faults (status w1) = []" "tables (status w1) = Some rows" by (auto simp: healthy_status_def)
  show "healthy_status w'"
    using run q h rows delete_status_healthy [OF rows]
    by (cases q) (auto simp: forget_group_def sbind_def ignore_error_def on_status_def healthy_status_def)
qed

lemma mark_resolved_healthy:
  assumes "healthy_status w" and "mark_resolved E i w = (r, w')"
  shows "status_map w' i = Some OP_NONE"
proof -
  from assms(1) obtain rows where rows: "faults (status w) = []" "tables (status w) = Some rows" by (auto simp: healthy_status_def)
  from assms(2) insert_status_healthy [OF rows] show ?thesis
    by (auto simp: mark_resolved_def ignore_error_def on_status_def status_map_def map_of_set_status)
qed

text \<open>C39: A resolved operation is no longer pending. On a healthy status database, when the pending creation,
  external join or tree update of a group has been resolved, by merging, clearing or deleting, the
  database has the status \<open>none\<close> for the group. A creation whose first epoch the server has not yet
  confirmed stays pending. The status \<open>none\<close> is stored also for a group that has just been deleted,
  right after its status row has been deleted.\<close>

theorem resolved_status_none:
  assumes "resolve_pending E args g own pending first w = (Inr res, w')" and "healthy_status w"
    and "pending = Op_CreateGroup \<or> pending = Op_JoinByExternalCommit \<or> pending = Op_UpdateTree"
  shows "if pending = Op_CreateGroup \<and> group_epoch (pe_mls E) g = 0 \<and> gm_pending_epoch args \<noteq> 0
    then res = (Some g, False) \<and> w' = w
    else status_map w' (gm_group_id args) = Some OP_NONE"
proof (cases "pending = Op_CreateGroup \<and> group_epoch (pe_mls E) g = 0 \<and> gm_pending_epoch args \<noteq> 0")
  case True
  with assms(1) show ?thesis by (auto simp: resolve_pending_def Let_def)
next
  case False
  have "\<exists>step. resolve_pending E args g own pending first = sbind step (\<lambda>res. sbind (mark_resolved E (gm_group_id args)) (\<lambda>_. sret res)) \<and>
      (step = merge_pending_in_storage E (gm_group_id args) \<or> step = clear_pending_in_storage E (gm_group_id args) \<or>
       step = forget_group E (gm_group_id args))"
    using assms(3) False by (cases first) (auto simp: resolve_pending_def Let_def)
  then obtain step where step: "sbind step (\<lambda>res. sbind (mark_resolved E (gm_group_id args)) (\<lambda>_. sret res)) w = (Inr res, w')"
    "step = merge_pending_in_storage E (gm_group_id args) \<or> step = clear_pending_in_storage E (gm_group_id args) \<or>
       step = forget_group E (gm_group_id args)"
    using assms(1) by auto
  from step(1) obtain w1 u where w1: "step w = (Inr res, w1)" and m: "mark_resolved E (gm_group_id args) w1 = (Inr u, w')"
    by (auto elim!: sbind_InrE)
  from step(2) w1 have "healthy_status w1" using storage_steps_healthy [OF assms(2)] by metis
  from mark_resolved_healthy [OF this m] False show ?thesis by auto
qed

section \<open>Removals and errors\<close>

lemma commit_step_error:
  assumes "commit_step E i msg p d = (k, p', d')"
  shows "(k \<longrightarrow> pr_error p' = pr_error p) \<and> (\<not> k \<longrightarrow> pr_remove p' = []) \<and>
    set (pr_remove p') \<subseteq> set (pr_remove p) \<and> (distinct (map fst (pr_remove p)) \<longrightarrow> distinct (map fst (pr_remove p'))) \<and>
    pr_readd p' = pr_readd p"
  using assms
  by (auto simp: commit_step_def reload_step_def apply_commit_def drop_removed_def stop_with_def Let_def distinct_map_filter
      split: option.splits prod.splits sum.splits if_splits bool.splits)

lemma readd_step_keeps:
  "pr_error (readd_step E latest msg p) = pr_error p" "pr_remove (readd_step E latest msg p) = pr_remove p"
  "distinct (pr_readd p) \<Longrightarrow> distinct (pr_readd (readd_step E latest msg p))"
  by (auto simp: readd_step_def distinct_insert split: option.splits)

lemma welcome_step_keeps:
  "welcome_step E msg p d = (p', d') \<Longrightarrow>
     pr_error p' = pr_error p \<and> pr_remove p' = pr_remove p \<and> pr_readd p' = pr_readd p"
  by (auto simp: welcome_step_def split: prod.splits sum.splits)

lemma process_messages_result:
  assumes "process_messages E i latest msgs p d = (p', d')" and "pr_error p = None"
    and "distinct (map fst (pr_remove p))" and "distinct (pr_readd p)"
  shows "(pr_error p' \<noteq> None \<longrightarrow> pr_remove p' = []) \<and> set (pr_remove p') \<subseteq> set (pr_remove p) \<and>
    distinct (map fst (pr_remove p')) \<and> distinct (pr_readd p')"
  using assms
proof (induction msgs arbitrary: p d)
  case Nil
  then show ?case by simp
next
  case (Cons msg msgs)
  show ?case
  proof (cases "msg_type msg")
    case Type_Welcome
    obtain p1 d1 where w: "welcome_step E msg p d = (p1, d1)" by fastforce
    with Cons.IH [of p1 d1] Cons.prems Type_Welcome welcome_step_keeps [OF w] show ?thesis by simp
  next
    case Type_Commit
    obtain k p1 d1 where c: "commit_step E i msg p d = (k, p1, d1)" by (cases "commit_step E i msg p d")
    note e = commit_step_error [OF c]
    show ?thesis
    proof (cases k)
      case True
      with Cons.IH [of p1 d1] Cons.prems Type_Commit c e show ?thesis by auto
    next
      case False
      with Cons.prems Type_Commit c e show ?thesis by auto
    qed
  next
    case Type_Proposal
    with Cons.IH [of "readd_step E latest msg p" d] Cons.prems show ?thesis by (simp add: readd_step_keeps)
  next
    case Type_Unknown
    with Cons.IH [of p d] Cons.prems show ?thesis by simp
  qed
qed

text \<open>The group and the storage as the messages of a group are scanned: first what loading the group and
  resolving its pending operation leave, then, after each proposal, what OpenMLS leaves after reading
  it. The list is the messages still to be read.\<close>

inductive scan_at ::
    "('g, 'o) process_env \<Rightarrow> all_messages_of_group \<Rightarrow> world \<Rightarrow> mls_message list \<Rightarrow> 'g \<Rightarrow> db \<Rightarrow> bool"
    for E :: "('g, 'o) process_env" and args :: all_messages_of_group and w :: world where
  scan_at_start: "\<lbrakk>load_group_with_epoch_message_secrets (pe_sql E) (group_with_epoch_message_secrets (pe_load E) (pe_mls E))
        (gm_group_id args) (map msg_epoch (filter (\<lambda>m. msg_type m \<noteq> Type_Welcome) (gm_messages args))) (mls w) = (Inr existing, d);
      own_id_from_leaf_node (pe_mls E) existing = Some own;
      on_status (get_group_pending_operation (pe_sql E) (gm_group_id args)) (w\<lparr>mls := d\<rparr>) = (Inr stored, w1);
      get_first_message (group_epoch (pe_mls E) existing) args (pending_operation_from stored) = Inr first;
      resolve_pending E args existing own (pending_operation_from stored) first w1 = (Inr (Some g, deleted), w2)\<rbrakk>
    \<Longrightarrow> scan_at E args w (gm_messages args) g (mls w2)"
| scan_at_other: "\<lbrakk>scan_at E args w (msg # msgs) g d; msg_type msg \<noteq> Type_Proposal\<rbrakk> \<Longrightarrow> scan_at E args w msgs g d"
| scan_at_proposal: "\<lbrakk>scan_at E args w (msg # msgs) g d; msg_type msg = Type_Proposal;
      process_proposal_message (pe_mls E) (blob msg) (g, d) = (r, g', d')\<rbrakk>
    \<Longrightarrow> scan_at E args w msgs g' d'"

text \<open>A proposal among the messages asks for the removal of the member: a removal sent by somebody whose
  id is one of the members' ids (it is that sender who leaves), or a message that OpenMLS refuses and
  that is a custom removal for an account with a member.\<close>

definition removal_asked ::
    "('g, 'o) process_env \<Rightarrow> all_messages_of_group \<Rightarrow> world \<Rightarrow> string set \<times> string set \<Rightarrow> member_info \<times> u64 \<Rightarrow> bool" where
  "removal_asked E args w sets entry \<longleftrightarrow>
     (\<exists>msg msgs g d r g' d'. scan_at E args w (msg # msgs) g d \<and> msg_type msg = Type_Proposal \<and> snd entry = msg_epoch msg \<and>
        process_proposal_message (pe_mls E) (blob msg) (g, d) = (r, g', d') \<and>
        (case r of
           Inr p \<Rightarrow> qp_proposal p = Kind_Remove \<and> qp_sender p \<in> fst sets \<and>
             fst entry = \<lparr>client_jid = extract_jid_from_member_id (qp_sender p), mls_client_id = Some (qp_sender p),
               mls_fingerprint = Some (sender msg)\<rparr>
         | Inl _ \<Rightarrow> (\<exists>custom jid. process_custom_proposal (pe_json E) (blob msg) = Some custom \<and>
             cp_client_jid custom = Some jid \<and> cp_proposal_type custom = Custom_Remove \<and> jid \<in> snd sets \<and>
             fst entry = \<lparr>client_jid = Some jid, mls_client_id = None, mls_fingerprint = None\<rparr>)))"

text \<open>The ids and accounts are those of the group at one moment of the scan, and every candidate for
  removal was asked for.\<close>

definition scan_ok :: "('g, 'o) process_env \<Rightarrow> all_messages_of_group \<Rightarrow> world \<Rightarrow> mls_message list \<Rightarrow> 'g scan \<Rightarrow> db \<Rightarrow> bool" where
  "scan_ok E args w msgs sc d \<longleftrightarrow>
     distinct (map fst (sc_remove sc)) \<and>
     (\<forall>g. sc_group sc = Some g \<longrightarrow> scan_at E args w msgs g d) \<and>
     (\<forall>sets. sc_sets sc = Some sets \<longrightarrow>
        (\<exists>msgs g d. scan_at E args w msgs g d \<and> sets = collect_group_member_ids_and_jids (pe_mls E) g)) \<and>
     (\<forall>entry \<in> set (sc_remove sc). \<exists>sets. sc_sets sc = Some sets \<and> removal_asked E args w sets entry)"

lemma set_update: "set (AList.update k v al) \<subseteq> insert (k, v) (set al)"
  by (induction al) auto

lemma distinct_fst_update: "distinct (map fst al) \<Longrightarrow> distinct (map fst (AList.update k v al))"
  by (rule distinct_update)

lemma cached_sets_group [simp]: "cached_sets M g (sc\<lparr>sc_group := x\<rparr>) = cached_sets M g sc"
  by (simp add: cached_sets_def)

lemma scan_ok_keep:
  assumes "scan_ok E args w msgs sc d" and "sc_remove sc' = sc_remove sc" and "sc_sets sc' = sc_sets sc"
    and "\<And>g. sc_group sc' = Some g \<Longrightarrow> scan_at E args w msgs' g d'"
  shows "scan_ok E args w msgs' sc' d'"
  using assms by (simp add: scan_ok_def)

lemma scan_ok_sets:
  assumes "scan_ok E args w msgs sc d" and at: "scan_at E args w msgs' g d'"
    and "sc_remove sc' = sc_remove sc" and "sc_sets sc' = Some (cached_sets (pe_mls E) g sc)" and "sc_group sc' = Some g"
  shows "scan_ok E args w msgs' sc' d'"
  using assms by (cases "sc_sets sc") (fastforce simp: scan_ok_def cached_sets_def)+

lemma scan_ok_update:
  assumes ok: "scan_ok E args w msgs sc d" and asked: "removal_asked E args w (cached_sets (pe_mls E) g sc) (m, epoch)"
    and at: "scan_at E args w msgs' g d'" and rem: "sc_remove sc' = AList.update m epoch (sc_remove sc)"
    and sets: "sc_sets sc' = Some (cached_sets (pe_mls E) g sc)" and g: "sc_group sc' = Some g"
  shows "scan_ok E args w msgs' sc' d'"
proof -
  let ?mid = "sc\<lparr>sc_sets := sc_sets sc', sc_group := Some g\<rparr>"
  have mid: "scan_ok E args w msgs' ?mid d'" by (rule scan_ok_sets [OF ok at]) (simp_all add: sets)
  have "set (sc_remove sc') \<subseteq> insert (m, epoch) (set (sc_remove ?mid))" using set_update rem by simp
  with mid asked sets g rem show ?thesis unfolding scan_ok_def by (auto simp: distinct_fst_update)
qed

lemma scan_proposal_ok:
  assumes ok: "scan_ok E args w (msg # msgs) sc d" and g: "sc_group sc = Some g" and msg: "msg_type msg = Type_Proposal"
    and run: "scan_proposal E msg g sc d = (sc', d')"
  shows "scan_ok E args w msgs sc' d'"
proof -
  obtain r g1 d1 where r: "process_proposal_message (pe_mls E) (blob msg) (g, d) = (r, g1, d1)"
    by (cases "process_proposal_message (pe_mls E) (blob msg) (g, d)")
  have before: "scan_at E args w (msg # msgs) g d" using ok g by (simp add: scan_ok_def)
  note at = scan_at_proposal [OF before msg r]
  let ?sets = "cached_sets (pe_mls E) g1 sc"
  have by_id: "removal_asked E args w ?sets (\<lparr>client_jid = extract_jid_from_member_id (qp_sender p), mls_client_id = Some (qp_sender p),
      mls_fingerprint = Some (sender msg)\<rparr>, msg_epoch msg)"
    if "r = Inr p" "qp_proposal p = Kind_Remove" "qp_sender p \<in> fst ?sets" for p
    unfolding removal_asked_def using before msg r that
    by (intro exI [of _ msg] exI [of _ msgs] exI [of _ g] exI [of _ d] exI [of _ r] exI [of _ g1] exI [of _ d1]) simp
  have by_jid: "removal_asked E args w ?sets (\<lparr>client_jid = Some j, mls_client_id = None, mls_fingerprint = None\<rparr>, msg_epoch msg)"
    if "r = Inl e" "process_custom_proposal (pe_json E) (blob msg) = Some c" "cp_client_jid c = Some j"
      "cp_proposal_type c = Custom_Remove" "j \<in> snd ?sets" for e c j
    unfolding removal_asked_def using before msg r that
    by (intro exI [of _ msg] exI [of _ msgs] exI [of _ g] exI [of _ d] exI [of _ r] exI [of _ g1] exI [of _ d1]) simp
  have keep: "scan_ok E args w msgs (sc\<lparr>sc_group := Some g1\<rparr>) d1"
    using at by (intro scan_ok_keep [OF ok]) simp_all
  have sets: "scan_ok E args w msgs (sc\<lparr>sc_group := Some g1, sc_sets := Some ?sets\<rparr>) d1"
    by (rule scan_ok_sets [OF ok at]) simp_all
  have update: "scan_ok E args w msgs
      (sc\<lparr>sc_group := Some g1, sc_sets := Some ?sets, sc_remove := AList.update m (msg_epoch msg) (sc_remove sc)\<rparr>) d1"
    if "removal_asked E args w ?sets (m, msg_epoch msg)" for m
    by (rule scan_ok_update [OF ok that at]) simp_all
  show ?thesis
  proof (cases r)
    case (Inl e)
    with run r keep sets update [OF by_jid [OF Inl]] show ?thesis
      by (auto simp: scan_proposal_def Let_def split: option.splits if_splits)
  next
    case (Inr p)
    with run r keep sets update [OF by_id [OF Inr]] show ?thesis
      by (auto simp: scan_proposal_def Let_def split: if_splits)
  qed
qed

lemma scan_message_ok:
  assumes ok: "scan_ok E args w (msg # msgs) sc d" and run: "scan_message E msg (sc, d) = (sc', d')"
  shows "scan_ok E args w msgs sc' d'"
proof -
  define sc1 where "sc1 = (if sc_latest sc < msg_epoch msg \<and> msg_type msg = Type_Commit then sc\<lparr>sc_latest := msg_epoch msg\<rparr> else sc)"
  have same: "scan_ok E args w (msg # msgs) sc1 d" using ok by (simp add: scan_ok_def sc1_def)
  have step: "scan_message E msg (sc, d) = (case sc_group sc1 of
      Some g \<Rightarrow> if msg_type msg = Type_Proposal then scan_proposal E msg g sc1 d else (sc1, d) | None \<Rightarrow> (sc1, d))"
    unfolding scan_message_def sc1_def Let_def by simp
  show ?thesis
  proof (cases "msg_type msg = Type_Proposal \<and> sc_group sc1 \<noteq> None")
    case True
    then obtain g where g: "sc_group sc1 = Some g" by blast
    with True run step have "scan_proposal E msg g sc1 d = (sc', d')" by simp
    with True show ?thesis by (intro scan_proposal_ok [OF same g]) simp_all
  next
    case False
    then have eq: "sc' = sc1" "d' = d" using run step by (auto split: option.splits if_splits)
    have at: "scan_at E args w msgs g d" if "sc_group sc1 = Some g" for g
    proof (rule scan_at_other)
      show "scan_at E args w (msg # msgs) g d" using same that by (simp add: scan_ok_def)
      show "msg_type msg \<noteq> Type_Proposal" using False that by simp
    qed
    show ?thesis unfolding eq by (rule scan_ok_keep [OF same refl refl at])
  qed
qed

lemma scan_messages_ok:
  assumes start: "\<And>g0. g = Some g0 \<Longrightarrow> scan_at E args w (gm_messages args) g0 d"
    and run: "scan_messages E (gm_messages args) g d = (sc, d')"
  shows "scan_ok E args w [] sc d'"
proof -
  have "scan_ok E args w ms sc0 d0 \<Longrightarrow> fold (scan_message E) ms (sc0, d0) = (sc, d') \<Longrightarrow> scan_ok E args w [] sc d'" for ms sc0 d0
  proof (induction ms arbitrary: sc0 d0)
    case (Cons m ms)
    obtain sc1 d1 where s: "scan_message E m (sc0, d0) = (sc1, d1)" by fastforce
    from Cons.IH [OF scan_message_ok [OF Cons.prems(1) s]] Cons.prems(2) s show ?case by simp
  qed simp
  from this [OF _ run [unfolded scan_messages_def]] start show ?thesis by (simp add: scan_ok_def)
qed

section \<open>The result\<close>

text \<open>The result of a group: no removals with an error, nothing twice, and every removal asked for by a
  proposal among the messages, from or for a member that the group had when they were scanned.\<close>

definition result_ok :: "('g, 'o) process_env \<Rightarrow> all_messages_of_group \<Rightarrow> world \<Rightarrow> group_result \<Rightarrow> bool" where
  "result_ok E args w res \<longleftrightarrow>
     gr_group_id res = gm_group_id args \<and>
     (gr_error res \<noteq> None \<longrightarrow> members_to_remove res = []) \<and>
     distinct (members_to_remove res) \<and> distinct (members_to_readd res) \<and>
     (members_to_remove res \<noteq> [] \<longrightarrow>
        (\<exists>msgs g d. scan_at E args w msgs g d \<and>
           (\<forall>m \<in> set (members_to_remove res). \<exists>epoch.
              removal_asked E args w (collect_group_member_ids_and_jids (pe_mls E) g) (m, epoch))))"

lemma finish_group_ok:
  assumes ord: "\<And>xs. mset (pe_order E xs) = mset xs"
    and start: "\<And>g0. g = Some g0 \<Longrightarrow> scan_at E args w (gm_messages args) g0 (mls w1)"
    and run: "finish_group E args g w1 = (r, w')"
  shows "\<exists>res. r = Inr res \<and> result_ok E args w res"
proof -
  obtain sc d1 where sc: "scan_messages E (gm_messages args) g (mls w1) = (sc, d1)" by fastforce
  obtain p d2 where p: "process_messages E (gm_group_id args) (sc_latest sc) (gm_messages args)
      \<lparr>pr_group = sc_group sc, pr_remove = sc_remove sc, pr_readd = [], pr_error = None, pr_loaded = False\<rparr> d1 = (p, d2)" by fastforce
  have ok: "scan_ok E args w [] sc d1" using start sc by (rule scan_messages_ok)
  have inv: "(pr_error p \<noteq> None \<longrightarrow> pr_remove p = []) \<and> set (pr_remove p) \<subseteq> set (sc_remove sc) \<and>
      distinct (map fst (pr_remove p)) \<and> distinct (pr_readd p)"
    using process_messages_result [OF p] ok by (simp add: scan_ok_def)
  have ordset: "set (pe_order E xs) = set xs" "distinct (pe_order E xs) \<longleftrightarrow> distinct xs" "pe_order E xs = [] \<longleftrightarrow> xs = []" for xs
    using mset_eq_setD [OF ord] mset_eq_imp_distinct_iff [OF ord] arg_cong [OF ord [of xs], of "\<lambda>m. m = {#}"] by simp_all
  have asked: "\<exists>msgs g d. scan_at E args w msgs g d \<and>
      (\<forall>m \<in> fst ` set (pr_remove p). \<exists>epoch. removal_asked E args w (collect_group_member_ids_and_jids (pe_mls E) g) (m, epoch))"
    if "pr_remove p \<noteq> []"
  proof -
    have entry: "\<exists>sets. sc_sets sc = Some sets \<and> removal_asked E args w sets entry" if "entry \<in> set (pr_remove p)" for entry
      using ok inv that unfolding scan_ok_def by blast
    from that entry [of "hd (pr_remove p)"] obtain sets where sets: "sc_sets sc = Some sets" by auto
    with ok obtain msgs g d where g: "scan_at E args w msgs g d" "sets = collect_group_member_ids_and_jids (pe_mls E) g"
      unfolding scan_ok_def by blast
    have "\<exists>epoch. removal_asked E args w (collect_group_member_ids_and_jids (pe_mls E) g) (m, epoch)"
      if "m \<in> fst ` set (pr_remove p)" for m
      using that entry sets g(2) by fastforce
    with g(1) show ?thesis by blast
  qed
  show ?thesis
    using run sc p inv asked by (auto simp: finish_group_def result_ok_def ordset)
qed

lemma process_group_ok:
  assumes ord: "\<And>xs. mset (pe_order E xs) = mset xs" and run: "process_group E args w = (Inr (deleted, res), w')"
  shows "case res of None \<Rightarrow> \<not> deleted | Some r \<Rightarrow> result_ok E args w r"
proof -
  note start = scan_at_start
  show ?thesis
    using run
    by (fastforce simp: process_group_def Let_def slift_def elim!: sbind_InrE dest!: finish_group_ok [OF ord, where w = w, rotated]
        intro: start split: prod.splits sum.splits option.splits)
qed

lemma process_groups_ok:
  assumes ord: "\<And>xs. mset (pe_order E xs) = mset xs"
  shows "process_groups E argss result w = (Inr result', w') \<Longrightarrow>
    \<exists>results deleted. group_results result' = group_results result @ results \<and> deleted_groups result' = deleted_groups result @ deleted \<and>
      subseq (map gr_group_id results) (map gm_group_id argss) \<and> subseq deleted (map gr_group_id results) \<and>
      (\<forall>r \<in> set results. \<exists>before args after before_result w1. argss = before @ args # after \<and>
         process_groups E before result w = (Inr before_result, w1) \<and> result_ok E args w1 r)"
proof (induction argss arbitrary: result w)
  case Nil
  then show ?case by simp
next
  case (Cons args argss)
  from Cons.prems obtain deleted res w1 where g: "process_group E args w = (Inr (deleted, res), w1)"
    and rest: "process_groups E argss (append_result (gm_group_id args) deleted res result) w1 = (Inr result', w')"
    by (auto elim!: sbind_InrE)
  note ok = process_group_ok [OF ord g]
  let ?at = "\<lambda>r. \<exists>before args' after before_result w1. args # argss = before @ args' # after \<and>
      process_groups E before result w = (Inr before_result, w1) \<and> result_ok E args' w1 r"
  from Cons.IH [OF rest] obtain results more where r:
    "group_results result' = group_results result @ (case res of None \<Rightarrow> [] | Some r \<Rightarrow> [r]) @ results"
    "deleted_groups result' = deleted_groups result @ (if deleted then [gm_group_id args] else []) @ more"
    "subseq (map gr_group_id results) (map gm_group_id argss)" "subseq more (map gr_group_id results)"
    and later: "\<forall>r \<in> set results. \<exists>before args' after before_result w2. argss = before @ args' # after \<and>
      process_groups E before (append_result (gm_group_id args) deleted res result) w1 = (Inr before_result, w2) \<and> result_ok E args' w2 r"
    by (auto simp: append_result_def)
  have results: "?at r" if "r \<in> set results" for r
  proof -
    from later that obtain before args' after before_result w2 where b: "argss = before @ args' # after"
      "process_groups E before (append_result (gm_group_id args) deleted res result) w1 = (Inr before_result, w2)" "result_ok E args' w2 r"
      by blast
    then show ?thesis using g
      by (intro exI [of _ "args # before"] exI [of _ args'] exI [of _ after] exI [of _ before_result] exI [of _ w2]) (simp add: sbind_def)
  qed
  show ?case
  proof (cases res)
    case None
    with r ok results show ?thesis by (intro exI [of _ results] exI [of _ more]) auto
  next
    case (Some x)
    with ok have x: "result_ok E args w x" "gr_group_id x = gm_group_id args" by (auto simp: result_ok_def)
    have "?at x" using x(1) by (intro exI [of _ "[]"] exI [of _ args] exI [of _ argss] exI [of _ result] exI [of _ w]) simp
    with r Some x(2) results show ?thesis
      by (intro exI [of _ "x # results"] exI [of _ "(if deleted then [gm_group_id args] else []) @ more"]) auto
  qed
qed

text \<open>C2: the result of processing is consistent. If it succeeds, the groups in the result are groups of the
  input, in their order and each at most once per entry, and the deleted groups are among them in the
  same order. The result of a group that stopped with a storage error asks to remove nobody; nobody is
  listed twice; and everybody to be removed was asked for by a proposal that the scan of the group's
  messages read: a removal proposal that OpenMLS accepted, sent by a member of the group, or a custom
  removal for the account of a member. The members are those of one group in memory: the one this run
  left after loading it, resolving its pending operation and reading some of its messages, in the world
  that the earlier groups of the input left.\<close>

theorem process_results_consistent:
  assumes "process_all_messages E argss w = (Inr result, w')" and "\<And>xs. mset (pe_order E xs) = mset xs"
  shows "subseq (map gr_group_id (group_results result)) (map gm_group_id argss) \<and>
    subseq (deleted_groups result) (map gr_group_id (group_results result)) \<and>
    (\<forall>r \<in> set (group_results result). \<exists>before args after before_result w1. argss = before @ args # after \<and>
       process_all_messages E before w = (Inr before_result, w1) \<and> result_ok E args w1 r)"
  using process_groups_ok [OF assms(2) assms(1) [unfolded process_all_messages_def]] by (auto simp: process_all_messages_def)

section \<open>Storage and commits\<close>

text \<open>What can go wrong when a commit message is applied: the pool or the engine refuses before OpenMLS
  runs; OpenMLS refuses the message, and its error travels as a conversion failure; or the engine
  refuses the commit of the transaction. In each case the error and the group in memory after it.\<close>

definition commit_failure ::
    "('g, 'o) process_env \<Rightarrow> mls_message \<Rightarrow> 'g \<Rightarrow> db \<Rightarrow> sql_error \<Rightarrow> 'g \<Rightarrow> bool" where
  "commit_failure E msg g d e g' \<longleftrightarrow>
     (\<exists>f. Some f \<in> set (faults d) \<and> (e = f \<or> e = ToSqlConversionFailure (fault_text f)) \<and> g' = g) \<or>
     (\<exists>d1 d2 err. tables d1 = tables d \<and> e = ToSqlConversionFailure (display err) \<and>
        process_operation_message (pe_mls E) (blob msg) (g, d1) = (Inl err, g', d2)) \<or>
     (\<exists>d1 d2 res. tables d1 = tables d \<and> Some e \<in> set (faults d2) \<and>
        process_operation_message (pe_mls E) (blob msg) (g, d1) = (Inr res, g', d2))"

lemma engine_fault: "engine d = (Inl e, d') \<Longrightarrow> Some e \<in> set (faults d)"
  by (auto simp: engine_def split: list.splits option.splits)

lemma engine_faults_left: "engine d = (r, d') \<Longrightarrow> set (faults d') \<subseteq> set (faults d)"
  by (auto simp: engine_def split: list.splits)

lemma checkout_fault: "checkout d = (Inl e, d') \<Longrightarrow> \<exists>f. Some f \<in> set (faults d) \<and> e = ToSqlConversionFailure (fault_text f)"
  by (auto simp: checkout_def smap_err_Inl dest!: engine_fault)

lemma checkout_faults_left: "checkout d = (r, d') \<Longrightarrow> set (faults d') \<subseteq> set (faults d)"
  by (auto simp: checkout_def smap_err_def split: prod.splits dest!: engine_faults_left)

lemma begin_fault:
  assumes "sbind checkout (\<lambda>_. engine) d = (Inl e, d')"
  shows "\<exists>f. Some f \<in> set (faults d) \<and> (e = f \<or> e = ToSqlConversionFailure (fault_text f))"
  using assms
  by (fastforce simp: sbind_def split: prod.splits sum.splits dest: checkout_fault engine_fault checkout_faults_left)

lemma begin_left:
  assumes "sbind checkout (\<lambda>_. engine) d = (r, d')"
  shows "tables d' = tables d \<and> set (faults d') \<subseteq> set (faults d)"
  using assms
  by (fastforce simp: sbind_def split: prod.splits sum.splits
      dest: checkout_result engine_result checkout_faults_left engine_faults_left)

lemma captured_transaction_result:
  assumes "captured_transaction (process_operation_message (pe_mls E) (blob msg)) (g, d) = (r, g', d')"
  shows "case r of
      Inl e \<Rightarrow> tables d' = tables d \<and> commit_failure E msg g d e g'
    | Inr res \<Rightarrow> \<exists>d1 d2. tables d1 = tables d \<and> tables d' = tables d2 \<and>
        process_operation_message (pe_mls E) (blob msg) (g, d1) = (Inr res, g', d2)"
proof -
  let ?f = "process_operation_message (pe_mls E) (blob msg)"
  obtain q d1 where q: "sbind checkout (\<lambda>_. engine) d = (q, d1)" by fastforce
  note left = begin_left [OF q]
  show ?thesis
  proof (cases q)
    case (Inl e)
    from begin_fault [OF q [unfolded Inl]] have "commit_failure E msg g d e g" by (auto simp: commit_failure_def)
    with Inl assms q left show ?thesis by (auto simp: captured_transaction_def)
  next
    case (Inr u)
    obtain x d2 where x: "engine d1 = (x, d2)" by fastforce
    show ?thesis
    proof (cases x)
      case (Inl e)
      with engine_fault [of d1 e d2] x left have "commit_failure E msg g d e g" by (auto simp: commit_failure_def)
      with Inr Inl assms q x left show ?thesis by (auto simp: captured_transaction_def)
    next
      case (Inr u')
      obtain y g1 d3 where y: "?f (g, d2) = (y, g1, d3)" by (cases "?f (g, d2)")
      obtain z d4 where z: "engine d3 = (z, d4)" by fastforce
      have d2: "tables d2 = tables d" using left engine_result [OF x] by simp
      show ?thesis
      proof (cases y)
        case (Inl err)
        with y d2 have "commit_failure E msg g d (ToSqlConversionFailure (display err)) g1"
          unfolding commit_failure_def by blast
        with Inl \<open>x = Inr u'\<close> \<open>q = Inr u\<close> assms q x y d2 left show ?thesis by (auto simp: captured_transaction_def)
      next
        case (Inr res)
        show ?thesis
        proof (cases z)
          case (Inl e)
          with engine_fault [of d3 e d4] z y d2 \<open>y = Inr res\<close> have "commit_failure E msg g d e g1"
            unfolding commit_failure_def by blast
          with Inl \<open>y = Inr res\<close> \<open>x = Inr u'\<close> \<open>q = Inr u\<close> assms q x y z d2 left show ?thesis
            by (auto simp: captured_transaction_def)
        next
          case (Inr u'')
          with \<open>y = Inr res\<close> \<open>x = Inr u'\<close> \<open>q = Inr u\<close> assms q x y z
          have "r = Inr res" "g' = g1" "d' = d4" by (auto simp: captured_transaction_def)
          with \<open>y = Inr res\<close> y d2 engine_result [OF z] show ?thesis by auto
        qed
      qed
    qed
  qed
qed

text \<open>C11: a commit changes the storage completely or not at all. Applying a commit message either runs OpenMLS
  in a transaction that is committed, and then the storage is what OpenMLS left and nothing but the
  group is new in the progress; or the tables of the storage are exactly as before, and the error is
  that of the pool, the engine or OpenMLS that stopped the transaction. With that error processing
  stops exactly when its log line is reported as a failure of the storage: then the line and its code
  are the group's error and its removals are dropped; otherwise only the group is new. In every case the
  group is the one OpenMLS left in memory.\<close>

theorem commit_all_or_nothing:
  assumes "apply_commit E i msg g p d = (go_on, p', d')"
  shows "(\<exists>d1 d2 g' res. tables d1 = tables d \<and> tables d' = tables d2 \<and> go_on \<and> p' = p\<lparr>pr_group := Some g'\<rparr> \<and>
      process_operation_message (pe_mls E) (blob msg) (g, d1) = (Inr res, g', d2)) \<or>
    (\<exists>e g'. tables d' = tables d \<and> commit_failure E msg g d e g' \<and>
      (let err = Error_ProcessMessage (pe_sql E e);
           line = ''process commit error, group '' @ i @ '': '' @ display err in
       if storage_failure line
       then \<not> go_on \<and> p' = p\<lparr>pr_group := Some g', pr_remove := [],
              pr_error := Some \<lparr>error_code = convert_to_error_code err, error_message = line\<rparr>\<rparr>
       else go_on \<and> p' = p\<lparr>pr_group := Some g'\<rparr>))"
proof -
  obtain r g' d2 where r: "captured_transaction (process_operation_message (pe_mls E) (blob msg)) (g, d) = (r, g', d2)"
    by (cases "captured_transaction (process_operation_message (pe_mls E) (blob msg)) (g, d)")
  note tx = captured_transaction_result [OF r]
  show ?thesis
  proof (cases r)
    case (Inl e)
    with assms r tx show ?thesis
      by (intro disjI2 exI [of _ e] exI [of _ g']) (auto simp: apply_commit_def Let_def stop_with_def split: if_splits)
  next
    case (Inr res)
    with assms r tx show ?thesis by (auto simp: apply_commit_def)
  qed
qed

section \<open>Examples\<close>

definition sample_env :: "(sample_state, bytes) process_env" where
  "sample_env = \<lparr>pe_mls = sample_mls, pe_config = [],
     pe_json = \<lparr>to_vec = (\<lambda>_. Inl ''json''), from_slice = (\<lambda>_. Inl ''json'')\<rparr>,
     pe_sql = (\<lambda>_. ''sql''), pe_code = (\<lambda>_. ''code''), pe_code_debug = (\<lambda>_. ''CODE''), pe_load = (\<lambda>_. ''load''),
     pe_order = rev\<rparr>"

definition sample_world :: "string \<Rightarrow> world" where
  "sample_world operation = \<lparr>status = \<lparr>tables = Some [(''G'', operation), (''H'', ''update_tree'')], faults = []\<rparr>, mls = empty_db\<rparr>"

text \<open>A member proposes to remove \<open>b\<close>, and a commit follows.\<close>

definition sample_args :: "bytes \<Rightarrow> all_messages_of_group" where
  "sample_args tree_hash = \<lparr>gm_group_id = ''G'',
     gm_messages = [\<lparr>blob = [2, 0], msg_epoch = 0, sender = ''f'', msg_type = Type_Proposal\<rparr>,
                    \<lparr>blob = [1, 0], msg_epoch = 0, sender = ''f'', msg_type = Type_Commit\<rparr>],
     gm_current_epoch = 0, gm_current_tree_hash = [], gm_pending_epoch = 0, gm_pending_tree_hash = tree_hash\<rparr>"

lemma sample_env_order: "mset (pe_order sample_env xs) = mset xs"
  by (simp add: sample_env_def)

theorem process_results_consistent_witness:
  "\<exists>result w. process_all_messages sample_env [sample_args [5]] (sample_world ''none'') = (Inr result, w) \<and>
     subseq (deleted_groups result) (map gr_group_id (group_results result)) \<and>
     map members_to_remove (group_results result) = [[\<lparr>client_jid = None, mls_client_id = Some ''b'', mls_fingerprint = Some ''f''\<rparr>]]"
proof -
  let ?run = "process_all_messages sample_env [sample_args [5]] (sample_world ''none'')"
  let ?result = "\<lparr>group_results = [\<lparr>gr_group_id = ''G'',
      members_to_remove = [\<lparr>client_jid = None, mls_client_id = Some ''b'', mls_fingerprint = Some ''f''\<rparr>],
      members_to_readd = [], gr_error = None\<rparr>], deleted_groups = []\<rparr>"
  have "fst ?run = Inr ?result" by code_simp
  then have run: "?run = (Inr ?result, snd ?run)" by (metis prod.collapse)
  from process_results_consistent [OF run sample_env_order] have
    "subseq (deleted_groups ?result) (map gr_group_id (group_results ?result))" by blast
  with run show ?thesis by (intro exI [of _ ?result] exI [of _ "snd ?run"]) simp
qed

theorem other_statuses_untouched_witness:
  "status_map (snd (process_all_messages sample_env [sample_args [9]] (sample_world ''create_group''))) ''H'' = Some ''update_tree''"
proof -
  let ?run = "process_all_messages sample_env [sample_args [9]] (sample_world ''create_group'')"
  have "?run = (fst ?run, snd ?run)" by simp
  from other_statuses_untouched [OF this] have "status_map (snd ?run) ''H'' = status_map (sample_world ''create_group'') ''H''"
    by (simp add: sample_args_def)
  then show ?thesis by (simp add: status_map_def sample_world_def)
qed

theorem deleted_iff_lost_witness:
  "lost sample_env (sample_args [9]) sample_start ''a'' Op_CreateGroup None"
proof -
  let ?run = "resolve_pending sample_env (sample_args [9]) sample_start ''a'' Op_CreateGroup None (sample_world ''create_group'')"
  have "fst ?run = Inr (None, True)" by code_simp
  then have "?run = (Inr (None, True), snd ?run)" by (metis prod.collapse)
  from deleted_iff_lost [OF this] show ?thesis by simp
qed

theorem resolved_status_none_witness:
  "status_map (snd (resolve_pending sample_env (sample_args [9]) sample_start ''a'' Op_CreateGroup None
      (sample_world ''create_group''))) ''G'' = Some ''none''"
proof -
  let ?run = "resolve_pending sample_env (sample_args [9]) sample_start ''a'' Op_CreateGroup None (sample_world ''create_group'')"
  have "fst ?run = Inr (None, True)" by code_simp
  then have run: "?run = (Inr (None, True), snd ?run)" by (metis prod.collapse)
  have h: "healthy_status (sample_world ''create_group'')" by (simp add: healthy_status_def sample_world_def)
  from resolved_status_none [OF run h] show ?thesis by (simp add: sample_args_def OP_NONE_def)
qed

text \<open>The database is locked when the commit is applied.\<close>

theorem commit_all_or_nothing_witness:
  "\<exists>p d. apply_commit (sample_env\<lparr>pe_sql := \<lambda>_. ''database is locked''\<rparr>) ''G''
       \<lparr>blob = [1, 0], msg_epoch = 0, sender = ''f'', msg_type = Type_Commit\<rparr> sample_start
       \<lparr>pr_group = None, pr_remove = [], pr_readd = [], pr_error = None, pr_loaded = True\<rparr> (failing_at 3 sample_groups) = (False, p, d) \<and>
     tables d = tables sample_groups \<and> pr_error p \<noteq> None"
proof -
  let ?run = "apply_commit (sample_env\<lparr>pe_sql := \<lambda>_. ''database is locked''\<rparr>) ''G''
       \<lparr>blob = [1, 0], msg_epoch = 0, sender = ''f'', msg_type = Type_Commit\<rparr> sample_start
       \<lparr>pr_group = None, pr_remove = [], pr_readd = [], pr_error = None, pr_loaded = True\<rparr> (failing_at 3 sample_groups)"
  have "\<not> fst ?run" by code_simp
  then obtain p d where run: "?run = (False, p, d)" by (cases ?run) auto
  from commit_all_or_nothing [OF run] have "tables d = tables sample_groups \<and> pr_error p \<noteq> None"
    by (auto simp: failing_at_def Let_def split: if_splits)
  with run show ?thesis by blast
qed

end
