(* ===== verification/Uniffi_Client_Correct.thy ===== *)
theory Uniffi_Client_Correct
  imports Uniffi_Client Kchat_Process_Correct
begin

text \<open>
  What the Kotlin and Swift client guarantees: a call that works on a group changes both databases or
  neither (a deletion that fails may have removed the group's rows), and its effect on the statuses is a
  map update.
\<close>

section \<open>Calls that work on one group\<close>

definition discard :: "('s, 'e, 'a) action \<Rightarrow> ('s, 'e, unit) action" where
  "discard f = sbind f (\<lambda>_. sret ())"

text \<open>The mutating methods of the client, the group each works on, and what it does to the status of that
  group: the abstract specification of the bookkeeping.\<close>

inductive uq_group_call ::
    "('g, 'o) client_env \<Rightarrow> uq_mls \<Rightarrow> string \<Rightarrow> (world, uq_error client_fault, unit) action
      \<Rightarrow> (string option \<Rightarrow> string option) \<Rightarrow> bool"
  for E C g where
  call_create: "uq_group_call E C g (uq_create_group E C g k) (\<lambda>_. Some OP_CREATE_GROUP)"
| call_config: "uq_group_call E C g (uq_update_group_config E C g u) id"
| call_add: "uq_group_call E C g (discard (uq_add_members E C g ks))
    (\<lambda>op. if pending_operation_from op = Op_None then Some OP_UPDATE_TREE else op)"
| call_readd: "uq_group_call E C g (discard (uq_readd E C g ids ks)) (\<lambda>_. Some OP_UPDATE_TREE)"
| call_remove: "uq_group_call E C g (discard (uq_remove_members E C g ids)) (\<lambda>_. Some OP_UPDATE_TREE)"
| call_welcome: "uq_group_call E C g (uq_process_welcome E C m) id"
| call_operation: "uq_group_call E C g (discard (uq_process_operation_message E g m)) id"
| call_application: "uq_group_call E C g (discard (uq_process_application_message E g m)) id"
| call_wal: "uq_group_call E C g (discard (uq_process_application_message_with_wal E C t g i m)) id"
| call_many: "uq_group_call E C g (discard (uq_process_many_operation_messages E g ms)) id"
| call_proposal: "uq_group_call E C g (discard (uq_process_proposal_message E g m)) id"
| call_encrypt: "uq_group_call E C g (discard (uq_encrypt_message E g m)) id"
| call_join: "uq_group_call E C g (discard (uq_join_by_external_commit E C g info k)) (\<lambda>_. Some OP_JOIN_BY_EXTERNAL_COMMIT)"
| call_leave: "uq_group_call E C g (discard (uq_leave_group E g)) id"
| call_update: "uq_group_call E C g (discard (uq_update_leaf_node E g)) (\<lambda>_. Some OP_UPDATE_TREE)"
| call_merge: "uq_group_call E C g (uq_merge_pending_commit E g) (\<lambda>_. Some OP_NONE)"
| call_clear_commit: "uq_group_call E C g (uq_clear_pending_commit E g) (\<lambda>_. Some OP_NONE)"
| call_clear_proposals: "uq_group_call E C g (uq_clear_pending_proposals E g) (\<lambda>_. Some OP_NONE)"

text \<open>A call that fails leaves both databases as they were.\<close>

definition settles :: "(world, 'e, 'a) action \<Rightarrow> bool" where
  "settles f \<longleftrightarrow> (\<forall>w e w'. f w = (Inl e, w') \<longrightarrow>
     tables (mls w') = tables (mls w) \<and> tables (status w') = tables (status w))"

text \<open>A call that keeps both databases whatever happens, and one that cannot fail.\<close>

definition reads_only :: "(world, 'e, 'a) action \<Rightarrow> bool" where
  "reads_only f \<longleftrightarrow> (\<forall>w r w'. f w = (r, w') \<longrightarrow>
     tables (mls w') = tables (mls w) \<and> tables (status w') = tables (status w))"

definition infallible :: "(world, 'e, 'a) action \<Rightarrow> bool" where
  "infallible f \<longleftrightarrow> (\<forall>w. \<exists>a. fst (f w) = Inr a)"

text \<open>What a successful call does to the statuses on a healthy status database, which it keeps healthy.\<close>

definition status_effect :: "string \<Rightarrow> (string option \<Rightarrow> string option) \<Rightarrow> (world, 'e, 'a) action \<Rightarrow> bool" where
  "status_effect g upd f \<longleftrightarrow> (\<forall>w a w'. healthy_status w \<longrightarrow> f w = (Inr a, w') \<longrightarrow>
     healthy_status w' \<and> status_map w' = (status_map w)(g := upd (status_map w g)))"

text \<open>Loading a group only reads, as OpenMLS documents.\<close>

definition loads_read :: "(db, 'g, 'o) openmls \<Rightarrow> bool" where
  "loads_read M \<longleftrightarrow>
     (\<forall>i d. tables (snd (load_group_all M i d)) = tables d) \<and>
     (\<forall>i es d. tables (snd (load_group_optimize M i es d)) = tables d)"

lemma map_err_Inl_iff: "map_err f r = Inl e \<longleftrightarrow> (\<exists>x. r = Inl x \<and> e = f x)"
  by (cases r) auto

lemma settles_transaction: "settles (in_transaction E h f)"
  by (auto simp: settles_def in_transaction_def map_err_Inl_iff split: prod.splits dest: provider_transaction_settled)

lemma settles_panicking: "settles (in_panicking_transaction E h f)"
  by (auto simp: settles_def in_panicking_transaction_def map_err_Inl_iff split: prod.splits
      dest: panicking_transaction_settled)

lemma settles_then: "settles f \<Longrightarrow> (\<And>a. infallible (k a)) \<Longrightarrow> settles (sbind f k)"
  unfolding settles_def infallible_def sbind_def
  by (auto split: prod.splits sum.splits) (metis Inl_Inr_False fst_conv)+

lemma settles_after: "reads_only f \<Longrightarrow> (\<And>a. settles (k a)) \<Longrightarrow> settles (sbind f k)"
  unfolding settles_def reads_only_def sbind_def by (fastforce split: prod.splits sum.splits)

lemma settles_simps: "settles (sfail e)" "settles (slift r)" "settles (sret a)"
  by (auto simp: settles_def)

lemma reads_only_simps: "reads_only (slift r)" "reads_only (sret a)" "reads_only (sfail e)"
  by (auto simp: reads_only_def)

lemma reads_only_pending: "reads_only (pending_text E g)"
  by (auto simp: reads_only_def pending_text_def split: prod.splits sum.splits dest!: get_status_result)

lemma infallible_simps:
  "infallible (sret a)" "infallible (set_pending E g op)" "infallible (pending_text E g)"
  by (auto simp: infallible_def pending_text_def split: prod.splits sum.splits)

lemma infallible_sbind:
  assumes "infallible f" and "\<And>a. infallible (k a)"
  shows "infallible (sbind f k)"
  unfolding infallible_def
proof
  fix w
  from assms(1) obtain a where "fst (f w) = Inr a" by (auto simp: infallible_def)
  then have "sbind f k w = k a (snd (f w))" by (cases "f w") (simp add: sbind_def)
  with assms(2) [of a] show "\<exists>a. fst (sbind f k w) = Inr a" by (simp add: infallible_def)
qed

lemma infallible_if: "infallible f \<Longrightarrow> infallible g \<Longrightarrow> infallible (if b then f else g)"
  by simp

lemmas infallible_intros = infallible_sbind infallible_simps infallible_if

lemma settles_discard: "settles f \<Longrightarrow> settles (discard f)"
  unfolding discard_def by (rule settles_then) (simp_all add: infallible_simps)

text \<open>A transaction, the bookkeeping, and the conversion of the result.\<close>

lemma settles_recorded: "settles f \<Longrightarrow> settles (sbind f (\<lambda>a. sbind (set_pending E g op) (\<lambda>_. sret (c a))))"
  by (rule settles_then) (auto intro!: infallible_intros)

lemma core_group_tables:
  assumes "loads_read M" and "core_group ldisp M i ms d = (r, d')"
  shows "tables d' = tables d"
proof -
  note l = assms(1) [unfolded loads_read_def]
  have whole: "load_whole_group M j s = (q, s') \<Longrightarrow> tables s' = tables s" for j s q s'
    using l [THEN conjunct1, rule_format, of j s]
    by (auto simp: load_whole_group_def sbind_def smap_err_def split: prod.splits sum.splits)
  have opt: "load_group_optimize M j es s = (q, s') \<Longrightarrow> tables s' = tables s" for j es s q s'
    using l [THEN conjunct2, rule_format, of j es s] by simp
  from assms(2) show ?thesis
    by (cases "protocol_message_epochs M ms")
      (auto simp: core_group_def sbind_def split: prod.splits sum.splits option.splits load_error.splits if_splits
        dest!: whole opt)
qed

lemma reads_only_loaded:
  assumes "loads_read (client_mls E)"
  shows "reads_only (loaded_group E h g)"
  unfolding reads_only_def
proof (intro allI impI)
  fix w w' :: world and r
  assume run: "loaded_group E h g w = (r, w')"
  let ?load = "core_group (client_load E) (client_mls E) g []"
  obtain q d where q: "provider_transaction (\<lambda>d. case ?load d of (r, d') \<Rightarrow> (Inr r, d')) (mls w) = (q, d)" by fastforce
  from transaction_result [OF q [unfolded provider_transaction_def]] have "tables d = tables (mls w)"
    by (auto simp: boxed_def smap_err_def split: prod.splits dest!: core_group_tables [OF assms])
  with run q show "tables (mls w') = tables (mls w) \<and> tables (status w') = tables (status w)"
    by (auto simp: loaded_group_def on_client_mls_def load_group_def load_in_snapshot_def sbind_def smap_err_def
        split: prod.splits sum.splits)
qed

lemma settles_create:
  fixes E :: "('g, 'o) client_env"
  assumes "loads_read (client_mls E)"
  shows "settles (uq_create_group E C g k)"
  unfolding settles_def
proof (intro allI impI)
  fix w w' :: world and e
  assume run: "uq_create_group E C g k w = (Inl e, w')"
  obtain r w1 where l: "loaded_group E uq_from_mls g w = (r, w1)" by (cases "loaded_group E uq_from_mls g w")
  with reads_only_loaded [OF assms] have same: "tables (mls w1) = tables (mls w)" "tables (status w1) = tables (status w)"
    unfolding reads_only_def by blast+
  show "tables (mls w') = tables (mls w) \<and> tables (status w') = tables (status w)"
  proof (cases r)
    case (Inr grp)
    with run l same show ?thesis by (simp add: uq_create_group_def)
  next
    case (Inl e1)
    let ?rest = "\<lambda>f. sbind (slift (map_err Client_Error (uq_ciphersuite E C))) (\<lambda>ciphersuite.
          sbind (in_transaction E Uq_Sqlite (f ciphersuite)) (\<lambda>_. set_pending E g Op_CreateGroup))"
    have "settles (?rest f)" for f :: "'o \<Rightarrow> (db, mls_error, 'g) action"
      by (intro settles_after settles_then reads_only_simps settles_transaction infallible_intros)
    then have rest: "?rest f w1 = (Inl e, w') \<Longrightarrow> ?thesis" for f :: "'o \<Rightarrow> (db, mls_error, 'g) action"
      unfolding settles_def using same by metis
    from run l Inl show ?thesis
      by (intro rest) (simp add: uq_create_group_def Let_def)
  qed
qed

text \<open>The transaction around the cache commits when it reports a conflict, but nothing has been written.\<close>

lemma tx_load_tables:
  "tx_load_decrypted_application_message GC g m now d = (r, d') \<Longrightarrow> tables d' = tables d"
  by (auto simp: tx_load_decrypted_application_message_def message_load_in_tx_def message_load_in_connection_def
      sbind_def split: prod.splits sum.splits dest!: query_result)

lemma wal_conflict_tables:
  assumes "wal_decrypt E g i m now expires d = (Inr Wal_MessageIdConflict, d')"
  shows "tables d' = tables d"
  using assms
  by (auto simp: wal_decrypt_def Let_def smap_err_def sbind_def map_err_Inr_iff split: prod.splits sum.splits option.splits if_splits
      dest!: tx_load_tables)

lemma settles_wal: "settles (uq_process_application_message_with_wal E C t g i m)"
proof -
  have inner: "settles (sbind (in_transaction E Uq_Sqlite (wal_decrypt E g i m now expires)) (\<lambda>outcome.
      case outcome of Wal_Message result \<Rightarrow> sret result | Wal_MessageIdConflict \<Rightarrow> sfail e))" for now expires e
    unfolding settles_def
  proof (intro allI impI)
    fix w w' :: world and x
    assume run: "sbind (in_transaction E Uq_Sqlite (wal_decrypt E g i m now expires)) (\<lambda>outcome.
      case outcome of Wal_Message result \<Rightarrow> sret result | Wal_MessageIdConflict \<Rightarrow> sfail e) w = (Inl x, w')"
    obtain r d where q: "provider_transaction (wal_decrypt E g i m now expires) (mls w) = (r, d)" by fastforce
    show "tables (mls w') = tables (mls w) \<and> tables (status w') = tables (status w)"
    proof (cases r)
      case (Inl e1)
      with run q provider_transaction_settled [of _ "mls w" e1 d] show ?thesis
        by (auto simp: sbind_def in_transaction_def)
    next
      case (Inr outcome)
      with run q have out: "outcome = Wal_MessageIdConflict" "w' = w\<lparr>mls := d\<rparr>"
        by (auto simp: sbind_def in_transaction_def split: wal_outcome.splits)
      from q [unfolded Inr out(1)] have "tables d = tables (mls w)"
        by (elim provider_transaction_InrE) (auto dest: wal_conflict_tables)
      with out(2) show ?thesis by simp
    qed
  qed
  show ?thesis unfolding uq_process_application_message_with_wal_def
    by (intro settles_after [OF reads_only_simps(1)] inner)
qed

lemmas settles_intros = settles_discard settles_recorded settles_transaction settles_panicking settles_simps

lemma settles_calls:
  assumes "loads_read (client_mls E)" and "uq_group_call E C g f upd"
  shows "settles f"
  using assms(2)
proof cases
  case (call_create k)
  with settles_create [OF assms(1)] show ?thesis by simp
next
  case (call_add ks)
  show ?thesis unfolding call_add uq_add_members_def
    by (intro settles_discard settles_then settles_transaction infallible_intros)
next
  case (call_readd ids ks)
  have "settles (if b then sfail e else h)" if "settles h" for b e and h :: "(world, uq_error client_fault, u64 readd_out) action"
    using that by (simp add: settles_simps)
  then show ?thesis unfolding call_readd uq_readd_def
    by (intro settles_discard settles_after reads_only_pending) (simp add: settles_recorded settles_transaction)
next
  case (call_wal t i m)
  show ?thesis unfolding call_wal by (rule settles_discard) (rule settles_wal)
next
  case (call_proposal m)
  show ?thesis unfolding call_proposal uq_process_proposal_message_def
    by (intro settles_discard settles_then settles_transaction infallible_intros)
next
  case (call_join info k)
  show ?thesis unfolding call_join uq_join_by_external_commit_def
    by (intro settles_discard settles_after settles_recorded settles_panicking reads_only_simps)
next
  case call_merge
  show ?thesis unfolding call_merge(1) uq_merge_pending_commit_def
    by (intro settles_then settles_transaction infallible_intros)
next
  case call_clear_commit
  show ?thesis unfolding call_clear_commit(1) uq_clear_pending_commit_def
    by (intro settles_then settles_transaction infallible_intros)
next
  case call_clear_proposals
  show ?thesis unfolding call_clear_proposals(1) uq_clear_pending_proposals_def
    by (intro settles_then settles_transaction infallible_intros)
qed (simp_all add: uq_update_group_config_def uq_remove_members_def uq_process_welcome_def uq_process_operation_message_def
    uq_process_application_message_def uq_process_many_operation_messages_def uq_encrypt_message_def uq_leave_group_def
    uq_update_leaf_node_def settles_intros)

section \<open>The statuses after a call\<close>

lemma pending_text_healthy: "healthy_status w \<Longrightarrow> pending_text E g w = (Inr (status_map w g), w)"
  by (auto simp: healthy_status_def pending_text_def get_group_pending_operation_def smap_err_def sbind_def
      prepare_status_def query_status_def status_map_def status_of_map_of)

lemma set_pending_healthy:
  assumes "healthy_status w"
  shows "healthy_status (snd (set_pending E g op w)) \<and>
    status_map (snd (set_pending E g op w)) = (status_map w)(g \<mapsto> pending_operation_text op)"
proof -
  from assms obtain rows where rows: "faults (status w) = []" "tables (status w) = Some rows"
    by (auto simp: healthy_status_def)
  from insert_status_healthy [OF rows] rows show ?thesis
    by (simp add: set_pending_def healthy_status_def status_map_def map_of_set_status)
qed

lemma effect_keep: "(\<And>w a w'. f w = (Inr a, w') \<Longrightarrow> status w' = status w) \<Longrightarrow> status_effect g id f"
  by (fastforce simp: status_effect_def healthy_status_def status_map_def)

lemma effect_transaction:
  "status_effect g id (in_transaction E h f)" "status_effect g id (in_panicking_transaction E h f')"
  by (rule effect_keep, auto simp: in_transaction_def in_panicking_transaction_def split: prod.splits)+

lemma effect_lift: "status_effect g id (slift r)" "status_effect g id (sret a)" "status_effect g u (sfail e)"
  by (rule effect_keep, auto simp: slift_def split: sum.splits)+ (simp add: status_effect_def)

lemma effect_set: "status_effect g (\<lambda>_. Some (pending_operation_text op)) (set_pending E g op)"
  unfolding status_effect_def using set_pending_healthy by (metis snd_conv)

lemma effect_then:
  assumes "status_effect g u f" and "\<And>a. status_effect g v (k a)"
  shows "status_effect g (\<lambda>op. v (u op)) (sbind f k)"
  unfolding status_effect_def
proof (intro allI impI)
  fix w w' :: world and b
  assume h: "healthy_status w" and run: "sbind f k w = (Inr b, w')"
  from run obtain a w1 where s: "f w = (Inr a, w1)" "k a w1 = (Inr b, w')" by (rule sbind_InrE)
  from assms(1) h s(1) have 1: "healthy_status w1" "status_map w1 = (status_map w)(g := u (status_map w g))"
    unfolding status_effect_def by blast+
  from assms(2) [of a] 1(1) s(2) have "healthy_status w'" "status_map w' = (status_map w1)(g := v (status_map w1 g))"
    unfolding status_effect_def by blast+
  with 1(2) show "healthy_status w' \<and> status_map w' = (status_map w)(g := v (u (status_map w g)))" by simp
qed

lemma effect_after: "status_effect g u f \<Longrightarrow> (\<And>a. status_effect g id (k a)) \<Longrightarrow> status_effect g u (sbind f k)"
  using effect_then [of g u f id k] by simp

lemma effect_before: "status_effect g id f \<Longrightarrow> (\<And>a. status_effect g v (k a)) \<Longrightarrow> status_effect g v (sbind f k)"
  using effect_then [of g id f v k] by simp

lemma effect_discard: "status_effect g u f \<Longrightarrow> status_effect g u (discard f)"
  unfolding discard_def by (rule effect_after) (simp_all add: effect_lift)

lemma effect_recorded:
  "status_effect g id f \<Longrightarrow>
     status_effect g (\<lambda>_. Some (pending_operation_text op)) (sbind f (\<lambda>a. sbind (set_pending E g op) (\<lambda>_. sret (c a))))"
  by (intro effect_before effect_after [OF effect_set] effect_lift)

lemma effect_recorded_unit:
  "status_effect g id f \<Longrightarrow>
     status_effect g (\<lambda>_. Some (pending_operation_text op)) (sbind f (\<lambda>a. set_pending E g op))"
  by (rule effect_before) (simp_all add: effect_set)

lemma effect_create: "status_effect g (\<lambda>_. Some (pending_operation_text Op_CreateGroup)) (uq_create_group E C g k)"
  unfolding status_effect_def
proof (intro allI impI)
  fix w w' :: world and a
  assume h: "healthy_status w" and run: "uq_create_group E C g k w = (Inr a, w')"
  obtain r w1 where l: "loaded_group E uq_from_mls g w = (r, w1)" by (cases "loaded_group E uq_from_mls g w")
  then have same: "status w1 = status w" by (auto simp: loaded_group_def on_client_mls_def split: prod.splits)
  with h have h1: "healthy_status w1" "status_map w1 = status_map w"
    by (simp_all add: healthy_status_def status_map_def)
  from run l obtain e where "r = Inl e" by (cases r) (auto simp: uq_create_group_def)
  with run l have "\<exists>f. sbind (slift (map_err Client_Error (uq_ciphersuite E C))) (\<lambda>ciphersuite.
      sbind (in_transaction E Uq_Sqlite (f ciphersuite :: (db, mls_error, 'a) action)) (\<lambda>_. set_pending E g Op_CreateGroup)) w1 = (Inr a, w')"
    by (auto simp: uq_create_group_def Let_def)
  then obtain f where rest: "sbind (slift (map_err Client_Error (uq_ciphersuite E C))) (\<lambda>ciphersuite.
      sbind (in_transaction E Uq_Sqlite (f ciphersuite :: (db, mls_error, 'a) action)) (\<lambda>_. set_pending E g Op_CreateGroup)) w1 = (Inr a, w')"
    by blast
  have "status_effect g (\<lambda>_. Some (pending_operation_text Op_CreateGroup))
      (sbind (slift (map_err Client_Error (uq_ciphersuite E C))) (\<lambda>ciphersuite.
          sbind (in_transaction E Uq_Sqlite (f ciphersuite)) (\<lambda>_. set_pending E g Op_CreateGroup)))"
    by (intro effect_before [OF effect_lift(1)] effect_recorded_unit effect_transaction)
  with rest h1(1) have "healthy_status w' \<and>
      status_map w' = (status_map w1)(g := Some (pending_operation_text Op_CreateGroup))"
    unfolding status_effect_def by blast
  with h1 show "healthy_status w' \<and> status_map w' = (status_map w)(g := Some (pending_operation_text Op_CreateGroup))" by simp
qed

text \<open>Reading the pending operation first, on a healthy database.\<close>

lemma effect_pending:
  assumes "\<And>op w a w'. healthy_status w \<Longrightarrow> status_map w g = op \<Longrightarrow> k op w = (Inr a, w') \<Longrightarrow>
     healthy_status w' \<and> status_map w' = (status_map w)(g := upd op)"
  shows "status_effect g upd (sbind (pending_text E g) k)"
  unfolding status_effect_def
proof (intro allI impI)
  fix w w' :: world and a
  assume h: "healthy_status w" and run: "sbind (pending_text E g) k w = (Inr a, w')"
  from run have "k (status_map w g) w = (Inr a, w')" by (simp add: sbind_def pending_text_healthy [OF h])
  from assms [OF h refl this] show "healthy_status w' \<and> status_map w' = (status_map w)(g := upd (status_map w g))" .
qed

lemma effect_at:
  "status_effect g u f \<Longrightarrow> healthy_status w \<Longrightarrow> f w = (Inr a, w') \<Longrightarrow>
     healthy_status w' \<and> status_map w' = (status_map w)(g := u (status_map w g))"
  by (simp add: status_effect_def)

lemma effect_add: "status_effect g (\<lambda>op. if pending_operation_from op = Op_None then Some OP_UPDATE_TREE else op)
    (uq_add_members E C g ks)"
proof -
  have "status_effect g id (sbind (sret ()) (\<lambda>_. sret r))"
    "status_effect g (\<lambda>_. Some (pending_operation_text Op_UpdateTree)) (sbind (set_pending E g Op_UpdateTree) (\<lambda>_. sret r))" for r
    by (intro effect_after effect_set effect_lift)+
  note at = this [THEN effect_at]
  show ?thesis unfolding uq_add_members_def
  proof (intro effect_before [OF effect_transaction(1)] effect_pending)
    fix r op w a and w' :: world
    assume "healthy_status w" "status_map w g = op"
      "sbind (if pending_operation_from op = Op_None then set_pending E g Op_UpdateTree else sret ())
        (\<lambda>_. sret (uq_add_members_from r)) w = (Inr a, w')"
    then show "healthy_status w' \<and> status_map w' =
        (status_map w)(g := if pending_operation_from op = Op_None then Some OP_UPDATE_TREE else op)"
      using at(1) [of w "uq_add_members_from r" a w'] at(2) [of w "uq_add_members_from r" a w']
      by (cases "pending_operation_from op = Op_None") auto
  qed
qed

lemma effect_readd: "status_effect g (\<lambda>_. Some OP_UPDATE_TREE) (uq_readd E C g ids ks)"
proof -
  have "status_effect g (\<lambda>_. Some (pending_operation_text Op_UpdateTree)) (sbind (in_transaction E h f) (\<lambda>result.
      sbind (set_pending E g Op_UpdateTree) (\<lambda>_. sret (c result))))"
    for h :: "string \<Rightarrow> uq_error" and f and c :: "readd_result \<Rightarrow> u64 readd_out"
    by (intro effect_recorded effect_transaction)
  note at = this [THEN effect_at]
  show ?thesis unfolding uq_readd_def
  proof (intro effect_pending)
    fix op w a and w' :: world
    assume "healthy_status w" "(if op \<noteq> None \<and> the op \<noteq> OP_NONE
       then sfail (Client_Error (Uq_ReAdd (''There is a pending operation: '' @ the op)))
       else sbind (in_transaction E Uq_Sqlite
                (with_signer E g (\<lambda>signer. readd (ce_verify E) (client_mls E) signer ids ks))) (\<lambda>result.
            sbind (set_pending E g Op_UpdateTree) (\<lambda>_. sret (uq_readd_from result)))) w = (Inr a, w')"
    then show "healthy_status w' \<and> status_map w' = (status_map w)(g := Some OP_UPDATE_TREE)"
      using at [of w] by (cases "op \<noteq> None \<and> the op \<noteq> OP_NONE") (auto simp: sfail_def)
  qed
qed

lemma effect_wal: "status_effect g id (uq_process_application_message_with_wal E C t g i m)"
proof -
  have "status_effect g id (case r of Wal_Message p \<Rightarrow> sret p | Wal_MessageIdConflict \<Rightarrow> sfail e)"
    for r and e :: "uq_error client_fault"
    by (cases r) (simp_all add: effect_lift)
  then show ?thesis unfolding uq_process_application_message_with_wal_def
    by (intro effect_before [OF effect_lift(1)] effect_before [OF effect_transaction(1)])
qed

lemma effect_calls:
  assumes "uq_group_call E C g f upd"
  shows "status_effect g upd f"
  using assms
proof cases
  case (call_create k)
  with effect_create show ?thesis by simp
next
  case (call_add ks)
  show ?thesis unfolding call_add by (intro effect_discard effect_add)
next
  case (call_readd ids ks)
  show ?thesis unfolding call_readd by (intro effect_discard effect_readd)
next
  case (call_wal t i m)
  show ?thesis unfolding call_wal by (intro effect_discard effect_wal)
next
  case (call_remove ids)
  show ?thesis unfolding call_remove uq_remove_members_def
    using effect_discard [OF effect_recorded [where op = Op_UpdateTree, OF effect_transaction(1)]] by simp
next
  case (call_proposal m)
  show ?thesis unfolding call_proposal uq_process_proposal_message_def
    by (intro effect_discard effect_before effect_transaction effect_lift)
next
  case (call_join info k)
  show ?thesis unfolding call_join uq_join_by_external_commit_def
    using effect_recorded [where op = Op_JoinByExternalCommit, OF effect_transaction(2)]
    by (intro effect_discard effect_before [OF effect_lift(1)]) simp
next
  case call_update
  show ?thesis unfolding call_update uq_update_leaf_node_def
    using effect_discard [OF effect_recorded [where op = Op_UpdateTree, OF effect_transaction(1)]] by simp
next
  case call_merge
  show ?thesis unfolding call_merge uq_merge_pending_commit_def
    using effect_recorded_unit [where op = Op_None, OF effect_transaction(1)] by simp
next
  case call_clear_commit
  show ?thesis unfolding call_clear_commit uq_clear_pending_commit_def
    using effect_recorded_unit [where op = Op_None, OF effect_transaction(1)] by simp
next
  case call_clear_proposals
  show ?thesis unfolding call_clear_proposals uq_clear_pending_proposals_def
    using effect_recorded_unit [where op = Op_None, OF effect_transaction(1)] by simp
qed (simp_all add: uq_update_group_config_def uq_process_welcome_def uq_process_operation_message_def
    uq_process_application_message_def uq_process_many_operation_messages_def uq_encrypt_message_def uq_leave_group_def
    effect_discard effect_transaction)

section \<open>Other statuses\<close>

lemma only_status_transactions: "only_status g (in_transaction E h f)" "only_status g (in_panicking_transaction E h f')"
  by (auto simp: only_status_def in_transaction_def in_panicking_transaction_def status_map_def status_wf_def split: prod.splits)

lemma only_status_set_pending: "only_status g (set_pending E g op)"
  unfolding only_status_def
proof (intro allI impI)
  fix w w' :: world and r
  assume run: "set_pending E g op w = (r, w')"
  obtain q d where q: "insert_or_update_group_status (client_sql E) g op (status w) = (q, d)" by fastforce
  then have "on_status (insert_or_update_group_status (client_sql E) g op) w = (map_err Fault_Error q, w')"
    using run by (auto simp: on_status_def set_pending_def)
  from only_status_insert [unfolded only_status_def, rule_format, OF this]
  show "(\<forall>k. k \<noteq> g \<longrightarrow> status_map w' k = status_map w k) \<and> (status_wf w \<longrightarrow> status_wf w')" by blast
qed

lemma only_status_pending_text: "only_status g (pending_text E i)"
  by (auto simp: only_status_def pending_text_def status_map_def status_wf_def split: prod.splits sum.splits dest!: get_status_result)

lemma only_status_fail: "only_status g (sfail e)"
  by (simp add: only_status_def sfail_def)

lemma only_status_loaded: "only_status g (loaded_group E h i)"
  by (auto simp: only_status_def loaded_group_def on_client_mls_def status_map_def status_wf_def split: prod.splits)

lemma only_status_if: "only_status g f \<Longrightarrow> only_status g f' \<Longrightarrow> only_status g (if b then f else f')"
  by simp

lemma only_status_outcome: "only_status g (case r of Wal_Message p \<Rightarrow> sret p | Wal_MessageIdConflict \<Rightarrow> sfail e)"
  by (cases r) (simp_all add: only_status_simps only_status_fail)

lemma only_status_discard: "only_status g f \<Longrightarrow> only_status g (discard f)"
  unfolding discard_def by (intro only_status_sbind only_status_simps)

lemmas client_status_intros = only_status_discard only_status_sbind only_status_simps only_status_transactions
  only_status_set_pending only_status_pending_text only_status_fail only_status_if only_status_outcome

lemma only_status_create: "only_status g (uq_create_group E C g k)"
proof -
  let ?rest = "sbind (slift (map_err Client_Error (uq_ciphersuite E C))) (\<lambda>ciphersuite.
      let config = ce_create_config E ciphersuite
            \<lparr>js_policy = uq_wire_format_policy (um_wire_format_policy C),
             js_ratchet_tree = um_use_ratchet_tree_extension C, js_past_epochs = unat (um_max_past_epochs C),
             js_tolerance = um_out_of_order_tolerance C, js_distance = um_maximum_forward_distance C\<rparr> in
      sbind (in_transaction E Uq_Sqlite (create_group (client_mls E) (um_client_id C) g ciphersuite config k)) (\<lambda>_.
      set_pending E g Op_CreateGroup))"
  have rest: "only_status g ?rest" unfolding Let_def by (intro client_status_intros)
  show ?thesis unfolding only_status_def
  proof (intro allI impI)
    fix w w' :: world and r
    assume run: "uq_create_group E C g k w = (r, w')"
    obtain q w1 where l: "loaded_group E uq_from_mls g w = (q, w1)" by (cases "loaded_group E uq_from_mls g w")
    note s = only_status_loaded [unfolded only_status_def, rule_format, OF l]
    show "(\<forall>j. j \<noteq> g \<longrightarrow> status_map w' j = status_map w j) \<and> (status_wf w \<longrightarrow> status_wf w')"
    proof (cases q)
      case (Inr grp)
      with run l s show ?thesis by (auto simp: uq_create_group_def)
    next
      case (Inl e)
      with run l have "?rest w1 = (r, w')" by (simp add: uq_create_group_def)
      with rest s show ?thesis unfolding only_status_def by fastforce
    qed
  qed
qed

lemmas client_defs =
  uq_update_group_config_def uq_add_members_def uq_readd_def uq_remove_members_def uq_process_welcome_def
  uq_process_operation_message_def uq_process_application_message_def uq_process_application_message_with_wal_def
  uq_process_many_operation_messages_def uq_process_proposal_message_def uq_encrypt_message_def
  uq_join_by_external_commit_def uq_leave_group_def uq_update_leaf_node_def uq_merge_pending_commit_def
  uq_clear_pending_commit_def uq_clear_pending_proposals_def

lemma only_status_calls: "uq_group_call E C g f upd \<Longrightarrow> only_status g f"
  by (induction rule: uq_group_call.induct) (unfold client_defs, (intro client_status_intros only_status_create)+)

section \<open>Properties\<close>

lemma delete_group_tables:
  assumes "delete_group disp cdisp cdbg GC g d = (r, d')"
  shows "tables d' = tables d \<or> (\<exists>b. to_sql GC g = Inr b \<and> tables d' = without_group b (tables d))"
proof -
  obtain r1 d1 where first: "transaction (delete_group_by_id cdisp cdbg GC g) d = (r1, d1)" by fastforce
  obtain r2 d2 where second: "isolated_cleanup cdisp cdbg GC g d1 = (r2, d2)" by fastforce
  note results = delete_in_transaction_result [OF first] isolated_cleanup_result [OF second]
  from assms first second have "d' = d1 \<or> d' = d2 \<and> isl r1"
    by (cases r1) (auto simp: delete_group_def smap_err_def split: if_splits)
  with results show ?thesis by (cases r1; cases r2) auto
qed

text \<open>A deletion that fails keeps the statuses; the MLS database keeps the group's rows, all of them, or
  has lost exactly them.\<close>

lemma delete_group_failed:
  assumes "uq_delete_group E g w = (r, w')"
  shows "(r \<noteq> Inr () \<longrightarrow> tables (status w') = tables (status w)) \<and>
    (tables (mls w') = tables (mls w) \<or>
      (\<exists>b. to_sql (ce_group_id E) (as_bytes g) = Inr b \<and> tables (mls w') = without_group b (tables (mls w))))"
proof -
  let ?P = "ce_process E"
  let ?del = "delete_group (pe_sql ?P) (pe_code ?P) (pe_code_debug ?P) (ce_group_id E) (as_bytes g)"
  let ?st = "delete_group_status (pe_sql ?P) (pe_code ?P) (pe_code_debug ?P) g"
  obtain q d where q: "?del (mls w) = (q, d)" by fastforce
  obtain q' d' where q': "?st (status w) = (q', d')" by fastforce
  from assms q q' delete_group_tables [OF q] delete_status_result [OF q'] show ?thesis
    by (cases q; cases q') (auto simp: uq_delete_group_def Let_def sbind_def on_client_mls_def on_client_status_def)
qed

lemma only_status_delete_call: "only_status g (uq_delete_group E g)"
  unfolding only_status_def
proof (intro allI impI)
  fix w w' :: world and r
  assume run: "uq_delete_group E g w = (r, w')"
  let ?P = "ce_process E"
  let ?st = "delete_group_status (pe_sql ?P) (pe_code ?P) (pe_code_debug ?P) g"
  obtain q' d' where q': "?st (status w) = (q', d')" by fastforce
  have "status w' = status w \<or> status w' = d'"
    using run q' by (auto simp: uq_delete_group_def Let_def sbind_def on_client_mls_def on_client_status_def
        split: prod.splits sum.splits)
  with delete_status_result [OF q'] show "(\<forall>k. k \<noteq> g \<longrightarrow> status_map w' k = status_map w k) \<and> (status_wf w \<longrightarrow> status_wf w')"
    by (cases q') (auto simp: status_map_def status_wf_def map_of_delete_status status_keys_delete)
qed

text \<open>C5: The client's calls that change a group are all or nothing, deletion being the one exception, whose
  failures are exact. For every such method of the client (those of \<open>uq_group_call\<close>, and
  \<open>delete_group\<close>): a call that returns an error, or panics, has not changed the statuses, and has not
  changed the MLS database either, whatever failed (if loading a group only reads); only a failed
  deletion may have removed the rows of its group there, and then all of them and nothing else. Whatever
  a call returns, no status of another group has changed and the statuses still have at most one row per
  group.\<close>

theorem client_call_all_or_nothing:
  assumes "uq_group_call E C g f upd \<or> f = uq_delete_group E g" and "loads_read (client_mls E)" and "f w = (r, w')"
  shows "(r \<noteq> Inr () \<longrightarrow> tables (status w') = tables (status w) \<and>
      (tables (mls w') = tables (mls w) \<or>
       f = uq_delete_group E g \<and> (\<exists>b. to_sql (ce_group_id E) (as_bytes g) = Inr b \<and>
         tables (mls w') = without_group b (tables (mls w))))) \<and>
    (\<forall>j. j \<noteq> g \<longrightarrow> status_map w' j = status_map w j) \<and> (status_wf w \<longrightarrow> status_wf w')"
  using assms(1)
proof
  assume call: "uq_group_call E C g f upd"
  have "tables (mls w') = tables (mls w) \<and> tables (status w') = tables (status w)" if "r \<noteq> Inr ()"
    using settles_calls [OF assms(2) call, unfolded settles_def] assms(3) that by (cases r) auto
  with only_status_calls [OF call, unfolded only_status_def, rule_format, OF assms(3)] show ?thesis by blast
next
  assume del: "f = uq_delete_group E g"
  with assms(3) have run: "uq_delete_group E g w = (r, w')" by simp
  with delete_group_failed [OF run] only_status_delete_call [of g E, unfolded only_status_def, rule_format, OF run] del
  show ?thesis by blast
qed

text \<open>C21: The bookkeeping of the client refines a map update. On a healthy status database, the statuses
  after a successful call are the statuses before it with the entry of its group updated as the call
  says: creating, joining and the commits record themselves, merging and clearing record none, adding
  members records an update only over no pending operation, and the others record nothing, leaving a
  group among them.\<close>

theorem client_call_status:
  assumes "uq_group_call E C g f upd" and "healthy_status w" and "f w = (Inr (), w')"
  shows "healthy_status w' \<and> status_map w' = (status_map w)(g := upd (status_map w g))"
  using effect_calls [OF assms(1)] assms(2,3) by (simp add: status_effect_def)

section \<open>Examples\<close>

definition sample_client_env :: "(sample_state, bytes) client_env" where
  "sample_client_env = \<lparr>ce_process = sample_env, ce_join_config = (\<lambda>_. []), ce_create_config = (\<lambda>_ _. []),
     ce_ciphersuite = (\<lambda>_. Inr []), ce_scheme = (\<lambda>_. 7), ce_context_epoch = (\<lambda>c. of_nat (length c)),
     ce_context_hash = id, ce_verify = (\<lambda>_. ''bad''), ce_group_id = bytes_codec, ce_digest = rev,
     ce_status_order = rev\<rparr>"

definition sample_client :: uq_mls where
  "sample_client = \<lparr>um_client_id = ''a/1'', um_ciphersuite = DEFAULT_CIPHERSUITE, um_wire_format_policy = PureCiphertext,
     um_use_ratchet_tree_extension = True, um_max_past_epochs = 3, um_out_of_order_tolerance = 5,
     um_maximum_forward_distance = 1000, um_decrypted_message_ttl_seconds = 3600\<rparr>"

lemma sample_loads_read: "loads_read (client_mls sample_client_env)"
  by (simp add: loads_read_def sample_client_env_def sample_env_def sample_mls_def sret_def)

text \<open>Adding a member who is in the group already.\<close>

theorem client_call_all_or_nothing_witness:
  "\<exists>e w'. discard (uq_add_members sample_client_env sample_client ''G'' [[97]]) (sample_world ''none'') = (Inl e, w') \<and>
     tables (mls w') = empty_tables \<and> status_map w' ''H'' = Some ''update_tree''"
proof -
  let ?run = "discard (uq_add_members sample_client_env sample_client ''G'' [[97]]) (sample_world ''none'')"
  have "\<not> isl (fst ?run) = False" by code_simp
  then obtain e where e: "fst ?run = Inl e" by (cases "fst ?run") auto
  then have run: "?run = (Inl e, snd ?run)" by (metis prod.collapse)
  note failed = client_call_all_or_nothing [OF disjI1, OF call_add sample_loads_read run]
  then have "tables (mls (snd ?run)) = empty_tables \<or> (\<exists>b. tables (mls (snd ?run)) = without_group b empty_tables)"
    by (auto simp: sample_world_def empty_db_def)
  moreover have "without_group b empty_tables = empty_tables" for b
    by (simp add: without_group_def delete_rows_def empty_tables_def)
  ultimately have "tables (mls (snd ?run)) = empty_tables" by auto
  moreover from failed have "status_map (snd ?run) ''H'' = Some ''update_tree''" by (simp add: sample_world_def status_map_def)
  ultimately show ?thesis using run by blast
qed

theorem client_call_status_witness:
  "status_map (snd (discard (uq_add_members sample_client_env sample_client ''G'' [[99]]) (sample_world ''none''))) =
     [''G'' \<mapsto> ''update_tree'', ''H'' \<mapsto> ''update_tree'']"
proof -
  let ?run = "discard (uq_add_members sample_client_env sample_client ''G'' [[99]]) (sample_world ''none'')"
  have "fst ?run = Inr ()" by code_simp
  then have run: "?run = (Inr (), snd ?run)" by (metis prod.collapse)
  have h: "healthy_status (sample_world ''none'')" by (simp add: healthy_status_def sample_world_def)
  have m: "status_map (sample_world ''none'') = [''G'' \<mapsto> ''none'', ''H'' \<mapsto> ''update_tree'']"
    by (auto simp: status_map_def sample_world_def)
  from client_call_status [OF call_add h run, THEN conjunct2] show ?thesis
    unfolding m by (auto simp: pending_operation_from_def op_texts)
qed

end
