(* ===== verification/Uniffi_Wal.thy ===== *)
theory Uniffi_Wal
  imports Uniffi_Client_Correct
begin

text \<open>
  Decrypting application messages exactly once (\<open>process_application_message_with_wal\<close> of
  \<open>kchat-uniffi/src/mls/mod.rs\<close>): a message that was decrypted is answered from the cache until its entry
  expires, whatever OpenMLS would say of it, and its id cannot be used for another ciphertext.
\<close>

section \<open>The cache\<close>

text \<open>What the cache shows of a message at a time.\<close>

definition cached_entry ::
    "('g, 'o) client_env \<Rightarrow> string \<Rightarrow> string \<Rightarrow> int \<Rightarrow> db \<Rightarrow> decrypted_application_message option" where
  "cached_entry E group_id message_id now d =
     (case to_sql (ce_group_id E) (as_bytes group_id) of
        Inl _ \<Rightarrow> None
      | Inr b \<Rightarrow> shown now (row_of (b, message_id) (decrypted_messages (tables d))))"

text \<open>The primary key of the cache, and that all its rows are of this version of the provider.\<close>

definition cache_wf :: "db \<Rightarrow> bool" where
  "cache_wf d \<longleftrightarrow> key_unique (decrypted_messages (tables d)) \<and>
     (\<forall>r \<in> set (decrypted_messages (tables d)). row_version r = STORAGE_PROVIDER_VERSION)"

text \<open>OpenMLS reaches the storage through the trait \<open>StorageProvider\<close>, which has no method on this table.\<close>

definition keeps_cache :: "(db, 'g, 'o) openmls \<Rightarrow> bool" where
  "keeps_cache M \<longleftrightarrow>
     (\<forall>i d. decrypted_messages (tables (snd (load_group_all M i d))) = decrypted_messages (tables d)) \<and>
     (\<forall>i es d. decrypted_messages (tables (snd (load_group_optimize M i es d))) = decrypted_messages (tables d)) \<and>
     (\<forall>p g d. decrypted_messages (tables (snd (snd (process_message M p (g, d))))) = decrypted_messages (tables d))"

section \<open>Lemmas\<close>

lemma message_load_Inr:
  assumes "message_load_in_connection GC g m now d = (Inr v, d')" and "key_unique (decrypted_messages (tables d))"
  shows "tables d' = tables d \<and> (\<exists>b. to_sql GC g = Inr b \<and> v = shown now (row_of (b, m) (decrypted_messages (tables d))))"
proof -
  from assms(1) obtain rows d1 where q: "query (message_key GC g m) (\<lambda>k t.
       filter (\<lambda>e. expires_at e > now) (map row_value (select_rows (\<lambda>k'. k' = k) (decrypted_messages t)))) d = (Inr rows, d1)"
    and v: "slift (optional_row Inr rows) d1 = (Inr v, d')"
    unfolding message_load_in_connection_def by (rule sbind_InrE)
  from query_Inr [OF q] obtain b where b: "tables d1 = tables d" "to_sql GC g = Inr b"
    "rows = filter (\<lambda>e. expires_at e > now) (map row_value (select_rows (\<lambda>k'. k' = (b, m)) (decrypted_messages (tables d))))"
    by (auto simp: message_key_Inr_iff)
  from v b select_live [OF assms(2), of now "(b, m)"] show ?thesis
    by (auto simp: slift_def optional_row_def split: option.splits)
qed

lemma load_whole_cache:
  assumes "keeps_cache M"
  shows "load_whole_group M i d = (r, d') \<Longrightarrow> decrypted_messages (tables d') = decrypted_messages (tables d)"
  using assms [unfolded keeps_cache_def, THEN conjunct1, rule_format, of i d]
  by (auto simp: load_whole_group_def sbind_def smap_err_def split: prod.splits sum.splits)

lemma core_group_cache:
  assumes "keeps_cache M" and "core_group ldisp M i ms d = (r, d')"
  shows "decrypted_messages (tables d') = decrypted_messages (tables d)"
proof -
  have opt: "load_group_optimize M j es s = (q, s') \<Longrightarrow> decrypted_messages (tables s') = decrypted_messages (tables s)"
    for j es s q s'
    using assms(1) [unfolded keeps_cache_def, THEN conjunct2, THEN conjunct1, rule_format, of j es s] by simp
  from assms(2) show ?thesis
    by (cases "protocol_message_epochs M ms")
      (auto simp: core_group_def sbind_def split: prod.splits sum.splits option.splits load_error.splits if_splits
        dest!: load_whole_cache [OF assms(1)] opt)
qed

lemma application_cache:
  assumes "keeps_cache M" and "process_application_message M m (g, d) = (r, g', d')"
  shows "decrypted_messages (tables d') = decrypted_messages (tables d)"
proof -
  have p: "process_message M p (x, s) = (q, y, s') \<Longrightarrow> decrypted_messages (tables s') = decrypted_messages (tables s)"
    for p x s q y s'
    using assms(1) [unfolded keeps_cache_def, THEN conjunct2, THEN conjunct2, rule_format, of p x s] by simp
  show ?thesis using assms(2)
    by (cases "protocol_message M m")
      (auto simp: process_application_message_def processed_def sbind_def smap_err_def sret_def sfail_def
        split: prod.splits sum.splits message_content.splits dest!: p)
qed

lemma decrypt_cache:
  assumes "keeps_cache (client_mls E)"
    and "on_loaded_group E g ms (process_application_message (client_mls E) m) d = (r, d')"
  shows "decrypted_messages (tables d') = decrypted_messages (tables d)"
  using assms(2)
  by (auto simp: on_loaded_group_def on_group_def sbind_def split: prod.splits sum.splits
      dest!: core_group_cache [OF assms(1)] application_cache [OF assms(1)])

lemma row_of_in: "row_of k t = Some r \<Longrightarrow> r \<in> set t \<and> row_key r = k"
  by (auto simp: row_of_def find_Some_iff)

text \<open>A successful run of the closure: the entry that is in the cache afterwards.\<close>

lemma wal_decrypt_stores:
  assumes run: "wal_decrypt E g i m now expires d = (Inr (Wal_Message p), d')"
    and wf: "cache_wf d" and keeps: "keeps_cache (client_mls E)"
  shows "\<exists>b entry. to_sql (ce_group_id E) (as_bytes g) = Inr b \<and> key_unique (decrypted_messages (tables d')) \<and>
    row_of (b, i) (decrypted_messages (tables d')) = Some ((b, i), STORAGE_PROVIDER_VERSION, entry) \<and>
    ciphertext_digest entry = ce_digest E m \<and> plaintext entry = p \<and>
    expires_at entry = (case cached_entry E g i now d of Some old \<Rightarrow> expires_at old | None \<Rightarrow> expires)"
proof -
  from run [unfolded wal_decrypt_def Let_def] obtain found d1
    where load: "message_load_in_connection (ce_group_id E) (as_bytes g) i now d = (Inr found, d1)"
      and rest: "(case found of
         Some entry \<Rightarrow>
           if ciphertext_digest entry \<noteq> ce_digest E m then sret Wal_MessageIdConflict
           else sret (Wal_Message (plaintext entry))
       | None \<Rightarrow>
           sbind (on_loaded_group E g [m] (process_application_message (client_mls E) m)) (\<lambda>result.
           sbind (smap_err (from_sqlite_error (client_sql E))
                    (tx_insert_decrypted_application_message (ce_group_id E) (as_bytes g) i
                       \<lparr>ciphertext_digest = ce_digest E m, plaintext = result, created_at = now, expires_at = expires\<rparr>)) (\<lambda>_.
           sret (Wal_Message result)))) d1 = (Inr (Wal_Message p), d')"
    by (elim sbind_InrE) (auto simp: smap_err_def map_err_Inr_iff tx_load_decrypted_application_message_def
        message_load_in_tx_def split: prod.splits)
  from wf have uniq: "key_unique (decrypted_messages (tables d))" by (simp add: cache_wf_def)
  from message_load_Inr [OF load uniq] obtain b where t1: "tables d1 = tables d"
    and b: "to_sql (ce_group_id E) (as_bytes g) = Inr b" "found = shown now (row_of (b, i) (decrypted_messages (tables d)))"
    by blast
  have ce: "cached_entry E g i now d = found" using b by (simp add: cached_entry_def)
  show ?thesis
  proof (cases found)
    case (Some entry)
    with b(2) obtain r where r: "row_of (b, i) (decrypted_messages (tables d)) = Some r"
      "row_version r = STORAGE_PROVIDER_VERSION" "row_value r = entry"
      by (auto simp: shown_def split: option.splits if_splits)
    from row_of_in [OF r(1)] r have "r = ((b, i), STORAGE_PROVIDER_VERSION, entry)"
      by (cases r) (auto simp: row_key_def row_version_def row_value_def)
    with r rest Some b(1) t1 uniq ce show ?thesis by (auto split: if_splits)
  next
    case None
    let ?entry = "\<lparr>ciphertext_digest = ce_digest E m, plaintext = p, created_at = now, expires_at = expires\<rparr>"
    from rest None obtain d2 where
      dec: "on_loaded_group E g [m] (process_application_message (client_mls E) m) d1 = (Inr p, d2)"
      and ins: "message_insert_in_connection (ce_group_id E) (as_bytes g) i ?entry d2 = (Inr (), d')"
      by (auto elim!: sbind_InrE simp: smap_err_def map_err_Inr_iff tx_insert_decrypted_application_message_def
          message_insert_in_tx_def split: prod.splits)
    from decrypt_cache [OF keeps dec] t1 have c2: "decrypted_messages (tables d2) = decrypted_messages (tables d)" by simp
    from statement_result [OF ins [unfolded message_insert_in_connection_def]] b(1) c2
    have c': "decrypted_messages (tables d') = insert_unless_live (b, i) ?entry (decrypted_messages (tables d))"
      by (auto simp: message_key_Inr_iff)
    have "expires_at (row_value r) \<le> created_at ?entry" if "row_of (b, i) (decrypted_messages (tables d)) = Some r" for r
      using that None b(2) wf row_of_in [OF that] by (auto simp: shown_def cache_wf_def split: if_splits)
    then have "row_of (b, i) (decrypted_messages (tables d')) = Some ((b, i), STORAGE_PROVIDER_VERSION, ?entry)"
      unfolding c' row_of_insert by simp
    with c' b(1) ce None key_unique_insert [OF uniq] show ?thesis by auto
  qed
qed

lemma provider_transaction_healthy:
  "faults d = [] \<Longrightarrow> f d = (Inr a, d') \<Longrightarrow> faults d' = [] \<Longrightarrow> provider_transaction f d = (Inr a, d')"
  by (simp add: provider_transaction_def transaction_def sbind_def rollback_on_error_def boxed_def smap_err_def)

text \<open>With a live entry the answer is the entry's, and nothing else is called.\<close>

lemma wal_hit:
  assumes d: "faults d = []" "key_unique (decrypted_messages (tables d))"
    and entry: "cached_entry E g i now d = Some entry"
  shows "wal_decrypt E g i m now expires d =
    (Inr (if ciphertext_digest entry = ce_digest E m then Wal_Message (plaintext entry) else Wal_MessageIdConflict), d)"
proof -
  from entry obtain b where b: "to_sql (ce_group_id E) (as_bytes g) = Inr b"
    "shown now (row_of (b, i) (decrypted_messages (tables d))) = Some entry"
    by (auto simp: cached_entry_def split: sum.splits)
  from message_load_healthy [OF d(1) b(1) d(2), of i now] b(2) show ?thesis
    by (simp add: wal_decrypt_def Let_def sbind_def smap_err_def tx_load_decrypted_application_message_def message_load_in_tx_def)
qed

section \<open>Properties\<close>

text \<open>C6: An application message is decrypted once. After a successful call, until the entry of the message
  expires, every later call with the same message id, by any client object on the same database, at any
  time and whatever OpenMLS does by then, returns the same plaintext if the ciphertext has the same
  digest and a conflict otherwise, and changes nothing. The entry expires when the entry that was
  already in the cache did, or else at the time of the call plus the lifetime of the client.\<close>

theorem wal_decrypts_once:
  assumes run: "uq_process_application_message_with_wal E C clock g i m w = (Inr p, w1)"
    and wf: "cache_wf (mls w)" and keeps: "keeps_cache (client_mls E)" and now: "uq_unix_seconds clock = Inr now"
    and same: "ce_group_id E' = ce_group_id E" "ce_digest E' = ce_digest E"
    and w2: "tables (mls w2) = tables (mls w1)" "faults (mls w2) = []"
    and now': "uq_unix_seconds clock' = Inr now'" "checked_add_i64 now' (um_decrypted_message_ttl_seconds C') \<noteq> None"
    and live: "now' < (case cached_entry E g i now (mls w) of
      Some old \<Rightarrow> expires_at old | None \<Rightarrow> now + um_decrypted_message_ttl_seconds C)"
  shows "uq_process_application_message_with_wal E' C' clock' g i m' w2 =
    (if ce_digest E m' = ce_digest E m then Inr p else Inl (Client_Error Uq_MessageIdConflict), w2)"
proof -
  from run now obtain expires d1 d2 where
    ttl: "checked_add_i64 now (um_decrypted_message_ttl_seconds C) = Some expires"
    and closure: "tables d1 = tables (mls w)" "wal_decrypt E g i m now expires d1 = (Inr (Wal_Message p), d2)"
    "tables (mls w1) = tables d2"
    by (auto simp: uq_process_application_message_with_wal_def in_transaction_def map_err_Inr_iff sfail_def slift_def
        ok_or_def elim!: sbind_InrE provider_transaction_InrE split: prod.splits wal_outcome.splits option.splits)
  have wf1: "cache_wf d1" using wf closure(1) by (simp add: cache_wf_def)
  from wal_decrypt_stores [OF closure(2) wf1 keeps] obtain b entry where
    b: "to_sql (ce_group_id E) (as_bytes g) = Inr b" and uniq: "key_unique (decrypted_messages (tables d2))"
    and row: "row_of (b, i) (decrypted_messages (tables d2)) = Some ((b, i), STORAGE_PROVIDER_VERSION, entry)"
    and entry: "ciphertext_digest entry = ce_digest E m" "plaintext entry = p"
      "expires_at entry = (case cached_entry E g i now d1 of Some old \<Rightarrow> expires_at old | None \<Rightarrow> expires)"
    by blast
  have "cached_entry E g i now d1 = cached_entry E g i now (mls w)" unfolding cached_entry_def closure(1) ..
  with live entry(3) ttl have "now' < expires_at entry" by (auto simp: checked_add_i64_def split: option.splits if_splits)
  with row b same(1) w2(1) closure(3) have ce: "cached_entry E' g i now' (mls w2) = Some entry"
    by (simp add: cached_entry_def shown_def row_version_def row_value_def)
  from uniq w2(1) closure(3) have "key_unique (decrypted_messages (tables (mls w2)))" by simp
  from wal_hit [OF w2(2) this ce, of m'] have
    "provider_transaction (wal_decrypt E' g i m' now' x) (mls w2) =
       (Inr (if ce_digest E m = ce_digest E m' then Wal_Message p else Wal_MessageIdConflict), mls w2)" for x
    using entry same(2) w2(2) by (intro provider_transaction_healthy) simp_all
  with now' show ?thesis
    by (auto simp: uq_process_application_message_with_wal_def sbind_def in_transaction_def slift_def ok_or_def
        sret_def sfail_def)
qed

section \<open>Examples\<close>

lemma sample_keeps_cache: "keeps_cache (client_mls sample_client_env)"
  by (auto simp: keeps_cache_def sample_client_env_def sample_env_def sample_mls_def sret_def
      sample_process_def split: prod.splits)

text \<open>A second call an hour later, with an OpenMLS that refuses every message.\<close>

theorem wal_decrypts_once_witness:
  "fst (uq_process_application_message_with_wal
      (sample_client_env\<lparr>ce_process := sample_env\<lparr>pe_mls := sample_mls\<lparr>message_in := \<lambda>_. Inl ''no''\<rparr>\<rparr>\<rparr>)
      sample_client (Inr 4599) ''G'' ''id'' [0, 0, 42]
      (snd (uq_process_application_message_with_wal sample_client_env sample_client (Inr 1000) ''G'' ''id'' [0, 0, 42]
         (sample_world ''none'')))) = Inr [42]"
proof -
  let ?w1 = "snd (uq_process_application_message_with_wal sample_client_env sample_client (Inr 1000) ''G'' ''id'' [0, 0, 42]
      (sample_world ''none''))"
  have "fst (uq_process_application_message_with_wal sample_client_env sample_client (Inr 1000) ''G'' ''id'' [0, 0, 42]
      (sample_world ''none'')) = Inr [42]" by code_simp
  then have run: "uq_process_application_message_with_wal sample_client_env sample_client (Inr 1000) ''G'' ''id'' [0, 0, 42]
      (sample_world ''none'') = (Inr [42], ?w1)" by (metis prod.collapse)
  have wf: "cache_wf (mls (sample_world ''none''))"
    by (simp add: cache_wf_def sample_world_def empty_db_def empty_tables_def key_unique_def)
  have none: "cached_entry sample_client_env ''G'' ''id'' 1000 (mls (sample_world ''none'')) = None" by code_simp
  have t: "uq_unix_seconds (Inr 1000) = Inr 1000" "uq_unix_seconds (Inr 4599) = Inr 4599"
    "checked_add_i64 4599 (um_decrypted_message_ttl_seconds sample_client) \<noteq> None"
    "4599 < 1000 + um_decrypted_message_ttl_seconds sample_client" by code_simp+
  have f: "faults (mls ?w1) = []" by code_simp
  let ?E' = "sample_client_env\<lparr>ce_process := sample_env\<lparr>pe_mls := sample_mls\<lparr>message_in := \<lambda>_. Inl ''no''\<rparr>\<rparr>\<rparr>"
  have same: "ce_group_id ?E' = ce_group_id sample_client_env" "ce_digest ?E' = ce_digest sample_client_env" by simp_all
  have live: "4599 < (case cached_entry sample_client_env ''G'' ''id'' 1000 (mls (sample_world ''none'')) of
      Some old \<Rightarrow> expires_at old | None \<Rightarrow> 1000 + um_decrypted_message_ttl_seconds sample_client)"
    by (simp only: none option.case t(4))
  from wal_decrypts_once [OF run wf sample_keeps_cache t(1) same refl f t(2,3) live, of "[0, 0, 42]"]
  show ?thesis by simp
qed

end
