(* ===== verification/Uniffi_Queries.thy ===== *)
theory Uniffi_Queries
  imports Uniffi_Client_Correct
begin

text \<open>
  The queries of the Kotlin and Swift client, its key packages, the deletion of a group and the lifetime
  of cached messages: the batch queries agree with the single ones, a failed deletion can be repeated,
  and the lifetime is exact and bounded.
\<close>

section \<open>Epochs and contexts\<close>

lemma healthy_mls [simp]: "healthy_status (w\<lparr>mls := d\<rparr>) = healthy_status w" "status_map (w\<lparr>mls := d\<rparr>) = status_map w"
  by (simp_all add: healthy_status_def status_map_def)

text \<open>An entry only touches the MLS database, so that looking the operations up first changes nothing.\<close>

lemma scollect_lookup:
  assumes entry: "\<And>g op w r w'. entry g op w = (r, w') \<Longrightarrow> status w' = status w"
  shows "healthy_status w \<Longrightarrow> (\<And>g. g \<in> set gs \<Longrightarrow> ops g = status_map w g) \<Longrightarrow>
    scollect (\<lambda>g. entry g (ops g)) gs w = scollect (\<lambda>g. sbind (pending_text E g) (entry g)) gs w"
proof (induction gs arbitrary: w)
  case Nil
  then show ?case by simp
next
  case (Cons g gs)
  obtain r w1 where e: "entry g (ops g) w = (r, w1)" by (cases "entry g (ops g) w")
  have s: "status w1 = status w" using entry [OF e] .
  have "healthy_status w1" "\<And>h. h \<in> set gs \<Longrightarrow> ops h = status_map w1 h"
    using Cons.prems s by (simp_all add: healthy_status_def status_map_def)
  note IH = Cons.IH [OF this]
  have "sbind (pending_text E g) (entry g) w = (r, w1)"
    using Cons.prems e by (simp add: sbind_def pending_text_healthy)
  with e IH show ?case by (cases r) (simp_all add: sbind_def)
qed

lemma pending_texts_healthy:
  assumes "healthy_status w" and "status_wf w" and "\<And>rows. mset (ce_status_order E rows) = mset rows"
  obtains ops where "pending_texts E gs w = (Inr ops, w)" and "\<And>g. g \<in> set gs \<Longrightarrow> ops g = status_map w g"
proof -
  from assms(1,2) obtain rows where rows: "faults (status w) = []" "tables (status w) = Some rows" "status_keys rows"
    by (auto simp: healthy_status_def status_wf_def)
  obtain r d where b: "get_group_pending_operations_batch (client_sql E) (ce_status_order E) gs (status w) = (r, d)"
    by fastforce
  have "d = status w \<and> (\<exists>ops. r = Inr ops)"
    using b rows by (cases "gs = []")
      (auto simp: get_group_pending_operations_batch_def sbind_def smap_err_def prepare_status_def query_status_def)
  then obtain ops where ops: "r = Inr ops" "d = status w" by blast
  from batch_status_result [OF b assms(3) rows(2,3)] ops(1) have "ops = map_of rows |` set gs" by blast
  then have "g \<in> set gs \<Longrightarrow> ops g = status_map w g" for g
    using rows(2) by (simp add: status_map_def)
  with that b ops show thesis by (auto simp: pending_texts_def)
qed

lemma epoch_entry_status: "uq_epoch_entry E g op w = (r, w') \<Longrightarrow> status w' = status w"
  by (auto simp: uq_epoch_entry_def split: prod.splits sum.splits)

lemma context_entry_status: "uq_context_entry E g op w = (r, w') \<Longrightarrow> status w' = status w"
  by (auto simp: uq_context_entry_def split: prod.splits sum.splits)

section \<open>Key packages\<close>

definition uq_one_key_package ::
    "('g, 'o) client_env \<Rightarrow> uq_mls \<Rightarrow> bool \<Rightarrow> bytes option \<Rightarrow> (world, uq_error client_fault, bytes) action" where
  "uq_one_key_package E C last_resort public_key =
     sbind (slift (map_err Client_Error (uq_ciphersuite E C))) (\<lambda>ciphersuite.
     on_client_mls uq_from_mls
       (generate_key_package (client_mls E) (um_client_id C) ciphersuite last_resort public_key))"

lemma sbind_assoc: "sbind (sbind f k) l = sbind f (\<lambda>a. sbind (k a) l)"
  by (auto simp: sbind_def fun_eq_iff split: prod.splits sum.splits)

lemma sbind_sret: "sbind (sret a) k = k a"
  by (simp add: sbind_def sret_def fun_eq_iff)

lemma key_package_loop:
  "uq_key_package_loop E C lr pk n acc =
     sbind (scollect (\<lambda>_. uq_one_key_package E C lr pk) [0..<n]) (\<lambda>ks. sret (acc @ ks))"
proof (induction n arbitrary: acc)
  case 0
  then show ?case by (simp add: sbind_def fun_eq_iff)
next
  case (Suc n)
  have shift: "scollect (\<lambda>_. f) [0..<Suc n] = sbind f (\<lambda>k. sbind (scollect (\<lambda>_. f) [0..<n]) (\<lambda>ks. sret (k # ks)))"
    for f :: "(world, uq_error client_fault, bytes) action"
  proof -
    have same: "scollect (\<lambda>_. f) xs = scollect (\<lambda>_. f) ys" if "length xs = length ys" for xs ys :: "nat list"
      using that by (induction xs ys rule: list_induct2) simp_all
    have "scollect (\<lambda>_. f) [0..<Suc n] = scollect (\<lambda>_. f) (0 # [0..<n])" by (rule same) simp
    then show ?thesis by simp
  qed
  show ?case
    unfolding shift uq_key_package_loop.simps Suc.IH uq_one_key_package_def sbind_assoc sbind_sret by simp
qed

lemma scollect_length: "scollect f xs w = (Inr ys, w') \<Longrightarrow> length ys = length xs"
  by (induction xs arbitrary: w ys) (auto elim!: sbind_InrE)

section \<open>Deletion\<close>

lemma without_group_idem [simp]: "without_group b (without_group b t) = without_group b t"
  by (simp add: without_group_def delete_rows_def)

lemma delete_group_healthy:
  assumes "faults d = []" and "to_sql GC g = Inr b"
  shows "delete_group disp cdisp cdbg GC g d = (Inr (), d\<lparr>tables := without_group b (tables d)\<rparr>)"
  using delete_group_by_id_healthy [OF assms] assms(1)
  by (simp add: delete_group_def transaction_def sbind_def rollback_on_error_def)

section \<open>Properties\<close>

text \<open>C30: The batch queries agree with the single ones. On a healthy status database with its primary key,
  whatever the order in which the engine returns rows, \<open>group_epochs\<close> and \<open>group_contexts\<close> return, for any
  list of groups (empty, with repetitions, with groups that cannot be loaded), exactly what the single
  queries return one after the other, and leave the same world.\<close>

theorem batch_queries_agree:
  assumes "healthy_status w" and "status_wf w" and "\<And>rows. mset (ce_status_order E rows) = mset rows"
  shows "uq_group_epochs E ids w = scollect (uq_group_epoch E) ids w \<and>
    uq_group_contexts E ids w = scollect (uq_group_context E) ids w"
proof -
  from pending_texts_healthy [OF assms] obtain ops :: "string \<rightharpoonup> string"
    where ops: "pending_texts E ids w = (Inr ops :: uq_error client_fault + (string \<rightharpoonup> string), w)"
      "\<And>g. g \<in> set ids \<Longrightarrow> ops g = status_map w g" by blast
  note lookup = scollect_lookup [OF _ assms(1) ops(2)]
  have "scollect (\<lambda>g. uq_epoch_entry E g (ops g)) ids w = scollect (uq_group_epoch E) ids w"
    unfolding uq_group_epoch_def by (rule lookup) (auto dest: epoch_entry_status)
  moreover have "scollect (\<lambda>g. uq_context_entry E g (ops g)) ids w = scollect (uq_group_context E) ids w"
    unfolding uq_group_context_def by (rule lookup) (auto dest: context_entry_status)
  ultimately show ?thesis using ops(1) by (simp add: uq_group_epochs_def uq_group_contexts_def sbind_def)
qed

text \<open>\<open>generate_key_packages\<close> ends and generates exactly as many packages as asked for: it equals that
  many single generations in a row, of which the first failure is the failure of the whole, and its
  result has the requested length.\<close>

theorem key_packages_exact:
  "uq_generate_key_packages E C quantity lr pk w = scollect (\<lambda>_. uq_one_key_package E C lr pk) [0..<unat quantity] w \<and>
   (case uq_generate_key_packages E C quantity lr pk w of (Inr ks, _) \<Rightarrow> length ks = unat quantity | (Inl _, _) \<Rightarrow> True)"
proof -
  have eq: "uq_generate_key_packages E C quantity lr pk w = scollect (\<lambda>_. uq_one_key_package E C lr pk) [0..<unat quantity] w"
    by (simp add: uq_generate_key_packages_def key_package_loop sbind_def split: prod.splits sum.splits)
  show ?thesis
    unfolding eq by (auto split: prod.splits sum.splits dest!: scollect_length)
qed

text \<open>C32: Deleting a group can always be finished. However far a first call got, and whatever it returned, a
  second call on a database without faults succeeds; afterwards exactly the rows of the group are gone
  from the MLS database and exactly its entry from the statuses, compared with before the first call.\<close>

theorem delete_group_retry:
  assumes first: "uq_delete_group E g w = (r, w1)"
    and rows: "tables (status w) = Some rows" and b: "to_sql (ce_group_id E) (as_bytes g) = Inr b"
    and w2: "tables (mls w2) = tables (mls w1)" "tables (status w2) = tables (status w1)"
      "faults (mls w2) = []" "faults (status w2) = []"
  shows "\<exists>w3. uq_delete_group E g w2 = (Inr (), w3) \<and> tables (mls w3) = without_group b (tables (mls w)) \<and>
    status_map w3 = (status_map w)(g := None)"
proof -
  let ?P = "ce_process E"
  let ?del = "delete_group (pe_sql ?P) (pe_code ?P) (pe_code_debug ?P) (ce_group_id E) (as_bytes g)"
  let ?st = "delete_group_status (pe_sql ?P) (pe_code ?P) (pe_code_debug ?P) g"
  obtain q d where q: "?del (mls w) = (q, d)" by fastforce
  obtain q' d' where q': "?st (status w) = (q', d')" by fastforce
  have "mls w1 = d" "status w1 = status w \<or> status w1 = d'"
    using first q q' by (auto simp: uq_delete_group_def Let_def sbind_def on_client_mls_def on_client_status_def
        split: prod.splits sum.splits)
  with delete_group_tables [OF q] b w2 delete_status_result [OF q'] rows
  have m: "without_group b (tables (mls w2)) = without_group b (tables (mls w))"
    and s: "tables (status w2) = Some rows \<or> tables (status w2) = Some (filter (\<lambda>r. fst r \<noteq> g) rows)"
    by (auto split: sum.splits)
  from s obtain rows2 where rows2: "tables (status w2) = Some rows2" "rows2 = rows \<or> rows2 = filter (\<lambda>r. fst r \<noteq> g) rows"
    by blast
  let ?w3 = "w2\<lparr>mls := (mls w2)\<lparr>tables := without_group b (tables (mls w2))\<rparr>,
      status := (status w2)\<lparr>tables := Some (filter (\<lambda>r. fst r \<noteq> g) rows2)\<rparr>\<rparr>"
  have "uq_delete_group E g w2 = (Inr (), ?w3)"
    using delete_group_healthy [OF w2(3) b] delete_status_healthy [OF w2(4) rows2(1)]
    by (simp add: uq_delete_group_def Let_def sbind_def on_client_mls_def on_client_status_def)
  moreover have "filter (\<lambda>r. fst r \<noteq> g) rows2 = filter (\<lambda>r. fst r \<noteq> g) rows" using rows2(2) by auto
  ultimately show ?thesis using m rows by (auto simp: status_map_def map_of_delete_status)
qed

text \<open>The lifetime of cached messages is exact and bounded. A client that opens has a positive lifetime
  of exactly 3600 seconds per hour that fits in an \<open>i64\<close>, the standard ciphersuite and the given
  parameters; for no hours, and for more than an \<open>i64\<close> of seconds, opening is refused before either
  database is touched.\<close>

theorem opened_client_bounds:
  "(case uq_new E rdisp migrations runner export clock probe client_id past hours password tolerance distance w of
     (Inr C, _) \<Rightarrow> um_decrypted_message_ttl_seconds C = 3600 * uint hours \<and> 0 < um_decrypted_message_ttl_seconds C \<and>
        um_decrypted_message_ttl_seconds C < 2 ^ 63 \<and> um_client_id C = client_id \<and> um_ciphersuite C = DEFAULT_CIPHERSUITE \<and>
        um_wire_format_policy C = PureCiphertext \<and> um_max_past_epochs C = past \<and>
        um_out_of_order_tolerance C = tolerance \<and> um_maximum_forward_distance C = distance
   | (Inl _, _) \<Rightarrow> True) \<and>
   (hours = 0 \<or> 2 ^ 63 \<le> 3600 * uint hours \<longrightarrow>
      uq_new E rdisp migrations runner export clock probe client_id past hours password tolerance distance w =
        (Inl (Client_Error Uq_InvalidDecryptedMessageTtl), w))"
proof -
  have mult: "uint (hours * 3600) = 3600 * uint hours" if "\<not> 2 ^ 64 \<le> uint hours * 3600"
    using that by (simp add: uint_word_ariths(3) mult.commute)
  have ttl: "uq_ttl_seconds hours =
      (if 3600 * uint hours < 2 ^ 63 then Inr (3600 * uint hours) else Inl Uq_InvalidDecryptedMessageTtl)"
    using mult by (auto simp: uq_ttl_seconds_def Let_def mult.commute)
  have pos: "0 < uint hours" if "hours \<noteq> 0" using that by (simp add: less_le uint_0_iff)
  show ?thesis
    using pos by (auto simp: uq_new_def ttl sbind_def slift_def sfail_def sret_def split: prod.splits sum.splits)
qed

section \<open>Examples\<close>

lemma sample_status_order: "mset (ce_status_order sample_client_env rows) = mset rows"
  by (simp add: sample_client_env_def)

theorem batch_queries_agree_witness:
  "uq_group_epochs sample_client_env [''H'', ''G'', ''H''] (sample_world ''none'') =
     scollect (uq_group_epoch sample_client_env) [''H'', ''G'', ''H''] (sample_world ''none'')"
proof (rule batch_queries_agree [THEN conjunct1])
  show "healthy_status (sample_world ''none'')" by (simp add: healthy_status_def sample_world_def)
  show "status_wf (sample_world ''none'')" by (simp add: status_wf_def status_keys_def sample_world_def)
qed (rule sample_status_order)

text \<open>A first deletion that fails at the status database.\<close>

theorem delete_group_retry_witness:
  "\<exists>w3. uq_delete_group sample_client_env ''H''
     ((snd (uq_delete_group sample_client_env ''H''
        ((sample_world ''none'')\<lparr>status := (status (sample_world ''none''))\<lparr>faults := [Some InvalidColumnType]\<rparr>\<rparr>)))
      \<lparr>status := status (sample_world ''none'')\<rparr>) = (Inr (), w3) \<and> status_map w3 = [''G'' \<mapsto> ''none'']"
proof -
  let ?w = "(sample_world ''none'')\<lparr>status := (status (sample_world ''none''))\<lparr>faults := [Some InvalidColumnType]\<rparr>\<rparr>"
  let ?w1 = "snd (uq_delete_group sample_client_env ''H'' ?w)"
  let ?w2 = "?w1\<lparr>status := status (sample_world ''none'')\<rparr>"
  obtain r where first: "uq_delete_group sample_client_env ''H'' ?w = (r, ?w1)" by (metis prod.collapse)
  have rows: "tables (status ?w) = Some [(''G'', ''none''), (''H'', ''update_tree'')]" by (simp add: sample_world_def)
  have b: "to_sql (ce_group_id sample_client_env) (as_bytes ''H'') = Inr [72]" by code_simp
  have t: "tables (status ?w2) = tables (status ?w1)" by code_simp
  have f: "faults (mls ?w2) = []" "faults (status ?w2) = []" by code_simp+
  from delete_group_retry [OF first rows b _ t f] obtain w3 where
    "uq_delete_group sample_client_env ''H'' ?w2 = (Inr (), w3)" "status_map w3 = (status_map ?w)(''H'' := None)" by auto
  moreover have "(status_map ?w)(''H'' := None) = [''G'' \<mapsto> ''none'']" by (auto simp: status_map_def sample_world_def)
  ultimately show ?thesis by auto
qed

theorem opened_client_bounds_witness:
  "uq_new sample_client_env (\<lambda>_. []) [] (\<lambda>_. sret ()) (\<lambda>_. sret None) (Inr 0) File_NotFound ''a/1'' 3 0 None 5 10
     (sample_world ''none'') = (Inl (Client_Error Uq_InvalidDecryptedMessageTtl), sample_world ''none'')"
  by (rule opened_client_bounds [THEN conjunct2, rule_format]) simp

end
