(* ===== verification/Uniffi_Backup.thy ===== *)
theory Uniffi_Backup
  imports Backup_Reader Backup_Descriptor
begin

text \<open>
  The backup API of the Kotlin and Swift binding (\<open>kchat-uniffi/src/backup\<close>): its error type, the master
  key object with its descriptors and object contexts, and sealing and opening an object through
  callbacks. A callback object of the caller is an argument; the adapter that makes it a byte source or
  sink of the library keeps beside its state the flag that records a failed cancellation callback.
  \<open>parse\<close> is the UUID parser. Zeroising of buffers is not modelled.
\<close>

section \<open>Errors\<close>

datatype backup_ffi_error =
    Ffi_InvalidArgument | Ffi_EmptyPassword | Ffi_InvalidMnemonic | Ffi_InvalidMnemonicKey | Ffi_InvalidPasswordKey
  | Ffi_UnsupportedFormat | Ffi_ContextMismatch | Ffi_IoError | Ffi_InvalidState | Ffi_AuthenticationFailed
  | Ffi_ResourceLimitExceeded | Ffi_Cancelled | Ffi_IntegrityMismatch | Ffi_MalformedObject | Ffi_InvalidCompressedData

primrec ffi_error_display :: "backup_ffi_error \<Rightarrow> string" where
  "ffi_error_display Ffi_InvalidArgument = ''backup operation failed: invalid argument''"
| "ffi_error_display Ffi_EmptyPassword = ''backup operation failed: empty password''"
| "ffi_error_display Ffi_InvalidMnemonic = ''backup operation failed: invalid mnemonic''"
| "ffi_error_display Ffi_InvalidMnemonicKey = ''backup operation failed: invalid mnemonic key''"
| "ffi_error_display Ffi_InvalidPasswordKey = ''backup operation failed: invalid password key''"
| "ffi_error_display Ffi_UnsupportedFormat = ''backup operation failed: unsupported format''"
| "ffi_error_display Ffi_ContextMismatch = ''backup operation failed: context mismatch''"
| "ffi_error_display Ffi_IoError = ''backup operation failed: I/O error''"
| "ffi_error_display Ffi_InvalidState = ''backup operation failed: invalid state''"
| "ffi_error_display Ffi_AuthenticationFailed = ''backup operation failed: authentication failed''"
| "ffi_error_display Ffi_ResourceLimitExceeded = ''backup operation failed: resource limit exceeded''"
| "ffi_error_display Ffi_Cancelled = ''backup operation failed: cancelled''"
| "ffi_error_display Ffi_IntegrityMismatch = ''backup operation failed: integrity mismatch''"
| "ffi_error_display Ffi_MalformedObject = ''backup operation failed: malformed object''"
| "ffi_error_display Ffi_InvalidCompressedData = ''backup operation failed: invalid compressed data''"

primrec ffi_error_from :: "backup_error_code \<Rightarrow> backup_ffi_error" where
  "ffi_error_from InvalidArgument = Ffi_InvalidArgument"
| "ffi_error_from EmptyPassword = Ffi_EmptyPassword"
| "ffi_error_from InvalidMnemonic = Ffi_InvalidMnemonic"
| "ffi_error_from InvalidMnemonicKey = Ffi_InvalidMnemonicKey"
| "ffi_error_from InvalidPasswordKey = Ffi_InvalidPasswordKey"
| "ffi_error_from UnsupportedFormat = Ffi_UnsupportedFormat"
| "ffi_error_from ContextMismatch = Ffi_ContextMismatch"
| "ffi_error_from IoError = Ffi_IoError"
| "ffi_error_from InvalidState = Ffi_InvalidState"
| "ffi_error_from AuthenticationFailed = Ffi_AuthenticationFailed"
| "ffi_error_from ResourceLimitExceeded = Ffi_ResourceLimitExceeded"
| "ffi_error_from Cancelled = Ffi_Cancelled"
| "ffi_error_from IntegrityMismatch = Ffi_IntegrityMismatch"
| "ffi_error_from MalformedObject = Ffi_MalformedObject"
| "ffi_error_from InvalidCompressedData = Ffi_InvalidCompressedData"

text \<open>What a call of the binding fails with; a panic is passed on as one.\<close>

datatype ffi_fault = Ffi_Error backup_ffi_error | Ffi_Panic

fun ffi_fault_from :: "backup_fault \<Rightarrow> ffi_fault" where
  "ffi_fault_from (Failed code) = Ffi_Error (ffi_error_from code)"
| "ffi_fault_from Panic = Ffi_Panic"

section \<open>Master keys\<close>

datatype backup_key_mode = Mode_Mnemonic | Mode_Password

datatype descriptor_bootstrap = Bootstrap_Mnemonic | Bootstrap_Password bytes

record ffi_descriptor_header =
  fdh_mode :: backup_key_mode
  fdh_salt :: bytes

record ffi_opened_descriptor =
  fod_header :: ffi_descriptor_header
  fod_backup_id :: bytes

text \<open>\<open>CoreBackupMasterKey\<close> has the two variants of \<open>backup_key_material\<close>.\<close>

definition exact_array :: "nat \<Rightarrow> bytes \<Rightarrow> ffi_fault + bytes" where
  "exact_array n bs = (if length bs = n then Inr bs else Inl (Ffi_Error Ffi_InvalidArgument))"

definition ffi_header_from :: "descriptor_header \<Rightarrow> ffi_descriptor_header" where
  "ffi_header_from hdr =
     \<lparr>fdh_mode = (case header_backup_mode hdr of Mnemonic \<Rightarrow> Mode_Mnemonic | Password \<Rightarrow> Mode_Password),
      fdh_salt = header_salt hdr\<rparr>"

definition ffi_parse_descriptor_header :: "bytes \<Rightarrow> ffi_fault + ffi_descriptor_header" where
  "ffi_parse_descriptor_header bs = rbind (map_err ffi_fault_from (header_parse bs)) (\<lambda>hdr. Inr (ffi_header_from hdr))"

definition ffi_generate_mnemonic :: "'m backup_crypto \<Rightarrow> u32 \<Rightarrow> ffi_fault + string \<times> backup_key_material" where
  "ffi_generate_mnemonic K word_count =
     rbind (map_err ffi_fault_from (mnemonic_generate K word_count)) (\<lambda>(mnemonic, key). Inr (mnemonic, MnemonicKey key))"

definition ffi_import_from_mnemonic :: "'m backup_crypto \<Rightarrow> string \<Rightarrow> ffi_fault + backup_key_material" where
  "ffi_import_from_mnemonic K phrase =
     rbind (map_err ffi_fault_from (from_mnemonic K phrase)) (\<lambda>key. Inr (MnemonicKey key))"

definition ffi_import_from_password :: "'m backup_crypto \<Rightarrow> bytes \<Rightarrow> bytes \<Rightarrow> ffi_fault + backup_key_material" where
  "ffi_import_from_password K password_raw_utf8 salt =
     rbind (exact_array 16 salt) (\<lambda>salt.
     rbind (map_err ffi_fault_from (from_password K password_raw_utf8 salt)) (\<lambda>key.
     Inr (PasswordKey key)))"

definition ffi_generate_password :: "'m backup_crypto \<Rightarrow> bytes \<Rightarrow> ffi_fault + bytes \<times> backup_key_material" where
  "ffi_generate_password K password_raw_utf8 =
     rbind (map_err ffi_fault_from (password_generate K password_raw_utf8)) (\<lambda>(salt, key). Inr (salt, PasswordKey key))"

definition ffi_import_from_raw :: "backup_key_mode \<Rightarrow> bytes \<Rightarrow> ffi_fault + backup_key_material" where
  "ffi_import_from_raw mode bs =
     (case mode of
        Mode_Mnemonic \<Rightarrow> rbind (map_err ffi_fault_from (mnemonic_import_from_raw bs)) (\<lambda>key. Inr (MnemonicKey key))
      | Mode_Password \<Rightarrow> rbind (map_err ffi_fault_from (password_import_from_raw bs)) (\<lambda>key. Inr (PasswordKey key)))"

definition ffi_mode :: "backup_key_material \<Rightarrow> backup_key_mode" where
  "ffi_mode key = (case key of MnemonicKey _ \<Rightarrow> Mode_Mnemonic | PasswordKey _ \<Rightarrow> Mode_Password)"

definition ffi_export_raw :: "backup_key_material \<Rightarrow> bytes" where
  "ffi_export_raw key =
     (case key of MnemonicKey k \<Rightarrow> mnemonic_export_raw k | PasswordKey k \<Rightarrow> password_export_raw k)"

definition ffi_derive_backup_id ::
    "(string \<Rightarrow> bytes option) \<Rightarrow> 'm backup_crypto \<Rightarrow> backup_key_material \<Rightarrow> string \<Rightarrow> ffi_fault + bytes" where
  "ffi_derive_backup_id parse K key account_id =
     rbind (map_err ffi_fault_from (account_id_parse parse account_id)) (\<lambda>account.
     rbind (map_err ffi_fault_from (backup_id_derive K key account)) (\<lambda>i. Inr (backup_id_bytes i)))"

definition ffi_descriptor_header_for ::
    "backup_key_material \<Rightarrow> descriptor_bootstrap \<Rightarrow> ffi_fault + descriptor_header" where
  "ffi_descriptor_header_for key bootstrap =
     (case (key, bootstrap) of
        (MnemonicKey _, Bootstrap_Mnemonic) \<Rightarrow> Inr header_mnemonic
      | (PasswordKey _, Bootstrap_Password salt) \<Rightarrow> rbind (exact_array 16 salt) (\<lambda>salt. Inr (header_password salt))
      | _ \<Rightarrow> Inl (Ffi_Error Ffi_InvalidArgument))"

definition ffi_seal_descriptor ::
    "(string \<Rightarrow> bytes option) \<Rightarrow> 'm backup_crypto \<Rightarrow> aead \<Rightarrow> backup_key_material \<Rightarrow> string \<Rightarrow> descriptor_bootstrap
      \<Rightarrow> ffi_fault + bytes" where
  "ffi_seal_descriptor parse K A key account_id bootstrap =
     rbind (map_err ffi_fault_from (account_id_parse parse account_id)) (\<lambda>account.
     rbind (ffi_descriptor_header_for key bootstrap) (\<lambda>hdr.
     map_err ffi_fault_from (seal_descriptor_v1 K A key account hdr)))"

definition ffi_open_descriptor ::
    "(string \<Rightarrow> bytes option) \<Rightarrow> 'm backup_crypto \<Rightarrow> aead \<Rightarrow> backup_key_material \<Rightarrow> string \<Rightarrow> bytes
      \<Rightarrow> ffi_fault + ffi_opened_descriptor" where
  "ffi_open_descriptor parse K A key account_id bs =
     rbind (map_err ffi_fault_from (account_id_parse parse account_id)) (\<lambda>account.
     rbind (ffi_parse_descriptor_header bs) (\<lambda>parsed.
     if fdh_mode parsed \<noteq> ffi_mode key then Inl (Ffi_Error Ffi_InvalidArgument)
     else
       rbind (map_err ffi_fault_from (open_descriptor_v1 K A key account bs)) (\<lambda>(hdr, i).
       Inr \<lparr>fod_header = ffi_header_from hdr, fod_backup_id = backup_id_bytes i\<rparr>)))"

definition ffi_create_context ::
    "'m backup_crypto \<Rightarrow> backup_key_material \<Rightarrow> backup_account_id \<Rightarrow> bytes \<Rightarrow> backup_chunk_id \<Rightarrow> ffi_fault + object_context" where
  "ffi_create_context K key account backup_id chunk_id =
     rbind (map_err ffi_fault_from (backup_id_derive K key account)) (\<lambda>expected_backup_id.
     if backup_id \<noteq> backup_id_bytes expected_backup_id then Inl (Ffi_Error Ffi_ContextMismatch)
     else map_err ffi_fault_from
       (object_context_new K key account expected_backup_id BACKUP_FORMAT_VERSION_V1 chunk_id))"

definition ffi_create_object_context ::
    "(string \<Rightarrow> bytes option) \<Rightarrow> 'm backup_crypto \<Rightarrow> backup_key_material \<Rightarrow> string \<Rightarrow> bytes \<Rightarrow> bytes
      \<Rightarrow> ffi_fault + object_context" where
  "ffi_create_object_context parse K key account_id backup_id chunk_id =
     rbind (map_err ffi_fault_from (account_id_parse parse account_id)) (\<lambda>account.
     rbind (exact_array 32 backup_id) (\<lambda>backup_id.
     rbind (exact_array 32 chunk_id) (\<lambda>chunk.
     rbind (map_err ffi_fault_from (chunk_id_from_bytes chunk)) (\<lambda>chunk_id.
     ffi_create_context K key account backup_id chunk_id))))"

section \<open>Callbacks\<close>

text \<open>\<open>BackupPlaintextSource\<close>; \<open>BackupCiphertextSource\<close> also has \<open>release_stream\<close>; the two sinks.\<close>

record 's plaintext_callbacks =
  cb_read :: "u32 \<Rightarrow> 's \<Rightarrow> (backup_ffi_error + bytes) \<times> 's"
  cb_cancelled :: "'s \<Rightarrow> (backup_ffi_error + bool) \<times> 's"

record 's ciphertext_callbacks = "'s plaintext_callbacks" +
  cb_release :: "'s \<Rightarrow> (backup_ffi_error + unit) \<times> 's"

type_synonym 'k sink_callback = "bytes \<Rightarrow> 'k \<Rightarrow> (backup_ffi_error + unit) \<times> 'k"

definition seal_read :: "('s, 'x) plaintext_callbacks_scheme \<Rightarrow> bytes \<Rightarrow> 's \<times> bool \<Rightarrow> (backup_error_code + nat) \<times> bytes \<times> 's \<times> bool" where
  "seal_read F destination st =
     (case st of (s, failed) \<Rightarrow>
       (case cb_read F (of_nat (length destination)) s of
          (Inl _, s') \<Rightarrow> (Inl IoError, [], s', failed)
        | (Inr bs, s') \<Rightarrow>
            if length destination < length bs then (Inl InvalidState, [], s', failed)
            else (Inr (length bs), bs, s', failed)))"

definition seal_cancelled :: "('s, 'x) plaintext_callbacks_scheme \<Rightarrow> 's \<times> bool \<Rightarrow> bool \<times> 's \<times> bool" where
  "seal_cancelled F st =
     (case st of (s, failed) \<Rightarrow>
       (case cb_cancelled F s of
          (Inr b, s') \<Rightarrow> (b, s', failed)
        | (Inl _, s') \<Rightarrow> (True, s', True)))"

definition seal_source :: "('s, 'x) plaintext_callbacks_scheme \<Rightarrow> ('s \<times> bool) byte_source" where
  "seal_source F = \<lparr>read_chunk = seal_read F, is_cancelled = seal_cancelled F\<rparr>"

definition open_read :: "('s, 'x) plaintext_callbacks_scheme \<Rightarrow> bytes \<Rightarrow> 's \<times> bool \<Rightarrow> (backup_error_code + nat) \<times> bytes \<times> 's \<times> bool" where
  "open_read F destination st =
     (case st of (s, failed) \<Rightarrow>
       (case cb_read F (of_nat (length destination)) s of
          (Inl _, s') \<Rightarrow> (Inl IoError, [], s', failed)
        | (Inr bs, s') \<Rightarrow>
            if length destination < length bs then (Inl InvalidState, [], s', failed)
            else (Inr (length bs), bs, s', failed)))"

text \<open>\<open>callback_cancelled\<close>\<close>

definition callback_cancelled :: "bool \<Rightarrow> backup_ffi_error + bool \<Rightarrow> bool \<times> bool" where
  "callback_cancelled flag result = (case result of Inr b \<Rightarrow> (b, flag) | Inl _ \<Rightarrow> (True, True))"

definition open_cancelled :: "('s, 'x) plaintext_callbacks_scheme \<Rightarrow> 's \<times> bool \<Rightarrow> bool \<times> 's \<times> bool" where
  "open_cancelled F st =
     (case st of (s, failed) \<Rightarrow>
       (case cb_cancelled F s of (result, s') \<Rightarrow>
         (case callback_cancelled failed result of (b, failed') \<Rightarrow> (b, s', failed'))))"

definition open_source :: "('s, 'x) plaintext_callbacks_scheme \<Rightarrow> ('s \<times> bool) byte_source" where
  "open_source F = \<lparr>read_chunk = open_read F, is_cancelled = open_cancelled F\<rparr>"

definition seal_sink :: "'k sink_callback \<Rightarrow> 'k byte_sink" where
  "seal_sink cb = \<lparr>write_chunk = (\<lambda>bs k.
     if MAX_IO_CHUNK_BYTES_V1 < length bs then (Inl InvalidState, k)
     else (case cb bs k of (r, k') \<Rightarrow> (map_err (\<lambda>_. IoError) r, k')))\<rparr>"

definition open_sink :: "'k sink_callback \<Rightarrow> 'k byte_sink" where
  "open_sink cb = \<lparr>write_chunk = (\<lambda>bs k.
     if MAX_IO_CHUNK_BYTES_V1 < length bs then (Inl InvalidState, k)
     else (case cb bs k of (r, k') \<Rightarrow> (map_err (\<lambda>_. IoError) r, k')))\<rparr>"

section \<open>Sealing and opening an object\<close>

text \<open>The primitives of \<open>object_env\<close> with the sink of the call.\<close>

definition with_sink :: "('e, 'd, 'z, 'j) object_env \<Rightarrow> 'k byte_sink \<Rightarrow> ('e, 'd, 'z, 'k) object_env" where
  "with_sink G K = \<lparr>stream = stream G, zstd = zstd G, sink = K, sha256 = sha256 G, random_fill = random_fill G\<rparr>"

text \<open>A failed cancellation callback makes the call an I/O error; a panic is not caught here.\<close>

definition callback_result :: "bool \<Rightarrow> 'a backup_result \<Rightarrow> ffi_fault + 'a" where
  "callback_result callback_failed result =
     (if result = Inl Panic then Inl Ffi_Panic
      else if callback_failed then Inl (Ffi_Error Ffi_IoError)
      else map_err ffi_fault_from result)"

definition ffi_seal_backup_object_v1 ::
    "('e, 'd, 'z, 'j) object_env \<Rightarrow> object_context \<Rightarrow> ('s, 'x) plaintext_callbacks_scheme \<Rightarrow> 'k sink_callback \<Rightarrow> 's \<Rightarrow> 'k
      \<Rightarrow> (ffi_fault + backup_object_descriptor) \<times> 's \<times> 'k" where
  "ffi_seal_backup_object_v1 G ctx F cb s k =
     (case seal_object_v1 (with_sink G (seal_sink cb)) ctx (seal_source F) (s, False) k of
        (r, (s', failed), k') \<Rightarrow> (callback_result failed r, s', k'))"

text \<open>The source is released when the adapter is dropped, on every path.\<close>

definition ffi_open_backup_object_v1 ::
    "(string \<Rightarrow> bytes option) \<Rightarrow> 'm backup_crypto \<Rightarrow> ('e, 'd, 'z, 'j) object_env \<Rightarrow> 'y zstd_decoder \<Rightarrow> backup_key_material
      \<Rightarrow> string \<Rightarrow> bytes \<Rightarrow> ('s, 'x) ciphertext_callbacks_scheme \<Rightarrow> 'k sink_callback \<Rightarrow> 's \<Rightarrow> 'k
      \<Rightarrow> (ffi_fault + unit) \<times> 's \<times> 'k" where
  "ffi_open_backup_object_v1 parse K G Y key account_id chunk_id F cb s k =
     (case rbind (ffi_derive_backup_id parse K key account_id) (\<lambda>backup_id.
           ffi_create_object_context parse K key account_id backup_id chunk_id) of
        Inl e \<Rightarrow> (Inl e, snd (cb_release F s), k)
      | Inr ctx \<Rightarrow>
          (case open_object_v1 (with_sink G (open_sink cb)) Y (open_source F) ctx (s, False) k of
             (r, (s', failed), k') \<Rightarrow> (callback_result failed r, snd (cb_release F s'), k')))"

end
