(* ===== verification/Uniffi_Backup_Correct.thy ===== *)
theory Uniffi_Backup_Correct
  imports Uniffi_Backup Backup_Roundtrip Backup_Source_Inv
begin

text \<open>
  What the backup API of the Kotlin and Swift binding promises: a descriptor opens exactly when it is
  a sealed one of the same key kind, an object that was sealed through callbacks opens through
  callbacks to the sealed bytes, and opening settles its callbacks: the stream is released once, a
  failed cancellation callback is an I/O error, and the plaintext sink is bounded.
\<close>

section \<open>Keys and contexts\<close>

lemma foldl_list_update:
  "n \<le> length xs \<Longrightarrow> foldl (\<lambda>ys i. ys[i := f i]) xs [0..<n] = map f [0..<n] @ drop n xs"
proof (induction n)
  case 0
  then show ?case by simp
next
  case (Suc n)
  then have "drop n xs = xs ! n # drop (Suc n) xs" by (simp add: Cons_nth_drop_Suc)
  with Suc show ?case by (simp add: list_update_append)
qed

lemma header_salt_eq: "length (header_bytes h) = 26 \<Longrightarrow> header_salt h = drop 10 (header_bytes h)"
  by (rule nth_equalityI) (simp_all add: header_salt_def foldl_list_update)

lemma header_fields:
  "header_backup_mode header_mnemonic = Mnemonic" "header_salt header_mnemonic = replicate 16 0"
  "length salt = 16 \<Longrightarrow> header_backup_mode (header_password salt) = Password"
  "length salt = 16 \<Longrightarrow> header_salt (header_password salt) = salt"
  by (simp_all add: header_salt_eq header_mnemonic_bytes header_password_bytes header_backup_mode_def
      descriptor_consts)

text \<open>The header that a bootstrap stands for.\<close>

definition bootstrap_header :: "descriptor_bootstrap \<Rightarrow> ffi_descriptor_header" where
  "bootstrap_header b =
     (case b of
        Bootstrap_Mnemonic \<Rightarrow> \<lparr>fdh_mode = Mode_Mnemonic, fdh_salt = replicate 16 0\<rparr>
      | Bootstrap_Password salt \<Rightarrow> \<lparr>fdh_mode = Mode_Password, fdh_salt = salt\<rparr>)"

lemma exact_array_Inr_iff [simp]: "exact_array n bs = Inr a \<longleftrightarrow> length bs = n \<and> a = bs"
  by (auto simp: exact_array_def)

text \<open>\<open>ffi_descriptor_header_for\<close> yields the valid headers of the key's own kind, each for its bootstrap.\<close>

lemma ffi_descriptor_header_for_iff:
  "ffi_descriptor_header_for key b = Inr h \<longleftrightarrow>
     header_validate h = Inr () \<and> length (header_bytes h) = 26 \<and>
     ffi_header_from h = bootstrap_header b \<and> fdh_mode (ffi_header_from h) = ffi_mode key"
proof -
  have valid: "header_validate h = Inr () \<and> length (header_bytes h) = 26 \<longleftrightarrow>
      h = header_mnemonic \<or> (\<exists>salt. length salt = 16 \<and> h = header_password salt)"
    using header_validate_iff [of h] by (auto simp: header_mnemonic_bytes header_password_bytes)
  show ?thesis
    unfolding conj_assoc [symmetric] valid
    by (auto simp: ffi_descriptor_header_for_def ffi_mode_def bootstrap_header_def ffi_header_from_def
        header_fields rbind_Inr_iff split: backup_key_material.splits descriptor_bootstrap.splits)
qed

lemma ffi_derive_backup_id_Inr_iff:
  "ffi_derive_backup_id parse K key a = Inr i \<longleftrightarrow>
     (\<exists>acc b. account_id_parse parse a = Inr acc \<and> backup_id_derive K key acc = Inr b \<and> i = backup_id_bytes b)"
  by (auto simp: ffi_derive_backup_id_def rbind_Inr_iff)

lemma ffi_create_object_context_Inr_iff:
  "ffi_create_object_context parse K key a i c = Inr ctx \<longleftrightarrow>
     length i = 32 \<and> length c = 32 \<and> c \<noteq> replicate 32 0 \<and>
     (\<exists>acc b. account_id_parse parse a = Inr acc \<and> backup_id_derive K key acc = Inr b \<and> i = backup_id_bytes b \<and>
        object_context_new K key acc b BACKUP_FORMAT_VERSION_V1 (BackupChunkId c) = Inr ctx)"
  by (auto simp: ffi_create_object_context_def ffi_create_context_def rbind_Inr_iff chunk_id_from_bytes_def
      split: if_splits)

text \<open>C25: The binding opens exactly what it seals: for a master key and an account,
  \<open>open_descriptor\<close> accepts a byte string if and only if \<open>seal_descriptor\<close> produces it for some
  bootstrap and some 24-byte nonce; the header it returns is the one of that bootstrap, so its mode is
  the key's, and the backup identifier is the one \<open>derive_backup_id\<close> computes.\<close>

theorem ffi_descriptor_exact:
  assumes "hkdf_fills K" and "aead_correct A"
  shows "ffi_open_descriptor parse K A key account_id s = Inr opened \<longleftrightarrow>
    (\<exists>bootstrap nonce i. length nonce = 24 \<and>
       ffi_seal_descriptor parse (K\<lparr>getrandom := \<lambda>_. Some nonce\<rparr>) A key account_id bootstrap = Inr s \<and>
       ffi_derive_backup_id parse K key account_id = Inr i \<and>
       opened = \<lparr>fod_header = bootstrap_header bootstrap, fod_backup_id = i\<rparr>)"
    (is "?opens \<longleftrightarrow> ?sealed")
proof
  assume ?opens
  then obtain acc h b where acc: "account_id_parse parse account_id = Inr acc"
    and mode: "fdh_mode (ffi_header_from h) = ffi_mode key"
    and op: "open_descriptor_v1 K A key acc s = Inr (h, b)"
    and o: "opened = \<lparr>fod_header = ffi_header_from h, fod_backup_id = backup_id_bytes b\<rparr>"
    by (auto simp: ffi_open_descriptor_def ffi_parse_descriptor_header_def rbind_Inr_iff
        open_descriptor_Inr_iff [OF assms(1)] header_parse_Inr_iff split: if_splits)
  from op [unfolded open_descriptor_Inr_iff [OF assms(1)]] have h: "header_validate h = Inr ()" by blast
  from opened_iff_sealed [OF assms] op obtain nonce where len: "length (header_bytes h) = 26"
    and b: "backup_id_derive K key acc = Inr b" and n: "length nonce = 24"
    and sl: "seal_descriptor_v1 (K\<lparr>getrandom := \<lambda>_. Some nonce\<rparr>) A key acc h = Inr s" by blast
  from h len obtain bs where bs: "ffi_header_from h = bootstrap_header bs"
    using header_validate_iff [OF len]
    by (metis bootstrap_header_def descriptor_bootstrap.case ffi_header_from_def header_fields
        descriptor_backup_mode.case)
  with h len mode have "ffi_descriptor_header_for key bs = Inr h" by (simp add: ffi_descriptor_header_for_iff)
  with acc sl have "ffi_seal_descriptor parse (K\<lparr>getrandom := \<lambda>_. Some nonce\<rparr>) A key account_id bs = Inr s"
    by (simp add: ffi_seal_descriptor_def)
  with acc b n o bs show ?sealed by (auto simp: ffi_derive_backup_id_Inr_iff)
next
  assume ?sealed
  then obtain bs nonce b acc h where n: "length nonce = 24" and acc: "account_id_parse parse account_id = Inr acc"
    and b: "backup_id_derive K key acc = Inr b" and h: "ffi_descriptor_header_for key bs = Inr h"
    and sl: "seal_descriptor_v1 (K\<lparr>getrandom := \<lambda>_. Some nonce\<rparr>) A key acc h = Inr s"
    and o: "opened = \<lparr>fod_header = bootstrap_header bs, fod_backup_id = backup_id_bytes b\<rparr>"
    by (auto simp: ffi_seal_descriptor_def ffi_derive_backup_id_Inr_iff rbind_Inr_iff)
  note hh = h [unfolded ffi_descriptor_header_for_iff]
  have op: "open_descriptor_v1 K A key acc s = Inr (h, b)"
    using opened_iff_sealed [OF assms] hh b n sl by blast
  from op [unfolded open_descriptor_Inr_iff [OF assms(1)]] have "header_parse s = Inr h"
    unfolding header_parse_Inr_iff by blast
  moreover have "fdh_mode (bootstrap_header bs) = ffi_mode key" "ffi_header_from h = bootstrap_header bs"
    using hh by auto
  ultimately show ?opens
    using acc op o by (simp add: ffi_open_descriptor_def ffi_parse_descriptor_header_def)
qed

theorem ffi_descriptor_exact_witness:
  "\<exists>s. ffi_open_descriptor (\<lambda>_. Some (account_id_bytes sample_account)) sample_crypto sample_aead sample_key ''a'' s =
     Inr \<lparr>fod_header = \<lparr>fdh_mode = Mode_Mnemonic, fdh_salt = replicate 16 0\<rparr>,
          fod_backup_id = backup_id_bytes sample_backup_id\<rparr>"
proof -
  let ?parse = "\<lambda>_ :: string. Some (account_id_bytes sample_account)"
  obtain s where s: "seal_descriptor_v1 (sample_crypto\<lparr>getrandom := \<lambda>_. Some (replicate 24 7)\<rparr>)
      sample_aead sample_key sample_account header_mnemonic = Inr s"
    using sample_seal by blast
  have acc: "account_id_parse ?parse ''a'' = Inr sample_account"
    by (simp add: account_id_parse_def)
  have "ffi_descriptor_header_for sample_key Bootstrap_Mnemonic = Inr header_mnemonic"
    by (simp add: ffi_descriptor_header_for_def sample_key_def)
  with acc s have "ffi_seal_descriptor ?parse (sample_crypto\<lparr>getrandom := \<lambda>_. Some (replicate 24 7)\<rparr>) sample_aead
      sample_key ''a'' Bootstrap_Mnemonic = Inr s"
    by (simp add: ffi_seal_descriptor_def)
  moreover have "ffi_derive_backup_id ?parse sample_crypto sample_key ''a'' = Inr (backup_id_bytes sample_backup_id)"
    using acc sample_backup_id_derive by (auto simp: ffi_derive_backup_id_Inr_iff)
  moreover have "length (replicate 24 (7 :: byte)) = 24" by simp
  moreover have "bootstrap_header Bootstrap_Mnemonic = \<lparr>fdh_mode = Mode_Mnemonic, fdh_salt = replicate 16 0\<rparr>"
    by (simp add: bootstrap_header_def)
  ultimately show ?thesis
    using ffi_descriptor_exact [OF sample_crypto_laws(2) sample_aead_correct] by metis
qed

section \<open>Callbacks\<close>

text \<open>
  Plaintext callbacks that keep their contract, \<open>R s\<close> being the bytes still to come: an empty array
  exactly at the end, never more bytes than were asked for, no failure and no cancellation.
\<close>

definition honest_callbacks :: "('s, 'x) plaintext_callbacks_scheme \<Rightarrow> ('s \<Rightarrow> bytes) \<Rightarrow> bool" where
  "honest_callbacks F R \<longleftrightarrow>
     (\<forall>s n. 0 < n \<longrightarrow>
        (\<exists>bs s'. cb_read F n s = (Inr bs, s') \<and> length bs \<le> unat n \<and> (bs = [] \<longleftrightarrow> R s = []) \<and> R s = bs @ R s')) \<and>
     (\<forall>s. \<exists>s'. cb_cancelled F s = (Inr False, s') \<and> R s' = R s)"

text \<open>A sink callback that appends what it accepts, and one that never refuses a chunk.\<close>

definition faithful_callback :: "'k sink_callback \<Rightarrow> ('k \<Rightarrow> bytes) \<Rightarrow> bool" where
  "faithful_callback cb W \<longleftrightarrow>
     (\<forall>bs k k'. cb bs k = (Inr (), k') \<longrightarrow> W k' = W k @ bs) \<and> (\<forall>bs k e k'. cb bs k = (Inl e, k') \<longrightarrow> W k' = W k)"

definition accepting_callback :: "'k sink_callback \<Rightarrow> bool" where
  "accepting_callback cb \<longleftrightarrow> (\<forall>bs k. length bs \<le> MAX_IO_CHUNK_BYTES_V1 \<longrightarrow> (\<exists>k'. cb bs k = (Inr (), k')))"

text \<open>The two modules write their adapters twice; they do the same.\<close>

lemma open_adapters_eq: "open_source F = seal_source F" "open_sink cb = seal_sink cb"
  by (simp_all add: open_source_def seal_source_def open_sink_def seal_sink_def open_read_def seal_read_def
      open_cancelled_def seal_cancelled_def callback_cancelled_def fun_eq_iff split: prod.splits sum.splits)

lemma honest_callbacks_source:
  assumes "honest_callbacks F R"
  shows "honest_source (seal_source F) (\<lambda>st. R (fst st))"
proof -
  have "\<exists>n w s'. seal_read F dest (s, flag) = (Inr n, w, s') \<and> n \<le> length dest \<and> n \<le> length w \<and> n \<le> length (R s) \<and>
      (n = 0 \<longleftrightarrow> R s = []) \<and> take n w = take n (R s) \<and> R (fst s') = drop n (R s)"
    if d: "dest \<noteq> []" "length dest \<le> MAX_IO_CHUNK_BYTES_V1" for s flag and dest :: bytes
  proof -
    have u: "unat (of_nat (length dest) :: u32) = length dest"
      using d(2) by (simp add: unat_of_nat MAX_IO_CHUNK_BYTES_V1_def)
    then have "0 < (of_nat (length dest) :: u32)" using d(1) by (simp add: word_less_nat_alt)
    with assms have "\<exists>bs s'. cb_read F (of_nat (length dest)) s = (Inr bs, s') \<and>
        length bs \<le> unat (of_nat (length dest) :: u32) \<and> (bs = [] \<longleftrightarrow> R s = []) \<and> R s = bs @ R s'"
      unfolding honest_callbacks_def by blast
    then obtain bs s' where "cb_read F (of_nat (length dest)) s = (Inr bs, s')" "length bs \<le> length dest"
      "bs = [] \<longleftrightarrow> R s = []" "R s = bs @ R s'"
      unfolding u by blast
    then show ?thesis
      by (intro exI [of _ "length bs"] exI [of _ bs] exI [of _ "(s', flag)"]) (auto simp: seal_read_def)
  qed
  moreover have "\<exists>s'. seal_cancelled F (s, flag) = (False, s') \<and> R (fst s') = R s" for s flag
  proof -
    from assms obtain s' where "cb_cancelled F s = (Inr False, s')" "R s' = R s"
      unfolding honest_callbacks_def by blast
    then show ?thesis by (intro exI [of _ "(s', flag)"]) (simp add: seal_cancelled_def)
  qed
  ultimately show ?thesis by (simp add: honest_source_def seal_source_def)
qed

lemma faithful_callback_sink: "faithful_callback cb W \<Longrightarrow> faithful_sink (seal_sink cb) W"
  by (auto simp: faithful_callback_def faithful_sink_def seal_sink_def map_err_def split: if_splits prod.splits sum.splits)

lemma accepting_callback_sink: "accepting_callback cb \<Longrightarrow> accepting_sink (seal_sink cb)"
  unfolding accepting_callback_def accepting_sink_def seal_sink_def
  by (auto simp: not_less split: prod.splits) (metis map_err_simps(2) prod.inject)

lemma with_sink_sel [simp]:
  "stream (with_sink G K) = stream G" "zstd (with_sink G K) = zstd G" "sink (with_sink G K) = K"
  by (simp_all add: with_sink_def)

lemma callback_result_Inr_iff: "callback_result failed r = Inr a \<longleftrightarrow> r = Inr a \<and> \<not> failed"
  by (auto simp: callback_result_def)

text \<open>The flag of a source whose cancellation callback never fails stays clear.\<close>

lemma honest_flag_kept:
  assumes "honest_callbacks F R"
  shows "source_keeps (\<lambda>st. \<not> snd st) (seal_source F)"
proof -
  have "\<exists>s'. cb_cancelled F s = (Inr False, s')" for s using assms unfolding honest_callbacks_def by blast
  then have "\<not> snd (snd (seal_cancelled F (s, False)))" for s by (auto simp: seal_cancelled_def split: prod.splits sum.splits) (metis Inl_Inr_False prod.inject)
  moreover have "\<not> snd (snd (snd (seal_read F dest (s, False))))" for s dest
    by (auto simp: seal_read_def split: prod.splits sum.splits)
  ultimately show ?thesis by (auto simp: source_keeps_def seal_source_def)
qed

lemma honest_open_flag:
  assumes "honest_callbacks F R" and "open_object_v1 G Y (open_source F) ctx (s, False) k = (r, (s', failed), k')"
  shows "\<not> failed"
  using open_object_keeps [OF honest_flag_kept [OF assms(1)]] assms(2) by (simp add: open_adapters_eq) fastforce

text \<open>C4: An object that was sealed through callbacks opens through callbacks: if
  \<open>seal_backup_object_v1\<close> returned metadata for the bytes \<open>R s\<close> and its sink took the bytes
  \<open>object\<close>, then \<open>open_backup_object_v1\<close> with the same key, account and chunk, on any stream that
  delivers \<open>object\<close> in pieces of any size, succeeds, appends exactly \<open>R s\<close> to the plaintext sink, and
  releases the stream last.\<close>

theorem ffi_object_roundtrip:
  assumes F: "honest_callbacks F R" "faithful_callback cb W" and Z: "slices_fit (zstd G)"
    and sy: "stream_sync (stream G) sync" and codec: "zstd_codec (zstd G) Y"
    and ctx: "ffi_create_object_context parse K key account_id backup_id chunk_id = Inr ctx"
    and seal: "ffi_seal_backup_object_v1 G ctx F cb s k = (Inr d, s', k')" and obj: "W k' = W k @ object"
    and T: "honest_callbacks T Q" "Q t = object" "faithful_callback cb' V" "accepting_callback cb'"
  shows "\<exists>t' q'. ffi_open_backup_object_v1 parse K G Y key account_id chunk_id T cb' t q =
      (Inr (), snd (cb_release T t'), q') \<and> V q' = V q @ R s"
proof -
  from seal obtain failed where core: "seal_object_v1 (with_sink G (seal_sink cb)) ctx (seal_source F) (s, False) k =
      (Inr d, (s', failed), k')"
    by (auto simp: ffi_seal_backup_object_v1_def callback_result_Inr_iff split: prod.splits)
  have "\<exists>t' q'. open_object_v1 (with_sink G (seal_sink cb')) Y (seal_source T) ctx (t, False) q = (Inr (), t', q') \<and>
      V q' = V q @ R (fst (s, False))"
    by (rule sealed_object_opens [OF honest_callbacks_source [OF F(1)] _ _ _ _ core obj _ _ _
          honest_callbacks_source [OF T(1)], where sync = sync])
      (simp_all add: faithful_callback_sink F(2) T Z sy codec accepting_callback_sink)
  then obtain t' flag q' where op: "open_object_v1 (with_sink G (open_sink cb')) Y (open_source T) ctx (t, False) q =
      (Inr (), (t', flag), q')" and q': "V q' = V q @ R s"
    by (auto simp: open_adapters_eq)
  have "\<not> flag" by (rule honest_open_flag [OF T(1) op])
  moreover have "rbind (ffi_derive_backup_id parse K key account_id)
      (\<lambda>i. ffi_create_object_context parse K key account_id i chunk_id) = Inr ctx"
  proof -
    from ctx obtain acc b where "account_id_parse parse account_id = Inr acc" "backup_id_derive K key acc = Inr b"
      "backup_id = backup_id_bytes b"
      unfolding ffi_create_object_context_Inr_iff by blast
    then have "ffi_derive_backup_id parse K key account_id = Inr backup_id"
      by (auto simp: ffi_derive_backup_id_Inr_iff)
    with ctx show ?thesis by simp
  qed
  ultimately show ?thesis
    using op q' by (auto simp: ffi_open_backup_object_v1_def callback_result_def)
qed

text \<open>Callbacks over a byte string, which count releases and, should there be any, failed cancellations.\<close>

definition memory_callbacks :: "(bytes \<times> nat \<times> nat) ciphertext_callbacks" where
  "memory_callbacks = \<lparr>
     cb_read = (\<lambda>n (bs, released, failures). (Inr (take (unat n) bs), drop (unat n) bs, released, failures)),
     cb_cancelled = (\<lambda>st. (Inr False, st)),
     cb_release = (\<lambda>(bs, released, failures). (Inr (), bs, Suc released, failures))\<rparr>"

definition append_callback :: "bytes sink_callback" where
  "append_callback bs k = (Inr (), k @ bs)"

lemma memory_callbacks_honest: "honest_callbacks memory_callbacks fst"
  by (auto simp: honest_callbacks_def memory_callbacks_def word_less_nat_alt)

lemma append_callback_laws:
  "faithful_callback append_callback (\<lambda>k. k)" "accepting_callback append_callback"
  "appending (seal_sink append_callback)"
  by (simp_all add: faithful_callback_def accepting_callback_def append_callback_def appending_def sink_write_def
      seal_sink_def MAX_IO_CHUNK_BYTES_V1_def)

lemma with_sink_sample: "with_sink (sample_env Z) K = sample_env_on Z K"
  by (simp add: with_sink_def)

theorem ffi_object_roundtrip_witness:
  "\<exists>d s' object t'. ffi_seal_backup_object_v1 (sample_env (one_shot_encoder (sample_frame [42]))) (sample_context 1)
      memory_callbacks append_callback ([42], 0, 0) [] = (Inr d, s', object) \<and>
    ffi_open_backup_object_v1 (\<lambda>_. Some (account_id_bytes sample_account)) sample_crypto
      (sample_env (one_shot_encoder (sample_frame [42]))) one_shot_decoder sample_key ''a'' (replicate 32 1)
      memory_callbacks append_callback (object, 0, 0) [] = (Inr (), t', [42])"
proof -
  let ?G = "sample_env (one_shot_encoder (sample_frame [42]))"
    and ?parse = "\<lambda>_ :: string. Some (account_id_bytes sample_account)"
  have len: "length (sample_frame [42]) \<le> 1000" by (simp add: sample_frame_def)
  note src = honest_callbacks_source [OF memory_callbacks_honest]
  from sample_seal_on [OF append_callback_laws(3) len src, of "(([42], 0, 0), False)" "[]"]
  obtain d s' failed k' where core: "seal_object_v1 (with_sink ?G (seal_sink append_callback)) (sample_context 1)
      (seal_source memory_callbacks) (([42], 0, 0), False) [] = (Inr d, (s', failed), k')"
    by (auto simp: with_sink_sample)
  have "\<not> failed" using seal_object_keeps [OF honest_flag_kept [OF memory_callbacks_honest] core] by simp
  with core have seal: "ffi_seal_backup_object_v1 ?G (sample_context 1) memory_callbacks append_callback ([42], 0, 0) [] =
      (Inr d, s', k')"
    by (simp add: ffi_seal_backup_object_v1_def callback_result_def)
  have ctx: "ffi_create_object_context ?parse sample_crypto sample_key ''a'' (backup_id_bytes sample_backup_id)
      (replicate 32 1) = Inr (sample_context 1)"
    using sample_backup_id_derive sample_context_new [of 1] backup_id_derive_length [OF sample_crypto_laws(2) sample_backup_id_derive]
    by (auto simp: ffi_create_object_context_Inr_iff account_id_parse_def BACKUP_FORMAT_VERSION_V1_def)
  have Z: "slices_fit (zstd ?G)" using len by (simp add: one_shot_encoder_fits)
  have sy: "stream_sync (stream ?G) (\<lambda>_ _. True)" by (simp add: sample_cipher_sync)
  have codec: "zstd_codec (zstd ?G) one_shot_decoder" by (simp add: one_shot_codec)
  have obj: "k' = [] @ k'" and T: "fst (k', 0 :: nat, 0 :: nat) = k'" by simp_all
  from ffi_object_roundtrip [OF memory_callbacks_honest append_callback_laws(1) Z sy codec ctx seal obj
      memory_callbacks_honest T append_callback_laws(1,2), of "[]"]
  obtain t' q' where "ffi_open_backup_object_v1 ?parse sample_crypto ?G one_shot_decoder sample_key ''a'' (replicate 32 1)
      memory_callbacks append_callback (k', 0, 0) [] = (Inr (), t', q')" "q' = [] @ fst ([42], 0 :: nat, 0 :: nat)"
    by blast
  then have "ffi_open_backup_object_v1 ?parse sample_crypto ?G one_shot_decoder sample_key ''a'' (replicate 32 1)
      memory_callbacks append_callback (k', 0, 0) [] = (Inr (), t', [42])" by simp
  with seal show ?thesis by blast
qed

section \<open>Opening settles its callbacks\<close>

text \<open>
  Two observations of the state of ciphertext callbacks: how often the stream was released, and how
  often the cancellation callback failed.
\<close>

definition callback_counters ::
    "('s, 'x) ciphertext_callbacks_scheme \<Rightarrow> ('s \<Rightarrow> nat) \<Rightarrow> ('s \<Rightarrow> nat) \<Rightarrow> bool" where
  "callback_counters F released failures \<longleftrightarrow>
     (\<forall>s. released (snd (cb_release F s)) = Suc (released s) \<and> failures (snd (cb_release F s)) = failures s) \<and>
     (\<forall>n s. released (snd (cb_read F n s)) = released s \<and> failures (snd (cb_read F n s)) = failures s) \<and>
     (\<forall>s. released (snd (cb_cancelled F s)) = released s \<and>
        failures (snd (cb_cancelled F s)) = (case fst (cb_cancelled F s) of Inl _ \<Rightarrow> Suc (failures s) | Inr _ \<Rightarrow> failures s))"

lemma counted_source:
  assumes "callback_counters F released failures"
  shows "source_keeps (\<lambda>st. released (fst st) = n \<and> m \<le> failures (fst st) \<and> (snd st \<longleftrightarrow> m < failures (fst st)))
    (seal_source F)"
    (is "source_keeps ?P _")
proof -
  note law = assms [unfolded callback_counters_def, THEN conjunct2]
  have "?P (snd (seal_cancelled F st))" if P: "?P st" for st
  proof -
    obtain s flag where st: "st = (s, flag)" by fastforce
    obtain r s' where c: "cb_cancelled F s = (r, s')" by fastforce
    have "released s' = released s \<and> failures s' = (case r of Inl _ \<Rightarrow> Suc (failures s) | Inr _ \<Rightarrow> failures s)"
      using law [THEN conjunct2, THEN spec, of s] c by simp
    with P st c show ?thesis by (cases r) (auto simp: seal_cancelled_def)
  qed
  moreover have "?P (snd (snd (seal_read F dest st)))" if P: "?P st" for dest st
  proof -
    obtain s flag where st: "st = (s, flag)" by fastforce
    obtain r s' where c: "cb_read F (of_nat (length dest)) s = (r, s')" by fastforce
    have "released s' = released s \<and> failures s' = failures s"
      using law [THEN conjunct1, THEN spec, THEN spec, of "of_nat (length dest)" s] c by simp
    with P st c show ?thesis by (cases r) (auto simp: seal_read_def)
  qed
  ultimately show ?thesis by (simp add: source_keeps_def seal_source_def)
qed

lemma derivations_no_panic:
  "ffi_derive_backup_id parse K key a \<noteq> Inl Ffi_Panic"
  "ffi_create_object_context parse K key a i c \<noteq> Inl Ffi_Panic"
proof -
  have b: "backup_id_derive K key acc \<noteq> Inl Panic" for acc
    by (auto simp: backup_id_derive_def derive_account_key_def derive_account_key_material_eq derive_backup_id_def
        derive_hkdf_def rbind_def ok_or_def split: sum.splits option.splits)
  have a: "account_id_parse parse a \<noteq> Inl Panic"
    by (auto simp: account_id_parse_def rbind_def ok_or_def split: sum.splits option.splits)
  have o: "object_context_new K key acc i v c \<noteq> Inl Panic" for acc i v c
    using b [of acc]
    by (auto simp: object_context_new_def derive_account_key_def derive_account_key_material_eq derive_object_def
        derive_hkdf_def rbind_def ok_or_def Let_def split: sum.splits option.splits if_splits)
  have lift: "map_err ffi_fault_from r \<noteq> Inl Ffi_Panic" if "r \<noteq> Inl Panic" for r :: "'z backup_result"
    using that by (cases r) (auto elim: ffi_fault_from.elims)
  have lift': "map_err ffi_fault_from r = Inl e \<Longrightarrow> r \<noteq> Inl Panic \<Longrightarrow> e \<noteq> Ffi_Panic" for e and r :: "'z backup_result"
    using lift by metis
  show "ffi_derive_backup_id parse K key a \<noteq> Inl Ffi_Panic"
    using lift' [OF _ a] lift' [OF _ b] by (auto simp: ffi_derive_backup_id_def rbind_def split: sum.splits)
  show "ffi_create_object_context parse K key a i c \<noteq> Inl Ffi_Panic"
    using lift' [OF _ a] lift' [OF _ b] lift [OF o]
    by (auto simp: ffi_create_object_context_def ffi_create_context_def chunk_id_from_bytes_def exact_array_def
        rbind_def split: sum.splits if_splits)
qed

text \<open>C24: Opening through callbacks settles them on every path, whatever stream, key and identifiers it
  is given: it does not panic, \<open>release_stream\<close> is called exactly once, after a failure of the
  cancellation callback the result is \<open>IoError\<close>, and the plaintext sink has received at most 1 GiB.\<close>

theorem ffi_open_settles:
  assumes Y: "decoder_bounded Y" and cb: "faithful_callback cb W"
    and F: "callback_counters F released failures"
    and run: "ffi_open_backup_object_v1 parse K G Y key account_id chunk_id F cb s k = (r, s', k')"
  shows "r \<noteq> Inl Ffi_Panic \<and> released s' = Suc (released s) \<and>
    (failures s < failures s' \<longrightarrow> r = Inl (Ffi_Error Ffi_IoError)) \<and>
    (\<exists>c. W k' = W k @ c \<and> length c \<le> unat MAX_PLAINTEXT_OBJECT_BYTES_V1)"
proof -
  note rel = F [unfolded callback_counters_def, THEN conjunct1, THEN spec]
  let ?ctx = "rbind (ffi_derive_backup_id parse K key account_id)
    (\<lambda>i. ffi_create_object_context parse K key account_id i chunk_id)"
  have ctx: "?ctx \<noteq> Inl Ffi_Panic"
    using derivations_no_panic(1) [of parse K key account_id] derivations_no_panic(2) [of parse K key account_id _ chunk_id]
    by (auto simp: rbind_def split: sum.splits)
  show ?thesis
  proof (cases ?ctx)
    case (Inl e)
    with run ctx rel [of s] show ?thesis
      by (intro conjI exI [of _ "[]"]) (auto simp: ffi_open_backup_object_v1_def)
  next
    case (Inr ctx)
    obtain q tf k1 where "open_object_v1 (with_sink G (open_sink cb)) Y (seal_source F) ctx (s, False) k = (q, tf, k1)"
      by (metis prod_cases3)
    moreover obtain t flag where "tf = (t, flag)" by fastforce
    ultimately have op: "open_object_v1 (with_sink G (open_sink cb)) Y (seal_source F) ctx (s, False) k =
        (q, (t, flag), k1)" by simp
    have fs: "faithful_sink (sink (with_sink G (open_sink cb))) W"
      using cb by (simp add: open_adapters_eq faithful_callback_sink)
    have safe: "q \<noteq> Inl Panic" "\<exists>c. W k1 = W k @ c \<and> length c \<le> unat MAX_PLAINTEXT_OBJECT_BYTES_V1"
      using opened_object_bounded [OF Y fs op] by auto
    have "released t = released s \<and> failures s \<le> failures t \<and> (flag \<longleftrightarrow> failures s < failures t)"
      using open_object_keeps [OF counted_source [OF F, of "released s" "failures s"] op] by simp
    moreover have out: "r = callback_result flag q" "s' = snd (cb_release F t)" "k' = k1"
      using run Inr op by (simp_all add: ffi_open_backup_object_v1_def open_adapters_eq)
    moreover have "callback_result flag q \<noteq> Inl Ffi_Panic"
      using safe(1) by (cases q) (auto simp: callback_result_def elim: ffi_fault_from.elims)
    ultimately show ?thesis using safe rel [of t] by (auto simp: callback_result_def)
  qed
qed

theorem ffi_open_settles_witness:
  "\<exists>r bs failures. ffi_open_backup_object_v1 (\<lambda>_. None) sample_crypto (sample_env (one_shot_encoder [])) sample_decoder
      sample_key ''a'' [1] memory_callbacks append_callback ([1, 2, 3], 0, 0) [] = (r, (bs, 1, failures), [])"
proof -
  have F: "callback_counters memory_callbacks (\<lambda>st. fst (snd st)) (\<lambda>st. snd (snd st))"
    by (auto simp: callback_counters_def memory_callbacks_def split: prod.splits)
  obtain r s' k' where run: "ffi_open_backup_object_v1 (\<lambda>_. None) sample_crypto (sample_env (one_shot_encoder []))
      sample_decoder sample_key ''a'' [1] memory_callbacks append_callback ([1, 2, 3], 0, 0) [] = (r, s', k')"
    by (metis prod_cases3)
  then have "k' = []"
    by (auto simp: ffi_open_backup_object_v1_def ffi_derive_backup_id_def account_id_parse_def rbind_def ok_or_def)
  with ffi_open_settles [OF sample_decoder_bounded append_callback_laws(1) F run] run show ?thesis
    by (cases s') (auto simp: memory_callbacks_def)
qed

end
