(* ===== verification/Napi_Error.thy ===== *)
theory Napi_Error
  imports Mls_Error
begin

text \<open>
  The error type of the Node.js client (\<open>kchat-napi/src/mls/error.rs\<close>): its variants, texts, codes and
  statuses, the conversions into it and the \<open>napi::Error\<close> it becomes. The lemmas show that a code
  identifies the variant.
\<close>

section \<open>Variants, texts, codes and conversions\<close>

datatype napi_error =
    Napi_Mls string
  | Napi_Crypto string
  | Napi_KeyPackageNew string
  | Napi_AddMembers string
  | Napi_MergePendingCommit string
  | Napi_NewGroup string
  | Napi_ProcessMessage string
  | Napi_MergeCommit string
  | Napi_InvalidOperationMessage
  | Napi_InvalidWelcomeMessage
  | Napi_InvalidApplicationMessage
  | Napi_InvalidProposalMessage
  | Napi_InvalidGroupInfo
  | Napi_Welcome string
  | Napi_WelcomeGroupAlreadyExisted
  | Napi_ProtocolMessage string
  | Napi_Storage string
  | Napi_KeyPackageVerify string
  | Napi_GroupIsNotExisted
  | Napi_GroupIsAlreadyExisted
  | Napi_CreateMessage string
  | Napi_ExportGroupInfo string
  | Napi_ExportGroupInfoInvalidExportType
  | Napi_ExternalCommit string
  | Napi_CreationFromExternal string
  | Napi_MissingRatchetTree
  | Napi_CredentialIsExisted
  | Napi_RemoveMembers string
  | Napi_CommitToPendingProposals string
  | Napi_LeaveGroup string
  | Napi_UpdateLeafNode string
  | Napi_Sqlite string
  | Napi_SqliteNotFound
  | Napi_SqliteMigration string
  | Napi_Deserialize
  | Napi_Serialize
  | Napi_MissingOwnLeafNodeInGroup
  | Napi_MissingSignatureKeyPair
  | Napi_SomeMembersAlreadyExistedInGroup
  | Napi_ExternalCommitBuilder string
  | Napi_ExternalCommitBuilderFinalize string
  | Napi_CreateCommit string
  | Napi_ExportSecret string
  | Napi_ReAdd string
  | Napi_CommitBuilderStage string
  | Napi_Proposal string

primrec napi_display :: "napi_error \<Rightarrow> string" where
  "napi_display (Napi_Mls s) = ''MLS error: '' @ s"
| "napi_display (Napi_Crypto s) = ''Crypto error: '' @ s"
| "napi_display (Napi_KeyPackageNew s) = ''Key package new error: '' @ s"
| "napi_display (Napi_AddMembers s) = ''Add members error: '' @ s"
| "napi_display (Napi_MergePendingCommit s) = ''Merge pending commit error: '' @ s"
| "napi_display (Napi_NewGroup s) = ''New group error: '' @ s"
| "napi_display (Napi_ProcessMessage s) = ''Process message error: '' @ s"
| "napi_display (Napi_MergeCommit s) = ''Merge commit error: '' @ s"
| "napi_display Napi_InvalidOperationMessage = ''Invalid operation message''"
| "napi_display Napi_InvalidWelcomeMessage = ''Invalid welcome message''"
| "napi_display Napi_InvalidApplicationMessage = ''Invalid application message''"
| "napi_display Napi_InvalidProposalMessage = ''Invalid proposal message''"
| "napi_display Napi_InvalidGroupInfo = ''Invalid group info''"
| "napi_display (Napi_Welcome s) = ''Welcome error: '' @ s"
| "napi_display Napi_WelcomeGroupAlreadyExisted = ''Welcome error: a group with the same id existed.''"
| "napi_display (Napi_ProtocolMessage s) = ''Protocol message error: '' @ s"
| "napi_display (Napi_Storage s) = ''Storage error: '' @ s"
| "napi_display (Napi_KeyPackageVerify s) = ''Key package verify error: '' @ s"
| "napi_display Napi_GroupIsNotExisted = ''Group is not existed''"
| "napi_display Napi_GroupIsAlreadyExisted = ''Group is already existed''"
| "napi_display (Napi_CreateMessage s) = ''Create message error: '' @ s"
| "napi_display (Napi_ExportGroupInfo s) = ''Export group info error: '' @ s"
| "napi_display Napi_ExportGroupInfoInvalidExportType = ''Export group info error: invalid export type''"
| "napi_display (Napi_ExternalCommit s) = ''External commit error: '' @ s"
| "napi_display (Napi_CreationFromExternal s) = ''Creation from external error: '' @ s"
| "napi_display Napi_MissingRatchetTree = ''Missing ratchet tree error''"
| "napi_display Napi_CredentialIsExisted = ''Credential is existed.''"
| "napi_display (Napi_RemoveMembers s) = ''Remove members error: '' @ s"
| "napi_display (Napi_CommitToPendingProposals s) = ''Commit to pending proposals error: '' @ s"
| "napi_display (Napi_LeaveGroup s) = ''Leave group error: '' @ s"
| "napi_display (Napi_UpdateLeafNode s) = ''Update leaf node error: '' @ s"
| "napi_display (Napi_Sqlite s) = ''Sqlite error: '' @ s"
| "napi_display Napi_SqliteNotFound = ''Sqlite error: not found''"
| "napi_display (Napi_SqliteMigration s) = ''Sqlite migration error: '' @ s"
| "napi_display Napi_Deserialize = ''Deserialize error''"
| "napi_display Napi_Serialize = ''Serialize error''"
| "napi_display Napi_MissingOwnLeafNodeInGroup = ''Missing own leaf node in group''"
| "napi_display Napi_MissingSignatureKeyPair = ''Missing signature key pair''"
| "napi_display Napi_SomeMembersAlreadyExistedInGroup = ''Some members already existed in group''"
| "napi_display (Napi_ExternalCommitBuilder s) = ''External commit builder error: '' @ s"
| "napi_display (Napi_ExternalCommitBuilderFinalize s) = ''External commit builder finalize error: '' @ s"
| "napi_display (Napi_CreateCommit s) = ''Create commit error: '' @ s"
| "napi_display (Napi_ExportSecret s) = ''Export secret error: '' @ s"
| "napi_display (Napi_ReAdd s) = ''Re-add error: '' @ s"
| "napi_display (Napi_CommitBuilderStage s) = ''Commit builder stage error: '' @ s"
| "napi_display (Napi_Proposal s) = ''Proposal error: '' @ s"

primrec napi_from_mls :: "mls_error \<Rightarrow> napi_error" where
  "napi_from_mls (Error_Mls e) = Napi_Mls e"
| "napi_from_mls (Error_Crypto e) = Napi_Crypto e"
| "napi_from_mls (Error_KeyPackageNew e) = Napi_KeyPackageNew e"
| "napi_from_mls (Error_AddMembers e) = Napi_AddMembers e"
| "napi_from_mls (Error_MergePendingCommit e) = Napi_MergePendingCommit e"
| "napi_from_mls (Error_NewGroup e) = Napi_NewGroup e"
| "napi_from_mls (Error_ProcessMessage e) = Napi_ProcessMessage e"
| "napi_from_mls (Error_MergeCommit e) = Napi_MergeCommit e"
| "napi_from_mls Error_InvalidOperationMessage = Napi_InvalidOperationMessage"
| "napi_from_mls Error_InvalidWelcomeMessage = Napi_InvalidWelcomeMessage"
| "napi_from_mls Error_InvalidApplicationMessage = Napi_InvalidApplicationMessage"
| "napi_from_mls Error_InvalidProposalMessage = Napi_InvalidProposalMessage"
| "napi_from_mls Error_InvalidGroupInfo = Napi_InvalidGroupInfo"
| "napi_from_mls (Error_Welcome e) = Napi_Welcome e"
| "napi_from_mls Error_WelcomeGroupAlreadyExisted = Napi_WelcomeGroupAlreadyExisted"
| "napi_from_mls (Error_ProtocolMessage e) = Napi_ProtocolMessage e"
| "napi_from_mls (Error_Storage e) = Napi_Storage e"
| "napi_from_mls (Error_KeyPackageVerify e) = Napi_KeyPackageVerify e"
| "napi_from_mls Error_GroupIsNotExisted = Napi_GroupIsNotExisted"
| "napi_from_mls (Error_CreateMessage e) = Napi_CreateMessage e"
| "napi_from_mls (Error_ExportGroupInfo e) = Napi_ExportGroupInfo e"
| "napi_from_mls Error_ExportGroupInfoInvalidExportType = Napi_ExportGroupInfoInvalidExportType"
| "napi_from_mls (Error_ExternalCommit e) = Napi_ExternalCommit e"
| "napi_from_mls (Error_CreationFromExternal e) = Napi_CreationFromExternal e"
| "napi_from_mls Error_MissingRatchetTree = Napi_MissingRatchetTree"
| "napi_from_mls Error_CredentialIsExisted = Napi_CredentialIsExisted"
| "napi_from_mls (Error_RemoveMembers e) = Napi_RemoveMembers e"
| "napi_from_mls (Error_CommitToPendingProposals e) = Napi_CommitToPendingProposals e"
| "napi_from_mls (Error_LeaveGroup e) = Napi_LeaveGroup e"
| "napi_from_mls (Error_UpdateLeafNode e) = Napi_UpdateLeafNode e"
| "napi_from_mls (Error_Sqlite e) = Napi_Sqlite e"
| "napi_from_mls Error_SqliteNotFound = Napi_SqliteNotFound"
| "napi_from_mls (Error_SqliteMigration e) = Napi_SqliteMigration e"
| "napi_from_mls Error_Deserialize = Napi_Deserialize"
| "napi_from_mls Error_Serialize = Napi_Serialize"
| "napi_from_mls Error_MissingOwnLeafNodeInGroup = Napi_MissingOwnLeafNodeInGroup"
| "napi_from_mls Error_MissingSignatureKeyPair = Napi_MissingSignatureKeyPair"
| "napi_from_mls Error_SomeMembersAlreadyExistedInGroup = Napi_SomeMembersAlreadyExistedInGroup"
| "napi_from_mls (Error_ExternalCommitBuilder e) = Napi_ExternalCommitBuilder e"
| "napi_from_mls (Error_ExternalCommitBuilderFinalize e) = Napi_ExternalCommitBuilderFinalize e"
| "napi_from_mls (Error_CreateCommit e) = Napi_CreateCommit e"
| "napi_from_mls (Error_ReAdd e) = Napi_ReAdd e"
| "napi_from_mls (Error_CommitBuilderStage e) = Napi_CommitBuilderStage e"
| "napi_from_mls (Error_Proposal e) = Napi_Proposal e"

primrec napi_code :: "napi_error \<Rightarrow> string" where
  "napi_code (Napi_Mls _) = ''MLS_ERROR''"
| "napi_code (Napi_Crypto _) = ''CRYPTO_ERROR''"
| "napi_code (Napi_KeyPackageNew _) = ''KEY_PACKAGE_NEW_ERROR''"
| "napi_code (Napi_AddMembers _) = ''ADD_MEMBERS_ERROR''"
| "napi_code (Napi_MergePendingCommit _) = ''MERGE_PENDING_COMMIT_ERROR''"
| "napi_code (Napi_NewGroup _) = ''NEW_GROUP_ERROR''"
| "napi_code (Napi_ProcessMessage _) = ''PROCESS_MESSAGE_ERROR''"
| "napi_code (Napi_MergeCommit _) = ''MERGE_COMMIT_ERROR''"
| "napi_code Napi_InvalidOperationMessage = ''INVALID_OPERATION_MESSAGE''"
| "napi_code Napi_InvalidWelcomeMessage = ''INVALID_WELCOME_MESSAGE''"
| "napi_code Napi_InvalidApplicationMessage = ''INVALID_APPLICATION_MESSAGE''"
| "napi_code Napi_InvalidProposalMessage = ''INVALID_PROPOSAL_MESSAGE''"
| "napi_code Napi_InvalidGroupInfo = ''INVALID_GROUP_INFO''"
| "napi_code (Napi_Welcome _) = ''WELCOME_ERROR''"
| "napi_code Napi_WelcomeGroupAlreadyExisted = ''WELCOME_GROUP_ALREADY_EXISTED''"
| "napi_code (Napi_ProtocolMessage _) = ''PROTOCOL_MESSAGE_ERROR''"
| "napi_code (Napi_Storage _) = ''STORAGE_ERROR''"
| "napi_code (Napi_KeyPackageVerify _) = ''KEY_PACKAGE_VERIFY_ERROR''"
| "napi_code Napi_GroupIsNotExisted = ''GROUP_NOT_EXISTED''"
| "napi_code Napi_GroupIsAlreadyExisted = ''GROUP_ALREADY_EXISTED''"
| "napi_code (Napi_CreateMessage _) = ''CREATE_MESSAGE_ERROR''"
| "napi_code (Napi_ExportGroupInfo _) = ''EXPORT_GROUP_INFO_ERROR''"
| "napi_code Napi_ExportGroupInfoInvalidExportType = ''EXPORT_GROUP_INFO_INVALID_EXPORT_TYPE''"
| "napi_code (Napi_ExternalCommit _) = ''EXTERNAL_COMMIT_ERROR''"
| "napi_code (Napi_CreationFromExternal _) = ''CREATION_FROM_EXTERNAL_ERROR''"
| "napi_code Napi_MissingRatchetTree = ''MISSING_RATCHET_TREE''"
| "napi_code Napi_CredentialIsExisted = ''CREDENTIAL_ALREADY_EXISTED''"
| "napi_code (Napi_RemoveMembers _) = ''REMOVE_MEMBERS_ERROR''"
| "napi_code (Napi_CommitToPendingProposals _) = ''COMMIT_TO_PENDING_PROPOSALS_ERROR''"
| "napi_code (Napi_LeaveGroup _) = ''LEAVE_GROUP_ERROR''"
| "napi_code (Napi_UpdateLeafNode _) = ''UPDATE_LEAF_NODE_ERROR''"
| "napi_code (Napi_Sqlite _) = ''SQLITE_ERROR''"
| "napi_code Napi_SqliteNotFound = ''SQLITE_NOT_FOUND''"
| "napi_code (Napi_SqliteMigration _) = ''SQLITE_MIGRATION_ERROR''"
| "napi_code Napi_Deserialize = ''DESERIALIZE_ERROR''"
| "napi_code Napi_Serialize = ''SERIALIZE_ERROR''"
| "napi_code Napi_MissingOwnLeafNodeInGroup = ''MISSING_OWN_LEAF_NODE_IN_GROUP''"
| "napi_code Napi_MissingSignatureKeyPair = ''MISSING_SIGNATURE_KEY_PAIR''"
| "napi_code Napi_SomeMembersAlreadyExistedInGroup = ''SOME_MEMBERS_ALREADY_EXISTED_IN_GROUP''"
| "napi_code (Napi_ExternalCommitBuilder _) = ''EXTERNAL_COMMIT_BUILDER_ERROR''"
| "napi_code (Napi_ExternalCommitBuilderFinalize _) = ''EXTERNAL_COMMIT_BUILDER_FINALIZE_ERROR''"
| "napi_code (Napi_CreateCommit _) = ''CREATE_COMMIT_ERROR''"
| "napi_code (Napi_ExportSecret _) = ''EXPORT_SECRET_ERROR''"
| "napi_code (Napi_ReAdd _) = ''RE_ADD_ERROR''"
| "napi_code (Napi_CommitBuilderStage _) = ''COMMIT_BUILDER_STAGE_ERROR''"
| "napi_code (Napi_Proposal _) = ''PROPOSAL_ERROR''"

text \<open>The statuses of \<open>napi::Status\<close> the crate uses, and \<open>napi::Error\<close>.\<close>

datatype napi_status = Status_InvalidArg | Status_GenericFailure | Status_Cancelled

record napi_js_error =
  js_status :: napi_status
  js_reason :: string

definition napi_status_of :: "napi_error \<Rightarrow> napi_status" where
  "napi_status_of e =
     (case e of
        Napi_InvalidOperationMessage \<Rightarrow> Status_InvalidArg
      | Napi_InvalidWelcomeMessage \<Rightarrow> Status_InvalidArg
      | Napi_InvalidApplicationMessage \<Rightarrow> Status_InvalidArg
      | Napi_InvalidProposalMessage \<Rightarrow> Status_InvalidArg
      | Napi_InvalidGroupInfo \<Rightarrow> Status_InvalidArg
      | Napi_ExportGroupInfoInvalidExportType \<Rightarrow> Status_InvalidArg
      | Napi_KeyPackageVerify _ \<Rightarrow> Status_InvalidArg
      | Napi_MissingRatchetTree \<Rightarrow> Status_InvalidArg
      | Napi_Deserialize \<Rightarrow> Status_InvalidArg
      | _ \<Rightarrow> Status_GenericFailure)"

definition napi_error_from :: "napi_error \<Rightarrow> napi_js_error" where
  "napi_error_from e = \<lparr>js_status = napi_status_of e, js_reason = ''['' @ napi_code e @ ''] '' @ napi_display e\<rparr>"

text \<open>\<open>napi::Error::new(GenericFailure, e.to_string())\<close>\<close>

definition napi_failure :: "string \<Rightarrow> napi_js_error" where
  "napi_failure reason = \<lparr>js_status = Status_GenericFailure, js_reason = reason\<rparr>"

definition napi_from_string :: "string \<Rightarrow> napi_error" where
  "napi_from_string e = Napi_Mls e"

definition napi_from_openmls :: "string \<Rightarrow> napi_error" where
  "napi_from_openmls e = Napi_Mls e"

definition napi_from_rusqlite :: "(sql_error \<Rightarrow> string) \<Rightarrow> sql_error \<Rightarrow> napi_error" where
  "napi_from_rusqlite disp e = Napi_Storage (disp e)"

end
