(* ===== verification/Napi_Backup.thy ===== *)
theory Napi_Backup
  imports Uniffi_Backup Napi_Error
begin

text \<open>
  The backup API of the Node.js binding (\<open>kchat-napi/src/backup\<close>): its error type and the JavaScript
  errors it becomes, the disposable master key and object context with their operations, the adapters
  that call JavaScript from a worker thread and poll for the answer, and the tasks that seal and open
  an object. What JavaScript and napi do is an argument. Zeroising of buffers is not modelled.
\<close>

section \<open>Errors\<close>

datatype napi_backup_error =
    NB_InvalidArgument | NB_EmptyPassword | NB_InvalidMnemonic | NB_InvalidMnemonicKey | NB_InvalidPasswordKey
  | NB_UnsupportedFormat | NB_ContextMismatch | NB_IoError | NB_InvalidState | NB_AuthenticationFailed
  | NB_ResourceLimitExceeded | NB_Cancelled | NB_IntegrityMismatch | NB_MalformedObject | NB_InvalidCompressedData

primrec napi_backup_display :: "napi_backup_error \<Rightarrow> string" where
  "napi_backup_display NB_InvalidArgument = ''Invalid backup argument''"
| "napi_backup_display NB_EmptyPassword = ''Password is empty''"
| "napi_backup_display NB_InvalidMnemonic = ''Invalid mnemonic''"
| "napi_backup_display NB_InvalidMnemonicKey = ''Invalid mnemonic key''"
| "napi_backup_display NB_InvalidPasswordKey = ''Invalid password key''"
| "napi_backup_display NB_UnsupportedFormat = ''Unsupported backup format''"
| "napi_backup_display NB_ContextMismatch = ''Backup context does not match''"
| "napi_backup_display NB_IoError = ''Backup I/O error''"
| "napi_backup_display NB_InvalidState = ''Invalid backup state''"
| "napi_backup_display NB_AuthenticationFailed = ''Backup authentication failed''"
| "napi_backup_display NB_ResourceLimitExceeded = ''Backup resource limit exceeded''"
| "napi_backup_display NB_Cancelled = ''Backup operation cancelled''"
| "napi_backup_display NB_IntegrityMismatch = ''Backup integrity mismatch''"
| "napi_backup_display NB_MalformedObject = ''Malformed backup object''"
| "napi_backup_display NB_InvalidCompressedData = ''Invalid compressed backup data''"

primrec napi_backup_code :: "napi_backup_error \<Rightarrow> string" where
  "napi_backup_code NB_InvalidArgument = ''INVALID_ARGUMENT''"
| "napi_backup_code NB_EmptyPassword = ''EMPTY_PASSWORD''"
| "napi_backup_code NB_InvalidMnemonic = ''INVALID_MNEMONIC''"
| "napi_backup_code NB_InvalidMnemonicKey = ''INVALID_MNEMONIC_KEY''"
| "napi_backup_code NB_InvalidPasswordKey = ''INVALID_PASSWORD_KEY''"
| "napi_backup_code NB_UnsupportedFormat = ''UNSUPPORTED_FORMAT''"
| "napi_backup_code NB_ContextMismatch = ''CONTEXT_MISMATCH''"
| "napi_backup_code NB_IoError = ''IO_ERROR''"
| "napi_backup_code NB_InvalidState = ''INVALID_STATE''"
| "napi_backup_code NB_AuthenticationFailed = ''AUTHENTICATION_FAILED''"
| "napi_backup_code NB_ResourceLimitExceeded = ''RESOURCE_LIMIT_EXCEEDED''"
| "napi_backup_code NB_Cancelled = ''CANCELLED''"
| "napi_backup_code NB_IntegrityMismatch = ''INTEGRITY_MISMATCH''"
| "napi_backup_code NB_MalformedObject = ''MALFORMED_OBJECT''"
| "napi_backup_code NB_InvalidCompressedData = ''INVALID_COMPRESSED_DATA''"

primrec napi_backup_error_from :: "backup_error_code \<Rightarrow> napi_backup_error" where
  "napi_backup_error_from InvalidArgument = NB_InvalidArgument"
| "napi_backup_error_from EmptyPassword = NB_EmptyPassword"
| "napi_backup_error_from InvalidMnemonic = NB_InvalidMnemonic"
| "napi_backup_error_from InvalidMnemonicKey = NB_InvalidMnemonicKey"
| "napi_backup_error_from InvalidPasswordKey = NB_InvalidPasswordKey"
| "napi_backup_error_from UnsupportedFormat = NB_UnsupportedFormat"
| "napi_backup_error_from ContextMismatch = NB_ContextMismatch"
| "napi_backup_error_from IoError = NB_IoError"
| "napi_backup_error_from InvalidState = NB_InvalidState"
| "napi_backup_error_from AuthenticationFailed = NB_AuthenticationFailed"
| "napi_backup_error_from ResourceLimitExceeded = NB_ResourceLimitExceeded"
| "napi_backup_error_from Cancelled = NB_Cancelled"
| "napi_backup_error_from IntegrityMismatch = NB_IntegrityMismatch"
| "napi_backup_error_from MalformedObject = NB_MalformedObject"
| "napi_backup_error_from InvalidCompressedData = NB_InvalidCompressedData"

definition napi_backup_status :: "napi_backup_error \<Rightarrow> napi_status" where
  "napi_backup_status e =
     (case e of
        NB_InvalidArgument \<Rightarrow> Status_InvalidArg
      | NB_EmptyPassword \<Rightarrow> Status_InvalidArg
      | NB_InvalidMnemonic \<Rightarrow> Status_InvalidArg
      | NB_InvalidMnemonicKey \<Rightarrow> Status_InvalidArg
      | NB_InvalidPasswordKey \<Rightarrow> Status_InvalidArg
      | NB_Cancelled \<Rightarrow> Status_Cancelled
      | _ \<Rightarrow> Status_GenericFailure)"

definition napi_backup_js :: "napi_backup_error \<Rightarrow> napi_js_error" where
  "napi_backup_js e =
     \<lparr>js_status = napi_backup_status e, js_reason = ''['' @ napi_backup_code e @ ''] '' @ napi_backup_display e\<rparr>"

text \<open>What a call fails with: a JavaScript error, or a panic that unwinds.\<close>

datatype napi_fault = Napi_Failed napi_js_error | Napi_Panicked

definition js_map_error :: "backup_error_code \<Rightarrow> napi_js_error" where
  "js_map_error code = napi_backup_js (napi_backup_error_from code)"

fun napi_fault_from :: "backup_fault \<Rightarrow> napi_fault" where
  "napi_fault_from (Failed code) = Napi_Failed (js_map_error code)"
| "napi_fault_from Panic = Napi_Panicked"

definition js_invalid_argument :: napi_js_error where
  "js_invalid_argument = napi_backup_js NB_InvalidArgument"

definition js_invalid_state :: napi_js_error where
  "js_invalid_state = napi_backup_js NB_InvalidState"

section \<open>Master keys\<close>

datatype napi_key_mode = Napi_Mode_Mnemonic | Napi_Mode_Password

record napi_descriptor_header =
  ndh_mode :: napi_key_mode
  ndh_salt :: bytes

record napi_opened_descriptor =
  nod_header :: napi_descriptor_header
  nod_backup_id :: bytes

text \<open>
  \<open>BackupMasterKey\<close> and \<open>BackupObjectContext\<close> hold an optional value that \<open>dispose\<close> takes away.
\<close>

type_synonym napi_master_key = "backup_key_material option"
type_synonym napi_object_context = "object_context option"

definition napi_key_new :: "backup_key_material \<Rightarrow> napi_master_key" where
  "napi_key_new key = Some key"

definition napi_as_core :: "napi_master_key \<Rightarrow> napi_fault + backup_key_material" where
  "napi_as_core key = ok_or (Napi_Failed js_invalid_state) key"

definition napi_exact_array :: "nat \<Rightarrow> bytes \<Rightarrow> napi_fault + bytes" where
  "napi_exact_array n bs = (if length bs = n then Inr bs else Inl (Napi_Failed js_invalid_argument))"

definition napi_mode :: "napi_master_key \<Rightarrow> napi_fault + napi_key_mode" where
  "napi_mode key =
     rbind (napi_as_core key) (\<lambda>k.
     Inr (case k of MnemonicKey _ \<Rightarrow> Napi_Mode_Mnemonic | PasswordKey _ \<Rightarrow> Napi_Mode_Password))"

definition napi_export_raw :: "napi_master_key \<Rightarrow> napi_fault + bytes" where
  "napi_export_raw key =
     rbind (napi_as_core key) (\<lambda>k.
     Inr (case k of MnemonicKey m \<Rightarrow> mnemonic_export_raw m | PasswordKey p \<Rightarrow> password_export_raw p))"

definition napi_derive_backup_id ::
    "(string \<Rightarrow> bytes option) \<Rightarrow> 'm backup_crypto \<Rightarrow> napi_master_key \<Rightarrow> string \<Rightarrow> napi_fault + bytes" where
  "napi_derive_backup_id parse K key account_id =
     rbind (map_err napi_fault_from (account_id_parse parse account_id)) (\<lambda>account.
     rbind (napi_as_core key) (\<lambda>k.
     rbind (map_err napi_fault_from (backup_id_derive K k account)) (\<lambda>i.
     Inr (backup_id_bytes i))))"

definition napi_seal_descriptor ::
    "(string \<Rightarrow> bytes option) \<Rightarrow> 'm backup_crypto \<Rightarrow> aead \<Rightarrow> napi_master_key \<Rightarrow> string \<Rightarrow> bytes option
      \<Rightarrow> napi_fault + bytes" where
  "napi_seal_descriptor parse K A key account_id salt =
     rbind (map_err napi_fault_from (account_id_parse parse account_id)) (\<lambda>account.
     rbind (napi_as_core key) (\<lambda>k.
     rbind (case (k, salt) of
              (MnemonicKey _, None) \<Rightarrow> Inr header_mnemonic
            | (PasswordKey _, Some salt) \<Rightarrow> rbind (napi_exact_array 16 salt) (\<lambda>salt. Inr (header_password salt))
            | _ \<Rightarrow> Inl (Napi_Failed js_invalid_argument)) (\<lambda>hdr.
     map_err napi_fault_from (seal_descriptor_v1 K A k account hdr))))"

definition napi_header_from :: "descriptor_header \<Rightarrow> napi_descriptor_header" where
  "napi_header_from hdr =
     \<lparr>ndh_mode = (case header_backup_mode hdr of Mnemonic \<Rightarrow> Napi_Mode_Mnemonic | Password \<Rightarrow> Napi_Mode_Password),
      ndh_salt = header_salt hdr\<rparr>"

definition napi_open_descriptor ::
    "(string \<Rightarrow> bytes option) \<Rightarrow> 'm backup_crypto \<Rightarrow> aead \<Rightarrow> napi_master_key \<Rightarrow> string \<Rightarrow> bytes
      \<Rightarrow> napi_fault + napi_opened_descriptor" where
  "napi_open_descriptor parse K A key account_id bs =
     rbind (map_err napi_fault_from (account_id_parse parse account_id)) (\<lambda>account.
     rbind (napi_as_core key) (\<lambda>k.
     rbind (map_err napi_fault_from (header_parse bs)) (\<lambda>hdr.
     let mode_matches =
       (case (k, header_backup_mode hdr) of
          (MnemonicKey _, Mnemonic) \<Rightarrow> True
        | (PasswordKey _, Password) \<Rightarrow> True
        | _ \<Rightarrow> False) in
     if \<not> mode_matches then Inl (Napi_Failed js_invalid_argument)
     else
       rbind (map_err napi_fault_from (open_descriptor_v1 K A k account bs)) (\<lambda>(hdr, i).
       Inr \<lparr>nod_header = napi_header_from hdr, nod_backup_id = backup_id_bytes i\<rparr>))))"

definition napi_create_context ::
    "'m backup_crypto \<Rightarrow> backup_key_material \<Rightarrow> backup_account_id \<Rightarrow> bytes \<Rightarrow> backup_chunk_id \<Rightarrow> napi_fault + object_context" where
  "napi_create_context K k account expected_id chunk =
     rbind (map_err napi_fault_from (backup_id_derive K k account)) (\<lambda>i.
     if backup_id_bytes i \<noteq> expected_id then Inl (Napi_Failed (napi_backup_js NB_ContextMismatch))
     else map_err napi_fault_from (object_context_new K k account i BACKUP_FORMAT_VERSION_V1 chunk))"

definition napi_create_object_context ::
    "(string \<Rightarrow> bytes option) \<Rightarrow> 'm backup_crypto \<Rightarrow> napi_master_key \<Rightarrow> string \<Rightarrow> bytes \<Rightarrow> bytes
      \<Rightarrow> napi_fault + napi_object_context" where
  "napi_create_object_context parse K key account_id backup_id chunk_id =
     rbind (map_err napi_fault_from (account_id_parse parse account_id)) (\<lambda>account.
     rbind (napi_exact_array 32 backup_id) (\<lambda>backup_id.
     rbind (napi_exact_array 32 chunk_id) (\<lambda>chunk_id.
     rbind (map_err napi_fault_from (chunk_id_from_bytes chunk_id)) (\<lambda>chunk.
     rbind (napi_as_core key) (\<lambda>k.
     rbind (napi_create_context K k account backup_id chunk) (\<lambda>ctx.
     Inr (Some ctx)))))))"

definition napi_dispose_key :: "napi_master_key \<Rightarrow> napi_master_key" where
  "napi_dispose_key key = None"

definition napi_shared :: "napi_object_context \<Rightarrow> napi_fault + object_context" where
  "napi_shared ctx = ok_or (Napi_Failed js_invalid_state) ctx"

definition napi_dispose_context :: "napi_object_context \<Rightarrow> napi_object_context" where
  "napi_dispose_context ctx = None"

definition napi_parse_descriptor_header :: "bytes \<Rightarrow> napi_fault + napi_descriptor_header" where
  "napi_parse_descriptor_header bs = rbind (map_err napi_fault_from (header_parse bs)) (\<lambda>hdr. Inr (napi_header_from hdr))"

definition napi_import_from_raw :: "napi_key_mode \<Rightarrow> bytes \<Rightarrow> napi_fault + napi_master_key" where
  "napi_import_from_raw mode bs =
     rbind (map_err napi_fault_from
       (case mode of
          Napi_Mode_Mnemonic \<Rightarrow> rbind (mnemonic_import_from_raw bs) (\<lambda>k. Inr (MnemonicKey k))
        | Napi_Mode_Password \<Rightarrow> rbind (password_import_from_raw bs) (\<lambda>k. Inr (PasswordKey k)))) (\<lambda>k.
     Inr (napi_key_new k))"

text \<open>The tasks: \<open>compute\<close> on a worker thread, then \<open>resolve\<close> on the JavaScript thread.\<close>

definition napi_generate_mnemonic :: "'m backup_crypto \<Rightarrow> u32 \<Rightarrow> napi_fault + string \<times> napi_master_key" where
  "napi_generate_mnemonic K word_count =
     rbind (map_err napi_fault_from (mnemonic_generate K word_count)) (\<lambda>(phrase, k).
     Inr (phrase, napi_key_new (MnemonicKey k)))"

definition napi_import_from_mnemonic :: "'m backup_crypto \<Rightarrow> string \<Rightarrow> napi_fault + napi_master_key" where
  "napi_import_from_mnemonic K phrase =
     rbind (map_err napi_fault_from (from_mnemonic K phrase)) (\<lambda>k. Inr (napi_key_new (MnemonicKey k)))"

definition napi_generate_password :: "'m backup_crypto \<Rightarrow> bytes \<Rightarrow> napi_fault + bytes \<times> napi_master_key" where
  "napi_generate_password K password =
     rbind (map_err napi_fault_from (password_generate K password)) (\<lambda>(salt, k).
     Inr (salt, napi_key_new (PasswordKey k)))"

definition napi_import_from_password :: "'m backup_crypto \<Rightarrow> bytes \<Rightarrow> bytes \<Rightarrow> napi_fault + napi_master_key" where
  "napi_import_from_password K password salt =
     rbind (napi_exact_array 16 salt) (\<lambda>salt.
     rbind (map_err napi_fault_from (from_password K password salt)) (\<lambda>k.
     Inr (napi_key_new (PasswordKey k))))"

section \<open>Cancellation tokens\<close>

text \<open>A token is an atomic flag that the JavaScript thread sets and the adapters load.\<close>

definition cancellation_new :: bool where
  "cancellation_new = False"

definition cancellation_cancel :: "bool \<Rightarrow> bool" where
  "cancellation_cancel flag = True"

definition cancellation_is_cancelled :: "bool \<Rightarrow> bool" where
  "cancellation_is_cancelled flag = flag"

section \<open>Callbacks\<close>

text \<open>
  What the JavaScript thread does with a call: the promise of the callback resolves to a value,
  rejects, or no handlers could be attached. One poll of the channel yields the message of the
  handler, a timeout after 20 ms, or a closed channel.
\<close>

datatype 'a js_outcome = Resolved 'a | Rejected | Unattached

datatype 'a js_poll = Settled "'a js_outcome" | Timed_out | Disconnected

text \<open>
  The JavaScript side of an adapter, an argument of the model: the load of the cancellation flag,
  which the JavaScript thread may set at any time, whether the thread-safe function accepts a call,
  whether it was aborted, and the polls. The two adapters of a task have a side each: every
  behaviour of the one thread behind them is a behaviour of some pair of sides.
\<close>

record ('c, 'a, 'w) js_side =
  js_cancelled :: "'w \<Rightarrow> bool \<times> 'w"
  js_call :: "'c \<Rightarrow> 'w \<Rightarrow> bool \<times> 'w"
  js_aborted :: "'w \<Rightarrow> bool \<times> 'w"
  js_recv :: "'w \<Rightarrow> 'a js_poll \<times> 'w"

text \<open>The handlers' messages: a chunk that is longer than was asked for is refused there.\<close>

definition read_message :: "nat \<Rightarrow> bytes js_outcome \<Rightarrow> backup_error_code + bytes" where
  "read_message maximum out =
     (case out of
        Resolved bs \<Rightarrow> if maximum < length bs then Inl InvalidState else Inr bs
      | Rejected \<Rightarrow> Inl IoError
      | Unattached \<Rightarrow> Inl IoError)"

definition write_message :: "unit js_outcome \<Rightarrow> backup_error_code + unit" where
  "write_message out =
     (case out of Resolved _ \<Rightarrow> Inr () | Rejected \<Rightarrow> Inl IoError | Unattached \<Rightarrow> Inl IoError)"

text \<open>
  \<open>wait_for_callback\<close>: one iteration returns (\<open>Inl\<close>) or continues. The loop may run forever: then
  its value is \<open>None\<close>.
\<close>

definition wait_step ::
    "('c, 'a, 'w) js_side \<Rightarrow> ('a js_outcome \<Rightarrow> backup_error_code + 'b) \<Rightarrow> 'w
      \<Rightarrow> ((backup_error_code + 'b) \<times> 'w) + 'w" where
  "wait_step J message w =
     (case js_cancelled J w of
        (True, w1) \<Rightarrow> Inl (Inl Cancelled, w1)
      | (False, w1) \<Rightarrow>
          (case js_aborted J w1 of
             (True, w2) \<Rightarrow> Inl (Inl IoError, w2)
           | (False, w2) \<Rightarrow>
               (case js_recv J w2 of
                  (Settled out, w3) \<Rightarrow>
                    (case js_cancelled J w3 of
                       (True, w4) \<Rightarrow> Inl (Inl Cancelled, w4)
                     | (False, w4) \<Rightarrow> Inl (message out, w4))
                | (Timed_out, w3) \<Rightarrow> Inr w3
                | (Disconnected, w3) \<Rightarrow> Inl (Inl IoError, w3))))"

partial_function (option) wait_for_callback ::
    "('c, 'a, 'w) js_side \<Rightarrow> ('a js_outcome \<Rightarrow> backup_error_code + 'b) \<Rightarrow> 'w
      \<Rightarrow> ((backup_error_code + 'b) \<times> 'w) option" where
  "wait_for_callback J message w =
     (case wait_step J message w of Inl out \<Rightarrow> Some out | Inr w' \<Rightarrow> wait_for_callback J message w')"

text \<open>\<open>SourceAdapter::read_chunk\<close>: the count, and the bytes stored at the front of the destination.\<close>

definition napi_read_chunk ::
    "(u32, bytes, 'w) js_side \<Rightarrow> bytes \<Rightarrow> 'w \<Rightarrow> ((backup_error_code + nat) \<times> bytes \<times> 'w) option" where
  "napi_read_chunk J destination w =
     (case js_cancelled J w of
        (True, w1) \<Rightarrow> Some (Inl Cancelled, [], w1)
      | (False, w1) \<Rightarrow>
          let maximum = min (length destination) MAX_IO_CHUNK_BYTES_V1 in
          (case js_call J (of_nat maximum) w1 of
             (False, w2) \<Rightarrow> Some (Inl IoError, [], w2)
           | (True, w2) \<Rightarrow>
               (case wait_for_callback J (read_message maximum) w2 of
                  None \<Rightarrow> None
                | Some (Inl e, w3) \<Rightarrow> Some (Inl e, [], w3)
                | Some (Inr bs, w3) \<Rightarrow> Some (Inr (length bs), bs, w3))))"

definition napi_write_chunk ::
    "(bytes, unit, 'w) js_side \<Rightarrow> bytes \<Rightarrow> 'w \<Rightarrow> ((backup_error_code + unit) \<times> 'w) option" where
  "napi_write_chunk J bs w =
     (case js_cancelled J w of
        (True, w1) \<Rightarrow> Some (Inl Cancelled, w1)
      | (False, w1) \<Rightarrow>
          if MAX_IO_CHUNK_BYTES_V1 < length bs then Some (Inl InvalidState, w1)
          else
            (case js_call J bs w1 of
               (False, w2) \<Rightarrow> Some (Inl IoError, w2)
             | (True, w2) \<Rightarrow> wait_for_callback J write_message w2))"

text \<open>
  The byte source and sink the library sees. They are total: they stand for adapters whose waits
  return, which the theorem about whole operations assumes of the JavaScript side.
\<close>

definition js_source :: "(u32, bytes, 'w) js_side \<Rightarrow> 'w byte_source" where
  "js_source J = \<lparr>
     read_chunk = (\<lambda>dest w. case napi_read_chunk J dest w of Some out \<Rightarrow> out | None \<Rightarrow> (Inl IoError, [], w)),
     is_cancelled = js_cancelled J\<rparr>"

definition js_sink :: "(bytes, unit, 'w) js_side \<Rightarrow> 'w byte_sink" where
  "js_sink J = \<lparr>
     write_chunk = (\<lambda>bs w. case napi_write_chunk J bs w of Some out \<Rightarrow> out | None \<Rightarrow> (Inl IoError, w))\<rparr>"

section \<open>Sealing and opening an object\<close>

text \<open>
  \<open>adapters\<close>: the flag of the token, if there is one, and the construction of the two thread-safe
  functions, which napi may refuse.
\<close>

definition napi_adapters :: "bool option \<Rightarrow> napi_js_error + unit \<Rightarrow> napi_js_error + unit \<Rightarrow> napi_fault + unit" where
  "napi_adapters cancellation build_read build_write =
     (let c = (case cancellation of Some flag \<Rightarrow> flag | None \<Rightarrow> False) in
      if c then Inl (Napi_Failed (napi_backup_js NB_Cancelled))
      else rbind (map_err Napi_Failed build_read) (\<lambda>_. map_err Napi_Failed build_write))"

text \<open>
  \<open>spawn_io_task\<close>: whether the thread could be spawned, the outcome of \<open>create_deferred\<close>, and whether
  the task reached the thread. The value is the result of the call, a promise that settles with the
  inner result, and the state after \<open>compute\<close>, which runs on the thread; a panic is caught there.
\<close>

definition caught :: "napi_fault + 'a \<Rightarrow> napi_js_error + 'a" where
  "caught r = map_err (\<lambda>e. case e of Napi_Failed err \<Rightarrow> err | Napi_Panicked \<Rightarrow> js_invalid_state) r"

definition spawn_io_task ::
    "bool \<Rightarrow> napi_js_error + unit \<Rightarrow> bool \<Rightarrow> ('x \<Rightarrow> (napi_fault + 'a) \<times> 'x) \<Rightarrow> 'x
      \<Rightarrow> (napi_fault + (napi_js_error + 'a)) \<times> 'x" where
  "spawn_io_task spawned deferred sent compute x =
     (if \<not> spawned then (Inl (Napi_Failed (napi_backup_js NB_ResourceLimitExceeded)), x)
      else
        (case deferred of
           Inl e \<Rightarrow> (Inl (Napi_Failed e), x)
         | Inr _ \<Rightarrow>
             if sent then (case compute x of (r, x') \<Rightarrow> (Inr (caught r), x'))
             else (Inr (Inl js_invalid_state), x)))"

record napi_host =
  host_read :: "napi_js_error + unit"
  host_write :: "napi_js_error + unit"
  host_spawned :: bool
  host_deferred :: "napi_js_error + unit"
  host_sent :: bool

definition napi_seal_compute ::
    "('e, 'd, 'z, 'j) object_env \<Rightarrow> object_context \<Rightarrow> (u32, bytes, 'v) js_side \<Rightarrow> (bytes, unit, 'w) js_side
      \<Rightarrow> 'v \<times> 'w \<Rightarrow> (napi_fault + backup_object_descriptor) \<times> 'v \<times> 'w" where
  "napi_seal_compute G ctx J K x =
     (case seal_object_v1 (with_sink G (js_sink K)) ctx (js_source J) (fst x) (snd x) of
        (r, x') \<Rightarrow> (map_err napi_fault_from r, x'))"

definition napi_open_compute ::
    "('e, 'd, 'z, 'j) object_env \<Rightarrow> 'y zstd_decoder \<Rightarrow> object_context \<Rightarrow> (u32, bytes, 'v) js_side
      \<Rightarrow> (bytes, unit, 'w) js_side \<Rightarrow> 'v \<times> 'w \<Rightarrow> (napi_fault + unit) \<times> 'v \<times> 'w" where
  "napi_open_compute G Y ctx J K x =
     (case open_object_v1 (with_sink G (js_sink K)) Y (js_source J) ctx (fst x) (snd x) of
        (r, x') \<Rightarrow> (map_err napi_fault_from r, x'))"

definition napi_seal_backup_object_v1 ::
    "napi_host \<Rightarrow> ('e, 'd, 'z, 'j) object_env \<Rightarrow> napi_object_context \<Rightarrow> (u32, bytes, 'v) js_side
      \<Rightarrow> (bytes, unit, 'w) js_side \<Rightarrow> bool option \<Rightarrow> 'v \<times> 'w
      \<Rightarrow> (napi_fault + (napi_js_error + backup_object_descriptor)) \<times> 'v \<times> 'w" where
  "napi_seal_backup_object_v1 H G ctx J K cancellation x =
     (case rbind (napi_shared ctx) (\<lambda>c.
           rbind (napi_adapters cancellation (host_read H) (host_write H)) (\<lambda>_. Inr c)) of
        Inl e \<Rightarrow> (Inl e, x)
      | Inr c \<Rightarrow> spawn_io_task (host_spawned H) (host_deferred H) (host_sent H) (napi_seal_compute G c J K) x)"

definition napi_open_backup_object_v1 ::
    "napi_host \<Rightarrow> ('e, 'd, 'z, 'j) object_env \<Rightarrow> 'y zstd_decoder \<Rightarrow> napi_object_context \<Rightarrow> (u32, bytes, 'v) js_side
      \<Rightarrow> (bytes, unit, 'w) js_side \<Rightarrow> bool option \<Rightarrow> 'v \<times> 'w
      \<Rightarrow> (napi_fault + (napi_js_error + unit)) \<times> 'v \<times> 'w" where
  "napi_open_backup_object_v1 H G Y ctx J K cancellation x =
     (case rbind (napi_shared ctx) (\<lambda>c.
           rbind (napi_adapters cancellation (host_read H) (host_write H)) (\<lambda>_. Inr c)) of
        Inl e \<Rightarrow> (Inl e, x)
      | Inr c \<Rightarrow> spawn_io_task (host_spawned H) (host_deferred H) (host_sent H) (napi_open_compute G Y c J K) x)"

end
