(* ===== verification/Napi_Backup_Correct.thy ===== *)
theory Napi_Backup_Correct
  imports Napi_Backup Uniffi_Backup_Correct
begin

text \<open>
  The Node.js backup API against the Kotlin and Swift one: on a live key every operation returns the
  same values and the corresponding errors, on a disposed key it fails. The wait for a JavaScript
  callback returns what its events say, and fails to return exactly when its timeouts never end. On a
  JavaScript side that answers every call, sealing and opening round-trip.
\<close>

section \<open>Errors\<close>

primrec ffi_code :: "backup_ffi_error \<Rightarrow> backup_error_code" where
  "ffi_code Ffi_InvalidArgument = InvalidArgument"
| "ffi_code Ffi_EmptyPassword = EmptyPassword"
| "ffi_code Ffi_InvalidMnemonic = InvalidMnemonic"
| "ffi_code Ffi_InvalidMnemonicKey = InvalidMnemonicKey"
| "ffi_code Ffi_InvalidPasswordKey = InvalidPasswordKey"
| "ffi_code Ffi_UnsupportedFormat = UnsupportedFormat"
| "ffi_code Ffi_ContextMismatch = ContextMismatch"
| "ffi_code Ffi_IoError = IoError"
| "ffi_code Ffi_InvalidState = InvalidState"
| "ffi_code Ffi_AuthenticationFailed = AuthenticationFailed"
| "ffi_code Ffi_ResourceLimitExceeded = ResourceLimitExceeded"
| "ffi_code Ffi_Cancelled = Cancelled"
| "ffi_code Ffi_IntegrityMismatch = IntegrityMismatch"
| "ffi_code Ffi_MalformedObject = MalformedObject"
| "ffi_code Ffi_InvalidCompressedData = InvalidCompressedData"

lemma ffi_code_from [simp]: "ffi_code (ffi_error_from c) = c"
  by (cases c) simp_all

text \<open>The JavaScript fault of a fault of the other binding.\<close>

definition js_fault :: "ffi_fault \<Rightarrow> napi_fault" where
  "js_fault e = (case e of Ffi_Error err \<Rightarrow> Napi_Failed (js_map_error (ffi_code err)) | Ffi_Panic \<Rightarrow> Napi_Panicked)"

lemma js_fault_from [simp]: "js_fault (ffi_fault_from e) = napi_fault_from e"
  by (cases e) (simp_all add: js_fault_def)

lemma js_fault_argument [simp]: "js_fault (Ffi_Error Ffi_InvalidArgument) = Napi_Failed js_invalid_argument"
  by (simp add: js_fault_def js_map_error_def js_invalid_argument_def)

lemma js_fault_mismatch [simp]: "js_fault (Ffi_Error Ffi_ContextMismatch) = Napi_Failed (napi_backup_js NB_ContextMismatch)"
  by (simp add: js_fault_def js_map_error_def)

lemma napi_code_inj: "napi_backup_code e = napi_backup_code e' \<longleftrightarrow> e = e'"
  by (cases e; cases e') simp_all

lemma napi_code_no_bracket: "CHR '']'' \<notin> set (napi_backup_code e)"
  by (cases e) simp_all

lemma bracketed_inj:
  "CHR '']'' \<notin> set a \<Longrightarrow> CHR '']'' \<notin> set b \<Longrightarrow> a @ CHR '']'' # x = b @ CHR '']'' # y \<Longrightarrow> a = b"
proof (induction a arbitrary: b)
  case Nil
  then show ?case by (cases b) auto
next
  case (Cons c a)
  then show ?case by (cases b) auto
qed

lemma js_map_error_inj: "js_map_error c = js_map_error c' \<longleftrightarrow> c = c'"
proof
  assume "js_map_error c = js_map_error c'"
  then have "napi_backup_code (napi_backup_error_from c) @ CHR '']'' # '' '' @ napi_backup_display (napi_backup_error_from c) =
      napi_backup_code (napi_backup_error_from c') @ CHR '']'' # '' '' @ napi_backup_display (napi_backup_error_from c')"
    by (simp add: js_map_error_def napi_backup_js_def)
  from bracketed_inj [OF napi_code_no_bracket napi_code_no_bracket this]
  have "napi_backup_error_from c = napi_backup_error_from c'" by (simp add: napi_code_inj)
  then show "c = c'" by (cases c; cases c') simp_all
qed simp

section \<open>Keys and contexts\<close>

lemma map_err_rbind: "map_err f (rbind m k) = rbind (map_err f m) (\<lambda>x. map_err f (k x))"
  by (cases m) (simp_all add: rbind_def)

lemma map_err_map_err: "map_err f (map_err g m) = map_err (\<lambda>x. f (g x)) m"
  by (cases m) simp_all

text \<open>The result of the other binding as a result of this one.\<close>

definition js_result :: "('a \<Rightarrow> 'b) \<Rightarrow> ffi_fault + 'a \<Rightarrow> napi_fault + 'b" where
  "js_result g r = map_sum js_fault g r"

lemma js_result_simps [simp]:
  "js_result g (Inl e) = Inl (js_fault e)" "js_result g (Inr a) = Inr (g a)"
  by (simp_all add: js_result_def)

lemma js_result_rbind: "js_result g (rbind m k) = rbind (js_result (\<lambda>a. a) m) (\<lambda>a. js_result g (k a))"
  by (cases m) (simp_all add: rbind_def)

lemma js_result_from [simp]: "js_result (\<lambda>a. a) (map_err ffi_fault_from m) = map_err napi_fault_from m"
  by (cases m) simp_all

lemma js_result_array [simp]: "js_result (\<lambda>a. a) (exact_array n bs) = napi_exact_array n bs"
  by (simp add: exact_array_def napi_exact_array_def)

definition js_mode :: "backup_key_mode \<Rightarrow> napi_key_mode" where
  "js_mode m = (case m of Mode_Mnemonic \<Rightarrow> Napi_Mode_Mnemonic | Mode_Password \<Rightarrow> Napi_Mode_Password)"

definition js_header :: "ffi_descriptor_header \<Rightarrow> napi_descriptor_header" where
  "js_header h = \<lparr>ndh_mode = js_mode (fdh_mode h), ndh_salt = fdh_salt h\<rparr>"

definition js_opened :: "ffi_opened_descriptor \<Rightarrow> napi_opened_descriptor" where
  "js_opened d = \<lparr>nod_header = js_header (fod_header d), nod_backup_id = fod_backup_id d\<rparr>"

definition js_bootstrap :: "bytes option \<Rightarrow> descriptor_bootstrap" where
  "js_bootstrap salt = (case salt of None \<Rightarrow> Bootstrap_Mnemonic | Some s \<Rightarrow> Bootstrap_Password s)"

lemma js_header_from: "js_header (ffi_header_from h) = napi_header_from h"
  by (simp add: js_header_def ffi_header_from_def napi_header_from_def js_mode_def split: descriptor_backup_mode.splits)

lemma napi_as_core_simps [simp]:
  "napi_as_core (Some k) = Inr k" "napi_as_core None = Inl (Napi_Failed js_invalid_state)"
  by (simp_all add: napi_as_core_def)

lemma napi_seal_descriptor_live:
  "napi_seal_descriptor parse K A (Some k) a salt = js_result (\<lambda>b. b) (ffi_seal_descriptor parse K A k a (js_bootstrap salt))"
proof -
  have "(case (k, salt) of
              (MnemonicKey _, None) \<Rightarrow> Inr header_mnemonic
            | (PasswordKey _, Some salt) \<Rightarrow> rbind (napi_exact_array 16 salt) (\<lambda>salt. Inr (header_password salt))
            | _ \<Rightarrow> Inl (Napi_Failed js_invalid_argument)) =
        js_result (\<lambda>h. h) (ffi_descriptor_header_for k (js_bootstrap salt))"
    by (simp add: ffi_descriptor_header_for_def js_bootstrap_def js_result_rbind
        split: backup_key_material.splits option.splits)
  then show ?thesis
    unfolding napi_seal_descriptor_def ffi_seal_descriptor_def by (simp add: js_result_rbind)
qed

lemma napi_open_descriptor_live:
  "napi_open_descriptor parse K A (Some k) a bs = js_result js_opened (ffi_open_descriptor parse K A k a bs)"
proof (cases "\<exists>acc h. account_id_parse parse a = Inr acc \<and> header_parse bs = Inr h")
  case False
  then show ?thesis
    by (cases "account_id_parse parse a"; cases "header_parse bs")
      (auto simp: napi_open_descriptor_def ffi_open_descriptor_def ffi_parse_descriptor_header_def)
next
  case True
  then obtain acc h where acc: "account_id_parse parse a = Inr acc" "header_parse bs = Inr h" by blast
  have "js_result js_opened (case x of (hdr, i) \<Rightarrow> Inr \<lparr>fod_header = ffi_header_from hdr, fod_backup_id = backup_id_bytes i\<rparr>) =
      (case x of (hdr, i) \<Rightarrow> Inr \<lparr>nod_header = napi_header_from hdr, nod_backup_id = backup_id_bytes i\<rparr>)" for x
    by (simp add: js_opened_def js_header_from split: prod.splits)
  with acc show ?thesis
    by (cases k; cases "header_backup_mode h")
      (simp_all add: napi_open_descriptor_def ffi_open_descriptor_def ffi_parse_descriptor_header_def js_result_rbind
        ffi_header_from_def ffi_mode_def)
qed

lemma napi_create_object_context_live:
  "napi_create_object_context parse K (Some k) a i c = js_result Some (ffi_create_object_context parse K k a i c)"
proof -
  have ctx: "napi_create_context K k acc i c = js_result (\<lambda>x. x) (ffi_create_context K k acc i c)" for acc i c
    by (cases "backup_id_derive K k acc") (auto simp: napi_create_context_def ffi_create_context_def js_result_rbind)
  have some: "rbind (js_result (\<lambda>x. x) r) (\<lambda>x. Inr (Some x)) = js_result Some r" for r :: "ffi_fault + object_context"
    by (cases r) simp_all
  show ?thesis
    unfolding napi_create_object_context_def ffi_create_object_context_def
    by (simp add: js_result_rbind ctx some)
qed

text \<open>C26: On a key that was not disposed the Node.js binding agrees with the Kotlin and Swift binding:
  mode, raw bytes, backup identifier, sealing and opening of descriptors and creation of object
  contexts return the same values, and fail with the JavaScript error of the same code. On a disposed
  key every one of them fails, and no two codes become the same JavaScript error.\<close>

theorem napi_key_refines_ffi:
  "napi_mode (Some k) = Inr (js_mode (ffi_mode k)) \<and>
   napi_export_raw (Some k) = Inr (ffi_export_raw k) \<and>
   napi_derive_backup_id parse K (Some k) a = js_result (\<lambda>b. b) (ffi_derive_backup_id parse K k a) \<and>
   napi_seal_descriptor parse K A (Some k) a salt =
     js_result (\<lambda>b. b) (ffi_seal_descriptor parse K A k a (js_bootstrap salt)) \<and>
   napi_open_descriptor parse K A (Some k) a bs = js_result js_opened (ffi_open_descriptor parse K A k a bs) \<and>
   napi_create_object_context parse K (Some k) a i c = js_result Some (ffi_create_object_context parse K k a i c) \<and>
   (napi_mode (napi_dispose_key key) \<noteq> Inr x \<and> napi_export_raw (napi_dispose_key key) \<noteq> Inr y \<and>
     napi_derive_backup_id parse K (napi_dispose_key key) a \<noteq> Inr y \<and>
     napi_seal_descriptor parse K A (napi_dispose_key key) a salt \<noteq> Inr y \<and>
     napi_open_descriptor parse K A (napi_dispose_key key) a bs \<noteq> Inr z \<and>
     napi_create_object_context parse K (napi_dispose_key key) a i c \<noteq> Inr u) \<and>
   (js_map_error e = js_map_error e' \<longleftrightarrow> e = e')"
proof (intro conjI)
  show "napi_derive_backup_id parse K (Some k) a = js_result (\<lambda>b. b) (ffi_derive_backup_id parse K k a)"
    by (simp add: napi_derive_backup_id_def ffi_derive_backup_id_def js_result_rbind)
  show "napi_seal_descriptor parse K A (Some k) a salt =
     js_result (\<lambda>b. b) (ffi_seal_descriptor parse K A k a (js_bootstrap salt))"
    by (rule napi_seal_descriptor_live)
  show "napi_open_descriptor parse K A (Some k) a bs = js_result js_opened (ffi_open_descriptor parse K A k a bs)"
    by (rule napi_open_descriptor_live)
  show "napi_create_object_context parse K (Some k) a i c = js_result Some (ffi_create_object_context parse K k a i c)"
    by (rule napi_create_object_context_live)
  show "js_map_error e = js_map_error e' \<longleftrightarrow> e = e'" by (rule js_map_error_inj)
qed (auto simp: napi_mode_def ffi_mode_def js_mode_def napi_export_raw_def ffi_export_raw_def napi_dispose_key_def
    napi_derive_backup_id_def napi_seal_descriptor_def napi_open_descriptor_def napi_create_object_context_def
    rbind_Inr_iff split: backup_key_material.splits)

section \<open>Waiting for a callback\<close>

text \<open>A poll that times out with the flag clear and the function alive: the wait goes on.\<close>

definition idle_poll :: "('c, 'a, 'w) js_side \<Rightarrow> 'w \<Rightarrow> 'w \<Rightarrow> bool" where
  "idle_poll J w w' \<longleftrightarrow>
     (\<exists>w1 w2. js_cancelled J w = (False, w1) \<and> js_aborted J w1 = (False, w2) \<and> js_recv J w2 = (Timed_out, w'))"

text \<open>What a wait may return, event by event.\<close>

inductive js_waits ::
    "('c, 'a, 'w) js_side \<Rightarrow> ('a js_outcome \<Rightarrow> backup_error_code + 'b) \<Rightarrow> 'w \<Rightarrow> (backup_error_code + 'b) \<times> 'w \<Rightarrow> bool"
    for J :: "('c, 'a, 'w) js_side" and message :: "'a js_outcome \<Rightarrow> backup_error_code + 'b" where
  wait_cancelled: "js_cancelled J w = (True, w1) \<Longrightarrow> js_waits J message w (Inl Cancelled, w1)"
| wait_aborted: "\<lbrakk>js_cancelled J w = (False, w1); js_aborted J w1 = (True, w2)\<rbrakk> \<Longrightarrow> js_waits J message w (Inl IoError, w2)"
| wait_closed: "\<lbrakk>js_cancelled J w = (False, w1); js_aborted J w1 = (False, w2); js_recv J w2 = (Disconnected, w3)\<rbrakk>
    \<Longrightarrow> js_waits J message w (Inl IoError, w3)"
| wait_answered: "\<lbrakk>js_cancelled J w = (False, w1); js_aborted J w1 = (False, w2); js_recv J w2 = (Settled r, w3);
      js_cancelled J w3 = (False, w4)\<rbrakk> \<Longrightarrow> js_waits J message w (message r, w4)"
| wait_answered_late: "\<lbrakk>js_cancelled J w = (False, w1); js_aborted J w1 = (False, w2); js_recv J w2 = (Settled r, w3);
      js_cancelled J w3 = (True, w4)\<rbrakk> \<Longrightarrow> js_waits J message w (Inl Cancelled, w4)"
| wait_timed_out: "\<lbrakk>idle_poll J w w'; js_waits J message w' out\<rbrakk> \<Longrightarrow> js_waits J message w out"

lemma wait_step_result:
  "case wait_step J message w of
     Inl out \<Rightarrow> js_waits J message w out \<and> (\<forall>w'. \<not> idle_poll J w w')
   | Inr w' \<Rightarrow> idle_poll J w w'"
proof -
  obtain b1 w1 where c1: "js_cancelled J w = (b1, w1)" by fastforce
  obtain b2 w2 where c2: "js_aborted J w1 = (b2, w2)" by fastforce
  obtain p w3 where c3: "js_recv J w2 = (p, w3)" by fastforce
  obtain b4 w4 where c4: "js_cancelled J w3 = (b4, w4)" by fastforce
  show ?thesis
    using c1 c2 c3 c4
    by (cases b1; cases b2; cases p; cases b4) (auto simp: wait_step_def idle_poll_def intro: js_waits.intros)
qed

lemma wait_is_allowed: "wait_for_callback J message w = Some out \<Longrightarrow> js_waits J message w out"
proof (induction J message w out rule: wait_for_callback.raw_induct [rotated 1, consumes 1, case_names step])
  case (step wait J message w y)
  note r = wait_step_result [of J message w]
  show ?case
  proof (cases "wait_step J message w")
    case (Inl out)
    with step(2) r show ?thesis by simp
  next
    case (Inr w1)
    with step(2) have "wait J message w1 = Some y" by simp
    from step(1) [OF this] r Inr show ?thesis by (auto intro: wait_timed_out)
  qed
qed

lemma wait_after_idle: "idle_poll J w w' \<Longrightarrow> wait_for_callback J message w = wait_for_callback J message w'"
  by (subst wait_for_callback.simps) (auto simp: idle_poll_def wait_step_def)

lemma allowed_is_wait: "js_waits J message w out \<Longrightarrow> wait_for_callback J message w = Some out"
proof (induction rule: js_waits.induct)
  case (wait_timed_out w w' out)
  then show ?case by (simp add: wait_after_idle)
qed (subst wait_for_callback.simps, simp add: wait_step_def)+

lemma waits_not_forever: "js_waits J message w out \<Longrightarrow> f 0 = w \<Longrightarrow> \<exists>n. \<not> idle_poll J (f n) (f (Suc n))"
proof (induction arbitrary: f rule: js_waits.induct)
  case (wait_timed_out w w' out)
  show ?case
  proof (rule ccontr)
    assume "\<nexists>n. \<not> idle_poll J (f n) (f (Suc n))"
    then have all: "idle_poll J (f n) (f (Suc n))" for n by blast
    from all [of 0] wait_timed_out(1,4) have "f (Suc 0) = w'" by (auto simp: idle_poll_def)
    from wait_timed_out(3) [of "\<lambda>n. f (Suc n)", OF this] obtain n where "\<not> idle_poll J (f (Suc n)) (f (Suc (Suc n)))" by blast
    with all [of "Suc n"] show False by blast
  qed
qed (rule exI [of _ 0], simp add: idle_poll_def)+

lemma never_returns:
  assumes "wait_for_callback J message w = None"
  shows "\<exists>f. f 0 = w \<and> (\<forall>n. idle_poll J (f n) (f (Suc n)))"
proof -
  have step: "\<exists>w'. idle_poll J u w' \<and> wait_for_callback J message w' = None" if none: "wait_for_callback J message u = None" for u
  proof (cases "wait_step J message u")
    case (Inl out)
    then have "wait_for_callback J message u = Some out" by (subst wait_for_callback.simps) simp
    with none show ?thesis by simp
  next
    case (Inr w')
    with wait_step_result [of J message u] have "idle_poll J u w'" by simp
    with none wait_after_idle [OF this, of message] show ?thesis by (intro exI [of _ w']) simp
  qed
  let ?P = "\<lambda>(n :: nat) u. wait_for_callback J message u = None \<and> (n = 0 \<longrightarrow> u = w)"
  have first: "\<exists>u. ?P 0 u" using assms by (intro exI [of _ w]) simp
  have more: "\<exists>v. ?P (Suc n) v \<and> idle_poll J u v" if "?P n u" for u n
  proof -
    from that have "wait_for_callback J message u = None" by simp
    from step [OF this] obtain v where "idle_poll J u v" "wait_for_callback J message v = None" by (elim exE conjE)
    then show ?thesis by (intro exI [of _ v]) simp
  qed
  have "\<exists>f. \<forall>n. ?P n (f n) \<and> idle_poll J (f n) (f (Suc n))"
    by (rule dependent_nat_choice [of ?P "\<lambda>_. idle_poll J"]) (rule first, erule more)
  then show ?thesis
  proof (elim exE)
    fix f
    assume f: "\<forall>n. ?P n (f n) \<and> idle_poll J (f n) (f (Suc n))"
    from f [rule_format, of 0] have "f 0 = w" by simp
    moreover have "idle_poll J (f n) (f (Suc n))" for n using f [rule_format, of n] by (rule conjunct2)
    ultimately show ?thesis by (intro exI [of _ f] conjI allI)
  qed
qed

text \<open>C31: The wait for a JavaScript callback returns what its events say, and nothing else makes it end. It
  returns an outcome if and only if the events allow it: \<open>Cancelled\<close> when the flag is found set at the
  start of an iteration, or read again after an answer; \<open>IoError\<close> when the function was aborted or the
  channel is closed; otherwise the handler's message for the answer; and a timeout only means that the
  same holds from the state after it. It does not return exactly when there is an endless sequence of
  timeouts, from the first state on, with the flag clear and the function alive.\<close>

theorem wait_for_callback_settles:
  "(wait_for_callback J message w = Some out \<longleftrightarrow> js_waits J message w out) \<and>
   (wait_for_callback J message w = None \<longleftrightarrow> (\<exists>f. f 0 = w \<and> (\<forall>n. idle_poll J (f n) (f (Suc n)))))"
proof (intro conjI)
  show "wait_for_callback J message w = Some out \<longleftrightarrow> js_waits J message w out"
    by (rule iffI) (erule wait_is_allowed, erule allowed_is_wait)
  show "wait_for_callback J message w = None \<longleftrightarrow> (\<exists>f. f 0 = w \<and> (\<forall>n. idle_poll J (f n) (f (Suc n))))"
  proof
    assume "\<exists>f. f 0 = w \<and> (\<forall>n. idle_poll J (f n) (f (Suc n)))"
    then obtain f where f: "f 0 = w" "\<And>n. idle_poll J (f n) (f (Suc n))" by blast
    show "wait_for_callback J message w = None"
    proof (cases "wait_for_callback J message w")
      case (Some out)
      from waits_not_forever [where f = f, OF wait_is_allowed [OF Some] f(1)] f(2) show ?thesis by blast
    qed
  qed (rule never_returns)
qed

text \<open>A side that answers a read after one timeout; the state holds the data, the request and the timeouts left.\<close>

definition sample_reads :: "(u32, bytes, bytes \<times> nat \<times> nat) js_side" where
  "sample_reads = \<lparr>
     js_cancelled = (\<lambda>w. (False, w)),
     js_call = (\<lambda>n (bs, _, _). (True, bs, unat n, 1)),
     js_aborted = (\<lambda>w. (False, w)),
     js_recv = (\<lambda>(bs, n, ticks).
       if ticks = 0 then (Settled (Resolved (take n bs)), drop n bs, 0, 0) else (Timed_out, bs, n, ticks - 1))\<rparr>"

theorem wait_for_callback_settles_witness:
  "wait_for_callback sample_reads (read_message 2) ([1, 2, 3], 2, 1) = Some (Inr [1, 2], [3], 0, 0)"
proof -
  let ?w = "([1, 2, 3], 2, 0) :: bytes \<times> nat \<times> nat"
  have "js_waits sample_reads (read_message 2) ?w (read_message 2 (Resolved [1, 2]), [3], 0, 0)"
    by (rule wait_answered [of sample_reads ?w ?w ?w]) (simp_all add: sample_reads_def)
  then have "js_waits sample_reads (read_message 2) ?w (Inr [1, 2], [3], 0, 0)" by (simp add: read_message_def)
  moreover have "idle_poll sample_reads ([1, 2, 3], 2, 1) ?w" by (simp add: idle_poll_def sample_reads_def)
  ultimately have "js_waits sample_reads (read_message 2) ([1, 2, 3], 2, 1) (Inr [1, 2], [3], 0, 0)"
    by (rule wait_timed_out [rotated])
  then show ?thesis by (rule wait_for_callback_settles [THEN conjunct1, THEN iffD2])
qed

section \<open>Objects\<close>

text \<open>
  A JavaScript side that answers: its flag is never set, it accepts every call, and every wait returns,
  after any number of timeouts. A reader delivers the bytes \<open>R w\<close>, an empty array exactly at the end
  and never more than was asked for; a writer appends to \<open>W w\<close>.
\<close>

definition answers_reads :: "(u32, bytes, 'w) js_side \<Rightarrow> ('w \<Rightarrow> bytes) \<Rightarrow> bool" where
  "answers_reads J R \<longleftrightarrow>
     (\<forall>w. \<exists>w'. js_cancelled J w = (False, w') \<and> R w' = R w) \<and>
     (\<forall>w n. 0 < n \<longrightarrow>
        (\<exists>w1 bs w2. js_call J n w = (True, w1) \<and> wait_for_callback J (read_message (unat n)) w1 = Some (Inr bs, w2) \<and>
           length bs \<le> unat n \<and> (bs = [] \<longleftrightarrow> R w = []) \<and> R w = bs @ R w2))"

definition answers_writes :: "(bytes, unit, 'w) js_side \<Rightarrow> ('w \<Rightarrow> bytes) \<Rightarrow> bool" where
  "answers_writes J W \<longleftrightarrow>
     (\<forall>w. \<exists>w'. js_cancelled J w = (False, w') \<and> W w' = W w) \<and>
     (\<forall>w bs. length bs \<le> MAX_IO_CHUNK_BYTES_V1 \<longrightarrow>
        (\<exists>w1 w2. js_call J bs w = (True, w1) \<and> wait_for_callback J write_message w1 = Some (Inr (), w2) \<and> W w2 = W w @ bs))"

lemma answers_reads_source:
  assumes "answers_reads J R"
  shows "honest_source (js_source J) R"
  unfolding honest_source_def
proof (intro conjI allI impI)
  fix w and dest :: bytes
  assume d: "dest \<noteq> [] \<and> length dest \<le> MAX_IO_CHUNK_BYTES_V1"
  have u: "unat (of_nat (length dest) :: u32) = length dest" and m: "min (length dest) MAX_IO_CHUNK_BYTES_V1 = length dest"
    using d by (simp_all add: unat_of_nat MAX_IO_CHUNK_BYTES_V1_def)
  from assms obtain w1 where c: "js_cancelled J w = (False, w1)" "R w1 = R w" unfolding answers_reads_def by blast
  have "0 < (of_nat (length dest) :: u32)" using d u by (simp add: word_less_nat_alt)
  with assms have "\<exists>w2 bs w3. js_call J (of_nat (length dest)) w1 = (True, w2) \<and>
      wait_for_callback J (read_message (unat (of_nat (length dest) :: u32))) w2 = Some (Inr bs, w3) \<and>
      length bs \<le> unat (of_nat (length dest) :: u32) \<and> (bs = [] \<longleftrightarrow> R w1 = []) \<and> R w1 = bs @ R w3"
    unfolding answers_reads_def by blast
  then obtain w2 bs w3 where "js_call J (of_nat (length dest)) w1 = (True, w2)"
    "wait_for_callback J (read_message (length dest)) w2 = Some (Inr bs, w3)" "length bs \<le> length dest"
    "bs = [] \<longleftrightarrow> R w = []" "R w = bs @ R w3"
    unfolding u c(2) by blast
  with c m show "\<exists>n b s'. read_chunk (js_source J) dest w = (Inr n, b, s') \<and> n \<le> length dest \<and> n \<le> length b \<and>
      n \<le> length (R w) \<and> (n = 0 \<longleftrightarrow> R w = []) \<and> take n b = take n (R w) \<and> R s' = drop n (R w)"
    by (intro exI [of _ "length bs"] exI [of _ bs] exI [of _ w3])
      (auto simp: js_source_def napi_read_chunk_def)
next
  show "\<exists>w'. is_cancelled (js_source J) w = (False, w') \<and> R w' = R w" for w
    using assms by (simp add: answers_reads_def js_source_def)
qed

lemma answers_writes_sink:
  assumes "answers_writes J W"
  shows "faithful_sink (js_sink J) W" and "accepting_sink (js_sink J)"
proof -
  have ok: "\<exists>k'. write_chunk (js_sink J) bs k = (Inr (), k') \<and> W k' = W k @ bs"
    if "length bs \<le> MAX_IO_CHUNK_BYTES_V1" for bs k
  proof -
    from assms obtain w1 where c: "js_cancelled J k = (False, w1)" "W w1 = W k" unfolding answers_writes_def by blast
    from assms that obtain w2 w3 where "js_call J bs w1 = (True, w2)"
      "wait_for_callback J write_message w2 = Some (Inr (), w3)" "W w3 = W w1 @ bs"
      unfolding answers_writes_def by blast
    with c that show ?thesis by (auto simp: js_sink_def napi_write_chunk_def)
  qed
  have long: "\<exists>k'. write_chunk (js_sink J) bs k = (Inl InvalidState, k') \<and> W k' = W k"
    if "\<not> length bs \<le> MAX_IO_CHUNK_BYTES_V1" for bs k
  proof -
    from assms obtain w1 where "js_cancelled J k = (False, w1)" "W w1 = W k" unfolding answers_writes_def by blast
    with that show ?thesis by (auto simp: js_sink_def napi_write_chunk_def)
  qed
  show "accepting_sink (js_sink J)" unfolding accepting_sink_def using ok by blast
  show "faithful_sink (js_sink J) W"
    unfolding faithful_sink_def
  proof (intro conjI allI impI)
    show "W k' = W k @ c" if "write_chunk (js_sink J) c k = (Inr (), k')" for c k k'
      using that ok [of c k] long [of c k] by (cases "length c \<le> MAX_IO_CHUNK_BYTES_V1") auto
    show "W k' = W k" if "write_chunk (js_sink J) c k = (Inl e, k')" for c k e k'
      using that ok [of c k] long [of c k] by (cases "length c \<le> MAX_IO_CHUNK_BYTES_V1") auto
  qed
qed

text \<open>A host that builds the adapters and runs the task.\<close>

definition host_works :: "napi_host \<Rightarrow> bool" where
  "host_works H \<longleftrightarrow>
     host_read H = Inr () \<and> host_write H = Inr () \<and> host_spawned H \<and> host_deferred H = Inr () \<and> host_sent H"

text \<open>C23: An object sealed through JavaScript callbacks opens through JavaScript callbacks. If the promise of
  \<open>sealBackupObjectV1\<close> was resolved with metadata for the bytes \<open>R s\<close> and the write callback took the
  bytes \<open>object\<close>, then, given the same context, \<open>openBackupObjectV1\<close>, on callbacks that answer and deliver
  \<open>object\<close> in pieces of any size, without a set token, resolves its promise and appends exactly \<open>R s\<close>; on
  a disposed context neither call runs anything.\<close>

theorem napi_object_roundtrip:
  assumes J: "answers_reads J R" "answers_writes K W" and Z: "slices_fit (zstd G)"
    and sy: "stream_sync (stream G) sync" and codec: "zstd_codec (zstd G) Y"
    and seal: "napi_seal_backup_object_v1 H G (Some c) J K token (s, k) = (Inr (Inr d), s', k')"
    and obj: "W k' = W k @ object"
    and T: "answers_reads T Q" "Q t = object" "answers_writes L V" "host_works H'" "token' \<noteq> Some True"
  shows "(\<exists>t' q'. napi_open_backup_object_v1 H' G Y (Some c) T L token' (t, q) = (Inr (Inr ()), t', q') \<and>
      V q' = V q @ R s) \<and>
    napi_open_backup_object_v1 H' G Y (napi_dispose_context (Some c)) T L token' (t, q) =
      (Inl (Napi_Failed js_invalid_state), t, q) \<and>
    napi_seal_backup_object_v1 H' G (napi_dispose_context (Some c)) J K token' (s, k) =
      (Inl (Napi_Failed js_invalid_state), s, k)"
proof -
  from seal have core: "seal_object_v1 (with_sink G (js_sink K)) c (js_source J) s k = (Inr d, s', k')"
    by (auto simp: napi_seal_backup_object_v1_def napi_seal_compute_def spawn_io_task_def caught_def napi_shared_def
        rbind_def map_err_def split: if_splits sum.splits prod.splits)
  have "\<exists>t' q'. open_object_v1 (with_sink G (js_sink L)) Y (js_source T) c t q = (Inr (), t', q') \<and> V q' = V q @ R s"
    by (rule sealed_object_opens [OF answers_reads_source [OF J(1)] _ _ _ _ core obj _ _ _
          answers_reads_source [OF T(1)], where sync = sync])
      (simp_all add: answers_writes_sink [OF J(2)] answers_writes_sink [OF T(3)] T(2) Z sy codec)
  with T(4,5) show ?thesis
    by (cases token') (auto simp: napi_open_backup_object_v1_def napi_seal_backup_object_v1_def napi_open_compute_def
        spawn_io_task_def caught_def napi_shared_def napi_dispose_context_def napi_adapters_def host_works_def)
qed

definition sample_writes :: "(bytes, unit, bytes) js_side" where
  "sample_writes = \<lparr>js_cancelled = (\<lambda>w. (False, w)), js_call = (\<lambda>bs w. (True, w @ bs)),
     js_aborted = (\<lambda>w. (False, w)), js_recv = (\<lambda>w. (Settled (Resolved ()), w))\<rparr>"

definition sample_host :: napi_host where
  "sample_host = \<lparr>host_read = Inr (), host_write = Inr (), host_spawned = True, host_deferred = Inr (), host_sent = True\<rparr>"

lemma sample_sides: "answers_reads sample_reads fst" "answers_writes sample_writes (\<lambda>w. w)" "host_works sample_host"
proof -
  have "wait_for_callback sample_reads (read_message n) (bs, n, 1) = Some (Inr (take n bs), drop n bs, 0, 0)" for bs :: bytes and n
    by (simp add: wait_for_callback.simps wait_step_def sample_reads_def read_message_def)
  then show "answers_reads sample_reads fst"
    by (auto simp: answers_reads_def sample_reads_def word_less_nat_alt)
  have "wait_for_callback sample_writes write_message w = Some (Inr (), w)" for w
    by (simp add: wait_for_callback.simps wait_step_def sample_writes_def write_message_def)
  then show "answers_writes sample_writes (\<lambda>w. w)"
    by (auto simp: answers_writes_def sample_writes_def)
  show "host_works sample_host" by (simp add: host_works_def sample_host_def)
qed

theorem napi_object_roundtrip_witness:
  "\<exists>d s' object t'. napi_seal_backup_object_v1 sample_host (sample_env (one_shot_encoder (sample_frame [42])))
      (Some (sample_context 1)) sample_reads sample_writes None (([42], 0, 0), []) = (Inr (Inr d), s', object) \<and>
    napi_open_backup_object_v1 sample_host (sample_env (one_shot_encoder (sample_frame [42]))) one_shot_decoder
      (Some (sample_context 1)) sample_reads sample_writes (Some False) ((object, 0, 0), []) = (Inr (Inr ()), t', [42])"
proof -
  let ?G = "sample_env (one_shot_encoder (sample_frame [42]))"
  have len: "length (sample_frame [42]) \<le> 1000" by (simp add: sample_frame_def)
  have app: "appending (js_sink sample_writes)"
    by (simp add: appending_def sink_write_def js_sink_def napi_write_chunk_def sample_writes_def
        wait_for_callback.simps wait_step_def write_message_def MAX_IO_CHUNK_BYTES_V1_def)
  from sample_seal_on [OF app len answers_reads_source [OF sample_sides(1)], of "([42], 0, 0)" "[]"]
  obtain d s' k' where "seal_object_v1 (with_sink ?G (js_sink sample_writes)) (sample_context 1)
      (js_source sample_reads) ([42], 0, 0) [] = (Inr d, s', k')"
    by (auto simp: with_sink_sample)
  then have seal: "napi_seal_backup_object_v1 sample_host ?G (Some (sample_context 1)) sample_reads sample_writes None
      (([42], 0, 0), []) = (Inr (Inr d), s', k')"
    by (simp add: napi_seal_backup_object_v1_def napi_seal_compute_def spawn_io_task_def caught_def napi_shared_def
        napi_adapters_def sample_host_def)
  have Z: "slices_fit (zstd ?G)" using len by (simp add: one_shot_encoder_fits)
  have sy: "stream_sync (stream ?G) (\<lambda>_ _. True)" by (simp add: sample_cipher_sync)
  have codec: "zstd_codec (zstd ?G) one_shot_decoder" by (simp add: one_shot_codec)
  have obj: "k' = [] @ k'" and T: "fst (k', 0 :: nat, 0 :: nat) = k'" and tok: "Some False \<noteq> Some True" by simp_all
  from napi_object_roundtrip [OF sample_sides(1,2) Z sy codec seal obj sample_sides(1) T sample_sides(2,3) tok, of "[]"]
  obtain t' q' where "napi_open_backup_object_v1 sample_host ?G one_shot_decoder (Some (sample_context 1)) sample_reads
      sample_writes (Some False) ((k', 0, 0), []) = (Inr (Inr ()), t', q')" "q' = [] @ fst ([42], 0 :: nat, 0 :: nat)"
    by blast
  with seal show ?thesis by (cases s'; cases t') auto
qed

end
