(* ===== verification/Napi_Client.thy ===== *)
theory Napi_Client
  imports Client_Base Napi_Error
begin

text \<open>
  The Node.js client, \<open>UqMls\<close> of \<open>kchat-napi/src/mls/mod.rs\<close> (\<open>kchat-mls-napi/src/lib.rs\<close> is the same
  text but for a lint and the path of its error type): its constructor, every exported method, every
  task and every conversion. A method either throws or returns an \<open>AsyncTask\<close>, which is the action its
  \<open>compute\<close> performs on the world when a worker thread runs it; what a task captured from the client is
  what its action was built with. \<open>E\<close> is the environment, \<open>C\<close> the client object, \<open>B\<close> the functions of
  \<open>napi::BigInt\<close>. A log callback is the outcome of making it a threadsafe function; what it is told is
  left out.
\<close>

section \<open>Big integers\<close>

text \<open>\<open>BigInt::get_u64\<close> returns the sign, the value and whether it is lossless, \<open>get_i64\<close> the value and
  whether it is lossless.\<close>

record 'b bigint_ops =
  bi_from_u64 :: "u64 \<Rightarrow> 'b"
  bi_from_i64 :: "int \<Rightarrow> 'b"
  bi_get_u64 :: "'b \<Rightarrow> bool \<times> u64 \<times> bool"
  bi_get_i64 :: "'b \<Rightarrow> int \<times> bool"

definition napi_invalid_arg :: "string \<Rightarrow> napi_js_error" where
  "napi_invalid_arg reason = \<lparr>js_status = Status_InvalidArg, js_reason = reason\<rparr>"

definition bigint_to_u64 :: "'b bigint_ops \<Rightarrow> 'b \<Rightarrow> string \<Rightarrow> napi_js_error + u64" where
  "bigint_to_u64 B value field =
     (case bi_get_u64 B value of
        (is_negative, parsed, lossless) \<Rightarrow>
          if is_negative \<or> \<not> lossless then Inl (napi_invalid_arg (field @ '' must be an unsigned 64-bit integer''))
          else Inr parsed)"

definition bigint_to_i64 :: "'b bigint_ops \<Rightarrow> 'b \<Rightarrow> string \<Rightarrow> napi_js_error + int" where
  "bigint_to_i64 B value field =
     (case bi_get_i64 B value of
        (parsed, lossless) \<Rightarrow>
          if \<not> lossless then Inl (napi_invalid_arg (field @ '' must be a signed 64-bit integer''))
          else Inr parsed)"

section \<open>Configuration\<close>

record napi_mls =
  nm_client_id :: string
  nm_ciphersuite :: u16
  nm_wire_format_policy :: wire_format_policy
  nm_use_ratchet_tree_extension :: bool
  nm_max_past_epochs :: u16
  nm_out_of_order_tolerance :: u32
  nm_maximum_forward_distance :: u32

type_synonym 'a async_task = "(world, napi_js_error client_fault, 'a) action"

text \<open>A callback the caller gave, as what \<open>build_callback\<close> returns for it.\<close>

type_synonym log_callback = "(napi_js_error + unit) option"

fun build_log_callback :: "log_callback \<Rightarrow> napi_js_error + unit option" where
  "build_log_callback None = Inr None"
| "build_log_callback (Some (Inl e)) = Inl e"
| "build_log_callback (Some (Inr f)) = Inr (Some f)"

definition nq_ciphersuite :: "('g, 'o) client_env \<Rightarrow> napi_mls \<Rightarrow> napi_error + 'o" where
  "nq_ciphersuite E C = map_err napi_from_openmls (ce_ciphersuite E (nm_ciphersuite C))"

text \<open>\<open>self.ciphersuite()?\<close> in a method, with the error thrown.\<close>

definition nq_ciphersuite_or_throw :: "('g, 'o) client_env \<Rightarrow> napi_mls \<Rightarrow> napi_js_error + 'o" where
  "nq_ciphersuite_or_throw E C = map_err napi_error_from (nq_ciphersuite E C)"

fun nq_wire_format_policy :: "wire_format_policy \<Rightarrow> openmls_wire_format_policy" where
  "nq_wire_format_policy PurePlaintext = PURE_PLAINTEXT_WIRE_FORMAT_POLICY"
| "nq_wire_format_policy PureCiphertext = PURE_CIPHERTEXT_WIRE_FORMAT_POLICY"
| "nq_wire_format_policy MixedPlaintext = MIXED_PLAINTEXT_WIRE_FORMAT_POLICY"
| "nq_wire_format_policy MixedCiphertext = MIXED_CIPHERTEXT_WIRE_FORMAT_POLICY"

definition nq_build_join_config :: "('g, 'o) client_env \<Rightarrow> napi_mls \<Rightarrow> group_config_update option \<Rightarrow> 'o" where
  "nq_build_join_config E C update =
     (let max_past_epochs =
            (case Option.bind update gu_max_past_epochs of Some n \<Rightarrow> n | None \<Rightarrow> nm_max_past_epochs C);
          out_of_order_tolerance =
            (case Option.bind update gu_out_of_order_tolerance of Some n \<Rightarrow> n | None \<Rightarrow> nm_out_of_order_tolerance C);
          maximum_forward_distance =
            (case Option.bind update gu_maximum_forward_distance of Some n \<Rightarrow> n | None \<Rightarrow> nm_maximum_forward_distance C) in
      ce_join_config E \<lparr>js_policy = nq_wire_format_policy (nm_wire_format_policy C),
        js_ratchet_tree = nm_use_ratchet_tree_extension C, js_past_epochs = unat max_past_epochs,
        js_tolerance = out_of_order_tolerance, js_distance = maximum_forward_distance\<rparr>)"

definition nq_build_create_config :: "('g, 'o) client_env \<Rightarrow> napi_mls \<Rightarrow> 'o \<Rightarrow> 'o" where
  "nq_build_create_config E C ciphersuite =
     ce_create_config E ciphersuite
       \<lparr>js_policy = nq_wire_format_policy (nm_wire_format_policy C),
        js_ratchet_tree = nm_use_ratchet_tree_extension C, js_past_epochs = unat (nm_max_past_epochs C),
        js_tolerance = nm_out_of_order_tolerance C, js_distance = nm_maximum_forward_distance C\<rparr>"

section \<open>Conversions\<close>

definition nq_add_members_from :: "'b bigint_ops \<Rightarrow> add_members_result \<Rightarrow> 'b add_members_out" where
  "nq_add_members_from B r =
     \<lparr>ao_commit = am_commit r, ao_welcome = am_welcome r, ao_group_info = am_group_info r,
      ao_current_epoch = bi_from_u64 B (am_current_epoch r), ao_pre_tree_hash = am_pre_tree_hash r\<rparr>"

definition nq_remove_members_from :: "'b bigint_ops \<Rightarrow> commit_result \<Rightarrow> 'b commit_out" where
  "nq_remove_members_from B r =
     \<lparr>co_commit = cr_commit r, co_group_info = cr_group_info r, co_current_epoch = bi_from_u64 B (cr_current_epoch r),
      co_pre_tree_hash = cr_pre_tree_hash r\<rparr>"

definition nq_join_from :: "'b bigint_ops \<Rightarrow> commit_result \<Rightarrow> 'b commit_out" where
  "nq_join_from B r =
     \<lparr>co_commit = cr_commit r, co_group_info = cr_group_info r, co_current_epoch = bi_from_u64 B (cr_current_epoch r),
      co_pre_tree_hash = cr_pre_tree_hash r\<rparr>"

definition nq_update_leaf_from :: "'b bigint_ops \<Rightarrow> commit_result \<Rightarrow> 'b commit_out" where
  "nq_update_leaf_from B r =
     \<lparr>co_commit = cr_commit r, co_group_info = cr_group_info r, co_current_epoch = bi_from_u64 B (cr_current_epoch r),
      co_pre_tree_hash = cr_pre_tree_hash r\<rparr>"

definition nq_readd_from :: "'b bigint_ops \<Rightarrow> readd_result \<Rightarrow> 'b readd_out" where
  "nq_readd_from B r =
     \<lparr>ro_commit = ra_commit r, ro_welcome = ra_welcome r, ro_group_info = ra_group_info r,
      ro_current_epoch = bi_from_u64 B (ra_current_epoch r), ro_pre_tree_hash = ra_pre_tree_hash r\<rparr>"

fun nq_proposal_from :: "proposal_kind \<Rightarrow> client_proposal" where
  "nq_proposal_from Kind_Add = Client_Add"
| "nq_proposal_from Kind_Update = Client_Update"
| "nq_proposal_from Kind_Remove = Client_Remove"
| "nq_proposal_from Kind_PreSharedKey = Client_PreSharedKey"
| "nq_proposal_from Kind_ReInit = Client_ReInit"
| "nq_proposal_from Kind_ExternalInit = Client_ExternalInit"
| "nq_proposal_from Kind_GroupContextExtensions = Client_GroupContextExtensions"
| "nq_proposal_from Kind_AppAck = Client_AppAck"
| "nq_proposal_from Kind_SelfRemove = Client_SelfRemove"
| "nq_proposal_from Kind_Custom = Client_Custom"

fun nq_proposal_from_custom :: "custom_proposal_type \<Rightarrow> client_proposal" where
  "nq_proposal_from_custom Custom_ReAdd = Client_ReAdd"
| "nq_proposal_from_custom Custom_Remove = Client_Remove"

definition nq_queued_from :: "'b bigint_ops \<Rightarrow> queued_proposal \<Rightarrow> 'b queued_out" where
  "nq_queued_from B p =
     \<lparr>qo_sender = qp_sender p, qo_client_jid = extract_jid_from_member_id (qp_sender p),
      qo_mls_client_id = Some (qp_sender p), qo_mls_fingerprint = None, qo_epoch = Some (bi_from_u64 B (qp_epoch p)),
      qo_group_id = qp_group_id p, qo_proposal = nq_proposal_from (qp_proposal p)\<rparr>"

section \<open>Opening a client\<close>

text \<open>The MLS database is opened first, so that \<open>probe\<close>, what the file of the status database holds when it
  is inspected, may depend on it: the two may be one file.\<close>

definition nq_new ::
    "('g, 'o) client_env \<Rightarrow> (migration_error \<Rightarrow> string) \<Rightarrow> migration list
      \<Rightarrow> (migration list \<Rightarrow> (db, migration_error, unit) action) \<Rightarrow> bytes exporter \<Rightarrow> (db \<Rightarrow> file_probe)
      \<Rightarrow> string \<Rightarrow> u16 \<Rightarrow> string option \<Rightarrow> u32 \<Rightarrow> u32 \<Rightarrow> napi_mls async_task" where
  "nq_new E rdisp migrations runner export probe client_id max_past_epochs password out_of_order_tolerance
       maximum_forward_distance =
     sbind (on_client_mls (\<lambda>e. napi_error_from (Napi_Mls (display e)))
              (new_with_log (client_sql E) rdisp migrations runner (ce_group_id E) export)) (\<lambda>_ w.
     sbind (on_client_status (\<lambda>e. napi_error_from (Napi_Storage (display e)))
              (open_compatible_group_status_connection (client_sql E) (probe (mls w)) password)) (\<lambda>_.
     sret \<lparr>nm_client_id = client_id, nm_ciphersuite = DEFAULT_CIPHERSUITE, nm_wire_format_policy = PureCiphertext,
       nm_use_ratchet_tree_extension = True, nm_max_past_epochs = max_past_epochs,
       nm_out_of_order_tolerance = out_of_order_tolerance, nm_maximum_forward_distance = maximum_forward_distance\<rparr>) w)"

text \<open>\<open>.map_err(|e| napi::Error::new(GenericFailure, e.to_string()))\<close>\<close>

definition napi_failed :: "mls_error \<Rightarrow> napi_js_error" where
  "napi_failed e = napi_failure (display e)"

section \<open>Keys and groups\<close>

definition generate_signature_key_task :: "('g, 'o) client_env \<Rightarrow> 'o \<Rightarrow> signature_public_key async_task" where
  "generate_signature_key_task E ciphersuite =
     sbind (on_client_mls napi_failed (generate_signature_key (client_mls E) ciphersuite)) (\<lambda>signer.
     sret \<lparr>spk_public = signature_public (client_mls E) signer, spk_signature_scheme = ce_scheme E signer\<rparr>)"

definition nq_generate_signature_key ::
    "('g, 'o) client_env \<Rightarrow> napi_mls \<Rightarrow> napi_js_error + signature_public_key async_task" where
  "nq_generate_signature_key E C =
     rbind (nq_ciphersuite_or_throw E C) (\<lambda>ciphersuite. Inr (generate_signature_key_task E ciphersuite))"

fun generate_key_packages_task ::
    "('g, 'o) client_env \<Rightarrow> string \<Rightarrow> 'o \<Rightarrow> bool \<Rightarrow> bytes option \<Rightarrow> nat \<Rightarrow> bytes list \<Rightarrow> bytes list async_task" where
  "generate_key_packages_task E client_id ciphersuite last_resort public_key 0 result = sret result"
| "generate_key_packages_task E client_id ciphersuite last_resort public_key (Suc n) result =
     sbind (on_client_mls napi_failed
              (generate_key_package (client_mls E) client_id ciphersuite last_resort public_key)) (\<lambda>key_package.
     generate_key_packages_task E client_id ciphersuite last_resort public_key n (result @ [key_package]))"

definition nq_generate_key_packages ::
    "('g, 'o) client_env \<Rightarrow> napi_mls \<Rightarrow> u16 \<Rightarrow> bool \<Rightarrow> bytes option \<Rightarrow> napi_js_error + bytes list async_task" where
  "nq_generate_key_packages E C quantity last_resort public_key =
     rbind (nq_ciphersuite_or_throw E C) (\<lambda>ciphersuite.
     Inr (generate_key_packages_task E (nm_client_id C) ciphersuite last_resort public_key (unat quantity) []))"

definition create_group_task ::
    "('g, 'o) client_env \<Rightarrow> string \<Rightarrow> string \<Rightarrow> bytes option \<Rightarrow> 'o \<Rightarrow> 'o \<Rightarrow> unit async_task" where
  "create_group_task E client_id group_id public_key ciphersuite config w =
     (case loaded_group E napi_failed group_id w of
        (Inr _, w1) \<Rightarrow> (Inl (Client_Error (napi_error_from Napi_GroupIsAlreadyExisted)), w1)
      | (Inl _, w1) \<Rightarrow>
          sbind (in_transaction E napi_failure
                   (create_group (client_mls E) client_id group_id ciphersuite config public_key)) (\<lambda>_.
          set_pending E group_id Op_CreateGroup) w1)"

definition nq_create_group ::
    "('g, 'o) client_env \<Rightarrow> napi_mls \<Rightarrow> string \<Rightarrow> bytes option \<Rightarrow> log_callback \<Rightarrow> napi_js_error + unit async_task" where
  "nq_create_group E C group_id public_key callback =
     rbind (build_log_callback callback) (\<lambda>_.
     rbind (nq_ciphersuite_or_throw E C) (\<lambda>ciphersuite.
     Inr (create_group_task E (nm_client_id C) group_id public_key ciphersuite (nq_build_create_config E C ciphersuite))))"

definition update_group_config_task :: "('g, 'o) client_env \<Rightarrow> string \<Rightarrow> 'o \<Rightarrow> unit async_task" where
  "update_group_config_task E group_id join_config =
     in_transaction E napi_failure (update_group_config (client_load E) (client_mls E) group_id join_config)"

definition nq_update_group_config ::
    "('g, 'o) client_env \<Rightarrow> napi_mls \<Rightarrow> string \<Rightarrow> group_config_update \<Rightarrow> napi_js_error + unit async_task" where
  "nq_update_group_config E C group_id update =
     Inr (update_group_config_task E group_id (nq_build_join_config E C (Some update)))"

section \<open>Members\<close>

definition add_members_task ::
    "('g, 'o) client_env \<Rightarrow> 'b bigint_ops \<Rightarrow> string \<Rightarrow> bytes list \<Rightarrow> 'b add_members_out async_task" where
  "add_members_task E B group_id packages =
     sbind (in_transaction E napi_failure
              (with_signer E group_id (\<lambda>signer. add_members (ce_verify E) (client_mls E) signer packages))) (\<lambda>result.
     sbind (pending_text E group_id) (\<lambda>op.
     sbind (if pending_operation_from op = Op_None then set_pending E group_id Op_UpdateTree else sret ()) (\<lambda>_.
     sret (nq_add_members_from B result))))"

definition nq_add_members ::
    "('g, 'o) client_env \<Rightarrow> 'b bigint_ops \<Rightarrow> string \<Rightarrow> bytes list \<Rightarrow> log_callback
      \<Rightarrow> napi_js_error + 'b add_members_out async_task" where
  "nq_add_members E B group_id packages callback =
     rbind (build_log_callback callback) (\<lambda>_. Inr (add_members_task E B group_id packages))"

definition remove_members_task ::
    "('g, 'o) client_env \<Rightarrow> 'b bigint_ops \<Rightarrow> string \<Rightarrow> string list \<Rightarrow> 'b commit_out async_task" where
  "remove_members_task E B group_id member_ids =
     sbind (in_transaction E napi_failure
              (with_signer E group_id (\<lambda>signer. remove_members (client_mls E) signer member_ids))) (\<lambda>result.
     sbind (set_pending E group_id Op_UpdateTree) (\<lambda>_.
     sret (nq_remove_members_from B result)))"

definition nq_remove_members ::
    "('g, 'o) client_env \<Rightarrow> 'b bigint_ops \<Rightarrow> string \<Rightarrow> string list \<Rightarrow> log_callback
      \<Rightarrow> napi_js_error + 'b commit_out async_task" where
  "nq_remove_members E B group_id member_ids callback =
     rbind (build_log_callback callback) (\<lambda>_. Inr (remove_members_task E B group_id member_ids))"

definition readd_task ::
    "('g, 'o) client_env \<Rightarrow> 'b bigint_ops \<Rightarrow> string \<Rightarrow> string list \<Rightarrow> bytes list \<Rightarrow> 'b readd_out async_task" where
  "readd_task E B group_id member_ids packages =
     sbind (pending_text E group_id) (\<lambda>op.
     if op \<noteq> None \<and> the op \<noteq> OP_NONE
     then sfail (Client_Error (napi_error_from (Napi_ReAdd (''There is a pending operation: '' @ the op))))
     else
       sbind (in_transaction E napi_failure
                (with_signer E group_id (\<lambda>signer. readd (ce_verify E) (client_mls E) signer member_ids packages))) (\<lambda>result.
       sbind (set_pending E group_id Op_UpdateTree) (\<lambda>_.
       sret (nq_readd_from B result))))"

definition nq_readd ::
    "('g, 'o) client_env \<Rightarrow> 'b bigint_ops \<Rightarrow> string \<Rightarrow> string list \<Rightarrow> bytes list
      \<Rightarrow> napi_js_error + 'b readd_out async_task" where
  "nq_readd E B group_id member_ids packages = Inr (readd_task E B group_id member_ids packages)"

definition propose_readd_task :: "('g, 'o) client_env \<Rightarrow> string \<Rightarrow> string \<Rightarrow> string \<Rightarrow> bytes async_task" where
  "propose_readd_task E client_id group_id fingerprint =
     sret (create_custom_proposal (pe_json (ce_process E)) client_id group_id fingerprint Custom_ReAdd)"

definition nq_propose_readd ::
    "('g, 'o) client_env \<Rightarrow> napi_mls \<Rightarrow> string \<Rightarrow> string \<Rightarrow> napi_js_error + bytes async_task" where
  "nq_propose_readd E C group_id fingerprint = Inr (propose_readd_task E (nm_client_id C) group_id fingerprint)"

section \<open>Messages\<close>

definition process_welcome_task :: "('g, 'o) client_env \<Rightarrow> bytes \<Rightarrow> 'o \<Rightarrow> unit async_task" where
  "process_welcome_task E welcome join_config =
     in_transaction E napi_failure
       (sbind (process_welcome (client_mls E) welcome join_config) (\<lambda>_. sret ()))"

definition nq_process_welcome ::
    "('g, 'o) client_env \<Rightarrow> napi_mls \<Rightarrow> bytes \<Rightarrow> log_callback \<Rightarrow> napi_js_error + unit async_task" where
  "nq_process_welcome E C welcome callback =
     (let join_config = nq_build_join_config E C None in
      rbind (build_log_callback callback) (\<lambda>_. Inr (process_welcome_task E welcome join_config)))"

definition process_operation_message_task ::
    "('g, 'o) client_env \<Rightarrow> string \<Rightarrow> bytes \<Rightarrow> operation_result async_task" where
  "process_operation_message_task E group_id message =
     in_transaction E napi_failure (on_loaded_group E group_id [message] (process_operation_message (client_mls E) message))"

definition nq_process_operation_message ::
    "('g, 'o) client_env \<Rightarrow> string \<Rightarrow> bytes \<Rightarrow> log_callback \<Rightarrow> napi_js_error + operation_result async_task" where
  "nq_process_operation_message E group_id message callback =
     rbind (build_log_callback callback) (\<lambda>_. Inr (process_operation_message_task E group_id message))"

definition process_many_operation_messages_task ::
    "('g, 'o) client_env \<Rightarrow> 'b bigint_ops \<Rightarrow> string \<Rightarrow> bytes list \<Rightarrow> 'b async_task" where
  "process_many_operation_messages_task E B group_id messages =
     sbind (in_transaction E napi_failure
              (on_loaded_group E group_id messages (process_many_operation_messages (client_mls E) messages))) (\<lambda>epoch.
     sret (bi_from_u64 B epoch))"

definition nq_process_many_operation_messages ::
    "('g, 'o) client_env \<Rightarrow> 'b bigint_ops \<Rightarrow> string \<Rightarrow> bytes list \<Rightarrow> log_callback \<Rightarrow> napi_js_error + 'b async_task" where
  "nq_process_many_operation_messages E B group_id messages callback =
     rbind (build_log_callback callback) (\<lambda>_. Inr (process_many_operation_messages_task E B group_id messages))"

definition process_application_message_task ::
    "('g, 'o) client_env \<Rightarrow> string \<Rightarrow> bytes \<Rightarrow> bytes async_task" where
  "process_application_message_task E group_id message =
     in_transaction E napi_failure (on_loaded_group E group_id [message] (process_application_message (client_mls E) message))"

definition nq_process_application_message ::
    "('g, 'o) client_env \<Rightarrow> string \<Rightarrow> bytes \<Rightarrow> log_callback \<Rightarrow> napi_js_error + bytes async_task" where
  "nq_process_application_message E group_id message callback =
     rbind (build_log_callback callback) (\<lambda>_. Inr (process_application_message_task E group_id message))"

definition process_proposal_message_task ::
    "('g, 'o) client_env \<Rightarrow> 'b bigint_ops \<Rightarrow> string \<Rightarrow> bytes \<Rightarrow> 'b queued_out async_task" where
  "process_proposal_message_task E B group_id message =
     sbind (in_transaction E napi_failure
              (on_loaded_group E group_id [message] (process_proposal_message (client_mls E) message))) (\<lambda>p.
     sret (nq_queued_from B p))"

definition nq_process_proposal_message ::
    "('g, 'o) client_env \<Rightarrow> 'b bigint_ops \<Rightarrow> string \<Rightarrow> bytes \<Rightarrow> log_callback
      \<Rightarrow> napi_js_error + 'b queued_out async_task" where
  "nq_process_proposal_message E B group_id message callback =
     rbind (build_log_callback callback) (\<lambda>_. Inr (process_proposal_message_task E B group_id message))"

definition process_custom_proposal_message_task ::
    "custom_proposal codec \<Rightarrow> 'b bigint_ops \<Rightarrow> bytes \<Rightarrow> 'b queued_out option async_task" where
  "process_custom_proposal_message_task J B custom_proposal =
     sret (map_option (\<lambda>result.
       \<lparr>qo_sender = (case cp_mls_client_id result of Some i \<Rightarrow> i | None \<Rightarrow> []), qo_client_jid = cp_client_jid result,
        qo_mls_client_id = cp_mls_client_id result, qo_mls_fingerprint = cp_mls_fingerprint result,
        qo_epoch = map_option (bi_from_u64 B) (cp_epoch result), qo_group_id = cp_group_id result,
        qo_proposal = nq_proposal_from_custom (cp_proposal_type result)\<rparr>)
       (process_custom_proposal J custom_proposal))"

definition nq_process_custom_proposal_message ::
    "custom_proposal codec \<Rightarrow> 'b bigint_ops \<Rightarrow> bytes \<Rightarrow> napi_js_error + 'b queued_out option async_task" where
  "nq_process_custom_proposal_message J B custom_proposal =
     Inr (process_custom_proposal_message_task J B custom_proposal)"

definition encrypt_message_task :: "('g, 'o) client_env \<Rightarrow> string \<Rightarrow> bytes \<Rightarrow> bytes async_task" where
  "encrypt_message_task E group_id message =
     in_transaction E napi_failure (with_signer E group_id (\<lambda>signer. encrypt_message (client_mls E) signer message))"

definition nq_encrypt_message ::
    "('g, 'o) client_env \<Rightarrow> string \<Rightarrow> bytes \<Rightarrow> log_callback \<Rightarrow> napi_js_error + bytes async_task" where
  "nq_encrypt_message E group_id message callback =
     rbind (build_log_callback callback) (\<lambda>_. Inr (encrypt_message_task E group_id message))"

definition export_group_info_task :: "('g, 'o) client_env \<Rightarrow> string \<Rightarrow> bytes async_task" where
  "export_group_info_task E group_id =
     sbind (loaded_group E napi_failed group_id) (\<lambda>g.
     sbind (on_client_mls napi_failed
              (\<lambda>d. case group_signer (client_mls E) (g, d) of (r, _, d') \<Rightarrow> (r, d'))) (\<lambda>signer.
     slift (map_err (\<lambda>e. Client_Error (napi_failed e)) (export_group_info (client_mls E) signer g))))"

definition nq_export_group_info :: "('g, 'o) client_env \<Rightarrow> string \<Rightarrow> napi_js_error + bytes async_task" where
  "nq_export_group_info E group_id = Inr (export_group_info_task E group_id)"

section \<open>Joining and leaving\<close>

definition join_by_external_commit_task ::
    "('g, 'o) client_env \<Rightarrow> 'b bigint_ops \<Rightarrow> string \<Rightarrow> string \<Rightarrow> bytes \<Rightarrow> bytes option \<Rightarrow> 'o \<Rightarrow> 'o
      \<Rightarrow> 'b commit_out async_task" where
  "join_by_external_commit_task E B client_id group_id group_info public_key ciphersuite join_config =
     sbind (in_panicking_transaction E napi_failure
              (join_by_external_commit (client_mls E) client_id group_info ciphersuite join_config public_key)) (\<lambda>result.
     sbind (set_pending E group_id Op_JoinByExternalCommit) (\<lambda>_.
     sret (nq_join_from B result)))"

definition nq_join_by_external_commit ::
    "('g, 'o) client_env \<Rightarrow> 'b bigint_ops \<Rightarrow> napi_mls \<Rightarrow> string \<Rightarrow> bytes \<Rightarrow> bytes option \<Rightarrow> log_callback
      \<Rightarrow> napi_js_error + 'b commit_out async_task" where
  "nq_join_by_external_commit E B C group_id group_info public_key callback =
     rbind (nq_ciphersuite_or_throw E C) (\<lambda>ciphersuite.
     let join_config = nq_build_join_config E C None in
     rbind (build_log_callback callback) (\<lambda>_.
     Inr (join_by_external_commit_task E B (nm_client_id C) group_id group_info public_key ciphersuite join_config)))"

text \<open>One element of a batch: an error is an entry of the result, a panic ends the batch.\<close>

definition batch_join_one ::
    "('g, 'o) client_env \<Rightarrow> 'b bigint_ops \<Rightarrow> string \<Rightarrow> bytes option \<Rightarrow> 'o \<Rightarrow> 'o \<Rightarrow> join_args
      \<Rightarrow> 'b wrapped_join async_task" where
  "batch_join_one E B client_id public_key ciphersuite join_config arg w =
     (case in_panicking_transaction E id
             (join_by_external_commit (client_mls E) client_id (ja_group_info arg) ciphersuite join_config public_key) w of
        (Inr result, w1) \<Rightarrow>
          sbind (set_pending E (ja_group_id arg) Op_JoinByExternalCommit) (\<lambda>_.
          sret \<lparr>wj_group_id = ja_group_id arg, wj_result = Some (nq_join_from B result), wj_err = None\<rparr>) w1
      | (Inl (Client_Error err), w1) \<Rightarrow> (Inr \<lparr>wj_group_id = ja_group_id arg, wj_result = None, wj_err = Some err\<rparr>, w1)
      | (Inl Client_Panic, w1) \<Rightarrow> (Inl Client_Panic, w1))"

definition batch_join_by_external_commit_task ::
    "('g, 'o) client_env \<Rightarrow> 'b bigint_ops \<Rightarrow> string \<Rightarrow> join_args list \<Rightarrow> bytes option \<Rightarrow> 'o \<Rightarrow> 'o
      \<Rightarrow> 'b wrapped_join list async_task" where
  "batch_join_by_external_commit_task E B client_id args public_key ciphersuite join_config =
     scollect (batch_join_one E B client_id public_key ciphersuite join_config) args"

definition nq_batch_join_by_external_commit ::
    "('g, 'o) client_env \<Rightarrow> 'b bigint_ops \<Rightarrow> napi_mls \<Rightarrow> join_args list \<Rightarrow> bytes option \<Rightarrow> log_callback
      \<Rightarrow> napi_js_error + 'b wrapped_join list async_task" where
  "nq_batch_join_by_external_commit E B C args public_key callback =
     rbind (nq_ciphersuite_or_throw E C) (\<lambda>ciphersuite.
     let join_config = nq_build_join_config E C None in
     rbind (build_log_callback callback) (\<lambda>_.
     Inr (batch_join_by_external_commit_task E B (nm_client_id C) args public_key ciphersuite join_config)))"

definition leave_group_task :: "('g, 'o) client_env \<Rightarrow> string \<Rightarrow> bytes async_task" where
  "leave_group_task E group_id =
     in_transaction E napi_failure (with_signer E group_id (\<lambda>signer. leave_group (client_mls E) signer))"

definition nq_leave_group ::
    "('g, 'o) client_env \<Rightarrow> string \<Rightarrow> log_callback \<Rightarrow> napi_js_error + bytes async_task" where
  "nq_leave_group E group_id callback =
     rbind (build_log_callback callback) (\<lambda>_. Inr (leave_group_task E group_id))"

definition update_leaf_node_task ::
    "('g, 'o) client_env \<Rightarrow> 'b bigint_ops \<Rightarrow> string \<Rightarrow> 'b commit_out async_task" where
  "update_leaf_node_task E B group_id =
     sbind (in_transaction E napi_failure
              (with_signer E group_id (\<lambda>signer. update_leaf_node (client_mls E) signer))) (\<lambda>result.
     sbind (set_pending E group_id Op_UpdateTree) (\<lambda>_.
     sret (nq_update_leaf_from B result)))"

definition nq_update_leaf_node ::
    "('g, 'o) client_env \<Rightarrow> 'b bigint_ops \<Rightarrow> string \<Rightarrow> napi_js_error + 'b commit_out async_task" where
  "nq_update_leaf_node E B group_id = Inr (update_leaf_node_task E B group_id)"

section \<open>Pending state\<close>

definition merge_pending_commit_task :: "('g, 'o) client_env \<Rightarrow> string \<Rightarrow> unit async_task" where
  "merge_pending_commit_task E group_id =
     sbind (in_transaction E napi_failure (on_loaded_group E group_id [] (merge_pending_commit (client_mls E)))) (\<lambda>_.
     set_pending E group_id Op_None)"

definition nq_merge_pending_commit ::
    "('g, 'o) client_env \<Rightarrow> string \<Rightarrow> log_callback \<Rightarrow> napi_js_error + unit async_task" where
  "nq_merge_pending_commit E group_id callback =
     rbind (build_log_callback callback) (\<lambda>_. Inr (merge_pending_commit_task E group_id))"

definition clear_pending_commit_task :: "('g, 'o) client_env \<Rightarrow> string \<Rightarrow> unit async_task" where
  "clear_pending_commit_task E group_id =
     sbind (in_transaction E napi_failure (on_loaded_group E group_id [] (clear_pending_commit (client_mls E)))) (\<lambda>_.
     set_pending E group_id Op_None)"

definition nq_clear_pending_commit ::
    "('g, 'o) client_env \<Rightarrow> string \<Rightarrow> log_callback \<Rightarrow> napi_js_error + unit async_task" where
  "nq_clear_pending_commit E group_id callback =
     rbind (build_log_callback callback) (\<lambda>_. Inr (clear_pending_commit_task E group_id))"

definition clear_pending_proposals_task :: "('g, 'o) client_env \<Rightarrow> string \<Rightarrow> unit async_task" where
  "clear_pending_proposals_task E group_id =
     sbind (in_transaction E napi_failure (on_loaded_group E group_id [] (clear_pending_proposals (client_mls E)))) (\<lambda>_.
     set_pending E group_id Op_None)"

definition nq_clear_pending_proposals :: "('g, 'o) client_env \<Rightarrow> string \<Rightarrow> napi_js_error + unit async_task" where
  "nq_clear_pending_proposals E group_id = Inr (clear_pending_proposals_task E group_id)"

definition pending_commit_task :: "('g, 'o) client_env \<Rightarrow> string \<Rightarrow> client_proposal list option async_task" where
  "pending_commit_task E group_id =
     sbind (loaded_group E napi_failed group_id) (\<lambda>g.
     sret (map_option (map nq_proposal_from) (pending_commit (client_mls E) g)))"

definition nq_pending_commit ::
    "('g, 'o) client_env \<Rightarrow> string \<Rightarrow> napi_js_error + client_proposal list option async_task" where
  "nq_pending_commit E group_id = Inr (pending_commit_task E group_id)"

definition pending_proposals_task :: "('g, 'o) client_env \<Rightarrow> string \<Rightarrow> client_proposal list async_task" where
  "pending_proposals_task E group_id =
     sbind (loaded_group E napi_failed group_id) (\<lambda>g.
     sret (map nq_proposal_from (pending_proposals (client_mls E) g)))"

definition nq_pending_proposals ::
    "('g, 'o) client_env \<Rightarrow> string \<Rightarrow> napi_js_error + client_proposal list async_task" where
  "nq_pending_proposals E group_id = Inr (pending_proposals_task E group_id)"

section \<open>Epochs\<close>

text \<open>\<open>u64::saturating_sub\<close>\<close>

definition saturating_sub_u64 :: "u64 \<Rightarrow> u64 \<Rightarrow> u64" where
  "saturating_sub_u64 a b = (if a < b then 0 else a - b)"

definition nq_pending_epoch :: "string option \<Rightarrow> u64 \<Rightarrow> u64" where
  "nq_pending_epoch op e = (if op = Some OP_JOIN_BY_EXTERNAL_COMMIT then saturating_sub_u64 e 1 else e)"

definition nq_epoch_entry ::
    "('g, 'o) client_env \<Rightarrow> 'b bigint_ops \<Rightarrow> string \<Rightarrow> string option \<Rightarrow> 'b wrapped_epoch async_task" where
  "nq_epoch_entry E B group_id op w =
     (case group_context (client_mls E) group_id (mls w) of
        (Inr ctx, d) \<Rightarrow>
          (Inr \<lparr>we_group_id = group_id, we_epoch = bi_from_u64 B (nq_pending_epoch op (ce_context_epoch E ctx)),
                we_tree_hash = ce_context_hash E ctx, we_err = None, we_pending_operation = op\<rparr>, w\<lparr>mls := d\<rparr>)
      | (Inl err, d) \<Rightarrow>
          (Inr \<lparr>we_group_id = group_id, we_epoch = bi_from_i64 B (- 1), we_tree_hash = [], we_err = Some (display err),
                we_pending_operation = None\<rparr>, w\<lparr>mls := d\<rparr>))"

definition nq_context_entry ::
    "('g, 'o) client_env \<Rightarrow> 'b bigint_ops \<Rightarrow> string \<Rightarrow> string option \<Rightarrow> 'b wrapped_context async_task" where
  "nq_context_entry E B group_id op w =
     (case group_context (client_mls E) group_id (mls w) of
        (Inr ctx, d) \<Rightarrow>
          (Inr \<lparr>wc_group_id = group_id, wc_current_epoch = bi_from_u64 B (ce_context_epoch E ctx),
                wc_pending_epoch = bi_from_u64 B (nq_pending_epoch op (ce_context_epoch E ctx)),
                wc_tree_hash = ce_context_hash E ctx, wc_err = None, wc_pending_operation = op\<rparr>, w\<lparr>mls := d\<rparr>)
      | (Inl err, d) \<Rightarrow>
          (Inr \<lparr>wc_group_id = group_id, wc_current_epoch = bi_from_i64 B (- 1), wc_pending_epoch = bi_from_i64 B (- 1),
                wc_tree_hash = [], wc_err = Some (display err), wc_pending_operation = None\<rparr>, w\<lparr>mls := d\<rparr>))"

definition group_epoch_task ::
    "('g, 'o) client_env \<Rightarrow> 'b bigint_ops \<Rightarrow> string \<Rightarrow> 'b wrapped_epoch async_task" where
  "group_epoch_task E B group_id = sbind (pending_text E group_id) (nq_epoch_entry E B group_id)"

definition nq_group_epoch ::
    "('g, 'o) client_env \<Rightarrow> 'b bigint_ops \<Rightarrow> string \<Rightarrow> log_callback \<Rightarrow> napi_js_error + 'b wrapped_epoch async_task" where
  "nq_group_epoch E B group_id callback =
     rbind (build_log_callback callback) (\<lambda>_. Inr (group_epoch_task E B group_id))"

definition group_epochs_task ::
    "('g, 'o) client_env \<Rightarrow> 'b bigint_ops \<Rightarrow> string list \<Rightarrow> 'b wrapped_epoch list async_task" where
  "group_epochs_task E B group_ids =
     sbind (pending_texts E group_ids) (\<lambda>ops.
     scollect (\<lambda>group_id. nq_epoch_entry E B group_id (ops group_id)) group_ids)"

definition nq_group_epochs ::
    "('g, 'o) client_env \<Rightarrow> 'b bigint_ops \<Rightarrow> string list \<Rightarrow> log_callback
      \<Rightarrow> napi_js_error + 'b wrapped_epoch list async_task" where
  "nq_group_epochs E B group_ids callback =
     rbind (build_log_callback callback) (\<lambda>_. Inr (group_epochs_task E B group_ids))"

definition group_context_task ::
    "('g, 'o) client_env \<Rightarrow> 'b bigint_ops \<Rightarrow> string \<Rightarrow> 'b wrapped_context async_task" where
  "group_context_task E B group_id = sbind (pending_text E group_id) (nq_context_entry E B group_id)"

definition nq_group_context ::
    "('g, 'o) client_env \<Rightarrow> 'b bigint_ops \<Rightarrow> string \<Rightarrow> log_callback \<Rightarrow> napi_js_error + 'b wrapped_context async_task" where
  "nq_group_context E B group_id callback =
     rbind (build_log_callback callback) (\<lambda>_. Inr (group_context_task E B group_id))"

definition group_contexts_task ::
    "('g, 'o) client_env \<Rightarrow> 'b bigint_ops \<Rightarrow> string list \<Rightarrow> 'b wrapped_context list async_task" where
  "group_contexts_task E B group_ids =
     sbind (pending_texts E group_ids) (\<lambda>ops.
     scollect (\<lambda>group_id. nq_context_entry E B group_id (ops group_id)) group_ids)"

definition nq_group_contexts ::
    "('g, 'o) client_env \<Rightarrow> 'b bigint_ops \<Rightarrow> string list \<Rightarrow> log_callback
      \<Rightarrow> napi_js_error + 'b wrapped_context list async_task" where
  "nq_group_contexts E B group_ids callback =
     rbind (build_log_callback callback) (\<lambda>_. Inr (group_contexts_task E B group_ids))"

section \<open>Deletion, members and the list of groups\<close>

definition delete_group_task :: "('g, 'o) client_env \<Rightarrow> string \<Rightarrow> unit async_task" where
  "delete_group_task E group_id =
     (let P = ce_process E in
      sbind (on_client_mls napi_failed (delete_group (pe_sql P) (pe_code P) (pe_code_debug P) (ce_group_id E) (as_bytes group_id))) (\<lambda>_.
      sbind (on_client_status napi_failed (delete_group_status (pe_sql P) (pe_code P) (pe_code_debug P) group_id)) (\<lambda>_.
      sret ())))"

definition nq_delete_group ::
    "('g, 'o) client_env \<Rightarrow> string \<Rightarrow> log_callback \<Rightarrow> napi_js_error + unit async_task" where
  "nq_delete_group E group_id callback =
     rbind (build_log_callback callback) (\<lambda>_. Inr (delete_group_task E group_id))"

definition members_task :: "('g, 'o) client_env \<Rightarrow> string \<Rightarrow> string list async_task" where
  "members_task E group_id =
     sbind (loaded_group E napi_failed group_id) (\<lambda>g.
     sret (List.map_filter id_from_credential (group_members (client_mls E) g)))"

definition nq_members :: "('g, 'o) client_env \<Rightarrow> string \<Rightarrow> napi_js_error + string list async_task" where
  "nq_members E group_id = Inr (members_task E group_id)"

text \<open>\<open>blobs\<close> is the order in which the engine returns the distinct group ids. The method cannot throw.\<close>

definition all_group_ids_task ::
    "('g, 'o) client_env \<Rightarrow> (bytes list \<Rightarrow> bytes list) \<Rightarrow> string list async_task" where
  "all_group_ids_task E blobs w =
     (case get_all_group_ids (ce_group_id E) blobs (mls w) of (group_ids, d) \<Rightarrow> (Inr group_ids, w\<lparr>mls := d\<rparr>))"

section \<open>All messages\<close>

definition nq_message_from :: "'b bigint_ops \<Rightarrow> 'b message_args \<Rightarrow> napi_js_error + mls_message" where
  "nq_message_from B m =
     rbind (bigint_to_u64 B (ma_epoch m) ''MlsMessage.epoch'') (\<lambda>epoch.
     Inr \<lparr>blob = ma_blob m, msg_epoch = epoch, sender = ma_sender m, msg_type = message_type_from (ma_message_type m)\<rparr>)"

text \<open>\<open>map(f).collect::<Result<Vec<_>>>()\<close>: the first error ends it.\<close>

fun rcollect :: "('x \<Rightarrow> 'e + 'a) \<Rightarrow> 'x list \<Rightarrow> 'e + 'a list" where
  "rcollect f [] = Inr []"
| "rcollect f (x # xs) = rbind (f x) (\<lambda>a. rbind (rcollect f xs) (\<lambda>as. Inr (a # as)))"

definition nq_group_args_from :: "'b bigint_ops \<Rightarrow> ('b, 'b) group_args \<Rightarrow> napi_js_error + all_messages_of_group" where
  "nq_group_args_from B a =
     rbind (rcollect (nq_message_from B) (ga_messages a)) (\<lambda>messages.
     rbind (bigint_to_i64 B (ga_current_epoch a) ''AllMessagesOfGroupArgs.current_epoch'') (\<lambda>current_epoch.
     rbind (bigint_to_i64 B (ga_pending_epoch a) ''AllMessagesOfGroupArgs.pending_epoch'') (\<lambda>pending_epoch.
     Inr \<lparr>gm_group_id = ga_group_id a, gm_messages = messages, gm_current_epoch = current_epoch,
          gm_current_tree_hash = ga_current_tree_hash a, gm_pending_epoch = pending_epoch,
          gm_pending_tree_hash = ga_pending_tree_hash a\<rparr>)))"

definition build_process_all_messages_args ::
    "'b bigint_ops \<Rightarrow> ('b, 'b) group_args list \<Rightarrow> napi_js_error + all_messages_of_group list" where
  "build_process_all_messages_args B args = rcollect (nq_group_args_from B) args"

text \<open>The one task whose \<open>compute\<close> changes it: it takes its arguments out. Its state is beside the world.\<close>

record 'o process_all_messages_task =
  pt_args :: "all_messages_of_group list option"
  pt_join_config :: "'o option"

definition take_args :: "('o process_all_messages_task \<times> world, napi_js_error client_fault, all_messages_of_group list) action" where
  "take_args = (\<lambda>(task, w).
     (ok_or (Client_Error (napi_failure ''process_all_messages task was already consumed'')) (pt_args task),
      task\<lparr>pt_args := None\<rparr>, w))"

definition take_join_config :: "('o process_all_messages_task \<times> world, napi_js_error client_fault, 'o) action" where
  "take_join_config = (\<lambda>(task, w).
     (ok_or (Client_Error (napi_failure ''process_all_messages task join config was already consumed'')) (pt_join_config task),
      task\<lparr>pt_join_config := None\<rparr>, w))"

definition process_all_messages_compute ::
    "('g, 'o) client_env
      \<Rightarrow> ('o process_all_messages_task \<times> world, napi_js_error client_fault, process_all_messages_result) action" where
  "process_all_messages_compute E =
     sbind take_args (\<lambda>args.
     sbind take_join_config (\<lambda>join_config (task, w).
     (case process_all_messages ((ce_process E)\<lparr>pe_config := join_config\<rparr>) args w of
        (r, w') \<Rightarrow>
          (map_err (\<lambda>fault. case fault of Fault_Error e \<Rightarrow> Client_Error (napi_failed e) | Fault_Overflow \<Rightarrow> Client_Panic) r,
           task, w'))))"

text \<open>The records of the result have the fields of the crate's and are not repeated.\<close>

definition nq_process_all_messages ::
    "('g, 'o) client_env \<Rightarrow> 'b bigint_ops \<Rightarrow> napi_mls \<Rightarrow> ('b, 'b) group_args list \<Rightarrow> log_callback
      \<Rightarrow> napi_js_error + 'o process_all_messages_task" where
  "nq_process_all_messages E B C args callback =
     rbind (build_log_callback callback) (\<lambda>_.
     rbind (build_process_all_messages_args B args) (\<lambda>group_messages.
     Inr \<lparr>pt_args = Some group_messages,
       pt_join_config = Some (ce_join_config E
         \<lparr>js_policy = nq_wire_format_policy (nm_wire_format_policy C),
          js_ratchet_tree = nm_use_ratchet_tree_extension C, js_past_epochs = unat (nm_max_past_epochs C),
          js_tolerance = nm_out_of_order_tolerance C, js_distance = nm_maximum_forward_distance C\<rparr>)\<rparr>))"

end
