(* ===== verification/Napi_Client_Correct.thy ===== *)
theory Napi_Client_Correct
  imports Napi_Client Uniffi_Queries
begin

text \<open>
  The Node.js client against the Kotlin and Swift client: where the methods have the same meaning, they
  change the world in the same way, return the same values up to the representation of epochs, and fail
  together. The bookkeeping the Kotlin and Swift client was proved to do is therefore that of the Node.js
  client. The queries of epochs and contexts differ for a join pending at epoch zero, and never fail. The
  numbers a JavaScript caller passes are checked before anything runs, and a task that
  processes all messages runs once.
\<close>

section \<open>Agreement of the two clients\<close>

text \<open>Both report an error of a transaction with the text of the error alone; an error of the MLS crate
  becomes the variant in the one and its text in the other.\<close>

inductive fault_agrees :: "uq_error client_fault \<Rightarrow> napi_js_error client_fault \<Rightarrow> bool" where
  agrees_panic: "fault_agrees Client_Panic Client_Panic"
| agrees_transaction: "fault_agrees (Client_Error (Uq_Sqlite t)) (Client_Error (napi_failure t))"
| agrees_mls: "fault_agrees (Client_Error (uq_from_mls e)) (Client_Error (napi_failure (display e)))"
| agrees_existed: "fault_agrees (Client_Error Uq_GroupIsAlreadyExisted) (Client_Error (napi_error_from Napi_GroupIsAlreadyExisted))"
| agrees_readd: "fault_agrees (Client_Error (Uq_ReAdd t)) (Client_Error (napi_error_from (Napi_ReAdd t)))"

definition simulates ::
    "('e \<Rightarrow> 'e' \<Rightarrow> bool) \<Rightarrow> ('a \<Rightarrow> 'c) \<Rightarrow> ('s, 'e, 'a) action \<Rightarrow> ('s, 'e', 'c) action \<Rightarrow> bool" where
  "simulates R f U T \<longleftrightarrow> (\<forall>w.
     case U w of
       (Inr a, w1) \<Rightarrow> T w = (Inr (f a), w1)
     | (Inl e, w1) \<Rightarrow> (\<exists>e'. T w = (Inl e', w1) \<and> R e e'))"

text \<open>A method that returns a task, which simulates the call.\<close>

definition agree ::
    "('a \<Rightarrow> 'c) \<Rightarrow> (world, uq_error client_fault, 'a) action \<Rightarrow> napi_js_error + 'c async_task \<Rightarrow> bool" where
  "agree f U N \<longleftrightarrow> (\<exists>T. N = Inr T \<and> simulates fault_agrees f U T)"

definition node_client :: "uq_mls \<Rightarrow> napi_mls" where
  "node_client C =
     \<lparr>nm_client_id = um_client_id C, nm_ciphersuite = um_ciphersuite C, nm_wire_format_policy = um_wire_format_policy C,
      nm_use_ratchet_tree_extension = um_use_ratchet_tree_extension C, nm_max_past_epochs = um_max_past_epochs C,
      nm_out_of_order_tolerance = um_out_of_order_tolerance C, nm_maximum_forward_distance = um_maximum_forward_distance C\<rparr>"

text \<open>The same values with another representation of the epochs.\<close>

definition node_add :: "('n \<Rightarrow> 'b) \<Rightarrow> 'n add_members_out \<Rightarrow> 'b add_members_out" where
  "node_add c r = \<lparr>ao_commit = ao_commit r, ao_welcome = ao_welcome r, ao_group_info = ao_group_info r,
     ao_current_epoch = c (ao_current_epoch r), ao_pre_tree_hash = ao_pre_tree_hash r\<rparr>"

definition node_commit :: "('n \<Rightarrow> 'b) \<Rightarrow> 'n commit_out \<Rightarrow> 'b commit_out" where
  "node_commit c r = \<lparr>co_commit = co_commit r, co_group_info = co_group_info r,
     co_current_epoch = c (co_current_epoch r), co_pre_tree_hash = co_pre_tree_hash r\<rparr>"

definition node_readd :: "('n \<Rightarrow> 'b) \<Rightarrow> 'n readd_out \<Rightarrow> 'b readd_out" where
  "node_readd c r = \<lparr>ro_commit = ro_commit r, ro_welcome = ro_welcome r, ro_group_info = ro_group_info r,
     ro_current_epoch = c (ro_current_epoch r), ro_pre_tree_hash = ro_pre_tree_hash r\<rparr>"

definition node_queued :: "('n \<Rightarrow> 'b) \<Rightarrow> 'n queued_out \<Rightarrow> 'b queued_out" where
  "node_queued c r = \<lparr>qo_sender = qo_sender r, qo_client_jid = qo_client_jid r, qo_mls_client_id = qo_mls_client_id r,
     qo_mls_fingerprint = qo_mls_fingerprint r, qo_epoch = map_option c (qo_epoch r), qo_group_id = qo_group_id r,
     qo_proposal = qo_proposal r\<rparr>"

definition node_join :: "('n \<Rightarrow> 'b) \<Rightarrow> 'n wrapped_join \<Rightarrow> 'b wrapped_join" where
  "node_join c r = \<lparr>wj_group_id = wj_group_id r, wj_result = map_option (node_commit c) (wj_result r), wj_err = wj_err r\<rparr>"

text \<open>An epoch of an entry: what the Kotlin client gives as \<open>-1\<close> for a join pending at epoch zero is zero here.\<close>

definition node_number :: "'b bigint_ops \<Rightarrow> string option \<Rightarrow> int \<Rightarrow> 'b" where
  "node_number B err n = (if err = None then bi_from_u64 B (word_of_int (max 0 n)) else bi_from_i64 B (- 1))"

definition node_epoch :: "'b bigint_ops \<Rightarrow> int wrapped_epoch \<Rightarrow> 'b wrapped_epoch" where
  "node_epoch B r = \<lparr>we_group_id = we_group_id r, we_epoch = node_number B (we_err r) (we_epoch r),
     we_tree_hash = we_tree_hash r, we_err = we_err r, we_pending_operation = we_pending_operation r\<rparr>"

definition node_context :: "'b bigint_ops \<Rightarrow> int wrapped_context \<Rightarrow> 'b wrapped_context" where
  "node_context B r = \<lparr>wc_group_id = wc_group_id r, wc_current_epoch = node_number B (wc_err r) (wc_current_epoch r),
     wc_pending_epoch = node_number B (wc_err r) (wc_pending_epoch r), wc_tree_hash = wc_tree_hash r,
     wc_err = wc_err r, wc_pending_operation = wc_pending_operation r\<rparr>"

section \<open>Rules of simulation\<close>

lemma simulates_bind:
  assumes "simulates R g U T" and "\<And>a. simulates R f (k a) (l (g a))"
  shows "simulates R f (sbind U k) (sbind T l)"
  unfolding simulates_def
proof
  fix w
  obtain r w1 where u: "U w = (r, w1)" by fastforce
  show "case sbind U k w of
      (Inr a, w1) \<Rightarrow> sbind T l w = (Inr (f a), w1)
    | (Inl e, w1) \<Rightarrow> (\<exists>e'. sbind T l w = (Inl e', w1) \<and> R e e')"
  proof (cases r)
    case (Inl e)
    with assms(1) u obtain e' where "T w = (Inl e', w1)" "R e e'"
      by (fastforce simp: simulates_def dest!: spec [where x = w])
    with u Inl show ?thesis by (simp add: sbind_def)
  next
    case (Inr a)
    with assms(1) u have "T w = (Inr (g a), w1)"
      by (fastforce simp: simulates_def dest!: spec [where x = w])
    with u Inr assms(2) [of a, unfolded simulates_def, rule_format, of w1] show ?thesis
      by (auto simp: sbind_def split: prod.splits sum.splits)
  qed
qed

lemma simulates_bind_same:
  assumes "simulates R id U T" and "\<And>a. simulates R f (k a) (l a)"
  shows "simulates R f (sbind U k) (sbind T l)"
  using simulates_bind [OF assms(1), of f k l] assms(2) by simp

lemma simulates_sret: "b = f a \<Longrightarrow> simulates R f (sret a) (sret b)"
  by (simp add: simulates_def)

lemma simulates_convert: "simulates R id U T \<Longrightarrow> simulates R f U (sbind T (\<lambda>a. sret (f a)))"
  by (fastforce simp: simulates_def sbind_def split: prod.splits sum.splits)

lemma simulates_slift_mls:
  "simulates fault_agrees id (slift (map_err (\<lambda>e. Client_Error (uq_from_mls e)) r))
     (slift (map_err (\<lambda>e. Client_Error (napi_failed e)) r))"
  by (cases r) (auto simp: simulates_def slift_def napi_failed_def intro: fault_agrees.intros)

lemma simulates_transaction: "simulates fault_agrees id (in_transaction E Uq_Sqlite F) (in_transaction E napi_failure F)"
  by (auto simp: simulates_def in_transaction_def map_err_def intro: fault_agrees.intros split: prod.splits sum.splits)

lemma simulates_panicking:
  "simulates fault_agrees id (in_panicking_transaction E Uq_Sqlite F) (in_panicking_transaction E napi_failure F)"
  by (auto simp: simulates_def in_panicking_transaction_def map_err_def intro: fault_agrees.intros
      split: prod.splits sum.splits option.splits)

lemma simulates_mls: "simulates fault_agrees id (on_client_mls uq_from_mls F) (on_client_mls napi_failed F)"
  by (auto simp: simulates_def on_client_mls_def map_err_def napi_failed_def intro: fault_agrees.intros
      split: prod.splits sum.splits)

lemma simulates_status: "simulates fault_agrees id (on_client_status uq_from_mls F) (on_client_status napi_failed F)"
  by (auto simp: simulates_def on_client_status_def map_err_def napi_failed_def intro: fault_agrees.intros
      split: prod.splits sum.splits)

lemma simulates_loaded: "simulates fault_agrees id (loaded_group E uq_from_mls g) (loaded_group E napi_failed g)"
  unfolding loaded_group_def by (rule simulates_mls)

lemma simulates_set: "simulates R id (set_pending E g op) (set_pending E g op)"
  by (simp add: simulates_def set_pending_def)

lemma simulates_text: "simulates R id (pending_text E g) (pending_text E g)"
  by (auto simp: simulates_def pending_text_def split: prod.splits sum.splits)

lemma simulates_texts: "simulates R id (pending_texts E gs) (pending_texts E gs)"
  by (auto simp: simulates_def pending_texts_def split: prod.splits sum.splits)

lemma simulates_fail: "R e e' \<Longrightarrow> simulates R f (sfail e) (sfail e')"
  by (simp add: simulates_def sfail_def)

lemma simulates_if:
  "(b \<Longrightarrow> simulates R f U T) \<Longrightarrow> (\<not> b \<Longrightarrow> simulates R f U' T') \<Longrightarrow>
    simulates R f (if b then U else U') (if b then T else T')"
  by simp

lemma simulates_collect:
  assumes "\<And>x. simulates R f (u x) (t x)"
  shows "simulates R (map f) (scollect u xs) (scollect t xs)"
proof (induction xs)
  case Nil
  then show ?case by (simp add: simulates_def)
next
  case (Cons x xs)
  show ?case
    unfolding scollect.simps
    by (rule simulates_bind [OF assms], rule simulates_bind [OF Cons.IH], rule simulates_sret) simp
qed

lemmas simulates_intros =
  simulates_transaction simulates_panicking simulates_mls simulates_status simulates_loaded simulates_set
  simulates_text simulates_texts simulates_slift_mls simulates_sret simulates_bind_same simulates_if

lemma agree_task: "simulates fault_agrees f U T \<Longrightarrow> agree f U (Inr T)"
  by (auto simp: agree_def)

lemma agree_logged:
  "build_log_callback cb = Inr l \<Longrightarrow> agree f U (Inr T) \<Longrightarrow> agree f U (rbind (build_log_callback cb) (\<lambda>_. Inr T))"
  by simp

section \<open>The operations\<close>

lemmas node_conversions =
  uq_add_members_from_def nq_add_members_from_def uq_remove_members_from_def nq_remove_members_from_def
  uq_join_from_def nq_join_from_def uq_update_leaf_from_def nq_update_leaf_from_def uq_readd_from_def
  nq_readd_from_def uq_queued_from_def nq_queued_from_def node_add_def node_commit_def node_readd_def node_queued_def
  node_join_def

lemma node_policy [simp]: "nq_wire_format_policy p = uq_wire_format_policy p"
  by (cases p) simp_all

lemma node_client_fields [simp]:
  "nm_client_id (node_client C) = um_client_id C" "nm_ciphersuite (node_client C) = um_ciphersuite C"
  "nm_wire_format_policy (node_client C) = um_wire_format_policy C"
  "nm_use_ratchet_tree_extension (node_client C) = um_use_ratchet_tree_extension C"
  "nm_max_past_epochs (node_client C) = um_max_past_epochs C"
  "nm_out_of_order_tolerance (node_client C) = um_out_of_order_tolerance C"
  "nm_maximum_forward_distance (node_client C) = um_maximum_forward_distance C"
  by (simp_all add: node_client_def)

lemma node_join_config [simp]: "nq_build_join_config E (node_client C) u = uq_build_join_config E C u"
  by (simp add: nq_build_join_config_def uq_build_join_config_def cong: option.case_cong)

lemma node_proposal [simp]: "nq_proposal_from = uq_proposal_from"
proof
  show "nq_proposal_from p = uq_proposal_from p" for p by (cases p) simp_all
qed

lemma node_proposal_custom [simp]: "nq_proposal_from_custom = uq_proposal_from_custom"
proof
  show "nq_proposal_from_custom p = uq_proposal_from_custom p" for p by (cases p) simp_all
qed

lemma node_ciphersuite:
  assumes "ce_ciphersuite E (um_ciphersuite C) = Inr cs"
  shows "nq_ciphersuite_or_throw E (node_client C) = Inr cs"
    and "(slift (map_err Client_Error (uq_ciphersuite E C)) :: (world, uq_error client_fault, 'o) action) = sret cs"
  using assms by (simp_all add: nq_ciphersuite_or_throw_def nq_ciphersuite_def uq_ciphersuite_def
      slift_def sret_def fun_eq_iff)

lemma simulates_create:
  assumes "ce_ciphersuite E (um_ciphersuite C) = Inr cs"
  shows "simulates fault_agrees id (uq_create_group E C g k)
    (create_group_task E (um_client_id C) g k cs (nq_build_create_config E (node_client C) cs))"
proof -
  let ?config = "nq_build_create_config E (node_client C) cs"
  let ?create = "create_group (client_mls E) (um_client_id C) g cs ?config k"
  let ?uq = "sbind (in_transaction E Uq_Sqlite ?create) (\<lambda>_. set_pending E g Op_CreateGroup)"
  let ?task = "sbind (in_transaction E napi_failure ?create) (\<lambda>_. set_pending E g Op_CreateGroup)"
  have rest: "simulates fault_agrees id ?uq ?task" by (intro simulates_intros)
  have "case uq_create_group E C g k w of
      (Inr a, w1) \<Rightarrow> create_group_task E (um_client_id C) g k cs ?config w = (Inr (id a), w1)
    | (Inl e, w1) \<Rightarrow> (\<exists>e'. create_group_task E (um_client_id C) g k cs ?config w = (Inl e', w1) \<and> fault_agrees e e')" for w
  proof -
    obtain r w1 where l: "loaded_group E uq_from_mls g w = (r, w1)" by fastforce
    from simulates_loaded [of E g, unfolded simulates_def, rule_format, of w] l
    obtain r' where l': "loaded_group E napi_failed g w = (r', w1)" "isl r' = isl r" by (cases r) auto
    show ?thesis
    proof (cases r)
      case (Inl e)
      then obtain e' where "r' = Inl e'" using l'(2) by (cases r') auto
      with l l'(1) Inl have runs: "uq_create_group E C g k w = ?uq w1"
         "create_group_task E (um_client_id C) g k cs ?config w = ?task w1"
        by (simp_all add: uq_create_group_def create_group_task_def node_ciphersuite(2) [OF assms] sbind_sret
            nq_build_create_config_def Let_def)
      show ?thesis unfolding runs using rest [unfolded simulates_def, rule_format, of w1] .
    next
      case (Inr a)
      then obtain b where "r' = Inr b" using l'(2) by (cases r') auto
      with l l'(1) Inr show ?thesis
        by (auto simp: uq_create_group_def create_group_task_def intro: fault_agrees.intros)
    qed
  qed
  then show ?thesis by (simp add: simulates_def)
qed

lemma simulates_readd:
  "simulates fault_agrees (node_readd (bi_from_u64 B)) (uq_readd E C g ids ks) (readd_task E B g ids ks)"
  unfolding uq_readd_def readd_task_def
  by (intro simulates_intros simulates_fail fault_agrees.intros) (simp add: node_conversions)

lemma simulates_join_one:
  "simulates fault_agrees (node_join (bi_from_u64 B)) (uq_batch_join_one E C cs k a)
     (batch_join_one E B (um_client_id C) k cs (uq_build_join_config E C None) a)"
  unfolding simulates_def uq_batch_join_one_def batch_join_one_def
  by (auto simp: in_panicking_transaction_def node_conversions sbind_def set_pending_def intro: fault_agrees.intros
      split: prod.splits sum.splits client_fault.splits option.splits)

lemma simulates_packages:
  assumes "ce_ciphersuite E (um_ciphersuite C) = Inr cs"
  shows "simulates fault_agrees id (uq_key_package_loop E C lr k n acc) (generate_key_packages_task E (um_client_id C) cs lr k n acc)"
proof (induction n arbitrary: acc)
  case 0
  then show ?case by (simp add: simulates_def)
next
  case (Suc n)
  show ?case
    unfolding uq_key_package_loop.simps generate_key_packages_task.simps node_ciphersuite(2) [OF assms] sbind_sret
    by (intro simulates_bind_same simulates_mls Suc.IH)
qed

lemma simulates_batch:
  assumes "ce_ciphersuite E (um_ciphersuite C) = Inr cs"
  shows "simulates fault_agrees (map (node_join (bi_from_u64 B))) (uq_batch_join_by_external_commit E C args k)
    (batch_join_by_external_commit_task E B (um_client_id C) args k cs (uq_build_join_config E C None))"
  unfolding uq_batch_join_by_external_commit_def batch_join_by_external_commit_task_def
    node_ciphersuite(2) [OF assms] sbind_sret
  by (intro simulates_collect simulates_join_one)

lemma epoch_word: "uint e < 2 ^ 63 \<Longrightarrow> sint e = uint e" for e :: u64
  by (simp add: sint_uint signed_take_bit_eq_take_bit_minus bit_iff_odd take_bit_int_eq_self)

lemma simulates_epoch:
  assumes "\<And>d ctx d'. group_context (client_mls E) g d = (Inr ctx, d') \<Longrightarrow> uint (ce_context_epoch E ctx) < 2 ^ 63"
  shows "simulates fault_agrees (node_epoch B) (uq_epoch_entry E g op) (nq_epoch_entry E B g op)"
    and "simulates fault_agrees (node_context B) (uq_context_entry E g op) (nq_context_entry E B g op)"
proof -
  have pred: "word_of_int (max 0 (uint e - 1)) = nq_pending_epoch (Some OP_JOIN_BY_EXTERNAL_COMMIT) e" for e :: u64
  proof (cases "e = 0")
    case False
    then have "0 < uint e" by (simp add: uint_0_iff less_le)
    then have "\<not> e < 1" "max 0 (uint e - 1) = uint e - 1" by (simp_all add: word_less_def)
    then show ?thesis by (simp add: nq_pending_epoch_def saturating_sub_u64_def wi_hom_sub [symmetric])
  qed (simp add: nq_pending_epoch_def saturating_sub_u64_def)
  have range: "uint e \<noteq> - 9223372036854775808" for e :: u64 using uint_ge_0 [of e] by linarith
  have plain: "op \<noteq> Some OP_JOIN_BY_EXTERNAL_COMMIT \<Longrightarrow> nq_pending_epoch op e = e" for e :: u64
    by (simp add: nq_pending_epoch_def)
  note defs = simulates_def uq_epoch_entry_def nq_epoch_entry_def uq_context_entry_def nq_context_entry_def
    node_epoch_def node_context_def node_number_def uq_pending_epoch_def epoch_i64_def
  show "simulates fault_agrees (node_epoch B) (uq_epoch_entry E g op) (nq_epoch_entry E B g op)"
    unfolding defs by (auto simp: epoch_word [OF assms] pred range plain split: prod.splits sum.splits)
  show "simulates fault_agrees (node_context B) (uq_context_entry E g op) (nq_context_entry E B g op)"
    unfolding defs by (auto simp: epoch_word [OF assms] pred range plain split: prod.splits sum.splits)
qed

section \<open>Numbers from JavaScript\<close>

text \<open>What \<open>napi\<close> documents of a \<open>BigInt\<close> of value \<open>val b\<close>: the conversions from machine integers keep the
  value, and those to machine integers return the value and are lossless exactly when it is in range.\<close>

definition bigint_ok :: "'b bigint_ops \<Rightarrow> ('b \<Rightarrow> int) \<Rightarrow> bool" where
  "bigint_ok B val \<longleftrightarrow>
     (\<forall>n. val (bi_from_u64 B n) = uint n) \<and>
     (\<forall>n. - (2 ^ 63) \<le> n \<and> n < 2 ^ 63 \<longrightarrow> val (bi_from_i64 B n) = n) \<and>
     (\<forall>b. case bi_get_u64 B b of (is_negative, n, lossless) \<Rightarrow>
        (\<not> is_negative \<and> lossless) = (0 \<le> val b \<and> val b < 2 ^ 64) \<and> (\<not> is_negative \<and> lossless \<longrightarrow> uint n = val b)) \<and>
     (\<forall>b. case bi_get_i64 B b of (n, lossless) \<Rightarrow>
        lossless = (- (2 ^ 63) \<le> val b \<and> val b < 2 ^ 63) \<and> (lossless \<longrightarrow> n = val b))"

text \<open>The numbers of a group are in range, and the same arguments as the Kotlin client takes them.\<close>

definition message_in_range :: "('b \<Rightarrow> int) \<Rightarrow> 'b message_args \<Rightarrow> bool" where
  "message_in_range val m \<longleftrightarrow> 0 \<le> val (ma_epoch m) \<and> val (ma_epoch m) < 2 ^ 64"

definition args_in_range :: "('b \<Rightarrow> int) \<Rightarrow> ('b, 'b) group_args \<Rightarrow> bool" where
  "args_in_range val a \<longleftrightarrow>
     (\<forall>m \<in> set (ga_messages a). message_in_range val m) \<and>
     - (2 ^ 63) \<le> val (ga_current_epoch a) \<and> val (ga_current_epoch a) < 2 ^ 63 \<and>
     - (2 ^ 63) \<le> val (ga_pending_epoch a) \<and> val (ga_pending_epoch a) < 2 ^ 63"

definition read_message :: "('b \<Rightarrow> int) \<Rightarrow> 'b message_args \<Rightarrow> u64 message_args" where
  "read_message val m = \<lparr>ma_blob = ma_blob m, ma_epoch = word_of_int (val (ma_epoch m)), ma_sender = ma_sender m,
     ma_message_type = ma_message_type m\<rparr>"

definition read_args :: "('b \<Rightarrow> int) \<Rightarrow> ('b, 'b) group_args \<Rightarrow> (u64, int) group_args" where
  "read_args val a = \<lparr>ga_group_id = ga_group_id a, ga_messages = map (read_message val) (ga_messages a),
     ga_current_epoch = val (ga_current_epoch a), ga_current_tree_hash = ga_current_tree_hash a,
     ga_pending_epoch = val (ga_pending_epoch a), ga_pending_tree_hash = ga_pending_tree_hash a\<rparr>"

text \<open>A conversion that succeeds exactly on \<open>P\<close>, with the value \<open>g\<close>, and otherwise blames the argument.\<close>

definition checks :: "('x \<Rightarrow> bool) \<Rightarrow> ('x \<Rightarrow> 'a) \<Rightarrow> ('x \<Rightarrow> napi_js_error + 'a) \<Rightarrow> bool" where
  "checks P g f \<longleftrightarrow> (\<forall>x. case f x of Inr y \<Rightarrow> P x \<and> y = g x | Inl e \<Rightarrow> \<not> P x \<and> js_status e = Status_InvalidArg)"

lemma checks_InrD: "checks P g f \<Longrightarrow> f x = Inr y \<Longrightarrow> P x \<and> y = g x"
  by (auto simp: checks_def dest!: spec [where x = x])

lemma checks_InlD: "checks P g f \<Longrightarrow> f x = Inl e \<Longrightarrow> \<not> P x \<and> js_status e = Status_InvalidArg"
  by (auto simp: checks_def dest!: spec [where x = x])

lemma checks_collect:
  assumes "checks P g f"
  shows "checks (\<lambda>xs. \<forall>x \<in> set xs. P x) (map g) (rcollect f)"
  unfolding checks_def
proof
  show "case rcollect f xs of Inr ys \<Rightarrow> (\<forall>x \<in> set xs. P x) \<and> ys = map g xs
    | Inl e \<Rightarrow> \<not> (\<forall>x \<in> set xs. P x) \<and> js_status e = Status_InvalidArg" for xs
  proof (induction xs)
    case (Cons x xs)
    then show ?case
      by (cases "f x"; cases "rcollect f xs") (auto dest: checks_InrD [OF assms] checks_InlD [OF assms])
  qed simp
qed

lemma checks_bigint:
  assumes "bigint_ok B val"
  shows "checks (\<lambda>b. 0 \<le> val b \<and> val b < 2 ^ 64) (\<lambda>b. word_of_int (val b)) (\<lambda>b. bigint_to_u64 B b field)"
    and "checks (\<lambda>b. - (2 ^ 63) \<le> val b \<and> val b < 2 ^ 63) val (\<lambda>b. bigint_to_i64 B b field)"
  unfolding checks_def
proof (rule_tac [!] allI)
  fix b
  obtain s n l where u: "bi_get_u64 B b = (s, n, l)" by (cases "bi_get_u64 B b")
  with assms have "(\<not> s \<and> l) = (0 \<le> val b \<and> val b < 2 ^ 64)" "\<not> s \<and> l \<longrightarrow> uint n = val b"
    by (auto simp: bigint_ok_def dest!: spec [where x = b])
  then show "case bigint_to_u64 B b field of Inr y \<Rightarrow> (0 \<le> val b \<and> val b < 2 ^ 64) \<and> y = word_of_int (val b)
      | Inl e \<Rightarrow> \<not> (0 \<le> val b \<and> val b < 2 ^ 64) \<and> js_status e = Status_InvalidArg"
    using u word_of_int_uint [of n] by (cases s; cases l) (simp_all add: bigint_to_u64_def napi_invalid_arg_def)
  obtain i j where i: "bi_get_i64 B b = (i, j)" by (cases "bi_get_i64 B b")
  with assms have "j = (- (2 ^ 63) \<le> val b \<and> val b < 2 ^ 63)" "j \<longrightarrow> i = val b"
    by (auto simp: bigint_ok_def dest!: spec [where x = b])
  then show "case bigint_to_i64 B b field of Inr y \<Rightarrow> (- (2 ^ 63) \<le> val b \<and> val b < 2 ^ 63) \<and> y = val b
      | Inl e \<Rightarrow> \<not> (- (2 ^ 63) \<le> val b \<and> val b < 2 ^ 63) \<and> js_status e = Status_InvalidArg"
    using i by (cases j) (simp_all add: bigint_to_i64_def napi_invalid_arg_def)
qed

lemma checks_message:
  assumes "bigint_ok B val"
  shows "checks (message_in_range val) (uq_message_from \<circ> read_message val) (nq_message_from B)"
  unfolding checks_def
proof
  note u = checks_bigint(1) [OF assms]
  show "case nq_message_from B m of Inr y \<Rightarrow> message_in_range val m \<and> y = (uq_message_from \<circ> read_message val) m
    | Inl e \<Rightarrow> \<not> message_in_range val m \<and> js_status e = Status_InvalidArg" for m
    by (cases "bigint_to_u64 B (ma_epoch m) ''MlsMessage.epoch''")
      (auto simp: nq_message_from_def message_in_range_def uq_message_from_def read_message_def
        dest: checks_InrD [OF u] checks_InlD [OF u])
qed

lemma checks_group:
  fixes B :: "'b bigint_ops"
  assumes "bigint_ok B val"
  shows "checks (args_in_range val) (uq_group_args_from \<circ> read_args val) (nq_group_args_from B)"
  unfolding checks_def
proof
  fix a :: "('b, 'b) group_args"
  note m = checks_collect [OF checks_message [OF assms]] and i = checks_bigint(2) [OF assms]
  let ?ms = "rcollect (nq_message_from B) (ga_messages a)"
  let ?c = "bigint_to_i64 B (ga_current_epoch a) ''AllMessagesOfGroupArgs.current_epoch''"
  let ?p = "bigint_to_i64 B (ga_pending_epoch a) ''AllMessagesOfGroupArgs.pending_epoch''"
  show "case nq_group_args_from B a of Inr y \<Rightarrow> args_in_range val a \<and> y = (uq_group_args_from \<circ> read_args val) a
    | Inl e \<Rightarrow> \<not> args_in_range val a \<and> js_status e = Status_InvalidArg"
  proof (cases "isl ?ms \<or> isl ?c \<or> isl ?p")
    case True
    then show ?thesis
      by (cases ?ms; cases ?c; cases ?p) (auto simp: nq_group_args_from_def args_in_range_def
          dest: checks_InlD [OF m] checks_InlD [OF i])
  next
    case False
    then obtain ms c q where e: "?ms = Inr ms" "?c = Inr c" "?p = Inr q" by (auto simp: isl_def) (metis sum.exhaust)+
    show ?thesis
      using checks_InrD [OF m, OF e(1)] checks_InrD [OF i, OF e(2)] checks_InrD [OF i, OF e(3)]
      by (simp add: nq_group_args_from_def e args_in_range_def uq_group_args_from_def read_args_def)
  qed
qed

section \<open>Properties\<close>

lemmas client_pairs =
  uq_generate_signature_key_def nq_generate_signature_key_def generate_signature_key_task_def
  uq_generate_key_packages_def nq_generate_key_packages_def nq_create_group_def
  uq_update_group_config_def nq_update_group_config_def update_group_config_task_def
  uq_add_members_def nq_add_members_def add_members_task_def uq_remove_members_def nq_remove_members_def
  remove_members_task_def nq_readd_def uq_process_welcome_def nq_process_welcome_def process_welcome_task_def
  uq_process_operation_message_def nq_process_operation_message_def process_operation_message_task_def
  uq_process_many_operation_messages_def nq_process_many_operation_messages_def
  process_many_operation_messages_task_def uq_process_application_message_def nq_process_application_message_def
  process_application_message_task_def uq_process_proposal_message_def nq_process_proposal_message_def
  process_proposal_message_task_def uq_encrypt_message_def nq_encrypt_message_def encrypt_message_task_def
  uq_export_group_info_def nq_export_group_info_def export_group_info_task_def
  uq_join_by_external_commit_def nq_join_by_external_commit_def join_by_external_commit_task_def
  nq_batch_join_by_external_commit_def uq_leave_group_def nq_leave_group_def leave_group_task_def
  uq_update_leaf_node_def nq_update_leaf_node_def update_leaf_node_task_def
  uq_merge_pending_commit_def nq_merge_pending_commit_def merge_pending_commit_task_def
  uq_clear_pending_commit_def nq_clear_pending_commit_def clear_pending_commit_task_def
  uq_clear_pending_proposals_def nq_clear_pending_proposals_def clear_pending_proposals_task_def
  uq_pending_commit_def nq_pending_commit_def pending_commit_task_def uq_pending_proposals_def
  nq_pending_proposals_def pending_proposals_task_def uq_delete_group_def nq_delete_group_def delete_group_task_def
  uq_members_def nq_members_def members_task_def

text \<open>C22: The Node.js client refines the Kotlin and Swift client. With the same environment and corresponding
  client objects, each of the methods listed below throws nothing and returns a task that, run on any
  world, leaves the world the other client's call leaves, returns its value with the epochs as big
  integers, fails exactly when it fails, with a corresponding error, and panics exactly when it panics.
  They are all the methods the two clients share but five: the four queries of epochs and contexts,
  which differ for a join by external commit pending at epoch zero (see \<open>node_queries_refine\<close>), and
  \<open>process_all_messages\<close>, whose arguments may be refused and whose task runs once (see
  \<open>all_messages_args_exact\<close> and \<open>all_messages_task_once\<close>).\<close>

theorem node_client_refines:
  fixes B :: "'b bigint_ops"
  assumes "ce_ciphersuite E (um_ciphersuite C) = Inr cs" and "build_log_callback cb = Inr l"
  shows "agree id (uq_generate_signature_key E C) (nq_generate_signature_key E (node_client C)) \<and>
    agree id (uq_generate_key_packages E C n lr k) (nq_generate_key_packages E (node_client C) n lr k) \<and>
    agree id (uq_create_group E C g k) (nq_create_group E (node_client C) g k cb) \<and>
    agree id (uq_update_group_config E C g u) (nq_update_group_config E (node_client C) g u) \<and>
    agree (node_add (bi_from_u64 B)) (uq_add_members E C g ks) (nq_add_members E B g ks cb) \<and>
    agree (node_commit (bi_from_u64 B)) (uq_remove_members E C g ids) (nq_remove_members E B g ids cb) \<and>
    agree (node_readd (bi_from_u64 B)) (uq_readd E C g ids ks) (nq_readd E B g ids ks) \<and>
    agree id (uq_process_welcome E C m) (nq_process_welcome E (node_client C) m cb) \<and>
    agree id (uq_process_operation_message E g m) (nq_process_operation_message E g m cb) \<and>
    agree (bi_from_u64 B) (uq_process_many_operation_messages E g ms) (nq_process_many_operation_messages E B g ms cb) \<and>
    agree id (uq_process_application_message E g m) (nq_process_application_message E g m cb) \<and>
    agree (node_queued (bi_from_u64 B)) (uq_process_proposal_message E g m) (nq_process_proposal_message E B g m cb) \<and>
    agree id (uq_encrypt_message E g m) (nq_encrypt_message E g m cb) \<and>
    agree id (uq_export_group_info E g) (nq_export_group_info E g) \<and>
    agree (node_commit (bi_from_u64 B)) (uq_join_by_external_commit E C g m k)
      (nq_join_by_external_commit E B (node_client C) g m k cb) \<and>
    agree (map (node_join (bi_from_u64 B))) (uq_batch_join_by_external_commit E C args k)
      (nq_batch_join_by_external_commit E B (node_client C) args k cb) \<and>
    agree id (uq_leave_group E g) (nq_leave_group E g cb) \<and>
    agree (node_commit (bi_from_u64 B)) (uq_update_leaf_node E g) (nq_update_leaf_node E B g) \<and>
    agree id (uq_merge_pending_commit E g) (nq_merge_pending_commit E g cb) \<and>
    agree id (uq_clear_pending_commit E g) (nq_clear_pending_commit E g cb) \<and>
    agree id (uq_clear_pending_proposals E g) (nq_clear_pending_proposals E g) \<and>
    agree id (uq_pending_commit E g) (nq_pending_commit E g) \<and>
    agree id (uq_pending_proposals E g) (nq_pending_proposals E g) \<and>
    agree id (uq_delete_group E g) (nq_delete_group E g cb) \<and>
    agree id (uq_members E g) (nq_members E g) \<and>
    agree id (sret (uq_propose_readd E C g fp)) (nq_propose_readd E (node_client C) g fp) \<and>
    agree (map_option (node_queued (bi_from_u64 B))) (sret (uq_process_custom_proposal_message J m))
      (nq_process_custom_proposal_message J B m)"
proof -
  have custom: "agree (map_option (node_queued (bi_from_u64 B))) (sret (uq_process_custom_proposal_message J m))
      (nq_process_custom_proposal_message J B m)"
    by (cases "process_custom_proposal J m") (simp_all add: agree_def simulates_def node_queued_def
        nq_process_custom_proposal_message_def process_custom_proposal_message_task_def uq_process_custom_proposal_message_def)
  have readd: "agree id (sret (uq_propose_readd E C g fp)) (nq_propose_readd E (node_client C) g fp)"
    by (simp add: agree_def simulates_def nq_propose_readd_def propose_readd_task_def uq_propose_readd_def node_client_fields)
  note cs = node_ciphersuite [OF assms(1)]
  note packages = simulates_packages [OF assms(1)] and create = simulates_create [OF assms(1)]
    and batch = simulates_batch [OF assms(1)]
  show ?thesis
    unfolding client_pairs cs sbind_sret Let_def assms(2) node_join_config node_client_fields
      rbind_simps
    by (intro conjI custom readd agree_task simulates_intros packages create batch simulates_readd
        simulates_convert [of _ _ _ "bi_from_u64 B"]; (simp add: node_conversions)?)
qed

text \<open>A single query, and a batch, of entries that never fail.\<close>

lemma query_total:
  assumes "\<And>op w. \<exists>e. fst (entry op w) = Inr e \<and> P e"
  shows "\<exists>e. fst (sbind (pending_text E g) entry w) = Inr e \<and> P e"
  using assms by (auto simp: sbind_def pending_text_def split: prod.splits sum.splits)

lemma batch_total:
  assumes "\<And>ops w. \<exists>es. fst (entries ops w) = Inr es \<and> P es"
  shows "\<exists>es. fst (sbind (pending_texts E gs) entries w) = Inr es \<and> P es"
  using assms by (auto simp: sbind_def pending_texts_def split: prod.splits sum.splits)

lemma collect_total:
  assumes "\<And>g w. \<exists>e. fst (entry g w) = Inr e \<and> name e = g"
  shows "\<exists>es. fst (scollect entry gs w) = Inr es \<and> map name es = gs"
proof (induction gs arbitrary: w)
  case (Cons g gs)
  from assms [of g w] obtain e w1 where "entry g w = (Inr e, w1)" "name e = g" by (metis prod.collapse)
  moreover from Cons [of w1] obtain es w2 where "scollect entry gs w1 = (Inr es, w2)" "map name es = gs" by (metis prod.collapse)
  ultimately show ?case by (simp add: sbind_def)
qed (simp add: sret_def)

lemma entries_total:
  "\<exists>e. fst (nq_epoch_entry E B g op w) = Inr e \<and> we_group_id e = g"
  "\<exists>e. fst (nq_context_entry E B g op w) = Inr e \<and> wc_group_id e = g"
  by (simp_all add: nq_epoch_entry_def nq_context_entry_def split: prod.splits sum.splits)

text \<open>C27: The queries of epochs and contexts of the Node.js client refine those of the Kotlin and Swift
  client, if no group is at epoch \<open>2 ^ 63\<close> or above. Single or batched, they return the same entries,
  with the epochs as big integers and, for a join by external commit pending at epoch zero, epoch zero
  where the other client has minus one. And none of the four fails, on any world: each returns an entry
  for every group it was asked for, in the order asked for, whatever cannot be loaded or read.\<close>

theorem node_queries_refine:
  fixes B :: "'b bigint_ops"
  assumes "build_log_callback cb = Inr l"
    and "\<And>g d ctx d'. group_context (client_mls E) g d = (Inr ctx, d') \<Longrightarrow> uint (ce_context_epoch E ctx) < 2 ^ 63"
  shows "agree (node_epoch B) (uq_group_epoch E g) (nq_group_epoch E B g cb) \<and>
    agree (node_context B) (uq_group_context E g) (nq_group_context E B g cb) \<and>
    agree (map (node_epoch B)) (uq_group_epochs E gs) (nq_group_epochs E B gs cb) \<and>
    agree (map (node_context B)) (uq_group_contexts E gs) (nq_group_contexts E B gs cb) \<and>
    (\<forall>w. (\<exists>e. fst (group_epoch_task E B g w) = Inr e \<and> we_group_id e = g) \<and>
      (\<exists>c. fst (group_context_task E B g w) = Inr c \<and> wc_group_id c = g) \<and>
      (\<exists>es. fst (group_epochs_task E B gs w) = Inr es \<and> map we_group_id es = gs) \<and>
      (\<exists>cs. fst (group_contexts_task E B gs w) = Inr cs \<and> map wc_group_id cs = gs))"
proof -
  note entries = simulates_epoch [OF assms(2)]
  have "agree (node_epoch B) (uq_group_epoch E g) (nq_group_epoch E B g cb) \<and>
      agree (node_context B) (uq_group_context E g) (nq_group_context E B g cb) \<and>
      agree (map (node_epoch B)) (uq_group_epochs E gs) (nq_group_epochs E B gs cb) \<and>
      agree (map (node_context B)) (uq_group_contexts E gs) (nq_group_contexts E B gs cb)"
    unfolding uq_group_epoch_def nq_group_epoch_def group_epoch_task_def uq_group_context_def nq_group_context_def
      group_context_task_def uq_group_epochs_def nq_group_epochs_def uq_group_contexts_def nq_group_contexts_def
      group_epochs_task_def group_contexts_task_def assms(1) rbind_simps
    by (intro conjI agree_task simulates_intros simulates_collect entries)
  moreover have "\<exists>e. fst (group_epoch_task E B g w) = Inr e \<and> we_group_id e = g" for w
    unfolding group_epoch_task_def by (rule query_total, rule entries_total)
  moreover have "\<exists>c. fst (group_context_task E B g w) = Inr c \<and> wc_group_id c = g" for w
    unfolding group_context_task_def by (rule query_total, rule entries_total)
  moreover have "\<exists>es. fst (group_epochs_task E B gs w) = Inr es \<and> map we_group_id es = gs" for w
    unfolding group_epochs_task_def by (rule batch_total, rule collect_total, rule entries_total)
  moreover have "\<exists>cs. fst (group_contexts_task E B gs w) = Inr cs \<and> map wc_group_id cs = gs" for w
    unfolding group_contexts_task_def by (rule batch_total, rule collect_total, rule entries_total)
  ultimately show ?thesis by blast
qed

text \<open>C28: The numbers a JavaScript caller passes to \<open>process_all_messages\<close> are checked completely. The
  arguments are accepted exactly when the epoch of every message is an unsigned and the epochs of every
  group are signed 64-bit integers, and then they are the Kotlin client's arguments for those numbers;
  otherwise the call throws and blames the argument.\<close>

theorem all_messages_args_exact:
  assumes "bigint_ok B val"
  shows "case build_process_all_messages_args B args of
      Inr gs \<Rightarrow> (\<forall>a \<in> set args. args_in_range val a) \<and> gs = map (uq_group_args_from \<circ> read_args val) args
    | Inl e \<Rightarrow> (\<exists>a \<in> set args. \<not> args_in_range val a) \<and> js_status e = Status_InvalidArg"
  using checks_collect [OF checks_group [OF assms], unfolded checks_def, rule_format, of args]
  by (simp add: build_process_all_messages_args_def split: sum.splits)

text \<open>C29: A task that processes all messages runs once. If the method returns a task, running it changes the
  world and returns what the Kotlin client's call does for the same numbers, and consumes its arguments
  and its configuration, whatever the outcome; running it again fails and changes nothing.\<close>

theorem all_messages_task_once:
  assumes "nq_process_all_messages E B (node_client C) args cb = Inr task" and "bigint_ok B val"
  shows "(case uq_process_all_messages E C (map (read_args val) args) w of
       (Inr a, w1) \<Rightarrow> process_all_messages_compute E (task, w) = (Inr a, \<lparr>pt_args = None, pt_join_config = None\<rparr>, w1)
     | (Inl e, w1) \<Rightarrow> \<exists>e'. process_all_messages_compute E (task, w) =
         (Inl e', \<lparr>pt_args = None, pt_join_config = None\<rparr>, w1) \<and> fault_agrees e e') \<and>
    process_all_messages_compute E (\<lparr>pt_args = None, pt_join_config = None\<rparr>, w2) =
      (Inl (Client_Error (napi_failure ''process_all_messages task was already consumed'')),
       \<lparr>pt_args = None, pt_join_config = None\<rparr>, w2)"
proof -
  from assms(1) obtain gs where gs: "build_process_all_messages_args B args = Inr gs"
    by (cases "build_log_callback cb"; cases "build_process_all_messages_args B args")
      (auto simp: nq_process_all_messages_def)
  with checks_InrD [OF checks_collect [OF checks_group [OF assms(2)]]]
  have "gs = map uq_group_args_from (map (read_args val) args)" by (simp add: build_process_all_messages_args_def)
  with assms(1) gs show ?thesis
    by (cases "build_log_callback cb")
      (auto simp: nq_process_all_messages_def process_all_messages_compute_def uq_process_all_messages_def
        take_args_def take_join_config_def sbind_def smap_err_def ok_or_def map_err_def napi_failed_def
        intro: fault_agrees.intros split: prod.splits sum.splits process_fault.splits)
qed

section \<open>Examples\<close>

definition sample_bigint :: "int bigint_ops" where
  "sample_bigint = \<lparr>bi_from_u64 = uint, bi_from_i64 = id,
     bi_get_u64 = (\<lambda>n. (n < 0, word_of_int \<bar>n\<bar>, \<bar>n\<bar> < 2 ^ 64)),
     bi_get_i64 = (\<lambda>n. (n, - (2 ^ 63) \<le> n \<and> n < 2 ^ 63))\<rparr>"

lemma sample_bigint_ok: "bigint_ok sample_bigint id"
  by (auto simp: bigint_ok_def sample_bigint_def uint_word_of_int_eq take_bit_int_eq_self)

definition sample_group_args :: "int \<Rightarrow> (int, int) group_args" where
  "sample_group_args epoch = \<lparr>ga_group_id = ''G'',
     ga_messages = [\<lparr>ma_blob = [1, 0], ma_epoch = epoch, ma_sender = ''f'', ma_message_type = ''commit''\<rparr>],
     ga_current_epoch = - 1, ga_current_tree_hash = [], ga_pending_epoch = - 1, ga_pending_tree_hash = [5]\<rparr>"

lemma sample_ciphersuite: "ce_ciphersuite sample_client_env (um_ciphersuite sample_client) = Inr []"
  by (simp add: sample_client_env_def)

text \<open>Adding a member, and adding one who is in the group already.\<close>

theorem node_client_refines_witness:
  "\<exists>T r w e w'. nq_add_members sample_client_env sample_bigint ''G'' [[99]] None = Inr T \<and>
     T (sample_world ''none'') = (Inr r, w) \<and>
     status_map w = status_map (snd (uq_add_members sample_client_env sample_client ''G'' [[99]] (sample_world ''none''))) \<and>
     (\<exists>T'. nq_add_members sample_client_env sample_bigint ''G'' [[97]] None = Inr T' \<and>
        T' (sample_world ''none'') = (Inl e, w'))"
proof -
  note refines = node_client_refines [where B = sample_bigint and g = "''G''" and cb = None, OF sample_ciphersuite]
  have add: "agree (node_add (bi_from_u64 sample_bigint)) (uq_add_members sample_client_env sample_client ''G'' ks)
      (nq_add_members sample_client_env sample_bigint ''G'' ks None)" for ks
    using refines [where ks = ks] by simp
  have "\<not> isl (fst (uq_add_members sample_client_env sample_client ''G'' [[99]] (sample_world ''none'')))"
    and "isl (fst (uq_add_members sample_client_env sample_client ''G'' [[97]] (sample_world ''none'')))"
    by code_simp+
  then obtain a w e w' where
    "uq_add_members sample_client_env sample_client ''G'' [[99]] (sample_world ''none'') = (Inr a, w)"
    "uq_add_members sample_client_env sample_client ''G'' [[97]] (sample_world ''none'') = (Inl e, w')"
    by (auto simp: isl_def) (metis isl_def prod.collapse sum.collapse(2))
  then show ?thesis
    using add [of "[[99]]", unfolded agree_def simulates_def] add [of "[[97]]", unfolded agree_def simulates_def]
    by (auto dest!: spec [where x = "sample_world ''none''"])
qed

text \<open>A join that is pending at epoch zero: epoch zero instead of minus one.\<close>

definition sample_stored_env :: "(sample_state, bytes) client_env" where
  "sample_stored_env = sample_client_env\<lparr>ce_context_epoch := \<lambda>_. 0,
     ce_process := sample_env\<lparr>pe_mls := sample_mls\<lparr>load_group_context := \<lambda>_. sret (Some [])\<rparr>\<rparr>\<rparr>"

theorem node_queries_refine_witness:
  "\<exists>e T e' cs. fst (uq_group_epoch sample_stored_env ''G'' (sample_world OP_JOIN_BY_EXTERNAL_COMMIT)) = Inr e \<and> we_epoch e = - 1 \<and>
     nq_group_epoch sample_stored_env sample_bigint ''G'' None = Inr T \<and>
     fst (T (sample_world OP_JOIN_BY_EXTERNAL_COMMIT)) = Inr e' \<and> we_epoch e' = 0 \<and>
     fst (group_contexts_task sample_stored_env sample_bigint [''H'', ''G''] (sample_world OP_JOIN_BY_EXTERNAL_COMMIT)) = Inr cs \<and>
     map wc_group_id cs = [''H'', ''G'']"
proof -
  let ?w = "sample_world OP_JOIN_BY_EXTERNAL_COMMIT"
  note refines = node_queries_refine [where E = sample_stored_env and B = sample_bigint and g = "''G''" and gs = "[''H'', ''G'']"
      and cb = None and l = None]
  have "map_sum (\<lambda>_. ()) (\<lambda>e. (we_epoch e, we_pending_operation e, we_err e)) (fst (uq_group_epoch sample_stored_env ''G'' ?w)) =
      Inr (- 1, Some OP_JOIN_BY_EXTERNAL_COMMIT, None)" by code_simp
  then obtain e w1 where e: "uq_group_epoch sample_stored_env ''G'' ?w = (Inr e, w1)" "we_epoch e = - 1"
    "we_pending_operation e = Some OP_JOIN_BY_EXTERNAL_COMMIT" "we_err e = None"
    by (cases "uq_group_epoch sample_stored_env ''G'' ?w"; cases "fst (uq_group_epoch sample_stored_env ''G'' ?w)") auto
  from refines have agr: "agree (node_epoch sample_bigint) (uq_group_epoch sample_stored_env ''G'') (nq_group_epoch sample_stored_env sample_bigint ''G'' None)"
    and cs: "\<exists>cs. fst (group_contexts_task sample_stored_env sample_bigint [''H'', ''G''] ?w) = Inr cs \<and> map wc_group_id cs = [''H'', ''G'']"
    by (simp_all add: sample_stored_env_def)
  from agr obtain T where T: "nq_group_epoch sample_stored_env sample_bigint ''G'' None = Inr T"
    "simulates fault_agrees (node_epoch sample_bigint) (uq_group_epoch sample_stored_env ''G'') T" unfolding agree_def by blast
  from T(2) [unfolded simulates_def, THEN spec, of ?w] e(1) have "T ?w = (Inr (node_epoch sample_bigint e), w1)" by simp
  with T(1) e cs show ?thesis by (auto simp: node_epoch_def node_number_def sample_bigint_def)
qed

theorem all_messages_args_exact_witness:
  "isl (build_process_all_messages_args sample_bigint [sample_group_args (- 1)]) \<and>
   build_process_all_messages_args sample_bigint [sample_group_args 4] =
     Inr [uq_group_args_from (read_args id (sample_group_args 4))]"
  using all_messages_args_exact [OF sample_bigint_ok, of "[sample_group_args (- 1)]"]
    all_messages_args_exact [OF sample_bigint_ok, of "[sample_group_args 4]"]
  by (auto simp: args_in_range_def message_in_range_def sample_group_args_def split: sum.splits)

theorem all_messages_task_once_witness:
  "\<exists>task r w. nq_process_all_messages sample_client_env sample_bigint (node_client sample_client) [sample_group_args 4] None
       = Inr task \<and>
     process_all_messages_compute sample_client_env (task, sample_world ''none'') =
       (r, \<lparr>pt_args = None, pt_join_config = None\<rparr>, w)"
proof -
  have "\<not> isl (nq_process_all_messages sample_client_env sample_bigint (node_client sample_client) [sample_group_args 4] None)"
    by code_simp
  then obtain task where task:
    "nq_process_all_messages sample_client_env sample_bigint (node_client sample_client) [sample_group_args 4] None = Inr task"
    by (auto simp: isl_def) (metis sum.exhaust)
  note once = all_messages_task_once [OF task sample_bigint_ok, of "sample_world ''none''", THEN conjunct1]
  obtain r w where "uq_process_all_messages sample_client_env sample_client
      (map (read_args id) [sample_group_args 4]) (sample_world ''none'') = (r, w)" by fastforce
  with once task show ?thesis by (cases r) auto
qed

end
