(* ===== verification/Kchat_Mnemonic.thy ===== *)
theory Kchat_Mnemonic
  imports Utf8
begin

text \<open>
  Recovery keys (\<open>kchat-mls/src/mnemonic.rs\<close>): the recovery phrase, the signing pair derived from it, and
  recovery signatures. BIP-39, HKDF and the two signature schemes are third-party code, the fields of
  \<open>recovery_env\<close>, with \<open>'o\<close> for their parsed values; randomness is the argument \<open>fill\<close>.
\<close>

section \<open>The cryptographic libraries\<close>

record 'o recovery_env =
  from_entropy :: "bytes \<Rightarrow> string option"
  parse_mnemonic :: "string \<Rightarrow> 'o option"
  to_seed :: "'o \<Rightarrow> bytes"
  hkdf_expand :: "bytes \<Rightarrow> bytes \<Rightarrow> nat \<Rightarrow> bytes option"
  ed_public_der :: "bytes \<Rightarrow> bytes option"
  ed_sign :: "bytes \<Rightarrow> bytes \<Rightarrow> bytes"
  ed_verifier :: "bytes \<Rightarrow> 'o option"
  ed_signature :: "bytes \<Rightarrow> 'o option"
  ed_verify :: "'o \<Rightarrow> bytes \<Rightarrow> 'o \<Rightarrow> bool"
  p256_key :: "bytes \<Rightarrow> 'o option"
  p256_public_der :: "'o \<Rightarrow> bytes option"
  p256_sign :: "'o \<Rightarrow> bytes \<Rightarrow> bytes"
  p256_verifier :: "bytes \<Rightarrow> 'o option"
  p256_signature :: "bytes \<Rightarrow> 'o option"
  p256_verify :: "'o \<Rightarrow> bytes \<Rightarrow> 'o \<Rightarrow> bool"

section \<open>Data\<close>

definition RECOVERY_MASTER_KEY_INFO :: bytes where
  "RECOVERY_MASTER_KEY_INFO = as_bytes ''KCHAT_RECOVERY_V1_MASTER''"

definition ED25519_KEY_INFO :: bytes where
  "ED25519_KEY_INFO = as_bytes ''KCHAT_RECOVERY_V1_ED25519''"

definition P256_ECDSA_KEY_INFO :: bytes where
  "P256_ECDSA_KEY_INFO = as_bytes ''KCHAT_RECOVERY_V1_P256_ECDSA''"

datatype recovery_key_algorithm = Ed25519 | P256Ecdsa

datatype mnemonic_error = InvalidWordCount | InvalidMnemonic | RandomnessUnavailable | DerivationFailed

datatype recovery_signature_error = InvalidPrivateKey | InvalidPublicKey

record recovery_key_pair =
  rk_private_key :: bytes
  rk_public_key :: bytes

definition export_private_key :: "recovery_key_pair \<Rightarrow> bytes" where
  "export_private_key kp = rk_private_key kp"

definition public_key :: "recovery_key_pair \<Rightarrow> bytes" where
  "public_key kp = rk_public_key kp"

definition debug_key_pair :: "recovery_key_pair \<Rightarrow> string" where
  "debug_key_pair kp = ''RecoveryKeyPair(REDACTED)''"

section \<open>Phrases\<close>

definition entropy_length :: "u32 \<Rightarrow> nat option" where
  "entropy_length word_count =
     (if word_count = 12 then Some 16 else if word_count = 15 then Some 20 else if word_count = 18 then Some 24
      else if word_count = 21 then Some 28 else if word_count = 24 then Some 32 else None)"

definition generate_recovery_mnemonic ::
    "'o recovery_env \<Rightarrow> (nat \<Rightarrow> bytes option) \<Rightarrow> u32 \<Rightarrow> mnemonic_error + string" where
  "generate_recovery_mnemonic R fill word_count =
     rbind (ok_or InvalidWordCount (entropy_length word_count)) (\<lambda>entropy_len.
     rbind (ok_or RandomnessUnavailable (fill entropy_len)) (\<lambda>entropy.
     ok_or DerivationFailed (from_entropy R entropy)))"

section \<open>Derivation\<close>

definition derive_ed25519 :: "'o recovery_env \<Rightarrow> bytes \<Rightarrow> mnemonic_error + recovery_key_pair" where
  "derive_ed25519 R master =
     rbind (ok_or DerivationFailed (hkdf_expand R master ED25519_KEY_INFO 32)) (\<lambda>private_key.
     rbind (ok_or DerivationFailed (ed_public_der R private_key)) (\<lambda>public.
     Inr \<lparr>rk_private_key = private_key, rk_public_key = public\<rparr>))"

text \<open>The label of a candidate scalar, and the loop over the counters.\<close>

definition p256_info :: "8 word \<Rightarrow> bytes" where
  "p256_info counter = P256_ECDSA_KEY_INFO @ (if counter \<noteq> 0 then [counter] else [])"

fun derive_p256_loop :: "'o recovery_env \<Rightarrow> bytes \<Rightarrow> 8 word list \<Rightarrow> mnemonic_error + recovery_key_pair" where
  "derive_p256_loop R master [] = Inl DerivationFailed"
| "derive_p256_loop R master (counter # counters) =
     rbind (ok_or DerivationFailed (hkdf_expand R master (p256_info counter) 32)) (\<lambda>private_key.
     (case p256_key R private_key of
        Some signer \<Rightarrow>
          rbind (ok_or DerivationFailed (p256_public_der R signer)) (\<lambda>public.
          Inr \<lparr>rk_private_key = private_key, rk_public_key = public\<rparr>)
      | None \<Rightarrow> derive_p256_loop R master counters))"

definition all_counters :: "8 word list" where
  "all_counters = map of_nat [0..<256]"

definition derive_recovery_key_pair ::
    "'o recovery_env \<Rightarrow> string \<Rightarrow> recovery_key_algorithm \<Rightarrow> mnemonic_error + recovery_key_pair" where
  "derive_recovery_key_pair R mnemonic algorithm =
     rbind (ok_or InvalidMnemonic (parse_mnemonic R mnemonic)) (\<lambda>parsed.
     rbind (ok_or DerivationFailed (hkdf_expand R (to_seed R parsed) RECOVERY_MASTER_KEY_INFO 32)) (\<lambda>master.
     (case algorithm of
        Ed25519 \<Rightarrow> derive_ed25519 R master
      | P256Ecdsa \<Rightarrow> derive_p256_loop R master all_counters)))"

section \<open>Signatures\<close>

definition sign_recovery_message ::
    "'o recovery_env \<Rightarrow> recovery_key_algorithm \<Rightarrow> bytes \<Rightarrow> bytes \<Rightarrow> recovery_signature_error + bytes" where
  "sign_recovery_message R algorithm private_key message =
     (case algorithm of
        Ed25519 \<Rightarrow> if length private_key \<noteq> 32 then Inl InvalidPrivateKey else Inr (ed_sign R private_key message)
      | P256Ecdsa \<Rightarrow>
          if length private_key \<noteq> 32 then Inl InvalidPrivateKey
          else rbind (ok_or InvalidPrivateKey (p256_key R private_key)) (\<lambda>signer. Inr (p256_sign R signer message)))"

definition verify_recovery_signature ::
    "'o recovery_env \<Rightarrow> recovery_key_algorithm \<Rightarrow> bytes \<Rightarrow> bytes \<Rightarrow> bytes \<Rightarrow> recovery_signature_error + bool" where
  "verify_recovery_signature R algorithm public message signature =
     (case algorithm of
        Ed25519 \<Rightarrow>
          rbind (ok_or InvalidPublicKey (ed_verifier R public)) (\<lambda>verifier.
          (case ed_signature R signature of None \<Rightarrow> Inr False | Some s \<Rightarrow> Inr (ed_verify R verifier message s)))
      | P256Ecdsa \<Rightarrow>
          rbind (ok_or InvalidPublicKey (p256_verifier R public)) (\<lambda>verifier.
          (case p256_signature R signature of None \<Rightarrow> Inr False | Some s \<Rightarrow> Inr (p256_verify R verifier message s))))"

section \<open>Lemmas\<close>

lemma all_counters_distinct: "distinct all_counters" "set all_counters = UNIV" "length all_counters = 256"
proof -
  have "inj_on (of_nat :: nat \<Rightarrow> 8 word) {0..<256}"
    by (rule inj_onI) (simp add: word_of_nat_eq_iff take_bit_eq_mod)
  then show "distinct all_counters" by (simp add: all_counters_def distinct_map)
  have "w \<in> set all_counters" for w
  proof -
    have "unat w < 256" using unsigned_less [of w, where ?'a = nat] by simp
    then have "unat w \<in> set [0..<256]" by simp
    moreover have "w = of_nat (unat w)" by simp
    ultimately show ?thesis unfolding all_counters_def set_map by (rule rev_image_eqI)
  qed
  then show "set all_counters = UNIV" by blast
  show "length all_counters = 256" by (simp add: all_counters_def)
qed

text \<open>No two labels of the derivation are the same.\<close>

lemma infos_distinct:
  "p256_info a = p256_info b \<longleftrightarrow> a = b" "p256_info a \<noteq> ED25519_KEY_INFO" "p256_info a \<noteq> RECOVERY_MASTER_KEY_INFO"
  "ED25519_KEY_INFO \<noteq> RECOVERY_MASTER_KEY_INFO"
proof -
  have l: "length P256_ECDSA_KEY_INFO = 28" "length ED25519_KEY_INFO = 25" "length RECOVERY_MASTER_KEY_INFO = 24"
    by (simp_all add: P256_ECDSA_KEY_INFO_def ED25519_KEY_INFO_def RECOVERY_MASTER_KEY_INFO_def as_bytes_def)
  then have "28 \<le> length (p256_info a)" by (simp add: p256_info_def)
  with l show "p256_info a \<noteq> ED25519_KEY_INFO" "p256_info a \<noteq> RECOVERY_MASTER_KEY_INFO" "ED25519_KEY_INFO \<noteq> RECOVERY_MASTER_KEY_INFO" by auto
  show "p256_info a = p256_info b \<longleftrightarrow> a = b" by (auto simp: p256_info_def)
qed

lemma derive_p256_loop_Inr:
  "derive_p256_loop R master cs = Inr kp \<Longrightarrow>
     \<exists>before c after k signer. cs = before @ c # after \<and> hkdf_expand R master (p256_info c) 32 = Some k \<and>
       p256_key R k = Some signer \<and> rk_private_key kp = k \<and> p256_public_der R signer = Some (rk_public_key kp) \<and>
       (\<forall>b \<in> set before. \<exists>k. hkdf_expand R master (p256_info b) 32 = Some k \<and> p256_key R k = None)"
proof (induction cs)
  case Nil
  then show ?case by simp
next
  case (Cons c cs)
  from Cons.prems obtain k where k: "hkdf_expand R master (p256_info c) 32 = Some k" by (auto elim!: rbind_InrE)
  show ?case
  proof (cases "p256_key R k")
    case None
    with Cons.prems k have "derive_p256_loop R master cs = Inr kp" by simp
    from Cons.IH [OF this] obtain before c' after k' signer where "cs = before @ c' # after"
      "hkdf_expand R master (p256_info c') 32 = Some k'" "p256_key R k' = Some signer" "rk_private_key kp = k'"
      "p256_public_der R signer = Some (rk_public_key kp)"
      "\<forall>b \<in> set before. \<exists>k. hkdf_expand R master (p256_info b) 32 = Some k \<and> p256_key R k = None" by blast
    moreover from calculation None k have "c # cs = (c # before) @ c' # after"
      "\<forall>b \<in> set (c # before). \<exists>k. hkdf_expand R master (p256_info b) 32 = Some k \<and> p256_key R k = None" by simp_all
    ultimately show ?thesis by blast
  next
    case (Some signer)
    with Cons.prems k have "rk_private_key kp = k" "p256_public_der R signer = Some (rk_public_key kp)"
      by (auto elim!: rbind_InrE)
    moreover have "c # cs = [] @ c # cs" by simp
    ultimately show ?thesis using Some k by (metis empty_iff list.set(1))
  qed
qed

section \<open>Properties\<close>

text \<open>C40: a derived P-256 key is the first candidate that is a valid scalar. The candidates are the
  outputs of HKDF for pairwise different labels, one for each value of a byte; the pair that is
  returned belongs to the first candidate the curve accepts, and its label is none of those used for
  the master key or for Ed25519.\<close>

theorem p256_first_valid_candidate:
  assumes "derive_recovery_key_pair R mnemonic P256Ecdsa = Inr kp"
  shows "\<exists>parsed master c signer. parse_mnemonic R mnemonic = Some parsed \<and>
    hkdf_expand R (to_seed R parsed) RECOVERY_MASTER_KEY_INFO 32 = Some master \<and>
    hkdf_expand R master (p256_info c) 32 = Some (export_private_key kp) \<and>
    p256_key R (export_private_key kp) = Some signer \<and> p256_public_der R signer = Some (public_key kp) \<and>
    p256_info c \<notin> {RECOVERY_MASTER_KEY_INFO, ED25519_KEY_INFO} \<and>
    (\<forall>b < c. p256_info b \<noteq> p256_info c \<and> (\<exists>k. hkdf_expand R master (p256_info b) 32 = Some k \<and> p256_key R k = None))"
proof -
  from assms obtain parsed master where m: "parse_mnemonic R mnemonic = Some parsed"
    "hkdf_expand R (to_seed R parsed) RECOVERY_MASTER_KEY_INFO 32 = Some master"
    and loop: "derive_p256_loop R master all_counters = Inr kp"
    by (auto simp: derive_recovery_key_pair_def elim!: rbind_InrE)
  from derive_p256_loop_Inr [OF loop] obtain before c after k signer where s: "all_counters = before @ c # after"
    "hkdf_expand R master (p256_info c) 32 = Some k" "p256_key R k = Some signer" "rk_private_key kp = k"
    "p256_public_der R signer = Some (rk_public_key kp)"
    "\<forall>b \<in> set before. \<exists>k. hkdf_expand R master (p256_info b) 32 = Some k \<and> p256_key R k = None" by blast
  have sorted: "sorted all_counters"
    unfolding all_counters_def by (auto simp: sorted_iff_nth_mono word_le_nat_alt take_bit_eq_mod unsigned_of_nat)
  have "b \<in> set before" if "b < c" for b
  proof (rule ccontr)
    assume "b \<notin> set before"
    then have "b \<in> set (c # after)" using s(1) all_counters_distinct(2) by (metis UNIV_I Un_iff set_append)
    moreover have "\<forall>x \<in> set (c # after). c \<le> x" using sorted [unfolded s(1)] by (simp add: sorted_append)
    ultimately show False using \<open>b < c\<close> by auto
  qed
  with s m infos_distinct show ?thesis by (auto simp: export_private_key_def public_key_def)
qed

text \<open>What the signature libraries promise: a signature made with a key parses and verifies under the
  public key of that key.\<close>

definition signatures_correct :: "'o recovery_env \<Rightarrow> bool" where
  "signatures_correct R \<longleftrightarrow>
     (\<forall>k pub m. ed_public_der R k = Some pub \<longrightarrow>
        (\<exists>v s. ed_verifier R pub = Some v \<and> ed_signature R (ed_sign R k m) = Some s \<and> ed_verify R v m s)) \<and>
     (\<forall>k pub m. p256_public_der R k = Some pub \<longrightarrow>
        (\<exists>v s. p256_verifier R pub = Some v \<and> p256_signature R (p256_sign R k m) = Some s \<and> p256_verify R v m s))"

definition hkdf_lengths :: "'o recovery_env \<Rightarrow> bool" where
  "hkdf_lengths R \<longleftrightarrow> (\<forall>ikm info n okm. hkdf_expand R ikm info n = Some okm \<longrightarrow> length okm = n)"

text \<open>Recovery works end to end. The private key exported from any derived pair signs every message for
  its algorithm, and the signature is accepted for the public key of the same pair.\<close>

theorem recovery_signature_roundtrip:
  assumes "derive_recovery_key_pair R mnemonic algorithm = Inr kp" and "signatures_correct R" and "hkdf_lengths R"
  shows "\<exists>signature. sign_recovery_message R algorithm (export_private_key kp) message = Inr signature \<and>
    verify_recovery_signature R algorithm (public_key kp) message signature = Inr True"
proof (cases algorithm)
  case Ed25519
  with assms(1) obtain master where k: "hkdf_expand R master ED25519_KEY_INFO 32 = Some (rk_private_key kp)"
    "ed_public_der R (rk_private_key kp) = Some (rk_public_key kp)"
    by (auto simp: derive_recovery_key_pair_def derive_ed25519_def elim!: rbind_InrE)
  from k(1) assms(3) have l: "length (rk_private_key kp) = 32" by (auto simp: hkdf_lengths_def)
  from k(2) assms(2) obtain v s where "ed_verifier R (rk_public_key kp) = Some v"
    "ed_signature R (ed_sign R (rk_private_key kp) message) = Some s" "ed_verify R v message s"
    unfolding signatures_correct_def by blast
  with l Ed25519 show ?thesis
    by (simp add: sign_recovery_message_def verify_recovery_signature_def export_private_key_def public_key_def)
next
  case P256Ecdsa
  with assms(1) obtain master where loop: "derive_p256_loop R master all_counters = Inr kp"
    by (auto simp: derive_recovery_key_pair_def elim!: rbind_InrE)
  from derive_p256_loop_Inr [OF loop] obtain c k signer where k: "hkdf_expand R master (p256_info c) 32 = Some k"
    "p256_key R k = Some signer" "rk_private_key kp = k" "p256_public_der R signer = Some (rk_public_key kp)" by blast
  from k(1,3) assms(3) have l: "length (rk_private_key kp) = 32" by (auto simp: hkdf_lengths_def)
  from k(4) assms(2) obtain v s where "p256_verifier R (rk_public_key kp) = Some v"
    "p256_signature R (p256_sign R signer message) = Some s" "p256_verify R v message s"
    unfolding signatures_correct_def by blast
  with l k P256Ecdsa show ?thesis
    by (simp add: sign_recovery_message_def verify_recovery_signature_def export_private_key_def public_key_def)
qed

section \<open>Examples\<close>

text \<open>A curve that refuses scalars whose first byte is zero, and signatures that repeat key and message.\<close>

definition sample_recovery :: "bytes recovery_env" where
  "sample_recovery = \<lparr>from_entropy = (\<lambda>e. Some (as_string e)), parse_mnemonic = (\<lambda>s. Some (as_bytes s)), to_seed = id,
     hkdf_expand = (\<lambda>ikm info n. Some (take n (drop 28 info @ replicate n 0))),
     ed_public_der = Some, ed_sign = (\<lambda>k m. k @ m), ed_verifier = Some, ed_signature = Some,
     ed_verify = (\<lambda>v m s. s = v @ m),
     p256_key = (\<lambda>k. if hd k = 0 then None else Some k), p256_public_der = Some, p256_sign = (\<lambda>k m. k @ m),
     p256_verifier = Some, p256_signature = Some, p256_verify = (\<lambda>v m s. s = v @ m)\<rparr>"

lemma sample_recovery_laws: "signatures_correct sample_recovery" "hkdf_lengths sample_recovery"
  by (auto simp: signatures_correct_def hkdf_lengths_def sample_recovery_def min_def)

lemma sample_derive:
  "derive_recovery_key_pair sample_recovery ''phrase'' P256Ecdsa =
     Inr \<lparr>rk_private_key = 1 # replicate 31 0, rk_public_key = 1 # replicate 31 0\<rparr>"
  by code_simp

theorem p256_first_valid_candidate_witness:
  "\<exists>c signer. p256_key sample_recovery (1 # replicate 31 0) = Some signer \<and> p256_info c \<noteq> ED25519_KEY_INFO"
  using p256_first_valid_candidate [OF sample_derive] by (auto simp: export_private_key_def)

theorem recovery_signature_roundtrip_witness:
  "\<exists>signature. verify_recovery_signature sample_recovery P256Ecdsa (1 # replicate 31 0) [7] signature = Inr True"
  using recovery_signature_roundtrip [OF sample_derive sample_recovery_laws, of "[7]"] by (auto simp: public_key_def)

end
