(* ===== verification/Uniffi_Mnemonic.thy ===== *)
theory Uniffi_Mnemonic
  imports Kchat_Mnemonic
begin

text \<open>
  The recovery keys of the Kotlin and Swift binding (\<open>kchat-uniffi/src/mls/mnemonic.rs\<close>, of which
  \<open>kchat-mls-uniffi/src/mnemonic.rs\<close> is a copy): its errors with their texts, its records, and the four
  exported functions. The lemmas show that phrases, keys and signatures cross the binding unchanged;
  zeroising is not modelled.
\<close>

section \<open>Errors\<close>

datatype mnemonic_ffi_error = Recovery_InvalidWordCount | Recovery_InvalidMnemonic | Recovery_RandomnessUnavailable | Recovery_DerivationFailed

fun mnemonic_ffi_display :: "mnemonic_ffi_error \<Rightarrow> string" where
  "mnemonic_ffi_display Recovery_InvalidWordCount = ''unsupported recovery mnemonic word count''"
| "mnemonic_ffi_display Recovery_InvalidMnemonic = ''invalid recovery mnemonic''"
| "mnemonic_ffi_display Recovery_RandomnessUnavailable = ''recovery randomness unavailable''"
| "mnemonic_ffi_display Recovery_DerivationFailed = ''recovery key derivation failed''"

fun mnemonic_ffi_from :: "mnemonic_error \<Rightarrow> mnemonic_ffi_error" where
  "mnemonic_ffi_from InvalidWordCount = Recovery_InvalidWordCount"
| "mnemonic_ffi_from InvalidMnemonic = Recovery_InvalidMnemonic"
| "mnemonic_ffi_from RandomnessUnavailable = Recovery_RandomnessUnavailable"
| "mnemonic_ffi_from DerivationFailed = Recovery_DerivationFailed"

datatype signature_ffi_error = Recovery_InvalidPrivateKey | Recovery_InvalidPublicKey

fun signature_ffi_display :: "signature_ffi_error \<Rightarrow> string" where
  "signature_ffi_display Recovery_InvalidPrivateKey = ''invalid recovery private key''"
| "signature_ffi_display Recovery_InvalidPublicKey = ''invalid recovery public key''"

fun signature_ffi_from :: "recovery_signature_error \<Rightarrow> signature_ffi_error" where
  "signature_ffi_from InvalidPrivateKey = Recovery_InvalidPrivateKey"
| "signature_ffi_from InvalidPublicKey = Recovery_InvalidPublicKey"

section \<open>Functions\<close>

datatype ffi_algorithm = Recovery_Ed25519 | Recovery_P256Ecdsa

record ffi_recovery_key_pair =
  rp_format_version :: u16
  rp_algorithm :: ffi_algorithm
  rp_public_key :: bytes
  rp_private_key :: bytes

fun core_algorithm :: "ffi_algorithm \<Rightarrow> recovery_key_algorithm" where
  "core_algorithm Recovery_Ed25519 = Ed25519"
| "core_algorithm Recovery_P256Ecdsa = P256Ecdsa"

definition ffi_generate_recovery_mnemonic ::
    "'o recovery_env \<Rightarrow> (nat \<Rightarrow> bytes option) \<Rightarrow> u32 \<Rightarrow> mnemonic_ffi_error + string" where
  "ffi_generate_recovery_mnemonic R fill word_count =
     map_err mnemonic_ffi_from (generate_recovery_mnemonic R fill word_count)"

definition ffi_derive_recovery_key_pair ::
    "'o recovery_env \<Rightarrow> string \<Rightarrow> ffi_algorithm \<Rightarrow> mnemonic_ffi_error + ffi_recovery_key_pair" where
  "ffi_derive_recovery_key_pair R mnemonic algorithm =
     rbind (map_err mnemonic_ffi_from (derive_recovery_key_pair R mnemonic (core_algorithm algorithm))) (\<lambda>pair.
     Inr \<lparr>rp_format_version = 1, rp_algorithm = algorithm, rp_public_key = public_key pair,
          rp_private_key = export_private_key pair\<rparr>)"

definition ffi_sign_recovery_message ::
    "'o recovery_env \<Rightarrow> ffi_algorithm \<Rightarrow> bytes \<Rightarrow> bytes \<Rightarrow> signature_ffi_error + bytes" where
  "ffi_sign_recovery_message R algorithm private_key message =
     map_err signature_ffi_from (sign_recovery_message R (core_algorithm algorithm) private_key message)"

definition ffi_verify_recovery_signature ::
    "'o recovery_env \<Rightarrow> ffi_algorithm \<Rightarrow> bytes \<Rightarrow> bytes \<Rightarrow> bytes \<Rightarrow> signature_ffi_error + bool" where
  "ffi_verify_recovery_signature R algorithm public message signature =
     map_err signature_ffi_from (verify_recovery_signature R (core_algorithm algorithm) public message signature)"

section \<open>Lemmas\<close>

text \<open>A key pair that crossed the binding signs what its public key accepts, for the algorithm it carries.\<close>

lemma ffi_recovery_roundtrip:
  assumes "ffi_derive_recovery_key_pair R mnemonic algorithm = Inr kp" and "signatures_correct R" and "hkdf_lengths R"
  shows "rp_algorithm kp = algorithm \<and> rp_format_version kp = 1 \<and>
    (\<exists>signature. ffi_sign_recovery_message R (rp_algorithm kp) (rp_private_key kp) message = Inr signature \<and>
      ffi_verify_recovery_signature R (rp_algorithm kp) (rp_public_key kp) message signature = Inr True)"
proof -
  from assms(1) obtain pair where pair: "derive_recovery_key_pair R mnemonic (core_algorithm algorithm) = Inr pair"
    and kp: "kp = \<lparr>rp_format_version = 1, rp_algorithm = algorithm, rp_public_key = public_key pair,
          rp_private_key = export_private_key pair\<rparr>"
    by (cases "derive_recovery_key_pair R mnemonic (core_algorithm algorithm)")
      (auto simp: ffi_derive_recovery_key_pair_def)
  from recovery_signature_roundtrip [OF pair assms(2,3), of message] kp show ?thesis
    by (auto simp: ffi_sign_recovery_message_def ffi_verify_recovery_signature_def)
qed

text \<open>The errors of the crate and of the binding correspond one to one.\<close>

lemma mnemonic_ffi_from_inj: "mnemonic_ffi_from e = mnemonic_ffi_from e' \<longleftrightarrow> e = e'"
  by (cases e; cases e') simp_all

lemma signature_ffi_from_inj: "signature_ffi_from e = signature_ffi_from e' \<longleftrightarrow> e = e'"
  by (cases e; cases e') simp_all

end
