(* ===== verification/Spec2Isabelle.thy ===== *)
theory Spec2Isabelle
  imports Backup_Descriptor Backup_Roundtrip Storage_Provider_Correct Mls_Migration Mls_Core_Correct
    Uniffi_Client_Correct Uniffi_Wal Uniffi_Queries Uniffi_Backup_Correct Napi_Backup_Correct Napi_Client_Correct
    Kchat_Process_Correct Uniffi_Mnemonic
begin

text \<open>
  Verification of the KChat SDK: its core, the crates \<open>kchat-backup\<close>, \<open>kchat-storage-provider\<close>,
  \<open>uq-openmls\<close> and \<open>kchat-mls\<close>, and the clients and backup functions its bindings \<open>kchat-uniffi\<close> (Kotlin and
  Swift) and \<open>kchat-napi\<close> (Node.js) export.

  \<^bold>\<open>The program.\<close> The SDK gives a chat client end-to-end encryption. \<open>kchat-mls\<close> processes the messages a
  client receives, using the group operations of \<open>uq-openmls\<close>, which wrap the OpenMLS library and keep
  its state in SQLite through \<open>kchat-storage-provider\<close>. \<open>kchat-backup\<close> encrypts backups of the client's
  data. The bindings own a client object, two databases (the MLS one and the one of group statuses) and
  the order in which a call changes them; \<open>kchat-mls-uniffi\<close> and \<open>kchat-mls-napi\<close> repeat the MLS half of
  \<open>kchat-uniffi\<close> and \<open>kchat-napi\<close>.

  \<^bold>\<open>Conventions.\<close> A fallible function returns a sum, \<open>Inl\<close> the error; a function on a state is an
  \<open>action\<close>, which returns the result and the new state also on failure (theory \<open>Prelude\<close>). Machine
  integers are words. A panic is a fault value where the code can panic. A Rust string is the list of
  its UTF-8 bytes as characters (theory \<open>Utf8\<close>). Third-party code (the ciphers, HKDF, BIP-39, zstd, the
  SQLite engine's failures, serde, OpenMLS) is a parameter: a record of functions or a schedule of
  faults. What the code relies on of it is a named predicate in the hypotheses of a theorem, and every
  theorem with hypotheses has a witness, an instance at concrete values.

  \<^bold>\<open>Backups\<close> (\<open>crates/kchat-backup/src\<close>).
  \<^item> \<open>Backup_Base\<close> (\<open>error.rs\<close>, \<open>limits.rs\<close>, \<open>account.rs\<close>), \<open>Backup_Key\<close> (\<open>key/\<close>), \<open>Backup_Context\<close>
    (\<open>context.rs\<close>), \<open>Backup_Descriptor\<close> (\<open>descriptor.rs\<close>): limits, key hierarchy, identifiers, and the
    sealed descriptor of a backup. Keys are separated by purpose; a descriptor opens exactly when it
    was sealed for the same key, account and header.
  \<^item> \<open>Backup_Io\<close> (\<open>object/io.rs\<close>): sources, sinks and the bounded opaque copy.
  \<^item> \<open>Backup_Envelope\<close>, \<open>Backup_Writer\<close> (\<open>object/envelope.rs\<close>, \<open>writer.rs\<close>): the envelope header and the
    object writer as a state machine; \<open>Backup_Writer_Correct\<close> shows what a seal writes and the life
    cycle of a writer.
  \<^item> \<open>Backup_Compression\<close>, \<open>Backup_Reader\<close> (\<open>object/compression.rs\<close>, \<open>reader.rs\<close>): bounded decompression
    and opening of an object; \<open>Backup_Compression_Correct\<close>, \<open>Backup_Source_Inv\<close> and \<open>Backup_Roundtrip\<close> show
    that it is total, bounded in what it takes and what it gives, and the inverse of sealing.

  \<^bold>\<open>Storage\<close> (\<open>crates/kchat-storage-provider/src\<close>).
  \<^item> \<open>Sqlite_Model\<close>: the database as lists of rows, the engine whose every call may fail, pooled
    connections, transactions with rollback, and the statement forms with the locale \<open>keyed_table\<close>,
    interpreted for \<open>INSERT OR REPLACE\<close> and for the upsert.
  \<^item> \<open>Storage_Keys\<close>, \<open>Storage_Group\<close>, \<open>Storage_Epoch\<close>, \<open>Storage_Messages\<close>, \<open>Storage_Delete\<close>,
    \<open>Storage_Migrations\<close>: the modules of the tables, each operation on the pool and in a transaction.
  \<^item> \<open>Storage_Provider\<close>: the methods of the two providers (\<open>sp_\<close> on the pool, \<open>tx_\<close> in a transaction).
    \<open>Storage_Provider_Correct\<close> has the invariants over all sequences of calls (the locale
    \<open>schema_invariant\<close>, interpreted for the primary keys and the column constraints), atomicity, and the
    independence of the kinds of group data.

  \<^bold>\<open>MLS\<close> (\<open>crates/uq-openmls/src\<close>).
  \<^item> \<open>Mls_Error\<close> (\<open>error.rs\<close>): variants, texts, conversions.
  \<^item> \<open>Mls_Provider\<close> (\<open>provider/sqlite_provider.rs\<close>): snapshots, deletion with recovery, opening;
    \<open>Mls_Migration\<close> shows that the migration of the legacy message secrets is exact per group, is marked
    as done only when it is, and how far it gets: to the groups that cannot be exported, if fewer than
    twenty are in the way.
  \<^item> \<open>Mls_Core\<close> (\<open>core.rs\<close>, \<open>util.rs\<close>): every function on groups over the record \<open>openmls\<close>;
    \<open>Mls_Core_Correct\<close> has the equivalence of batch and single processing while the own key is kept, whom \<open>add_members\<close> adds, the
    partition of \<open>readd\<close> and the preloaded epochs.

  \<^bold>\<open>KChat MLS\<close> (\<open>crates/kchat-mls/src\<close>).
  \<^item> \<open>Kchat_Status\<close>: the group status database, shown to implement a map, and the opening of its file.
  \<^item> \<open>Kchat_Process\<close>: \<open>process_all_messages\<close> in stages that follow its body: \<open>process_group\<close> loads a group
    and reads its status, \<open>resolve_pending\<close> merges, clears or deletes, \<open>scan_messages\<close> collects proposals,
    \<open>process_messages\<close> applies the messages. \<open>Kchat_Process_Correct\<close> shows when a group is deleted, what
    the result contains (each removal traced to a proposal that the scan of this run read and to the
    members the group had then, the relation \<open>scan_at\<close>), that other groups are untouched and that commits
    are atomic, with the errors that stop them.
  \<^item> \<open>Kchat_Mnemonic\<close> (\<open>mnemonic.rs\<close>): recovery phrases, keys and signatures.

  \<^bold>\<open>Kotlin and Swift\<close> (\<open>crates/kchat-uniffi/src\<close>).
  \<^item> \<open>Client_Base\<close>: what the clients of both bindings share: the configuration, the records of arguments and
    results over a type of epochs, and how a call runs in a transaction and records the status of its
    group; the world is the pair of databases of \<open>Kchat_Process\<close>.
  \<^item> \<open>Uniffi_Error\<close> (\<open>mls/error.rs\<close>), \<open>Uniffi_Client\<close> (\<open>mls/mod.rs\<close>): every exported method as an action on
    the world. \<open>Uniffi_Client_Correct\<close> has the relation \<open>uq_group_call\<close> of the calls on a group, all but its deletion: each is
    all or nothing, touches no other status, and updates its own as an abstract map update says; the
    failures of a deletion are exact too. \<open>Uniffi_Wal\<close>
    is about messages decrypted through the cache, \<open>Uniffi_Queries\<close> about the batch queries, key packages,
    deletion and the lifetime of the cache.
  \<^item> \<open>Uniffi_Backup\<close> (\<open>backup/\<close>): errors, keys, descriptors, contexts, and sealing and opening through
    callbacks; \<open>Uniffi_Backup_Correct\<close> has exactness of descriptors, the round trip of objects and the
    settling of the callbacks, over \<open>Backup_Source_Inv\<close>: an invariant of a source survives sealing and
    opening.
  \<^item> \<open>Uniffi_Mnemonic\<close> (\<open>mls/mnemonic.rs\<close>): recovery keys.

  \<^bold>\<open>Node.js\<close> (\<open>crates/kchat-napi/src\<close>).
  \<^item> \<open>Napi_Error\<close> (\<open>mls/error.rs\<close>), \<open>Napi_Client\<close> (\<open>mls/mod.rs\<close>): a method throws or returns a task, which is
    the action of its \<open>compute\<close>; big integers are a record of the functions of \<open>napi::BigInt\<close>.
    \<open>Napi_Client_Correct\<close> shows by simulation that the methods do what those of the other client do (but for
    the epoch of a join that is pending at epoch zero), that the queries never fail, that the numbers of a caller are checked exactly, and that the task with state runs once.
  \<^item> \<open>Napi_Backup\<close> (\<open>backup/\<close>): disposable keys and contexts, the adapters that poll for an answer of the
    JavaScript thread, and the tasks. The wait is a \<open>partial_function\<close>, whose value is \<open>None\<close> if the thread
    never answers; the adapters given to the library are total, which is sound for sides that answer,
    the hypothesis of the round trip in \<open>Napi_Backup_Correct\<close>. There too: which events
    make a wait return, and that nothing but endless timeouts keeps it from returning; and the agreement
    of keys with the other binding.

  \<^bold>\<open>Bounds and fuel.\<close> No definition takes fuel. The loops of the backup streams are total functions
  whose measures the V1 limits (\<open>limits.rs\<close>) bound: the bytes read or copied grow with every round and the
  code stops at the limit. The loop over the candidates of a P-256 key runs over the 256 values of a byte. Epochs
  are \<open>u64\<close> and are stored as signed 64-bit integers: larger ones are refused. Overflow of \<open>u64\<close> is a
  fault in \<open>get_first_message\<close>, a missing result in \<open>join_by_external_commit\<close> and a panic of the client
  (\<open>Client_Panic\<close>); the lifetime of cached messages is checked where it is computed.

  \<^bold>\<open>Hash containers and row order.\<close> The iteration order of a \<open>HashMap\<close> or \<open>HashSet\<close> and the order in which
  SQLite returns rows without \<open>ORDER BY\<close> are arguments, assumed only to permute.

  \<^bold>\<open>Not modelled.\<close> The crates \<open>kchat-mls-uniffi\<close> and \<open>kchat-mls-napi\<close>, whose files are copies of modelled ones
  but for paths and a lint; locks and thread pools of the bindings, which run one call at a time on a
  world; what log callbacks are told; the pragmas and time-outs of connections and the size of the pool;
  zeroisation of secrets; the code of OpenMLS and of the other third-party crates.
\<close>

end
